(* ===== verification/Prelude.thy ===== *)
theory Prelude
  imports Main "HOL-Library.Word"
begin

text \<open>
  Shared vocabulary of the development.

  \<^item> Machine types: \<open>u8\<close>, \<open>u32\<close> and \<open>u64\<close> are fixed-width words; byte slices are
    \<open>byte list\<close>; Go strings are \<open>string\<close>, one \<open>char\<close> per byte.
  \<^item> \<open>prog\<close>: a computation over a state that ends in an error value or in a result.
    The state is returned in both cases, because a Go function that returns an error
    keeps the writes it made before the error.
  \<^item> \<open>keeps\<close>: a state predicate holds after a computation, whichever way it ends, if it
    holds before; its rules are the collection \<open>keep_rules\<close>.
  \<^item> \<open>hoare\<close>: pre- and postconditions with a separate clause for the error exit; its rules
    are the collection \<open>hoare_rules\<close>.
  \<^item> The functions of Go's standard library on strings and bytes that the program uses.
\<close>

named_theorems keep_rules "rules that a computation keeps an invariant"
named_theorems hoare_rules "rules for pre- and postconditions of a computation"

type_synonym u8 = "8 word"
type_synonym u32 = "32 word"
type_synonym u64 = "64 word"
type_synonym byte = "8 word"
type_synonym ('s, 'e, 'a) prog = "'s \<Rightarrow> ('e + 'a) \<times> 's"

subsection \<open>Computations with state and errors\<close>

definition ret :: "'a \<Rightarrow> ('s, 'e, 'a) prog" where
  "ret x = (\<lambda>s. (Inr x, s))"

definition throw :: "'e \<Rightarrow> ('s, 'e, 'a) prog" where
  "throw e = (\<lambda>s. (Inl e, s))"

definition bindE :: "('s, 'e, 'a) prog \<Rightarrow> ('a \<Rightarrow> ('s, 'e, 'b) prog) \<Rightarrow> ('s, 'e, 'b) prog" where
  "bindE m k = (\<lambda>s. case m s of (r, s') \<Rightarrow> (case r of Inl e \<Rightarrow> (Inl e, s') | Inr x \<Rightarrow> k x s'))"

definition seqE :: "('s, 'e, 'a) prog \<Rightarrow> ('s, 'e, 'b) prog \<Rightarrow> ('s, 'e, 'b) prog" where
  "seqE m k = bindE m (\<lambda>_. k)"

definition gets :: "('s \<Rightarrow> 'a) \<Rightarrow> ('s, 'e, 'a) prog" where
  "gets f = (\<lambda>s. (Inr (f s), s))"

definition modify :: "('s \<Rightarrow> 's) \<Rightarrow> ('s, 'e, unit) prog" where
  "modify f = (\<lambda>s. (Inr (), f s))"

definition guardE :: "bool \<Rightarrow> 'e \<Rightarrow> ('s, 'e, unit) prog" where
  "guardE b e = (if b then throw e else ret ())"

definition failE :: "('s \<Rightarrow> 'e) \<Rightarrow> ('s, 'e, 'a) prog" where
  "failE f = (\<lambda>s. (Inl (f s), s))"

fun mapE :: "('a \<Rightarrow> ('s, 'e, unit) prog) \<Rightarrow> 'a list \<Rightarrow> ('s, 'e, unit) prog" where
  "mapE f [] = ret ()"
| "mapE f (x # xs) = seqE (f x) (mapE f xs)"

lemmas prog_defs = ret_def throw_def bindE_def seqE_def gets_def modify_def guardE_def failE_def

lemma bindE_cong [fundef_cong]:
  assumes "m s = m' s'" "s = s'" "\<And>x t. m' s' = (Inr x, t) \<Longrightarrow> k x t = k' x t"
  shows "bindE m k s = bindE m' k' s'"
  using assms by (auto simp: bindE_def split: prod.splits sum.splits)

lemma seqE_cong [fundef_cong]:
  assumes "m s = m' s'" "s = s'" "\<And>x t. m' s' = (Inr x, t) \<Longrightarrow> k t = k' t"
  shows "seqE m k s = seqE m' k' s'"
  unfolding seqE_def by (rule bindE_cong) (use assms in auto)

lemma bindE_Inl [simp]: "m s = (Inl e, t) \<Longrightarrow> bindE m k s = (Inl e, t)"
  by (simp add: bindE_def)

lemma bindE_Inr [simp]: "m s = (Inr x, t) \<Longrightarrow> bindE m k s = k x t"
  by (simp add: bindE_def)

lemma seqE_Inl [simp]: "m s = (Inl e, t) \<Longrightarrow> seqE m k s = (Inl e, t)"
  by (simp add: seqE_def)

lemma seqE_Inr [simp]: "m s = (Inr x, t) \<Longrightarrow> seqE m k s = k t"
  by (simp add: seqE_def)

lemma bindE_ret [simp]: "bindE (ret x) k s = k x s"
  by (simp add: prog_defs)

lemma seqE_ret [simp]: "seqE (ret x) k s = k s"
  by (simp add: prog_defs)

lemma ret_apply [simp]: "ret x s = (Inr x, s)"
  by (simp add: ret_def)

lemma throw_apply [simp]: "throw e s = (Inl e, s)"
  by (simp add: throw_def)

lemma failE_apply [simp]: "failE f s = (Inl (f s), s)"
  by (simp add: failE_def)

lemma gets_apply [simp]: "gets f s = (Inr (f s), s)"
  by (simp add: gets_def)

lemma modify_apply [simp]: "modify f s = (Inr (), f s)"
  by (simp add: modify_def)

lemma guardE_apply: "guardE b e s = ((if b then Inl e else Inr ()), s)"
  by (simp add: guardE_def)

lemma bindE_InrE:
  assumes "bindE m k s = (Inr y, t)"
  obtains x s' where "m s = (Inr x, s')" "k x s' = (Inr y, t)"
  using assms by (auto simp: bindE_def split: prod.splits sum.splits)

lemma seqE_InrE:
  assumes "seqE m k s = (Inr y, t)"
  obtains x s' where "m s = (Inr x, s')" "k s' = (Inr y, t)"
  using assms unfolding seqE_def by (rule bindE_InrE)

lemma guardE_InrE: "guardE b e s = (Inr x, t) \<Longrightarrow> (\<not> b \<Longrightarrow> t = s \<Longrightarrow> P) \<Longrightarrow> P"
  by (simp add: guardE_def split: if_splits)

text \<open>The same sequencing for checks that have no state.\<close>

definition sumBind :: "'e + 'a \<Rightarrow> ('a \<Rightarrow> 'e + 'b) \<Rightarrow> 'e + 'b" where
  "sumBind r k = (case r of Inl e \<Rightarrow> Inl e | Inr x \<Rightarrow> k x)"

lemma sumBind_simps [simp]: "sumBind (Inl e) k = Inl e" "sumBind (Inr x) k = k x"
  by (simp_all add: sumBind_def)

lemma sumBind_Inr_iff: "sumBind r k = Inr y \<longleftrightarrow> (\<exists>x. r = Inr x \<and> k x = Inr y)"
  by (cases r) auto

definition liftE :: "'e + 'a \<Rightarrow> ('s, 'e, 'a) prog" where
  "liftE r = (\<lambda>s. (r, s))"

lemma liftE_apply [simp]: "liftE r s = (r, s)"
  by (simp add: liftE_def)

subsection \<open>Invariants kept on every exit\<close>

definition keeps :: "('s \<Rightarrow> bool) \<Rightarrow> ('s, 'e, 'a) prog \<Rightarrow> bool" where
  "keeps I m \<longleftrightarrow> (\<forall>s. I s \<longrightarrow> I (snd (m s)))"

lemma keepsD: "keeps I m \<Longrightarrow> I s \<Longrightarrow> m s = (r, t) \<Longrightarrow> I t"
  by (force simp: keeps_def)

lemma keepsI: "(\<And>s r t. I s \<Longrightarrow> m s = (r, t) \<Longrightarrow> I t) \<Longrightarrow> keeps I m"
  unfolding keeps_def by (metis prod.collapse)

lemma keeps_ret [keep_rules]: "keeps I (ret x)"
  by (simp add: keeps_def)

lemma keeps_throw [keep_rules]: "keeps I (throw e)"
  by (simp add: keeps_def)

lemma keeps_failE [keep_rules]: "keeps I (failE f)"
  by (simp add: keeps_def)

lemma keeps_gets [keep_rules]: "keeps I (gets f)"
  by (simp add: keeps_def)

lemma keeps_liftE [keep_rules]: "keeps I (liftE r)"
  by (simp add: keeps_def)

lemma keeps_guardE [keep_rules]: "keeps I (guardE b e)"
  by (simp add: keeps_def guardE_def)

lemma keeps_bindE [keep_rules]: "keeps I m \<Longrightarrow> (\<And>x. keeps I (k x)) \<Longrightarrow> keeps I (bindE m k)"
  by (fastforce simp: keeps_def bindE_def split: prod.splits sum.splits)

lemma keeps_seqE [keep_rules]: "keeps I m \<Longrightarrow> keeps I k \<Longrightarrow> keeps I (seqE m k)"
  by (simp add: seqE_def keeps_bindE)

lemma keeps_modify: "(\<And>s. I s \<Longrightarrow> I (f s)) \<Longrightarrow> keeps I (modify f)"
  by (simp add: keeps_def)

lemma keeps_if [keep_rules]:
  "(b \<Longrightarrow> keeps I m) \<Longrightarrow> (\<not> b \<Longrightarrow> keeps I m') \<Longrightarrow> keeps I (if b then m else m')"
  by simp

lemma keeps_case_option [keep_rules]:
  "(x = None \<Longrightarrow> keeps I m) \<Longrightarrow> (\<And>y. x = Some y \<Longrightarrow> keeps I (m' y)) \<Longrightarrow>
   keeps I (case x of None \<Rightarrow> m | Some y \<Rightarrow> m' y)"
  by (cases x) auto

lemma keeps_case_prod [keep_rules]:
  "(\<And>a b. x = (a, b) \<Longrightarrow> keeps I (m a b)) \<Longrightarrow> keeps I (case x of (a, b) \<Rightarrow> m a b)"
  by (cases x) auto

lemma keeps_state: "(\<And>s. keeps I (m s)) \<Longrightarrow> keeps I (\<lambda>s. m s s)"
  by (simp add: keeps_def)

lemma keeps_mapE [keep_rules]: "(\<And>x. x \<in> set xs \<Longrightarrow> keeps I (f x)) \<Longrightarrow> keeps I (mapE f xs)"
  by (induction xs) (auto intro: keep_rules)

subsection \<open>Pre- and postconditions\<close>

definition hoare ::
  "('s \<Rightarrow> bool) \<Rightarrow> ('s, 'e, 'a) prog \<Rightarrow> ('a \<Rightarrow> 's \<Rightarrow> bool) \<Rightarrow> ('e \<Rightarrow> 's \<Rightarrow> bool) \<Rightarrow> bool" where
  "hoare P m Q E \<longleftrightarrow>
     (\<forall>s. P s \<longrightarrow> (case m s of (r, t) \<Rightarrow> (case r of Inl e \<Rightarrow> E e t | Inr x \<Rightarrow> Q x t)))"

lemma hoareI:
  assumes "\<And>s e t. P s \<Longrightarrow> m s = (Inl e, t) \<Longrightarrow> E e t"
    and "\<And>s x t. P s \<Longrightarrow> m s = (Inr x, t) \<Longrightarrow> Q x t"
  shows "hoare P m Q E"
  using assms unfolding hoare_def by (auto split: prod.splits sum.splits)

lemma hoareD_Inr: "hoare P m Q E \<Longrightarrow> P s \<Longrightarrow> m s = (Inr x, t) \<Longrightarrow> Q x t"
  by (fastforce simp: hoare_def)

lemma hoareD_Inl: "hoare P m Q E \<Longrightarrow> P s \<Longrightarrow> m s = (Inl e, t) \<Longrightarrow> E e t"
  by (fastforce simp: hoare_def)

lemma hoare_bindE [hoare_rules]:
  "hoare P m R E \<Longrightarrow> (\<And>x. hoare (R x) (k x) Q E) \<Longrightarrow> hoare P (bindE m k) Q E"
  unfolding hoare_def bindE_def by (fastforce split: prod.splits sum.splits)

lemma hoare_seqE [hoare_rules]:
  "hoare P m (\<lambda>_. R) E \<Longrightarrow> hoare R k Q E \<Longrightarrow> hoare P (seqE m k) Q E"
  unfolding seqE_def by (rule hoare_bindE)

lemma hoare_conseq:
  "hoare P' m Q' E' \<Longrightarrow> (\<And>s. P s \<Longrightarrow> P' s) \<Longrightarrow> (\<And>x s. Q' x s \<Longrightarrow> Q x s) \<Longrightarrow>
   (\<And>e s. E' e s \<Longrightarrow> E e s) \<Longrightarrow> hoare P m Q E"
  unfolding hoare_def by (fastforce split: prod.splits sum.splits)

lemma hoare_keeps: "keeps I m \<Longrightarrow> hoare I m (\<lambda>_. I) (\<lambda>_. I)"
  unfolding hoare_def keeps_def by (fastforce split: prod.splits sum.splits)

subsection \<open>Lists and byte slices\<close>

lemma length_sub_less: "d \<noteq> [] \<Longrightarrow> length acc < n \<Longrightarrow> n - length (acc @ d) < n - length acc"
  by (cases d) auto

definition put :: "nat \<Rightarrow> 'a list \<Rightarrow> 'a list \<Rightarrow> 'a list" where
  "put off v h = take off h @ v @ drop (off + length v) h"

lemma length_put [simp]: "off + length v \<le> length h \<Longrightarrow> length (put off v h) = length h"
  by (simp add: put_def)

lemma nth_put: "off + length v \<le> length h \<Longrightarrow> i < length h \<Longrightarrow>
    put off v h ! i = (if off \<le> i \<and> i < off + length v then v ! (i - off) else h ! i)"
  by (auto simp: put_def nth_append min_def)

lemma put_put_same: "length v = length w \<Longrightarrow> off + length v \<le> length h \<Longrightarrow>
    put off v (put off w h) = put off v h"
  by (rule nth_equalityI) (auto simp: nth_put)

lemma put_commute: "off + length v \<le> off' \<Longrightarrow> off' + length w \<le> length h \<Longrightarrow>
    put off v (put off' w h) = put off' w (put off v h)"
  by (rule nth_equalityI) (auto simp: nth_put)

lemma put_append1: "off + length v \<le> length h \<Longrightarrow> put off v (h @ t) = put off v h @ t"
  by (simp add: put_def)

lemma put_append2: "length p \<le> off \<Longrightarrow> put off v (p @ h) = p @ put (off - length p) v h"
  by (simp add: put_def add.commute)

subsection \<open>Strings\<close>

text \<open>Decimal numerals, as \<^verbatim>\<open>%d\<close> prints them.\<close>

fun digits :: "nat \<Rightarrow> nat list" where
  "digits n = (if 10 \<le> n then digits (n div 10) @ [n mod 10] else [n])"

declare digits.simps [simp del]

definition digit_char :: "nat \<Rightarrow> char" where
  "digit_char d = char_of (48 + d)"

definition show_nat :: "nat \<Rightarrow> string" where
  "show_nat n = map digit_char (digits n)"

definition str_bytes :: "string \<Rightarrow> byte list" where
  "str_bytes s = map of_char s"

lemma length_str_bytes [simp]: "length (str_bytes s) = length s"
  by (simp add: str_bytes_def)

end
