(* ===== verification/Urf_Types.thy ===== *)
theory Urf_Types
  imports Prelude
begin

text \<open>
  The public types of the Apple Raster translator: \<^verbatim>\<open>internal/urf/api.go\<close> (mappings, page
  settings, options, results), \<^verbatim>\<open>limits.go\<close> (limits and their defaults) and \<^verbatim>\<open>errors.go\<close>
  (typed errors), together with the option checks at the top of \<^verbatim>\<open>translate.go\<close> and its
  checked 64-bit arithmetic. The lemmas show that the checked operations are exact on
  the integers, that the effective limits are always finite and positive, and that
  accepted page settings satisfy everything the header writer relies on.
\<close>

subsection \<open>Go errors\<close>

text \<open>
  The values of Go's \<^verbatim>\<open>error\<close> interface that reach the translator. \<open>Errorf\<close> keeps the format
  and its arguments instead of the formatted text, which the translator never inspects;
  \<open>HostErr\<close> is any other failure of the caller's reader, writer or context.
\<close>

datatype fmt_arg = FInt int | FStr string

datatype goerr =
    EOF | ErrUnexpectedEOF | ErrNoProgress | ErrShortWrite
  | CtxCanceled | CtxDeadlineExceeded
  | InputLimitError
  | ErrNew string
  | Errorf string "fmt_arg list"
  | HostErr string
  | Wrapped string goerr

fun errors_Is :: "goerr \<Rightarrow> goerr \<Rightarrow> bool" where
  "errors_Is (Wrapped m e) target = (Wrapped m e = target \<or> errors_Is e target)"
| "errors_Is e target = (e = target)"

definition errors_As_inputLimit :: "goerr \<Rightarrow> bool" where
  "errors_As_inputLimit e = errors_Is e InputLimitError"

datatype ErrorKind =
    KindInvalidOptions | KindMalformedInput | KindUnsupportedInput | KindSettingsMismatch
  | KindResourceLimit | KindSourceIO | KindDestinationIO | KindCanceled

fun ErrorKind_String :: "ErrorKind \<Rightarrow> string" where
  "ErrorKind_String KindInvalidOptions = ''invalid options''"
| "ErrorKind_String KindMalformedInput = ''malformed input''"
| "ErrorKind_String KindUnsupportedInput = ''unsupported input''"
| "ErrorKind_String KindSettingsMismatch = ''settings mismatch''"
| "ErrorKind_String KindResourceLimit = ''resource limit''"
| "ErrorKind_String KindSourceIO = ''source I/O''"
| "ErrorKind_String KindDestinationIO = ''destination I/O''"
| "ErrorKind_String KindCanceled = ''canceled''"

record urf_error =
  Kind :: ErrorKind
  Op :: string
  Page :: u32
  Row :: u32
  Offset :: int
  Err :: goerr

definition wrapError ::
  "ErrorKind \<Rightarrow> string \<Rightarrow> goerr option \<Rightarrow> int \<Rightarrow> u32 \<Rightarrow> u32 \<Rightarrow> urf_error" where
  "wrapError kind op err offset page row =
     \<lparr>Kind = kind, Op = op, Page = page, Row = row, Offset = offset,
      Err = (case err of None \<Rightarrow> ErrNew (ErrorKind_String kind) | Some e \<Rightarrow> e)\<rparr>"

definition canceledError :: "goerr option \<Rightarrow> string \<Rightarrow> int \<Rightarrow> u32 \<Rightarrow> u32 \<Rightarrow> urf_error" where
  "canceledError ctxErr op offset page row =
     \<lparr>Kind = KindCanceled, Op = op, Page = page, Row = row, Offset = offset,
      Err = (case ctxErr of None \<Rightarrow> CtxCanceled | Some e \<Rightarrow> e)\<rparr>"

subsection \<open>Options\<close>

datatype Mapping =
    MappingW8ToSGray8 | MappingSRGB24ToSRGB8 | MappingDEVRGB24ToRGB8 | MappingUnknown u8

fun Mapping_String :: "Mapping \<Rightarrow> string" where
  "Mapping_String MappingW8ToSGray8 = ''W8->sgray_8''"
| "Mapping_String MappingSRGB24ToSRGB8 = ''SRGB24->srgb_8''"
| "Mapping_String MappingDEVRGB24ToRGB8 = ''DEVRGB24->rgb_8''"
| "Mapping_String (MappingUnknown _) = ''unknown mapping''"

fun mapping_code :: "Mapping \<Rightarrow> int" where
  "mapping_code MappingW8ToSGray8 = 1"
| "mapping_code MappingSRGB24ToSRGB8 = 2"
| "mapping_code MappingDEVRGB24ToRGB8 = 3"
| "mapping_code (MappingUnknown n) = uint n"

record PageSettings =
  MediaName :: string
  MediaWidth :: u32
  MediaHeight :: u32
  MediaType :: string
  MediaSource :: u32
  ResolutionX :: u32
  ResolutionY :: u32
  PrintQuality :: u32
  Sides :: string
  SheetBack :: string

record Limits =
  MaxInputBytes :: int
  MaxOutputBytes :: int
  MaxPages :: u32
  MaxWidth :: u32
  MaxHeight :: u32
  MaxRowBytes :: u64
  MaxDecodedBytes :: u64

record Options =
  OMapping :: Mapping
  OPage :: PageSettings
  OLimits :: Limits
  OObserver :: bool

record Result =
  InputBytes :: int
  OutputBytes :: int
  Pages :: u32

definition DefaultLimits :: Limits where
  "DefaultLimits = \<lparr>MaxInputBytes = 2 ^ 30, MaxOutputBytes = 2 ^ 30, MaxPages = 1024,
     MaxWidth = 2 ^ 20, MaxHeight = 2 ^ 20, MaxRowBytes = 2 ^ 24, MaxDecodedBytes = 2 ^ 40\<rparr>"

definition validateLimits :: "Limits \<Rightarrow> urf_error + unit" where
  "validateLimits l =
     (if MaxInputBytes l < 0 \<or> MaxOutputBytes l < 0
      then Inl (wrapError KindInvalidOptions ''limits''
             (Some (ErrNew ''limits must not be negative'')) (-1) 0 0)
      else Inr ())"

definition effectiveLimits :: "Limits \<Rightarrow> Limits" where
  "effectiveLimits l =
     \<lparr>MaxInputBytes = (if MaxInputBytes l \<noteq> 0 then MaxInputBytes l else MaxInputBytes DefaultLimits),
      MaxOutputBytes = (if MaxOutputBytes l \<noteq> 0 then MaxOutputBytes l else MaxOutputBytes DefaultLimits),
      MaxPages = (if MaxPages l \<noteq> 0 then MaxPages l else MaxPages DefaultLimits),
      MaxWidth = (if MaxWidth l \<noteq> 0 then MaxWidth l else MaxWidth DefaultLimits),
      MaxHeight = (if MaxHeight l \<noteq> 0 then MaxHeight l else MaxHeight DefaultLimits),
      MaxRowBytes = (if MaxRowBytes l \<noteq> 0 then MaxRowBytes l else MaxRowBytes DefaultLimits),
      MaxDecodedBytes =
        (if MaxDecodedBytes l \<noteq> 0 then MaxDecodedBytes l else MaxDecodedBytes DefaultLimits)\<rparr>"

subsection \<open>Page policy\<close>

record pagePolicy =
  mediaName :: string
  mediaWidth :: u32
  mediaHeight :: u32
  mediaType :: string
  mediaSource :: u32
  resX :: u32
  resY :: u32
  quality :: u32
  sides :: string
  sheetBack :: string

definition validatePWGString :: "string \<Rightarrow> string \<Rightarrow> urf_error + unit" where
  "validatePWGString field v =
     (if CHR 0x00 \<in> set v
      then Inl (wrapError KindInvalidOptions ''page settings''
             (Some (Errorf ''%s contains NUL'' [FStr field])) (-1) 0 0)
      else if length v \<ge> 64
      then Inl (wrapError KindInvalidOptions ''page settings''
             (Some (Errorf ''%s is too long for a PWG header'' [FStr field])) (-1) 0 0)
      else Inr ())"

definition pageSettingsError :: "goerr \<Rightarrow> urf_error" where
  "pageSettingsError e = wrapError KindInvalidOptions ''page settings'' (Some e) (-1) 0 0"

definition sides_values :: "string list" where
  "sides_values = [''one-sided'', ''two-sided-long-edge'', ''two-sided-short-edge'']"

definition sheetBack_values :: "string list" where
  "sheetBack_values = [''normal'', ''flipped'', ''manual-tumble'', ''rotated'']"

definition validatePageSettings :: "PageSettings \<Rightarrow> urf_error + pagePolicy" where
  "validatePageSettings p =
     sumBind (validatePWGString ''media name'' (MediaName p)) (\<lambda>_.
      sumBind (validatePWGString ''media type'' (MediaType p)) (\<lambda>_.
      if MediaWidth p = 0 \<or> MediaHeight p = 0 then
        Inl (pageSettingsError (ErrNew ''media dimensions must be positive hundredths of a millimetre''))
      else if ResolutionX p = 0 \<or> ResolutionY p = 0 then
        Inl (pageSettingsError (ErrNew ''resolution must be positive''))
      else if ResolutionX p \<noteq> ResolutionY p then
        Inl (pageSettingsError (ErrNew
          ''URF carries one square resolution; ResolutionX and ResolutionY must match''))
      else
        let sd = (if Sides p = '''' then ''one-sided'' else Sides p);
            sb = (if SheetBack p = '''' then ''normal'' else SheetBack p)
        in if sd \<notin> set sides_values then
             Inl (pageSettingsError (Errorf ''unsupported sides %q'' [FStr sd]))
           else if sb \<notin> set sheetBack_values then
             Inl (pageSettingsError (Errorf ''unsupported sheet-back %q'' [FStr sb]))
           else if PrintQuality p \<notin> {0, 3, 4, 5} then
             Inl (pageSettingsError
               (Errorf ''unsupported print quality %d'' [FInt (uint (PrintQuality p))]))
           else Inr \<lparr>mediaName = MediaName p, mediaWidth = MediaWidth p,
                  mediaHeight = MediaHeight p, mediaType = MediaType p,
                  mediaSource = MediaSource p, resX = ResolutionX p, resY = ResolutionY p,
                  quality = PrintQuality p, sides = sd, sheetBack = sb\<rparr>))"

definition validateMapping :: "Mapping \<Rightarrow> urf_error + unit" where
  "validateMapping m = (case m of
     MappingUnknown n \<Rightarrow> Inl (wrapError KindInvalidOptions ''mapping''
        (Some (Errorf ''unsupported mapping %d'' [FInt (mapping_code m)])) (-1) 0 0)
   | _ \<Rightarrow> Inr ())"

definition sourceMapping :: "Mapping \<Rightarrow> u8 \<times> u8 \<times> u32" where
  "sourceMapping m = (case m of
     MappingW8ToSGray8 \<Rightarrow> (0, 8, 18)
   | MappingSRGB24ToSRGB8 \<Rightarrow> (1, 24, 19)
   | MappingDEVRGB24ToRGB8 \<Rightarrow> (5, 24, 1)
   | MappingUnknown _ \<Rightarrow> (0, 0, 0))"

subsection \<open>Checked 64-bit arithmetic\<close>

definition checkedMul :: "u64 \<Rightarrow> u64 \<Rightarrow> u64 \<times> bool" where
  "checkedMul a b = (if a \<noteq> 0 \<and> b > (- 1) div a then (0, False) else (a * b, True))"

definition checkedAddWithin :: "u64 \<Rightarrow> u64 \<Rightarrow> u64 \<Rightarrow> u64 \<times> bool" where
  "checkedAddWithin sm add limit =
     (if add > (- 1) - sm then (sm, False)
      else let nxt = sm + add
           in if limit > 0 \<and> nxt > limit then (sm, False) else (nxt, True))"

definition maxU32 :: u64 where
  "maxU32 = 0xFFFFFFFF"

definition mediaPixels :: "u32 \<Rightarrow> u32 \<Rightarrow> u32 \<Rightarrow> u32 \<times> u32 \<times> bool" where
  "mediaPixels width height dpi =
     (case checkedMul (ucast width) (ucast dpi) of (w, ok) \<Rightarrow>
      if \<not> ok then (0, 0, False) else
      case checkedMul (ucast height) (ucast dpi) of (h, ok) \<Rightarrow>
      if \<not> ok then (0, 0, False) else
      let w = w div 2540; h = h div 2540
      in if w = 0 \<or> h = 0 \<or> w > maxU32 \<or> h > maxU32 then (0, 0, False)
         else (ucast w, ucast h, True))"

subsection \<open>Facts about the checked operations and the options\<close>

lemma unat_max64: "unat (- 1 :: u64) = 2 ^ 64 - 1"
  by (simp add: unsigned_minus_1_eq_mask mask_eq_exp_minus_1)

lemma checkedMul_spec:
  "checkedMul a b =
     (if unat a * unat b < 2 ^ 64 then (a * b, True) else (0, False))"
proof (cases "a = 0")
  case False
  then have pos: "0 < unat a" by (simp add: word_greater_zero_iff unat_gt_0)
  have "b > (- 1) div a \<longleftrightarrow> (2 ^ 64 - 1) div unat a < unat b"
    by (simp add: word_less_nat_alt unat_div unat_max64)
  also have "\<dots> \<longleftrightarrow> 2 ^ 64 - 1 < unat b * unat a"
    using pos by (simp add: div_less_iff_less_mult)
  finally show ?thesis using False by (auto simp: checkedMul_def mult.commute)
qed (simp add: checkedMul_def)

lemma checkedMul_unat: "checkedMul a b = (c, True) \<Longrightarrow> unat c = unat a * unat b"
  by (auto simp: checkedMul_spec unat_word_ariths split: if_splits)

lemma checkedAddWithin_spec:
  "checkedAddWithin s a l =
     (if unat s + unat a < 2 ^ 64 \<and> (l = 0 \<or> unat s + unat a \<le> unat l)
      then (s + a, True) else (s, False))"
proof -
  have *: "a > (- 1) - s \<longleftrightarrow> \<not> unat s + unat a < 2 ^ 64"
  proof -
    have le: "s \<le> - 1" by simp
    have "unat (- 1 - s) = 2 ^ 64 - 1 - unat s"
      using unat_sub [OF le] by (simp add: unat_max64)
    moreover have "unat s < 2 ^ 64" using unsigned_less [of s] by simp
    ultimately show ?thesis by (auto simp: word_less_nat_alt)
  qed
  have "unat s + unat a < 2 ^ 64 \<Longrightarrow> unat (s + a) = unat s + unat a"
    by (simp add: unat_word_ariths)
  then show ?thesis
    unfolding checkedAddWithin_def * by (auto simp: Let_def word_less_nat_alt word_gt_0 not_less unat_gt_0)
qed

lemma unat_ucast_32_64 [simp]: "unat (ucast (x :: u32) :: u64) = unat x"
  by (simp add: unsigned_ucast_eq take_bit_nat_eq_self_iff order_less_le_trans [OF unsigned_less])

lemma unat_ucast_64_32: "unat (x :: u64) < 2 ^ 32 \<Longrightarrow> unat (ucast x :: u32) = unat x"
  by (simp add: unsigned_ucast_eq take_bit_nat_eq_self_iff)

lemma mediaPixels_spec:
  assumes "mediaPixels w h d = (pw, ph, True)"
  shows "unat pw = unat w * unat d div 2540 \<and> unat ph = unat h * unat d div 2540
     \<and> 0 < unat pw \<and> 0 < unat ph"
proof -
  obtain w' h' where w': "checkedMul (ucast w) (ucast d) = (w', True)"
    and h': "checkedMul (ucast h) (ucast d) = (h', True)"
    and nz: "w' div 2540 \<noteq> 0" "h' div 2540 \<noteq> 0"
    and le: "w' div 2540 \<le> maxU32" "h' div 2540 \<le> maxU32"
    and pw: "pw = ucast (w' div 2540)" and ph: "ph = ucast (h' div 2540)"
    using assms by (auto simp: mediaPixels_def Let_def not_less split: prod.splits if_splits)
  have "unat (w' div 2540) = unat w * unat d div 2540" "unat (h' div 2540) = unat h * unat d div 2540"
    using checkedMul_unat [OF w'] checkedMul_unat [OF h'] by (simp_all add: unat_div)
  moreover have "unat (w' div 2540) < 2 ^ 32" "unat (h' div 2540) < 2 ^ 32"
    using le by (simp_all add: maxU32_def word_le_nat_alt)
  moreover have "0 < unat (w' div 2540)" "0 < unat (h' div 2540)"
    using nz by (simp_all add: unat_gt_0)
  ultimately show ?thesis by (simp add: pw ph unat_ucast_64_32)
qed

text \<open>What \<^verbatim>\<open>validatePageSettings\<close> guarantees of the policy it returns.\<close>

definition policy_ok :: "pagePolicy \<Rightarrow> bool" where
  "policy_ok p \<longleftrightarrow>
     length (mediaName p) < 64 \<and> length (mediaType p) < 64
     \<and> CHR 0x00 \<notin> set (mediaName p) \<and> CHR 0x00 \<notin> set (mediaType p)
     \<and> mediaWidth p \<noteq> 0 \<and> mediaHeight p \<noteq> 0 \<and> resX p \<noteq> 0 \<and> resY p = resX p
     \<and> sides p \<in> set sides_values
     \<and> sheetBack p \<in> set sheetBack_values
     \<and> quality p \<in> {0, 3, 4, 5}"

lemma validatePWGString_Inr: "validatePWGString f v = Inr u \<longleftrightarrow> CHR 0x00 \<notin> set v \<and> length v < 64"
  by (auto simp: validatePWGString_def)

lemma validatePageSettings_ok: "validatePageSettings p = Inr pol \<Longrightarrow> policy_ok pol"
  unfolding validatePageSettings_def policy_ok_def
  by (clarsimp simp: sumBind_Inr_iff validatePWGString_Inr Let_def split del: if_split
      split: if_split_asm)

definition limits_ok :: "Limits \<Rightarrow> bool" where
  "limits_ok l \<longleftrightarrow> 0 < MaxInputBytes l \<and> 0 < MaxOutputBytes l \<and> MaxPages l \<noteq> 0 \<and> MaxWidth l \<noteq> 0
     \<and> MaxHeight l \<noteq> 0 \<and> MaxRowBytes l \<noteq> 0 \<and> MaxDecodedBytes l \<noteq> 0"

lemma effectiveLimits_ok: "validateLimits l = Inr u \<Longrightarrow> limits_ok (effectiveLimits l)"
  by (auto simp: validateLimits_def effectiveLimits_def limits_ok_def DefaultLimits_def
      split: if_splits)

end
