(* ===== verification/Urf_Translate.thy ===== *)
theory Urf_Translate
  imports Urf_Types
begin

text \<open>
  The translator of \<^verbatim>\<open>internal/urf/translate.go\<close>, function by function.

  The caller's reader, writer, context and observer are interfaces whose implementations are
  not part of the translator. They are the parameter \<open>host\<close>: one function per method, over an
  environment state \<open>'e\<close> that each call may change. Nothing is assumed of them here, so every
  theorem of this theory holds for readers that return short or invalid counts, writers
  that fail half-way, and contexts that are cancelled between any two calls.

  The translator object is the record \<open>translator\<close>; a method is a \<open>prog\<close> over it. Loops
  that end by themselves are recursive functions with termination proofs; the page loop
  ends only because of the page limit, so it is a \<^theory_text>\<open>partial_function\<close> into
  \<open>option\<close> whose \<open>None\<close> is divergence, and that it never diverges is a theorem.
\<close>

unbundle bit_operations_syntax

subsection \<open>The host interface\<close>

datatype whence = SeekStart | SeekEnd

record 'e host =
  hRead :: "nat \<Rightarrow> 'e \<Rightarrow> (int \<times> byte list \<times> goerr option) \<times> 'e"
  hWrite :: "byte list \<Rightarrow> 'e \<Rightarrow> (int \<times> goerr option) \<times> 'e"
  hSeek :: "int \<Rightarrow> whence \<Rightarrow> 'e \<Rightarrow> (int \<times> goerr option) \<times> 'e"
  hCtxErr :: "'e \<Rightarrow> goerr option \<times> 'e"
  hGrant :: "nat \<Rightarrow> bool"
  hGrow :: "nat \<Rightarrow> nat \<Rightarrow> nat"

text \<open>
  \<open>hRead k\<close> is \<^verbatim>\<open>Read(p)\<close> with \<^verbatim>\<open>len(p) = k\<close>: the returned count, the buffer's contents
  after the call, and the error. \<open>hGrant i\<close> says whether the observer's \<open>i\<close>-th acquisition
  returns a lease or nil, and \<open>hGrow c n\<close> is the capacity Go's \<^verbatim>\<open>append\<close> gives a slice of
  capacity \<open>c\<close> that has to hold \<open>n\<close> elements.
\<close>

datatype lease_event =
    Acquire nat string int
  | SetSize nat int
  | Written nat int
  | Release nat

record 'e translator =
  env :: 'e
  srcCount :: int
  srcLimit :: int
  pendingErr :: "goerr option"
  limits :: Limits
  mapping :: Mapping
  policy :: pagePolicy
  pages :: u32
  pageCounts :: "int list"
  pageCountsCap :: nat
  outputBytes :: int
  outputSize :: int
  pageLogical :: u64
  observer :: bool
  offsetLease :: "nat option"
  outputLease :: "nat option"
  scratchLease :: "nat option"
  acquired :: nat
  events :: "lease_event list"

type_synonym ('e, 'a) tprog = "('e translator, urf_error, 'a) prog"

subsection \<open>Errors\<close>

definition malformed :: "string \<Rightarrow> u32 \<Rightarrow> u32 \<Rightarrow> 'e translator \<Rightarrow> urf_error" where
  "malformed msg page row t = wrapError KindMalformedInput msg (Some (ErrNew msg)) (srcCount t) page row"

definition unsupported :: "string \<Rightarrow> u32 \<Rightarrow> 'e translator \<Rightarrow> urf_error" where
  "unsupported msg page t = wrapError KindUnsupportedInput msg (Some (ErrNew msg)) (srcCount t) page 0"

definition settingsMismatch :: "string \<Rightarrow> u32 \<Rightarrow> 'e translator \<Rightarrow> urf_error" where
  "settingsMismatch msg page t = wrapError KindSettingsMismatch msg (Some (ErrNew msg)) (srcCount t) page 0"

definition resource :: "string \<Rightarrow> u32 \<Rightarrow> u32 \<Rightarrow> 'e translator \<Rightarrow> urf_error" where
  "resource msg page row t = wrapError KindResourceLimit msg (Some (ErrNew msg)) (srcCount t) page row"

definition destError :: "string \<Rightarrow> goerr \<Rightarrow> u32 \<Rightarrow> u32 \<Rightarrow> 'e translator \<Rightarrow> urf_error" where
  "destError op err page row t = wrapError KindDestinationIO op (Some err) (srcCount t) page row"

definition ctxErr :: "'e host \<Rightarrow> 'e translator \<Rightarrow> goerr option \<times> 'e translator" where
  "ctxErr host t = (case hCtxErr host (env t) of (err, e') \<Rightarrow> (err, t\<lparr>env := e'\<rparr>))"

definition checkContext :: "'e host \<Rightarrow> string \<Rightarrow> u32 \<Rightarrow> u32 \<Rightarrow> ('e, unit) tprog" where
  "checkContext host op page row t = (case ctxErr host t of (err, t') \<Rightarrow>
     (case err of
        None \<Rightarrow> (Inr (), t')
      | Some e \<Rightarrow> (Inl \<lparr>Kind = KindCanceled, Op = op, Page = page, Row = row,
                        Offset = srcCount t, Err = e\<rparr>, t')))"

subsection \<open>Leases\<close>

definition acquire :: "'e host \<Rightarrow> string \<Rightarrow> int \<Rightarrow> 'e translator \<Rightarrow> nat option \<times> 'e translator" where
  "acquire host component sz t =
     (let i = acquired t in
      if hGrant host i
      then (Some i, t\<lparr>acquired := Suc i, events := events t @ [Acquire i component sz]\<rparr>)
      else (None, t\<lparr>acquired := Suc i\<rparr>))"

definition emit :: "(nat \<Rightarrow> lease_event) \<Rightarrow> nat option \<Rightarrow> 'e translator \<Rightarrow> 'e translator" where
  "emit ev lease t = (case lease of None \<Rightarrow> t | Some i \<Rightarrow> t\<lparr>events := events t @ [ev i]\<rparr>)"

definition releaseResources :: "'e translator \<Rightarrow> 'e translator" where
  "releaseResources t =
     (let t = (emit Release (offsetLease t) t)\<lparr>offsetLease := None\<rparr>;
          t = (emit Release (outputLease t) t)\<lparr>outputLease := None\<rparr>
      in (emit Release (scratchLease t) t)\<lparr>scratchLease := None\<rparr>)"

subsection \<open>Reading the source\<close>

definition fit :: "nat \<Rightarrow> byte list \<Rightarrow> byte list" where
  "fit n d = take n (d @ replicate n 0)"

lemma length_fit [simp]: "length (fit n d) = n"
  by (simp add: fit_def)

text \<open>
  \<^verbatim>\<open>sourceReader.read\<close> with a buffer of \<open>k\<close> bytes: the bytes it puts there (their number is
  the returned count) and its error. At the input limit one more byte is probed for, so that
  a source of exactly the permitted size still ends in a plain end of file.
\<close>

definition src_probe :: "'e host \<Rightarrow> 'e translator \<Rightarrow> (byte list \<times> goerr option) \<times> 'e translator" where
  "src_probe host t =
     (case hRead host 1 (env t) of ((n, d, err), e') \<Rightarrow>
      let t = t\<lparr>env := e'\<rparr> in
      if n < 0 \<or> n > 1 then (([], Some (ErrNew ''invalid source read count'')), t)
      else if n > 0 then
        (case err of
           None \<Rightarrow> (([], Some InputLimitError), t)
         | Some e \<Rightarrow> if errors_Is e EOF then (([], Some InputLimitError), t)
                     else (([], Some e), t))
      else (case err of None \<Rightarrow> (([], Some ErrNoProgress), t) | Some e \<Rightarrow> (([], Some e), t)))"

definition src_fill :: "'e host \<Rightarrow> nat \<Rightarrow> 'e translator \<Rightarrow> (byte list \<times> goerr option) \<times> 'e translator" where
  "src_fill host len t =
     (case hRead host len (env t) of ((n, d, err), e') \<Rightarrow>
      let t = t\<lparr>env := e'\<rparr> in
      if n < 0 \<or> n > int len then (([], Some (ErrNew ''invalid source read count'')), t)
      else
        let t = t\<lparr>srcCount := srcCount t + n\<rparr>; bytes = fit (nat n) d in
        (case err of
           Some e \<Rightarrow> if n > 0 \<and> errors_Is e EOF
                     then ((bytes, None), t\<lparr>pendingErr := Some EOF\<rparr>)
                     else ((bytes, Some e), t)
         | None \<Rightarrow> if n = 0 then (([], Some ErrNoProgress), t) else ((bytes, None), t)))"

definition src_read ::
  "'e host \<Rightarrow> nat \<Rightarrow> 'e translator \<Rightarrow> (byte list \<times> goerr option) \<times> 'e translator" where
  "src_read host k t =
    (case ctxErr host t of (cerr, t) \<Rightarrow>
     (case cerr of Some e \<Rightarrow> (([], Some e), t) | None \<Rightarrow>
      if k = 0 then (([], None), t) else
      (case pendingErr t of Some e \<Rightarrow> (([], Some e), t\<lparr>pendingErr := None\<rparr>) | None \<Rightarrow>
       let remaining = srcLimit t - srcCount t in
       if srcLimit t > 0 \<and> remaining < 0 then (([], Some InputLimitError), t)
       else if srcLimit t > 0 \<and> remaining = 0 then src_probe host t
       else src_fill host
              (if srcLimit t > 0 \<and> int k > remaining then nat remaining else k) t)))"

lemma src_probe_error: "src_probe host t = ((d, err), t') \<Longrightarrow> d = [] \<and> err \<noteq> None"
  unfolding src_probe_def by (auto simp: Let_def split: prod.splits option.splits if_splits)

lemma src_fill_progress: "src_fill host len t = ((d, None), t') \<Longrightarrow> d \<noteq> []"
  unfolding src_fill_def
  by (auto simp: Let_def fit_def split: prod.splits option.splits if_splits)

lemma src_fill_length: "src_fill host len t = ((d, err), t') \<Longrightarrow> length d \<le> len"
  unfolding src_fill_def
  by (auto simp: Let_def split: prod.splits option.splits if_splits)

lemma src_read_cases:
  assumes "src_read host k t = ((d, err), t')"
  obtains (stop) e' p where "d = []" "t' = t\<lparr>env := e', pendingErr := p\<rparr>" "k = 0 \<or> err \<noteq> None"
  | (probe) e' where "0 < k" "srcLimit t > 0" "srcCount t = srcLimit t"
      "src_probe host (t\<lparr>env := e'\<rparr>) = ((d, err), t')"
  | (fill) e' len where "0 < k" "src_fill host len (t\<lparr>env := e'\<rparr>) = ((d, err), t')" "len \<le> k"
      "0 < srcLimit t \<longrightarrow> 0 < srcLimit t - srcCount t \<and> int len \<le> srcLimit t - srcCount t"
proof -
  obtain c e1 where c: "hCtxErr host (env t) = (c, e1)" by (metis prod.exhaust)
  consider "c \<noteq> None" | "k = 0" "c = None" | "c = None" "0 < k" "pendingErr t \<noteq> None"
    | "c = None" "0 < k" "pendingErr t = None" by auto
  then show ?thesis
  proof cases
    case 1
    then have "d = []" "t' = t\<lparr>env := e1, pendingErr := pendingErr t\<rparr>" "err \<noteq> None"
      using assms c by (auto simp: src_read_def ctxErr_def)
    then show ?thesis using that(1) by blast
  next
    case 2
    then have "d = []" "t' = t\<lparr>env := e1, pendingErr := pendingErr t\<rparr>"
      using assms c by (auto simp: src_read_def ctxErr_def)
    with 2 show ?thesis using that(1) by blast
  next
    case 3
    then obtain q where q: "pendingErr t = Some q" by blast
    have "src_read host k t = (([], Some q), t\<lparr>env := e1, pendingErr := None\<rparr>)"
      using 3 c q by (simp add: src_read_def ctxErr_def)
    with assms have "d = []" "t' = t\<lparr>env := e1, pendingErr := None\<rparr>" "err \<noteq> None" by auto
    then show ?thesis using that(1) by blast
  next
    case 4
    define rest where "rest = srcLimit t - srcCount t"
    define len where "len = (if srcLimit t > 0 \<and> int k > rest then nat rest else k)"
    have eq: "src_read host k t =
        (if srcLimit t > 0 \<and> rest < 0 then (([], Some InputLimitError), t\<lparr>env := e1\<rparr>)
         else if srcLimit t > 0 \<and> rest = 0 then src_probe host (t\<lparr>env := e1\<rparr>)
         else src_fill host len (t\<lparr>env := e1\<rparr>))"
      using 4 c by (simp add: src_read_def ctxErr_def Let_def rest_def len_def)
    consider (neg) "srcLimit t > 0" "rest < 0" | (zero) "srcLimit t > 0" "rest = 0"
      | (pos) "srcLimit t > 0 \<longrightarrow> 0 < rest" by linarith
    then show ?thesis
    proof cases
      case neg
      then have "d = []" "t' = t\<lparr>env := e1, pendingErr := pendingErr t\<rparr>" "err \<noteq> None"
        using assms eq by auto
      then show ?thesis using that(1) by blast
    next
      case zero
      then have "src_probe host (t\<lparr>env := e1\<rparr>) = ((d, err), t')" "srcCount t = srcLimit t"
        using assms eq by (auto simp: rest_def)
      then show ?thesis using that(2) zero 4 by blast
    next
      case pos
      then have "src_fill host len (t\<lparr>env := e1\<rparr>) = ((d, err), t')"
        using assms eq by auto
      moreover have "len \<le> k" "0 < srcLimit t \<longrightarrow> 0 < rest \<and> int len \<le> rest"
        using pos by (auto simp: len_def)
      ultimately show ?thesis using that(3) 4 unfolding rest_def by blast
    qed
  qed
qed

lemma src_read_progress: "src_read host k t = ((d, None), t') \<Longrightarrow> 0 < k \<Longrightarrow> d \<noteq> []"
  by (erule src_read_cases) (auto dest: src_fill_progress src_probe_error)

lemma src_read_length: "src_read host k t = ((d, err), t') \<Longrightarrow> length d \<le> k"
  by (erule src_read_cases) (auto dest: src_fill_length src_probe_error)

definition readError ::
  "'e host \<Rightarrow> string \<Rightarrow> goerr \<Rightarrow> ('e, 'a) tprog \<Rightarrow> u32 \<Rightarrow> u32 \<Rightarrow> ('e, 'a) tprog" where
  "readError host op err onEOF page row t =
    (if errors_As_inputLimit err then (Inl (resource ''maximum input bytes exceeded'' page row t), t)
     else (case ctxErr host t of (cerr, t) \<Rightarrow>
       if cerr \<noteq> None then
         (case ctxErr host t of (cerr', t') \<Rightarrow>
            (Inl (canceledError cerr' op (srcCount t) page row), t'))
       else if errors_Is err EOF \<or> errors_Is err ErrUnexpectedEOF then onEOF t
       else (Inl (wrapError KindSourceIO op (Some err) (srcCount t) page row), t)))"

function readFull_loop ::
  "'e host \<Rightarrow> nat \<Rightarrow> u32 \<Rightarrow> u32 \<Rightarrow> byte list \<Rightarrow> ('e, byte list) tprog" where
  "readFull_loop host k page row acc t =
    (if length acc < k then
       (case src_read host (k - length acc) t of ((d, err), t') \<Rightarrow>
        (case err of
           None \<Rightarrow> readFull_loop host k page row (acc @ d) t'
         | Some e \<Rightarrow> readError host ''read source'' e
             (failE (malformed ''truncated raster data'' page row)) page row t'))
     else (Inr acc, t))"
  by pat_completeness auto
termination
  by (relation "measure (\<lambda>(host, k, page, row, acc, t). k - length acc)")
     (auto dest!: sym [of _ "src_read _ _ _"] src_read_progress intro: length_sub_less
       simp del: length_append)

definition readFull :: "'e host \<Rightarrow> nat \<Rightarrow> u32 \<Rightarrow> u32 \<Rightarrow> ('e, byte list) tprog" where
  "readFull host k page row = readFull_loop host k page row []"

definition urfPageHeaderSize :: nat where
  "urfPageHeaderSize = 32"

definition urfFileHeaderSize :: nat where
  "urfFileHeaderSize = 12"

function readHeader_loop :: "'e host \<Rightarrow> byte list \<Rightarrow> ('e, byte list) tprog" where
  "readHeader_loop host acc t =
    (if length acc < urfPageHeaderSize then
       (case src_read host (urfPageHeaderSize - length acc) t of ((d, err), t') \<Rightarrow>
        (case err of
           None \<Rightarrow> readHeader_loop host (acc @ d) t'
         | Some e \<Rightarrow> readError host ''read page header'' e (ret (acc @ d)) (pages t' + 1) 0 t'))
     else (Inr acc, t))"
  by pat_completeness auto
termination
  by (relation "measure (\<lambda>(host, acc, t). urfPageHeaderSize - length acc)")
     (auto dest!: sym [of _ "src_read _ _ _"] src_read_progress intro: length_sub_less
       simp del: length_append)

definition readHeader :: "'e host \<Rightarrow> ('e, byte list) tprog" where
  "readHeader host = readHeader_loop host []"

subsection \<open>Writing the destination\<close>

definition recordWrite :: "int \<Rightarrow> 'e translator \<Rightarrow> 'e translator" where
  "recordWrite n t =
     (let t = t\<lparr>outputBytes := outputBytes t + n\<rparr>
      in emit (\<lambda>i. SetSize i (outputBytes t)) (outputLease t)
           (emit (\<lambda>i. Written i n) (outputLease t) t))"

function write_loop :: "'e host \<Rightarrow> u32 \<Rightarrow> u32 \<Rightarrow> byte list \<Rightarrow> ('e, unit) tprog" where
  "write_loop host page row buf t =
    (if buf = [] then (Inr (), t)
     else seqE (checkContext host ''write destination'' page row) (\<lambda>t.
       (case hWrite host buf (env t) of ((n, err), e') \<Rightarrow>
        let t = t\<lparr>env := e'\<rparr> in
        if n < 0 \<or> n > int (length buf)
        then (Inl (destError ''write destination'' (ErrNew ''invalid write count'') page row t), t)
        else
          let t = recordWrite n t in
          (case err of
             Some e \<Rightarrow> (Inl (destError ''write destination'' e page row t), t)
           | None \<Rightarrow>
               if n = 0 then (Inl (destError ''write destination'' ErrShortWrite page row t), t)
               else write_loop host page row (drop (nat n) buf) t))) t)"
  by pat_completeness auto
termination
  by (relation "measure (\<lambda>(host, page, row, buf, t). length buf)") auto

text \<open>
  The source compares \<^verbatim>\<open>uint64(outputBytes) + uint64(len(buf))\<close> with the limit. Both summands
  are non-negative \<^verbatim>\<open>int64\<close> values, so the sum stays below \<^term>\<open>2 ^ 64\<close> and the comparison
  is the one on the integers.
\<close>

definition writeDst :: "'e host \<Rightarrow> byte list \<Rightarrow> u32 \<Rightarrow> u32 \<Rightarrow> ('e, unit) tprog" where
  "writeDst host buf page row =
     seqE (checkContext host ''write destination'' page row) (\<lambda>t.
       if MaxOutputBytes (limits t) > 0 \<and>
          outputBytes t + int (length buf) > MaxOutputBytes (limits t)
       then (Inl (resource ''maximum output bytes exceeded'' page row t), t)
       else write_loop host page row buf t)"

function seekWrite_loop :: "'e host \<Rightarrow> byte list \<Rightarrow> string \<Rightarrow> ('e, unit) tprog" where
  "seekWrite_loop host buf op t =
    (if buf = [] then (Inr (), t)
     else seqE (checkContext host op (pages t) 0) (\<lambda>t.
       (case hWrite host buf (env t) of ((n, err), e') \<Rightarrow>
        let t = t\<lparr>env := e'\<rparr> in
        if n < 0 \<or> n > int (length buf)
        then (Inl (destError op (ErrNew ''invalid write count'') (pages t) 0 t), t)
        else (case err of
          Some e \<Rightarrow> (Inl (destError op e (pages t) 0 t), t)
        | None \<Rightarrow>
            let t = emit (\<lambda>i. Written i n) (outputLease t) t in
            if n = 0 then (Inl (destError op ErrShortWrite (pages t) 0 t), t)
            else seekWrite_loop host (drop (nat n) buf) op t))) t)"
  by pat_completeness auto
termination
  by (relation "measure (\<lambda>(host, buf, op, t). length buf)") auto

definition seek :: "'e host \<Rightarrow> int \<Rightarrow> whence \<Rightarrow> 'e translator \<Rightarrow> (int \<times> goerr option) \<times> 'e translator" where
  "seek host off wh t = (case hSeek host off wh (env t) of (r, e') \<Rightarrow> (r, t\<lparr>env := e'\<rparr>))"

definition seekWrite :: "'e host \<Rightarrow> int \<Rightarrow> byte list \<Rightarrow> string \<Rightarrow> ('e, unit) tprog" where
  "seekWrite host off buf op =
     (\<lambda>t. seqE (checkContext host op (pages t) 0) (\<lambda>t.
       if off < 0 then (Inl (destError op (ErrNew ''negative seek offset'') (pages t) 0 t), t)
       else (case seek host off SeekStart t of ((pos, err), t) \<Rightarrow>
         (case err of
            Some e \<Rightarrow> (Inl (destError op e (pages t) 0 t), t)
          | None \<Rightarrow>
              if pos \<noteq> off
              then (Inl (destError op (Errorf ''seek returned offset %d, want %d'' [FInt pos, FInt off])
                      (pages t) 0 t), t)
              else seekWrite_loop host buf op t))) t)"

subsection \<open>Building a page header\<close>

definition be32 :: "u32 \<Rightarrow> byte list" where
  "be32 v = [ucast (drop_bit 24 v), ucast (drop_bit 16 v), ucast (drop_bit 8 v), ucast v]"

definition be_uint32 :: "byte list \<Rightarrow> u32" where
  "be_uint32 b = foldl (\<lambda>acc x. push_bit 8 acc OR ucast x) 0 b"

definition slice :: "nat \<Rightarrow> nat \<Rightarrow> 'a list \<Rightarrow> 'a list" where
  "slice lo hi b = take (hi - lo) (drop lo b)"

definition put32 :: "nat \<Rightarrow> u32 \<Rightarrow> byte list \<Rightarrow> byte list" where
  "put32 off v h = put off (be32 v) h"

definition copyString :: "nat \<Rightarrow> nat \<Rightarrow> string \<Rightarrow> byte list \<Rightarrow> byte list" where
  "copyString lo hi s h =
     (let s = (if length s > hi - lo - 1 then take (hi - lo - 1) s else s)
      in put lo (str_bytes s) h)"

definition bool32 :: "bool \<Rightarrow> u32" where
  "bool32 b = (if b then 1 else 0)"

text \<open>
  IEEE 754 rounding, to nearest with ties to even, of a positive ratio \<open>n / d\<close> to \<open>p\<close>
  significant bits: the result \<open>(m, e)\<close> stands for \<open>m * 2 ^ e\<close> with \<open>2 ^ (p - 1) \<le> m < 2 ^ p\<close>.
  The page sizes in points lie far from the subnormal and overflow ranges.
\<close>

fun bitlen :: "nat \<Rightarrow> nat" where
  "bitlen n = (if n = 0 then 0 else Suc (bitlen (n div 2)))"

declare bitlen.simps [simp del]

definition round_ratio :: "nat \<Rightarrow> nat \<Rightarrow> nat \<Rightarrow> nat \<times> int" where
  "round_ratio p n d =
     (let s = p + bitlen d; num = n * 2 ^ s; l = bitlen (num div d);
          den = d * 2 ^ (l - p); m = num div den; r = num mod den;
          m' = (if 2 * r > den \<or> (2 * r = den \<and> odd m) then Suc m else m);
          e = int l - int p - int s
      in if m' = 2 ^ p then (2 ^ (p - 1), e + 1) else (m', e))"

definition float32bits_points :: "u32 \<Rightarrow> u32" where
  "float32bits_points w =
     (if w = 0 then 0 else
      let (m64, e64) = round_ratio 53 (unat w * 72) 2540;
          (m32, e32) = (if e64 < 0 then round_ratio 24 m64 (2 ^ nat (- e64))
                        else round_ratio 24 (m64 * 2 ^ nat e64) 1)
      in of_int ((e32 + 23 + 127) * 2 ^ 23 + (int m32 - 2 ^ 23)))"

definition putFloat32_points :: "nat \<Rightarrow> u32 \<Rightarrow> byte list \<Rightarrow> byte list" where
  "putFloat32_points off w h = put32 off (float32bits_points w) h"

definition putFloat32_zero :: "nat \<Rightarrow> byte list \<Rightarrow> byte list" where
  "putFloat32_zero off h = put32 off 0 h"

record pageDescription =
  bitsPerPixel :: u8
  colorSpace :: u8
  duplexMode :: u8
  width :: u32
  height :: u32
  resolution :: u32
  rowBytes :: u64
  landscape :: bool
  pwgColorSpace :: u32
  pwgBitsPerPixel :: u32
  pwgBitsPerColor :: u32
  pwgNumColors :: u32

definition setSheetBack :: "pagePolicy \<Rightarrow> bool \<Rightarrow> byte list \<Rightarrow> byte list" where
  "setSheetBack pol back h =
     (if \<not> back then h else
      let flip = (0xffffffff :: u32); tumble = (sides pol = ''two-sided-short-edge'') in
      if sheetBack pol = ''flipped'' then
        (if tumble then put32 456 flip h else put32 460 flip h)
      else if sheetBack pol = ''manual-tumble'' then
        (if tumble then put32 460 flip (put32 456 flip h) else h)
      else if sheetBack pol = ''rotated'' then
        (if \<not> tumble then put32 460 flip (put32 456 flip h) else h)
      else h)"

definition pwgPageHeaderSize :: nat where
  "pwgPageHeaderSize = 1796"

definition points :: "u32 \<Rightarrow> u32" where
  "points w = ucast ((ucast w :: u64) * 72 div 2540)"

text \<open>The header \<^verbatim>\<open>emitPageHeader\<close> fills in for page number \<open>pg\<close> (counted from 0).\<close>

definition pageHeader :: "pagePolicy \<Rightarrow> u32 \<Rightarrow> pageDescription \<Rightarrow> byte list" where
  "pageHeader pol pg p =
     (let (pageWidth, pageHeight) =
            (if landscape p then (mediaHeight pol, mediaWidth pol)
             else (mediaWidth pol, mediaHeight pol));
          (wPoints, hPoints) = (points pageWidth, points pageHeight);
          h = replicate pwgPageHeaderSize 0;
          h = copyString 0 64 ''PwgRaster'' h;
          h = copyString 128 192 (mediaType pol) h;
          h = copyString 1732 1796 (mediaName pol) h;
          h = put32 272 (bool32 (sides pol \<noteq> ''one-sided'')) h;
          h = put32 276 (resX pol) h;
          h = put32 280 (resY pol) h;
          h = put32 284 0 h;
          h = put32 288 0 h;
          h = put32 292 wPoints h;
          h = put32 296 hPoints h;
          h = put32 324 (mediaSource pol) h;
          h = put32 352 wPoints h;
          h = put32 356 hPoints h;
          h = put32 368 (bool32 (sides pol = ''two-sided-short-edge'')) h;
          h = put32 372 (width p) h;
          h = put32 376 (height p) h;
          h = put32 384 (pwgBitsPerColor p) h;
          h = put32 388 (pwgBitsPerPixel p) h;
          h = put32 392 (ucast (rowBytes p)) h;
          h = put32 396 0 h;
          h = put32 400 (pwgColorSpace p) h;
          h = put32 420 (pwgNumColors p) h;
          h = putFloat32_points 428 pageWidth h;
          h = putFloat32_points 432 pageHeight h;
          h = putFloat32_zero 436 h;
          h = putFloat32_zero 440 h;
          h = putFloat32_zero 444 h;
          h = putFloat32_zero 448 h;
          h = put32 452 0 h;
          h = put32 456 1 h;
          h = put32 460 1 h;
          h = setSheetBack pol (sides pol \<noteq> ''one-sided'' \<and> pg mod 2 = 1) h;
          h = put32 464 0 h;
          h = put32 468 0 h;
          h = put32 472 (width p) h;
          h = put32 476 (height p) h;
          h = put32 480 0xffffff h
      in put32 484 (quality pol) h)"

definition appendPageCount :: "'e host \<Rightarrow> int \<Rightarrow> ('e, unit) tprog" where
  "appendPageCount host countOffset t =
     (let n = length (pageCounts t);
          cap' = (if n + 1 \<le> pageCountsCap t then pageCountsCap t
                  else hGrow host (pageCountsCap t) (n + 1));
          t' = t\<lparr>pageCounts := pageCounts t @ [countOffset], pageCountsCap := cap'\<rparr> in
      if cap' \<noteq> pageCountsCap t then
        (let t'' = (emit Release (offsetLease t') t')\<lparr>offsetLease := None\<rparr> in
         if observer t'' then
           (case acquire host ''urf/page-offsets'' (int cap' * 8) t'' of (l, t3) \<Rightarrow>
              (Inr (), t3\<lparr>offsetLease := l\<rparr>))
         else (Inr (), t''))
      else (Inr (), t'))"

definition emitPageHeader_write :: "'e host \<Rightarrow> pageDescription \<Rightarrow> ('e, unit) tprog" where
  "emitPageHeader_write host p t =
     (if MaxPages (limits t) > 0 \<and> (of_nat (length (pageCounts t) + 1) :: u32) > MaxPages (limits t)
      then (Inl (resource ''maximum page count exceeded'' (pages t + 1) 0 t), t)
      else seqE (writeDst host (pageHeader (policy t) (pages t) p) (pages t + 1) 0)
             (appendPageCount host (outputBytes t + 452)) t)"

text \<open>The deferred release of the header buffer's lease runs on every exit.\<close>

definition emitPageHeader :: "'e host \<Rightarrow> pageDescription \<Rightarrow> ('e, unit) tprog" where
  "emitPageHeader host p t =
     (if observer t then
        (case acquire host ''urf/page-header'' (int pwgPageHeaderSize) t of (l, t1) \<Rightarrow>
         (case emitPageHeader_write host p t1 of (r, t2) \<Rightarrow> (r, emit Release l t2)))
      else emitPageHeader_write host p t)"

subsection \<open>Parsing a page\<close>

definition validateDuplex :: "u8 \<Rightarrow> u32 \<Rightarrow> ('e, unit) tprog" where
  "validateDuplex mode page t =
     (let inputDuplex = (mode \<ge> 2); inputTumble = (mode = 2) in
      if sides (policy t) = ''one-sided'' then
        (if inputDuplex
         then (Inl (settingsMismatch ''URF duplex mode conflicts with one-sided policy'' page t), t)
         else (Inr (), t))
      else if sides (policy t) = ''two-sided-long-edge'' then
        (if \<not> inputDuplex \<or> inputTumble
         then (Inl (settingsMismatch ''URF duplex mode conflicts with long-edge policy'' page t), t)
         else (Inr (), t))
      else if sides (policy t) = ''two-sided-short-edge'' then
        (if \<not> inputDuplex \<or> \<not> inputTumble
         then (Inl (settingsMismatch ''URF duplex mode conflicts with short-edge policy'' page t), t)
         else (Inr (), t))
      else (Inr (), t))"

definition mismatchMessage :: "u8 \<Rightarrow> u8 \<Rightarrow> Mapping \<Rightarrow> string" where
  "mismatchMessage space bpp m =
     ''page color-space '' @ show_nat (unat space) @ ''/bits-per-pixel '' @ show_nat (unat bpp)
     @ '' do not match '' @ Mapping_String m"

definition rawPage :: "byte list \<Rightarrow> pageDescription" where
  "rawPage raw =
     \<lparr>bitsPerPixel = raw ! 0, colorSpace = raw ! 1, duplexMode = raw ! 2,
      width = be_uint32 (slice 12 16 raw), height = be_uint32 (slice 16 20 raw),
      resolution = be_uint32 (slice 20 24 raw), rowBytes = 0, landscape = False,
      pwgColorSpace = 0, pwgBitsPerPixel = 0, pwgBitsPerColor = 0, pwgNumColors = 0\<rparr>"

definition chargeDecoded :: "u64 \<Rightarrow> u32 \<Rightarrow> ('e, unit) tprog" where
  "chargeDecoded pageBytes page t =
     (case checkedAddWithin (pageLogical t) pageBytes (MaxDecodedBytes (limits t)) of (logical, ok) \<Rightarrow>
      if \<not> ok then (Inl (resource ''maximum decoded bytes exceeded'' page 0 t), t)
      else (Inr (), t\<lparr>pageLogical := logical\<rparr>))"

definition matchGeometry :: "pageDescription \<Rightarrow> u32 \<Rightarrow> ('e, bool) tprog" where
  "matchGeometry p page t =
     (if mediaWidth (policy t) \<noteq> 0 \<and> mediaHeight (policy t) \<noteq> 0 then
        (case mediaPixels (mediaWidth (policy t)) (mediaHeight (policy t)) (resolution p) of
           (directW, directH, ok) \<Rightarrow>
         if \<not> ok then (Inl (resource ''media geometry overflows'' page 0 t), t)
         else if width p = directW \<and> height p = directH then (Inr False, t)
         else if width p = directH \<and> height p = directW then (Inr True, t)
         else (Inl (settingsMismatch ''page geometry conflicts with normalized media'' page t), t))
      else (Inr False, t))"

text \<open>
  The checks of \<^verbatim>\<open>parsePage\<close> in their order. \<open>t\<close> is the translator on entry, whose
  configuration and source offset the checks read; only the decoded-byte account changes.
\<close>

definition parsePage_checks :: "'e translator \<Rightarrow> byte list \<Rightarrow> ('e, pageDescription) tprog" where
  "parsePage_checks t raw =
     (let page = pages t + 1; p = rawPage raw;
          (wantSpace, wantBPP, outSpace) = sourceMapping (mapping t);
          bpp = (ucast (wantBPP div 8) :: u64);
          (rowB, rowOK) = checkedMul (ucast (width p)) bpp;
          (pageBytes, pageOK) = checkedMul rowB (ucast (height p)) in
      seqE (guardE (colorSpace p \<noteq> wantSpace \<or> bitsPerPixel p \<noteq> wantBPP)
        (unsupported (mismatchMessage (colorSpace p) (bitsPerPixel p) (mapping t)) page t))
     (seqE (guardE (width p = 0 \<or> height p = 0)
        (malformed ''page dimensions must be positive'' page 0 t))
     (seqE (guardE (resolution p = 0)
        (malformed ''page resolution must be positive'' page 0 t))
     (seqE (guardE (resolution p \<noteq> resX (policy t) \<or> resolution p \<noteq> resY (policy t))
        (settingsMismatch ''page resolution conflicts with normalized settings'' page t))
     (seqE (guardE (MaxWidth (limits t) > 0 \<and> width p > MaxWidth (limits t))
        (resource ''maximum page width exceeded'' page 0 t))
     (seqE (guardE (MaxHeight (limits t) > 0 \<and> height p > MaxHeight (limits t))
        (resource ''maximum page height exceeded'' page 0 t))
     (seqE (guardE (\<not> rowOK \<or> rowB = 0)
        (resource ''page row size overflows'' page 0 t))
     (seqE (guardE (MaxRowBytes (limits t) > 0 \<and> rowB > MaxRowBytes (limits t))
        (resource ''maximum row size exceeded'' page 0 t))
     (seqE (guardE (rowB > maxU32)
        (resource ''page row size does not fit PWG header'' page 0 t))
     (seqE (guardE (\<not> pageOK)
        (resource ''page decoded size overflows'' page 0 t))
     (seqE (chargeDecoded pageBytes page)
     (bindE (matchGeometry p page) (\<lambda>land.
      seqE (validateDuplex (duplexMode p) page)
        (ret (p\<lparr>landscape := land, rowBytes := rowB, pwgColorSpace := outSpace,
                pwgBitsPerPixel := ucast wantBPP, pwgBitsPerColor := 8,
                pwgNumColors := (if wantBPP = 8 then 1 else 3)\<rparr>)))))))))))))))"

definition parsePage :: "byte list \<Rightarrow> ('e, pageDescription) tprog" where
  "parsePage raw t = parsePage_checks t raw t"

subsection \<open>Copying raster data\<close>

definition maxCopyScratch :: nat where
  "maxCopyScratch = 128 * 3"

function copyBytes :: "'e host \<Rightarrow> nat \<Rightarrow> u32 \<Rightarrow> u32 \<Rightarrow> ('e, unit) tprog" where
  "copyBytes host n page row t =
    (if n > 0 then
       (let chunk = (if maxCopyScratch > n then n else maxCopyScratch) in
        seqE (checkContext host ''copy raster payload'' page row)
          (bindE (readFull host chunk page row) (\<lambda>d.
             seqE (writeDst host d page row) (copyBytes host (n - chunk) page row))) t)
     else (Inr (), t))"
  by pat_completeness auto
termination
  by (relation "measure (\<lambda>(host, n, page, row, t). n)") (auto simp: maxCopyScratch_def)

text \<open>
  One packet: for a control byte and the number of row bytes still to be represented, the
  number of payload bytes to copy and the number of row bytes the packet accounts for. The
  end-of-row opcode has no payload and accounts for the whole rest, and so does a repeat
  packet that is clipped below one pixel.
\<close>

definition packet :: "u64 \<Rightarrow> nat \<Rightarrow> u8 \<Rightarrow> string + nat \<times> nat" where
  "packet bpp remaining control =
     (if control = 0x80 then Inr (0, remaining)
      else if control AND 0x80 \<noteq> 0 then
        (case checkedMul (of_nat (257 - unat control)) bpp of (sz, ok) \<Rightarrow>
         if \<not> ok then Inl ''literal packet size overflows''
         else let want = (if unat sz > remaining then remaining else unat sz) in
              Inr (want, want))
      else
        (case checkedMul (of_nat (unat control + 1)) bpp of (sz, ok) \<Rightarrow>
         if \<not> ok then Inl ''repeat packet size overflows''
         else let want = (if unat sz > remaining then remaining else unat sz) in
              if want < unat bpp then Inr (0, remaining) else Inr (unat bpp, want)))"

lemma packet_size_pos:
  assumes "checkedMul (of_nat n) bpp = (sz, True)" "bpp \<noteq> 0" "0 < n" "n < 2 ^ 64"
  shows "0 < unat sz"
  using assms checkedMul_unat [OF assms(1)] by (simp add: unat_of_nat unat_gt_0)

lemma unat_byte: "unat (c :: u8) < 256"
proof -
  have "unat c < 2 ^ LENGTH(8)" by (rule unsigned_less)
  then show ?thesis by simp
qed

lemma packet_advance:
  assumes "packet bpp remaining c = Inr (pay, adv)" "bpp \<noteq> 0" "0 < remaining"
  shows "0 < adv" "adv \<le> remaining"
proof -
  have lit: "0 < unat sz" if "checkedMul (of_nat (257 - unat c)) bpp = (sz, True)" for sz
    using that assms(2) unat_byte [of c] by (intro packet_size_pos [OF that]) auto
  have rep: "0 < unat sz" if "checkedMul (of_nat (unat c + 1)) bpp = (sz, True)" for sz
    using that assms(2) unat_byte [of c] by (intro packet_size_pos [OF that]) auto
  show "0 < adv" "adv \<le> remaining"
    using assms lit rep
    by (auto simp: packet_def Let_def split: if_splits prod.splits)
qed

text \<open>
  The packet loop of one row. The source checks before the row loop that \<open>bpp\<close> is not zero,
  so the second guard is always true there; without it the loop would make no progress.
\<close>

function copyPackets :: "'e host \<Rightarrow> u32 \<Rightarrow> u32 \<Rightarrow> u64 \<Rightarrow> nat \<Rightarrow> ('e, unit) tprog" where
  "copyPackets host page row bpp remaining t =
    (if remaining > 0 \<and> bpp \<noteq> 0 then
       seqE (checkContext host ''copy raster packet'' page row)
        (bindE (readFull host 1 page row) (\<lambda>c.
          seqE (writeDst host c page row)
           (case packet bpp remaining (c ! 0) of
              Inl msg \<Rightarrow> failE (resource msg page row)
            | Inr r \<Rightarrow> seqE (copyBytes host (fst r) page row)
                        (copyPackets host page row bpp (remaining - snd r))))) t
     else (Inr (), t))"
  by pat_completeness auto
termination
proof (relation "measure (\<lambda>(host, page, row, bpp, remaining, t). remaining)", goal_cases)
  case (2 host page row bpp remaining t _ _ c _ _ _ r)
  then show ?case using packet_advance [of bpp remaining "c ! 0" "fst r" "snd r"] by auto
qed auto

function copyRows :: "'e host \<Rightarrow> pageDescription \<Rightarrow> u64 \<Rightarrow> nat \<Rightarrow> ('e, unit) tprog" where
  "copyRows host p bpp rowsDone t =
    (if rowsDone < unat (height p) then
       (let page = pages t + 1; row = of_nat (rowsDone + 1) in
        seqE (checkContext host ''copy raster row'' page row)
         (bindE (readFull host 1 page row) (\<lambda>rep.
           seqE (writeDst host rep page row)
             (seqE (copyPackets host page row bpp (unat (rowBytes p)))
                (copyRows host p bpp
                  (if unat (rep ! 0) + 1 > unat (height p) - rowsDone then unat (height p)
                   else rowsDone + (unat (rep ! 0) + 1)))))) t)
     else (Inr (), t))"
  by pat_completeness auto
termination
  by (relation "measure (\<lambda>(host, p, bpp, rowsDone, t). unat (height p) - rowsDone)") auto

definition copyPageData :: "'e host \<Rightarrow> pageDescription \<Rightarrow> ('e, unit) tprog" where
  "copyPageData host p t =
     (let bpp = ucast (pwgBitsPerPixel p div 8) in
      if bpp = 0 then (Inl (malformed ''zero bytes per pixel'' (pages t + 1) 0 t), t)
      else copyRows host p bpp 0 t)"

lemmas translator_loops = readFull_loop.simps readHeader_loop.simps write_loop.simps
  seekWrite_loop.simps copyBytes.simps copyPackets.simps copyRows.simps

declare translator_loops [simp del]

subsection \<open>The document\<close>

definition readFileHeader :: "'e host \<Rightarrow> ('e, unit) tprog" where
  "readFileHeader host =
     bindE (readFull host urfFileHeaderSize 0 0) (\<lambda>h.
       if slice 0 4 h \<noteq> str_bytes ''UNIR'' \<and> slice 0 4 h \<noteq> str_bytes ''RINU''
       then failE (malformed ''invalid Apple Raster file signature'' 0 0)
       else ret ())"

text \<open>One iteration of the page loop; the result says whether the loop is finished.\<close>

definition processPage :: "'e host \<Rightarrow> byte list \<Rightarrow> ('e, unit) tprog" where
  "processPage host raw =
     bindE (parsePage raw) (\<lambda>page. seqE (emitPageHeader host page) (copyPageData host page))"

definition nextPage :: "'e host \<Rightarrow> byte list \<Rightarrow> ('e, bool) tprog" where
  "nextPage host raw t =
     (if MaxPages (limits t) > 0 \<and> pages t \<ge> MaxPages (limits t)
      then (Inl (resource ''maximum page count exceeded'' (pages t + 1) 0 t), t)
      else seqE (processPage host raw)
             (seqE (modify (\<lambda>t. t\<lparr>pages := pages t + 1\<rparr>)) (ret False)) t)"

definition translatePage :: "'e host \<Rightarrow> ('e, bool) tprog" where
  "translatePage host t =
     seqE (checkContext host ''read page header'' (pages t + 1) 0)
      (bindE (readHeader host) (\<lambda>raw.
         if length raw < urfPageHeaderSize then ret True else nextPage host raw)) t"

partial_function (option) translatePages ::
  "'e host \<Rightarrow> 'e translator \<Rightarrow> ((urf_error + unit) \<times> 'e translator) option" where
  "translatePages host t =
     (case translatePage host t of (r, t') \<Rightarrow>
        (case r of
           Inl e \<Rightarrow> Some (Inl e, t')
         | Inr finished \<Rightarrow> if finished then Some (Inr (), t') else translatePages host t'))"

definition pwgSync :: u32 where
  "pwgSync = 0x52615332"

definition measureDestination :: "'e host \<Rightarrow> ('e, unit) tprog" where
  "measureDestination host t =
     (case seek host 0 SeekEnd t of ((end', err), t) \<Rightarrow>
      (case err of
         Some e \<Rightarrow> (Inl (destError ''measure destination'' e (pages t) 0 t), t)
       | None \<Rightarrow>
         if end' \<noteq> outputBytes t then
           (Inl (destError ''measure destination'' (Errorf
              ''destination size %d, want emitted size %d'' [FInt end', FInt (outputBytes t)])
              (pages t) 0 t), t)
         else if MaxOutputBytes (limits t) > 0 \<and> outputBytes t > MaxOutputBytes (limits t) then
           (Inl (resource ''maximum output bytes exceeded'' (pages t) 0 t), t)
         else (Inr (), t)))"

definition rewindDestination :: "'e host \<Rightarrow> ('e, unit) tprog" where
  "rewindDestination host t =
     (case seek host 0 SeekStart t of ((pos, err), t) \<Rightarrow>
      (case err of
         Some e \<Rightarrow> (Inl (destError ''rewind destination'' e (pages t) 0 t), t)
       | None \<Rightarrow>
         if pos \<noteq> 0 then
           (Inl (destError ''rewind destination''
              (Errorf ''seek returned offset %d, want 0'' [FInt pos]) (pages t) 0 t), t)
         else (Inr (), t)))"

text \<open>\<open>n\<close> is the page count, which the final phase does not change.\<close>

definition finalize_pages :: "'e host \<Rightarrow> u32 \<Rightarrow> int list \<Rightarrow> ('e, unit) tprog" where
  "finalize_pages host n offsets =
     seqE (checkContext host ''finalize'' n 0)
    (seqE (\<lambda>t. guardE ((ucast n :: u64) > maxU32)
        (resource ''page count overflows PWG metadata'' n 0 t) t)
    (seqE (mapE (\<lambda>off. seekWrite host off (be32 n) ''patch page count'') offsets)
    (seqE (seekWrite host 0 (be32 pwgSync) ''write PWG marker'')
    (seqE (checkContext host ''measure destination'' n 0)
    (seqE (measureDestination host)
    (seqE (checkContext host ''rewind destination'' n 0)
    (seqE (rewindDestination host)
    (seqE (checkContext host ''complete translation'' n 0)
       (modify (\<lambda>t. t\<lparr>outputSize := outputBytes t\<rparr>))))))))))"

definition finalize :: "'e host \<Rightarrow> ('e, unit) tprog" where
  "finalize host t = finalize_pages host (pages t) (pageCounts t) t"

text \<open>The seeks that check for an empty destination, before anything is written.\<close>

definition prepareSeek ::
  "'e host \<Rightarrow> whence \<Rightarrow> string \<Rightarrow> string \<Rightarrow> ('e, unit) tprog" where
  "prepareSeek host wh op msg t =
     (case seek host 0 wh t of ((pos, err), t) \<Rightarrow>
      (case err of
         Some e \<Rightarrow> (Inl (wrapError KindDestinationIO op (Some e) (-1) 0 0), t)
       | None \<Rightarrow>
         if pos \<noteq> 0
         then (Inl (wrapError KindDestinationIO op (Some (Errorf msg [FInt pos])) (-1) 0 0), t)
         else (Inr (), t)))"

definition prepareDestination :: "'e host \<Rightarrow> ('e, unit) tprog" where
  "prepareDestination host =
     seqE (prepareSeek host SeekStart ''seek destination'' ''seek returned offset %d, want 0'')
     (seqE (prepareSeek host SeekEnd ''inspect destination'' ''destination is not empty (size %d)'')
     (seqE (prepareSeek host SeekStart ''rewind destination'' ''seek returned offset %d, want 0'')
        (writeDst host [0, 0, 0, 0] 0 0)))"

definition newTranslator :: "Limits \<Rightarrow> pagePolicy \<Rightarrow> Options \<Rightarrow> 'e \<Rightarrow> 'e translator" where
  "newTranslator lims pol opts e =
     \<lparr>env = e, srcCount = 0, srcLimit = MaxInputBytes lims, pendingErr = None,
      limits = lims, mapping = OMapping opts, policy = pol, pages = 0, pageCounts = [],
      pageCountsCap = 0, outputBytes = 0, outputSize = 0, pageLogical = 0,
      observer = OObserver opts, offsetLease = None, outputLease = None, scratchLease = None,
      acquired = 0, events = []\<rparr>"

definition acquireInitial :: "'e host \<Rightarrow> 'e translator \<Rightarrow> 'e translator" where
  "acquireInitial host t =
     (if observer t then
        (case acquire host ''urf/compressed-scratch'' (int maxCopyScratch) t of (l1, t) \<Rightarrow>
         (case acquire host ''urf/output'' 0 t of (l2, t) \<Rightarrow>
            t\<lparr>scratchLease := l1, outputLease := l2\<rparr>))
      else t)"

text \<open>\<^verbatim>\<open>Translate\<close> from the first use of the translator object to its return.\<close>

definition translateBody ::
  "'e host \<Rightarrow> 'e translator \<Rightarrow> ((urf_error + Result) \<times> 'e translator) option" where
  "translateBody host t =
     (case seqE (prepareDestination host) (readFileHeader host) t of (r, t) \<Rightarrow>
      (case r of
         Inl e \<Rightarrow> Some (Inl e, t)
       | Inr _ \<Rightarrow>
         (case translatePages host t of
            None \<Rightarrow> None
          | Some (r, t) \<Rightarrow>
            (case r of
               Inl e \<Rightarrow> Some (Inl e, t)
             | Inr _ \<Rightarrow>
               if pages t = 0
               then Some (Inl (malformed ''document contains no complete pages'' 0 0 t), t)
               else Some (bindE (finalize host) (\<lambda>_. gets (\<lambda>t.
                 \<lparr>InputBytes = srcCount t, OutputBytes = outputSize t, Pages = pages t\<rparr>)) t)))))"

text \<open>
  \<^verbatim>\<open>Translate\<close>. A nil context is replaced by the background context, which is never
  cancelled; \<open>nilSrc\<close> and \<open>nilDst\<close> say whether the caller passed nil interfaces. The result
  carries the environment and the lease events after the deferred release.
\<close>

definition backgroundHost :: "'e host \<Rightarrow> 'e host" where
  "backgroundHost host = host\<lparr>hCtxErr := (\<lambda>e. (None, e))\<rparr>"

definition Translate ::
  "'e host \<Rightarrow> bool \<Rightarrow> bool \<Rightarrow> bool \<Rightarrow> Options \<Rightarrow> 'e
     \<Rightarrow> ((urf_error + Result) \<times> 'e \<times> lease_event list) option" where
  "Translate host0 nilCtx nilSrc nilDst opts e =
     (let host = (if nilCtx then backgroundHost host0 else host0) in
      case hCtxErr host e of (cerr, e) \<Rightarrow>
      (case cerr of
         Some c \<Rightarrow> Some (Inl \<lparr>Kind = KindCanceled, Op = ''validate options'', Page = 0, Row = 0,
                              Offset = -1, Err = c\<rparr>, e, [])
       | None \<Rightarrow>
         if nilSrc then
           Some (Inl (wrapError KindInvalidOptions ''source'' (Some (ErrNew ''nil source'')) (-1) 0 0), e, [])
         else if nilDst then
           Some (Inl (wrapError KindInvalidOptions ''destination''
             (Some (ErrNew ''nil destination'')) (-1) 0 0), e, [])
         else
           (case sumBind (validateLimits (OLimits opts)) (\<lambda>_.
                 sumBind (validatePageSettings (OPage opts)) (\<lambda>pol.
                 sumBind (validateMapping (OMapping opts)) (\<lambda>_. Inr pol))) of
              Inl err \<Rightarrow> Some (Inl err, e, [])
            | Inr pol \<Rightarrow>
                map_option (\<lambda>(r, t). let t = releaseResources t in (r, env t, events t))
                  (translateBody host (acquireInitial host
                     (newTranslator (effectiveLimits (OLimits opts)) pol opts e))))))"

end
