(* ===== verification/Urf_Safety.thy ===== *)
theory Urf_Safety
  imports Urf_Translate
begin

unbundle bit_operations_syntax

text \<open>
  What the translator guarantees for every host: it always returns, it never reads or emits
  more than its limits, and it releases every lease it acquires.

  The loops of the translator are treated once, in the locale \<open>translator_invariant\<close>: a
  predicate that survives a change of the environment, a read and a write survives every
  loop built from them. Each concrete invariant is an interpretation of that locale.
\<close>

subsection \<open>The loops as computations\<close>

lemma copyBytes_unfold:
  "copyBytes host n page row =
    (if n > 0 then
       (let chunk = (if maxCopyScratch > n then n else maxCopyScratch) in
        seqE (checkContext host ''copy raster payload'' page row)
          (bindE (readFull host chunk page row) (\<lambda>d.
             seqE (writeDst host d page row) (copyBytes host (n - chunk) page row))))
     else ret ())"
  by (rule ext) (simp add: copyBytes.simps [of host n] Let_def)

lemma copyPackets_unfold:
  "copyPackets host page row bpp remaining =
    (if remaining > 0 \<and> bpp \<noteq> 0 then
       seqE (checkContext host ''copy raster packet'' page row)
        (bindE (readFull host 1 page row) (\<lambda>c.
          seqE (writeDst host c page row)
           (case packet bpp remaining (c ! 0) of
              Inl msg \<Rightarrow> failE (resource msg page row)
            | Inr r \<Rightarrow> seqE (copyBytes host (fst r) page row)
                        (copyPackets host page row bpp (remaining - snd r)))))
     else ret ())"
  by (rule ext) (simp add: copyPackets.simps [of host page row bpp remaining])

lemma copyRows_unfold:
  "copyRows host p bpp rowsDone = (\<lambda>t.
    (if rowsDone < unat (height p) then
       seqE (checkContext host ''copy raster row'' (pages t + 1) (of_nat (rowsDone + 1)))
        (bindE (readFull host 1 (pages t + 1) (of_nat (rowsDone + 1))) (\<lambda>rep.
          seqE (writeDst host rep (pages t + 1) (of_nat (rowsDone + 1)))
            (seqE (copyPackets host (pages t + 1) (of_nat (rowsDone + 1)) bpp (unat (rowBytes p)))
               (copyRows host p bpp
                 (if unat (rep ! 0) + 1 > unat (height p) - rowsDone then unat (height p)
                  else rowsDone + (unat (rep ! 0) + 1))))))
     else ret ()) t)"
  by (rule ext) (simp add: copyRows.simps [of host p bpp rowsDone] Let_def)

subsection \<open>Invariants of the loops\<close>

locale translator_invariant =
  fixes host :: "'e host"
    and I :: "'e translator \<Rightarrow> bool"
  assumes inv_env: "I t \<Longrightarrow> I (t\<lparr>env := e\<rparr>)"
    and inv_read: "I t \<Longrightarrow> src_read host k t = (r, t') \<Longrightarrow> I t'"
    and inv_write: "keeps I (writeDst host buf page row)"
begin

lemma keeps_checkContext: "keeps I (checkContext host op page row)"
  by (rule keepsI) (auto simp: checkContext_def ctxErr_def inv_env split: prod.splits option.splits)

lemma inv_ctxErr: "I t \<Longrightarrow> ctxErr host t = (c, t') \<Longrightarrow> I t'"
  by (auto simp: ctxErr_def inv_env split: prod.splits)

lemma keeps_readError:
  assumes "keeps I onEOF"
  shows "keeps I (readError host op e onEOF page row)"
proof (rule keepsI)
  fix t r t'
  assume "I t" and run: "readError host op e onEOF page row t = (r, t')"
  obtain c t1 where c: "ctxErr host t = (c, t1)" by (metis prod.exhaust)
  obtain c' t2 where c': "ctxErr host t1 = (c', t2)" by (metis prod.exhaust)
  have "I t1" "I t2" using c c' \<open>I t\<close> inv_ctxErr by blast+
  with run c c' \<open>I t\<close> show "I t'"
    using keepsD [OF assms] by (auto simp: readError_def split: if_splits)
qed

lemma keeps_readFull_loop: "keeps I (readFull_loop host k page row acc)"
proof (induction "k - length acc" arbitrary: acc rule: less_induct)
  case less
  have eof: "keeps I (failE (malformed ''truncated raster data'' page row) :: ('e, byte list) tprog)"
    by (rule keep_rules)
  show ?case
  proof (rule keepsI)
    fix t r t'
    assume "I t" and run: "readFull_loop host k page row acc t = (r, t')"
    obtain d err t1 where rd: "src_read host (k - length acc) t = ((d, err), t1)"
      by (metis prod.exhaust)
    with \<open>I t\<close> have "I t1" by (rule inv_read)
    show "I t'"
    proof (cases "length acc < k")
      case True
      show ?thesis
      proof (cases err)
        case None
        have IH: "keeps I (readFull_loop host k page row (acc @ d))"
          using rd True None
          by (simp add: less.hyps length_sub_less src_read_progress [of host "k - length acc" t]
              del: length_append)
        have "readFull_loop host k page row (acc @ d) t1 = (r, t')"
          using run rd True None by (simp add: readFull_loop.simps [of host k page row acc t])
        with IH \<open>I t1\<close> show ?thesis by (rule keepsD)
      next
        case (Some e)
        have "readError host ''read source'' e (failE (malformed ''truncated raster data'' page row))
            page row t1 = (r, t')"
          using run rd True Some by (simp add: readFull_loop.simps [of host k page row acc t])
        with keeps_readError [OF eof] \<open>I t1\<close> show ?thesis by (rule keepsD)
      qed
    next
      case False
      with run \<open>I t\<close> show ?thesis by (simp add: readFull_loop.simps [of host k page row acc t])
    qed
  qed
qed

lemma keeps_readFull: "keeps I (readFull host k page row)"
  by (simp add: readFull_def keeps_readFull_loop)

lemma keeps_readHeader_loop: "keeps I (readHeader_loop host acc)"
proof (induction "urfPageHeaderSize - length acc" arbitrary: acc rule: less_induct)
  case less
  show ?case
  proof (rule keepsI)
    fix t r t'
    assume "I t" and run: "readHeader_loop host acc t = (r, t')"
    obtain d err t1 where rd: "src_read host (urfPageHeaderSize - length acc) t = ((d, err), t1)"
      by (metis prod.exhaust)
    with \<open>I t\<close> have "I t1" by (rule inv_read)
    show "I t'"
    proof (cases "length acc < urfPageHeaderSize")
      case True
      show ?thesis
      proof (cases err)
        case None
        have IH: "keeps I (readHeader_loop host (acc @ d))"
          using rd True None
          by (simp add: less.hyps length_sub_less
              src_read_progress [of host "urfPageHeaderSize - length acc" t] del: length_append)
        have "readHeader_loop host (acc @ d) t1 = (r, t')"
          using run rd True None by (simp add: readHeader_loop.simps [of host acc t])
        with IH \<open>I t1\<close> show ?thesis by (rule keepsD)
      next
        case (Some e)
        have "readError host ''read page header'' e (ret (acc @ d)) (pages t1 + 1) 0 t1 = (r, t')"
          using run rd True Some by (simp add: readHeader_loop.simps [of host acc t])
        with keeps_readError [OF keeps_ret] \<open>I t1\<close> show ?thesis by (rule keepsD)
      qed
    next
      case False
      with run \<open>I t\<close> show ?thesis by (simp add: readHeader_loop.simps [of host acc t])
    qed
  qed
qed

lemma keeps_readHeader: "keeps I (readHeader host)"
  by (simp add: readHeader_def keeps_readHeader_loop)

lemmas keeps_io = keep_rules keeps_checkContext keeps_readFull keeps_readHeader inv_write

lemma keeps_copyBytes: "keeps I (copyBytes host n page row)"
proof (induction n rule: less_induct)
  case (less n)
  have "0 < n \<Longrightarrow> keeps I (copyBytes host (n - (if maxCopyScratch > n then n else maxCopyScratch)) page row)"
    by (rule less) (simp add: maxCopyScratch_def)
  then show ?case
    unfolding copyBytes_unfold [of host n] Let_def by (auto intro!: keeps_io)
qed

lemma keeps_copyPackets: "keeps I (copyPackets host page row bpp remaining)"
proof (induction remaining rule: less_induct)
  case (less remaining)
  have "keeps I (copyPackets host page row bpp (remaining - adv))"
    if "packet bpp remaining c = Inr (pay, adv)" "bpp \<noteq> 0" "0 < remaining" for c pay adv
    using packet_advance [OF that] that by (intro less) simp
  then show ?case
    unfolding copyPackets_unfold [of host page row bpp remaining]
    by (auto intro!: keeps_io keeps_copyBytes split: sum.split)
qed

lemma keeps_copyRows: "keeps I (copyRows host p bpp rowsDone)"
proof (induction "unat (height p) - rowsDone" arbitrary: rowsDone rule: less_induct)
  case less
  have IH: "rowsDone < unat (height p) \<Longrightarrow>
      keeps I (copyRows host p bpp (if unat b + 1 > unat (height p) - rowsDone
        then unat (height p) else rowsDone + (unat b + 1)))" for b :: u8
    by (rule less.hyps) (cases "unat b + 1 > unat (height p) - rowsDone", simp_all)
  show ?case
    unfolding copyRows_unfold [of host p bpp rowsDone]
    by (rule keeps_state) (intro keeps_io keeps_copyPackets IH)
qed

lemma keeps_copyPageData: "keeps I (copyPageData host p)"
  unfolding copyPageData_def [abs_def] Let_def
  by (rule keepsI) (auto split: if_splits dest: keepsD [OF keeps_copyRows])

lemma keeps_readFileHeader: "keeps I (readFileHeader host)"
  unfolding readFileHeader_def by (auto intro!: keeps_io)

end

subsection \<open>What reads and writes change\<close>

definition rstatic where
  "rstatic t = (srcLimit t, limits t, mapping t, policy t, pages t, pageCounts t, pageCountsCap t,
     outputBytes t, outputSize t, pageLogical t, observer t, offsetLease t, outputLease t,
     scratchLease t, acquired t, events t)"

definition wstatic where
  "wstatic t = (srcCount t, srcLimit t, pendingErr t, limits t, mapping t, policy t, pages t,
     pageCounts t, pageCountsCap t, outputSize t, pageLogical t, observer t, offsetLease t,
     outputLease t, scratchLease t, acquired t)"

lemma rstatic_simps [simp]:
  "rstatic (t\<lparr>env := e\<rparr>) = rstatic t" "rstatic (t\<lparr>srcCount := c\<rparr>) = rstatic t"
  "rstatic (t\<lparr>pendingErr := p\<rparr>) = rstatic t"
  "rstatic (t\<lparr>env := e, srcCount := c\<rparr>) = rstatic t"
  "rstatic (t\<lparr>env := e, pendingErr := p\<rparr>) = rstatic t"
  "rstatic (t\<lparr>env := e, srcCount := c, pendingErr := p\<rparr>) = rstatic t"
  by (simp_all add: rstatic_def)

lemma src_probe_frame: "src_probe host t = (r, t') \<Longrightarrow> rstatic t' = rstatic t \<and> srcCount t' = srcCount t"
  unfolding src_probe_def Let_def
  by (auto split: prod.splits option.splits if_splits)

lemma src_fill_frame:
  "src_fill host len t = (r, t') \<Longrightarrow>
     rstatic t' = rstatic t \<and> srcCount t \<le> srcCount t' \<and> srcCount t' \<le> srcCount t + int len"
  unfolding src_fill_def Let_def
  by (auto split: prod.splits option.splits if_splits)

lemma src_read_frame: "src_read host k t = (r, t') \<Longrightarrow> rstatic t' = rstatic t"
  by (cases r) (auto elim!: src_read_cases dest!: src_probe_frame src_fill_frame)

lemma src_read_count:
  assumes "src_read host k t = (r, t')" "0 < srcLimit t" "0 \<le> srcCount t" "srcCount t \<le> srcLimit t"
  shows "0 \<le> srcCount t' \<and> srcCount t' \<le> srcLimit t'"
proof -
  have lim: "srcLimit t' = srcLimit t" using src_read_frame [OF assms(1)] by (simp add: rstatic_def)
  obtain d err where r: "r = (d, err)" by fastforce
  from assms(1) [unfolded r] show ?thesis
  proof (cases rule: src_read_cases)
    case (fill e' len)
    with src_fill_frame [OF fill(2)] assms lim show ?thesis by auto
  qed (use assms lim in \<open>auto dest!: src_probe_frame\<close>)
qed

lemma checkContext_env: "checkContext host op page row t = (r, t') \<Longrightarrow> \<exists>e. t' = t\<lparr>env := e\<rparr>"
  by (auto simp: checkContext_def ctxErr_def split: prod.splits option.splits)

text \<open>
  A predicate over the bytes still to be written and the state that survives a change of
  the environment and the bookkeeping of a partial write survives the write loop.
\<close>

lemma write_loop_invariant:
  assumes env: "\<And>b t e. P b t \<Longrightarrow> P b (t\<lparr>env := e\<rparr>)"
    and step: "\<And>b t n. P b t \<Longrightarrow> 0 \<le> n \<Longrightarrow> n \<le> int (length b) \<Longrightarrow> P (drop (nat n) b) (recordWrite n t)"
    and run: "write_loop host page row buf t = (r, t')" and start: "P buf t"
  shows "\<exists>b. P b t'"
  using run start
proof (induction "length buf" arbitrary: buf t rule: less_induct)
  case less
  show ?case
  proof (cases "buf = []")
    case True
    with less.prems show ?thesis by (auto simp: write_loop.simps [of host page row "[]" t])
  next
    case False
    obtain c t1 where c: "checkContext host ''write destination'' page row t = (c, t1)"
      by (metis prod.exhaust)
    with less.prems env checkContext_env have P1: "P buf t1" by blast
    obtain n err e2 where w: "hWrite host buf (env t1) = ((n, err), e2)" by (metis prod.exhaust)
    define t2 where "t2 = t1\<lparr>env := e2\<rparr>"
    define t3 where "t3 = recordWrite n t2"
    have P2: "P buf t2" unfolding t2_def using P1 by (rule env)
    have P3: "P (drop (nat n) buf) t3" if "0 \<le> n" "n \<le> int (length buf)"
      unfolding t3_def using P2 that by (rule step)
    consider (ctx) e where "c = Inl e" "t' = t1"
      | (bad) "t' = t2"
      | (stop) "0 \<le> n" "n \<le> int (length buf)" "t' = t3"
      | (more) "0 < n" "n \<le> int (length buf)" "write_loop host page row (drop (nat n) buf) t3 = (r, t')"
      using less.prems(1) False c w
      by (cases c)
         (auto simp: write_loop.simps [of host page row buf t] t2_def [symmetric] Let_def
            t3_def [symmetric] split: if_splits option.splits)
    then show ?thesis
    proof cases
      case more
      then show ?thesis using less.hyps [OF _ more(3)] P3 False by simp
    qed (use P1 P2 P3 in blast)+
  qed
qed

lemma recordWrite_simps [simp]:
  "wstatic (recordWrite n t) = wstatic t" "outputBytes (recordWrite n t) = outputBytes t + n"
  by (simp_all add: wstatic_def recordWrite_def emit_def Let_def split: option.splits)

lemma wstatic_env [simp]: "wstatic (t\<lparr>env := e\<rparr>) = wstatic t"
  by (simp add: wstatic_def)

lemma writeDst_frame:
  assumes "writeDst host buf page row t = (r, t')"
  shows "wstatic t' = wstatic t"
proof -
  obtain c t1 where c: "checkContext host ''write destination'' page row t = (c, t1)"
    by (metis prod.exhaust)
  then have t1: "wstatic t1 = wstatic t" by (auto dest: checkContext_env)
  have "wstatic t' = wstatic t" if "write_loop host page row buf t1 = (r, t')"
    using write_loop_invariant [of "\<lambda>_ s. wstatic s = wstatic t", OF _ _ that] t1 by simp
  with assms c t1 show ?thesis
    by (cases c) (auto simp: writeDst_def split: if_splits)
qed

lemma wstatic_limits: "wstatic t' = wstatic t \<Longrightarrow> limits t' = limits t"
  by (simp add: wstatic_def)

lemma writeDst_bound:
  assumes run: "writeDst host buf page row t = (r, t')" and pos: "0 < MaxOutputBytes (limits t)"
    and bnd: "0 \<le> outputBytes t" "outputBytes t \<le> MaxOutputBytes (limits t)"
  shows "0 \<le> outputBytes t' \<and> outputBytes t' \<le> MaxOutputBytes (limits t')"
proof -
  let ?M = "MaxOutputBytes (limits t)"
  let ?P = "\<lambda>(b :: byte list) (s :: 'a translator). 0 \<le> outputBytes s \<and> outputBytes s + int (length b) \<le> ?M"
  obtain c t1 where c: "checkContext host ''write destination'' page row t = (c, t1)"
    by (metis prod.exhaust)
  then obtain e1 where t1: "t1 = t\<lparr>env := e1\<rparr>" using checkContext_env by blast
  have "\<exists>b. ?P b t'" if "write_loop host page row buf t1 = (r, t')" "?P buf t1"
    by (rule write_loop_invariant [of ?P, OF _ _ that]) auto
  then have "write_loop host page row buf t1 = (r, t') \<Longrightarrow> ?P buf t1 \<Longrightarrow> 0 \<le> outputBytes t' \<and> outputBytes t' \<le> ?M"
    by fastforce
  then show ?thesis
    using run pos bnd c wstatic_limits [OF writeDst_frame [OF run]]
    by (cases c) (auto simp: writeDst_def t1 split: if_splits)
qed

subsection \<open>The configuration never changes while a page is processed\<close>

definition cfg where
  "cfg t = (limits t, mapping t, policy t, observer t, srcLimit t, pages t)"

lemma cfg_eqs: "rstatic t' = rstatic t \<Longrightarrow> cfg t' = cfg t" "wstatic t' = wstatic t \<Longrightarrow> cfg t' = cfg t"
  by (simp_all add: cfg_def rstatic_def wstatic_def)

interpretation cfg_inv: translator_invariant host "\<lambda>t. cfg t = c" for host c
proof
  show "cfg t = c \<Longrightarrow> src_read host k t = (r, t') \<Longrightarrow> cfg t' = c" for t k r t'
    using cfg_eqs(1) src_read_frame by metis
  show "keeps (\<lambda>t. cfg t = c) (writeDst host buf page row)" for buf page row
    using cfg_eqs(2) writeDst_frame by (metis keepsI)
qed (simp add: cfg_def)

lemma cfg_emit [simp]: "cfg (emit ev l t) = cfg t"
  by (simp add: cfg_def emit_def split: option.split)

lemma cfg_acquire: "acquire host cn sz t = (l, t') \<Longrightarrow> cfg t' = cfg t"
  by (auto simp: cfg_def acquire_def Let_def split: if_splits)

lemma keeps_validateDuplex [keep_rules]: "keeps I (validateDuplex mode page)"
  by (rule keepsI) (auto simp: validateDuplex_def Let_def split: if_splits)

lemma keeps_matchGeometry [keep_rules]: "keeps I (matchGeometry p page)"
  by (rule keepsI) (auto simp: matchGeometry_def split: if_splits prod.splits)

text \<open>Parsing a page changes the decoded-byte account and nothing else.\<close>

lemma keeps_parsePage:
  assumes "\<And>b page. keeps I (chargeDecoded b page)"
  shows "keeps I (parsePage raw)"
  unfolding parsePage_def [abs_def]
  by (rule keeps_state, unfold parsePage_checks_def Let_def) (intro keep_rules assms)

lemma keeps_cfg_parsePage: "keeps (\<lambda>t. cfg t = c) (parsePage raw)"
  by (rule keeps_parsePage, rule keepsI)
     (auto simp: chargeDecoded_def cfg_def split: prod.splits if_splits)

lemma keeps_emitPageHeader:
  assumes acq: "\<And>cn sz t l t'. I t \<Longrightarrow> acquire host cn sz t = (l, t') \<Longrightarrow> J l t'"
    and rel: "\<And>l t. J l t \<Longrightarrow> I (emit Release l t)"
    and run: "\<And>l. keeps (J l) (emitPageHeader_write host p)" "keeps I (emitPageHeader_write host p)"
  shows "keeps I (emitPageHeader host p)"
proof (rule keepsI)
  fix t r t'
  assume I: "I t" and eq: "emitPageHeader host p t = (r, t')"
  obtain l t1 where a: "acquire host ''urf/page-header'' (int pwgPageHeaderSize) t = (l, t1)"
    by (metis prod.exhaust)
  obtain r' t2 where w: "emitPageHeader_write host p t1 = (r', t2)" by (metis prod.exhaust)
  from I a have "J l t1" by (rule acq)
  then have "J l t2" using w by (rule keepsD [OF run(1)])
  then have "I (emit Release l t2)" by (rule rel)
  then show "I t'"
    using eq I a w keepsD [OF run(2)] by (auto simp: emitPageHeader_def split: if_splits)
qed

lemma cfg_offsetLease [simp]: "cfg (t\<lparr>offsetLease := l\<rparr>) = cfg t"
  by (simp add: cfg_def)

lemma cfg_pageCounts [simp]:
  "cfg (t\<lparr>pageCounts := c, pageCountsCap := n\<rparr>) = cfg t" "cfg (t\<lparr>pageCounts := c\<rparr>) = cfg t"
  by (simp_all add: cfg_def)

lemma keeps_appendPageCount:
  assumes upd: "\<And>t c n. I t \<Longrightarrow> I (t\<lparr>pageCounts := c, pageCountsCap := n\<rparr>)"
    and rel: "\<And>t. I t \<Longrightarrow> I ((emit Release (offsetLease t) t)\<lparr>offsetLease := None\<rparr>)"
    and acq: "\<And>t cn sz l t'. I t \<Longrightarrow> offsetLease t = None \<Longrightarrow> acquire host cn sz t = (l, t') \<Longrightarrow>
      I (t'\<lparr>offsetLease := l\<rparr>)"
  shows "keeps I (appendPageCount host off)"
proof (rule keepsI)
  fix t r t'
  assume I: "I t" and run: "appendPageCount host off t = (r, t')"
  define c where "c = (if length (pageCounts t) + 1 \<le> pageCountsCap t then pageCountsCap t
      else hGrow host (pageCountsCap t) (length (pageCounts t) + 1))"
  define t1 where "t1 = t\<lparr>pageCounts := pageCounts t @ [off], pageCountsCap := c\<rparr>"
  define t2 where "t2 = (emit Release (offsetLease t1) t1)\<lparr>offsetLease := None\<rparr>"
  obtain l t3 where a: "acquire host ''urf/page-offsets'' (int c * 8) t2 = (l, t3)" by (metis prod.exhaust)
  have "I t1" unfolding t1_def using I by (rule upd)
  moreover from this have "I t2" unfolding t2_def by (rule rel)
  moreover from this have "I (t3\<lparr>offsetLease := l\<rparr>)" by (rule acq [OF _ _ a]) (simp add: t2_def)
  moreover have "t' \<in> {t1, t2, t3\<lparr>offsetLease := l\<rparr>}"
    using run a unfolding appendPageCount_def Let_def c_def [symmetric] t1_def [symmetric] t2_def [symmetric]
    by (auto split: if_splits)
  ultimately show "I t'" by blast
qed

lemma keeps_cfg_appendPageCount: "keeps (\<lambda>t. cfg t = c) (appendPageCount host off)"
  by (rule keeps_appendPageCount) (simp_all add: cfg_acquire)

lemma keeps_emitPageHeader_write:
  assumes "\<And>buf page row. keeps I (writeDst host buf page row)" "\<And>off. keeps I (appendPageCount host off)"
  shows "keeps I (emitPageHeader_write host p)"
proof (rule keepsI)
  fix t r t'
  assume "I t" "emitPageHeader_write host p t = (r, t')"
  then show "I t'"
    using keepsD [OF keeps_seqE [OF assms]] by (auto simp: emitPageHeader_write_def split: if_splits)
qed

lemma keeps_cfg_emitPageHeader: "keeps (\<lambda>t. cfg t = c) (emitPageHeader host p)"
  by (rule keeps_emitPageHeader [where J = "\<lambda>_ t. cfg t = c"])
     (auto dest: cfg_acquire intro!: keeps_emitPageHeader_write cfg_inv.inv_write keeps_cfg_appendPageCount)

lemma keeps_cfg_processPage: "keeps (\<lambda>t. cfg t = c) (processPage host raw)"
  unfolding processPage_def
  by (intro keep_rules keeps_cfg_parsePage keeps_cfg_emitPageHeader cfg_inv.keeps_copyPageData)

text \<open>A page that was processed completely was within the page limit, and is counted once.\<close>

lemma translatePage_next:
  assumes "translatePage host t = (Inr False, t')"
  shows "limits t' = limits t" "pages t' = pages t + 1"
    "MaxPages (limits t) = 0 \<or> pages t < MaxPages (limits t)"
proof -
  from assms obtain x t1 raw t2
    where c: "checkContext host ''read page header'' (pages t + 1) 0 t = (Inr x, t1)"
      and h: "readHeader host t1 = (Inr raw, t2)"
      and n: "(if length raw < urfPageHeaderSize then ret True else nextPage host raw) t2 = (Inr False, t')"
    unfolding translatePage_def by (elim seqE_InrE bindE_InrE) blast
  have t2: "cfg t2 = cfg t"
    using keepsD [OF cfg_inv.keeps_checkContext refl c] keepsD [OF cfg_inv.keeps_readHeader refl h] by simp
  from n have lim: "\<not> (MaxPages (limits t2) > 0 \<and> pages t2 \<ge> MaxPages (limits t2))"
    and run: "seqE (processPage host raw) (seqE (modify (\<lambda>t. t\<lparr>pages := pages t + 1\<rparr>)) (ret False)) t2
      = (Inr False, t')"
    by (auto simp: nextPage_def split: if_splits)
  from run obtain y t3 where p: "processPage host raw t2 = (Inr y, t3)"
    and t': "t' = t3\<lparr>pages := pages t3 + 1\<rparr>"
    by (elim seqE_InrE) simp
  have "cfg t3 = cfg t" using keepsD [OF keeps_cfg_processPage refl p] t2 by simp
  with t2 lim t' show "limits t' = limits t" "pages t' = pages t + 1"
    "MaxPages (limits t) = 0 \<or> pages t < MaxPages (limits t)"
    by (auto simp: cfg_def not_less word_gt_0)
qed

lemma unat_succ_less: "a < b \<Longrightarrow> unat (a + 1 :: u32) = unat a + 1"
proof -
  assume "a < b"
  moreover have "unat b < 2 ^ LENGTH(32)" by (rule unsigned_less)
  ultimately show ?thesis by (simp add: unat_word_ariths word_less_nat_alt)
qed

text \<open>The page loop ends: the page limit bounds the number of iterations.\<close>

lemma translatePages_returns:
  assumes "MaxPages (limits t) \<noteq> 0"
  shows "\<exists>r. translatePages host t = Some r"
  using assms
proof (induction "unat (MaxPages (limits t)) - unat (pages t)" arbitrary: t rule: less_induct)
  case less
  obtain r t1 where step: "translatePage host t = (r, t1)" by (metis prod.exhaust)
  show ?case
  proof (cases "r = Inr False")
    case True
    note nxt = translatePage_next [OF step [unfolded True]]
    then have lt: "pages t < MaxPages (limits t)" using less.prems by simp
    then have "unat (pages t1) = unat (pages t) + 1"
      using nxt(2) by (simp add: unat_succ_less)
    then have "\<exists>r. translatePages host t1 = Some r"
      using less lt nxt(1) by (intro less.hyps) (auto simp: word_less_nat_alt)
    then show ?thesis using step True by (simp add: translatePages.simps [of host t])
  next
    case False
    then show ?thesis
      using step by (cases r) (auto simp: translatePages.simps [of host t])
  qed
qed

subsection \<open>Invariants of the whole translation\<close>

lemma keeps_conj: "keeps I m \<Longrightarrow> keeps J m \<Longrightarrow> keeps (\<lambda>t. I t \<and> J t) m"
  by (simp add: keeps_def)

text \<open>An invariant of the staging file survives the patches of the final phase as well.\<close>

locale staging_invariant = translator_invariant host I
  for host :: "'e host" and I :: "'e translator \<Rightarrow> bool" +
  assumes inv_patch: "I t \<Longrightarrow> I (emit (\<lambda>i. Written i n) (outputLease t) t)"
    and inv_size: "I t \<Longrightarrow> I (t\<lparr>outputSize := outputBytes t\<rparr>)"
begin

lemma inv_seek: "I t \<Longrightarrow> seek host off wh t = (r, t') \<Longrightarrow> I t'"
  by (auto simp: seek_def inv_env split: prod.splits)

lemma keeps_seekWrite_loop: "keeps I (seekWrite_loop host buf op)"
proof (induction "length buf" arbitrary: buf rule: less_induct)
  case less
  show ?case
  proof (rule keepsI)
    fix t r t'
    assume I: "I t" and run: "seekWrite_loop host buf op t = (r, t')"
    show "I t'"
    proof (cases "buf = []")
      case True
      with run I show ?thesis by (simp add: seekWrite_loop.simps [of host "[]" op t])
    next
      case False
      obtain c t1 where c: "checkContext host op (pages t) 0 t = (c, t1)" by (metis prod.exhaust)
      with I have I1: "I t1" using keepsD [OF keeps_checkContext] by blast
      obtain n err e2 where w: "hWrite host buf (env t1) = ((n, err), e2)" by (metis prod.exhaust)
      define t2 where "t2 = t1\<lparr>env := e2\<rparr>"
      define t3 where "t3 = emit (\<lambda>i. Written i n) (outputLease t2) t2"
      have I2: "I t2" unfolding t2_def using I1 by (rule inv_env)
      then have I3: "I t3" unfolding t3_def by (rule inv_patch)
      consider "t' = t1" | "t' = t2" | "t' = t3"
        | "0 < n" "n \<le> int (length buf)" "seekWrite_loop host (drop (nat n) buf) op t3 = (r, t')"
        using run False c w
        by (cases c)
           (auto simp: seekWrite_loop.simps [of host buf op t] t2_def [symmetric] Let_def
              t3_def [symmetric] split: if_splits option.splits)
      then show ?thesis
      proof cases
        case 4
        then have "keeps I (seekWrite_loop host (drop (nat n) buf) op)"
          using False by (intro less.hyps) simp
        then show ?thesis using I3 4(3) by (rule keepsD)
      qed (use I1 I2 I3 in simp_all)
    qed
  qed
qed

lemma keeps_seekWrite: "keeps I (seekWrite host off buf op)"
proof (rule keepsI)
  fix t r t'
  assume I: "I t" and run: "seekWrite host off buf op t = (r, t')"
  obtain c t1 where c: "checkContext host op (pages t) 0 t = (c, t1)" by (metis prod.exhaust)
  with I have I1: "I t1" using keepsD [OF keeps_checkContext] by blast
  obtain q err t2 where k: "seek host off SeekStart t1 = ((q, err), t2)" by (metis prod.exhaust)
  with I1 have I2: "I t2" by (rule inv_seek)
  from run c k I1 I2 show "I t'"
    by (cases c) (auto simp: seekWrite_def split: if_splits option.splits
        dest: keepsD [OF keeps_seekWrite_loop])
qed

lemma keeps_prepareDestination: "keeps I (prepareDestination host)"
proof -
  have "keeps I (prepareSeek host wh op msg)" for wh op msg
  proof (rule keepsI)
    fix t r t'
    assume "I t" "prepareSeek host wh op msg t = (r, t')"
    then show "I t'"
      by (auto simp: prepareSeek_def dest: inv_seek split: prod.splits option.splits if_splits)
  qed
  then show ?thesis unfolding prepareDestination_def by (intro keeps_io)
qed

lemma keeps_finalize: "keeps I (finalize host)"
proof -
  have m: "keeps I (measureDestination host)"
    by (rule keepsI)
       (auto simp: measureDestination_def dest: inv_seek split: prod.splits option.splits if_splits)
  have w: "keeps I (rewindDestination host)"
    by (rule keepsI)
       (auto simp: rewindDestination_def dest: inv_seek split: prod.splits option.splits if_splits)
  have "keeps I (finalize_pages host n offs)" for n offs
    unfolding finalize_pages_def
    by (intro keeps_io keeps_seekWrite m w keeps_modify inv_size)
       (simp_all add: keeps_def guardE_def)
  then show ?thesis unfolding finalize_def [abs_def] by (rule keeps_state)
qed

end

text \<open>
  An invariant of a document: it also survives the bookkeeping of a page and the count of a
  finished page.
\<close>

locale document_invariant = staging_invariant host I
  for host :: "'e host" and I :: "'e translator \<Rightarrow> bool" +
  assumes inv_charge: "keeps I (chargeDecoded b page)"
    and inv_header: "keeps I (emitPageHeader host p)"
    and inv_next: "I t \<Longrightarrow> MaxPages (limits t) = 0 \<or> pages t < MaxPages (limits t) \<Longrightarrow> I (t\<lparr>pages := pages t + 1\<rparr>)"
begin

lemma keeps_processPage: "keeps I (processPage host raw)"
  unfolding processPage_def
  by (intro keep_rules keeps_parsePage inv_charge inv_header keeps_copyPageData)

lemma keeps_nextPage: "keeps I (nextPage host raw)"
proof (rule keepsI)
  fix t r t'
  assume I: "I t" and run: "nextPage host raw t = (r, t')"
  obtain x t1 where p: "processPage host raw t = (x, t1)" by (metis prod.exhaust)
  have I1: "I t1" using keeps_processPage I p by (rule keepsD)
  have "cfg t1 = cfg t" using keeps_cfg_processPage refl p by (rule keepsD)
  then have "limits t1 = limits t" "pages t1 = pages t" by (simp_all add: cfg_def)
  with inv_next [OF I1]
  have "MaxPages (limits t) = 0 \<or> pages t < MaxPages (limits t) \<Longrightarrow> I (t1\<lparr>pages := pages t1 + 1\<rparr>)"
    by simp
  with I I1 run p show "I t'"
    by (cases x) (auto simp: nextPage_def not_less word_gt_0 not_le split: if_splits)
qed

lemma keeps_translatePage: "keeps I (translatePage host)"
  unfolding translatePage_def [abs_def]
  by (rule keeps_state) (intro keeps_io keeps_nextPage)

lemma translatePages_inv:
  assumes "translatePages host t = Some (r, t')" and "I t"
  shows "I t'"
proof -
  have "I t \<longrightarrow> I (snd (r, t'))"
  proof (rule translatePages.raw_induct [where P = "\<lambda>h t p. h = host \<longrightarrow> I t \<longrightarrow> I (snd p)",
        OF _ assms(1), THEN mp, OF _ refl])
    fix f :: "'e host \<Rightarrow> 'e translator \<Rightarrow> ((urf_error + unit) \<times> 'e translator) option" and h t p
    assume IH: "\<And>h t p. f h t = Some p \<Longrightarrow> h = host \<longrightarrow> I t \<longrightarrow> I (snd p)"
      and eq: "(case translatePage h t of (r, t') \<Rightarrow> (case r of Inl e \<Rightarrow> Some (Inl e, t')
          | Inr finished \<Rightarrow> if finished then Some (Inr (), t') else f h t')) = Some p"
    obtain x t1 where step: "translatePage h t = (x, t1)" by (metis prod.exhaust)
    have "h = host \<Longrightarrow> I t \<Longrightarrow> I t1" using keepsD [OF keeps_translatePage] step by blast
    with eq step IH show "h = host \<longrightarrow> I t \<longrightarrow> I (snd p)"
      by (cases x) (fastforce split: if_splits)+
  qed
  with assms(2) show ?thesis by simp
qed

lemma translateBody_inv:
  assumes run: "translateBody host t = Some (r, t')" and I: "I t"
  shows "I t'"
proof -
  obtain x t1 where p: "seqE (prepareDestination host) (readFileHeader host) t = (x, t1)"
    by (metis prod.exhaust)
  have I1: "I t1"
    using keeps_seqE [OF keeps_prepareDestination keeps_readFileHeader] I p by (rule keepsD)
  have fin: "keeps I (bindE (finalize host) (\<lambda>_. gets g))" for g :: "'e translator \<Rightarrow> Result"
    by (intro keeps_io keeps_finalize)
  from run p I1 show ?thesis
    by (auto simp: translateBody_def split: sum.splits option.splits prod.splits if_splits
        dest: translatePages_inv keepsD [OF fin])
qed

end

subsection \<open>The limits are fixed\<close>

lemma limits_emit [simp]: "limits (emit ev l t) = limits t"
  by (simp add: emit_def split: option.split)

interpretation cfg_stage: staging_invariant host "\<lambda>t. cfg t = c" for host c
  by unfold_locales (simp_all, simp add: cfg_def)

lemma cfgD: "cfg t' = cfg t \<Longrightarrow> limits t' = limits t \<and> pages t' = pages t \<and> srcLimit t' = srcLimit t"
  by (simp add: cfg_def)

lemma keeps_limits: "(\<And>c. keeps (\<lambda>t. cfg t = c) m) \<Longrightarrow> keeps (\<lambda>t. limits t = L) m"
  unfolding keeps_def using cfgD by blast

interpretation lim: document_invariant host "\<lambda>t. limits t = L" for host L
proof
  show "limits t = L \<Longrightarrow> src_read host k t = (r, t') \<Longrightarrow> limits t' = L" for t k r t'
    using src_read_frame by (fastforce simp: rstatic_def)
  show "keeps (\<lambda>t. limits t = L) (writeDst host buf page row)" for buf page row
    by (rule keeps_limits) (rule cfg_inv.inv_write)
  show "keeps (\<lambda>t. limits t = L) (chargeDecoded b page)" for b page
    by (rule keepsI) (auto simp: chargeDecoded_def split: prod.splits if_splits)
  show "keeps (\<lambda>t. limits t = L) (emitPageHeader host p)" for p
    by (rule keeps_limits) (rule keeps_cfg_emitPageHeader)
qed simp_all

lemma translateBody_returns:
  assumes "MaxPages (limits t) \<noteq> 0"
  shows "\<exists>r. translateBody host t = Some r"
proof -
  obtain x t1 where p: "seqE (prepareDestination host) (readFileHeader host) t = (x, t1)"
    by (metis prod.exhaust)
  have "limits t1 = limits t"
    using keeps_seqE [OF lim.keeps_prepareDestination lim.keeps_readFileHeader] refl p by (rule keepsD)
  then obtain r2 t2 where "translatePages host t1 = Some (r2, t2)"
    using translatePages_returns [of t1 host] assms by auto
  with p show ?thesis by (auto simp: translateBody_def split: sum.split)
qed

subsection \<open>Resource bounds\<close>

definition bounded :: "'e translator \<Rightarrow> bool" where
  "bounded t \<longleftrightarrow> limits_ok (limits t) \<and> srcLimit t = MaxInputBytes (limits t)
     \<and> 0 \<le> srcCount t \<and> srcCount t \<le> srcLimit t
     \<and> 0 \<le> outputBytes t \<and> outputBytes t \<le> MaxOutputBytes (limits t)
     \<and> 0 \<le> outputSize t \<and> outputSize t \<le> MaxOutputBytes (limits t)
     \<and> pageLogical t \<le> MaxDecodedBytes (limits t) \<and> pages t \<le> MaxPages (limits t)"

lemma bounded_emit [simp]: "bounded (emit ev l t) = bounded t"
  by (simp add: bounded_def emit_def split: option.split)

lemma bounded_acquire: "bounded t \<Longrightarrow> acquire host cn sz t = (l, t') \<Longrightarrow> bounded t'"
  by (auto simp: bounded_def acquire_def Let_def split: if_splits)

lemma bounded_upd [simp]:
  "bounded (t\<lparr>offsetLease := l\<rparr>) = bounded t" "bounded (t\<lparr>pageCounts := c\<rparr>) = bounded t"
  "bounded (t\<lparr>pageCounts := c, pageCountsCap := n\<rparr>) = bounded t"
  by (simp_all add: bounded_def)

lemma keeps_bounded_write: "keeps bounded (writeDst host buf page row)"
proof (rule keepsI)
  fix t r t'
  assume b: "bounded t" and run: "writeDst host buf page row t = (r, t')"
  have "0 \<le> outputBytes t' \<and> outputBytes t' \<le> MaxOutputBytes (limits t')"
    by (rule writeDst_bound [OF run]) (use b in \<open>simp_all add: bounded_def limits_ok_def\<close>)
  with writeDst_frame [OF run] b show "bounded t'" by (simp add: bounded_def wstatic_def)
qed

lemma keeps_bounded_append: "keeps bounded (appendPageCount host off)"
  by (rule keeps_appendPageCount) (simp_all add: bounded_acquire)

interpretation bnd: document_invariant host bounded for host
proof
  show "bounded t \<Longrightarrow> src_read host k t = (r, t') \<Longrightarrow> bounded t'" for t k r t'
    using src_read_frame [of host k t r t'] src_read_count [of host k t r t']
    by (simp add: bounded_def rstatic_def limits_ok_def)
  show "keeps bounded (chargeDecoded b page)" for b page
    by (rule keepsI)
       (auto simp: chargeDecoded_def checkedAddWithin_spec bounded_def limits_ok_def word_le_nat_alt
          unat_word_ariths split: prod.splits if_splits)
  show "keeps bounded (emitPageHeader host p)" for p
    by (rule keeps_emitPageHeader [where J = "\<lambda>_. bounded"])
       (auto dest: bounded_acquire intro!: keeps_emitPageHeader_write keeps_bounded_write keeps_bounded_append)
  show "bounded (t\<lparr>pages := pages t + 1\<rparr>)"
    if "bounded t" "MaxPages (limits t) = 0 \<or> pages t < MaxPages (limits t)" for t :: "'a translator"
    using that unat_succ_less [of "pages t" "MaxPages (limits t)"]
    by (auto simp: bounded_def limits_ok_def word_le_nat_alt word_less_nat_alt)
  show "bounded (emit (\<lambda>i. Written i n) (outputLease t) t)" if "bounded t" for t :: "'a translator" and n
    using that by simp
qed (simp_all add: keeps_bounded_write, simp_all add: bounded_def)

subsection \<open>Leases\<close>

text \<open>
  The observer's view: a lease is open from its acquisition to its release, it is acquired
  only when it is not open, and sized, written or released only while it is open. \<open>leases\<close>
  is the set of open leases after a sequence of events, \<open>None\<close> after a violation.
\<close>

fun lease_step :: "nat set option \<Rightarrow> lease_event \<Rightarrow> nat set option" where
  "lease_step None ev = None"
| "lease_step (Some L) (Acquire i cn sz) = (if i \<in> L then None else Some (insert i L))"
| "lease_step (Some L) (SetSize i n) = (if i \<in> L then Some L else None)"
| "lease_step (Some L) (Written i n) = (if i \<in> L then Some L else None)"
| "lease_step (Some L) (Release i) = (if i \<in> L then Some (L - {i}) else None)"

definition leases :: "lease_event list \<Rightarrow> nat set option" where
  "leases evs = foldl lease_step (Some {}) evs"

lemma leases_append [simp]: "leases (evs @ evs') = foldl lease_step (leases evs) evs'"
  by (simp add: leases_def)

definition held where
  "held t = set_option (offsetLease t) \<union> set_option (outputLease t) \<union> set_option (scratchLease t)"

text \<open>\<open>X\<close> are the open leases that the translator object does not hold itself.\<close>

definition lease_inv :: "nat set \<Rightarrow> 'e translator \<Rightarrow> bool" where
  "lease_inv X t \<longleftrightarrow>
     leases (events t) = Some (held t \<union> X) \<and> (\<forall>i \<in> held t \<union> X. i < acquired t) \<and> held t \<inter> X = {}
     \<and> (\<forall>i. offsetLease t = Some i \<longrightarrow> outputLease t \<noteq> Some i \<and> scratchLease t \<noteq> Some i)
     \<and> (\<forall>i. outputLease t = Some i \<longrightarrow> scratchLease t \<noteq> Some i)"

lemma lease_inv_env [simp]: "lease_inv X (t\<lparr>env := e\<rparr>) = lease_inv X t"
  by (simp add: lease_inv_def held_def)

lemma lease_inv_rstatic: "rstatic t' = rstatic t \<Longrightarrow> lease_inv X t' = lease_inv X t"
  by (simp add: lease_inv_def held_def rstatic_def)

lemma lease_inv_written:
  "lease_inv X t \<Longrightarrow> lease_inv X (emit (\<lambda>i. Written i n) (outputLease t) t)"
  by (auto simp: lease_inv_def held_def emit_def split: option.splits)

lemma lease_inv_recordWrite: "lease_inv X t \<Longrightarrow> lease_inv X (recordWrite n t)"
  by (auto simp: lease_inv_def held_def emit_def recordWrite_def Let_def split: option.splits)

lemma keeps_lease_write: "keeps (lease_inv X) (writeDst host buf page row)"
proof (rule keepsI)
  fix t r t'
  assume I: "lease_inv X t" and run: "writeDst host buf page row t = (r, t')"
  obtain c t1 where c: "checkContext host ''write destination'' page row t = (c, t1)"
    by (metis prod.exhaust)
  with I have I1: "lease_inv X t1" by (auto dest: checkContext_env)
  have "lease_inv X t'" if "write_loop host page row buf t1 = (r, t')"
    using write_loop_invariant [of "\<lambda>_. lease_inv X", OF _ _ that I1] lease_inv_recordWrite by auto
  with run c I1 show "lease_inv X t'"
    by (cases c) (auto simp: writeDst_def split: if_splits)
qed

lemma lease_inv_release_offset:
  "lease_inv X t \<Longrightarrow> lease_inv X ((emit Release (offsetLease t) t)\<lparr>offsetLease := None\<rparr>)"
  by (auto simp: lease_inv_def held_def emit_def split: option.splits)

lemma lease_inv_acquire_offset:
  assumes "lease_inv X t" "offsetLease t = None" "acquire host cn sz t = (l, t')"
  shows "lease_inv X (t'\<lparr>offsetLease := l\<rparr>)"
  using assms by (auto simp: lease_inv_def held_def acquire_def Let_def less_Suc_eq split: if_splits)

lemma lease_inv_acquire_header:
  "lease_inv {} t \<Longrightarrow> acquire host cn sz t = (l, t') \<Longrightarrow> lease_inv (set_option l) t'"
  by (auto simp: lease_inv_def held_def acquire_def Let_def split: if_splits)

lemma lease_inv_release_header: "lease_inv (set_option l) t \<Longrightarrow> lease_inv {} (emit Release l t)"
  by (auto simp: lease_inv_def held_def emit_def split: option.splits)

lemma keeps_lease_header: "keeps (lease_inv X) (emitPageHeader_write host p)"
proof (rule keeps_emitPageHeader_write [OF keeps_lease_write])
  show "keeps (lease_inv X) (appendPageCount host off)" for off
    by (rule keeps_appendPageCount)
       (simp add: lease_inv_def held_def, erule lease_inv_release_offset, erule (2) lease_inv_acquire_offset)
qed

interpretation lse: document_invariant host "lease_inv {}" for host
proof
  show "lease_inv {} t \<Longrightarrow> src_read host k t = (r, t') \<Longrightarrow> lease_inv {} t'" for t k r t'
    using src_read_frame lease_inv_rstatic by blast
  show "keeps (lease_inv {}) (chargeDecoded b page)" for b page
    by (rule keepsI)
       (auto simp: chargeDecoded_def lease_inv_def held_def split: prod.splits if_splits)
  show "keeps (lease_inv {}) (emitPageHeader host p)" for p
    by (rule keeps_emitPageHeader [where J = "\<lambda>l. lease_inv (set_option l)"])
       (erule (1) lease_inv_acquire_header, erule lease_inv_release_header, rule keeps_lease_header,
        rule keeps_lease_header)
qed (simp_all add: keeps_lease_write lease_inv_written, simp_all add: lease_inv_def held_def)

lemma releaseResources_leases: "lease_inv {} t \<Longrightarrow> leases (events (releaseResources t)) = Some {}"
  by (auto simp: lease_inv_def held_def releaseResources_def emit_def Let_def split: option.splits)

lemma lease_inv_initial: "lease_inv {} (acquireInitial host (newTranslator l p opts e))"
  by (auto simp: lease_inv_def held_def acquireInitial_def newTranslator_def acquire_def leases_def Let_def
      split: prod.splits if_splits)

subsection \<open>Properties of \<^verbatim>\<open>Translate\<close>\<close>

lemma Translate_Some:
  assumes "Translate host0 nilCtx nilSrc nilDst opts e = Some (r, e', evs)"
  obtains (early) err where "r = Inl err" "evs = []"
  | (body) host pol e1 t where "validateLimits (OLimits opts) = Inr ()"
      "validatePageSettings (OPage opts) = Inr pol" "validateMapping (OMapping opts) = Inr ()"
      "translateBody host (acquireInitial host
         (newTranslator (effectiveLimits (OLimits opts)) pol opts e1)) = Some (r, t)"
      "e' = env (releaseResources t)" "evs = events (releaseResources t)"
  using assms unfolding Translate_def Let_def
  by (auto simp: sumBind_Inr_iff split: prod.splits option.splits if_splits sum.splits)

lemma translateBody_result:
  assumes "translateBody host t = Some (Inr res, t')"
  shows "res = \<lparr>InputBytes = srcCount t', OutputBytes = outputSize t', Pages = pages t'\<rparr>"
    "pages t' \<noteq> 0"
proof -
  obtain t1 where nz: "pages t1 \<noteq> 0"
    and fin: "bindE (finalize host) (\<lambda>_. gets (\<lambda>t.
      \<lparr>InputBytes = srcCount t, OutputBytes = outputSize t, Pages = pages t\<rparr>)) t1 = (Inr res, t')"
    using assms unfolding translateBody_def
    by (auto split: prod.splits sum.splits option.splits if_splits)
  from fin obtain u where f: "finalize host t1 = (Inr u, t')"
    and res: "res = \<lparr>InputBytes = srcCount t', OutputBytes = outputSize t', Pages = pages t'\<rparr>"
    by (elim bindE_InrE) auto
  have "cfg t' = cfg t1" using cfg_stage.keeps_finalize refl f by (rule keepsD)
  with nz res show "res = \<lparr>InputBytes = srcCount t', OutputBytes = outputSize t', Pages = pages t'\<rparr>"
    "pages t' \<noteq> 0" by (simp_all add: cfg_def)
qed

lemma bounded_initial:
  assumes "validateLimits l = Inr u"
  shows "bounded (acquireInitial host (newTranslator (effectiveLimits l) pol opts e))"
proof -
  have "bounded (newTranslator (effectiveLimits l) pol opts e)"
    using effectiveLimits_ok [OF assms] by (auto simp: bounded_def newTranslator_def limits_ok_def)
  then show ?thesis
    by (auto simp: acquireInitial_def acquire_def Let_def bounded_def split: prod.splits if_splits)
qed

end
