(* ===== verification/Urf_Spec.thy ===== *)
theory Urf_Spec
  imports Urf_Safety
begin

text \<open>
  What a translation means, without readers, writers or state: which page headers are
  accepted, how much of the input is one page, and which PWG Raster file a list of pages
  stands for. \<open>parsePage\<close> is shown to accept exactly the headers that \<open>page_ok\<close> describes.
\<close>

unbundle bit_operations_syntax

subsection \<open>Accepted page headers\<close>

definition within :: "nat \<Rightarrow> 'a :: len word \<Rightarrow> bool" where
  "within n l \<longleftrightarrow> l = 0 \<or> n \<le> unat l"

definition geometry :: "pagePolicy \<Rightarrow> pageDescription \<Rightarrow> bool option" where
  "geometry pol p =
     (let dw = unat (mediaWidth pol) * unat (resolution p) div 2540;
          dh = unat (mediaHeight pol) * unat (resolution p) div 2540 in
      if mediaWidth pol = 0 \<or> mediaHeight pol = 0 then Some False
      else if dw = 0 \<or> dh = 0 \<or> 2 ^ 32 \<le> dw \<or> 2 ^ 32 \<le> dh then None
      else if unat (width p) = dw \<and> unat (height p) = dh then Some False
      else if unat (width p) = dh \<and> unat (height p) = dw then Some True
      else None)"

definition duplex_ok :: "pagePolicy \<Rightarrow> u8 \<Rightarrow> bool" where
  "duplex_ok pol mode \<longleftrightarrow>
     (sides pol = ''one-sided'' \<longrightarrow> mode < 2)
     \<and> (sides pol = ''two-sided-long-edge'' \<longrightarrow> 2 < mode)
     \<and> (sides pol = ''two-sided-short-edge'' \<longrightarrow> mode = 2)"

definition row_size :: "Mapping \<Rightarrow> pageDescription \<Rightarrow> nat" where
  "row_size m p = unat (width p) * (unat (fst (snd (sourceMapping m))) div 8)"

definition page_ok :: "Limits \<Rightarrow> pagePolicy \<Rightarrow> Mapping \<Rightarrow> u64 \<Rightarrow> pageDescription \<Rightarrow> bool" where
  "page_ok l pol m decoded p \<longleftrightarrow>
     colorSpace p = fst (sourceMapping m) \<and> bitsPerPixel p = fst (snd (sourceMapping m))
     \<and> width p \<noteq> 0 \<and> height p \<noteq> 0
     \<and> resolution p \<noteq> 0 \<and> resolution p = resX pol \<and> resolution p = resY pol
     \<and> within (unat (width p)) (MaxWidth l) \<and> within (unat (height p)) (MaxHeight l)
     \<and> 0 < row_size m p \<and> within (row_size m p) (MaxRowBytes l) \<and> row_size m p < 2 ^ 32
     \<and> unat decoded + row_size m p * unat (height p) < 2 ^ 64
     \<and> within (unat decoded + row_size m p * unat (height p)) (MaxDecodedBytes l)
     \<and> geometry pol p \<noteq> None \<and> duplex_ok pol (duplexMode p)"

definition described :: "pagePolicy \<Rightarrow> Mapping \<Rightarrow> pageDescription \<Rightarrow> pageDescription" where
  "described pol m p =
     p\<lparr>landscape := (geometry pol p = Some True), rowBytes := of_nat (row_size m p),
       pwgColorSpace := snd (snd (sourceMapping m)),
       pwgBitsPerPixel := ucast (fst (snd (sourceMapping m))), pwgBitsPerColor := 8,
       pwgNumColors := (if fst (snd (sourceMapping m)) = 8 then 1 else 3)\<rparr>"


definition page_bytes :: "Mapping \<Rightarrow> pageDescription \<Rightarrow> nat" where
  "page_bytes m p = row_size m p * unat (height p)"

lemma over_limit: "(0 < l \<and> l < x) \<longleftrightarrow> \<not> within (unat x) l"
  by (auto simp: within_def word_less_nat_alt word_gt_0 unat_gt_0 not_le)

lemma bindE_Inr_iff: "bindE m k s = (Inr y, t) \<longleftrightarrow> (\<exists>x s'. m s = (Inr x, s') \<and> k x s' = (Inr y, t))"
  by (auto elim: bindE_InrE)

lemma seqE_Inr_iff: "seqE m k s = (Inr y, t) \<longleftrightarrow> (\<exists>x s'. m s = (Inr x, s') \<and> k s' = (Inr y, t))"
  by (auto elim: seqE_InrE)

lemma seqE_guardE_iff: "seqE (guardE b e) k s = (Inr x, t) \<longleftrightarrow> \<not> b \<and> k s = (Inr x, t)"
  by (simp add: guardE_def)

lemma validateDuplex_iff:
  "validateDuplex mode page t = (Inr u, t') \<longleftrightarrow> duplex_ok (policy t) mode \<and> t' = t"
  by (auto simp: validateDuplex_def duplex_ok_def Let_def word_le_nat_alt word_less_nat_alt not_le
      word_unat_eq_iff)

lemma chargeDecoded_iff:
  "chargeDecoded b page t = (Inr u, t') \<longleftrightarrow>
     unat (pageLogical t) + unat b < 2 ^ 64
     \<and> within (unat (pageLogical t) + unat b) (MaxDecodedBytes (limits t))
     \<and> t' = t\<lparr>pageLogical := pageLogical t + b\<rparr>"
  by (auto simp: chargeDecoded_def checkedAddWithin_spec within_def split: if_splits)

lemma mediaPixels_eq:
  "mediaPixels w h d =
     (let dw = unat w * unat d div 2540; dh = unat h * unat d div 2540 in
      if dw = 0 \<or> dh = 0 \<or> 2 ^ 32 \<le> dw \<or> 2 ^ 32 \<le> dh then (0, 0, False)
      else (of_nat dw, of_nat dh, True))"
proof -
  have small: "unat a * unat b < 2 ^ 64" for a b :: u32
  proof -
    have "unat a < 2 ^ 32" "unat b < 2 ^ 32" using unsigned_less [of a] unsigned_less [of b] by simp_all
    then have "unat a * unat b < 2 ^ 32 * 2 ^ 32" by (intro mult_strict_mono) auto
    then show ?thesis by simp
  qed
  have div: "unat ((ucast a * ucast b :: u64) div 2540) = unat a * unat b div 2540" for a b :: u32
    using small [of a b] by (simp add: unat_div unat_word_ariths)
  have cast: "ucast ((ucast a * ucast b :: u64) div 2540) = (of_nat (unat a * unat b div 2540) :: u32)" for a b :: u32
    by (simp flip: div)
  have gt: "(ucast a * ucast b :: u64) div 2540 > maxU32 \<longleftrightarrow> 2 ^ 32 \<le> unat a * unat b div 2540" for a b :: u32
    by (auto simp: word_less_nat_alt div maxU32_def)
  have z: "(ucast a * ucast b :: u64) div 2540 = 0 \<longleftrightarrow> unat a * unat b div 2540 = 0" for a b :: u32
    by (simp add: word_unat_eq_iff div del: div_eq_0_iff)
  show ?thesis
    by (simp add: mediaPixels_def checkedMul_spec small [simplified] Let_def z gt [simplified] cast
        del: div_eq_0_iff)
qed

lemma of_nat_eq_u32: "n < 2 ^ 32 \<Longrightarrow> (x :: u32) = of_nat n \<longleftrightarrow> unat x = n"
  by (auto simp: unat_of_nat)

lemma matchGeometry_iff:
  "matchGeometry p page t = (Inr b, t') \<longleftrightarrow> geometry (policy t) p = Some b \<and> t' = t"
proof -
  define dw where "dw = unat (mediaWidth (policy t)) * unat (resolution p) div 2540"
  define dh where "dh = unat (mediaHeight (policy t)) * unat (resolution p) div 2540"
  define bad where "bad \<longleftrightarrow> dw = 0 \<or> dh = 0 \<or> 2 ^ 32 \<le> dw \<or> 2 ^ 32 \<le> dh"
  have px: "mediaPixels (mediaWidth (policy t)) (mediaHeight (policy t)) (resolution p) =
      (if bad then (0, 0, False) else (of_nat dw, of_nat dh, True))"
    unfolding mediaPixels_eq bad_def dw_def dh_def Let_def by (rule refl)
  have geo: "geometry (policy t) p =
      (if mediaWidth (policy t) = 0 \<or> mediaHeight (policy t) = 0 then Some False
       else if bad then None
       else if unat (width p) = dw \<and> unat (height p) = dh then Some False
       else if unat (width p) = dh \<and> unat (height p) = dw then Some True
       else None)"
    unfolding geometry_def bad_def dw_def dh_def Let_def by (rule refl)
  have w: "x = of_nat dw \<longleftrightarrow> unat x = dw" "x = of_nat dh \<longleftrightarrow> unat x = dh" if "\<not> bad" for x :: u32
    using that of_nat_eq_u32 [of dw x] of_nat_eq_u32 [of dh x] unfolding bad_def de_Morgan_disj not_le
    by blast+
  show ?thesis
  proof (cases bad)
    case True
    then show ?thesis unfolding matchGeometry_def geo px by (simp add: eq_commute [of t])
  next
    case False
    then show ?thesis unfolding matchGeometry_def geo px
      by (simp only: w if_False not_False_eq_True prod.case split: if_split) blast
  qed
qed

lemma row_size_word:
  fixes w :: u32 and b :: u8
  shows "checkedMul (ucast w) (ucast (b div 8)) = (of_nat (unat w * (unat b div 8)), True)"
    and "unat w * (unat b div 8) < 2 ^ 64"
proof -
  have b: "unat (ucast (b div 8) :: u64) = unat b div 8"
    using unat_byte [of "b div 8"] by (simp add: unsigned_ucast_eq take_bit_nat_eq_self_iff unat_div)
  have "unat w < 2 ^ 32" using unsigned_less [of w] by simp
  moreover have "unat b div 8 < 2 ^ 32" using unat_byte [of b] by simp
  ultimately have "unat w * (unat b div 8) < 2 ^ 32 * 2 ^ 32" by (intro mult_strict_mono) auto
  then show *: "unat w * (unat b div 8) < 2 ^ 64" by simp
  have "(ucast w * ucast (b div 8) :: u64) = of_nat (unat w * (unat b div 8))"
    by (simp flip: b)
  then show "checkedMul (ucast w) (ucast (b div 8)) = (of_nat (unat w * (unat b div 8)), True)"
    using * b by (simp add: checkedMul_spec)
qed

lemma chargeDecoded_InrI:
  "b < 2 ^ 64 \<Longrightarrow> chargeDecoded (of_nat b) page t = (Inr u, t') \<longleftrightarrow>
     unat (pageLogical t) + b < 2 ^ 64
     \<and> within (unat (pageLogical t) + b) (MaxDecodedBytes (limits t))
     \<and> t' = t\<lparr>pageLogical := pageLogical t + of_nat b\<rparr>"
  by (simp add: chargeDecoded_iff unat_of_nat)

lemma parsePage_iff:
  "parsePage raw t = (Inr p, t') \<longleftrightarrow>
     page_ok (limits t) (policy t) (mapping t) (pageLogical t) (rawPage raw)
     \<and> p = described (policy t) (mapping t) (rawPage raw)
     \<and> t' = t\<lparr>pageLogical := pageLogical t + of_nat (page_bytes (mapping t) (rawPage raw))\<rparr>"
proof -
  define q where "q = rawPage raw"
  obtain ws wb os where m: "sourceMapping (mapping t) = (ws, wb, os)" by (metis prod.exhaust)
  define n where "n = unat (width q) * (unat wb div 8)"
  have rs: "row_size (mapping t) q = n" by (simp add: row_size_def n_def m)
  have row: "checkedMul (ucast (width q)) (ucast (wb div 8)) = (of_nat n, True)" and n64: "n < 2 ^ 64"
    unfolding n_def by (rule row_size_word)+
  have un: "unat (of_nat n :: u64) = n" using n64 by (simp add: unat_of_nat)
  have pg: "checkedMul (of_nat n) (ucast (height q)) =
      (if n * unat (height q) < 2 ^ 64 then (of_nat (n * unat (height q)), True) else (0, False))"
    by (simp add: checkedMul_spec un)
  have big: "(of_nat n :: u64) > maxU32 \<longleftrightarrow> \<not> n < 2 ^ 32"
    by (simp add: word_less_nat_alt un maxU32_def) linarith
  have zero: "(of_nat n :: u64) = 0 \<longleftrightarrow> n = 0" unfolding word_unat_eq_iff un by simp
  show ?thesis
  proof (cases "n * unat (height q) < 2 ^ 64")
    case True
    show ?thesis
      unfolding parsePage_def parsePage_checks_def Let_def q_def [symmetric] m row prod.case pg page_ok_def
        described_def page_bytes_def rs if_P [OF True]
      by (simp only: seqE_guardE_iff over_limit big zero un,
          simp only: seqE_Inr_iff bindE_Inr_iff chargeDecoded_InrI [OF True] matchGeometry_iff validateDuplex_iff,
          auto)
  next
    case False
    show ?thesis
      unfolding parsePage_def parsePage_checks_def Let_def q_def [symmetric] m row prod.case pg page_ok_def
        described_def page_bytes_def rs if_not_P [OF False]
      using False by (auto simp only: seqE_guardE_iff)
  qed
qed

subsection \<open>The extent of a page\<close>

text \<open>
  A scanner splits a byte sequence into the bytes of a construct and the rest; \<open>None\<close> means
  that the sequence does not start with a complete one.
\<close>

function scan_packets :: "u64 \<Rightarrow> nat \<Rightarrow> byte list \<Rightarrow> (byte list \<times> byte list) option" where
  "scan_packets bpp remaining bs =
     (if remaining > 0 \<and> bpp \<noteq> 0 then
        (case bs of
           [] \<Rightarrow> None
         | c # bs \<Rightarrow>
           (case packet bpp remaining c of
              Inl _ \<Rightarrow> None
            | Inr (pay, adv) \<Rightarrow>
                if length bs < pay then None
                else map_option (\<lambda>(d, r). (c # take pay bs @ d, r))
                       (scan_packets bpp (remaining - adv) (drop pay bs))))
      else Some ([], bs))"
  by pat_completeness auto
termination
  by (relation "measure (\<lambda>(bpp, remaining, bs). length bs)") auto

definition rows_after :: "pageDescription \<Rightarrow> nat \<Rightarrow> u8 \<Rightarrow> nat" where
  "rows_after p rowsDone rep =
     (if unat rep + 1 > unat (height p) - rowsDone then unat (height p) else rowsDone + (unat rep + 1))"

declare scan_packets.simps [simp del]

lemma scan_packets_split: "scan_packets bpp n bs = Some (d, r) \<Longrightarrow> bs = d @ r"
proof (induction bpp n bs arbitrary: d r rule: scan_packets.induct)
  case (1 bpp n bs)
  show ?case
  proof (cases "n > 0 \<and> bpp \<noteq> 0")
    case True
    with 1(2) obtain c bs' pay adv d' where *: "bs = c # bs'" "packet bpp n c = Inr (pay, adv)"
      "pay \<le> length bs'" "scan_packets bpp (n - adv) (drop pay bs') = Some (d', r)"
      "d = c # take pay bs' @ d'"
      by (auto simp: scan_packets.simps [of bpp n bs] not_less split: list.splits sum.splits if_splits)
    with 1(1) True have "drop pay bs' = d' @ r" by (simp add: not_less)
    with * show ?thesis by (metis append_take_drop_id append.assoc append_Cons)
  qed (use 1(2) in \<open>auto simp: scan_packets.simps [of bpp n bs]\<close>)
qed

function scan_rows :: "pageDescription \<Rightarrow> u64 \<Rightarrow> nat \<Rightarrow> byte list \<Rightarrow> (byte list \<times> byte list) option" where
  "scan_rows p bpp rowsDone bs =
     (if rowsDone < unat (height p) then
        (case bs of
           [] \<Rightarrow> None
         | rep # bs \<Rightarrow>
           (case scan_packets bpp (unat (rowBytes p)) bs of
              None \<Rightarrow> None
            | Some (d, r) \<Rightarrow>
                map_option (\<lambda>(d', r'). (rep # d @ d', r'))
                  (scan_rows p bpp (rows_after p rowsDone rep) r)))
      else Some ([], bs))"
  by pat_completeness auto
termination
  by (relation "measure (\<lambda>(p, bpp, rowsDone, bs). unat (height p) - rowsDone)") (auto simp: rows_after_def)

declare scan_rows.simps [simp del]

lemma scan_rows_split: "scan_rows p bpp n bs = Some (d, r) \<Longrightarrow> bs = d @ r"
proof (induction p bpp n bs arbitrary: d r rule: scan_rows.induct)
  case (1 p bpp n bs)
  show ?case
  proof (cases "n < unat (height p)")
    case True
    with 1(2) obtain c bs' d1 r1 d' where *: "bs = c # bs'"
      "scan_packets bpp (unat (rowBytes p)) bs' = Some (d1, r1)"
      "scan_rows p bpp (rows_after p n c) r1 = Some (d', r)" "d = c # d1 @ d'"
      by (auto simp: scan_rows.simps [of p bpp n bs] split: list.splits option.splits)
    with 1(1) True have "r1 = d' @ r" by simp
    with * show ?thesis by (simp add: scan_packets_split [OF *(2)])
  qed (use 1(2) in \<open>simp add: scan_rows.simps [of p bpp n bs]\<close>)
qed

definition scan_page :: "pageDescription \<Rightarrow> byte list \<Rightarrow> (byte list \<times> byte list) option" where
  "scan_page p bs = scan_rows p (ucast (pwgBitsPerPixel p div 8)) 0 bs"

lemma scan_page_split: "scan_page p bs = Some (d, r) \<Longrightarrow> bs = d @ r"
  unfolding scan_page_def by (rule scan_rows_split)

subsection \<open>The document\<close>

text \<open>
  The pages of a document body: an incomplete header ends the document and is ignored.
  \<open>decoded\<close> and \<open>n\<close> are the decoded bytes and the pages before this one.
\<close>

function parse_pages ::
  "Limits \<Rightarrow> pagePolicy \<Rightarrow> Mapping \<Rightarrow> u64 \<Rightarrow> nat \<Rightarrow> byte list
     \<Rightarrow> (pageDescription \<times> byte list) list option" where
  "parse_pages l pol m decoded n bs =
     (if length bs < urfPageHeaderSize then Some []
      else
        let q = rawPage (take urfPageHeaderSize bs) in
        if unat (MaxPages l) \<le> n \<or> \<not> page_ok l pol m decoded q then None
        else (case scan_page (described pol m q) (drop urfPageHeaderSize bs) of
                None \<Rightarrow> None
              | Some (d, r) \<Rightarrow>
                  map_option ((#) (described pol m q, d))
                    (parse_pages l pol m (decoded + of_nat (page_bytes m q)) (Suc n) r)))"
  by pat_completeness auto
termination
proof (relation "measure (\<lambda>(l, pol, m, decoded, n, bs). length bs)", goal_cases)
  case (2 l pol m decoded n bs q x2 d r)
  then have "length (drop urfPageHeaderSize bs) = length d + length r"
    by (metis scan_page_split length_append)
  with 2 show ?case by (simp add: urfPageHeaderSize_def)
qed simp

declare parse_pages.simps [simp del]

definition parse_document ::
  "Limits \<Rightarrow> pagePolicy \<Rightarrow> Mapping \<Rightarrow> byte list \<Rightarrow> (pageDescription \<times> byte list) list option" where
  "parse_document l pol m bs =
     (if length bs < urfFileHeaderSize \<or> take 4 bs \<notin> {str_bytes ''UNIR'', str_bytes ''RINU''} then None
      else (case parse_pages l pol m 0 0 (drop urfFileHeaderSize bs) of
              Some (pg # pgs) \<Rightarrow> Some (pg # pgs)
            | _ \<Rightarrow> None))"

subsection \<open>The file that stands for a list of pages\<close>

text \<open>
  \<open>raster hdr n ps\<close> are the pages \<open>ps\<close> from page number \<open>n\<close> on, each as a page header followed by
  the page's packets as they were in the source. While the translation runs, the headers
  announce no page count and the file starts with four zero bytes; in the complete file every
  header announces the number of pages, and the file starts with the PWG synchronisation word.
\<close>

fun raster ::
  "(nat \<Rightarrow> pageDescription \<Rightarrow> byte list) \<Rightarrow> nat \<Rightarrow> (pageDescription \<times> byte list) list \<Rightarrow> byte list" where
  "raster hdr n [] = []"
| "raster hdr n ((p, d) # ps) = hdr n p @ d @ raster hdr (Suc n) ps"

definition staged_header :: "pagePolicy \<Rightarrow> nat \<Rightarrow> pageDescription \<Rightarrow> byte list" where
  "staged_header pol n p = pageHeader pol (of_nat n) p"

definition final_header :: "u32 \<Rightarrow> pagePolicy \<Rightarrow> nat \<Rightarrow> pageDescription \<Rightarrow> byte list" where
  "final_header cnt pol n p = put32 452 cnt (pageHeader pol (of_nat n) p)"

definition encode :: "pagePolicy \<Rightarrow> (pageDescription \<times> byte list) list \<Rightarrow> byte list" where
  "encode pol ps = be32 pwgSync @ raster (final_header (of_nat (length ps)) pol) 0 ps"

fun count_offsets :: "nat \<Rightarrow> (pageDescription \<times> byte list) list \<Rightarrow> int list" where
  "count_offsets base [] = []"
| "count_offsets base ((p, d) # ps) =
     int (base + 452) # count_offsets (base + pwgPageHeaderSize + length d) ps"

subsection \<open>Sizes and the page-count patches\<close>

lemma length_be32 [simp]: "length (be32 v) = 4"
  by (simp add: be32_def)

text \<open>Header edits keep the header size.\<close>

lemma size_put32: "length h = pwgPageHeaderSize \<Longrightarrow> off + 4 \<le> 1796 \<Longrightarrow> length (put32 off v h) = pwgPageHeaderSize"
  by (simp add: put32_def pwgPageHeaderSize_def)

lemma size_copyString:
  "length h = pwgPageHeaderSize \<Longrightarrow> lo < hi \<and> hi \<le> 1796 \<Longrightarrow> length (copyString lo hi s h) = pwgPageHeaderSize"
proof -
  assume h: "length h = pwgPageHeaderSize" "lo < hi \<and> hi \<le> 1796"
  define v where "v = (if length s > hi - lo - 1 then take (hi - lo - 1) s else s)"
  have "lo + length (str_bytes v) \<le> length h"
    using h by (auto simp: v_def pwgPageHeaderSize_def)
  then show ?thesis
    unfolding copyString_def Let_def v_def [symmetric] using h by simp
qed

lemma size_setSheetBack:
  "length h = pwgPageHeaderSize \<Longrightarrow> length (setSheetBack pol back h) = pwgPageHeaderSize"
  by (simp add: setSheetBack_def Let_def size_put32)

lemmas header_sizes = size_put32 size_copyString size_setSheetBack

lemma length_pageHeader [simp]: "length (pageHeader pol n p) = pwgPageHeaderSize"
  unfolding pageHeader_def Let_def putFloat32_points_def putFloat32_zero_def
  by (cases "landscape p") (simp_all only: if_True if_False prod.case, (intro header_sizes; simp)+)

lemma length_headers [simp]:
  "length (staged_header pol n p) = pwgPageHeaderSize" "length (final_header cnt pol n p) = pwgPageHeaderSize"
  by (simp_all add: staged_header_def final_header_def size_put32)

definition patch_counts :: "u32 \<Rightarrow> int list \<Rightarrow> byte list \<Rightarrow> byte list" where
  "patch_counts cnt offs f = foldl (\<lambda>f off. put (nat off) (be32 cnt) f) f offs"

lemma count_offsets_ge: "off \<in> set (count_offsets base ps) \<Longrightarrow> int base \<le> off"
  by (induction base ps rule: count_offsets.induct) auto

lemma count_offsets_le:
  "off \<in> set (count_offsets base ps) \<Longrightarrow> off + 4 \<le> int (base + length (raster (staged_header pol) n ps))"
proof (induction base ps arbitrary: n rule: count_offsets.induct)
  case (2 base p d ps)
  from 2(2) consider (here) "off = int (base + 452)"
    | (later) "off \<in> set (count_offsets (base + pwgPageHeaderSize + length d) ps)" by auto
  then show ?case
  proof cases
    case here
    then show ?thesis by (simp add: pwgPageHeaderSize_def)
  next
    case later
    from 2(1) [OF this, of "Suc n"] show ?thesis by simp
  qed
qed simp

lemma patch_raster:
  "length f = base \<Longrightarrow>
   patch_counts cnt (count_offsets base ps) (f @ raster (staged_header pol) n ps) =
   f @ raster (final_header cnt pol) n ps"
proof (induction base ps arbitrary: f n rule: count_offsets.induct)
  case (2 base p d ps)
  let ?h = "staged_header pol n p"
  have first: "put (base + 452) (be32 cnt) (f @ ?h @ d @ g) = f @ final_header cnt pol n p @ d @ g" for g
    using 2(2) by (simp add: put_append1 put_append2 final_header_def staged_header_def put32_def
        pwgPageHeaderSize_def)
  have "patch_counts cnt (count_offsets base ((p, d) # ps)) (f @ raster (staged_header pol) n ((p, d) # ps)) =
      patch_counts cnt (count_offsets (base + pwgPageHeaderSize + length d) ps)
        ((f @ final_header cnt pol n p @ d) @ raster (staged_header pol) (Suc n) ps)"
    by (simp add: patch_counts_def first nat_add_distrib flip: of_nat_add)
  also have "\<dots> = (f @ final_header cnt pol n p @ d) @ raster (final_header cnt pol) (Suc n) ps"
    by (rule 2(1)) (use 2(2) in simp)
  finally show ?case by simp
qed (simp add: patch_counts_def)

end
