(* ===== verification/Urf_Correct.thy ===== *)
theory Urf_Correct
  imports Urf_Spec
begin

text \<open>
  The translator against its specification. The locale \<open>staging_host\<close> states what the documented
  contracts of \<^verbatim>\<open>io.Reader\<close>, \<^verbatim>\<open>io.Writer\<close> and \<^verbatim>\<open>io.Seeker\<close> promise when nothing fails and the
  context is not cancelled: reads hand out the input in pieces of any size, writes
  overwrite or extend the file at the current position. Inside it every method of the
  translator is shown to refine a step on an abstract document: it succeeds exactly when
  the step is defined, and then performs it.
\<close>

unbundle bit_operations_syntax

subsection \<open>Refinement of a computation by a partial step\<close>

definition outcome :: "('t \<Rightarrow> 'a \<Rightarrow> bool) \<Rightarrow> ('e + 'x) \<times> 't \<Rightarrow> ('x \<times> 'a) option \<Rightarrow> bool" where
  "outcome R res s \<longleftrightarrow>
     (case s of None \<Rightarrow> isl (fst res) | Some (x, a) \<Rightarrow> \<exists>t. res = (Inr x, t) \<and> R t a)"

lemma outcome_simps [simp]:
  "outcome R res None = isl (fst res)"
  "outcome R (Inl e, t) s = (s = None)"
  "outcome R (Inr x, t) (Some (y, a)) = (x = y \<and> R t a)"
  by (auto simp: outcome_def split: option.splits)

lemma outcome_SomeI: "res = (Inr x, t) \<Longrightarrow> R t a \<Longrightarrow> outcome R res (Some (x, a))"
  by simp

lemma outcome_SomeE:
  assumes "outcome R res (Some (x, a))"
  obtains t where "res = (Inr x, t)" "R t a"
  using assms by (auto simp: outcome_def)

lemma outcome_bindE:
  assumes "outcome R (m t) s"
    and "\<And>x a t'. s = Some (x, a) \<Longrightarrow> R t' a \<Longrightarrow> outcome R (k x t') (f x a)"
  shows "outcome R (bindE m k t) (Option.bind s (\<lambda>(x, a). f x a))"
proof (cases s)
  case None
  with assms(1) show ?thesis by (auto simp: bindE_def isl_def split: prod.splits)
next
  case (Some p)
  then obtain x a where s: "s = Some (x, a)" by (cases p) auto
  with assms(1) obtain t' where "m t = (Inr x, t')" "R t' a" by (auto elim: outcome_SomeE)
  with assms(2) s show ?thesis by simp
qed

lemma outcome_seqE:
  assumes "outcome R (m t) s"
    and "\<And>x a t'. s = Some (x, a) \<Longrightarrow> R t' a \<Longrightarrow> outcome R (k t') (f a)"
  shows "outcome R (seqE m k t) (Option.bind s (\<lambda>(x, a). f a))"
  unfolding seqE_def using outcome_bindE [of R m t s "\<lambda>_. k" "\<lambda>_. f"] assms by blast

lemma outcome_skip:
  assumes "outcome R (m t) (Some (x, a))" "\<And>t'. R t' a \<Longrightarrow> outcome R (k t') s"
  shows "outcome R (seqE m k t) s"
  using assms by (auto elim: outcome_SomeE)

subsection \<open>The abstract document\<close>

text \<open>
  The input that is left, how much of it may still be read, the bytes emitted so far, the
  decoded-byte account, the offsets of the page counts, and the number of complete pages.
\<close>

record document =
  d_in :: "byte list"
  d_room :: nat
  d_out :: "byte list"
  d_decoded :: u64
  d_counts :: "int list"
  d_pages :: u32

definition d_read :: "nat \<Rightarrow> document \<Rightarrow> (byte list \<times> document) option" where
  "d_read k a =
     (if k \<le> length (d_in a) \<and> k \<le> d_room a
      then Some (take k (d_in a), a\<lparr>d_in := drop k (d_in a), d_room := d_room a - k\<rparr>) else None)"

definition d_header :: "document \<Rightarrow> (byte list \<times> document) option" where
  "d_header a = d_read (min urfPageHeaderSize (length (d_in a))) a"

definition d_write :: "Limits \<Rightarrow> byte list \<Rightarrow> document \<Rightarrow> (unit \<times> document) option" where
  "d_write l v a =
     (if int (length (d_out a) + length v) \<le> MaxOutputBytes l
      then Some ((), a\<lparr>d_out := d_out a @ v\<rparr>) else None)"

text \<open>Bytes that are copied from the input to the output.\<close>

definition d_copy :: "Limits \<Rightarrow> byte list \<Rightarrow> document \<Rightarrow> (unit \<times> document) option" where
  "d_copy l v a =
     (if take (length v) (d_in a) = v \<and> length v \<le> d_room a
         \<and> int (length (d_out a) + length v) \<le> MaxOutputBytes l
      then Some ((), a\<lparr>d_in := drop (length v) (d_in a), d_room := d_room a - length v,
                        d_out := d_out a @ v\<rparr>)
      else None)"

lemma d_copy_read_write:
  "Option.bind (d_read k a) (\<lambda>(v, a). d_write l v a) =
     (if k \<le> length (d_in a) then d_copy l (take k (d_in a)) a else None)"
  by (auto simp: d_read_def d_write_def d_copy_def min_def)

lemma d_read_0 [simp]: "d_read 0 a = Some ([], a)"
  by (simp add: d_read_def)

lemma d_read_add:
  assumes "n \<le> length (d_in a)" "n \<le> d_room a"
  shows "d_read (n + j) a = map_option (\<lambda>(v, b). (take n (d_in a) @ v, b))
           (d_read j (a\<lparr>d_in := drop n (d_in a), d_room := d_room a - n\<rparr>))"
proof -
  have "n + j \<le> length (d_in a) \<and> n + j \<le> d_room a \<longleftrightarrow> j \<le> length (d_in a) - n \<and> j \<le> d_room a - n"
    using assms by linarith
  moreover have "drop (n + j) (d_in a) = drop j (drop n (d_in a))" by (simp add: add.commute)
  ultimately show ?thesis by (simp add: d_read_def take_add del: drop_drop)
qed

lemma d_copy_append: "d_copy l (v @ w) a = Option.bind (d_copy l v a) (\<lambda>(_, a). d_copy l w a)"
proof (cases "take (length v) (d_in a) = v")
  case True
  then obtain r where r: "d_in a = v @ r" by (metis append_take_drop_id)
  show ?thesis by (auto simp: d_copy_def r)
next
  case False
  then have "take (length v + length w) (d_in a) \<noteq> v @ w"
    by (metis append_eq_conv_conj take_take min.absorb1 le_add1)
  with False show ?thesis by (simp add: d_copy_def)
qed

lemma d_copy_Nil [simp]: "int (length (d_out a)) \<le> MaxOutputBytes l \<Longrightarrow> d_copy l [] a = Some ((), a)"
  by (simp add: d_copy_def)

definition d_copyn :: "Limits \<Rightarrow> nat \<Rightarrow> document \<Rightarrow> (unit \<times> document) option" where
  "d_copyn l n a = (if n \<le> length (d_in a) then d_copy l (take n (d_in a)) a else None)"

lemma d_copy_in: "d_copy l v a = Some (u, b) \<Longrightarrow> d_in b = drop (length v) (d_in a)"
  by (auto simp: d_copy_def split: if_splits)

lemma d_copyn_add:
  "d_copyn l (n + k) a = Option.bind (d_copyn l n a) (\<lambda>(_, b). d_copyn l k b)"
proof (cases "n + k \<le> length (d_in a)")
  case True
  have "Option.bind (d_copy l (take n (d_in a)) a) (\<lambda>(_, b). d_copyn l k b) =
      Option.bind (d_copy l (take n (d_in a)) a) (\<lambda>(_, b). d_copy l (take k (drop n (d_in a))) b)"
    using True by (intro bind_option_cong refl) (auto dest!: d_copy_in simp: d_copyn_def min_def)
  with True show ?thesis by (simp add: d_copyn_def take_add d_copy_append)
next
  case False
  then show ?thesis
    by (cases "d_copyn l n a") (auto dest!: d_copy_in simp: d_copyn_def min_def split: if_splits)
qed

lemma d_read_write:
  "Option.bind (d_read k a) (\<lambda>(v, b). Option.bind (d_write l v b) (\<lambda>(_, c). K c)) =
   Option.bind (d_copyn l k a) (\<lambda>(_, c). K c)"
proof -
  have "Option.bind (d_read k a) (\<lambda>(v, b). Option.bind (d_write l v b) (\<lambda>(_, c). K c)) =
      Option.bind (Option.bind (d_read k a) (\<lambda>(v, b). d_write l v b)) (\<lambda>(_, c). K c)"
    by (cases "d_read k a") auto
  then show ?thesis by (simp only: d_copy_read_write d_copyn_def)
qed

text \<open>Copying what a scanner delimits.\<close>

definition d_scan ::
  "Limits \<Rightarrow> (byte list \<Rightarrow> (byte list \<times> byte list) option) \<Rightarrow> document \<Rightarrow> (unit \<times> document) option" where
  "d_scan l f a = (case f (d_in a) of None \<Rightarrow> None | Some (v, r) \<Rightarrow> d_copy l v a)"

lemma d_scan_seq:
  assumes "f (d_in a) = (case g (d_in a) of None \<Rightarrow> None
      | Some (v, r) \<Rightarrow> map_option (\<lambda>(w, q). (v @ w, q)) (h r))"
    and split: "\<And>v r. g (d_in a) = Some (v, r) \<Longrightarrow> d_in a = v @ r"
  shows "d_scan l f a = Option.bind (d_scan l g a) (\<lambda>(_, b). d_scan l h b)"
proof (cases "g (d_in a)")
  case (Some vr)
  then obtain v r where g: "g (d_in a) = Some (v, r)" by (cases vr) auto
  have h: "Option.bind (d_copy l v a) (\<lambda>(_, b). d_scan l h b) =
      Option.bind (d_copy l v a) (\<lambda>(_, b). case h r of None \<Rightarrow> None | Some (w, q) \<Rightarrow> d_copy l w b)"
    using split [OF g] by (intro bind_option_cong refl) (auto dest!: d_copy_in simp: d_scan_def)
  show ?thesis
  proof (cases "h r")
    case None
    with g h assms(1) show ?thesis by (cases "d_copy l v a") (auto simp: d_scan_def)
  next
    case (Some wq)
    with g h assms(1) show ?thesis
      by (cases wq) (simp add: d_scan_def [of _ f] d_scan_def [of _ g] d_copy_append)
  qed
qed (use assms(1) in \<open>simp add: d_scan_def\<close>)

definition scan_n :: "nat \<Rightarrow> byte list \<Rightarrow> (byte list \<times> byte list) option" where
  "scan_n k bs = (if k \<le> length bs then Some (take k bs, drop k bs) else None)"

lemma d_copyn_scan: "d_copyn l k a = d_scan l (scan_n k) a"
  by (simp add: d_copyn_def d_scan_def scan_n_def)

lemma d_scan_prefix:
  assumes "f (d_in a) = (if k \<le> length (d_in a)
      then map_option (\<lambda>(w, q). (take k (d_in a) @ w, q)) (h (drop k (d_in a))) else None)"
  shows "d_scan l f a = Option.bind (d_copyn l k a) (\<lambda>(_, b). d_scan l h b)"
  unfolding d_copyn_scan
  by (rule d_scan_seq) (auto simp: assms scan_n_def split: if_splits)

text \<open>A construct whose first byte decides how it goes on.\<close>

lemma d_scan_byte:
  assumes "f [] = None" and "\<And>x bs. f (x # bs) = map_option (\<lambda>(w, q). (x # w, q)) (h x bs)"
  shows "Option.bind (d_read 1 a) (\<lambda>(c, b). Option.bind (d_write l c b) (\<lambda>(_, b). d_scan l (h (c ! 0)) b)) =
    d_scan l f a"
proof (cases "d_in a")
  case (Cons x bs)
  have "Option.bind (d_read 1 a) (\<lambda>(c, b). Option.bind (d_write l c b) (\<lambda>(_, b). d_scan l (h (c ! 0)) b)) =
      Option.bind (d_read 1 a) (\<lambda>(c, b). Option.bind (d_write l c b) (\<lambda>(_, b). d_scan l (h x) b))"
    using Cons by (simp add: d_read_def)
  also have "\<dots> = d_scan l f a"
    unfolding d_read_write by (rule d_scan_prefix [symmetric]) (simp add: Cons assms)
  finally show ?thesis .
qed (simp add: d_scan_def d_read_def assms)

definition scan_packet :: "u64 \<Rightarrow> nat \<Rightarrow> u8 \<Rightarrow> byte list \<Rightarrow> (byte list \<times> byte list) option" where
  "scan_packet bpp n c bs = (case packet bpp n c of
      Inl _ \<Rightarrow> None
    | Inr r \<Rightarrow> if fst r \<le> length bs
        then map_option (\<lambda>(w, q). (take (fst r) bs @ w, q)) (scan_packets bpp (n - snd r) (drop (fst r) bs))
        else None)"

lemma scan_packets_byte:
  assumes "0 < n \<and> bpp \<noteq> 0"
  shows "scan_packets bpp n [] = None"
    "scan_packets bpp n (x # bs) = map_option (\<lambda>(w, q). (x # w, q)) (scan_packet bpp n x bs)"
  using assms
  by (auto simp: scan_packets.simps [of bpp n] scan_packet_def option.map_comp comp_def case_prod_unfold not_le
      split: sum.split)

lemma d_scan_packet:
  "d_scan l (scan_packet bpp n c) a = (case packet bpp n c of Inl _ \<Rightarrow> None
    | Inr r \<Rightarrow> Option.bind (d_copyn l (fst r) a) (\<lambda>(_, b). d_scan l (scan_packets bpp (n - snd r)) b))"
proof (cases "packet bpp n c")
  case (Inr r)
  then show ?thesis by (simp, intro d_scan_prefix) (simp add: scan_packet_def)
qed (simp add: d_scan_def scan_packet_def)

definition scan_row :: "pageDescription \<Rightarrow> u64 \<Rightarrow> nat \<Rightarrow> u8 \<Rightarrow> byte list \<Rightarrow> (byte list \<times> byte list) option" where
  "scan_row p bpp n rep bs = (case scan_packets bpp (unat (rowBytes p)) bs of
      None \<Rightarrow> None
    | Some (v, r) \<Rightarrow> map_option (\<lambda>(w, q). (v @ w, q)) (scan_rows p bpp (rows_after p n rep) r))"

lemma scan_rows_byte:
  assumes "n < unat (height p)"
  shows "scan_rows p bpp n [] = None"
    "scan_rows p bpp n (x # bs) = map_option (\<lambda>(w, q). (x # w, q)) (scan_row p bpp n x bs)"
  using assms
  by (auto simp: scan_rows.simps [of p bpp n] scan_row_def option.map_comp comp_def case_prod_unfold
      split: option.split)

lemma d_scan_row:
  "d_scan l (scan_row p bpp n rep) a =
     Option.bind (d_scan l (scan_packets bpp (unat (rowBytes p))) a)
       (\<lambda>(_, b). d_scan l (scan_rows p bpp (rows_after p n rep)) b)"
  by (rule d_scan_seq) (simp_all add: scan_row_def scan_packets_split)

subsection \<open>The steps of a document\<close>

definition d_parse :: "Limits \<Rightarrow> pagePolicy \<Rightarrow> Mapping \<Rightarrow> byte list \<Rightarrow> document \<Rightarrow> (pageDescription \<times> document) option" where
  "d_parse l pol m raw a =
     (if page_ok l pol m (d_decoded a) (rawPage raw)
      then Some (described pol m (rawPage raw),
             a\<lparr>d_decoded := d_decoded a + of_nat (page_bytes m (rawPage raw))\<rparr>)
      else None)"

definition d_emit :: "Limits \<Rightarrow> pagePolicy \<Rightarrow> pageDescription \<Rightarrow> document \<Rightarrow> (unit \<times> document) option" where
  "d_emit l pol p a =
     (if MaxPages l > 0 \<and> (of_nat (length (d_counts a) + 1) :: u32) > MaxPages l then None
      else Option.bind (d_write l (pageHeader pol (d_pages a) p) a)
        (\<lambda>(_, b). Some ((), b\<lparr>d_counts := d_counts b @ [int (length (d_out a)) + 452]\<rparr>)))"

definition d_next :: "Limits \<Rightarrow> pagePolicy \<Rightarrow> Mapping \<Rightarrow> byte list \<Rightarrow> document \<Rightarrow> (bool \<times> document) option" where
  "d_next l pol m raw a =
     (if MaxPages l > 0 \<and> d_pages a \<ge> MaxPages l then None
      else Option.bind (d_parse l pol m raw a) (\<lambda>(p, b).
           Option.bind (d_emit l pol p b) (\<lambda>(_, b).
           Option.bind (d_scan l (scan_page p) b) (\<lambda>(_, b).
             Some (False, b\<lparr>d_pages := d_pages b + 1\<rparr>)))))"

definition d_step :: "Limits \<Rightarrow> pagePolicy \<Rightarrow> Mapping \<Rightarrow> document \<Rightarrow> (bool \<times> document) option" where
  "d_step l pol m a =
     Option.bind (d_header a) (\<lambda>(raw, b).
       if length raw < urfPageHeaderSize then Some (True, b) else d_next l pol m raw b)"

text \<open>All pages at once, in terms of the specification.\<close>

definition d_body :: "Limits \<Rightarrow> pagePolicy \<Rightarrow> Mapping \<Rightarrow> document \<Rightarrow> (unit \<times> document) option" where
  "d_body l pol m a =
     (let n = unat (d_pages a) in
      case parse_pages l pol m (d_decoded a) n (d_in a) of
        None \<Rightarrow> None
      | Some ps \<Rightarrow>
          if length (d_in a) \<le> d_room a
             \<and> int (length (d_out a) + length (raster (staged_header pol) n ps)) \<le> MaxOutputBytes l
          then Some ((), a\<lparr>d_in := [], d_room := d_room a - length (d_in a),
                 d_out := d_out a @ raster (staged_header pol) n ps, d_decoded := 0,
                 d_counts := d_counts a @ count_offsets (length (d_out a)) ps,
                 d_pages := of_nat (n + length ps)\<rparr>)
          else None)"

lemma d_copy_split:
  "d_in a = v @ r \<Longrightarrow> d_copy l v a =
     (if length v \<le> d_room a \<and> int (length (d_out a) + length v) \<le> MaxOutputBytes l
      then Some ((), a\<lparr>d_in := r, d_room := d_room a - length v, d_out := d_out a @ v\<rparr>) else None)"
  by (simp add: d_copy_def)

lemma of_nat_Suc_pages:
  assumes "(x :: u32) < mx"
  shows "unat (of_nat (Suc (unat x)) :: u32) = Suc (unat x)" "(of_nat (Suc (unat x)) :: u32) \<le> mx"
    "(of_nat (Suc (unat x)) :: u32) = x + 1"
proof -
  have x: "unat x < unat mx" "unat mx < 2 ^ 32"
    using assms unsigned_less [of mx] by (simp_all add: word_less_nat_alt)
  then have "Suc (unat x) < 2 ^ 32" by linarith
  then show *: "unat (of_nat (Suc (unat x)) :: u32) = Suc (unat x)"
    by (simp only: unat_of_nat len_num1 len_bit0 len_bit1) (simp)
  with x show "(of_nat (Suc (unat x)) :: u32) \<le> mx" by (simp add: word_le_nat_alt)
  show "(of_nat (Suc (unat x)) :: u32) = x + 1" by simp
qed

text \<open>One page: what is consumed, what is emitted, and that its step is defined exactly then.\<close>

lemma d_next_eq:
  assumes pages: "length (d_counts a) = unat (d_pages a)" and mx: "MaxPages l \<noteq> 0"
  shows "d_next l pol m raw a =
    (let q = rawPage raw; p = described pol m q in
     if unat (MaxPages l) \<le> unat (d_pages a) \<or> \<not> page_ok l pol m (d_decoded a) q then None
     else case scan_page p (d_in a) of None \<Rightarrow> None
     | Some (v, r) \<Rightarrow>
         if length v \<le> d_room a
            \<and> int (length (d_out a) + pwgPageHeaderSize + length v) \<le> MaxOutputBytes l
         then Some (False, a\<lparr>d_in := r, d_room := d_room a - length v,
                d_out := d_out a @ staged_header pol (unat (d_pages a)) p @ v,
                d_decoded := d_decoded a + of_nat (page_bytes m q),
                d_counts := d_counts a @ [int (length (d_out a) + 452)], d_pages := d_pages a + 1\<rparr>)
         else None)"
proof (cases "unat (MaxPages l) \<le> unat (d_pages a) \<or> \<not> page_ok l pol m (d_decoded a) (rawPage raw)")
  case True
  then show ?thesis using mx by (auto simp: d_next_def d_parse_def word_le_nat_alt word_gt_0)
next
  case False
  define q where "q = rawPage raw"
  define p where "p = described pol m q"
  have ok: "page_ok l pol m (d_decoded a) q" and less: "d_pages a < MaxPages l"
    using False by (auto simp: q_def word_less_nat_alt)
  have cnt: "\<not> (of_nat (length (d_counts a) + 1) :: u32) > MaxPages l"
    using of_nat_Suc_pages(2) [OF less] pages by simp
  have hdr: "pageHeader pol (d_pages a) p = staged_header pol (unat (d_pages a)) p"
    by (simp add: staged_header_def)
  show ?thesis
  proof (cases "scan_page p (d_in a)")
    case None
    then show ?thesis using ok less cnt
      by (auto simp: d_next_def d_parse_def d_emit_def d_scan_def d_write_def Let_def
          simp flip: q_def p_def split: bind_splits if_splits)
  next
    case (Some vr)
    then obtain v r where sc: "scan_page p (d_in a) = Some (v, r)" by (cases vr) auto
    have "\<not> unat (MaxPages l) \<le> unat (d_pages a)" using False by blast
    then show ?thesis using ok less cnt sc
      by (auto simp: d_next_def d_parse_def d_emit_def d_scan_def d_write_def Let_def hdr
          d_copy_split [OF scan_page_split [OF sc]] d_copy_def scan_page_split [OF sc]
          simp flip: q_def p_def split: bind_splits if_splits)
  qed
qed

lemma raster_append_length: "length (raster (staged_header pol) n ((p, v) # ps)) =
    pwgPageHeaderSize + length v + length (raster (staged_header pol) (Suc n) ps)"
  by simp

lemma d_body_step:
  assumes pages: "length (d_counts a) = unat (d_pages a)" and mx: "MaxPages l \<noteq> 0"
    and fits: "int (length (d_out a)) \<le> MaxOutputBytes l"
  shows "d_body l pol m a = (case d_step l pol m a of None \<Rightarrow> None
    | Some (fin, b) \<Rightarrow> if fin then Some ((), b\<lparr>d_decoded := 0\<rparr>) else d_body l pol m b)"
proof (cases "length (d_in a) < urfPageHeaderSize")
  case True
  then have "d_step l pol m a = map_option (\<lambda>(_, b). (True, b)) (d_read (length (d_in a)) a)"
    by (simp add: d_step_def d_header_def d_read_def)
  moreover have "parse_pages l pol m (d_decoded a) (unat (d_pages a)) (d_in a) = Some []"
    using True by (simp add: parse_pages.simps)
  ultimately show ?thesis using fits by (simp add: d_body_def d_read_def)
next
  case False
  let ?raw = "take urfPageHeaderSize (d_in a)"
  define b where "b = a\<lparr>d_in := drop urfPageHeaderSize (d_in a), d_room := d_room a - urfPageHeaderSize\<rparr>"
  have step: "d_step l pol m a = (if urfPageHeaderSize \<le> d_room a then d_next l pol m ?raw b else None)"
    using False by (simp add: d_step_def d_header_def d_read_def b_def)
  show ?thesis
  proof (cases "urfPageHeaderSize \<le> d_room a")
    case room: True
    define q where "q = rawPage ?raw"
    define p where "p = described pol m q"
    define n where "n = unat (d_pages a)"
    have b: "d_pages b = d_pages a" "d_counts b = d_counts a" "d_out b = d_out a" "d_decoded b = d_decoded a"
      "d_in b = drop urfPageHeaderSize (d_in a)" by (simp_all add: b_def)
    have parse: "parse_pages l pol m (d_decoded a) n (d_in a) =
       (if unat (MaxPages l) \<le> n \<or> \<not> page_ok l pol m (d_decoded a) q then None
        else (case scan_page p (d_in b) of None \<Rightarrow> None
              | Some (d, r) \<Rightarrow> map_option ((#) (p, d))
                    (parse_pages l pol m (d_decoded a + of_nat (page_bytes m q)) (Suc n) r)))"
      unfolding parse_pages.simps [of l pol m "d_decoded a" n "d_in a"] if_not_P [OF False] Let_def b
        q_def [symmetric] p_def [symmetric] by (rule refl)
    have nxt: "d_next l pol m ?raw b = (if unat (MaxPages l) \<le> n \<or> \<not> page_ok l pol m (d_decoded a) q then None
       else case scan_page p (d_in b) of None \<Rightarrow> None
       | Some (v, r) \<Rightarrow>
         if length v \<le> d_room b
            \<and> int (length (d_out a) + pwgPageHeaderSize + length v) \<le> MaxOutputBytes l
         then Some (False, b\<lparr>d_in := r, d_room := d_room b - length v,
                d_out := d_out a @ staged_header pol n p @ v,
                d_decoded := d_decoded a + of_nat (page_bytes m q),
                d_counts := d_counts a @ [int (length (d_out a) + 452)], d_pages := d_pages a + 1\<rparr>)
         else None)"
      using d_next_eq [of b l pol m ?raw, OF _ mx, unfolded b(1-4) Let_def, OF pages]
      unfolding q_def [symmetric] p_def [symmetric] n_def [symmetric] .
    show ?thesis
    proof (cases "unat (MaxPages l) \<le> n \<or> \<not> page_ok l pol m (d_decoded a) q \<or> scan_page p (d_in b) = None")
      case True
      then show ?thesis using room by (auto simp: step nxt d_body_def parse simp flip: n_def)
    next
      case ok: False
      then obtain v r where sc: "scan_page p (d_in b) = Some (v, r)" by auto
      have inn: "length (d_in a) = urfPageHeaderSize + length v + length r"
        using scan_page_split [OF sc] False by (simp add: b) (metis le_add_diff_inverse length_append length_drop not_less add.assoc)
      have n: "unat (d_pages a + 1) = Suc n" "d_pages a + 1 = of_nat (Suc n)"
        using of_nat_Suc_pages [of "d_pages a" "MaxPages l"] ok
        by (auto simp: n_def word_less_nat_alt add.commute)
      define dec where "dec = d_decoded a + of_nat (page_bytes m q)"
      define c where "c = b\<lparr>d_in := r, d_room := d_room b - length v,
                d_out := d_out a @ staged_header pol n p @ v, d_decoded := dec,
                d_counts := d_counts a @ [int (length (d_out a) + 452)], d_pages := d_pages a + 1\<rparr>"
      have step': "d_step l pol m a = (if length v \<le> d_room b
          \<and> int (length (d_out a) + pwgPageHeaderSize + length v) \<le> MaxOutputBytes l
          then Some (False, c) else None)"
        using ok room sc by (simp add: step nxt c_def dec_def)
      have parse': "parse_pages l pol m (d_decoded a) n (d_in a) =
          map_option ((#) (p, v)) (parse_pages l pol m dec (Suc n) r)"
        using ok sc by (simp add: parse dec_def)
      have c: "unat (d_pages c) = Suc n" "d_decoded c = dec" "d_in c = r" "d_room c = d_room a - urfPageHeaderSize - length v"
        "d_out c = d_out a @ staged_header pol n p @ v"
        using n(1) by (simp_all add: c_def b_def)
      show ?thesis
      proof (cases "parse_pages l pol m dec (Suc n) r")
        case None
        then show ?thesis by (simp add: step' d_body_def [of _ _ _ a] d_body_def [of _ _ _ c] c parse' flip: n_def)
      next
        case (Some ps)
        define rs where "rs = raster (staged_header pol) (Suc n) ps"
        define fin where "fin = a\<lparr>d_in := [], d_room := d_room a - length (d_in a),
            d_out := d_out a @ staged_header pol n p @ v @ rs, d_decoded := 0,
            d_counts := d_counts a @ int (length (d_out a) + 452) #
              count_offsets (length (d_out a) + pwgPageHeaderSize + length v) ps,
            d_pages := of_nat (n + length ps + 1)\<rparr>"
        have "d_body l pol m a = (if length (d_in a) \<le> d_room a
            \<and> int (length (d_out a) + pwgPageHeaderSize + length v + length rs) \<le> MaxOutputBytes l
            then Some ((), fin) else None)"
          using Some by (simp add: d_body_def parse' rs_def fin_def add.assoc flip: n_def)
        moreover have "d_body l pol m c = (if length r \<le> d_room a - urfPageHeaderSize - length v
            \<and> int (length (d_out a) + pwgPageHeaderSize + length v + length rs) \<le> MaxOutputBytes l
            then Some ((), fin) else None)"
          using Some inn unfolding d_body_def c Let_def
          by (simp add: rs_def fin_def c_def b_def add.assoc)
        ultimately show ?thesis
          using inn room by (auto simp: step' b_def)
      qed
    qed
  next
    case short: False
    then have "\<not> length (d_in a) \<le> d_room a" using False by simp
    with short show ?thesis by (auto simp: step d_body_def Let_def split: option.split)
  qed
qed

lemma d_step_more:
  assumes "d_step l pol m a = Some (False, b)" "length (d_counts a) = unat (d_pages a)" "MaxPages l \<noteq> 0"
  shows "length (d_counts b) = unat (d_pages b)" "length (d_in b) < length (d_in a)"
proof -
  let ?raw = "take urfPageHeaderSize (d_in a)"
  define a' where "a' = a\<lparr>d_in := drop urfPageHeaderSize (d_in a), d_room := d_room a - urfPageHeaderSize\<rparr>"
  have len: "urfPageHeaderSize \<le> length (d_in a)" and nxt: "d_next l pol m ?raw a' = Some (False, b)"
    using assms(1) by (auto simp: d_step_def d_header_def d_read_def a'_def min_def split: if_splits)
  obtain p v r where sc: "scan_page p (d_in a') = Some (v, r)" and b: "d_in b = r"
    "d_counts b = d_counts a @ [int (length (d_out a) + 452)]" "d_pages b = d_pages a + 1"
    and less: "d_pages a < MaxPages l"
    using nxt d_next_eq [of a' l pol m ?raw] assms(2,3)
    by (auto simp: a'_def Let_def word_less_nat_alt split: if_splits option.splits)
  show "length (d_counts b) = unat (d_pages b)"
    using b assms(2) of_nat_Suc_pages [OF less] by (simp add: add.commute)
  have "length (d_in a') = length v + length r" using scan_page_split [OF sc] by simp
  then show "length (d_in b) < length (d_in a)"
    using len by (simp add: b a'_def urfPageHeaderSize_def)
qed

text \<open>The document before its first page, with the four placeholder bytes emitted.\<close>

definition d_start :: "Limits \<Rightarrow> byte list \<Rightarrow> document" where
  "d_start l bs = \<lparr>d_in = bs, d_room = nat (MaxInputBytes l), d_out = [], d_decoded = 0, d_counts = [],
     d_pages = 0\<rparr>"

definition d_file_header :: "document \<Rightarrow> (unit \<times> document) option" where
  "d_file_header a = Option.bind (d_read urfFileHeaderSize a) (\<lambda>(h, b).
     if take 4 h \<in> {str_bytes ''UNIR'', str_bytes ''RINU''} then Some ((), b) else None)"

definition accepted :: "Limits \<Rightarrow> pagePolicy \<Rightarrow> Mapping \<Rightarrow> byte list \<Rightarrow> (pageDescription \<times> byte list) list option" where
  "accepted l pol m bs =
     (case parse_document l pol m bs of
        None \<Rightarrow> None
      | Some ps \<Rightarrow> if int (length bs) \<le> MaxInputBytes l \<and> int (length (encode pol ps)) \<le> MaxOutputBytes l
                 then Some ps else None)"

lemma parse_pages_count:
  "parse_pages l pol m d n bs = Some ps \<Longrightarrow> ps = [] \<or> n + length ps \<le> unat (MaxPages l)"
proof (induction l pol m d n bs arbitrary: ps rule: parse_pages.induct)
  case (1 l pol m d n bs)
  show ?case
  proof (cases "length bs < urfPageHeaderSize")
    case True
    with 1(2) show ?thesis by (simp add: parse_pages.simps [of l pol m d n bs])
  next
    case False
    let ?q = "rawPage (take urfPageHeaderSize bs)"
    from False 1(2) obtain v r ps' where *: "\<not> (unat (MaxPages l) \<le> n \<or> \<not> page_ok l pol m d ?q)"
      "scan_page (described pol m ?q) (drop urfPageHeaderSize bs) = Some (v, r)"
      "parse_pages l pol m (d + of_nat (page_bytes m ?q)) (Suc n) r = Some ps'"
      "ps = (described pol m ?q, v) # ps'"
      by (auto simp: parse_pages.simps [of l pol m d n bs] Let_def split: if_splits option.splits)
    with 1(1) [OF False refl *(1,2) refl *(3)] show ?thesis by auto
  qed
qed

lemma length_raster: "length (raster (final_header c pol) n ps) = length (raster (staged_header pol) n ps)"
  by (induction ps arbitrary: n) auto

lemma encode_patched:
  "put 0 (be32 pwgSync) (patch_counts (of_nat (length ps)) (count_offsets 4 ps)
     ([0, 0, 0, 0] @ raster (staged_header pol) 0 ps)) = encode pol ps"
  using patch_raster [of "[0, 0, 0, 0]" 4 "of_nat (length ps)" ps pol 0]
  by (simp add: encode_def put_def be32_def)

text \<open>The document after its pages, from a start that fits.\<close>

lemma d_document:
  assumes "4 \<le> MaxOutputBytes l" "0 < MaxInputBytes l"
  shows "Option.bind (d_file_header ((d_start l bs)\<lparr>d_out := [0, 0, 0, 0]\<rparr>)) (\<lambda>(_, b). d_body l pol m b) =
    (if length bs < urfFileHeaderSize \<or> take 4 bs \<notin> {str_bytes ''UNIR'', str_bytes ''RINU''} then None
     else case parse_pages l pol m 0 0 (drop urfFileHeaderSize bs) of None \<Rightarrow> None
     | Some ps \<Rightarrow>
         if int (length bs) \<le> MaxInputBytes l \<and> int (length (encode pol ps)) \<le> MaxOutputBytes l
         then Some ((), \<lparr>d_in = [], d_room = nat (MaxInputBytes l) - length bs,
                d_out = [0, 0, 0, 0] @ raster (staged_header pol) 0 ps, d_decoded = 0,
                d_counts = count_offsets 4 ps, d_pages = of_nat (length ps)\<rparr>)
         else None)"
proof -
  define a where "a = (d_start l bs)\<lparr>d_out := [0, 0, 0, 0]\<rparr>"
  define b where "b = a\<lparr>d_in := drop urfFileHeaderSize bs, d_room := nat (MaxInputBytes l) - urfFileHeaderSize\<rparr>"
  let ?sig = "take 4 bs \<in> {str_bytes ''UNIR'', str_bytes ''RINU''}"
  have hdr: "d_file_header a = (if urfFileHeaderSize \<le> length bs \<and> urfFileHeaderSize \<le> nat (MaxInputBytes l) \<and> ?sig
      then Some ((), b) else None)"
    by (auto simp: d_file_header_def d_read_def a_def b_def d_start_def urfFileHeaderSize_def)
  have len: "int (length (encode pol ps)) = 4 + int (length (raster (staged_header pol) 0 ps))" for ps
    by (simp add: encode_def length_raster)
  have body: "d_body l pol m b = (case parse_pages l pol m 0 0 (drop urfFileHeaderSize bs) of None \<Rightarrow> None
     | Some ps \<Rightarrow>
         if length bs - urfFileHeaderSize \<le> nat (MaxInputBytes l) - urfFileHeaderSize
            \<and> int (length (encode pol ps)) \<le> MaxOutputBytes l
         then Some ((), \<lparr>d_in = [], d_room = nat (MaxInputBytes l) - urfFileHeaderSize - (length bs - urfFileHeaderSize),
                d_out = [0, 0, 0, 0] @ raster (staged_header pol) 0 ps, d_decoded = 0,
                d_counts = count_offsets 4 ps, d_pages = of_nat (length ps)\<rparr>)
         else None)"
    unfolding len by (simp add: d_body_def a_def b_def d_start_def eval_nat_numeral split: option.split)
  show ?thesis
    unfolding a_def [symmetric] hdr using assms
    by (auto simp: body split: option.split)
qed

subsection \<open>Hosts that keep the documented contracts\<close>

locale staging_host =
  fixes host :: "'e host"
    and rest :: "'e \<Rightarrow> byte list"
    and content :: "'e \<Rightarrow> byte list"
    and pos :: "'e \<Rightarrow> nat"
  assumes host_ctx: "hCtxErr host e = (c, e') \<Longrightarrow>
      c = None \<and> rest e' = rest e \<and> content e' = content e \<and> pos e' = pos e"
    and host_read: "hRead host k e = ((n, d, err), e') \<Longrightarrow> 0 < k \<Longrightarrow>
      content e' = content e \<and> pos e' = pos e \<and>
      (if rest e = [] then n = 0 \<and> err = Some EOF \<and> rest e' = []
       else 0 < n \<and> n \<le> int k \<and> n \<le> int (length (rest e)) \<and> nat n \<le> length d
         \<and> take (nat n) d = take (nat n) (rest e) \<and> rest e' = drop (nat n) (rest e)
         \<and> (err = None \<or> err = Some EOF \<and> rest e' = []))"
    and host_write: "hWrite host v e = ((n, err), e') \<Longrightarrow> pos e \<le> length (content e) \<Longrightarrow>
      n = int (length v) \<and> err = None \<and> rest e' = rest e
      \<and> content e' = put (pos e) v (content e) \<and> pos e' = pos e + length v"
    and host_seek_start: "hSeek host off SeekStart e = ((p, err), e') \<Longrightarrow> 0 \<le> off \<Longrightarrow>
      p = off \<and> err = None \<and> rest e' = rest e \<and> content e' = content e \<and> pos e' = nat off"
    and host_seek_end: "hSeek host 0 SeekEnd e = ((p, err), e') \<Longrightarrow>
      p = int (length (content e)) \<and> err = None \<and> rest e' = rest e \<and> content e' = content e
      \<and> pos e' = length (content e)"
begin

definition represents :: "Limits \<Rightarrow> pagePolicy \<Rightarrow> Mapping \<Rightarrow> 'e translator \<Rightarrow> document \<Rightarrow> bool" where
  "represents l pol m t a \<longleftrightarrow>
     rest (env t) = d_in a \<and> content (env t) = d_out a \<and> pos (env t) = length (d_out a)
     \<and> outputBytes t = int (length (d_out a)) \<and> int (length (d_out a)) \<le> MaxOutputBytes l
     \<and> 0 < MaxOutputBytes l
     \<and> srcLimit t = MaxInputBytes l \<and> srcLimit t = srcCount t + int (d_room a) \<and> 0 < srcLimit t
     \<and> (pendingErr t = None \<or> pendingErr t = Some EOF \<and> d_in a = [])
     \<and> limits t = l \<and> policy t = pol \<and> mapping t = m
     \<and> pages t = d_pages a \<and> pageCounts t = d_counts a \<and> pageLogical t = d_decoded a"

lemma represents_env:
  "represents l pol m t a \<Longrightarrow> rest e = rest (env t) \<Longrightarrow> content e = content (env t) \<Longrightarrow>
   pos e = pos (env t) \<Longrightarrow> represents l pol m (t\<lparr>env := e\<rparr>) a"
  by (simp add: represents_def)

lemma ctxErr_quiet:
  assumes "represents l pol m t a"
  obtains t' where "ctxErr host t = (None, t')" "represents l pol m t' a" "rstatic t' = rstatic t"
    "srcCount t' = srcCount t" "pendingErr t' = pendingErr t"
proof -
  obtain c e' where c: "hCtxErr host (env t) = (c, e')" by (metis prod.exhaust)
  show ?thesis
    using host_ctx [OF c] c assms represents_env [of l pol m t a e']
    by (intro that [of "t\<lparr>env := e'\<rparr>"]) (auto simp: ctxErr_def)
qed

lemma checkContext_ok:
  "represents l pol m t a \<Longrightarrow> outcome (represents l pol m) (checkContext host op pg row t) (Some ((), a))"
  by (erule ctxErr_quiet) (auto simp: checkContext_def)

lemma skip_checkContext:
  "represents l pol m t a \<Longrightarrow> (\<And>t'. represents l pol m t' a \<Longrightarrow> outcome (represents l pol m) (k t') s) \<Longrightarrow>
   outcome (represents l pol m) (seqE (checkContext host op pg row) k t) s"
  by (rule outcome_skip [OF checkContext_ok])

lemma src_read_step:
  assumes "represents l pol m t a" "0 < k"
  obtains t1 where "represents l pol m t1 a"
    "src_read host k t = (case pendingErr t1 of
       Some e \<Rightarrow> (([], Some e), t1\<lparr>pendingErr := None\<rparr>)
     | None \<Rightarrow> if d_room a = 0 then src_probe host t1 else src_fill host (min k (d_room a)) t1)"
proof -
  from assms(1) obtain t1 where t1: "ctxErr host t = (None, t1)" "represents l pol m t1 a"
    by (rule ctxErr_quiet)
  have "srcLimit t1 - srcCount t1 = int (d_room a)" "0 < srcLimit t1"
    using t1(2) by (auto simp: represents_def)
  then show ?thesis using t1 assms(2)
    by (intro that [OF t1(2)]) (simp add: src_read_def Let_def min_def split: option.split)
qed

lemma probe_eof:
  assumes "represents l pol m t a" "d_in a = []"
  obtains t' where "src_probe host t = (([], Some EOF), t')" "represents l pol m t' a"
proof -
  obtain n d err e' where h: "hRead host 1 (env t) = ((n, d, err), e')" by (metis prod.exhaust)
  have "rest (env t) = []" using assms by (simp add: represents_def)
  with host_read [OF h] h assms show ?thesis
    by (intro that [of "t\<lparr>env := e'\<rparr>"] represents_env) (auto simp: src_probe_def Let_def)
qed

lemma fill_eof:
  assumes "represents l pol m t a" "d_in a = []" "0 < k"
  obtains t' where "src_fill host k t = (([], Some EOF), t')" "represents l pol m t' a"
proof -
  obtain n d err e' where h: "hRead host k (env t) = ((n, d, err), e')" by (metis prod.exhaust)
  have "rest (env t) = []" using assms by (simp add: represents_def)
  with host_read [OF h] h assms show ?thesis
    by (intro that [of "t\<lparr>env := e'\<rparr>"] represents_env) (auto simp: src_fill_def fit_def Let_def)
qed

lemma src_read_eof:
  assumes "represents l pol m t a" "0 < k" "d_in a = []"
  obtains t' where "src_read host k t = (([], Some EOF), t')" "represents l pol m t' a"
proof -
  obtain t1 where t1: "represents l pol m t1 a" and r: "src_read host k t = (case pendingErr t1 of
       Some e \<Rightarrow> (([], Some e), t1\<lparr>pendingErr := None\<rparr>)
     | None \<Rightarrow> if d_room a = 0 then src_probe host t1 else src_fill host (min k (d_room a)) t1)"
    using src_read_step [OF assms(1,2)] .
  obtain t2 where t2: "src_probe host t1 = (([], Some EOF), t2)" "represents l pol m t2 a"
    using probe_eof [OF t1 assms(3)] .
  show ?thesis
  proof (cases "pendingErr t1")
    case None
    show ?thesis
    proof (cases "d_room a = 0")
      case False
      with assms(2) fill_eof [OF t1 assms(3), of "min k (d_room a)"] r None that show ?thesis by auto
    qed (use None r t2 that in auto)
  next
    case (Some e)
    moreover have "represents l pol m (t1\<lparr>pendingErr := None\<rparr>) a" "e = EOF"
      using t1 Some by (auto simp: represents_def)
    ultimately show ?thesis using that r by auto
  qed
qed

lemma src_read_limit:
  assumes "represents l pol m t a" "0 < k" "d_in a \<noteq> []" "d_room a = 0"
  obtains t' where "src_read host k t = (([], Some InputLimitError), t')"
proof -
  obtain t1 where t1: "represents l pol m t1 a" and r: "src_read host k t = (case pendingErr t1 of
       Some e \<Rightarrow> (([], Some e), t1\<lparr>pendingErr := None\<rparr>)
     | None \<Rightarrow> if d_room a = 0 then src_probe host t1 else src_fill host (min k (d_room a)) t1)"
    using src_read_step [OF assms(1,2)] .
  obtain n d err e' where h: "hRead host 1 (env t1) = ((n, d, err), e')" by (metis prod.exhaust)
  have "rest (env t1) \<noteq> []" "pendingErr t1 = None" using t1 assms by (auto simp: represents_def)
  with host_read [OF h] h r assms(4) show ?thesis
    by (intro that [of "t1\<lparr>env := e'\<rparr>"]) (auto simp: src_probe_def Let_def)
qed

lemma src_read_data:
  assumes "represents l pol m t a" "0 < k" "d_in a \<noteq> []" "0 < d_room a"
  obtains n t' where "src_read host k t = ((take n (d_in a), None), t')" "0 < n" "n \<le> k" "n \<le> d_room a"
    "n \<le> length (d_in a)"
    "represents l pol m t' (a\<lparr>d_in := drop n (d_in a), d_room := d_room a - n\<rparr>)"
proof -
  obtain t1 where t1: "represents l pol m t1 a" and r: "src_read host k t = (case pendingErr t1 of
       Some e \<Rightarrow> (([], Some e), t1\<lparr>pendingErr := None\<rparr>)
     | None \<Rightarrow> if d_room a = 0 then src_probe host t1 else src_fill host (min k (d_room a)) t1)"
    using src_read_step [OF assms(1,2)] .
  have in1: "rest (env t1) = d_in a" "pendingErr t1 = None" using t1 assms by (auto simp: represents_def)
  obtain n d err e' where h: "hRead host (min k (d_room a)) (env t1) = ((n, d, err), e')"
    by (metis prod.exhaust)
  define i where "i = nat n"
  have facts: "n = int i" "0 < i" "i \<le> min k (d_room a)" "i \<le> length (d_in a)" "fit i d = take i (d_in a)"
    "rest e' = drop i (d_in a)" "content e' = content (env t1)" "pos e' = pos (env t1)"
    "err = None \<or> err = Some EOF \<and> drop i (d_in a) = []"
    using host_read [OF h] in1 assms by (auto simp: i_def fit_def)
  define t2 where "t2 = t1\<lparr>env := e', srcCount := srcCount t1 + int i,
      pendingErr := (if err = None then None else Some EOF)\<rparr>"
  have "src_fill host (min k (d_room a)) t1 = ((take i (d_in a), None), t2)"
    using h facts in1 by (auto simp: src_fill_def Let_def t2_def)
  moreover have "represents l pol m t2 (a\<lparr>d_in := drop i (d_in a), d_room := d_room a - i\<rparr>)"
    using t1 facts by (auto simp: represents_def t2_def)
  ultimately show ?thesis using that [of i t2] facts r in1 assms(4) by simp
qed

lemma readError_limit: "isl (fst (readError host op InputLimitError onEOF pg row t))"
  by (simp add: readError_def errors_As_inputLimit_def)

lemma readError_eof:
  assumes "represents l pol m t a"
  obtains t' where "readError host op EOF onEOF pg row t = onEOF t'" "represents l pol m t' a"
  using assms
proof (rule ctxErr_quiet)
  fix t' assume "ctxErr host t = (None, t')" "represents l pol m t' a"
  then show thesis by (intro that [of t']) (auto simp: readError_def errors_As_inputLimit_def)
qed

lemma readFull_loop_ok:
  "represents l pol m t a \<Longrightarrow> length acc \<le> k \<Longrightarrow>
   outcome (represents l pol m) (readFull_loop host k pg row acc t)
     (map_option (\<lambda>(v, b). (acc @ v, b)) (d_read (k - length acc) a))"
proof (induction "k - length acc" arbitrary: acc t a rule: less_induct)
  case less
  note unfold = readFull_loop.simps [of host k pg row acc t]
  consider "length acc = k" | (eof) "length acc < k" "d_in a = []"
    | (limit) "length acc < k" "d_in a \<noteq> []" "d_room a = 0"
    | (data) "length acc < k" "d_in a \<noteq> []" "0 < d_room a"
    using less.prems(2) by (metis gr0I le_neq_implies_less)
  then show ?case
  proof cases
    case eof
    from eof(1) src_read_eof [OF less.prems(1) _ eof(2), of "k - length acc"] obtain t1
      where t1: "src_read host (k - length acc) t = (([], Some EOF), t1)" "represents l pol m t1 a" by auto
    obtain t2 where "readFull_loop host k pg row acc t = (Inl (malformed ''truncated raster data'' pg row t2), t2)"
      using readError_eof [OF t1(2), of "''read source''"
          "failE (malformed ''truncated raster data'' pg row)" pg row] eof t1 by (auto simp: unfold)
    with eof show ?thesis by (simp add: d_read_def)
  next
    case limit
    from limit(1) src_read_limit [OF less.prems(1) _ limit(2,3), of "k - length acc"] obtain t1
      where "src_read host (k - length acc) t = (([], Some InputLimitError), t1)" by auto
    with limit show ?thesis by (simp add: unfold readError_limit d_read_def Suc_le_eq)
  next
    case data
    from data src_read_data [OF less.prems(1) _ data(2,3), of "k - length acc"] obtain n t1 where
      rd: "src_read host (k - length acc) t = ((take n (d_in a), None), t1)" and n: "0 < n"
        "n \<le> k - length acc" "n \<le> d_room a" "n \<le> length (d_in a)" and
      t1: "represents l pol m t1 (a\<lparr>d_in := drop n (d_in a), d_room := d_room a - n\<rparr>)" by auto
    have IH: "outcome (represents l pol m) (readFull_loop host k pg row (acc @ take n (d_in a)) t1)
        (map_option (\<lambda>(v, b). ((acc @ take n (d_in a)) @ v, b))
          (d_read (k - length (acc @ take n (d_in a))) (a\<lparr>d_in := drop n (d_in a), d_room := d_room a - n\<rparr>)))"
      by (rule less.hyps [OF _ t1]) (use data n in auto)
    have k: "k - length acc = n + (k - length (acc @ take n (d_in a)))" using n by simp
    have run: "readFull_loop host k pg row acc t = readFull_loop host k pg row (acc @ take n (d_in a)) t1"
      using data rd by (simp add: unfold)
    show ?thesis
      using IH unfolding run k d_read_add [OF n(4,3)] option.map_comp
      by (simp add: comp_def case_prod_unfold)
  qed (use less.prems in \<open>simp add: unfold\<close>)
qed

lemma readFull_ok:
  "represents l pol m t a \<Longrightarrow> outcome (represents l pol m) (readFull host k pg row t) (d_read k a)"
  using readFull_loop_ok [of l pol m t a "[]" k pg row] by (simp add: readFull_def option.map_id)

lemma readHeader_loop_ok:
  "represents l pol m t a \<Longrightarrow> length acc \<le> urfPageHeaderSize \<Longrightarrow>
   outcome (represents l pol m) (readHeader_loop host acc t)
     (map_option (\<lambda>(v, b). (acc @ v, b))
        (d_read (min (urfPageHeaderSize - length acc) (length (d_in a))) a))"
proof (induction "urfPageHeaderSize - length acc" arbitrary: acc t a rule: less_induct)
  case less
  note unfold = readHeader_loop.simps [of host acc t]
  consider "length acc = urfPageHeaderSize" | (eof) "length acc < urfPageHeaderSize" "d_in a = []"
    | (limit) "length acc < urfPageHeaderSize" "d_in a \<noteq> []" "d_room a = 0"
    | (data) "length acc < urfPageHeaderSize" "d_in a \<noteq> []" "0 < d_room a"
    using less.prems(2) by (metis gr0I le_neq_implies_less)
  then show ?case
  proof cases
    case eof
    from eof(1) src_read_eof [OF less.prems(1) _ eof(2), of "urfPageHeaderSize - length acc"] obtain t1
      where t1: "src_read host (urfPageHeaderSize - length acc) t = (([], Some EOF), t1)"
        "represents l pol m t1 a" by auto
    obtain t2 where "readHeader_loop host acc t = (Inr acc, t2)" "represents l pol m t2 a"
      using readError_eof [OF t1(2), of "''read page header''" "ret acc" "pages t1 + 1" 0] eof t1
      by (auto simp: unfold)
    with eof show ?thesis by simp
  next
    case limit
    from limit(1) src_read_limit [OF less.prems(1) _ limit(2,3), of "urfPageHeaderSize - length acc"] obtain t1
      where "src_read host (urfPageHeaderSize - length acc) t = (([], Some InputLimitError), t1)" by auto
    moreover from limit have "d_read (min (urfPageHeaderSize - length acc) (length (d_in a))) a = None"
      by (auto simp: d_read_def min_def)
    ultimately show ?thesis using limit by (simp add: unfold readError_limit)
  next
    case data
    let ?k = "urfPageHeaderSize - length acc"
    from data src_read_data [OF less.prems(1) _ data(2,3), of ?k] obtain n t1 where
      rd: "src_read host ?k t = ((take n (d_in a), None), t1)" and n: "0 < n"
        "n \<le> ?k" "n \<le> d_room a" "n \<le> length (d_in a)" and
      t1: "represents l pol m t1 (a\<lparr>d_in := drop n (d_in a), d_room := d_room a - n\<rparr>)" by auto
    let ?b = "a\<lparr>d_in := drop n (d_in a), d_room := d_room a - n\<rparr>"
    let ?acc = "acc @ take n (d_in a)"
    have IH: "outcome (represents l pol m) (readHeader_loop host ?acc t1)
        (map_option (\<lambda>(v, b). (?acc @ v, b))
          (d_read (min (urfPageHeaderSize - length ?acc) (length (d_in ?b))) ?b))"
      by (rule less.hyps [OF _ t1]) (use data n in auto)
    have k: "min ?k (length (d_in a)) = n + min (urfPageHeaderSize - length ?acc) (length (d_in ?b))"
      using n by simp
    have run: "readHeader_loop host acc t = readHeader_loop host ?acc t1"
      using data rd by (simp add: unfold)
    show ?thesis
      using IH unfolding run k d_read_add [OF n(4,3)] option.map_comp
      by (simp add: comp_def case_prod_unfold)
  qed (use less.prems in \<open>simp add: unfold\<close>)
qed

lemma readHeader_ok:
  "represents l pol m t a \<Longrightarrow> outcome (represents l pol m) (readHeader host t) (d_header a)"
  using readHeader_loop_ok [of l pol m t a "[]"] by (simp add: readHeader_def d_header_def option.map_id)

lemma represents_recordWrite:
  assumes "represents l pol m t a" "rest e = d_in a" "content e = d_out a @ v" "pos e = length (d_out a @ v)"
    "int (length (d_out a) + length v) \<le> MaxOutputBytes l"
  shows "represents l pol m (recordWrite (int (length v)) (t\<lparr>env := e\<rparr>)) (a\<lparr>d_out := d_out a @ v\<rparr>)"
  using assms by (auto simp: represents_def recordWrite_def emit_def Let_def split: option.split)

lemma write_loop_ok:
  assumes R: "represents l pol m t a" and fits: "int (length (d_out a) + length v) \<le> MaxOutputBytes l"
  shows "outcome (represents l pol m) (write_loop host pg row v t) (Some ((), a\<lparr>d_out := d_out a @ v\<rparr>))"
proof (cases "v = []")
  case False
  have last: "write_loop host pg row [] t' = (Inr (), t')" for t' by (simp add: write_loop.simps)
  show ?thesis
    unfolding write_loop.simps [of host pg row v t] if_not_P [OF False]
  proof (rule skip_checkContext [OF R])
    fix t1 assume R1: "represents l pol m t1 a"
    obtain n err e' where w: "hWrite host v (env t1) = ((n, err), e')" by (metis prod.exhaust)
    have c: "pos (env t1) = length (d_out a)" "content (env t1) = d_out a" "rest (env t1) = d_in a"
      using R1 by (auto simp: represents_def)
    with host_write [OF w] have e': "n = int (length v)" "err = None" "rest e' = d_in a"
      "content e' = d_out a @ v" "pos e' = length (d_out a @ v)" by (auto simp: put_def)
    with represents_recordWrite [OF R1 e'(3-5) fits] False w
    show "outcome (represents l pol m)
       (case hWrite host v (env t1) of ((n, err), e') \<Rightarrow>
        let t = t1\<lparr>env := e'\<rparr> in
        if n < 0 \<or> n > int (length v)
        then (Inl (destError ''write destination'' (ErrNew ''invalid write count'') pg row t), t)
        else
          let t = recordWrite n t in
          (case err of
             Some e \<Rightarrow> (Inl (destError ''write destination'' e pg row t), t)
           | None \<Rightarrow>
               if n = 0 then (Inl (destError ''write destination'' ErrShortWrite pg row t), t)
               else write_loop host pg row (drop (nat n) v) t))
       (Some ((), a\<lparr>d_out := d_out a @ v\<rparr>))"
      by (simp add: Let_def last)
  qed
qed (use R in \<open>simp add: write_loop.simps\<close>)

lemma writeDst_ok:
  assumes "represents l pol m t a"
  shows "outcome (represents l pol m) (writeDst host v pg row t) (d_write l v a)"
  unfolding writeDst_def
proof (rule skip_checkContext [OF assms])
  fix t1 assume R: "represents l pol m t1 a"
  then have "limits t1 = l" "outputBytes t1 = int (length (d_out a))"
    "0 < MaxOutputBytes l" by (auto simp: represents_def)
  with write_loop_ok [OF R, of v pg row]
  show "outcome (represents l pol m)
     (if MaxOutputBytes (limits t1) > 0 \<and> outputBytes t1 + int (length v) > MaxOutputBytes (limits t1)
      then (Inl (resource ''maximum output bytes exceeded'' pg row t1), t1)
      else write_loop host pg row v t1) (d_write l v a)"
    by (auto simp: d_write_def)
qed

lemma copyBytes_ok:
  "represents l pol m t a \<Longrightarrow> outcome (represents l pol m) (copyBytes host n pg row t) (d_copyn l n a)"
proof (induction n arbitrary: t a rule: less_induct)
  case (less n)
  show ?case
  proof (cases "n = 0")
    case True
    with less.prems show ?thesis by (simp add: copyBytes.simps d_copyn_def represents_def)
  next
    case False
    define c where "c = (if maxCopyScratch > n then n else maxCopyScratch)"
    have c: "0 < c" "c \<le> n" using False by (auto simp: c_def maxCopyScratch_def)
    have "outcome (represents l pol m) (copyBytes host n pg row t)
      (Option.bind (d_read c a) (\<lambda>(v, b). Option.bind (d_write l v b) (\<lambda>(_, b). d_copyn l (n - c) b)))"
      unfolding copyBytes_unfold [of host n] Let_def c_def [symmetric] if_P [OF False [unfolded neq0_conv]]
      by (rule skip_checkContext [OF less.prems], rule outcome_bindE [OF readFull_ok], assumption,
          rule outcome_seqE [OF writeDst_ok], assumption, rule less.IH) (use c in auto)
    then show ?thesis using d_copyn_add [of l c "n - c" a] c by (simp add: d_read_write)
  qed
qed

lemma copyPackets_ok:
  "represents l pol m t a \<Longrightarrow>
   outcome (represents l pol m) (copyPackets host pg row bpp n t) (d_scan l (scan_packets bpp n) a)"
proof (induction n arbitrary: t a rule: less_induct)
  case (less n)
  show ?case
  proof (cases "n > 0 \<and> bpp \<noteq> 0")
    case False
    then show ?thesis using less.prems
      by (auto simp: copyPackets.simps [of host pg row bpp n] scan_packets.simps [of bpp n] d_scan_def represents_def)
  next
    case True
    show ?thesis
      unfolding copyPackets_unfold [of host pg row bpp n] if_P [OF True]
        d_scan_byte [OF scan_packets_byte, OF True True, symmetric]
    proof (rule skip_checkContext [OF less.prems], rule outcome_bindE [OF readFull_ok], assumption,
        rule outcome_seqE [OF writeDst_ok], assumption)
      fix c b t2 assume R: "represents l pol m t2 b"
      show "outcome (represents l pol m) ((case packet bpp n (c ! 0) of
              Inl msg \<Rightarrow> failE (resource msg pg row)
            | Inr r \<Rightarrow> seqE (copyBytes host (fst r) pg row)
                        (copyPackets host pg row bpp (n - snd r))) t2) (d_scan l (scan_packet bpp n (c ! 0)) b)"
        unfolding d_scan_packet
      proof (cases "packet bpp n (c ! 0)")
        case (Inr r)
        with packet_advance [of bpp n "c ! 0" "fst r" "snd r"] True have adv: "n - snd r < n" by auto
        show "outcome (represents l pol m) ((case packet bpp n (c ! 0) of
              Inl msg \<Rightarrow> failE (resource msg pg row)
            | Inr r \<Rightarrow> seqE (copyBytes host (fst r) pg row)
                        (copyPackets host pg row bpp (n - snd r))) t2)
            (case packet bpp n (c ! 0) of Inl _ \<Rightarrow> None
    | Inr r \<Rightarrow> Option.bind (d_copyn l (fst r) b) (\<lambda>(_, b). d_scan l (scan_packets bpp (n - snd r)) b))"
          unfolding Inr sum.case
          by (rule outcome_seqE, rule copyBytes_ok [OF R]) (rule less.IH [OF adv])
      qed simp
    qed
  qed
qed

lemma copyRows_ok:
  "represents l pol m t a \<Longrightarrow>
   outcome (represents l pol m) (copyRows host p bpp n t) (d_scan l (scan_rows p bpp n) a)"
proof (induction "unat (height p) - n" arbitrary: n t a rule: less_induct)
  case less
  show ?case
  proof (cases "n < unat (height p)")
    case False
    then show ?thesis using less.prems
      by (auto simp: copyRows.simps [of host p bpp n] scan_rows.simps [of p bpp n] d_scan_def represents_def)
  next
    case True
    have less: "unat (height p) - rows_after p n x < unat (height p) - n" for x
      using True by (auto simp: rows_after_def)
    show ?thesis
      unfolding copyRows_unfold [of host p bpp n] if_P [OF True] rows_after_def [symmetric]
        d_scan_byte [OF scan_rows_byte, OF True True, symmetric]
      by (rule skip_checkContext [OF less.prems], rule outcome_bindE [OF readFull_ok], assumption,
        rule outcome_seqE [OF writeDst_ok], assumption, unfold d_scan_row,
        rule outcome_seqE, erule copyPackets_ok, rule less.hyps [OF less])
  qed
qed

lemma copyPageData_ok:
  assumes "represents l pol m t a" "pwgBitsPerPixel p div 8 \<noteq> 0"
  shows "outcome (represents l pol m) (copyPageData host p t) (d_scan l (scan_page p) a)"
proof -
  have "unat (ucast (pwgBitsPerPixel p div 8) :: u64) \<noteq> 0"
    using assms(2) by (simp add: unat_eq_zero)
  moreover have "unat x \<noteq> 0 \<Longrightarrow> x \<noteq> 0" for x :: u64 by auto
  ultimately have "(ucast (pwgBitsPerPixel p div 8) :: u64) \<noteq> 0" by blast
  with copyRows_ok [OF assms(1)] show ?thesis
    by (simp add: copyPageData_def Let_def scan_page_def [abs_def])
qed

lemma parsePage_ok:
  assumes "represents l pol m t a"
  shows "outcome (represents l pol m) (parsePage raw t) (d_parse l pol m raw a)"
proof -
  have c: "limits t = l" "policy t = pol" "mapping t = m" "pageLogical t = d_decoded a"
    using assms by (auto simp: represents_def)
  show ?thesis
  proof (cases "page_ok l pol m (d_decoded a) (rawPage raw)")
    case True
    then have "parsePage raw t = (Inr (described pol m (rawPage raw)),
        t\<lparr>pageLogical := d_decoded a + of_nat (page_bytes m (rawPage raw))\<rparr>)"
      by (simp add: parsePage_iff c)
    with True assms show ?thesis by (simp add: d_parse_def represents_def)
  next
    case False
    then have "fst (parsePage raw t) \<noteq> Inr p" for p
      using parsePage_iff [of raw t p "snd (parsePage raw t)"] by (auto simp: c prod_eq_iff)
    with False show ?thesis by (auto simp: d_parse_def isl_def) (metis old.sum.exhaust)
  qed
qed

lemma represents_leases [simp]:
  "represents l pol m (t\<lparr>offsetLease := x\<rparr>) a = represents l pol m t a"
  "represents l pol m (t\<lparr>acquired := n\<rparr>) a = represents l pol m t a"
  "represents l pol m (t\<lparr>acquired := n, events := es\<rparr>) a = represents l pol m t a"
  "represents l pol m (emit ev y t) a = represents l pol m t a"
  by (simp_all add: represents_def emit_def split: option.split)

lemma represents_acquire: "acquire host cn sz t = (x, t') \<Longrightarrow> represents l pol m t' a = represents l pol m t a"
  by (auto simp: acquire_def Let_def split: if_splits)

lemma appendPageCount_ok:
  assumes "represents l pol m t a"
  shows "outcome (represents l pol m) (appendPageCount host off t) (Some ((), a\<lparr>d_counts := d_counts a @ [off]\<rparr>))"
proof -
  define t' where "t' = t\<lparr>pageCounts := pageCounts t @ [off], pageCountsCap :=
      (if length (pageCounts t) + 1 \<le> pageCountsCap t then pageCountsCap t
       else hGrow host (pageCountsCap t) (length (pageCounts t) + 1))\<rparr>"
  have "represents l pol m t' (a\<lparr>d_counts := d_counts a @ [off]\<rparr>)"
    using assms by (simp add: represents_def t'_def)
  then show ?thesis
    unfolding appendPageCount_def Let_def t'_def [symmetric]
    by (auto split: prod.split simp: represents_acquire)
qed

lemma emitPageHeader_write_ok:
  assumes "represents l pol m t a"
  shows "outcome (represents l pol m) (emitPageHeader_write host p t) (d_emit l pol p a)"
proof -
  have c: "limits t = l" "policy t = pol" "pages t = d_pages a" "pageCounts t = d_counts a"
    "outputBytes t = int (length (d_out a))"
    using assms by (auto simp: represents_def)
  show ?thesis
  proof (cases "MaxPages l > 0 \<and> (of_nat (length (d_counts a) + 1) :: u32) > MaxPages l")
    case True
    then show ?thesis by (simp add: emitPageHeader_write_def d_emit_def c)
  next
    case False
    show ?thesis
      unfolding emitPageHeader_write_def d_emit_def c if_not_P [OF False]
      by (rule outcome_seqE, rule writeDst_ok [OF assms]) (rule appendPageCount_ok)
  qed
qed

lemma outcome_emit:
  "outcome (represents l pol m) (r, t) s \<Longrightarrow> outcome (represents l pol m) (r, emit ev x t) s"
  by (cases s; cases r) auto

lemma emitPageHeader_ok:
  assumes "represents l pol m t a"
  shows "outcome (represents l pol m) (emitPageHeader host p t) (d_emit l pol p a)"
proof (cases "observer t")
  case True
  obtain x t1 where x: "acquire host ''urf/page-header'' (int pwgPageHeaderSize) t = (x, t1)"
    by (metis prod.exhaust)
  obtain r t2 where w: "emitPageHeader_write host p t1 = (r, t2)" by (metis prod.exhaust)
  have "outcome (represents l pol m) (r, t2) (d_emit l pol p a)"
    using emitPageHeader_write_ok [of l pol m t1 a p] represents_acquire [OF x] assms w by simp
  with True x w show ?thesis by (simp add: emitPageHeader_def outcome_emit)
qed (use emitPageHeader_write_ok [OF assms] in \<open>simp add: emitPageHeader_def\<close>)

lemma described_bits: "page_ok l pol m d q \<Longrightarrow> pwgBitsPerPixel (described pol m q) div 8 \<noteq> 0"
  by (cases m) (auto simp: page_ok_def described_def row_size_def sourceMapping_def)

lemma nextPage_ok:
  assumes R: "represents l pol m t a"
  shows "outcome (represents l pol m) (nextPage host raw t) (d_next l pol m raw a)"
proof -
  have c: "limits t = l" "pages t = d_pages a" using R by (auto simp: represents_def)
  show ?thesis
  proof (cases "MaxPages l > 0 \<and> d_pages a \<ge> MaxPages l")
    case True
    then show ?thesis by (simp add: nextPage_def d_next_def c)
  next
    case False
    have "outcome (represents l pol m) (processPage host raw t)
        (Option.bind (d_parse l pol m raw a) (\<lambda>(p, b).
           Option.bind (d_emit l pol p b) (\<lambda>(_, b). d_scan l (scan_page p) b)))"
      unfolding processPage_def
      by (rule outcome_bindE, rule parsePage_ok [OF R], rule outcome_seqE, erule emitPageHeader_ok,
          erule copyPageData_ok) (auto simp: d_parse_def described_bits split: if_splits)
    then have "outcome (represents l pol m) (nextPage host raw t)
        (Option.bind (Option.bind (d_parse l pol m raw a) (\<lambda>(p, b).
           Option.bind (d_emit l pol p b) (\<lambda>(_, b). d_scan l (scan_page p) b)))
         (\<lambda>(_, b). Some (False, b\<lparr>d_pages := d_pages b + 1\<rparr>)))"
      unfolding nextPage_def c if_not_P [OF False]
      by (rule outcome_seqE) (simp add: represents_def)
    moreover have "Option.bind (Option.bind (d_parse l pol m raw a) (\<lambda>(p, b).
           Option.bind (d_emit l pol p b) (\<lambda>(_, b). d_scan l (scan_page p) b)))
         (\<lambda>(_, b). Some (False, b\<lparr>d_pages := d_pages b + 1\<rparr>)) = d_next l pol m raw a"
      unfolding d_next_def if_not_P [OF False]
      by (simp add: bind_assoc case_prod_unfold)
    ultimately show ?thesis by simp
  qed
qed

lemma translatePage_ok:
  assumes "represents l pol m t a"
  shows "outcome (represents l pol m) (translatePage host t) (d_step l pol m a)"
  unfolding translatePage_def d_step_def
  by (rule skip_checkContext [OF assms], rule outcome_bindE, erule readHeader_ok)
     (simp add: nextPage_ok)

lemma translatePages_ok:
  assumes "represents l pol m t a" "length (d_counts a) = unat (d_pages a)" "MaxPages l \<noteq> 0"
  shows "\<exists>r. translatePages host t = Some r
    \<and> outcome (\<lambda>t a. \<exists>d. represents l pol m t (a\<lparr>d_decoded := d\<rparr>)) r (d_body l pol m a)"
  using assms(1,2)
proof (induction "length (d_in a)" arbitrary: t a rule: less_induct)
  case less
  have fits: "int (length (d_out a)) \<le> MaxOutputBytes l" using less.prems by (simp add: represents_def)
  note body = d_body_step [OF less.prems(2) assms(3) fits, of pol m]
  have page: "outcome (represents l pol m) (translatePage host t) (d_step l pol m a)"
    by (rule translatePage_ok) (rule less.prems)
  show ?case
  proof (cases "d_step l pol m a")
    case None
    with page show ?thesis by (auto simp: translatePages.simps [of host t] body isl_def split: prod.splits)
  next
    case (Some fb)
    then obtain fin b where fb: "d_step l pol m a = Some (fin, b)" by (cases fb) auto
    with page obtain t1 where t1: "translatePage host t = (Inr fin, t1)" "represents l pol m t1 b"
      by (auto elim: outcome_SomeE)
    show ?thesis
    proof (cases fin)
      case True
      then show ?thesis using t1 fb
        by (auto simp: translatePages.simps [of host t] body intro!: exI [of _ "d_decoded b"])
    next
      case False
      with fb d_step_more [of l pol m a b] less.prems(2) assms(3)
      have b: "length (d_counts b) = unat (d_pages b)" "length (d_in b) < length (d_in a)" by auto
      from less.hyps [OF b(2) t1(2) b(1)] False t1 fb show ?thesis
        by (simp add: translatePages.simps [of host t] body)
    qed
  qed
qed

text \<open>The final phase, in which the file keeps its size and the position moves about.\<close>

definition settled :: "Limits \<Rightarrow> u32 \<Rightarrow> int \<Rightarrow> 'e translator \<Rightarrow> byte list \<Rightarrow> bool" where
  "settled l n cnt t f \<longleftrightarrow> content (env t) = f \<and> pos (env t) \<le> length f \<and> outputBytes t = int (length f)
     \<and> limits t = l \<and> pages t = n \<and> srcCount t = cnt"

lemma settled_env:
  "settled l n cnt t f \<Longrightarrow> content e = content (env t) \<Longrightarrow> pos e \<le> length f \<Longrightarrow> settled l n cnt (t\<lparr>env := e\<rparr>) f"
  by (simp add: settled_def)

lemma settled_checkContext:
  assumes "settled l n cnt t f"
  shows "outcome (settled l n cnt) (checkContext host op pg row t) (Some ((), f))"
proof -
  obtain c e' where c: "hCtxErr host (env t) = (c, e')" by (metis prod.exhaust)
  with host_ctx [OF c] assms show ?thesis by (simp add: checkContext_def ctxErr_def settled_def)
qed

lemma settled_skip:
  "settled l n cnt t f \<Longrightarrow> (\<And>t'. settled l n cnt t' f \<Longrightarrow> outcome (settled l n cnt) (k t') s) \<Longrightarrow>
   outcome (settled l n cnt) (seqE (checkContext host op pg row) k t) s"
  by (rule outcome_skip [OF settled_checkContext])

lemma seek_start_settled:
  assumes "settled l n cnt t f" "0 \<le> off" "nat off \<le> length f"
  obtains t' where "seek host off SeekStart t = ((off, None), t')" "settled l n cnt t' f" "pos (env t') = nat off"
proof -
  obtain p err e' where h: "hSeek host off SeekStart (env t) = ((p, err), e')" by (metis prod.exhaust)
  with host_seek_start [OF h assms(2)] assms show ?thesis
    by (intro that [of "t\<lparr>env := e'\<rparr>"]) (auto simp: seek_def settled_def)
qed

lemma seekWrite_loop_settled:
  assumes S: "settled l n cnt t f" and p: "pos (env t) + length v \<le> length f"
  shows "outcome (settled l n cnt) (seekWrite_loop host v op t) (Some ((), put (pos (env t)) v f))"
proof (cases "v = []")
  case False
  have last: "seekWrite_loop host [] op t' = (Inr (), t')" for t' by (simp add: seekWrite_loop.simps)
  obtain c e1 where c: "hCtxErr host (env t) = (c, e1)" by (metis prod.exhaust)
  obtain k err e2 where w: "hWrite host v e1 = ((k, err), e2)" by (metis prod.exhaust)
  have e1: "c = None" "content e1 = f" "pos e1 = pos (env t)"
    using host_ctx [OF c] S by (auto simp: settled_def)
  with host_write [OF w] p have e2: "k = int (length v)" "err = None" "content e2 = put (pos (env t)) v f"
    "pos e2 = pos (env t) + length v" by auto
  have "settled l n cnt (emit ev x (t\<lparr>env := e2\<rparr>)) (put (pos (env t)) v f)" for ev x
    using S p e2 by (simp add: settled_def emit_def split: option.split)
  then show ?thesis
    using False c e1(1) w e2(1,2)
    by (simp add: seekWrite_loop.simps [of host v op t] checkContext_def ctxErr_def Let_def last)
qed (use S in \<open>simp add: seekWrite_loop.simps put_def\<close>)

lemma seekWrite_settled:
  assumes S: "settled l n cnt t f" and off: "0 \<le> off" "nat off + length v \<le> length f"
  shows "outcome (settled l n cnt) (seekWrite host off v op t) (Some ((), put (nat off) v f))"
  unfolding seekWrite_def
proof (rule settled_skip [OF S])
  fix t1 assume S1: "settled l n cnt t1 f"
  obtain t2 where t2: "seek host off SeekStart t1 = ((off, None), t2)" "settled l n cnt t2 f"
    "pos (env t2) = nat off"
    using seek_start_settled [OF S1 off(1)] off(2) by auto
  with seekWrite_loop_settled [OF t2(2), of v op] off
  show "outcome (settled l n cnt)
     (if off < 0 then (Inl (destError op (ErrNew ''negative seek offset'') (pages t1) 0 t1), t1)
       else (case seek host off SeekStart t1 of ((pos, err), t) \<Rightarrow>
         (case err of
            Some e \<Rightarrow> (Inl (destError op e (pages t) 0 t), t)
          | None \<Rightarrow>
              if pos \<noteq> off
              then (Inl (destError op (Errorf ''seek returned offset %d, want %d'' [FInt pos, FInt off])
                      (pages t) 0 t), t)
              else seekWrite_loop host v op t)))
     (Some ((), put (nat off) v f))"
    by simp
qed

lemma patch_settled:
  "settled l n cnt t f \<Longrightarrow> (\<And>off. off \<in> set offs \<Longrightarrow> 0 \<le> off \<and> off + 4 \<le> int (length f)) \<Longrightarrow>
   outcome (settled l n cnt) (mapE (\<lambda>off. seekWrite host off (be32 c) op) offs t)
     (Some ((), patch_counts c offs f))"
proof (induction offs arbitrary: t f)
  case (Cons off offs)
  have off: "0 \<le> off" "nat off + length (be32 c) \<le> length f" using Cons.prems(2) [of off] by auto
  have "outcome (settled l n cnt) (mapE (\<lambda>off. seekWrite host off (be32 c) op) offs t')
      (Some ((), patch_counts c offs (put (nat off) (be32 c) f)))"
    if "settled l n cnt t' (put (nat off) (be32 c) f)" for t'
    by (rule Cons.IH [OF that]) (use off Cons.prems(2) in auto)
  then have "outcome (settled l n cnt)
      (seqE (seekWrite host off (be32 c) op) (mapE (\<lambda>off. seekWrite host off (be32 c) op) offs) t)
      (Some ((), patch_counts c offs (put (nat off) (be32 c) f)))"
    by - (rule outcome_skip, rule seekWrite_settled [OF Cons.prems(1) off], simp)
  then show ?case by (simp add: patch_counts_def)
qed (simp add: patch_counts_def)

lemma measureDestination_settled:
  assumes S: "settled l n cnt t f" and "int (length f) \<le> MaxOutputBytes l"
  shows "outcome (settled l n cnt) (measureDestination host t) (Some ((), f))"
proof -
  obtain p err e' where h: "hSeek host 0 SeekEnd (env t) = ((p, err), e')" by (metis prod.exhaust)
  with host_seek_end [OF h] assms show ?thesis
    by (auto simp: measureDestination_def seek_def settled_def)
qed

definition rewound :: "Limits \<Rightarrow> u32 \<Rightarrow> int \<Rightarrow> 'e translator \<Rightarrow> byte list \<Rightarrow> bool" where
  "rewound l n cnt t f \<longleftrightarrow> settled l n cnt t f \<and> pos (env t) = 0 \<and> outputSize t = int (length f)"

lemma rewind_complete:
  assumes "settled l n cnt t f"
  shows "outcome (rewound l n cnt)
    (seqE (rewindDestination host) (seqE (checkContext host op pg row)
       (modify (\<lambda>t. t\<lparr>outputSize := outputBytes t\<rparr>))) t) (Some ((), f))"
proof -
  obtain t1 where t1: "seek host 0 SeekStart t = ((0, None), t1)" "settled l n cnt t1 f" "pos (env t1) = 0"
    using seek_start_settled [OF assms, of 0] by auto
  obtain c e' where c: "hCtxErr host (env t1) = (c, e')" by (metis prod.exhaust)
  have "rewindDestination host t = (Inr (), t1)" using t1 by (simp add: rewindDestination_def)
  moreover have "checkContext host op pg row t1 = (Inr (), t1\<lparr>env := e'\<rparr>)" "pos e' = 0" "content e' = f"
    using host_ctx [OF c] c t1 by (auto simp: checkContext_def ctxErr_def settled_def)
  ultimately show ?thesis using t1 by (simp add: rewound_def settled_def)
qed

lemma outcome_skip_to:
  assumes "outcome R (m t) (Some (x, a))" "\<And>t'. R t' a \<Longrightarrow> outcome R' (k t') s"
  shows "outcome R' (seqE m k t) s"
  using assms by (auto elim: outcome_SomeE)

lemma length_patch_counts:
  "(\<And>off. off \<in> set offs \<Longrightarrow> 0 \<le> off \<and> off + 4 \<le> int (length f)) \<Longrightarrow>
   length (patch_counts c offs f) = length f"
  unfolding patch_counts_def
proof (induction offs arbitrary: f)
  case (Cons off offs)
  have "nat off + length (be32 c) \<le> length f" using Cons.prems [of off] by auto
  then show ?case using Cons by simp
qed simp

lemma finalize_ok:
  assumes S: "settled l n cnt t f" and offs: "\<And>off. off \<in> set (pageCounts t) \<Longrightarrow> 0 \<le> off \<and> off + 4 \<le> int (length f)"
    and f: "4 \<le> length f" "int (length f) \<le> MaxOutputBytes l"
  shows "outcome (rewound l n cnt) (finalize host t)
    (Some ((), put 0 (be32 pwgSync) (patch_counts n (pageCounts t) f)))"
proof -
  let ?f1 = "patch_counts n (pageCounts t) f"
  let ?f2 = "put 0 (be32 pwgSync) ?f1"
  have len: "length ?f1 = length f" "length ?f2 = length f"
    using length_patch_counts [OF offs] f by simp_all
  have n: "pages t = n" using S by (simp add: settled_def)
  have no: "\<not> (ucast n :: u64) > maxU32"
    using unsigned_less [of n, where 'a = nat] by (simp add: word_less_nat_alt maxU32_def not_less)
  show ?thesis
    unfolding finalize_def finalize_pages_def n
    apply (rule outcome_skip_to, rule settled_checkContext [OF S])
    apply (rule outcome_skip_to [where R = "settled l n cnt" and x = "()" and a = f])
     apply (simp add: guardE_def no)
    apply (rule outcome_skip_to [where R = "settled l n cnt" and x = "()" and a = ?f1])
     apply (rule patch_settled, assumption, erule offs)
    apply (rule outcome_skip_to [where R = "settled l n cnt" and x = "()" and a = ?f2])
     apply (rule seekWrite_settled [where off = 0, simplified], assumption, simp add: len f)
    apply (rule outcome_skip_to, erule settled_checkContext)
    apply (rule outcome_skip_to, erule measureDestination_settled, simp add: len f)
    apply (rule outcome_skip_to, erule settled_checkContext)
    apply (erule rewind_complete)
    done
qed

lemma prepareSeek_ok:
  assumes "content (env t) = []"
  obtains e' where "prepareSeek host wh op msg t = (Inr (), t\<lparr>env := e'\<rparr>)" "rest e' = rest (env t)"
    "content e' = []" "pos e' = 0"
proof -
  obtain p err e' where h: "hSeek host 0 wh (env t) = ((p, err), e')" by (metis prod.exhaust)
  have "p = 0 \<and> err = None \<and> rest e' = rest (env t) \<and> content e' = [] \<and> pos e' = 0"
    using host_seek_start [of 0 "env t" p err e'] host_seek_end [of "env t" p err e'] h assms
    by (cases wh) auto
  with h show ?thesis by (intro that [of e']) (auto simp: prepareSeek_def seek_def)
qed

lemma prepareDestination_ok:
  assumes "content (env t) = []"
    and fresh: "\<And>e. rest e = rest (env t) \<Longrightarrow> content e = [] \<Longrightarrow> pos e = 0 \<Longrightarrow> represents l pol m (t\<lparr>env := e\<rparr>) a"
  shows "outcome (represents l pol m) (prepareDestination host t) (d_write l [0, 0, 0, 0] a)"
proof -
  obtain e1 where e1: "prepareSeek host SeekStart ''seek destination'' ''seek returned offset %d, want 0'' t
      = (Inr (), t\<lparr>env := e1\<rparr>)" "rest e1 = rest (env t)" "content e1 = []"
    using prepareSeek_ok [OF assms(1)] by metis
  obtain e2 where e2: "prepareSeek host SeekEnd ''inspect destination'' ''destination is not empty (size %d)''
      (t\<lparr>env := e1\<rparr>) = (Inr (), t\<lparr>env := e2\<rparr>)" "rest e2 = rest (env t)" "content e2 = []"
    using prepareSeek_ok [of "t\<lparr>env := e1\<rparr>" SeekEnd "''inspect destination''"
        "''destination is not empty (size %d)''"] e1 by auto
  obtain e3 where e3: "prepareSeek host SeekStart ''rewind destination'' ''seek returned offset %d, want 0''
      (t\<lparr>env := e2\<rparr>) = (Inr (), t\<lparr>env := e3\<rparr>)" "rest e3 = rest (env t)" "content e3 = []" "pos e3 = 0"
    using prepareSeek_ok [of "t\<lparr>env := e2\<rparr>" SeekStart "''rewind destination''"
        "''seek returned offset %d, want 0''"] e2 by auto
  from writeDst_ok [OF fresh [OF e3(2-4)], of "[0, 0, 0, 0]" 0 0] e1(1) e2(1) e3(1)
  show ?thesis by (simp add: prepareDestination_def)
qed

lemma readFileHeader_ok:
  "represents l pol m t a \<Longrightarrow> outcome (represents l pol m) (readFileHeader host t) (d_file_header a)"
  unfolding readFileHeader_def d_file_header_def
  by (rule outcome_bindE, erule readFull_ok) (simp add: slice_def failE_def)

lemma represents_fresh:
  assumes "limits_ok l" "rest e' = rest e" "content e' = []" "pos e' = 0"
  shows "represents l pol (OMapping opts) ((acquireInitial host (newTranslator l pol opts e))\<lparr>env := e'\<rparr>)
    (d_start l (rest e))"
  using assms
  by (auto simp: represents_def newTranslator_def acquireInitial_def acquire_def limits_ok_def Let_def
      d_start_def split: prod.splits if_splits)

lemma env_acquireInitial [simp]: "env (acquireInitial host t) = env t"
  by (simp add: acquireInitial_def acquire_def Let_def)

lemma env_newTranslator [simp]: "env (newTranslator l pol opts e) = e"
  by (simp add: newTranslator_def)

lemma finish_ok:
  fixes ps
  defines "n \<equiv> of_nat (length ps) :: u32"
  assumes R: "represents l pol m t \<lparr>d_in = [], d_room = nat (MaxInputBytes l) - length bs,
      d_out = [0, 0, 0, 0] @ raster (staged_header pol) 0 ps, d_decoded = d,
      d_counts = count_offsets 4 ps, d_pages = n\<rparr>"
    and fits: "int (length bs) \<le> MaxInputBytes l" "int (length (encode pol ps)) \<le> MaxOutputBytes l"
  shows "\<exists>t'. bindE (finalize host) (\<lambda>_. gets (\<lambda>t.
        \<lparr>InputBytes = srcCount t, OutputBytes = outputSize t, Pages = pages t\<rparr>)) t =
      (Inr \<lparr>InputBytes = int (length bs), OutputBytes = int (length (encode pol ps)), Pages = n\<rparr>, t')
    \<and> content (env t') = encode pol ps \<and> pos (env t') = 0"
proof -
  let ?f = "[0, 0, 0, 0] @ raster (staged_header pol) 0 ps"
  have len: "length ?f = length (encode pol ps)" by (simp add: encode_def length_raster)
  have S: "settled l n (int (length bs)) t ?f" and cnts: "pageCounts t = count_offsets 4 ps"
    using R fits by (auto simp: represents_def settled_def)
  have "outcome (rewound l n (int (length bs))) (finalize host t) (Some ((), encode pol ps))"
    unfolding encode_patched [symmetric] n_def [symmetric] cnts [symmetric]
  proof (rule finalize_ok [OF S])
    fix off assume "off \<in> set (pageCounts t)"
    then show "0 \<le> off \<and> off + 4 \<le> int (length ?f)"
      using count_offsets_ge [of off 4 ps] count_offsets_le [of off 4 ps pol 0] by (simp add: cnts)
  qed (use len fits(2) in simp_all)
  then obtain t' where "finalize host t = (Inr (), t')" "rewound l n (int (length bs)) t' (encode pol ps)"
    by (auto elim: outcome_SomeE)
  then show ?thesis by (intro exI [of _ t']) (auto simp: rewound_def settled_def)
qed

lemma translateBody_ok:
  fixes opts e l pol
  defines "t \<equiv> acquireInitial host (newTranslator l pol opts e)"
  assumes lims: "limits_ok l" and empty: "content e = []"
  shows "(case accepted l pol (OMapping opts) (rest e) of
      None \<Rightarrow> \<exists>err t'. translateBody host t = Some (Inl err, t')
    | Some ps \<Rightarrow> \<exists>t'. translateBody host t = Some (Inr
        \<lparr>InputBytes = int (length (rest e)), OutputBytes = int (length (encode pol ps)),
         Pages = of_nat (length ps)\<rparr>, t') \<and> content (env t') = encode pol ps \<and> pos (env t') = 0)"
proof -
  let ?m = "OMapping opts" and ?bs = "rest e"
  let ?R = "represents l pol ?m"
  let ?a0 = "(d_start l ?bs)\<lparr>d_out := [0, 0, 0, 0]\<rparr>"
  have pos: "0 < MaxInputBytes l" "0 < MaxOutputBytes l" "MaxPages l \<noteq> 0"
    using lims by (auto simp: limits_ok_def)
  have prep: "outcome ?R (prepareDestination host t) (d_write l [0, 0, 0, 0] (d_start l ?bs))"
    unfolding t_def by (rule prepareDestination_ok) (auto simp: empty intro!: represents_fresh lims)
  show ?thesis
  proof (cases "4 \<le> MaxOutputBytes l")
    case False
    then have "isl (fst (prepareDestination host t))"
      using prep by (simp add: d_write_def d_start_def)
    then obtain err t1 where "prepareDestination host t = (Inl err, t1)" by (auto simp: isl_def prod_eq_iff)
    moreover have "accepted l pol ?m ?bs = None"
      using False by (auto simp: accepted_def encode_def split: option.split)
    ultimately show ?thesis by (simp add: translateBody_def)
  next
    case True
    have "outcome ?R (prepareDestination host t) (Some ((), ?a0))"
      using prep True by (simp add: d_write_def d_start_def)
    then have hdr: "outcome ?R (seqE (prepareDestination host) (readFileHeader host) t) (d_file_header ?a0)"
      by (rule outcome_skip) (rule readFileHeader_ok)
    note doc = d_document [OF True pos(1), of ?bs pol ?m]
    show ?thesis
    proof (cases "d_file_header ?a0")
      case None
      then obtain err t1 where "seqE (prepareDestination host) (readFileHeader host) t = (Inl err, t1)"
        using hdr by (auto simp: isl_def prod_eq_iff)
      moreover have "accepted l pol ?m ?bs = None"
        using doc None by (auto simp: accepted_def parse_document_def split: option.splits list.splits if_splits)
      ultimately show ?thesis by (simp add: translateBody_def)
    next
      case (Some ub)
      then obtain b where b: "d_file_header ?a0 = Some ((), b)" by (cases ub) auto
      with hdr obtain t1 where t1: "seqE (prepareDestination host) (readFileHeader host) t = (Inr (), t1)" "?R t1 b"
        by (auto elim: outcome_SomeE)
      have b0: "length (d_counts b) = unat (d_pages b)"
        using b by (auto simp: d_file_header_def d_read_def d_start_def split: bind_splits if_splits)
      obtain r where r: "translatePages host t1 = Some r"
        "outcome (\<lambda>t a. \<exists>d. ?R t (a\<lparr>d_decoded := d\<rparr>)) r (d_body l pol ?m b)"
        using translatePages_ok [OF t1(2) b0 pos(3)] by auto
      show ?thesis
      proof (cases "d_body l pol ?m b")
        case None
        then have "accepted l pol ?m ?bs = None"
          using doc b by (auto simp: accepted_def parse_document_def split: option.splits list.splits if_splits)
        moreover obtain err t2 where "r = (Inl err, t2)"
          using r(2) None by (cases r) (auto simp: isl_def)
        ultimately show ?thesis using t1(1) r(1) by (simp add: translateBody_def)
      next
        case (Some uc)
        then obtain ps where ps: "parse_pages l pol ?m 0 0 (drop urfFileHeaderSize ?bs) = Some ps"
          and sig: "\<not> (length ?bs < urfFileHeaderSize \<or> take 4 ?bs \<notin> {str_bytes ''UNIR'', str_bytes ''RINU''})"
          and fits: "int (length ?bs) \<le> MaxInputBytes l" "int (length (encode pol ps)) \<le> MaxOutputBytes l"
          and c: "d_body l pol ?m b = Some ((), \<lparr>d_in = [], d_room = nat (MaxInputBytes l) - length ?bs,
                d_out = [0, 0, 0, 0] @ raster (staged_header pol) 0 ps, d_decoded = 0,
                d_counts = count_offsets 4 ps, d_pages = of_nat (length ps)\<rparr>)"
          using doc b by (auto split: option.splits if_splits)
        then obtain t2 d where t2: "r = (Inr (), t2)" "?R t2 \<lparr>d_in = [], d_room = nat (MaxInputBytes l) - length ?bs,
                d_out = [0, 0, 0, 0] @ raster (staged_header pol) 0 ps, d_decoded = d,
                d_counts = count_offsets 4 ps, d_pages = of_nat (length ps)\<rparr>"
          using r(2) by (auto elim!: outcome_SomeE)
        have n: "pages t2 = of_nat (length ps)" using t2(2) by (simp add: represents_def)
        have acc: "accepted l pol ?m ?bs = (if ps = [] then None else Some ps)"
          using ps sig fits by (auto simp: accepted_def parse_document_def split: list.split)
        show ?thesis
        proof (cases "ps = []")
          case True
          then show ?thesis using t1(1) r(1) t2(1) n acc by (simp add: translateBody_def)
        next
          case False
          with parse_pages_count [OF ps] unsigned_less [of "MaxPages l", where 'a = nat]
          have "unat (of_nat (length ps) :: u32) = length ps" by (simp add: unat_of_nat)
          with False have "pages t2 \<noteq> 0" unfolding n by (metis length_0_conv unat_0)
          with finish_ok [OF t2(2) fits] show ?thesis
            using t1(1) r(1) t2(1) False acc by (simp add: translateBody_def)
        qed
      qed
    qed
  qed
qed

lemma host_open:
  obtains e' where "hCtxErr host e = (None, e')" "rest e' = rest e" "content e' = content e"
proof -
  obtain c e' where c: "hCtxErr host e = (c, e')" by (metis prod.exhaust)
  with host_ctx [OF c] show ?thesis by (intro that [of e']) auto
qed

lemma env_releaseResources [simp]: "env (releaseResources t) = env t"
  by (simp add: releaseResources_def emit_def Let_def split: option.split)

lemma Translate_outcome:
  assumes opts: "validateLimits (OLimits opts) = Inr ()" "validatePageSettings (OPage opts) = Inr pol"
    "validateMapping (OMapping opts) = Inr ()" and empty: "content e = []"
  shows "(case accepted (effectiveLimits (OLimits opts)) pol (OMapping opts) (rest e) of
      None \<Rightarrow> \<exists>err e' evs. Translate host False False False opts e = Some (Inl err, e', evs)
    | Some ps \<Rightarrow> \<exists>e' evs. Translate host False False False opts e = Some (Inr
        \<lparr>InputBytes = int (length (rest e)), OutputBytes = int (length (encode pol ps)),
         Pages = of_nat (length ps)\<rparr>, e', evs) \<and> content e' = encode pol ps \<and> pos e' = 0)"
proof -
  obtain e1 where e1: "hCtxErr host e = (None, e1)" "rest e1 = rest e" "content e1 = content e"
    by (rule host_open)
  let ?l = "effectiveLimits (OLimits opts)"
  have run: "Translate host False False False opts e = map_option (\<lambda>(r, t). let t = releaseResources t in (r, env t, events t))
      (translateBody host (acquireInitial host (newTranslator ?l pol opts e1)))"
    using opts e1(1) by (simp add: Translate_def)
  have "limits_ok ?l" "content e1 = []" using effectiveLimits_ok [OF opts(1)] e1 empty by auto
  from translateBody_ok [OF this, of pol opts] show ?thesis
    unfolding e1(2) run by (auto split: option.splits simp: Let_def)
qed

end

subsection \<open>A staging file in memory\<close>

text \<open>
  \<^verbatim>\<open>bytes.Reader\<close> (which \<^verbatim>\<open>Translate\<close>'s callers in the proxy and the tests pass) and a file opened
  for reading and writing, reduced to what the methods called here observe: the unread
  input, the bytes of the file and its position. \<open>chunk\<close> bounds how much one read hands out.
\<close>

record staging =
  s_in :: "byte list"
  s_file :: "byte list"
  s_pos :: nat

definition mem_read :: "nat \<Rightarrow> nat \<Rightarrow> staging \<Rightarrow> (int \<times> byte list \<times> goerr option) \<times> staging" where
  "mem_read chunk k e =
     (if s_in e = [] then ((0, [], Some EOF), e)
      else let v = take (min k (Suc chunk)) (s_in e)
           in ((int (length v), v, None), e\<lparr>s_in := drop (length v) (s_in e)\<rparr>))"

definition mem_write :: "byte list \<Rightarrow> staging \<Rightarrow> (int \<times> goerr option) \<times> staging" where
  "mem_write v e =
     ((int (length v), None),
      e\<lparr>s_file := put (s_pos e) v (s_file e @ replicate (s_pos e - length (s_file e)) 0), s_pos := s_pos e + length v\<rparr>)"

definition mem_seek :: "int \<Rightarrow> whence \<Rightarrow> staging \<Rightarrow> (int \<times> goerr option) \<times> staging" where
  "mem_seek off wh e =
     (let p = (case wh of SeekStart \<Rightarrow> off | SeekEnd \<Rightarrow> int (length (s_file e)) + off)
      in if p < 0 then ((0, Some (HostErr ''negative position'')), e) else ((p, None), e\<lparr>s_pos := nat p\<rparr>))"

definition mem_host :: "nat \<Rightarrow> staging host" where
  "mem_host chunk = \<lparr>hRead = mem_read chunk, hWrite = mem_write, hSeek = mem_seek,
     hCtxErr = (\<lambda>e. (None, e)), hGrant = (\<lambda>_. True), hGrow = (\<lambda>c n. max (2 * c) n)\<rparr>"

lemma mem_host_staging: "staging_host (mem_host chunk) s_in s_file s_pos"
proof
  fix k e n d err e'
  assume "hRead (mem_host chunk) k e = ((n, d, err), e')" "0 < k"
  then show "s_file e' = s_file e \<and> s_pos e' = s_pos e \<and>
      (if s_in e = [] then n = 0 \<and> err = Some EOF \<and> s_in e' = []
       else 0 < n \<and> n \<le> int k \<and> n \<le> int (length (s_in e)) \<and> nat n \<le> length d
         \<and> take (nat n) d = take (nat n) (s_in e) \<and> s_in e' = drop (nat n) (s_in e)
         \<and> (err = None \<or> err = Some EOF \<and> s_in e' = []))"
    by (auto simp: mem_host_def mem_read_def Let_def min_def nat_add_distrib split: if_splits)
qed (auto simp: mem_host_def mem_write_def mem_seek_def Let_def split: if_splits)

interpretation mem: staging_host "mem_host chunk" s_in s_file s_pos for chunk
  by (rule mem_host_staging)

subsection \<open>The translation theorem\<close>

definition tiny_options :: Options where
  "tiny_options = \<lparr>OMapping = MappingW8ToSGray8,
     OPage = \<lparr>MediaName = ''custom'', MediaWidth = 2540, MediaHeight = 2540, MediaType = ''stationery'',
       MediaSource = 0, ResolutionX = 1, ResolutionY = 1, PrintQuality = 4, Sides = [], SheetBack = []\<rparr>,
     OLimits = \<lparr>MaxInputBytes = 0, MaxOutputBytes = 0, MaxPages = 0, MaxWidth = 0, MaxHeight = 0,
       MaxRowBytes = 0, MaxDecodedBytes = 0\<rparr>,
     OObserver = True\<rparr>"

definition tiny_policy :: pagePolicy where
  "tiny_policy = \<lparr>mediaName = ''custom'', mediaWidth = 2540, mediaHeight = 2540, mediaType = ''stationery'',
     mediaSource = 0, resX = 1, resY = 1, quality = 4, sides = ''one-sided'', sheetBack = ''normal''\<rparr>"

text \<open>A document with one page of one white pixel, and two stray bytes after it.\<close>

definition tiny_document :: "byte list" where
  "tiny_document = [0x55, 0x4E, 0x49, 0x52, 0x41, 0x53, 0x54, 0, 0, 0, 0, 1]
     @ [8, 0, 0, 0, 0, 0, 0, 0, 0, 0, 0, 0, 0, 0, 0, 1, 0, 0, 0, 1, 0, 0, 0, 1, 0, 0, 0, 0, 0, 0, 0, 0]
     @ [0, 0, 0xFF] @ [7, 7]"

lemma tiny_checks:
  "validateLimits (OLimits tiny_options) = Inr ()"
  "validatePageSettings (OPage tiny_options) = Inr tiny_policy"
  "validateMapping (OMapping tiny_options) = Inr ()"
  by code_simp+

definition tiny_page :: pageDescription where
  "tiny_page = \<lparr>bitsPerPixel = 8, colorSpace = 0, duplexMode = 0, width = 1, height = 1, resolution = 1,
     rowBytes = 1, landscape = False, pwgColorSpace = 18, pwgBitsPerPixel = 8, pwgBitsPerColor = 8,
     pwgNumColors = 1\<rparr>"

lemma tiny_raw:
  "rawPage (take 32 (drop 12 tiny_document)) =
     \<lparr>bitsPerPixel = 8, colorSpace = 0, duplexMode = 0, width = 1, height = 1, resolution = 1,
     rowBytes = 0, landscape = False, pwgColorSpace = 0, pwgBitsPerPixel = 0, pwgBitsPerColor = 0,
     pwgNumColors = 0\<rparr>"
  by (simp add: rawPage_def tiny_document_def slice_def be_uint32_def)

lemma tiny_geometry: "geometry tiny_policy (rawPage (take 32 (drop 12 tiny_document))) = Some False"
  unfolding tiny_raw by (simp add: geometry_def tiny_policy_def)

lemma tiny_ok:
  "page_ok (effectiveLimits (OLimits tiny_options)) tiny_policy MappingW8ToSGray8 0
     (rawPage (take 32 (drop 12 tiny_document)))"
  using tiny_geometry unfolding tiny_raw page_ok_def
  by (simp add: tiny_policy_def effectiveLimits_def tiny_options_def DefaultLimits_def within_def
      row_size_def sourceMapping_def duplex_ok_def)

lemma tiny_described:
  "described tiny_policy MappingW8ToSGray8 (rawPage (take 32 (drop 12 tiny_document))) = tiny_page"
  unfolding described_def tiny_geometry unfolding tiny_raw
  by (simp add: tiny_page_def row_size_def sourceMapping_def)

lemma tiny_scan: "scan_page tiny_page (drop 44 tiny_document) = Some ([0, 0, 0xFF], [7, 7])"
  by (simp add: scan_page_def tiny_page_def tiny_document_def scan_rows.simps scan_packets.simps packet_def
      checkedMul_def rows_after_def)

lemma tiny_parsed:
  "parse_document (effectiveLimits (OLimits tiny_options)) tiny_policy MappingW8ToSGray8 tiny_document =
     Some [(tiny_page, [0, 0, 0xFF])]"
proof -
  have sig: "take 4 tiny_document = str_bytes ''UNIR''" "length tiny_document = 49"
    by (simp_all add: tiny_document_def str_bytes_def)
  have "unat (MaxPages (effectiveLimits (OLimits tiny_options))) = 1024"
    by (simp add: effectiveLimits_def tiny_options_def DefaultLimits_def)
  then show ?thesis
    using tiny_ok tiny_described tiny_scan sig
    by (simp add: parse_document_def urfFileHeaderSize_def urfPageHeaderSize_def
        parse_pages.simps [of _ _ _ 0 0] parse_pages.simps [of _ _ _ _ "Suc 0"])
qed

lemma tiny_accepted:
  "accepted (effectiveLimits (OLimits tiny_options)) tiny_policy MappingW8ToSGray8 tiny_document =
     Some [(tiny_page, [0, 0, 0xFF])]"
  using tiny_parsed
  by (simp add: accepted_def encode_def pwgPageHeaderSize_def)
     (simp add: tiny_document_def effectiveLimits_def tiny_options_def DefaultLimits_def)

end
