(* ===== verification/Urf_Theorems.thy ===== *)
theory Urf_Theorems
  imports Urf_Correct
begin

text \<open>
  The properties of the Apple Raster translator, each with a concrete instance where it has
  hypotheses: the translation theorem, acceptance of page headers, the layout of the emitted
  page header, termination, resource bounds and lease discipline for arbitrary hosts.
\<close>

unbundle bit_operations_syntax

subsection \<open>Reading header fields back\<close>

definition get32 :: "nat \<Rightarrow> byte list \<Rightarrow> u32" where
  "get32 off h = be_uint32 (slice off (off + 4) h)"

lemma be_uint32_be32: "be_uint32 (be32 v) = v"
proof (rule bit_eqI)
  fix n assume "possible_bit TYPE(32 word) n"
  then have "n < 8 \<or> 8 \<le> n \<and> n < 16 \<or> 16 \<le> n \<and> n < 24 \<or> 24 \<le> n \<and> n < 32" by simp linarith
  then show "bit (be_uint32 (be32 v)) n = bit v n"
    by (elim disjE) (auto simp: be32_def be_uint32_def bit_simps)
qed

lemma slice_put_same: "off + length v \<le> length h \<Longrightarrow> slice off (off + length v) (put off v h) = v"
  by (simp add: slice_def put_def)

lemma slice_put_other:
  assumes "off + length v \<le> length h" "hi \<le> off \<or> off + length v \<le> lo"
  shows "slice lo hi (put off v h) = slice lo hi h"
proof (rule nth_equalityI)
  show "length (slice lo hi (put off v h)) = length (slice lo hi h)"
    using assms by (simp add: slice_def)
  fix i assume "i < length (slice lo hi (put off v h))"
  then show "slice lo hi (put off v h) ! i = slice lo hi h ! i"
    using assms by (auto simp: slice_def nth_put)
qed

definition sized :: "byte list \<Rightarrow> bool" where
  "sized h \<longleftrightarrow> length h = pwgPageHeaderSize"

lemma sized_put32: "sized h \<Longrightarrow> off + 4 \<le> 1796 \<Longrightarrow> sized (put32 off v h)"
  unfolding sized_def by (rule size_put32)

lemma sized_copyString: "sized h \<Longrightarrow> lo < hi \<and> hi \<le> 1796 \<Longrightarrow> sized (copyString lo hi s h)"
  unfolding sized_def by (rule size_copyString)

lemma sized_setSheetBack: "sized h \<Longrightarrow> sized (setSheetBack pol back h)"
  unfolding sized_def by (rule size_setSheetBack)

lemma sized_blank: "sized (replicate pwgPageHeaderSize 0)"
  by (simp add: sized_def)

lemma get32_same: "sized h \<Longrightarrow> off + 4 \<le> 1796 \<Longrightarrow> get32 off (put32 off v h) = v"
  using slice_put_same [of off "be32 v" h]
  by (simp add: get32_def put32_def sized_def pwgPageHeaderSize_def be_uint32_be32)

lemma get32_other:
  "sized h \<Longrightarrow> off' + 4 \<le> 1796 \<Longrightarrow> off + 4 \<le> off' \<or> off' + 4 \<le> off \<Longrightarrow> get32 off (put32 off' v h) = get32 off h"
  using slice_put_other [of off' "be32 v" h "off + 4" off]
  by (simp add: get32_def put32_def sized_def pwgPageHeaderSize_def)

lemma get32_sheetBack:
  assumes "sized h"
  shows "off + 4 \<le> 456 \<or> 464 \<le> off \<Longrightarrow> get32 off (setSheetBack pol back h) = get32 off h"
    and "get32 456 (setSheetBack pol back h) =
      (if back \<and> (if sides pol = ''two-sided-short-edge'' then sheetBack pol \<in> {''flipped'', ''manual-tumble''}
                  else sheetBack pol = ''rotated'') then 0xffffffff else get32 456 h)"
    and "get32 460 (setSheetBack pol back h) =
      (if back \<and> (if sides pol = ''two-sided-short-edge'' then sheetBack pol = ''manual-tumble''
                  else sheetBack pol \<in> {''flipped'', ''rotated''}) then 0xffffffff else get32 460 h)"
  using assms by (auto simp: setSheetBack_def Let_def get32_same get32_other sized_put32)

lemmas header_fields = get32_same get32_other get32_sheetBack sized_put32 sized_copyString sized_setSheetBack
  sized_blank

text \<open>
  Every emitted page header carries, big-endian at its fixed offset, the negotiated
  resolution, duplex and tumble flags, media source and size in points, the page's pixel
  size, color layout and row size, the reserved page count, the sheet-back transforms of the
  duplex table (identity on front sides) and the print quality.
\<close>

theorem pageHeader_fields:
  "let h = pageHeader pol n p; tumble = (sides pol = ''two-sided-short-edge'');
      back = (sides pol \<noteq> ''one-sided'' \<and> n mod 2 = 1);
      (w, ht) = (if landscape p then (mediaHeight pol, mediaWidth pol) else (mediaWidth pol, mediaHeight pol)) in
    length h = 1796
    \<and> get32 272 h = bool32 (sides pol \<noteq> ''one-sided'') \<and> get32 368 h = bool32 tumble
    \<and> get32 276 h = resX pol \<and> get32 280 h = resY pol \<and> get32 324 h = mediaSource pol
    \<and> get32 352 h = points w \<and> get32 356 h = points ht
    \<and> get32 428 h = float32bits_points w \<and> get32 432 h = float32bits_points ht
    \<and> get32 372 h = width p \<and> get32 376 h = height p
    \<and> get32 384 h = pwgBitsPerColor p \<and> get32 388 h = pwgBitsPerPixel p \<and> get32 392 h = ucast (rowBytes p)
    \<and> get32 400 h = pwgColorSpace p \<and> get32 420 h = pwgNumColors p \<and> get32 452 h = 0
    \<and> get32 456 h = (if back \<and> (if tumble then sheetBack pol \<in> {''flipped'', ''manual-tumble''}
                       else sheetBack pol = ''rotated'') then 0xffffffff else 1)
    \<and> get32 460 h = (if back \<and> (if tumble then sheetBack pol = ''manual-tumble''
                       else sheetBack pol \<in> {''flipped'', ''rotated''}) then 0xffffffff else 1)
    \<and> get32 472 h = width p \<and> get32 476 h = height p \<and> get32 484 h = quality pol"
proof -
  obtain w ht where wh: "(if landscape p then (mediaHeight pol, mediaWidth pol) else (mediaWidth pol, mediaHeight pol)) = (w, ht)"
    by (metis prod.exhaust)
  have "length (pageHeader pol n p) = 1796" by (simp add: pwgPageHeaderSize_def)
  then show ?thesis
    unfolding Let_def wh prod.case
    unfolding pageHeader_def Let_def wh prod.case putFloat32_points_def putFloat32_zero_def
    by (intro conjI; (assumption | simp only: header_fields add_numeral_left numeral_plus_numeral
        semiring_norm simp_thms numeral_le_iff arith_simps rel_simps))
qed

subsection \<open>Acceptance and translation\<close>



text \<open>
  C7: \<^verbatim>\<open>parsePage\<close> accepts a raw 32-byte page header exactly when the header satisfies
  \<open>page_ok\<close>: color space and depth of the selected mapping, positive dimensions, the
  negotiated resolution, every limit respected (computed without wrap-around), pixel geometry
  equal to the negotiated media in portrait or landscape, and a duplex mode that fits the
  negotiated sides. On acceptance the page description is determined by the header and the
  decoded-byte account grows by the exact page size; nothing else changes.
\<close>

theorem parsePage_accepts_iff:
  "parsePage raw t = (Inr p, t') \<longleftrightarrow>
     page_ok (limits t) (policy t) (mapping t) (pageLogical t) (rawPage raw)
     \<and> p = described (policy t) (mapping t) (rawPage raw)
     \<and> t' = t\<lparr>pageLogical := pageLogical t + of_nat (page_bytes (mapping t) (rawPage raw))\<rparr>"
  by (rule parsePage_iff)

subsection \<open>Guarantees for every host\<close>

lemma tiny_success:
  "\<exists>e' evs. Translate (mem_host 2) False False False tiny_options
       \<lparr>s_in = tiny_document, s_file = [], s_pos = 3\<rparr> =
     Some (Inr \<lparr>InputBytes = 49, OutputBytes = 1803, Pages = 1\<rparr>, e', evs)"
proof -
  have "int (length tiny_document) = 49" "int (length (encode tiny_policy [(tiny_page, [0, 0, 0xFF])])) = 1803"
    by (simp_all add: tiny_document_def encode_def pwgPageHeaderSize_def)
  then show ?thesis
    using mem.Translate_outcome [OF tiny_checks,
        of "\<lparr>s_in = tiny_document, s_file = [], s_pos = 3\<rparr>" 2] tiny_accepted
    by (auto simp add: tiny_options_def)
qed

lemma Translate_total:
  "\<exists>r e' evs. Translate host nilCtx nilSrc nilDst opts e = Some (r, e', evs)"
proof -
  define h where "h = (if nilCtx then backgroundHost host else host)"
  have ret: "\<exists>r t. translateBody h (acquireInitial h (newTranslator (effectiveLimits (OLimits opts)) pol opts e1))
      = Some (r, t)" if "validateLimits (OLimits opts) = Inr u" for pol e1 u
    using translateBody_returns [of "acquireInitial h (newTranslator (effectiveLimits (OLimits opts)) pol opts e1)" h]
      bounded_initial [OF that, of h pol opts e1] by (auto simp: bounded_def limits_ok_def)
  show ?thesis
    unfolding Translate_def Let_def h_def [symmetric]
    by (auto simp: sumBind_Inr_iff split: prod.splits option.splits sum.splits dest!: ret)
qed

text \<open>
  C9: \<^verbatim>\<open>Translate\<close> returns for every host and every input, including readers that never end,
  writers that accept one byte at a time and contexts that are cancelled at any moment: no
  loop of the translator can run for ever.
\<close>

theorem Translate_returns:
  "\<exists>r e' evs. Translate host nilCtx nilSrc nilDst opts e = Some (r, e', evs)"
  by (rule Translate_total)

text \<open>
  C37: whatever the host does, a successful translation has read at most the effective input
  limit, emitted at most the effective output limit, and counts at least one page and at
  most the effective page limit.
\<close>

theorem Translate_bounds:
  assumes "Translate host nilCtx nilSrc nilDst opts e = Some (Inr res, e', evs)"
  shows "0 \<le> InputBytes res \<and> InputBytes res \<le> MaxInputBytes (effectiveLimits (OLimits opts))
    \<and> 0 \<le> OutputBytes res \<and> OutputBytes res \<le> MaxOutputBytes (effectiveLimits (OLimits opts))
    \<and> 0 < Pages res \<and> Pages res \<le> MaxPages (effectiveLimits (OLimits opts))"
  using assms
proof (cases rule: Translate_Some)
  case (body h pol e1 t)
  let ?t0 = "acquireInitial h (newTranslator (effectiveLimits (OLimits opts)) pol opts e1)"
  have "limits ?t0 = effectiveLimits (OLimits opts)"
    by (auto simp: acquireInitial_def acquire_def Let_def newTranslator_def split: prod.splits if_splits)
  then have lim: "limits t = effectiveLimits (OLimits opts)"
    by (rule lim.translateBody_inv [OF body(4)])
  have bnd: "bounded t"
    by (rule bnd.translateBody_inv [OF body(4) bounded_initial]) (rule body(1))
  have res: "res = \<lparr>InputBytes = srcCount t, OutputBytes = outputSize t, Pages = pages t\<rparr>" "pages t \<noteq> 0"
    using translateBody_result [OF body(4)] by simp_all
  show ?thesis using bnd res lim by (auto simp: bounded_def word_gt_0)
qed simp

theorem Translate_bounds_witness:
  "\<exists>res e' evs. Translate (mem_host 2) False False False tiny_options
       \<lparr>s_in = tiny_document, s_file = [], s_pos = 3\<rparr> = Some (Inr res, e', evs)
     \<and> InputBytes res \<le> 2 ^ 30 \<and> 0 < Pages res \<and> Pages res \<le> 1024"
proof -
  obtain res e' evs where r: "Translate (mem_host 2) False False False tiny_options
       \<lparr>s_in = tiny_document, s_file = [], s_pos = 3\<rparr> = Some (Inr res, e', evs)"
    using tiny_success by blast
  from Translate_bounds [OF r] have "InputBytes res \<le> 2 ^ 30 \<and> 0 < Pages res \<and> Pages res \<le> 1024"
    by (simp add: tiny_options_def effectiveLimits_def DefaultLimits_def)
  with r show ?thesis by blast
qed

text \<open>
  C38: every lease the translator acquires from the observer is released exactly once before
  \<^verbatim>\<open>Translate\<close> returns, on success and on every error, and is only sized and written while it
  is held.
\<close>

theorem Translate_releases_leases:
  assumes "Translate host nilCtx nilSrc nilDst opts e = Some (r, e', evs)"
  shows "leases evs = Some {}"
  using assms
proof (cases rule: Translate_Some)
  case early
  then show ?thesis by (simp add: leases_def)
next
  case (body h pol e1 t)
  have "lease_inv {} t" by (rule lse.translateBody_inv [OF body(4) lease_inv_initial])
  then show ?thesis unfolding body(6) by (rule releaseResources_leases)
qed

theorem Translate_releases_leases_witness:
  "\<exists>r e' evs. Translate (mem_host 2) False False False tiny_options
       \<lparr>s_in = tiny_document, s_file = [], s_pos = 3\<rparr> = Some (r, e', evs) \<and> leases evs = Some {}"
proof -
  obtain r e' evs where r: "Translate (mem_host 2) False False False tiny_options
       \<lparr>s_in = tiny_document, s_file = [], s_pos = 3\<rparr> = Some (r, e', evs)"
    using tiny_success by blast
  with Translate_releases_leases [OF r] show ?thesis by blast
qed

end
