(* ===== verification/Go_Time.thy ===== *)
theory Go_Time
  imports Go_Strings
begin

text \<open>
  Instants, as far as the registry uses Go's package \<^verbatim>\<open>time\<close>: \<^verbatim>\<open>IsZero\<close>, \<^verbatim>\<open>Add\<close>, \<^verbatim>\<open>Sub\<close>, \<^verbatim>\<open>After\<close>, and the
  textual form \<^verbatim>\<open>time.RFC3339Nano\<close> in UTC that the registry stores and reads back. An
  instant is the number of nanoseconds since the zero time, 1 January of the year 1, UTC; a
  duration is a number of nanoseconds.
\<close>

type_synonym instant = int

subsection \<open>The calendar\<close>

definition leap :: "int \<Rightarrow> bool" where
  "leap y \<longleftrightarrow> y mod 4 = 0 \<and> (y mod 100 \<noteq> 0 \<or> y mod 400 = 0)"

text \<open>Days from 1 January of the year 1 to 1 January of year \<open>y\<close>.\<close>

definition year_start :: "int \<Rightarrow> int" where
  "year_start y = 365 * (y - 1) + (y - 1) div 4 - (y - 1) div 100 + (y - 1) div 400"

lemma div_pred: "0 < k \<Longrightarrow> (y :: int) div k = (y - 1) div k + (if y mod k = 0 then 1 else 0)"
proof -
  assume k: "0 < k"
  define q where "q = y div k"
  define r where "r = y mod k"
  have y: "y = q * k + r" "0 \<le> r" "r < k" using k by (simp_all add: q_def r_def)
  show ?thesis
  proof (cases "r = 0")
    case True
    have "(y - 1) div k = q - 1"
      by (rule int_div_pos_eq [of _ _ _ "k - 1"]) (use y True k in \<open>auto simp: algebra_simps\<close>)
    with True show ?thesis by (simp add: q_def r_def)
  next
    case False
    have "(y - 1) div k = q"
      by (rule int_div_pos_eq [of _ _ _ "r - 1"]) (use y False k in \<open>auto simp: algebra_simps\<close>)
    with False show ?thesis by (simp add: q_def r_def)
  qed
qed

lemma year_start_next: "year_start (y + 1) = year_start y + (if leap y then 366 else 365)"
proof -
  have m: "y mod 400 mod 100 = y mod 100" "y mod 100 mod 4 = y mod 4" by (simp_all add: mod_mod_cancel)
  have d: "y div 4 = (y - 1) div 4 + (if y mod 4 = 0 then 1 else 0)"
    "y div 100 = (y - 1) div 100 + (if y mod 100 = 0 then 1 else 0)"
    "y div 400 = (y - 1) div 400 + (if y mod 400 = 0 then 1 else 0)"
    by (rule div_pred; simp)+
  have "year_start (y + 1) = 365 * y + y div 4 - y div 100 + y div 400"
    by (simp add: year_start_def)
  also have "\<dots> = year_start y + 365 + (if y mod 4 = 0 then 1 else 0) - (if y mod 100 = 0 then 1 else 0)
      + (if y mod 400 = 0 then 1 else 0)"
    unfolding d year_start_def by (simp only: algebra_simps)
  also have "\<dots> = year_start y + (if leap y then 366 else 365)"
  proof (cases "y mod 400 = 0")
    case True
    with m have "y mod 100 = 0" "y mod 4 = 0" by auto
    with True show ?thesis by (simp add: leap_def)
  next
    case False
    with m show ?thesis by (cases "y mod 100 = 0"; cases "y mod 4 = 0") (auto simp: leap_def)
  qed
  finally show ?thesis .
qed

lemma year_start_less: "year_start y < year_start (y + 1)"
  by (simp add: year_start_next)

function year_from :: "int \<Rightarrow> int \<Rightarrow> int" where
  "year_from y d = (if year_start (y + 1) \<le> d then year_from (y + 1) d else y)"
  by pat_completeness auto
termination
  by (relation "measure (\<lambda>(y, d). nat (d - year_start y))") (auto simp: year_start_next split: if_splits)

declare year_from.simps [simp del]

definition year_of :: "int \<Rightarrow> int" where
  "year_of d = year_from (if 0 \<le> d then d div 366 + 1 else d div 365 + 1) d"

definition month_lengths :: "int \<Rightarrow> nat list" where
  "month_lengths y = [31, if leap y then 29 else 28, 31, 30, 31, 30, 31, 31, 30, 31, 30, 31]"

fun month_day :: "nat list \<Rightarrow> nat \<Rightarrow> nat \<Rightarrow> nat \<times> nat" where
  "month_day [] m k = (m, k)"
| "month_day (l # ls) m k = (if k < l then (m, k) else month_day ls (Suc m) (k - l))"

lemma year_from_spec:
  "year_start y \<le> d \<Longrightarrow> year_start (year_from y d) \<le> d \<and> d < year_start (year_from y d + 1)"
proof (induction y d rule: year_from.induct)
  case (1 y d)
  then show ?case by (cases "year_start (y + 1) \<le> d") (simp_all add: year_from.simps [of y d])
qed

lemma year_of_spec: "year_start (year_of d) \<le> d \<and> d < year_start (year_of d + 1)"
proof -
  have "year_start (if 0 \<le> d then d div 366 + 1 else d div 365 + 1) \<le> d"
  proof (cases "0 \<le> d")
    case True
    then have "0 \<le> d div 366" by simp
    then have "(d div 366) div 4 \<le> (d div 366) div 1" "(d div 366) div 400 \<le> (d div 366) div 100"
      by (auto intro!: zdiv_mono2)
    moreover have "366 * (d div 366) \<le> d" by simp
    ultimately show ?thesis using True by (simp add: year_start_def)
  next
    case False
    then have "d div 365 < 0" by simp
    then have "(d div 365) div 4 \<le> (d div 365) div 100" "(d div 365) div 400 < 0"
      by (auto intro!: zdiv_mono2_neg simp: pos_imp_zdiv_neg_iff)
    moreover have "365 * (d div 365) \<le> d" by simp
    ultimately show ?thesis using False by (simp add: year_start_def)
  qed
  then show ?thesis unfolding year_of_def by (rule year_from_spec)
qed

lemma year_start_mono: "y \<le> z \<Longrightarrow> year_start y \<le> year_start z"
proof (induction z rule: int_ge_induct)
  case (step i)
  then show ?case using year_start_less [of i] by simp
qed simp

lemma year_of_eq: "year_start y \<le> d \<Longrightarrow> d < year_start (y + 1) \<Longrightarrow> year_of d = y"
  using year_of_spec [of d] year_start_mono [of "year_of d + 1" y] year_start_mono [of "y + 1" "year_of d"]
  by force

lemma month_day_spec:
  "k < sum_list ls \<Longrightarrow> month_day ls m k = (m', r) \<Longrightarrow>
   m \<le> m' \<and> m' < m + length ls \<and> r < ls ! (m' - m) \<and> k = sum_list (take (m' - m) ls) + r"
proof (induction ls m k rule: month_day.induct)
  case (2 l ls m k)
  show ?case
  proof (cases "k < l")
    case False
    with 2 have *: "Suc m \<le> m'" "m' < Suc m + length ls" "r < ls ! (m' - Suc m)"
      "k - l = sum_list (take (m' - Suc m) ls) + r" by auto
    then obtain i where "m' = Suc m + i" by (metis le_Suc_ex)
    with * False show ?thesis by auto
  qed (use 2 in auto)
qed simp

lemma sum_month_lengths: "sum_list (month_lengths y) = (if leap y then 366 else 365)"
  by (simp add: month_lengths_def)

subsection \<open>Decimal fields\<close>

fun fixed :: "nat \<Rightarrow> nat \<Rightarrow> string" where
  "fixed 0 n = []"
| "fixed (Suc w) n = fixed w (n div 10) @ [digit_char (n mod 10)]"

definition pad :: "nat \<Rightarrow> nat \<Rightarrow> string" where
  "pad w n = (if n < 10 ^ w then fixed w n else show_nat n)"

definition digit_val :: "char \<Rightarrow> nat option" where
  "digit_val c = (let v = of_char c :: nat in if 48 \<le> v \<and> v \<le> 57 then Some (v - 48) else None)"

fun dec_from :: "nat \<Rightarrow> string \<Rightarrow> nat option" where
  "dec_from acc [] = Some acc"
| "dec_from acc (c # s) = (case digit_val c of None \<Rightarrow> None | Some d \<Rightarrow> dec_from (10 * acc + d) s)"

definition dec :: "string \<Rightarrow> nat option" where
  "dec s = (if s = [] then None else dec_from 0 s)"

declare fixed.simps [simp del]

lemma length_fixed [simp]: "length (fixed w n) = w"
  by (induction w arbitrary: n) (auto simp: fixed.simps)

lemma digit_val_char [simp]: "d < 10 \<Longrightarrow> digit_val (digit_char d) = Some d"
  by (simp add: digit_val_def digit_char_def)

lemma dec_from_append:
  "dec_from acc (s @ t) = (case dec_from acc s of None \<Rightarrow> None | Some a \<Rightarrow> dec_from a t)"
  by (induction acc s rule: dec_from.induct) (auto split: option.split)

lemma dec_from_fixed: "n < 10 ^ w \<Longrightarrow> dec_from acc (fixed w n) = Some (acc * 10 ^ w + n)"
proof (induction w arbitrary: n)
  case (Suc w)
  then have "n div 10 < 10 ^ w" by (simp add: div_less_iff_less_mult mult.commute)
  with Suc.IH show ?case by (simp add: dec_from_append algebra_simps fixed.simps)
qed (simp add: fixed.simps)

lemma dec_fixed [simp]: "n < 10 ^ w \<Longrightarrow> 0 < w \<Longrightarrow> dec (fixed w n) = Some n"
  using dec_from_fixed [of n w 0] length_fixed [of w n] by (auto simp: dec_def simp del: length_fixed)

subsection \<open>\<^verbatim>\<open>RFC3339Nano\<close>\<close>

definition day_ns :: int where "day_ns = 86400000000000"

definition show_year :: "int \<Rightarrow> string" where
  "show_year y = (if y < 0 then CHR ''-'' # pad 4 (nat (- y)) else pad 4 (nat y))"

definition strip_zeros :: "string \<Rightarrow> string" where
  "strip_zeros s = rev (dropWhile (\<lambda>c. c = CHR ''0'') (rev s))"

definition show_frac :: "nat \<Rightarrow> string" where
  "show_frac ns = (if ns = 0 then [] else CHR ''.'' # strip_zeros (fixed 9 ns))"

definition show_date :: "int \<Rightarrow> string" where
  "show_date days =
     (let y = year_of days; (m, k) = month_day (month_lengths y) 1 (nat (days - year_start y))
      in show_year y @ ''-'' @ pad 2 m @ ''-'' @ pad 2 (Suc k))"

definition show_clock :: "nat \<Rightarrow> string" where
  "show_clock s = pad 2 (s div 3600) @ '':'' @ pad 2 (s div 60 mod 60) @ '':'' @ pad 2 (s mod 60)"

definition format_RFC3339Nano :: "instant \<Rightarrow> string" where
  "format_RFC3339Nano t =
     (let rem = nat (t mod day_ns)
      in show_date (t div day_ns) @ ''T'' @ show_clock (rem div 1000000000)
         @ show_frac (rem mod 1000000000) @ ''Z'')"

definition parse_frac :: "string \<Rightarrow> nat \<times> string" where
  "parse_frac s =
     (case s of
        CHR ''.'' # r \<Rightarrow>
          (let ds = takeWhile (\<lambda>c. digit_val c \<noteq> None) r in
           if ds = [] then (0, s)
           else (case dec (take 9 (ds @ replicate 9 (CHR ''0''))) of
                   None \<Rightarrow> (0, s) | Some n \<Rightarrow> (n, drop (length ds) r)))
      | _ \<Rightarrow> (0, s))"

definition parse_zone :: "string \<Rightarrow> int option" where
  "parse_zone z =
     (if z = ''Z'' then Some 0
      else case z of
        [sg, h1, h2, co, m1, m2] \<Rightarrow>
          (case (dec [h1, h2], dec [m1, m2]) of
             (Some h, Some m) \<Rightarrow>
               if (sg = CHR ''+'' \<or> sg = CHR ''-'') \<and> co = CHR '':'' \<and> h \<le> 23 \<and> m \<le> 59
               then Some ((if sg = CHR ''-'' then -1 else 1) * int ((h * 60 + m) * 60)) else None
           | _ \<Rightarrow> None)
      | _ \<Rightarrow> None)"

definition num_field :: "string \<Rightarrow> nat \<Rightarrow> nat \<Rightarrow> nat option" where
  "num_field s i w = dec (take w (drop i s))"

definition valid_date :: "nat \<Rightarrow> nat \<Rightarrow> nat \<Rightarrow> bool" where
  "valid_date y m d \<longleftrightarrow> 1 \<le> m \<and> m \<le> 12 \<and> 1 \<le> d \<and> d \<le> month_lengths (int y) ! (m - 1)"

definition date_days :: "nat \<Rightarrow> nat \<Rightarrow> nat \<Rightarrow> int" where
  "date_days y m d = year_start (int y) + int (sum_list (take (m - 1) (month_lengths (int y))) + d - 1)"

definition parse_RFC3339 :: "string \<Rightarrow> instant option" where
  "parse_RFC3339 s =
     (if length s < 20 \<or> s ! 4 \<noteq> CHR ''-'' \<or> s ! 7 \<noteq> CHR ''-'' \<or> s ! 10 \<noteq> CHR ''T''
         \<or> s ! 13 \<noteq> CHR '':'' \<or> s ! 16 \<noteq> CHR '':'' then None
      else case (num_field s 0 4, num_field s 5 2, num_field s 8 2) of
        (Some y, Some m, Some d) \<Rightarrow>
          (case (num_field s 11 2, num_field s 14 2, num_field s 17 2) of
             (Some h, Some mi, Some sec) \<Rightarrow>
               if \<not> valid_date y m d \<or> h > 23 \<or> mi > 59 \<or> sec > 59 then None
               else (case parse_frac (drop 19 s) of (ns, z) \<Rightarrow>
                 map_option (\<lambda>off. date_days y m d * day_ns
                     + (int (h * 3600 + mi * 60 + sec) - off) * 1000000000 + int ns) (parse_zone z))
           | _ \<Rightarrow> None)
      | _ \<Rightarrow> None)"

subsection \<open>Reading back what was written\<close>

definition printable :: "instant \<Rightarrow> bool" where
  "printable t \<longleftrightarrow> 0 \<le> t \<and> t < year_start 10000 * day_ns"

lemma strip_zeros_pad:
  "\<exists>k. s = strip_zeros s @ replicate k (CHR ''0'')"
proof -
  have *: "rev s = takeWhile (\<lambda>c. c = CHR ''0'') (rev s) @ dropWhile (\<lambda>c. c = CHR ''0'') (rev s)" by simp
  have "takeWhile (\<lambda>c. c = CHR ''0'') (rev s) = replicate (length (takeWhile (\<lambda>c. c = CHR ''0'') (rev s))) (CHR ''0'')"
    by (rule replicate_eqI) (auto dest: set_takeWhileD)
  then show ?thesis
    unfolding strip_zeros_def by (metis * rev_append rev_replicate rev_rev_ident)
qed

lemma digits_fixed: "c \<in> set (fixed w n) \<Longrightarrow> digit_val c \<noteq> None"
  by (induction w arbitrary: n) (auto simp: fixed.simps)

lemma parse_show_frac:
  assumes "ns < 1000000000"
  shows "parse_frac (show_frac ns @ ''Z'') = (ns, ''Z'')"
proof (cases "ns = 0")
  case False
  obtain k where k: "fixed 9 ns = strip_zeros (fixed 9 ns) @ replicate k (CHR ''0'')"
    using strip_zeros_pad by blast
  let ?ds = "strip_zeros (fixed 9 ns)"
  have len: "length ?ds + k = 9" using arg_cong [OF k, of length] by simp
  have dig: "\<And>c. c \<in> set ?ds \<Longrightarrow> digit_val c \<noteq> None"
    using k digits_fixed [of _ 9 ns] by (metis Un_iff set_append)
  have val: "dec (fixed 9 ns) = Some ns" using assms by simp
  have ne: "?ds \<noteq> []"
  proof
    assume "?ds = []"
    with k len have "fixed 9 ns = replicate 9 (CHR ''0'')" by simp
    moreover have "dec (replicate 9 (CHR ''0'')) = Some 0" by code_simp
    ultimately show False using val False by simp
  qed
  have "takeWhile (\<lambda>c. digit_val c \<noteq> None) (?ds @ ''Z'') = ?ds"
    using dig by (simp add: takeWhile_append2 digit_val_def)
  moreover have "take 9 (?ds @ replicate 9 (CHR ''0'')) = fixed 9 ns"
    using len by (subst (2) k) (simp add: min_def)
  ultimately show ?thesis
    using False ne val by (simp add: show_frac_def parse_frac_def)
qed (simp add: show_frac_def parse_frac_def)

lemma month_date:
  fixes d :: int
  defines "y \<equiv> year_of d"
  assumes md: "month_day (month_lengths y) 1 (nat (d - year_start y)) = (m, k)"
  shows "1 \<le> m" "m \<le> 12" "k < month_lengths y ! (m - 1)"
    "d = year_start y + int (sum_list (take (m - 1) (month_lengths y)) + k)"
proof -
  have sp: "year_start y \<le> d" "d < year_start (y + 1)" using year_of_spec [of d] by (auto simp: y_def)
  then have "nat (d - year_start y) < sum_list (month_lengths y)"
    by (auto simp: sum_month_lengths year_start_next split: if_splits)
  from month_day_spec [OF this md] have *: "1 \<le> m" "m < 13" "k < month_lengths y ! (m - 1)"
    "nat (d - year_start y) = sum_list (take (m - 1) (month_lengths y)) + k"
    by (auto simp: month_lengths_def)
  then show "1 \<le> m" "m \<le> 12" "k < month_lengths y ! (m - 1)" by auto
  show "d = year_start y + int (sum_list (take (m - 1) (month_lengths y)) + k)"
    using * sp by (metis (no_types, lifting) add.commute diff_add_cancel diff_ge_0_iff_ge int_nat_eq)
qed

lemma month_lengths_bound: "m < 12 \<Longrightarrow> month_lengths y ! m \<le> 31"
  by (cases m rule: nat.exhaust) (auto simp: month_lengths_def nth_Cons split: nat.splits)

lemma pad_fixed: "n < 10 ^ w \<Longrightarrow> pad w n = fixed w n"
  by (simp add: pad_def)

lemma parse_concat:
  assumes "length ys = 4" "length ms = 2" "length ds = 2" "length hs = 2" "length mis = 2" "length ss = 2"
    and "dec ys = Some y" "dec ms = Some m" "dec ds = Some d" "dec hs = Some h" "dec mis = Some mi" "dec ss = Some sec"
    and "valid_date y m d" "h \<le> 23" "mi \<le> 59" "sec \<le> 59" "parse_frac f = (ns, ''Z'')"
    and "f \<noteq> []"
  shows "parse_RFC3339 (ys @ ''-'' @ ms @ ''-'' @ ds @ ''T'' @ hs @ '':'' @ mis @ '':'' @ ss @ f) =
    Some (date_days y m d * day_ns + int (h * 3600 + mi * 60 + sec) * 1000000000 + int ns)"
proof -
  let ?s = "ys @ ''-'' @ ms @ ''-'' @ ds @ ''T'' @ hs @ '':'' @ mis @ '':'' @ ss @ f"
  have "20 \<le> length ?s" using assms(1-6,18) by (cases f) auto
  moreover have "?s ! 4 = CHR ''-''" "?s ! 7 = CHR ''-''" "?s ! 10 = CHR ''T''" "?s ! 13 = CHR '':''" "?s ! 16 = CHR '':''"
    using assms(1-6) by (simp_all add: nth_append)
  moreover have "num_field ?s 0 4 = Some y" "num_field ?s 5 2 = Some m" "num_field ?s 8 2 = Some d"
    "num_field ?s 11 2 = Some h" "num_field ?s 14 2 = Some mi" "num_field ?s 17 2 = Some sec"
    using assms(1-12) by (simp_all add: num_field_def)
  moreover have "drop 19 ?s = f" using assms(1-6) by simp
  ultimately show ?thesis
    using assms(13-17) by (simp add: parse_RFC3339_def parse_zone_def)
qed

text \<open>The six fixed-width fields of the text of a printable instant.\<close>

lemma format_fields:
  fixes t :: instant
  defines "days \<equiv> t div day_ns" and "rem \<equiv> nat (t mod day_ns)"
  defines "y \<equiv> year_of days" and "s \<equiv> rem div 1000000000"
  assumes "printable t"
  obtains m k where "month_day (month_lengths y) 1 (nat (days - year_start y)) = (m, k)"
    "nat y < 10 ^ 4" "int (nat y) = y" "m < 10 ^ 2" "Suc k < 10 ^ 2" "s div 3600 \<le> 23" "valid_date (nat y) m (Suc k)"
    "format_RFC3339Nano t = fixed 4 (nat y) @ ''-'' @ fixed 2 m @ ''-'' @ fixed 2 (Suc k) @ ''T''
      @ fixed 2 (s div 3600) @ '':'' @ fixed 2 (s div 60 mod 60) @ '':'' @ fixed 2 (s mod 60)
      @ (show_frac (rem mod 1000000000) @ ''Z'')"
proof -
  obtain m k where md: "month_day (month_lengths y) 1 (nat (days - year_start y)) = (m, k)" by force
  note mdate = month_date [of days, folded y_def, OF md]
  have rem: "rem < 86400000000000" by (simp add: rem_def day_ns_def nat_less_iff)
  have t: "days * day_ns \<le> t" unfolding days_def by (simp add: day_ns_def)
  have days: "0 \<le> days" "days < year_start 10000"
  proof -
    show "0 \<le> days" using assms(5) by (simp add: printable_def days_def day_ns_def pos_imp_zdiv_nonneg_iff)
    have "days * day_ns < year_start 10000 * day_ns" using assms(5) t by (auto simp: printable_def)
    then show "days < year_start 10000" by (simp add: day_ns_def)
  qed
  have y: "1 \<le> y" "y < 10000"
  proof -
    have sp: "year_start y \<le> days" "days < year_start (y + 1)" using year_of_spec [of days] by (simp_all add: y_def)
    have "year_start 1 = 0" by (simp add: year_start_def)
    then show "1 \<le> y" using sp(2) days(1) year_start_mono [of "y + 1" 1] by linarith
    show "y < 10000" using sp(1) days(2) year_start_mono [of 10000 y] by linarith
  qed
  have yn: "int (nat y) = y" "nat y < 10 ^ 4" using y by auto
  have k: "k < 31" using month_lengths_bound [of "m - 1" y] mdate(1-3) by linarith
  have s: "s div 3600 < 24" using rem by (simp add: s_def div_less_iff_less_mult)
  have fields: "nat y < 10 ^ 4" "m < 10 ^ 2" "Suc k < 10 ^ 2" "s div 3600 < 10 ^ 2" "s div 60 mod 60 < 10 ^ 2"
    "s mod 60 < 10 ^ 2"
    using yn(2) mdate(2) k s mod_less_divisor [of 60 "s div 60"] mod_less_divisor [of 60 s] by simp_all
  have date: "show_date days = fixed 4 (nat y) @ ''-'' @ fixed 2 m @ ''-'' @ fixed 2 (Suc k)"
    unfolding show_date_def Let_def y_def [symmetric] md prod.case show_year_def pad_fixed [OF fields(1)]
      pad_fixed [OF fields(2)] pad_fixed [OF fields(3)] using y(1) by simp
  have "format_RFC3339Nano t = fixed 4 (nat y) @ ''-'' @ fixed 2 m @ ''-'' @ fixed 2 (Suc k) @ ''T''
      @ fixed 2 (s div 3600) @ '':'' @ fixed 2 (s div 60 mod 60) @ '':'' @ fixed 2 (s mod 60)
      @ (show_frac (rem mod 1000000000) @ ''Z'')"
    unfolding format_RFC3339Nano_def Let_def days_def [symmetric] rem_def [symmetric] s_def [symmetric] date
      show_clock_def pad_fixed [OF fields(4)] pad_fixed [OF fields(5)] pad_fixed [OF fields(6)]
    by (simp only: append_assoc)
  moreover have "valid_date (nat y) m (Suc k)" using mdate yn(1) by (simp add: valid_date_def)
  ultimately show ?thesis using that [OF md fields(1) yn(1) fields(2,3)] s by simp
qed

lemma clock_split: "s div 3600 * 3600 + s div 60 mod 60 * 60 + s mod 60 = (s :: nat)"
proof -
  have "s div 3600 = s div 60 div 60" by (simp add: div_mult2_eq [symmetric])
  then have "s div 3600 * 60 + s div 60 mod 60 = s div 60" by simp
  moreover have "s div 60 * 60 + s mod 60 = s" by simp
  ultimately show ?thesis by linarith
qed

lemma clock_range: "s div 60 mod 60 \<le> 59" "s mod 60 \<le> (59 :: nat)"
  using mod_less_divisor [of 60 "s div 60"] mod_less_divisor [of 60 s] by linarith+

lemma format_parse:
  assumes "printable t"
  shows "parse_RFC3339 (format_RFC3339Nano t) = Some t"
proof -
  define days where "days = t div day_ns"
  define rem where "rem = nat (t mod day_ns)"
  define y where "y = year_of days"
  define s where "s = rem div 1000000000"
  obtain m k where md: "month_day (month_lengths y) 1 (nat (days - year_start y)) = (m, k)"
    and ok: "nat y < 10 ^ 4" "int (nat y) = y" "m < 10 ^ 2" "Suc k < 10 ^ 2" "s div 3600 \<le> 23"
      "valid_date (nat y) m (Suc k)"
    and fmt: "format_RFC3339Nano t = fixed 4 (nat y) @ ''-'' @ fixed 2 m @ ''-'' @ fixed 2 (Suc k) @ ''T''
      @ fixed 2 (s div 3600) @ '':'' @ fixed 2 (s div 60 mod 60) @ '':'' @ fixed 2 (s mod 60)
      @ (show_frac (rem mod 1000000000) @ ''Z'')"
    using format_fields [OF assms] unfolding days_def rem_def y_def s_def by blast
  note mdate = month_date [of days, folded y_def, OF md]
  have clock: "s div 3600 < 10 ^ 2" "s div 60 mod 60 < 10 ^ 2" "s mod 60 < 10 ^ 2"
    using ok(5) clock_range [of s] by simp_all
  have "parse_RFC3339 (format_RFC3339Nano t) =
      Some (date_days (nat y) m (Suc k) * day_ns
        + int (s div 3600 * 3600 + s div 60 mod 60 * 60 + s mod 60) * 1000000000 + int (rem mod 1000000000))"
    unfolding fmt by (intro parse_concat length_fixed dec_fixed ok clock clock_range parse_show_frac) simp_all
  moreover have "date_days (nat y) m (Suc k) = days" using mdate(4) ok(2) by (simp add: date_days_def)
  moreover have "int s * 1000000000 + int (rem mod 1000000000) = int rem"
    by (metis s_def div_mult_mod_eq of_nat_add of_nat_mult of_nat_numeral)
  moreover have "t = days * day_ns + int rem"
    by (simp add: days_def rem_def day_ns_def)
  ultimately show ?thesis unfolding clock_split by (simp add: algebra_simps)
qed

subsection \<open>The order of the texts\<close>

lemma append_less:
  fixes u v x y :: "'a :: linorder list"
  assumes "length u = length v"
  shows "u @ x < v @ y \<longleftrightarrow> u < v \<or> u = v \<and> x < y"
  using assms by (induction u v rule: list_induct2) auto

lemma digit_char_less: "a < 10 \<Longrightarrow> b < 10 \<Longrightarrow> a < b \<Longrightarrow> digit_char a < digit_char b"
  by (simp add: digit_char_def less_char_def)

lemma fixed_less: "b < 10 ^ w \<Longrightarrow> a < b \<Longrightarrow> fixed w a < fixed w b"
proof (induction w arbitrary: a b)
  case (Suc w)
  have b: "b div 10 < 10 ^ w" using Suc.prems by (simp add: div_less_iff_less_mult mult.commute)
  consider "a div 10 < b div 10" | "a div 10 = b div 10" "a mod 10 < b mod 10"
    using Suc.prems(2) by (metis div_le_mono div_mult_mod_eq le_neq_implies_less less_imp_le nat_add_left_cancel_less)
  then show ?case
    by cases (use Suc.IH [OF b] in \<open>auto simp: fixed.simps append_less digit_char_less\<close>)
qed simp

lemma month_day_less:
  "k < k' \<Longrightarrow> k' < sum_list ls \<Longrightarrow> month_day ls m k < month_day ls m k'"
proof (induction ls m k arbitrary: k' rule: month_day.induct)
  case (2 l ls m k)
  show ?case
  proof (cases "k < l")
    case True
    show ?thesis
    proof (cases "k' < l")
      case False
      obtain m' r where "month_day ls (Suc m) (k' - l) = (m', r)" by force
      moreover have "Suc m \<le> m'"
        using month_day_spec [OF _ calculation] 2(3) False by simp
      ultimately show ?thesis using True False by simp
    qed (use True 2(2) in simp)
  qed (use 2 in auto)
qed simp

lemma date_order:
  fixes d d' :: int
  assumes "d < d'"
  defines "md \<equiv> \<lambda>d. month_day (month_lengths (year_of d)) 1 (nat (d - year_start (year_of d)))"
  shows "year_of d < year_of d' \<or> year_of d = year_of d' \<and> md d < md d'"
proof -
  have sp: "year_start (year_of x) \<le> x" "x < year_start (year_of x + 1)" for x
    using year_of_spec [of x] by auto
  have "year_of d \<le> year_of d'"
    using sp(1) [of d] sp(2) [of d'] assms(1) year_start_mono [of "year_of d' + 1" "year_of d"] by linarith
  moreover have "md d < md d'" if eq: "year_of d = year_of d'"
    unfolding md_def eq
  proof (rule month_day_less)
    show "nat (d - year_start (year_of d')) < nat (d' - year_start (year_of d'))"
      using sp(1) [of d] eq assms(1) by simp
    show "nat (d' - year_start (year_of d')) < sum_list (month_lengths (year_of d'))"
      using sp [of d'] by (auto simp: sum_month_lengths year_start_next split: if_splits)
  qed
  ultimately show ?thesis by linarith
qed

lemma fixed_le_less:
  assumes "b < 10 ^ w" "a \<le> b"
  shows "fixed w a = fixed w b \<and> a = b \<or> fixed w a < fixed w b \<and> a < b"
  using fixed_less [OF assms(1)] assms(2) by (cases "a = b") auto

lemma clock_lex:
  fixes a b c :: nat
  assumes "a * 3600 + b * 60 + c < a' * 3600 + b' * 60 + c'" "b \<le> 59" "c \<le> 59" "b' \<le> 59" "c' \<le> 59"
  shows "a < a' \<or> a = a' \<and> b < b' \<or> a = a' \<and> b = b' \<and> c < c'"
proof (cases "a < a'")
  case False
  with assms have "a = a'" by linarith
  moreover from this assms have "b < b' \<or> b = b' \<and> c < c'" by (cases "b < b'") auto
  ultimately show ?thesis by blast
qed simp

lemma clock_less:
  assumes "s < s'" "s' div 3600 \<le> 23"
  shows "fixed 2 (s div 3600) @ '':'' @ fixed 2 (s div 60 mod 60) @ '':'' @ fixed 2 (s mod 60) @ x
    < fixed 2 (s' div 3600) @ '':'' @ fixed 2 (s' div 60 mod 60) @ '':'' @ fixed 2 (s' mod 60) @ x'"
proof -
  have b: "s' div 3600 < 10 ^ 2" "s' div 60 mod 60 < 10 ^ 2" "s' mod 60 < 10 ^ 2"
    using assms(2) clock_range [of s'] by simp_all
  consider "s div 3600 < s' div 3600"
    | "s div 3600 = s' div 3600" "s div 60 mod 60 < s' div 60 mod 60"
    | "s div 3600 = s' div 3600" "s div 60 mod 60 = s' div 60 mod 60" "s mod 60 < s' mod 60"
    using clock_lex [OF _ clock_range [of s] clock_range [of s'], of "s div 3600" "s' div 3600"] assms(1)
    unfolding clock_split by blast
  then show ?thesis
    by cases (simp_all add: append_less fixed_less [OF b(1)] fixed_less [OF b(2)] fixed_less [OF b(3)])
qed

lemma format_less:
  assumes "printable t" "printable t'" and less: "t div 1000000000 < t' div 1000000000"
  shows "format_RFC3339Nano t < format_RFC3339Nano t'"
proof -
  have parts: "x div 1000000000 = x div day_ns * 86400 + int (nat (x mod day_ns) div 1000000000)" for x :: int
  proof -
    have "x = x div day_ns * day_ns + x mod day_ns" by simp
    then have "x div 1000000000 = (x div day_ns * 86400 * 1000000000 + x mod day_ns) div 1000000000"
      by (simp add: day_ns_def)
    also have "\<dots> = x div day_ns * 86400 + x mod day_ns div 1000000000" by simp
    finally show ?thesis by (simp add: zdiv_int day_ns_def)
  qed
  let ?s = "nat (t mod day_ns) div 1000000000" and ?s' = "nat (t' mod day_ns) div 1000000000"
  have s_max: "nat (x mod day_ns) div 1000000000 < 86400" for x :: int
    by (simp add: day_ns_def div_less_iff_less_mult nat_less_iff)
  consider (day) "t div day_ns < t' div day_ns" | (sec) "t div day_ns = t' div day_ns" "?s < ?s'"
    using less s_max [of t] s_max [of t'] unfolding parts [of t] parts [of t'] by linarith
  then show ?thesis
  proof cases
    case day
    from format_fields [OF assms(1)] obtain m k x where f:
      "month_day (month_lengths (year_of (t div day_ns))) 1 (nat (t div day_ns - year_start (year_of (t div day_ns)))) = (m, k)"
      "int (nat (year_of (t div day_ns))) = year_of (t div day_ns)"
      "format_RFC3339Nano t = fixed 4 (nat (year_of (t div day_ns))) @ ''-'' @ fixed 2 m @ ''-'' @ fixed 2 (Suc k) @ x"
      by metis
    from format_fields [OF assms(2)] obtain m' k' x' where f':
      "month_day (month_lengths (year_of (t' div day_ns))) 1 (nat (t' div day_ns - year_start (year_of (t' div day_ns)))) = (m', k')"
      "nat (year_of (t' div day_ns)) < 10 ^ 4" "int (nat (year_of (t' div day_ns))) = year_of (t' div day_ns)"
      "m' < 10 ^ 2" "Suc k' < 10 ^ 2"
      "format_RFC3339Nano t' = fixed 4 (nat (year_of (t' div day_ns))) @ ''-'' @ fixed 2 m' @ ''-'' @ fixed 2 (Suc k') @ x'"
      by metis
    consider "nat (year_of (t div day_ns)) < nat (year_of (t' div day_ns))"
      | "year_of (t div day_ns) = year_of (t' div day_ns)" "m < m'"
      | "year_of (t div day_ns) = year_of (t' div day_ns)" "m = m'" "k < k'"
      using date_order [OF day] f(1,2) f'(1,3) by fastforce
    then show ?thesis
      unfolding f(3) f'(6)
      by cases (simp_all add: append_less fixed_less [OF f'(2)] fixed_less [OF f'(4)] fixed_less [OF f'(5)])
  next
    case sec
    have h: "?s' div 3600 \<le> 23" using s_max [of t'] by linarith
    from format_fields [OF assms(1)] obtain m k where f:
      "month_day (month_lengths (year_of (t div day_ns))) 1 (nat (t div day_ns - year_start (year_of (t div day_ns)))) = (m, k)"
      "format_RFC3339Nano t = fixed 4 (nat (year_of (t div day_ns))) @ ''-'' @ fixed 2 m @ ''-'' @ fixed 2 (Suc k) @ ''T''
        @ fixed 2 (?s div 3600) @ '':'' @ fixed 2 (?s div 60 mod 60) @ '':'' @ fixed 2 (?s mod 60)
        @ (show_frac (nat (t mod day_ns) mod 1000000000) @ ''Z'')"
      by metis
    from format_fields [OF assms(2)] obtain m' k' where f':
      "month_day (month_lengths (year_of (t' div day_ns))) 1 (nat (t' div day_ns - year_start (year_of (t' div day_ns)))) = (m', k')"
      "format_RFC3339Nano t' = fixed 4 (nat (year_of (t' div day_ns))) @ ''-'' @ fixed 2 m' @ ''-'' @ fixed 2 (Suc k') @ ''T''
        @ fixed 2 (?s' div 3600) @ '':'' @ fixed 2 (?s' div 60 mod 60) @ '':'' @ fixed 2 (?s' mod 60)
        @ (show_frac (nat (t' mod day_ns) mod 1000000000) @ ''Z'')"
      by metis
    have "m' = m" "k' = k" using f(1) f'(1) sec(1) by auto
    then show ?thesis
      unfolding f(2) f'(2) sec(1) using clock_less [OF sec(2) h] by (simp add: append_less)
  qed
qed

end
