(* ===== verification/Store_Types.thy ===== *)
theory Store_Types
  imports Go_Time
begin

text \<open>
  The data of the job registry, \<^verbatim>\<open>internal/store/store.go\<close>: lifecycle states, jobs, document routes
  and filters, the variadic argument lists of its methods, and the conversions between
  Go values and nullable columns.
\<close>

subsection \<open>Lifecycle states\<close>

definition StateReserved :: string where "StateReserved = ''reserved''"
definition StateMapped :: string where "StateMapped = ''mapped''"
definition StateUncertain :: string where "StateUncertain = ''uncertain''"
definition StateTerminal :: string where "StateTerminal = ''terminal''"

definition terminalStates :: "string list" where
  "terminalStates = [StateTerminal, ''completed'', ''canceled'', ''cancelled'', ''aborted'', ''failed'', ''stopped'']"

definition IsTerminalState :: "string \<Rightarrow> bool" where
  "IsTerminalState s = (ToLower (TrimSpace s) \<in> set terminalStates)"

text \<open>The guard \<^verbatim>\<open>lower(state) IN (...)\<close> of the SQL statements: no trimming, ASCII case only.\<close>

definition sql_terminal :: "string \<Rightarrow> bool" where
  "sql_terminal s = (sql_lower s \<in> set terminalStates)"

datatype store_error =
    ErrNoRows | ErrMappingConflict | ErrInvalidTransition | ErrInvalidArgument
  | DriverErr string | ErrUnavailable

definition hour :: int where "hour = 3600000000000"
definition minute :: int where "minute = 60000000000"

definition DefaultRetention :: int where "DefaultRetention = 30 * 24 * hour"
definition reconciliationInitialBackoff :: int where "reconciliationInitialBackoff = minute"
definition reconciliationMaxBackoff :: int where "reconciliationMaxBackoff = hour"

definition RoutePassThrough :: string where "RoutePassThrough = ''pass-through''"

subsection \<open>Jobs and routes\<close>

record DocumentRoute =
  rClientDocumentFormat :: string
  rUpstreamDocumentFormat :: string
  rKind :: string
  rMapping :: string
  rMediaName :: string
  rMediaWidth :: u32
  rMediaHeight :: u32
  rMediaType :: string
  rMediaSource :: u32
  rResolutionX :: u32
  rResolutionY :: u32
  rPrintQuality :: u32
  rSides :: string
  rSheetBack :: string

record Job =
  ProxyJobID :: int
  UpstreamJobID :: int
  HasUpstreamJobID :: bool
  UpstreamJobURI :: string
  HasUpstreamJobURI :: bool
  Queue :: string
  QueueOwner :: string
  RequestingUser :: string
  JobName :: string
  DocumentFormat :: string
  UpstreamDocumentFormat :: string
  RouteKind :: string
  RouteMapping :: string
  RouteMediaName :: string
  RouteMediaWidth :: u32
  RouteMediaHeight :: u32
  RouteMediaType :: string
  RouteMediaSource :: u32
  RouteResolutionX :: u32
  RouteResolutionY :: u32
  RoutePrintQuality :: u32
  RouteSides :: string
  RouteSheetBack :: string
  Route :: DocumentRoute
  State :: string
  ObservedState :: string
  ObservedError :: string
  PayloadBytes :: int
  PageCount :: "int option"
  Copies :: int
  EstimatedImpressions :: "int option"
  DocumentCount :: int
  LastDocument :: bool
  CreatedAt :: instant
  UpdatedAt :: instant
  TerminalAt :: "instant option"
  ReconcileAt :: "instant option"
  LastReconcileAt :: "instant option"
  NextReconcileAt :: "instant option"

definition zeroRoute :: DocumentRoute where
  "zeroRoute = \<lparr>rClientDocumentFormat = [], rUpstreamDocumentFormat = [], rKind = [], rMapping = [],
     rMediaName = [], rMediaWidth = 0, rMediaHeight = 0, rMediaType = [], rMediaSource = 0,
     rResolutionX = 0, rResolutionY = 0, rPrintQuality = 0, rSides = [], rSheetBack = []\<rparr>"

definition zeroJob :: Job where
  "zeroJob = \<lparr>ProxyJobID = 0, UpstreamJobID = 0, HasUpstreamJobID = False, UpstreamJobURI = [],
     HasUpstreamJobURI = False, Queue = [], QueueOwner = [], RequestingUser = [], JobName = [],
     DocumentFormat = [], UpstreamDocumentFormat = [], RouteKind = [], RouteMapping = [],
     RouteMediaName = [], RouteMediaWidth = 0, RouteMediaHeight = 0, RouteMediaType = [],
     RouteMediaSource = 0, RouteResolutionX = 0, RouteResolutionY = 0, RoutePrintQuality = 0,
     RouteSides = [], RouteSheetBack = [], Route = zeroRoute, State = [], ObservedState = [],
     ObservedError = [], PayloadBytes = 0, PageCount = None, Copies = 0, EstimatedImpressions = None,
     DocumentCount = 0, LastDocument = False, CreatedAt = 0, UpdatedAt = 0, TerminalAt = None,
     ReconcileAt = None, LastReconcileAt = None, NextReconcileAt = None\<rparr>"

text \<open>A value, or another one where it is the zero value of its type.\<close>

definition orElse :: "'a :: zero \<Rightarrow> 'a \<Rightarrow> 'a" where
  "orElse a b = (if a = 0 then b else a)"

definition orText :: "string \<Rightarrow> string \<Rightarrow> string" where
  "orText a b = (if a = [] then b else a)"

definition routeFromJob :: "Job \<Rightarrow> DocumentRoute" where
  "routeFromJob job =
     (let r = Route job in
      \<lparr>rClientDocumentFormat = orText (rClientDocumentFormat r) (DocumentFormat job),
       rUpstreamDocumentFormat = orText (rUpstreamDocumentFormat r) (UpstreamDocumentFormat job),
       rKind = orText (rKind r) (RouteKind job),
       rMapping = orText (rMapping r) (RouteMapping job),
       rMediaName = orText (rMediaName r) (RouteMediaName job),
       rMediaWidth = orElse (rMediaWidth r) (RouteMediaWidth job),
       rMediaHeight = orElse (rMediaHeight r) (RouteMediaHeight job),
       rMediaType = orText (rMediaType r) (RouteMediaType job),
       rMediaSource = orElse (rMediaSource r) (RouteMediaSource job),
       rResolutionX = orElse (rResolutionX r) (RouteResolutionX job),
       rResolutionY = orElse (rResolutionY r) (RouteResolutionY job),
       rPrintQuality = orElse (rPrintQuality r) (RoutePrintQuality job),
       rSides = orText (rSides r) (RouteSides job),
       rSheetBack = orText (rSheetBack r) (RouteSheetBack job)\<rparr>)"

definition normalizeRoute :: "Job \<Rightarrow> Job" where
  "normalizeRoute job =
     (let route = routeFromJob job;
          route = route\<lparr>rClientDocumentFormat := orText (rClientDocumentFormat route) (DocumentFormat job)\<rparr>;
          job = job\<lparr>DocumentFormat := orText (DocumentFormat job) (rClientDocumentFormat route)\<rparr>;
          route = route\<lparr>rUpstreamDocumentFormat := orText (rUpstreamDocumentFormat route) (DocumentFormat job)\<rparr>;
          route = route\<lparr>rKind := orText (rKind route) RoutePassThrough\<rparr>
      in job\<lparr>UpstreamDocumentFormat := rUpstreamDocumentFormat route, RouteKind := rKind route,
             RouteMapping := rMapping route, RouteMediaName := rMediaName route,
             RouteMediaWidth := rMediaWidth route, RouteMediaHeight := rMediaHeight route,
             RouteMediaType := rMediaType route, RouteMediaSource := rMediaSource route,
             RouteResolutionX := rResolutionX route, RouteResolutionY := rResolutionY route,
             RoutePrintQuality := rPrintQuality route, RouteSides := rSides route,
             RouteSheetBack := rSheetBack route, Route := route\<rparr>)"

record JobSummary =
  Total :: int
  ByQueue :: "string \<rightharpoonup> int"
  ByState :: "string \<rightharpoonup> int"

record JobFilter =
  fQueue :: string
  fQueueOwner :: string
  fRequestingUser :: string
  fUser :: string
  fRequestingUserName :: string
  fState :: string
  fStates :: "string list"
  fObservedState :: string
  fProxyJobID :: int
  fUpstreamJobID :: int
  fCreatedAfter :: instant
  fCreatedBefore :: instant
  fUpdatedAfter :: instant
  fUpdatedBefore :: instant
  fTerminalBefore :: instant
  fTerminalAfter :: instant
  fIncludeTerminal :: bool
  fExcludeTerminal :: bool
  fLimit :: int
  fOffset :: int

definition noFilter :: JobFilter where
  "noFilter = \<lparr>fQueue = [], fQueueOwner = [], fRequestingUser = [], fUser = [], fRequestingUserName = [],
     fState = [], fStates = [], fObservedState = [], fProxyJobID = 0, fUpstreamJobID = 0,
     fCreatedAfter = 0, fCreatedBefore = 0, fUpdatedAfter = 0, fUpdatedBefore = 0,
     fTerminalBefore = 0, fTerminalAfter = 0, fIncludeTerminal = False, fExcludeTerminal = False,
     fLimit = 0, fOffset = 0\<rparr>"

definition mergeJobFilters :: "JobFilter \<Rightarrow> JobFilter \<Rightarrow> JobFilter" where
  "mergeJobFilters base extra =
     \<lparr>fQueue = orText (fQueue extra) (fQueue base),
      fQueueOwner = orText (fQueueOwner extra) (fQueueOwner base),
      fRequestingUser = orText (fRequestingUser extra) (fRequestingUser base),
      fUser = orText (fUser extra) (fUser base),
      fRequestingUserName = orText (fRequestingUserName extra) (fRequestingUserName base),
      fState = orText (fState extra) (fState base),
      fStates = (if fStates extra \<noteq> [] then fStates extra else fStates base),
      fObservedState = orText (fObservedState extra) (fObservedState base),
      fProxyJobID = orElse (fProxyJobID extra) (fProxyJobID base),
      fUpstreamJobID = orElse (fUpstreamJobID extra) (fUpstreamJobID base),
      fCreatedAfter = orElse (fCreatedAfter extra) (fCreatedAfter base),
      fCreatedBefore = orElse (fCreatedBefore extra) (fCreatedBefore base),
      fUpdatedAfter = orElse (fUpdatedAfter extra) (fUpdatedAfter base),
      fUpdatedBefore = orElse (fUpdatedBefore extra) (fUpdatedBefore base),
      fTerminalBefore = orElse (fTerminalBefore extra) (fTerminalBefore base),
      fTerminalAfter = orElse (fTerminalAfter extra) (fTerminalAfter base),
      fIncludeTerminal = (fIncludeTerminal extra \<or> fIncludeTerminal base),
      fExcludeTerminal = (fExcludeTerminal extra \<or> fExcludeTerminal base),
      fLimit = orElse (fLimit extra) (fLimit base),
      fOffset = orElse (fOffset extra) (fOffset base)\<rparr>"

subsection \<open>Dynamic arguments\<close>

text \<open>The dynamic types the methods look for in their variadic \<^verbatim>\<open>any\<close> arguments.\<close>

datatype any =
    AInt int | AInt8 int | AInt16 int | AInt32 int | AInt64 int
  | AUint int | AUint8 int | AUint16 int | AUint32 int | AUint64 int
  | AString string | ATime instant | ADuration int | ABool bool | AIntPtr "int option"
  | AJob Job | AFilter JobFilter | ANil | AOther

text \<open>Conversion of an unsigned 64-bit value to \<^verbatim>\<open>int\<close> keeps its bits.\<close>

definition wrap64 :: "int \<Rightarrow> int" where
  "wrap64 v = (v + 2 ^ 63) mod 2 ^ 64 - 2 ^ 63"

fun asInt :: "any \<Rightarrow> int option" where
  "asInt (AInt v) = Some v"
| "asInt (AInt8 v) = Some v"
| "asInt (AInt16 v) = Some v"
| "asInt (AInt32 v) = Some v"
| "asInt (AInt64 v) = Some v"
| "asInt (AUint v) = Some (wrap64 v)"
| "asInt (AUint8 v) = Some v"
| "asInt (AUint16 v) = Some v"
| "asInt (AUint32 v) = Some v"
| "asInt (AUint64 v) = Some (wrap64 v)"
| "asInt _ = None"

fun asInt64 :: "any \<Rightarrow> int option" where
  "asInt64 v = (case asInt v of Some i \<Rightarrow> Some i | None \<Rightarrow> (case v of AInt64 i \<Rightarrow> Some i | _ \<Rightarrow> None))"

fun asString :: "any \<Rightarrow> string option" where
  "asString (AString s) = Some s"
| "asString _ = None"

fun asBool :: "any \<Rightarrow> bool option" where
  "asBool (ABool b) = Some b"
| "asBool _ = None"

fun asOptionalInt :: "any \<Rightarrow> int option option" where
  "asOptionalInt ANil = Some None"
| "asOptionalInt (AIntPtr p) = Some p"
| "asOptionalInt v = (case asInt v of None \<Rightarrow> None | Some i \<Rightarrow> Some (Some i))"

type_synonym 'a parsed = "store_error + 'a"

definition ok_or :: "'a option \<Rightarrow> 'a parsed" where
  "ok_or x = (case x of None \<Rightarrow> Inl ErrInvalidArgument | Some v \<Rightarrow> Inr v)"

definition parseReservationArgs :: "any list \<Rightarrow> Job parsed" where
  "parseReservationArgs args =
     (case args of
        [AJob job] \<Rightarrow> Inr job
      | _ \<Rightarrow>
        if 2 \<le> length args \<and> length args \<le> 5 then
          sumBind (ok_or (asString (args ! 0))) (\<lambda>queue.
          sumBind (ok_or (asString (args ! 1))) (\<lambda>user.
          let job = zeroJob\<lparr>Queue := queue, RequestingUser := user\<rparr> in
          sumBind (if 3 \<le> length args
                   then sumBind (ok_or (asString (args ! 2))) (\<lambda>s. Inr (job\<lparr>JobName := s\<rparr>)) else Inr job) (\<lambda>job.
          sumBind (if 4 \<le> length args
                   then sumBind (ok_or (asString (args ! 3))) (\<lambda>s. Inr (job\<lparr>DocumentFormat := s\<rparr>)) else Inr job) (\<lambda>job.
          if length args = 5
          then sumBind (ok_or (asInt (args ! 4))) (\<lambda>n. Inr (job\<lparr>Copies := n\<rparr>)) else Inr job))))
        else Inl ErrInvalidArgument)"

definition parseScopedID :: "any list \<Rightarrow> (string \<times> int) parsed" where
  "parseScopedID args =
     (case args of
        [a] \<Rightarrow> (case asInt a of Some i \<Rightarrow> Inr ([], i) | None \<Rightarrow> Inl ErrInvalidArgument)
      | [q, a] \<Rightarrow> (case (asString q, asInt a) of
                    (Some s, Some i) \<Rightarrow> Inr (s, i) | _ \<Rightarrow> Inl ErrInvalidArgument)
      | _ \<Rightarrow> Inl ErrInvalidArgument)"

definition parseScopedString :: "any list \<Rightarrow> (string \<times> string) parsed" where
  "parseScopedString args =
     (case args of
        [a] \<Rightarrow> (case asString a of Some v \<Rightarrow> Inr ([], v) | None \<Rightarrow> Inl ErrInvalidArgument)
      | [q, a] \<Rightarrow> (case (asString q, asString a) of
                    (Some s, Some v) \<Rightarrow> Inr (s, v) | _ \<Rightarrow> Inl ErrInvalidArgument)
      | _ \<Rightarrow> Inl ErrInvalidArgument)"

definition parseMappingArgs :: "any list \<Rightarrow> (string \<times> int \<times> int \<times> string) parsed" where
  "parseMappingArgs args =
     sumBind (if length args = 4
              then sumBind (ok_or (asString (hd args))) (\<lambda>q. Inr (q, tl args)) else Inr ([], args)) (\<lambda>(queue, args).
     if length args \<noteq> 3 then Inl ErrInvalidArgument else
     sumBind (ok_or (asInt (args ! 0))) (\<lambda>proxyID.
     sumBind (ok_or (asInt (args ! 1))) (\<lambda>upstreamID.
     sumBind (ok_or (asString (args ! 2))) (\<lambda>uri. Inr (queue, proxyID, upstreamID, uri)))))"

text \<open>An optional queue name in front of the identifier.\<close>

definition splitQueue :: "nat \<Rightarrow> any list \<Rightarrow> string \<times> any list" where
  "splitQueue n args =
     (if n \<le> length args then
        (case (asString (args ! 0), asInt (args ! 1)) of
           (Some q, Some _) \<Rightarrow> (q, tl args) | _ \<Rightarrow> ([], args))
      else ([], args))"

text \<open>Times and the first non-empty text among trailing arguments; anything else is an error.\<close>

fun tailArgs :: "string \<Rightarrow> instant \<Rightarrow> any list \<Rightarrow> (string \<times> instant) parsed" where
  "tailArgs txt at [] = Inr (txt, at)"
| "tailArgs txt at (ATime v # args) = tailArgs txt v args"
| "tailArgs txt at (AString v # args) = tailArgs (if txt = [] then v else txt) at args"
| "tailArgs txt at (_ # args) = Inl ErrInvalidArgument"

definition parseUncertainArgs :: "any list \<Rightarrow> (string \<times> int \<times> string \<times> instant) parsed" where
  "parseUncertainArgs args0 =
     (case splitQueue 2 args0 of (queue, args) \<Rightarrow>
      if args = [] then Inl ErrInvalidArgument else
      sumBind (ok_or (asInt (hd args))) (\<lambda>proxyID.
      sumBind (tailArgs [] 0 (tl args)) (\<lambda>(reason, at). Inr (queue, proxyID, reason, at))))"

definition parseObservedArgs :: "any list \<Rightarrow> (string \<times> int \<times> string \<times> string \<times> instant) parsed" where
  "parseObservedArgs args0 =
     (case splitQueue 3 args0 of (queue, args) \<Rightarrow>
      if length args < 2 then Inl ErrInvalidArgument else
      sumBind (ok_or (asInt (args ! 0))) (\<lambda>proxyID.
      sumBind (ok_or (asString (args ! 1))) (\<lambda>observedState.
      sumBind (tailArgs [] 0 (drop 2 args)) (\<lambda>(observedError, at).
        Inr (queue, proxyID, observedState, observedError, at)))))"

fun terminalTail :: "string list \<Rightarrow> instant \<Rightarrow> any list \<Rightarrow> (string list \<times> instant) parsed" where
  "terminalTail seen at [] = Inr (seen, at)"
| "terminalTail seen at (ATime v # args) = terminalTail seen v args"
| "terminalTail seen at (AString v # args) = terminalTail (seen @ [v]) at args"
| "terminalTail seen at (_ # args) = Inl ErrInvalidArgument"

definition parseTerminalArgs :: "any list \<Rightarrow> (string \<times> int \<times> string \<times> string \<times> string \<times> instant) parsed" where
  "parseTerminalArgs args0 =
     (case splitQueue 2 args0 of (queue, args) \<Rightarrow>
      if args = [] then Inl ErrInvalidArgument else
      sumBind (ok_or (asInt (hd args))) (\<lambda>proxyID.
      sumBind (terminalTail [] 0 (tl args)) (\<lambda>(seen, at).
        Inr (case seen of
               [] \<Rightarrow> (queue, proxyID, [], [], [], at)
             | [st] \<Rightarrow> (queue, proxyID, st, [], [], at)
             | [st, er] \<Rightarrow> (queue, proxyID, st, [], er, at)
             | st # ob # er # _ \<Rightarrow> (queue, proxyID, st, ob, er, at)))))"

definition parseDocumentArgs ::
  "any list \<Rightarrow> (string \<times> int \<times> string \<times> int \<times> int option \<times> int \<times> int option \<times> bool) parsed" where
  "parseDocumentArgs args0 =
     (case splitQueue 2 args0 of (queue, args) \<Rightarrow>
      if length args \<noteq> 7 then Inl ErrInvalidArgument else
      sumBind (ok_or (asInt (args ! 0))) (\<lambda>proxyID.
      sumBind (ok_or (asString (args ! 1))) (\<lambda>format.
      sumBind (ok_or (asInt64 (args ! 2))) (\<lambda>payloadBytes.
      sumBind (ok_or (asOptionalInt (args ! 3))) (\<lambda>pageCount.
      sumBind (ok_or (asInt (args ! 4))) (\<lambda>copies.
      sumBind (ok_or (asOptionalInt (args ! 5))) (\<lambda>impressions.
      sumBind (ok_or (asBool (args ! 6))) (\<lambda>lastDocument.
        Inr (queue, proxyID, format, payloadBytes, pageCount, copies, impressions, lastDocument)))))))))"

fun filterArgs :: "JobFilter \<Rightarrow> any list \<Rightarrow> JobFilter parsed" where
  "filterArgs f [] = Inr f"
| "filterArgs f (AFilter g # args) = filterArgs (mergeJobFilters f g) args"
| "filterArgs f (AString v # args) =
     (if fQueue f = [] then filterArgs (f\<lparr>fQueue := v\<rparr>) args
      else if fRequestingUser f = [] then filterArgs (f\<lparr>fRequestingUser := v\<rparr>) args
      else Inl ErrInvalidArgument)"
| "filterArgs f (_ # args) = Inl ErrInvalidArgument"

definition parseJobFilterArgs :: "any list \<Rightarrow> JobFilter parsed" where
  "parseJobFilterArgs args = filterArgs noFilter args"

fun reconcileTail :: "instant \<Rightarrow> int \<Rightarrow> any list \<Rightarrow> (instant \<times> int) parsed" where
  "reconcileTail at lim [] = Inr (at, lim)"
| "reconcileTail at lim (ATime v # args) = reconcileTail v lim args"
| "reconcileTail at lim (AInt v # args) = reconcileTail at v args"
| "reconcileTail at lim (AInt64 v # args) = reconcileTail at v args"
| "reconcileTail at lim (_ # args) = Inl ErrInvalidArgument"

definition parseReconcileArgs :: "instant \<Rightarrow> any list \<Rightarrow> (string \<times> instant \<times> int) parsed" where
  "parseReconcileArgs now args0 =
     (case (case args0 of AString q # args \<Rightarrow> (q, args) | _ \<Rightarrow> ([], args0)) of (queue, args) \<Rightarrow>
      sumBind (reconcileTail now 100 args) (\<lambda>(at, lim). Inr (queue, at, lim)))"

definition parseIDTimeArgs :: "any list \<Rightarrow> (int \<times> instant) parsed" where
  "parseIDTimeArgs args =
     (case args of
        [a] \<Rightarrow> sumBind (ok_or (asInt a)) (\<lambda>i. Inr (i, 0))
      | [a, b] \<Rightarrow> sumBind (ok_or (asInt a)) (\<lambda>i. case b of ATime v \<Rightarrow> Inr (i, v) | _ \<Rightarrow> Inl ErrInvalidArgument)
      | _ \<Rightarrow> Inl ErrInvalidArgument)"

definition parseCleanupCutoff :: "instant \<Rightarrow> any \<Rightarrow> instant parsed" where
  "parseCleanupCutoff now v =
     (case v of
        ATime c \<Rightarrow> Inr (if c = 0 then now - DefaultRetention else c)
      | ADuration d \<Rightarrow> Inr (now - (if d \<le> 0 then DefaultRetention else d))
      | ANil \<Rightarrow> Inr (now - DefaultRetention)
      | _ \<Rightarrow> Inl ErrInvalidArgument)"

subsection \<open>Columns\<close>

definition nullableUpstreamID :: "Job \<Rightarrow> int option" where
  "nullableUpstreamID job = (if HasUpstreamJobID job \<or> UpstreamJobID job \<noteq> 0 then Some (UpstreamJobID job) else None)"

definition nullableUpstreamURI :: "Job \<Rightarrow> string option" where
  "nullableUpstreamURI job =
     (if HasUpstreamJobURI job \<or> UpstreamJobURI job \<noteq> [] then Some (UpstreamJobURI job) else None)"

definition nullableIntValue :: "int \<Rightarrow> int option" where
  "nullableIntValue v = (if v = 0 then None else Some v)"

definition nullableStringValue :: "string \<Rightarrow> string option" where
  "nullableStringValue v = (if v = [] then None else Some v)"

definition boolInt :: "bool \<Rightarrow> int" where
  "boolInt b = (if b then 1 else 0)"

definition formatTime :: "instant \<Rightarrow> string" where
  "formatTime t = (if t = 0 then [] else format_RFC3339Nano t)"

definition parseTime :: "string option \<Rightarrow> instant" where
  "parseTime v = (case v of
     None \<Rightarrow> 0
   | Some s \<Rightarrow> if s = [] then 0 else (case parse_RFC3339 s of None \<Rightarrow> 0 | Some t \<Rightarrow> t))"

definition parseNullableTime :: "string option \<Rightarrow> instant option" where
  "parseNullableTime v = (let t = parseTime v in if t = 0 then None else Some t)"

definition nullableTime :: "instant option \<Rightarrow> string option" where
  "nullableTime v = (case v of None \<Rightarrow> None | Some t \<Rightarrow> if t = 0 then None else Some (formatTime t))"

definition timeOrNow :: "instant \<Rightarrow> instant \<Rightarrow> instant" where
  "timeOrNow now v = (if v = 0 then now else v)"

definition isUniqueViolation :: "store_error \<Rightarrow> bool" where
  "isUniqueViolation e = (case e of
     DriverErr m \<Rightarrow> (let m = ToLower m in Contains m ''unique'' \<or> Contains m ''constraint'')
   | _ \<Rightarrow> False)"

definition reconciliationBackoff :: "instant \<Rightarrow> instant \<Rightarrow> int" where
  "reconciliationBackoff previousReconcile previousNext =
     (let backoff = reconciliationInitialBackoff in
      if previousReconcile = 0 \<or> previousNext = 0 \<or> \<not> previousNext > previousReconcile then backoff
      else let previousDelay = previousNext - previousReconcile in
        if previousDelay \<ge> reconciliationMaxBackoff then reconciliationMaxBackoff
        else if previousDelay > reconciliationMaxBackoff div 2 then reconciliationMaxBackoff
        else let doubled = previousDelay * 2;
                 backoff = (if doubled > backoff then doubled else backoff)
             in if backoff > reconciliationMaxBackoff then reconciliationMaxBackoff else backoff)"

end
