(* ===== verification/Store_Db.thy ===== *)
theory Store_Db
  imports Store_Types
begin

text \<open>
  The database under the registry. The table \<^verbatim>\<open>jobs\<close> is a list of rows in rowid order with the
  AUTOINCREMENT counter of SQLite; a statement is a function on it that fails on a violation
  of the unique index on \<^verbatim>\<open>(queue, upstream_job_id)\<close> and has then no effect.

  SQLite and \<^verbatim>\<open>database/sql\<close> are not part of the program: the parameter \<open>driver\<close> says which calls
  fail (a cancelled context, a locked or full database), what the clock shows at each
  call, and which identifiers \<^verbatim>\<open>uuid.NewString\<close> makes. A failed statement has no effect, and a transaction that is not committed is rolled
  back; nothing else is assumed.
\<close>

subsection \<open>The table\<close>

record row =
  proxy_job_id :: int
  upstream_job_id :: "int option"
  upstream_job_uri :: "string option"
  queue :: string
  queue_owner :: string
  requesting_user :: string
  job_name :: string
  document_format :: string
  upstream_document_format :: string
  route_kind :: string
  route_mapping :: string
  route_media_name :: string
  route_media_width :: int
  route_media_height :: int
  route_media_type :: string
  route_media_source :: int
  route_resolution_x :: int
  route_resolution_y :: int
  route_print_quality :: int
  route_sides :: string
  route_sheet_back :: string
  state :: string
  observed_state :: string
  observed_error :: string
  payload_bytes :: int
  page_count :: "int option"
  copies :: int
  estimated_impressions :: "int option"
  document_count :: int
  last_document :: int
  created_at :: string
  updated_at :: string
  terminal_at :: "string option"
  reconcile_at :: "string option"
  last_reconcile_at :: "string option"
  next_reconcile_at :: "string option"

text \<open>\<open>instance_id\<close> is the one row of the table \<^verbatim>\<open>registry_metadata\<close> that the registry uses.\<close>

record database =
  rows :: "row list"
  seq :: int
  instance_id :: "string option"

definition mapping_keys :: "row list \<Rightarrow> (string \<times> int) list" where
  "mapping_keys rs = List.map_filter (\<lambda>r. map_option (\<lambda>u. (queue r, u)) (upstream_job_id r)) rs"

definition index_ok :: "row list \<Rightarrow> bool" where
  "index_ok rs = distinct (mapping_keys rs)"

definition uniqueMessage :: string where
  "uniqueMessage = ''constraint failed: UNIQUE constraint failed: jobs.queue, jobs.upstream_job_id (2067)''"

definition sql_update :: "(row \<Rightarrow> bool) \<Rightarrow> (row \<Rightarrow> row) \<Rightarrow> database \<Rightarrow> store_error + database \<times> nat" where
  "sql_update P f d =
     (let rs = map (\<lambda>r. if P r then f r else r) (rows d) in
      if index_ok rs then Inr (d\<lparr>rows := rs\<rparr>, length (filter P (rows d))) else Inl (DriverErr uniqueMessage))"

definition sql_insert :: "row \<Rightarrow> database \<Rightarrow> store_error + database \<times> int" where
  "sql_insert r d =
     (let n = seq d + 1; rs = rows d @ [r\<lparr>proxy_job_id := n\<rparr>] in
      if index_ok rs then Inr (d\<lparr>rows := rs, seq := n\<rparr>, n) else Inl (DriverErr uniqueMessage))"

definition sql_delete :: "(row \<Rightarrow> bool) \<Rightarrow> database \<Rightarrow> store_error + database \<times> nat" where
  "sql_delete P d = Inr (d\<lparr>rows := filter (\<lambda>r. \<not> P r) (rows d)\<rparr>, length (filter P (rows d)))"

subsection \<open>Calls\<close>

record driver =
  fault :: "nat \<Rightarrow> string option"
  clock :: "nat \<Rightarrow> instant"
  uuid :: "nat \<Rightarrow> string"

record world =
  db :: database
  tick :: nat

type_synonym 'a sprog = "(world, store_error, 'a) prog"

definition dbcall :: "driver \<Rightarrow> unit sprog" where
  "dbcall drv w =
     ((case fault drv (tick w) of None \<Rightarrow> Inr () | Some m \<Rightarrow> Inl (DriverErr m)), w\<lparr>tick := Suc (tick w)\<rparr>)"

definition timeNow :: "driver \<Rightarrow> instant sprog" where
  "timeNow drv w = (Inr (clock drv (tick w)), w\<lparr>tick := Suc (tick w)\<rparr>)"

definition exec :: "driver \<Rightarrow> (database \<Rightarrow> store_error + database \<times> 'a) \<Rightarrow> 'a sprog" where
  "exec drv f = seqE (dbcall drv) (\<lambda>w. case f (db w) of
     Inl e \<Rightarrow> (Inl e, w) | Inr (d, n) \<Rightarrow> (Inr n, w\<lparr>db := d\<rparr>))"

definition query :: "driver \<Rightarrow> (row list \<Rightarrow> 'a) \<Rightarrow> 'a sprog" where
  "query drv q = seqE (dbcall drv) (gets (\<lambda>w. q (rows (db w))))"

definition queryRow :: "driver \<Rightarrow> (row \<Rightarrow> bool) \<Rightarrow> row sprog" where
  "queryRow drv P = bindE (query drv (filter P)) (\<lambda>rs. case rs of [] \<Rightarrow> throw ErrNoRows | r # _ \<Rightarrow> ret r)"

definition transaction :: "driver \<Rightarrow> 'a sprog \<Rightarrow> 'a sprog" where
  "transaction drv body = seqE (dbcall drv) (\<lambda>w.
     case bindE body (\<lambda>x. seqE (dbcall drv) (ret x)) w of
       (Inl e, w') \<Rightarrow> (Inl e, w'\<lparr>db := db w\<rparr>)
     | (Inr x, w') \<Rightarrow> (Inr x, w'))"

text \<open>\<open>affected == 0\<close> after an UPDATE.\<close>

definition expectRows :: "nat \<Rightarrow> unit sprog" where
  "expectRows n = guardE (n = 0) ErrNoRows"

definition byID :: "string \<Rightarrow> int \<Rightarrow> row \<Rightarrow> bool" where
  "byID q pid r \<longleftrightarrow> proxy_job_id r = pid \<and> (q = [] \<or> queue r = q)"

end
