(* ===== verification/Store_Ops.thy ===== *)
theory Store_Ops
  imports Store_Db
begin

text \<open>
  The operations of the registry, method by method. A method is a computation over the
  \<open>world\<close> (the database and the number of driver calls made so far); the variadic methods
  parse their arguments first, as the source does.
\<close>

subsection \<open>Rows and jobs\<close>

definition scanJob :: "row \<Rightarrow> Job" where
  "scanJob r = normalizeRoute
     \<lparr>ProxyJobID = proxy_job_id r,
      UpstreamJobID = (case upstream_job_id r of None \<Rightarrow> 0 | Some u \<Rightarrow> u),
      HasUpstreamJobID = (upstream_job_id r \<noteq> None),
      UpstreamJobURI = (case upstream_job_uri r of None \<Rightarrow> [] | Some u \<Rightarrow> u),
      HasUpstreamJobURI = (upstream_job_uri r \<noteq> None),
      Queue = queue r, QueueOwner = queue_owner r, RequestingUser = requesting_user r, JobName = job_name r,
      DocumentFormat = document_format r, UpstreamDocumentFormat = upstream_document_format r,
      RouteKind = route_kind r, RouteMapping = route_mapping r, RouteMediaName = route_media_name r,
      RouteMediaWidth = word_of_int (route_media_width r), RouteMediaHeight = word_of_int (route_media_height r),
      RouteMediaType = route_media_type r, RouteMediaSource = word_of_int (route_media_source r),
      RouteResolutionX = word_of_int (route_resolution_x r), RouteResolutionY = word_of_int (route_resolution_y r),
      RoutePrintQuality = word_of_int (route_print_quality r), RouteSides = route_sides r,
      RouteSheetBack = route_sheet_back r, Route = zeroRoute, State = state r,
      ObservedState = observed_state r, ObservedError = observed_error r, PayloadBytes = payload_bytes r,
      PageCount = page_count r, Copies = copies r, EstimatedImpressions = estimated_impressions r,
      DocumentCount = document_count r, LastDocument = (last_document r \<noteq> 0),
      CreatedAt = parseTime (Some (created_at r)), UpdatedAt = parseTime (Some (updated_at r)),
      TerminalAt = parseNullableTime (terminal_at r), ReconcileAt = parseNullableTime (reconcile_at r),
      LastReconcileAt = parseNullableTime (last_reconcile_at r),
      NextReconcileAt = parseNullableTime (next_reconcile_at r)\<rparr>"

text \<open>The values \<^verbatim>\<open>CreateJob\<close> binds to its INSERT statement.\<close>

definition rowOfJob :: "Job \<Rightarrow> row" where
  "rowOfJob job =
     \<lparr>proxy_job_id = 0, upstream_job_id = nullableUpstreamID job, upstream_job_uri = nullableUpstreamURI job,
      queue = Queue job, queue_owner = QueueOwner job, requesting_user = RequestingUser job,
      job_name = JobName job, document_format = DocumentFormat job,
      upstream_document_format = UpstreamDocumentFormat job, route_kind = RouteKind job,
      route_mapping = RouteMapping job, route_media_name = RouteMediaName job,
      route_media_width = uint (RouteMediaWidth job), route_media_height = uint (RouteMediaHeight job),
      route_media_type = RouteMediaType job, route_media_source = uint (RouteMediaSource job),
      route_resolution_x = uint (RouteResolutionX job), route_resolution_y = uint (RouteResolutionY job),
      route_print_quality = uint (RoutePrintQuality job), route_sides = RouteSides job,
      route_sheet_back = RouteSheetBack job, state = State job, observed_state = ObservedState job,
      observed_error = ObservedError job, payload_bytes = PayloadBytes job, page_count = PageCount job,
      copies = Copies job, estimated_impressions = EstimatedImpressions job,
      document_count = DocumentCount job, last_document = boolInt (LastDocument job),
      created_at = formatTime (CreatedAt job), updated_at = formatTime (UpdatedAt job),
      terminal_at = nullableTime (TerminalAt job), reconcile_at = nullableTime (ReconcileAt job),
      last_reconcile_at = nullableTime (LastReconcileAt job),
      next_reconcile_at = nullableTime (NextReconcileAt job)\<rparr>"

definition withDefaults :: "instant \<Rightarrow> Job \<Rightarrow> Job" where
  "withDefaults now job =
     (let job = job\<lparr>CreatedAt := orElse (CreatedAt job) now\<rparr>;
          job = job\<lparr>UpdatedAt := orElse (UpdatedAt job) now\<rparr>;
          job = job\<lparr>Copies := orElse (Copies job) 1\<rparr>;
          job = (if DocumentCount job = 0 \<and> PayloadBytes job > 0 then job\<lparr>DocumentCount := 1\<rparr> else job)
      in if IsTerminalState (State job) \<and> TerminalAt job = None
         then job\<lparr>TerminalAt := Some (UpdatedAt job)\<rparr> else job)"

definition CreateJob :: "driver \<Rightarrow> Job \<Rightarrow> int sprog" where
  "CreateJob drv job = bindE (timeNow drv) (\<lambda>now.
     exec drv (sql_insert (rowOfJob (withDefaults now (normalizeRoute job)))))"

definition reservation :: "Job \<Rightarrow> Job" where
  "reservation job = job\<lparr>UpstreamJobID := 0, HasUpstreamJobID := False, UpstreamJobURI := [],
     HasUpstreamJobURI := False, State := StateReserved, ObservedState := [], ObservedError := [],
     PayloadBytes := 0, PageCount := None, EstimatedImpressions := None, DocumentCount := 0,
     LastDocument := False\<rparr>"

definition Reserve :: "driver \<Rightarrow> any list \<Rightarrow> int sprog" where
  "Reserve drv args = bindE (liftE (parseReservationArgs args)) (\<lambda>job. CreateJob drv (reservation job))"

definition ReserveJob :: "driver \<Rightarrow> any list \<Rightarrow> int sprog" where
  "ReserveJob drv args = Reserve drv args"

subsection \<open>Lookup\<close>

definition GetByProxyID :: "driver \<Rightarrow> any list \<Rightarrow> Job sprog" where
  "GetByProxyID drv args = bindE (liftE (parseScopedID args)) (\<lambda>(q, pid).
     bindE (queryRow drv (byID q pid)) (\<lambda>r. ret (scanJob r)))"

definition GetJob :: "driver \<Rightarrow> any list \<Rightarrow> Job sprog" where
  "GetJob drv args = GetByProxyID drv args"

definition Lookup :: "driver \<Rightarrow> any list \<Rightarrow> Job sprog" where
  "Lookup drv args = GetByProxyID drv args"

definition GetByUpstreamID :: "driver \<Rightarrow> any list \<Rightarrow> Job sprog" where
  "GetByUpstreamID drv args = bindE (liftE (parseScopedID args)) (\<lambda>(q, uid).
     bindE (queryRow drv (\<lambda>r. upstream_job_id r = Some uid \<and> (q = [] \<or> queue r = q))) (\<lambda>r. ret (scanJob r)))"

definition GetByUpstreamURI :: "driver \<Rightarrow> any list \<Rightarrow> Job sprog" where
  "GetByUpstreamURI drv args = bindE (liftE (parseScopedString args)) (\<lambda>(q, uri).
     bindE (queryRow drv (\<lambda>r. upstream_job_uri r = Some uri \<and> (q = [] \<or> queue r = q))) (\<lambda>r. ret (scanJob r)))"

definition SelectedRoute :: "driver \<Rightarrow> string \<Rightarrow> int \<Rightarrow> DocumentRoute sprog" where
  "SelectedRoute drv q pid =
     bindE (GetByProxyID drv [AString q, AInt pid]) (\<lambda>job. ret (routeFromJob job))"

subsection \<open>Transitions\<close>

text \<open>A row that is not terminal, or the error of the lifecycle guard.\<close>

definition activeRow :: "driver \<Rightarrow> string \<Rightarrow> int \<Rightarrow> row sprog" where
  "activeRow drv q pid = bindE (queryRow drv (byID q pid)) (\<lambda>r.
     seqE (guardE (IsTerminalState (state r)) ErrInvalidTransition) (ret r))"

definition setRoute :: "DocumentRoute \<Rightarrow> string \<Rightarrow> row \<Rightarrow> row" where
  "setRoute route now r = r\<lparr>
     document_format := (if rClientDocumentFormat route \<noteq> [] then rClientDocumentFormat route else document_format r),
     upstream_document_format := rUpstreamDocumentFormat route, route_kind := rKind route,
     route_mapping := rMapping route, route_media_name := rMediaName route,
     route_media_width := uint (rMediaWidth route), route_media_height := uint (rMediaHeight route),
     route_media_type := rMediaType route, route_media_source := uint (rMediaSource route),
     route_resolution_x := uint (rResolutionX route), route_resolution_y := uint (rResolutionY route),
     route_print_quality := uint (rPrintQuality route), route_sides := rSides route,
     route_sheet_back := rSheetBack route, updated_at := now\<rparr>"

definition UpdateRoute :: "driver \<Rightarrow> string \<Rightarrow> int \<Rightarrow> DocumentRoute \<Rightarrow> unit sprog" where
  "UpdateRoute drv q pid route0 =
     (let route = routeFromJob (normalizeRoute
            (zeroJob\<lparr>DocumentFormat := rClientDocumentFormat route0, Route := route0\<rparr>)) in
      transaction drv (seqE (activeRow drv q pid)
        (bindE (timeNow drv) (\<lambda>now.
         bindE (exec drv (sql_update (byID q pid) (setRoute route (formatTime now)))) expectRows))))"

definition duplicateMapping :: "driver \<Rightarrow> int \<Rightarrow> int \<Rightarrow> unit sprog" where
  "duplicateMapping drv pid uid =
     bindE (query drv (\<lambda>rs. filter (\<lambda>r. upstream_job_id r = Some uid \<and> proxy_job_id r \<noteq> pid
         \<and> (\<exists>own \<in> set (take 1 (filter (\<lambda>x. proxy_job_id x = pid) rs)). queue r = queue own)) rs))
       (\<lambda>rs. guardE (rs \<noteq> []) ErrMappingConflict)"

definition setMapped :: "int \<Rightarrow> string \<Rightarrow> string \<Rightarrow> row \<Rightarrow> row" where
  "setMapped uid uri now r = r\<lparr>upstream_job_id := nullableIntValue uid,
     upstream_job_uri := nullableStringValue uri, state := StateMapped, observed_error := [],
     updated_at := now, reconcile_at := None, next_reconcile_at := None\<rparr>"

text \<open>An error of the UPDATE that is a violation of the index is reported as a conflict.\<close>

definition onUnique :: "'a sprog \<Rightarrow> 'a sprog" where
  "onUnique m w = (case m w of
     (Inl e, w') \<Rightarrow> (Inl (if isUniqueViolation e then ErrMappingConflict else e), w')
   | (Inr x, w') \<Rightarrow> (Inr x, w'))"

definition markMapped :: "driver \<Rightarrow> string \<Rightarrow> int \<Rightarrow> int \<Rightarrow> string \<Rightarrow> unit sprog" where
  "markMapped drv q pid uid uri =
     transaction drv (bindE (activeRow drv q pid) (\<lambda>r.
       seqE (guardE (uid \<noteq> 0 \<and> (\<exists>c \<in> set_option (upstream_job_id r). c \<noteq> uid)) ErrMappingConflict)
      (seqE (guardE (uri \<noteq> [] \<and> (\<exists>c \<in> set_option (upstream_job_uri r). c \<noteq> uri)) ErrMappingConflict)
      (seqE (if uid \<noteq> 0 then duplicateMapping drv pid uid else ret ())
      (bindE (timeNow drv) (\<lambda>now.
       bindE (onUnique (exec drv (sql_update (byID q pid) (setMapped uid uri (formatTime now))))) expectRows))))))"

definition MarkMapped :: "driver \<Rightarrow> any list \<Rightarrow> unit sprog" where
  "MarkMapped drv args = bindE (liftE (parseMappingArgs args)) (\<lambda>(q, pid, uid, uri). markMapped drv q pid uid uri)"

definition MarkMappedNullable :: "driver \<Rightarrow> int \<Rightarrow> int option \<Rightarrow> string option \<Rightarrow> unit sprog" where
  "MarkMappedNullable drv pid uid uri =
     markMapped drv [] pid (case uid of None \<Rightarrow> 0 | Some i \<Rightarrow> i) (case uri of None \<Rightarrow> [] | Some u \<Rightarrow> u)"

definition setUncertain :: "string \<Rightarrow> string \<Rightarrow> row \<Rightarrow> row" where
  "setUncertain reason at r = r\<lparr>state := StateUncertain, observed_error := reason, updated_at := at,
     reconcile_at := Some at, next_reconcile_at := Some at\<rparr>"

text \<open>A time argument, or the clock where it is the zero time.\<close>

definition orNow :: "driver \<Rightarrow> instant \<Rightarrow> instant sprog" where
  "orNow drv at = (if at = 0 then timeNow drv else ret at)"

definition MarkUncertain :: "driver \<Rightarrow> any list \<Rightarrow> unit sprog" where
  "MarkUncertain drv args = bindE (liftE (parseUncertainArgs args)) (\<lambda>(q, pid, reason, at0).
     bindE (orNow drv at0) (\<lambda>at.
       transaction drv (seqE (activeRow drv q pid)
         (bindE (exec drv (sql_update (byID q pid) (setUncertain reason (formatTime at)))) expectRows))))"

definition setTerminal :: "string \<Rightarrow> string \<Rightarrow> string \<Rightarrow> row \<Rightarrow> row" where
  "setTerminal obs err at r = r\<lparr>state := StateTerminal, observed_state := obs, observed_error := err,
     terminal_at := (case terminal_at r of None \<Rightarrow> Some at | Some v \<Rightarrow> Some v), updated_at := at,
     reconcile_at := None, next_reconcile_at := None\<rparr>"

definition markTerminalParsed :: "driver \<Rightarrow> any list \<Rightarrow> unit sprog" where
  "markTerminalParsed drv args = bindE (liftE (parseTerminalArgs args)) (\<lambda>(q, pid, st, obs0, err, at0).
     let obs = (if obs0 = [] \<and> st \<noteq> [] \<and> st \<noteq> StateTerminal then st else obs0) in
     bindE (orNow drv at0) (\<lambda>at.
     bindE (exec drv (sql_update (byID q pid) (setTerminal obs err (formatTime at)))) expectRows))"

definition MarkTerminal :: "driver \<Rightarrow> any list \<Rightarrow> unit sprog" where
  "MarkTerminal drv args = markTerminalParsed drv args"

definition MarkTerminalAt :: "driver \<Rightarrow> any list \<Rightarrow> unit sprog" where
  "MarkTerminalAt drv args = markTerminalParsed drv args"

text \<open>The row an UPDATE restricted to non-terminal rows may change.\<close>

definition activeByID :: "string \<Rightarrow> int \<Rightarrow> row \<Rightarrow> bool" where
  "activeByID q pid r \<longleftrightarrow> byID q pid r \<and> terminal_at r = None \<and> \<not> sql_terminal (state r)"

text \<open>Why such an UPDATE changed nothing.\<close>

definition explainUnchanged :: "driver \<Rightarrow> (row \<Rightarrow> bool) \<Rightarrow> nat \<Rightarrow> unit sprog" where
  "explainUnchanged drv P n =
     (if n = 0 then bindE (queryRow drv P) (\<lambda>r.
        if terminal_at r \<noteq> None \<or> IsTerminalState (state r) then throw ErrInvalidTransition else throw ErrNoRows)
      else ret ())"

definition UpdateObserved :: "driver \<Rightarrow> any list \<Rightarrow> unit sprog" where
  "UpdateObserved drv args = bindE (liftE (parseObservedArgs args)) (\<lambda>(q, pid, obs, err, at0).
     if IsTerminalState obs then
       markTerminalParsed drv ((if q \<noteq> [] then [AString q] else [])
         @ [AInt pid, AString obs, AString obs, AString err] @ (if at0 \<noteq> 0 then [ATime at0] else []))
     else
       bindE (orNow drv at0) (\<lambda>at.
       bindE (exec drv (sql_update (activeByID q pid)
           (\<lambda>r. r\<lparr>observed_state := obs, observed_error := err, updated_at := formatTime at\<rparr>)))
         (explainUnchanged drv (byID q pid))))"

text \<open>Unlike the variadic methods, \<^verbatim>\<open>UpdateState\<close> always restricts to its queue.\<close>

definition inQueue :: "string \<Rightarrow> int \<Rightarrow> row \<Rightarrow> bool" where
  "inQueue q pid r \<longleftrightarrow> queue r = q \<and> proxy_job_id r = pid"

definition setDirectTerminal :: "string \<Rightarrow> string \<Rightarrow> row \<Rightarrow> row" where
  "setDirectTerminal st at r = r\<lparr>state := st,
     observed_state := (if st = [] then observed_state r else st),
     terminal_at := (case terminal_at r of None \<Rightarrow> Some at | Some v \<Rightarrow> Some v), updated_at := at,
     reconcile_at := None, next_reconcile_at := None\<rparr>"

definition UpdateState :: "driver \<Rightarrow> string \<Rightarrow> int \<Rightarrow> string \<Rightarrow> unit sprog" where
  "UpdateState drv q pid st = bindE (timeNow drv) (\<lambda>now.
     if IsTerminalState st then
       bindE (exec drv (sql_update (inQueue q pid) (setDirectTerminal st (formatTime now)))) expectRows
     else
       bindE (exec drv (sql_update (\<lambda>r. inQueue q pid r \<and> terminal_at r = None \<and> \<not> sql_terminal (state r))
           (\<lambda>r. r\<lparr>state := st, updated_at := formatTime now\<rparr>)))
         (explainUnchanged drv (inQueue q pid)))"

definition addOptional :: "int option \<Rightarrow> int option \<Rightarrow> int option" where
  "addOptional new old = (case new of
     None \<Rightarrow> old | Some n \<Rightarrow> (case old of None \<Rightarrow> Some n | Some v \<Rightarrow> Some (v + n)))"

definition addDocument ::
  "string \<Rightarrow> int \<Rightarrow> int option \<Rightarrow> int \<Rightarrow> int option \<Rightarrow> bool \<Rightarrow> string \<Rightarrow> row \<Rightarrow> row" where
  "addDocument format bytes pgs cps impressions lst now r = r\<lparr>
     document_format := (if format = [] then document_format r else format),
     payload_bytes := payload_bytes r + bytes,
     page_count := addOptional pgs (page_count r),
     copies := cps,
     estimated_impressions := addOptional impressions (estimated_impressions r),
     document_count := document_count r + (if bytes > 0 then 1 else 0),
     last_document := (if boolInt lst \<noteq> 0 then 1 else last_document r),
     updated_at := now\<rparr>"

definition UpdateDocument :: "driver \<Rightarrow> any list \<Rightarrow> unit sprog" where
  "UpdateDocument drv args =
     bindE (liftE (parseDocumentArgs args)) (\<lambda>(q, pid, format, bytes, pgs, cps0, impressions, lst).
     bindE (timeNow drv) (\<lambda>now.
     bindE (exec drv (sql_update (byID q pid)
         (addDocument format bytes pgs (orElse cps0 1) impressions lst (formatTime now)))) expectRows))"

definition UpdatePayloadMetadataWithLastDocument ::
  "driver \<Rightarrow> string \<Rightarrow> int \<Rightarrow> string \<Rightarrow> int \<Rightarrow> int option \<Rightarrow> int \<Rightarrow> int option \<Rightarrow> bool \<Rightarrow> unit sprog" where
  "UpdatePayloadMetadataWithLastDocument drv q pid format bytes pgs cps impressions lst =
     UpdateDocument drv [AString q, AInt pid, AString format, AInt64 bytes, AIntPtr pgs, AInt cps,
       AIntPtr impressions, ABool lst]"

definition UpdatePayloadMetadata ::
  "driver \<Rightarrow> string \<Rightarrow> int \<Rightarrow> string \<Rightarrow> int \<Rightarrow> int option \<Rightarrow> int \<Rightarrow> int option \<Rightarrow> unit sprog" where
  "UpdatePayloadMetadata drv q pid format bytes pgs cps impressions =
     UpdateDocument drv [AString q, AInt pid, AString format, AInt64 bytes, AIntPtr pgs, AInt cps,
       AIntPtr impressions, ABool False]"

subsection \<open>Listing\<close>

definition listed :: "JobFilter \<Rightarrow> row \<Rightarrow> bool" where
  "listed f r \<longleftrightarrow>
     (let user = orText (orText (fRequestingUser f) (fUser f)) (fRequestingUserName f) in
      (fQueue f = [] \<or> queue r = fQueue f)
      \<and> (fQueueOwner f = [] \<or> queue_owner r = fQueueOwner f)
      \<and> (user = [] \<or> requesting_user r = user)
      \<and> (fState f = [] \<or> state r = fState f)
      \<and> (fStates f = [] \<or> state r \<in> set (fStates f))
      \<and> (fObservedState f = [] \<or> observed_state r = fObservedState f)
      \<and> (fProxyJobID f = 0 \<or> proxy_job_id r = fProxyJobID f)
      \<and> (fUpstreamJobID f = 0 \<or> upstream_job_id r = Some (fUpstreamJobID f))
      \<and> (fCreatedAfter f = 0 \<or> created_at r > formatTime (fCreatedAfter f))
      \<and> (fCreatedBefore f = 0 \<or> created_at r < formatTime (fCreatedBefore f))
      \<and> (fUpdatedAfter f = 0 \<or> updated_at r > formatTime (fUpdatedAfter f))
      \<and> (fUpdatedBefore f = 0 \<or> updated_at r < formatTime (fUpdatedBefore f))
      \<and> (fTerminalBefore f = 0 \<or>
           (case terminal_at r of None \<Rightarrow> False | Some v \<Rightarrow> v < formatTime (fTerminalBefore f)))
      \<and> (fTerminalAfter f = 0 \<or>
           (case terminal_at r of None \<Rightarrow> False | Some v \<Rightarrow> v > formatTime (fTerminalAfter f)))
      \<and> (fExcludeTerminal f \<longrightarrow> terminal_at r = None))"

text \<open>LIMIT and OFFSET.\<close>

definition window :: "int \<Rightarrow> int \<Rightarrow> 'a list \<Rightarrow> 'a list" where
  "window lim off xs =
     (let ys = (if off > 0 then drop (nat off) xs else xs) in if lim > 0 then take (nat lim) ys else ys)"

definition listRows :: "JobFilter \<Rightarrow> row list \<Rightarrow> row list" where
  "listRows f rs = window (fLimit f) (fOffset f)
     (sort_key (\<lambda>r. (created_at r, proxy_job_id r)) (filter (listed f) rs))"

definition ListJobs :: "driver \<Rightarrow> any list \<Rightarrow> Job list sprog" where
  "ListJobs drv args = bindE (liftE (parseJobFilterArgs args)) (\<lambda>f.
     seqE (guardE (fIncludeTerminal f \<and> fExcludeTerminal f) ErrInvalidArgument)
       (bindE (query drv (listRows f)) (\<lambda>rs. ret (map scanJob rs))))"

definition GetJobs :: "driver \<Rightarrow> any list \<Rightarrow> Job list sprog" where
  "GetJobs drv args = bindE (liftE (parseJobFilterArgs args)) (\<lambda>f. ListJobs drv [AFilter f])"

definition MyJobs :: "driver \<Rightarrow> string \<Rightarrow> string \<Rightarrow> Job list sprog" where
  "MyJobs drv q user = ListJobs drv [AFilter (noFilter\<lparr>fQueue := q, fRequestingUser := user\<rparr>)]"

definition GetMyJobs :: "driver \<Rightarrow> string \<Rightarrow> string \<Rightarrow> Job list sprog" where
  "GetMyJobs drv q user = MyJobs drv q user"

definition ListMyJobs :: "driver \<Rightarrow> string \<Rightarrow> string \<Rightarrow> Job list sprog" where
  "ListMyJobs drv q user = MyJobs drv q user"

text \<open>GROUP BY queue, state, in the order of the groups.\<close>

definition groups :: "row list \<Rightarrow> ((string \<times> string) \<times> nat) list" where
  "groups rs = map (\<lambda>k. (k, length (filter (\<lambda>r. (queue r, state r) = k) rs)))
     (sort (remdups (map (\<lambda>r. (queue r, state r)) rs)))"

definition bump :: "string \<Rightarrow> int \<Rightarrow> (string \<rightharpoonup> int) \<Rightarrow> (string \<rightharpoonup> int)" where
  "bump k n m = m(k \<mapsto> (case m k of None \<Rightarrow> 0 | Some v \<Rightarrow> v) + n)"

definition addGroup :: "JobSummary \<Rightarrow> (string \<times> string) \<times> nat \<Rightarrow> JobSummary" where
  "addGroup s g = (case g of ((q, st), n) \<Rightarrow>
     \<lparr>Total = Total s + int n, ByQueue = bump q (int n) (ByQueue s), ByState = bump st (int n) (ByState s)\<rparr>)"

definition SummarizeJobs :: "driver \<Rightarrow> bool \<Rightarrow> JobSummary sprog" where
  "SummarizeJobs drv nilStore = seqE (guardE nilStore ErrUnavailable)
     (bindE (query drv groups) (\<lambda>gs.
        ret (foldl addGroup \<lparr>Total = 0, ByQueue = Map.empty, ByState = Map.empty\<rparr> gs)))"

subsection \<open>Reconciliation\<close>

definition due :: "string \<Rightarrow> instant \<Rightarrow> row \<Rightarrow> bool" where
  "due q at r \<longleftrightarrow> state r = StateUncertain
     \<and> (case next_reconcile_at r of None \<Rightarrow> True | Some v \<Rightarrow> v \<le> formatTime at)
     \<and> (q = [] \<or> queue r = q)"

definition dueKey :: "row \<Rightarrow> string \<times> int" where
  "dueKey r = ((case next_reconcile_at r of Some v \<Rightarrow> v
     | None \<Rightarrow> (case reconcile_at r of Some v \<Rightarrow> v | None \<Rightarrow> updated_at r)), proxy_job_id r)"

definition candidateRows :: "string \<Rightarrow> instant \<Rightarrow> int \<Rightarrow> row list \<Rightarrow> row list" where
  "candidateRows q at lim rs = window lim 0 (sort_key dueKey (filter (due q at) rs))"

definition ReconciliationCandidates :: "driver \<Rightarrow> any list \<Rightarrow> Job list sprog" where
  "ReconciliationCandidates drv args = bindE (timeNow drv) (\<lambda>now.
     bindE (liftE (parseReconcileArgs now args)) (\<lambda>(q, at, lim).
     bindE (query drv (candidateRows q at lim)) (\<lambda>rs. ret (map scanJob rs))))"

definition ListReconciliationCandidates :: "driver \<Rightarrow> any list \<Rightarrow> Job list sprog" where
  "ListReconciliationCandidates drv args = ReconciliationCandidates drv args"

definition setAttempt :: "string \<Rightarrow> string \<Rightarrow> row \<Rightarrow> row" where
  "setAttempt at nxt r = r\<lparr>reconcile_at := Some at, last_reconcile_at := Some at,
     next_reconcile_at := Some nxt, updated_at := at\<rparr>"

definition MarkReconcileAttempt :: "driver \<Rightarrow> any list \<Rightarrow> unit sprog" where
  "MarkReconcileAttempt drv args = bindE (liftE (parseIDTimeArgs args)) (\<lambda>(pid, at0).
     bindE (orNow drv at0) (\<lambda>at.
     transaction drv (bindE (queryRow drv (byID [] pid)) (\<lambda>r.
       let nxt = at + reconciliationBackoff (parseTime (reconcile_at r)) (parseTime (next_reconcile_at r)) in
       bindE (exec drv (sql_update (\<lambda>r. byID [] pid r \<and> state r = StateUncertain \<and> terminal_at r = None)
           (setAttempt (formatTime at) (formatTime nxt)))) (\<lambda>n.
       if n = 0 then bindE (queryRow drv (byID [] pid)) (\<lambda>r.
         if terminal_at r \<noteq> None \<or> IsTerminalState (state r) \<or> state r \<noteq> StateUncertain
         then throw ErrInvalidTransition else throw ErrNoRows)
       else ret ())))))"

definition MarkReconciled :: "driver \<Rightarrow> any list \<Rightarrow> unit sprog" where
  "MarkReconciled drv args = bindE (liftE (parseIDTimeArgs args)) (\<lambda>(pid, at0).
     bindE (orNow drv at0) (\<lambda>at.
     bindE (exec drv (sql_update (byID [] pid) (\<lambda>r. r\<lparr>last_reconcile_at := Some (formatTime at),
         reconcile_at := None, next_reconcile_at := None, updated_at := formatTime at\<rparr>))) expectRows))"

definition ScheduleReconciliation :: "driver \<Rightarrow> any list \<Rightarrow> unit sprog" where
  "ScheduleReconciliation drv args = bindE (liftE (parseIDTimeArgs args)) (\<lambda>(pid, at).
     seqE (guardE (at = 0) ErrInvalidArgument)
    (bindE (timeNow drv) (\<lambda>now.
     bindE (exec drv (sql_update (byID [] pid) (\<lambda>r. r\<lparr>reconcile_at := Some (formatTime at),
         next_reconcile_at := Some (formatTime at), updated_at := formatTime now\<rparr>))) expectRows)))"

subsection \<open>Retention and identity\<close>

definition expired :: "string \<Rightarrow> row \<Rightarrow> bool" where
  "expired cutoff r \<longleftrightarrow> state r \<in> set terminalStates
     \<and> (case terminal_at r of Some v \<Rightarrow> v | None \<Rightarrow> updated_at r) < cutoff"

definition CleanupTerminalBefore :: "driver \<Rightarrow> any \<Rightarrow> nat sprog" where
  "CleanupTerminalBefore drv cutoff = bindE (timeNow drv) (\<lambda>now.
     bindE (liftE (parseCleanupCutoff now cutoff)) (\<lambda>c. exec drv (sql_delete (expired (formatTime c)))))"

definition Cleanup :: "driver \<Rightarrow> any \<Rightarrow> nat sprog" where
  "Cleanup drv cutoff = CleanupTerminalBefore drv cutoff"

definition CleanupExpired :: "driver \<Rightarrow> instant \<Rightarrow> int \<Rightarrow> nat sprog" where
  "CleanupExpired drv now0 retention0 = bindE (orNow drv now0) (\<lambda>now.
     CleanupTerminalBefore drv (ATime (now - (if retention0 \<le> 0 then DefaultRetention else retention0))))"

definition InstanceID :: "driver \<Rightarrow> string sprog" where
  "InstanceID drv = transaction drv
     (seqE (dbcall drv)
     (seqE (\<lambda>w. exec drv (\<lambda>d. Inr (d\<lparr>instance_id :=
          (case instance_id d of None \<Rightarrow> Some (uuid drv (tick w)) | Some i \<Rightarrow> Some i)\<rparr>, ())) w)
     (seqE (dbcall drv) (\<lambda>w. (case instance_id (db w) of
        None \<Rightarrow> (Inl ErrNoRows, w) | Some i \<Rightarrow> (Inr i, w))))))"

end
