(* ===== verification/Store_Inv.thy ===== *)
theory Store_Inv
  imports Store_Ops
begin

text \<open>
  The invariant of the job table and the permitted evolution of its rows, shown for every
  operation. \<open>effects\<close> is the judgement the proofs use: from a database that satisfies a
  precondition, the computation takes a permitted step, and its result satisfies a
  postcondition. The second half shows that an operation that reports an error has not
  changed the table.
\<close>

subsection \<open>The invariant and the permitted steps\<close>

definition term_ok :: "row \<Rightarrow> bool" where
  "term_ok r \<longleftrightarrow> (IsTerminalState (state r) \<longrightarrow> terminal_at r \<noteq> None)"

definition db_ok :: "database \<Rightarrow> bool" where
  "db_ok d \<longleftrightarrow> sorted_wrt (<) (map proxy_job_id (rows d))
     \<and> (\<forall>r \<in> set (rows d). 0 < proxy_job_id r \<and> proxy_job_id r \<le> seq d)
     \<and> 0 \<le> seq d \<and> index_ok (rows d) \<and> (\<forall>r \<in> set (rows d). term_ok r)"

definition row_step :: "row \<Rightarrow> row \<Rightarrow> bool" where
  "row_step r r' \<longleftrightarrow>
     proxy_job_id r' = proxy_job_id r \<and> queue r' = queue r \<and> queue_owner r' = queue_owner r
     \<and> requesting_user r' = requesting_user r \<and> job_name r' = job_name r \<and> created_at r' = created_at r
     \<and> (IsTerminalState (state r) \<longrightarrow> IsTerminalState (state r'))
     \<and> (terminal_at r \<noteq> None \<longrightarrow> terminal_at r' = terminal_at r)
     \<and> (term_ok r \<longrightarrow> term_ok r')"

text \<open>Rows persist through permitted steps, are removed, or are new with a larger identifier.\<close>

definition evolves :: "database \<Rightarrow> database \<Rightarrow> bool" where
  "evolves d d' \<longleftrightarrow> seq d \<le> seq d'
     \<and> (\<forall>r' \<in> set (rows d'). (\<exists>r \<in> set (rows d). row_step r r') \<or> seq d < proxy_job_id r')
     \<and> (\<forall>i. instance_id d = Some i \<longrightarrow> instance_id d' = Some i)"

definition good_step :: "database \<Rightarrow> database \<Rightarrow> bool" where
  "good_step d d' \<longleftrightarrow> (db_ok d \<longrightarrow> db_ok d' \<and> evolves d d')"

lemma row_step_refl [simp]: "row_step r r"
  by (simp add: row_step_def)

lemma row_step_trans: "row_step r r' \<Longrightarrow> row_step r' r'' \<Longrightarrow> row_step r r''"
  by (auto simp: row_step_def)

lemma row_kept: "r \<in> set rs \<Longrightarrow> \<exists>r' \<in> set rs. row_step r' r"
  by (rule bexI [of _ r]) simp_all

lemma evolves_refl [simp]: "evolves d d"
  by (auto simp: evolves_def row_kept)

lemma evolves_trans:
  assumes "evolves d d'" "evolves d' d''"
  shows "evolves d d''"
  unfolding evolves_def
proof (intro conjI ballI)
  show "seq d \<le> seq d''" "\<forall>i. instance_id d = Some i \<longrightarrow> instance_id d'' = Some i"
    using assms by (auto simp: evolves_def)
  fix r'' assume "r'' \<in> set (rows d'')"
  with assms(2) consider r' where "r' \<in> set (rows d')" "row_step r' r''" | "seq d' < proxy_job_id r''"
    by (auto simp: evolves_def)
  then show "(\<exists>r \<in> set (rows d). row_step r r'') \<or> seq d < proxy_job_id r''"
  proof cases
    case 1
    with assms(1) consider r where "r \<in> set (rows d)" "row_step r r'" | "seq d < proxy_job_id r'"
      by (auto simp: evolves_def)
    then show ?thesis using 1(2) by cases (auto intro: row_step_trans simp: row_step_def)
  next
    case 2
    then show ?thesis using assms(1) by (auto simp: evolves_def)
  qed
qed

lemma good_step_refl [simp]: "good_step d d"
  by (simp add: good_step_def)

lemma good_step_trans: "good_step d d' \<Longrightarrow> good_step d' d'' \<Longrightarrow> good_step d d''"
  by (auto simp: good_step_def intro: evolves_trans)

lemma ids_unique:
  assumes "db_ok d" "r \<in> set (rows d)" "r' \<in> set (rows d)" "proxy_job_id r = proxy_job_id r'"
  shows "r = r'"
proof -
  have "distinct (map proxy_job_id (rows d))"
    using assms(1) strict_sorted_iff by (auto simp: db_ok_def)
  then show ?thesis using assms(2-4) by (auto simp: distinct_map dest: inj_onD)
qed

subsection \<open>Statements\<close>

lemma sql_update_Inr:
  assumes "sql_update P f d = Inr (d', n)"
  shows "rows d' = map (\<lambda>r. if P r then f r else r) (rows d)" "n = length (filter P (rows d))"
    "seq d' = seq d" "instance_id d' = instance_id d"
  using assms by (auto simp: sql_update_def Let_def split: if_splits)

lemma sql_update_good:
  assumes "sql_update P f d = Inr (d', n)"
    and "\<And>r. db_ok d \<Longrightarrow> r \<in> set (rows d) \<Longrightarrow> P r \<Longrightarrow> row_step r (f r)"
  shows "good_step d d'"
  unfolding good_step_def
proof (intro impI conjI)
  assume ok: "db_ok d"
  have d': "d' = d\<lparr>rows := map (\<lambda>r. if P r then f r else r) (rows d)\<rparr>"
    and idx: "index_ok (map (\<lambda>r. if P r then f r else r) (rows d))"
    using assms(1) by (auto simp: sql_update_def Let_def split: if_splits)
  have ids: "map proxy_job_id (rows d') = map proxy_job_id (rows d)"
    using assms(2) [OF ok] by (auto simp: d' row_step_def)
  have step: "row_step r (if P r then f r else r)" if "r \<in> set (rows d)" for r
    using assms(2) [OF ok that] by simp
  have "\<exists>r \<in> set (rows d). row_step r r'" if "r' \<in> set (rows d')" for r'
  proof -
    from that obtain r where "r \<in> set (rows d)" "r' = (if P r then f r else r)" by (auto simp: d')
    then show ?thesis using step by blast
  qed
  then show "evolves d d'"
    unfolding evolves_def by (simp add: d')
  show "db_ok d'"
    unfolding db_ok_def ids
  proof (intro conjI ballI)
    show "index_ok (rows d')" using idx by (simp add: d')
    show "sorted_wrt (<) (map proxy_job_id (rows d))" "0 \<le> seq d'" using ok by (simp_all add: db_ok_def d')
    fix r' assume "r' \<in> set (rows d')"
    then obtain r where "r \<in> set (rows d)" "r' = (if P r then f r else r)" by (auto simp: d')
    then have r: "r \<in> set (rows d)" "row_step r r'" using step by blast+
    with ok show "0 < proxy_job_id r'" "proxy_job_id r' \<le> seq d'" "term_ok r'"
      by (auto simp: db_ok_def row_step_def d')
  qed
qed

lemma sql_insert_good:
  assumes "sql_insert r d = Inr (d', n)" "term_ok (r\<lparr>proxy_job_id := seq d + 1\<rparr>)"
  shows "good_step d d'" "n = seq d + 1" "rows d' = rows d @ [r\<lparr>proxy_job_id := n\<rparr>]" "seq d' = n"
proof -
  have d': "d' = d\<lparr>rows := rows d @ [r\<lparr>proxy_job_id := seq d + 1\<rparr>], seq := seq d + 1\<rparr>" "n = seq d + 1"
    and idx: "index_ok (rows d')"
    using assms(1) by (auto simp: sql_insert_def Let_def split: if_splits)
  then show "n = seq d + 1" "rows d' = rows d @ [r\<lparr>proxy_job_id := n\<rparr>]" "seq d' = n" by auto
  have "db_ok d'" if "db_ok d"
    using that idx assms(2) by (force simp: db_ok_def d'(1) sorted_wrt_append)
  moreover have "evolves d d'" by (auto simp: evolves_def d'(1) row_kept)
  ultimately show "good_step d d'" by (simp add: good_step_def)
qed

lemma index_ok_filter: "index_ok rs \<Longrightarrow> index_ok (filter P rs)"
  unfolding index_ok_def mapping_keys_def
  by (induction rs) (auto simp: List.map_filter_def split: if_splits)

lemma index_ok_unique:
  assumes "index_ok rs" "r \<in> set rs" "r' \<in> set rs" "queue r = queue r'"
    and "upstream_job_id r = Some u" "upstream_job_id r' = Some u"
  shows "r = r'"
proof -
  have "inj_on (\<lambda>r. the (map_option (\<lambda>u. (queue r, u)) (upstream_job_id r)))
      (set (filter (\<lambda>r. map_option (\<lambda>u. (queue r, u)) (upstream_job_id r) \<noteq> None) rs))"
    using assms(1) unfolding index_ok_def mapping_keys_def List.map_filter_def comp_def distinct_map by simp
  then show ?thesis by (rule inj_onD) (use assms in auto)
qed

lemma sql_delete_good:
  assumes "sql_delete P d = Inr (d', n)"
  shows "good_step d d'"
proof -
  have d': "d' = d\<lparr>rows := filter (\<lambda>r. \<not> P r) (rows d)\<rparr>"
    using assms by (simp add: sql_delete_def)
  have "sorted_wrt (<) (map proxy_job_id (rows d)) \<Longrightarrow> sorted_wrt (<) (map proxy_job_id (rows d'))"
    unfolding d' by (simp add: sorted_wrt_map sorted_wrt_filter)
  then show ?thesis
    by (auto simp: good_step_def db_ok_def evolves_def d' index_ok_filter row_kept)
qed

subsection \<open>Computations\<close>

named_theorems effect_rules "rules for the effect of registry computations"

definition effects :: "(database \<Rightarrow> bool) \<Rightarrow> 'a sprog \<Rightarrow> ('a \<Rightarrow> database \<Rightarrow> bool) \<Rightarrow> bool" where
  "effects P m Q \<longleftrightarrow> (\<forall>w r w'. P (db w) \<longrightarrow> m w = (r, w') \<longrightarrow>
     good_step (db w) (db w') \<and> (\<forall>x. r = Inr x \<longrightarrow> Q x (db w')))"

definition readonly :: "'a sprog \<Rightarrow> bool" where
  "readonly m \<longleftrightarrow> (\<forall>w. db (snd (m w)) = db w)"

lemma readonlyD: "readonly m \<Longrightarrow> m w = (r, w') \<Longrightarrow> db w' = db w"
  unfolding readonly_def by (metis prod.sel(2))

lemma effects_step: "effects P m Q \<Longrightarrow> P (db w) \<Longrightarrow> good_step (db w) (db (snd (m w)))"
  unfolding effects_def by (metis prod.collapse)

lemma effects_bindE [effect_rules]:
  assumes "effects P m R" "\<And>x. effects (R x) (k x) Q"
  shows "effects P (bindE m k) Q"
  unfolding effects_def
proof (intro allI impI)
  fix w r w' assume P: "P (db w)" and run: "bindE m k w = (r, w')"
  obtain r1 w1 where m: "m w = (r1, w1)" by fastforce
  with assms(1) P have g: "good_step (db w) (db w1)" "\<forall>x. r1 = Inr x \<longrightarrow> R x (db w1)"
    by (auto simp: effects_def)
  show "good_step (db w) (db w') \<and> (\<forall>x. r = Inr x \<longrightarrow> Q x (db w'))"
  proof (cases r1)
    case (Inl e)
    with m run g show ?thesis by auto
  next
    case (Inr x)
    with m run have "k x w1 = (r, w')" by simp
    with assms(2) [of x] g Inr have "good_step (db w1) (db w')" "\<forall>y. r = Inr y \<longrightarrow> Q y (db w')"
      by (auto simp: effects_def)
    with g show ?thesis by (blast intro: good_step_trans)
  qed
qed

lemma effects_seqE [effect_rules]: "effects P m (\<lambda>_. R) \<Longrightarrow> effects R k Q \<Longrightarrow> effects P (seqE m k) Q"
  unfolding seqE_def by (rule effects_bindE)

lemma effects_readonly: "readonly m \<Longrightarrow> effects P m (\<lambda>_. P)"
  unfolding effects_def readonly_def by (metis good_step_refl prod.sel(2))

lemma effects_weaken: "effects P m Q \<Longrightarrow> effects P m (\<lambda>_ _. True)"
  by (auto simp: effects_def)

lemma effects_if [effect_rules]:
  "(b \<Longrightarrow> effects P m Q) \<Longrightarrow> (\<not> b \<Longrightarrow> effects P m' Q) \<Longrightarrow> effects P (if b then m else m') Q"
  by simp

lemma effects_case_prod [effect_rules]:
  "(\<And>a b. x = (a, b) \<Longrightarrow> effects P (m a b) Q) \<Longrightarrow> effects P (case x of (a, b) \<Rightarrow> m a b) Q"
  by (cases x) auto

lemma readonly_bindE [effect_rules]: "readonly m \<Longrightarrow> (\<And>x. readonly (k x)) \<Longrightarrow> readonly (bindE m k)"
  by (auto simp: readonly_def bindE_def split: prod.splits sum.splits) (metis prod.sel(2))+

lemma readonly_seqE [effect_rules]: "readonly m \<Longrightarrow> readonly k \<Longrightarrow> readonly (seqE m k)"
  unfolding seqE_def by (rule readonly_bindE)

lemma readonly_basic [effect_rules]:
  "readonly (ret x)" "readonly (throw e)" "readonly (gets f)" "readonly (guardE b e)" "readonly (liftE r)"
  "readonly (dbcall drv)" "readonly (timeNow drv)" "readonly (expectRows n)"
  by (auto simp: readonly_def guardE_def dbcall_def timeNow_def expectRows_def)

lemma readonly_if [effect_rules]: "readonly m \<Longrightarrow> readonly m' \<Longrightarrow> readonly (if b then m else m')"
  by simp

lemma readonly_case_prod [effect_rules]:
  "(\<And>a b. readonly (m a b)) \<Longrightarrow> readonly (case x of (a, b) \<Rightarrow> m a b)"
  by (cases x) auto

lemma readonly_query [effect_rules]: "readonly (query drv q)"
  unfolding query_def by (intro effect_rules)

lemma readonly_queryRow [effect_rules]: "readonly (queryRow drv P)"
  unfolding queryRow_def by (intro effect_rules) (auto intro: effect_rules split: list.split)

lemma readonly_orNow [effect_rules]: "readonly (orNow drv at)"
  unfolding orNow_def by (intro effect_rules)

lemma readonly_explain [effect_rules]: "readonly (explainUnchanged drv P n)"
  unfolding explainUnchanged_def by (intro effect_rules)

lemma readonly_duplicate [effect_rules]: "readonly (duplicateMapping drv pid uid)"
  unfolding duplicateMapping_def by (intro effect_rules)

lemma readonly_activeRow [effect_rules]: "readonly (activeRow drv q pid)"
  unfolding activeRow_def by (intro effect_rules)

text \<open>What a lookup in a transaction establishes for the statement that follows.\<close>

lemma queryRow_found:
  assumes "queryRow drv P w = (Inr r, w')"
  shows "r \<in> set (rows (db w))" "P r" "db w' = db w"
proof -
  from assms obtain rs where "filter P (rows (db w)) = r # rs" "db w' = db w"
    by (auto simp: queryRow_def query_def dbcall_def bindE_def seqE_def gets_def throw_def ret_def
        split: list.splits option.splits prod.splits sum.splits)
  then show "r \<in> set (rows (db w))" "P r" "db w' = db w" by (auto simp: filter_eq_Cons_iff)
qed

lemma effects_activeRow:
  "effects P (activeRow drv q pid)
     (\<lambda>r d. r \<in> set (rows d) \<and> byID q pid r \<and> \<not> IsTerminalState (state r))"
  unfolding effects_def
proof (intro allI impI)
  fix w r w' assume run: "activeRow drv q pid w = (r, w')"
  have "db w' = db w" using readonly_activeRow [of drv q pid] run by (auto simp: readonly_def dest: spec [of _ w])
  moreover have "x \<in> set (rows (db w)) \<and> byID q pid x \<and> \<not> IsTerminalState (state x)" if "r = Inr x" for x
    using run that unfolding activeRow_def
    by (auto elim!: bindE_InrE seqE_InrE guardE_InrE dest: queryRow_found)
  ultimately show "good_step (db w) (db w') \<and>
      (\<forall>x. r = Inr x \<longrightarrow> x \<in> set (rows (db w')) \<and> byID q pid x \<and> \<not> IsTerminalState (state x))" by simp
qed

lemma exec_cases:
  assumes "exec drv f w = (r, w')"
  obtains (fails) e where "r = Inl e" "db w' = db w"
    | (works) x where "r = Inr x" "f (db w) = Inr (db w', x)"
  using assms by (auto simp: exec_def dbcall_def bindE_def seqE_def split: option.splits sum.splits)

lemma effects_exec:
  assumes "\<And>d d' x. P d \<Longrightarrow> f d = Inr (d', x) \<Longrightarrow> good_step d d'"
  shows "effects P (exec drv f) (\<lambda>_ _. True)"
  unfolding effects_def
proof (intro allI impI)
  fix w r w' assume "P (db w)" "exec drv f w = (r, w')"
  from this(2) show "good_step (db w) (db w') \<and> (\<forall>x. r = Inr x \<longrightarrow> True)"
    by (cases rule: exec_cases) (use \<open>P (db w)\<close> assms in auto)
qed

lemma effects_update:
  assumes "\<And>d r. P d \<Longrightarrow> db_ok d \<Longrightarrow> r \<in> set (rows d) \<Longrightarrow> S r \<Longrightarrow> row_step r (f r)"
  shows "effects P (exec drv (sql_update S f)) (\<lambda>_ _. True)"
  by (rule effects_exec) (auto intro: sql_update_good assms)

lemma effects_onUnique: "effects P m Q \<Longrightarrow> effects P (onUnique m) Q"
  by (fastforce simp: effects_def onUnique_def split: prod.splits sum.splits)

lemma dbcall_db: "dbcall drv w = (r, w') \<Longrightarrow> db w' = db w"
  by (auto simp: dbcall_def)

lemma transaction_cases:
  assumes "transaction drv body w = (r, w')"
  obtains (fails) e where "r = Inl e" "db w' = db w"
    | (works) x w0 w1 where "r = Inr x" "db w0 = db w" "body w0 = (Inr x, w1)" "db w' = db w1"
  using assms
  by (auto simp: transaction_def bindE_def seqE_def ret_def split: prod.splits sum.splits dest!: dbcall_db)

lemma effects_transaction [effect_rules]:
  assumes "effects P body Q"
  shows "effects P (transaction drv body) Q"
  unfolding effects_def
proof (intro allI impI)
  fix w r w' assume P: "P (db w)" and "transaction drv body w = (r, w')"
  from this(2) show "good_step (db w) (db w') \<and> (\<forall>x. r = Inr x \<longrightarrow> Q x (db w'))"
  proof (cases rule: transaction_cases)
    case (works x w0 w1)
    with assms P show ?thesis unfolding effects_def by (metis sum.inject(2))
  qed simp
qed

subsection \<open>Every operation takes permitted steps\<close>

text \<open>Computations whose result is of no interest.\<close>

abbreviation permitted :: "(database \<Rightarrow> bool) \<Rightarrow> 'a sprog \<Rightarrow> bool" where
  "permitted P m \<equiv> effects P m (\<lambda>_ _. True)"

lemma permitted_readonly: "readonly m \<Longrightarrow> permitted P m"
  by (rule effects_weaken, rule effects_readonly)

lemma permitted_after: "readonly m \<Longrightarrow> (\<And>x. permitted P (k x)) \<Longrightarrow> permitted P (bindE m k)"
  by (rule effects_bindE [OF effects_readonly])

lemma permitted_after_seq: "readonly m \<Longrightarrow> permitted P k \<Longrightarrow> permitted P (seqE m k)"
  unfolding seqE_def by (rule permitted_after)

lemma permitted_then: "permitted P m \<Longrightarrow> (\<And>x. readonly (k x)) \<Longrightarrow> permitted P (bindE m k)"
  by (rule effects_bindE) (auto intro: permitted_readonly)

lemma permitted_update:
  assumes "\<And>d r. P d \<Longrightarrow> db_ok d \<Longrightarrow> r \<in> set (rows d) \<Longrightarrow> S r \<Longrightarrow> row_step r (f r)" "\<And>n. readonly (k n)"
  shows "permitted P (bindE (exec drv (sql_update S f)) k)"
  by (rule permitted_then) (auto intro: effects_update assms)

lemmas permitted_rules = permitted_after permitted_after_seq permitted_update effects_transaction effects_if
  effects_case_prod

text \<open>Updates of a row that was looked up and found not terminal in the same transaction.\<close>

definition found_active :: "string \<Rightarrow> int \<Rightarrow> row \<Rightarrow> database \<Rightarrow> bool" where
  "found_active q pid r d \<longleftrightarrow> r \<in> set (rows d) \<and> byID q pid r \<and> \<not> IsTerminalState (state r)"

lemma permitted_active_exec:
  assumes "\<And>r. \<not> IsTerminalState (state r) \<Longrightarrow> row_step r (f r)"
  shows "permitted (found_active q pid r) (exec drv (sql_update (byID q pid) f))"
proof (rule effects_update)
  fix d r' assume found: "found_active q pid r d" and "db_ok d" "r' \<in> set (rows d)" "byID q pid r'"
  then have "r' = r" by (auto simp: found_active_def byID_def intro: ids_unique)
  then show "row_step r' (f r')" using found assms by (simp add: found_active_def)
qed

lemma permitted_active:
  assumes "\<And>r. \<not> IsTerminalState (state r) \<Longrightarrow> row_step r (f r)" "\<And>n. readonly (k n)"
  shows "permitted (found_active q pid r) (bindE (exec drv (sql_update (byID q pid) f)) k)"
  by (rule permitted_then [OF permitted_active_exec]) (auto intro: assms)

lemma permitted_lookup:
  assumes "\<And>r. permitted (found_active q pid r) (k r)"
  shows "permitted P (bindE (activeRow drv q pid) k)"
  by (rule effects_bindE [OF effects_activeRow]) (use assms in \<open>simp add: found_active_def [abs_def]\<close>)

lemma permitted_lookup_seq:
  assumes "\<And>r. permitted (found_active q pid r) k"
  shows "permitted P (seqE (activeRow drv q pid) k)"
  unfolding seqE_def by (rule permitted_lookup) (rule assms)

lemma active_not_terminal: "db_ok d \<Longrightarrow> r \<in> set (rows d) \<Longrightarrow> terminal_at r = None \<Longrightarrow> \<not> IsTerminalState (state r)"
  by (auto simp: db_ok_def term_ok_def)

lemma IsTerminalState_names [simp]:
  "IsTerminalState StateTerminal" "\<not> IsTerminalState StateMapped" "\<not> IsTerminalState StateUncertain"
  "\<not> IsTerminalState StateReserved"
  by (code_simp)+

lemma row_step_state_only:
  "\<not> IsTerminalState (state r) \<Longrightarrow> row_step r (setMapped uid uri now r)"
  "\<not> IsTerminalState (state r) \<Longrightarrow> row_step r (setUncertain reason now r)"
  "row_step r (setRoute route now r)" "row_step r (setTerminal obs err at r)"
  "IsTerminalState st \<Longrightarrow> row_step r (setDirectTerminal st at r)"
  "row_step r (addDocument format bytes pgs cps impressions lst now r)"
  "row_step r (setAttempt at nxt r)"
  by (auto simp: row_step_def term_ok_def setMapped_def setUncertain_def setRoute_def setTerminal_def
      setDirectTerminal_def addDocument_def setAttempt_def split: option.splits)

lemma effects_timeNow:
  assumes "\<And>n. effects P (k (clock drv n)) Q"
  shows "effects P (bindE (timeNow drv) k) Q"
  unfolding effects_def
proof (intro allI impI)
  fix w r w' assume P: "P (db w)" and "bindE (timeNow drv) k w = (r, w')"
  then have "k (clock drv (tick w)) (w\<lparr>tick := Suc (tick w)\<rparr>) = (r, w')" by (simp add: bindE_def timeNow_def)
  then show "good_step (db w) (db w') \<and> (\<forall>x. r = Inr x \<longrightarrow> Q x (db w'))"
    using assms [of "tick w"] P unfolding effects_def by (metis select_convs(1) update_convs(2) surjective)
qed

lemma CreateJob_permitted:
  assumes "\<And>n. clock drv n \<noteq> 0" "IsTerminalState (State job) \<Longrightarrow> TerminalAt job \<noteq> Some 0"
  shows "permitted P (CreateJob drv job)"
proof -
  have "term_ok (rowOfJob (withDefaults (clock drv n) (normalizeRoute job))\<lparr>proxy_job_id := i\<rparr>)" for n i
    using assms(2) assms(1) [of n]
    by (auto simp: term_ok_def rowOfJob_def withDefaults_def normalizeRoute_def Let_def nullableTime_def orElse_def
        split: option.splits)
  then have "permitted P (exec drv (sql_insert (rowOfJob (withDefaults (clock drv n) (normalizeRoute job)))))" for n
    by (intro effects_exec) (auto intro: sql_insert_good)
  then show ?thesis
    unfolding CreateJob_def by (intro effects_timeNow)
qed

lemma Reserve_permitted:
  assumes "\<And>n. clock drv n \<noteq> 0"
  shows "permitted P (Reserve drv args)"
  unfolding Reserve_def
  by (intro permitted_after effect_rules CreateJob_permitted assms) (simp add: reservation_def)

lemma lookups_readonly:
  "readonly (GetByProxyID drv args)" "readonly (GetByUpstreamID drv args)" "readonly (GetByUpstreamURI drv args)"
  "readonly (ListJobs drv args)" "readonly (SummarizeJobs drv b)" "readonly (ReconciliationCandidates drv args)"
  unfolding GetByProxyID_def GetByUpstreamID_def GetByUpstreamURI_def ListJobs_def SummarizeJobs_def
    ReconciliationCandidates_def
  by (intro effect_rules)+

lemma UpdateRoute_permitted: "permitted (\<lambda>_. True) (UpdateRoute drv q pid route)"
  unfolding UpdateRoute_def Let_def
  by (intro permitted_rules effect_rules row_step_state_only)

lemma markMapped_permitted: "permitted (\<lambda>_. True) (markMapped drv q pid uid uri)"
  unfolding markMapped_def
  by (intro effects_transaction permitted_lookup permitted_after_seq permitted_after [OF readonly_basic(7)]
      permitted_then [OF effects_onUnique [OF permitted_active_exec]] effect_rules row_step_state_only)

lemma MarkMapped_permitted: "permitted (\<lambda>_. True) (MarkMapped drv args)"
  unfolding MarkMapped_def by (intro permitted_after effects_case_prod markMapped_permitted effect_rules)

lemma MarkMappedNullable_permitted: "permitted (\<lambda>_. True) (MarkMappedNullable drv pid uid uri)"
  unfolding MarkMappedNullable_def by (rule markMapped_permitted)

lemma MarkUncertain_permitted: "permitted (\<lambda>_. True) (MarkUncertain drv args)"
  unfolding MarkUncertain_def
  by (intro permitted_after effects_case_prod effects_transaction permitted_lookup_seq permitted_active
      effect_rules row_step_state_only)

lemma markTerminalParsed_permitted: "permitted (\<lambda>_. True) (markTerminalParsed drv args)"
  unfolding markTerminalParsed_def Let_def
  by (intro permitted_after [OF readonly_basic(5)] permitted_after [OF readonly_orNow] effects_case_prod
      permitted_update effect_rules row_step_state_only)

lemma row_step_observed:
  "row_step r (r\<lparr>observed_state := obs, observed_error := err, updated_at := now\<rparr>)"
  "row_step r (r\<lparr>last_reconcile_at := a, reconcile_at := b, next_reconcile_at := c, updated_at := now\<rparr>)"
  "row_step r (r\<lparr>reconcile_at := b, next_reconcile_at := c, updated_at := now\<rparr>)"
  by (simp_all add: row_step_def term_ok_def)

lemma UpdateObserved_permitted: "permitted (\<lambda>_. True) (UpdateObserved drv args)"
  unfolding UpdateObserved_def
  by (intro permitted_after [OF readonly_basic(5)] permitted_after [OF readonly_orNow] effects_case_prod
      effects_if permitted_update effect_rules row_step_observed markTerminalParsed_permitted)

lemma UpdateState_permitted: "permitted (\<lambda>_. True) (UpdateState drv q pid st)"
proof -
  have "row_step r (r\<lparr>state := st, updated_at := now\<rparr>)"
    if "\<not> IsTerminalState st" "db_ok d" "r \<in> set (rows d)" "terminal_at r = None" for d r now
    using that active_not_terminal [of d r] by (auto simp: row_step_def term_ok_def)
  then show ?thesis
    unfolding UpdateState_def
    by (intro permitted_after [OF readonly_basic(7)] effects_if permitted_update effect_rules)
      (auto intro: row_step_state_only)
qed

lemma UpdateDocument_permitted: "permitted (\<lambda>_. True) (UpdateDocument drv args)"
  unfolding UpdateDocument_def
  by (intro permitted_after [OF readonly_basic(5)] permitted_after [OF readonly_basic(7)] effects_case_prod
      permitted_update effect_rules row_step_state_only)

lemma MarkReconcileAttempt_permitted: "permitted (\<lambda>_. True) (MarkReconcileAttempt drv args)"
  unfolding MarkReconcileAttempt_def Let_def
  by (intro permitted_after [OF readonly_basic(5)] permitted_after [OF readonly_orNow]
      permitted_after [OF readonly_queryRow] effects_case_prod effects_transaction permitted_update effect_rules
      row_step_state_only)

lemma MarkReconciled_permitted: "permitted (\<lambda>_. True) (MarkReconciled drv args)"
  unfolding MarkReconciled_def
  by (intro permitted_after [OF readonly_basic(5)] permitted_after [OF readonly_orNow] effects_case_prod
      permitted_update effect_rules row_step_observed)

lemma ScheduleReconciliation_permitted: "permitted (\<lambda>_. True) (ScheduleReconciliation drv args)"
  unfolding ScheduleReconciliation_def
  by (intro permitted_after [OF readonly_basic(5)] permitted_after [OF readonly_basic(7)] permitted_after_seq
      effects_case_prod permitted_update effect_rules row_step_observed)

lemma CleanupTerminalBefore_permitted: "permitted (\<lambda>_. True) (CleanupTerminalBefore drv cutoff)"
  unfolding CleanupTerminalBefore_def
  by (intro permitted_after [OF readonly_basic(5)] permitted_after [OF readonly_basic(7)] effects_exec
      effect_rules) (auto intro: sql_delete_good)

lemma CleanupExpired_permitted: "permitted (\<lambda>_. True) (CleanupExpired drv now age)"
  unfolding CleanupExpired_def by (intro permitted_after effect_rules CleanupTerminalBefore_permitted)

lemma good_step_instance:
  "good_step d (d\<lparr>instance_id := (case instance_id d of None \<Rightarrow> Some u | Some i \<Rightarrow> Some i)\<rparr>)"
  by (auto simp: good_step_def db_ok_def evolves_def row_kept split: option.splits)

lemma InstanceID_permitted: "permitted (\<lambda>_. True) (InstanceID drv)"
proof -
  have "permitted (\<lambda>_. True) (\<lambda>w. exec drv (\<lambda>d. Inr (d\<lparr>instance_id :=
      (case instance_id d of None \<Rightarrow> Some (u w) | Some i \<Rightarrow> Some i)\<rparr>, ())) w)" for u
    unfolding effects_def
    by (auto elim!: exec_cases) (metis good_step_instance)
  then show ?thesis
    unfolding InstanceID_def
    by (intro effects_transaction permitted_after_seq effects_seqE [where R = "\<lambda>_. True"] effect_rules)
      (auto intro!: permitted_readonly simp: readonly_def dbcall_def split: option.splits)
qed

subsection \<open>Errors leave the database alone\<close>

named_theorems atomic_rules "rules that a computation that fails has no effect"

definition atomic :: "'a sprog \<Rightarrow> bool" where
  "atomic m \<longleftrightarrow> (\<forall>w e w'. m w = (Inl e, w') \<longrightarrow> db w' = db w)"

lemma atomic_readonly: "readonly m \<Longrightarrow> atomic m"
  unfolding atomic_def readonly_def by (metis prod.sel(2))

lemma atomic_after [atomic_rules]:
  assumes "readonly m" "\<And>x. atomic (k x)"
  shows "atomic (bindE m k)"
  unfolding atomic_def
proof (intro allI impI)
  fix w e w' assume run: "bindE m k w = (Inl e, w')"
  obtain r1 w1 where m: "m w = (r1, w1)" by fastforce
  then have "db w1 = db w" using assms(1) unfolding readonly_def by (metis prod.sel(2))
  then show "db w' = db w"
    using run m assms(2) by (cases r1) (auto simp: atomic_def)
qed

lemma atomic_after_seq [atomic_rules]: "readonly m \<Longrightarrow> atomic k \<Longrightarrow> atomic (seqE m k)"
  unfolding seqE_def by (rule atomic_after)

lemma atomic_if [atomic_rules]: "atomic m \<Longrightarrow> atomic m' \<Longrightarrow> atomic (if b then m else m')"
  by simp

lemma atomic_case_prod [atomic_rules]: "(\<And>a b. atomic (m a b)) \<Longrightarrow> atomic (case x of (a, b) \<Rightarrow> m a b)"
  by (cases x) auto

lemma atomic_transaction [atomic_rules]: "atomic (transaction drv body)"
  unfolding atomic_def by (auto elim!: transaction_cases)

lemma atomic_exec [atomic_rules]: "atomic (exec drv f)"
  unfolding atomic_def by (auto elim!: exec_cases)

text \<open>An UPDATE that is only reported as failed when it matched no row.\<close>

lemma sql_update_none: "sql_update P f d = Inr (d', 0) \<Longrightarrow> d' = d"
proof -
  assume "sql_update P f d = Inr (d', 0)"
  then have d': "d' = d\<lparr>rows := map (\<lambda>r. if P r then f r else r) (rows d)\<rparr>" and "\<forall>r \<in> set (rows d). \<not> P r"
    by (auto simp: sql_update_def Let_def filter_empty_conv split: if_splits)
  then have "map (\<lambda>r. if P r then f r else r) (rows d) = rows d" by (intro map_idI) auto
  then show ?thesis by (simp add: d')
qed

lemma atomic_update:
  assumes "\<And>n. readonly (k n)" "\<And>n w. n \<noteq> 0 \<Longrightarrow> k n w = (Inr (), w)"
  shows "atomic (bindE (exec drv (sql_update P f)) k)"
  unfolding atomic_def
proof (intro allI impI)
  fix w e w' assume run: "bindE (exec drv (sql_update P f)) k w = (Inl e, w')"
  obtain r1 w1 where m: "exec drv (sql_update P f) w = (r1, w1)" by fastforce
  then show "db w' = db w"
  proof (cases rule: exec_cases)
    case (works n)
    with run m have k: "k n w1 = (Inl e, w')" by simp
    with assms(2) [of n w1] have "n = 0" by (cases "n = 0") auto
    with works have "db w1 = db w" by (auto dest: sql_update_none)
    with k assms(1) [of n] show ?thesis unfolding readonly_def by (metis prod.sel(2))
  qed (use run m in auto)
qed

lemma atomic_expect [atomic_rules]: "atomic (bindE (exec drv (sql_update P f)) expectRows)"
  by (rule atomic_update) (auto intro: effect_rules simp: expectRows_def guardE_def)

lemma atomic_explain [atomic_rules]: "atomic (bindE (exec drv (sql_update P f)) (explainUnchanged drv S))"
  by (rule atomic_update) (auto intro: effect_rules simp: explainUnchanged_def)

lemmas atomic_args = atomic_after [OF readonly_basic(5)] atomic_after [OF readonly_basic(7)]
  atomic_after [OF readonly_orNow] atomic_after_seq [OF readonly_basic(4)]

lemma operations_atomic:
  "atomic (CreateJob drv job)" "atomic (Reserve drv args)" "atomic (UpdateRoute drv q pid route)"
  "atomic (MarkMapped drv args)" "atomic (MarkMappedNullable drv pid uid uri)" "atomic (MarkUncertain drv args)"
  "atomic (markTerminalParsed drv args)" "atomic (UpdateObserved drv args)" "atomic (UpdateState drv q pid st)"
  "atomic (UpdateDocument drv args)" "atomic (MarkReconcileAttempt drv args)" "atomic (MarkReconciled drv args)"
  "atomic (ScheduleReconciliation drv args)" "atomic (CleanupTerminalBefore drv cutoff)"
  "atomic (CleanupExpired drv now age)" "atomic (InstanceID drv)"
  unfolding CreateJob_def Reserve_def UpdateRoute_def MarkMapped_def MarkMappedNullable_def markMapped_def
    MarkUncertain_def markTerminalParsed_def UpdateObserved_def UpdateState_def UpdateDocument_def
    MarkReconcileAttempt_def MarkReconciled_def ScheduleReconciliation_def CleanupTerminalBefore_def
    CleanupExpired_def InstanceID_def Let_def
  by (intro atomic_args atomic_case_prod atomic_if atomic_transaction atomic_expect atomic_explain atomic_exec)+

end
