(* ===== verification/Store_History.thy ===== *)
theory Store_History
  imports Store_Inv
begin

text \<open>
  Histories of the registry. \<open>registry\<close> is the contract a client of the registry relies on: each
  request takes a permitted step of the database, and a request that reports an error takes none.
  What follows for whole histories is proved once in the locale and holds for the methods of the
  registry through the interpretation \<open>reg\<close>.
\<close>

subsection \<open>Requests\<close>

datatype request =
    ReqCreateJob Job
  | ReqReserve "any list"
  | ReqUpdateRoute string int DocumentRoute
  | ReqMarkMapped "any list"
  | ReqMarkMappedNullable int "int option" "string option"
  | ReqMarkUncertain "any list"
  | ReqMarkTerminal "any list"
  | ReqUpdateObserved "any list"
  | ReqUpdateState string int string
  | ReqUpdateDocument "any list"
  | ReqMarkReconcileAttempt "any list"
  | ReqMarkReconciled "any list"
  | ReqScheduleReconciliation "any list"
  | ReqCleanup any
  | ReqCleanupExpired instant int
  | ReqInstanceID

text \<open>The error a request reports, if any, and the world after it.\<close>

definition outcome :: "'a sprog \<Rightarrow> world \<Rightarrow> store_error option \<times> world" where
  "outcome m w = (case m w of (Inl e, w') \<Rightarrow> (Some e, w') | (Inr _, w') \<Rightarrow> (None, w'))"

fun serve :: "driver \<Rightarrow> request \<Rightarrow> world \<Rightarrow> store_error option \<times> world" where
  "serve drv (ReqCreateJob job) = outcome (CreateJob drv job)"
| "serve drv (ReqReserve args) = outcome (Reserve drv args)"
| "serve drv (ReqUpdateRoute q pid route) = outcome (UpdateRoute drv q pid route)"
| "serve drv (ReqMarkMapped args) = outcome (MarkMapped drv args)"
| "serve drv (ReqMarkMappedNullable pid uid uri) = outcome (MarkMappedNullable drv pid uid uri)"
| "serve drv (ReqMarkUncertain args) = outcome (MarkUncertain drv args)"
| "serve drv (ReqMarkTerminal args) = outcome (MarkTerminal drv args)"
| "serve drv (ReqUpdateObserved args) = outcome (UpdateObserved drv args)"
| "serve drv (ReqUpdateState q pid st) = outcome (UpdateState drv q pid st)"
| "serve drv (ReqUpdateDocument args) = outcome (UpdateDocument drv args)"
| "serve drv (ReqMarkReconcileAttempt args) = outcome (MarkReconcileAttempt drv args)"
| "serve drv (ReqMarkReconciled args) = outcome (MarkReconciled drv args)"
| "serve drv (ReqScheduleReconciliation args) = outcome (ScheduleReconciliation drv args)"
| "serve drv (ReqCleanup cutoff) = outcome (CleanupTerminalBefore drv cutoff)"
| "serve drv (ReqCleanupExpired now age) = outcome (CleanupExpired drv now age)"
| "serve drv ReqInstanceID = outcome (InstanceID drv)"

text \<open>
  A job created directly in a terminal state must not carry a pointer to the zero time as its
  terminal time: the column would be NULL. The clock never shows the zero time of Go, year 1.
\<close>

definition sane :: "driver \<Rightarrow> request \<Rightarrow> bool" where
  "sane drv req \<longleftrightarrow> (\<forall>n. clock drv n \<noteq> 0) \<and>
     (case req of ReqCreateJob job \<Rightarrow> IsTerminalState (State job) \<longrightarrow> TerminalAt job \<noteq> Some 0 | _ \<Rightarrow> True)"

lemma outcome_permitted: "permitted (\<lambda>_. True) m \<Longrightarrow> good_step (db w) (db (snd (outcome m w)))"
  using effects_step [of "\<lambda>_. True" m _ w] by (auto simp: outcome_def split: prod.splits sum.splits)

lemma outcome_atomic: "atomic m \<Longrightarrow> outcome m w = (Some e, w') \<Longrightarrow> db w' = db w"
  by (auto simp: outcome_def atomic_def split: prod.splits sum.splits)

lemmas operations_permitted = CreateJob_permitted Reserve_permitted UpdateRoute_permitted
  MarkMapped_permitted MarkMappedNullable_permitted MarkUncertain_permitted markTerminalParsed_permitted
  UpdateObserved_permitted UpdateState_permitted UpdateDocument_permitted MarkReconcileAttempt_permitted
  MarkReconciled_permitted ScheduleReconciliation_permitted CleanupTerminalBefore_permitted
  CleanupExpired_permitted InstanceID_permitted

lemma serve_good: "sane drv req \<Longrightarrow> good_step (db w) (db (snd (serve drv req w)))"
  by (cases req) (auto simp: sane_def MarkTerminal_def intro!: outcome_permitted operations_permitted)

lemma serve_atomic: "serve drv req w = (Some e, w') \<Longrightarrow> db w' = db w"
  by (cases req) (auto simp: MarkTerminal_def dest!: outcome_atomic [rotated] intro: operations_atomic)

subsection \<open>The contract and its consequences\<close>

text \<open>Anything that moves the job table by permitted steps only.\<close>

locale evolving =
  fixes moves :: "'w \<Rightarrow> 'w \<Rightarrow> bool"
    and base :: "'w \<Rightarrow> database"
  assumes moves_good: "moves w w' \<Longrightarrow> good_step (base w) (base w')"
begin

inductive reaches :: "'w \<Rightarrow> 'w \<Rightarrow> bool" where
  now: "reaches w w"
| later: "reaches w w' \<Longrightarrow> moves w' w'' \<Longrightarrow> reaches w w''"

lemma reaches_good: "reaches w w' \<Longrightarrow> good_step (base w) (base w')"
proof (induction rule: reaches.induct)
  case (later w w' w'')
  from later.IH moves_good [OF later.hyps(2)] show ?case by (rule good_step_trans)
qed simp

lemma reaches_ok: "reaches w w' \<Longrightarrow> db_ok (base w) \<Longrightarrow> db_ok (base w')"
  using reaches_good by (auto simp: good_step_def)

lemma reaches_evolves: "reaches w w' \<Longrightarrow> db_ok (base w) \<Longrightarrow> evolves (base w) (base w')"
  using reaches_good by (auto simp: good_step_def)

text \<open>A row with the identifier of an earlier row descends from it: identifiers are not reused.\<close>

lemma reaches_same_job:
  assumes "reaches w w'" "db_ok (base w)" "r \<in> set (rows (base w))" "r' \<in> set (rows (base w'))"
    and "proxy_job_id r' = proxy_job_id r"
  shows "row_step r r'"
proof -
  have "proxy_job_id r' \<le> seq (base w)" using assms(2,3,5) by (auto simp: db_ok_def)
  with reaches_evolves [OF assms(1,2)] assms(4) obtain r0 where
    "r0 \<in> set (rows (base w))" "row_step r0 r'" by (fastforce simp: evolves_def)
  moreover from this have "proxy_job_id r0 = proxy_job_id r" using assms(5) by (simp add: row_step_def)
  ultimately show ?thesis using ids_unique [OF assms(2), of r0 r] assms(3) by simp
qed

lemma deleted_stays_deleted:
  assumes "reaches w w'" "db_ok (base w)" "pid \<le> seq (base w)"
    and "\<forall>r \<in> set (rows (base w)). proxy_job_id r \<noteq> pid"
  shows "\<forall>r \<in> set (rows (base w')). proxy_job_id r \<noteq> pid"
  using reaches_evolves [OF assms(1,2)] assms(3,4) by (fastforce simp: evolves_def row_step_def)

end

text \<open>A server of requests: it moves the table by permitted steps, and a request that fails leaves it as it is.\<close>

locale registry =
  fixes run :: "'r \<Rightarrow> 'w \<Rightarrow> store_error option \<times> 'w"
    and base :: "'w \<Rightarrow> database"
    and allowed :: "'r \<Rightarrow> bool"
  assumes run_good: "allowed req \<Longrightarrow> good_step (base w) (base (snd (run req w)))"
    and run_atomic: "run req w = (Some e, w') \<Longrightarrow> base w' = base w"

sublocale registry \<subseteq> evolving "\<lambda>w w'. \<exists>req. allowed req \<and> w' = snd (run req w)" base
  by unfold_locales (auto intro: run_good)

interpretation reg: registry "serve drv" db "sane drv" for drv
  by unfold_locales (auto intro: serve_good serve_atomic)

text \<open>Histories as lists of requests, the errors of failed requests ignored.\<close>

definition play :: "driver \<Rightarrow> request list \<Rightarrow> world \<Rightarrow> world" where
  "play drv reqs w = fold (\<lambda>req w. snd (serve drv req w)) reqs w"

lemma play_reaches: "\<forall>req \<in> set reqs. sane drv req \<Longrightarrow> reg.reaches drv w (play drv reqs w)"
proof (induction reqs rule: rev_induct)
  case (snoc req reqs)
  then have "reg.reaches drv w (play drv reqs w)" "sane drv req" by auto
  then show ?case
    using reg.later [of drv w "play drv reqs w" "snd (serve drv req (play drv reqs w))"] by (auto simp: play_def)
qed (simp add: play_def reg.now)

definition empty_db :: database where
  "empty_db = \<lparr>rows = [], seq = 0, instance_id = None\<rparr>"

lemma empty_db_ok [simp]: "db_ok empty_db"
  by (simp add: db_ok_def empty_db_def index_ok_def mapping_keys_def)

end
