(* ===== verification/Store_Theorems.thy ===== *)
theory Store_Theorems
  imports Store_History
begin

text \<open>
  The properties of the job registry: the invariant over all histories, the lifecycle of a job,
  the effect of failures, the round trip of a stored job, mapping and lookup, listing, paging
  and summaries, reconciliation, retention, and the instance identity.
\<close>

subsection \<open>Concrete histories\<close>

text \<open>A driver whose calls never fail and whose clock advances one second per call.\<close>

definition calm :: driver where
  "calm = \<lparr>fault = (\<lambda>_. None), clock = (\<lambda>n. 63000000000000000000 + int n * 1000000000),
     uuid = (\<lambda>n. show_nat n)\<rparr>"

definition start :: world where
  "start = \<lparr>db = empty_db, tick = 0\<rparr>"

definition day_requests :: "request list" where
  "day_requests =
     [ReqReserve [AString ''lab'', AString ''ann''], ReqMarkMapped [AString ''lab'', AInt 1, AInt 7, AString ''ipp://p/7''],
      ReqUpdateState ''lab'' 1 ''completed'']"

lemma calm_driver [simp]: "clock calm n \<noteq> 0" "fault calm n = None"
  by (simp_all add: calm_def)

lemma start_ok [simp]: "db_ok (db start)"
  by (simp add: start_def)

lemma day_requests_sane: "\<forall>req \<in> set day_requests. sane calm req"
  by (simp add: day_requests_def sane_def)

definition lab_row :: "string \<Rightarrow> instant \<Rightarrow> row" where
  "lab_row user t = rowOfJob (withDefaults t (normalizeRoute (reservation
     (zeroJob\<lparr>Queue := ''lab'', RequestingUser := user\<rparr>))))"

lemma lab_row_fields [simp]: "queue (lab_row user t) = ''lab''" "upstream_job_id (lab_row user t) = None"
  "upstream_job_uri (lab_row user t) = None" "state (lab_row user t) = StateReserved" "terminal_at (lab_row user t) = None"
  by (simp_all add: lab_row_def rowOfJob_def withDefaults_def normalizeRoute_def reservation_def zeroJob_def
      nullableUpstreamID_def nullableUpstreamURI_def nullableTime_def Let_def)

lemmas call_defs = bindE_def seqE_def timeNow_def exec_def dbcall_def guardE_def expectRows_def query_def
  queryRow_def transaction_def gets_def activeRow_def onUnique_def

lemma after_reserve:
  "serve calm (ReqReserve [AString ''lab'', AString user]) \<lparr>db = \<lparr>rows = [], seq = s, instance_id = i\<rparr>, tick = n\<rparr> =
     (None, \<lparr>db = \<lparr>rows = [lab_row user (clock calm n)\<lparr>proxy_job_id := s + 1\<rparr>], seq = s + 1, instance_id = i\<rparr>,
       tick = n + 2\<rparr>)"
  by (simp add: outcome_def Reserve_def CreateJob_def parseReservationArgs_def ok_or_def call_defs sql_insert_def
      Let_def index_ok_def mapping_keys_def map_filter_simps flip: lab_row_def)

lemma after_map:
  assumes "queue r = ''lab''" "proxy_job_id r = 1" "upstream_job_id r = None" "upstream_job_uri r = None"
    "\<not> IsTerminalState (state r)"
  shows "serve calm (ReqMarkMapped [AString ''lab'', AInt 1, AInt 7, AString uri])
       \<lparr>db = \<lparr>rows = [r], seq = s, instance_id = i\<rparr>, tick = n\<rparr> =
     (None, \<lparr>db = \<lparr>rows = [setMapped 7 uri (formatTime (clock calm (n + 3))) r], seq = s, instance_id = i\<rparr>, tick = n + 6\<rparr>)"
  using assms
  by (simp add: outcome_def MarkMapped_def markMapped_def parseMappingArgs_def ok_or_def call_defs sql_update_def
      duplicateMapping_def byID_def Let_def index_ok_def mapping_keys_def map_filter_simps setMapped_def
      nullableIntValue_def numeral_3_eq_3)

lemma IsTerminal_completed [simp]: "IsTerminalState ''completed''"
  by code_simp

lemma after_complete:
  assumes "queue r = ''lab''" "proxy_job_id r = 1"
  shows "serve calm (ReqUpdateState ''lab'' 1 ''completed'')
       \<lparr>db = \<lparr>rows = [r], seq = s, instance_id = i\<rparr>, tick = n\<rparr> =
     (None, \<lparr>db = \<lparr>rows = [setDirectTerminal ''completed'' (formatTime (clock calm n)) r], seq = s,
        instance_id = i\<rparr>, tick = n + 2\<rparr>)"
proof -
  show ?thesis using assms
    by (simp add: outcome_def UpdateState_def call_defs sql_update_def inQueue_def Let_def index_ok_def
        mapping_keys_def map_filter_simps setDirectTerminal_def split: option.splits)
qed

definition ann_reserved :: row where
  "ann_reserved = lab_row ''ann'' (clock calm 0)\<lparr>proxy_job_id := 1\<rparr>"

definition ann_done :: row where
  "ann_done = setDirectTerminal ''completed'' (formatTime (clock calm 8))
     (setMapped 7 ''ipp://p/7'' (formatTime (clock calm 5)) ann_reserved)"

lemma ann_fields [simp]:
  "queue ann_done = ''lab''" "queue ann_reserved = ''lab''" "proxy_job_id ann_reserved = 1" "upstream_job_id ann_reserved = None"
  "upstream_job_uri ann_reserved = None" "state ann_reserved = StateReserved" "terminal_at ann_reserved = None"
  "proxy_job_id ann_done = 1" "state ann_done = ''completed''"
  by (simp_all add: ann_reserved_def ann_done_def setDirectTerminal_def setMapped_def)

lemma day_result: "play calm day_requests start =
    \<lparr>db = \<lparr>rows = [ann_done], seq = 1, instance_id = None\<rparr>, tick = 10\<rparr>"
proof -
  have r: "serve calm (ReqReserve [AString ''lab'', AString ''ann'']) start =
      (None, \<lparr>db = \<lparr>rows = [ann_reserved], seq = 1, instance_id = None\<rparr>, tick = 2\<rparr>)"
    using after_reserve [of "''ann''" 0 None 0] by (simp add: start_def empty_db_def ann_reserved_def)
  have m: "serve calm (ReqMarkMapped [AString ''lab'', AInt 1, AInt 7, AString ''ipp://p/7''])
        \<lparr>db = \<lparr>rows = [ann_reserved], seq = 1, instance_id = None\<rparr>, tick = 2\<rparr> =
      (None, \<lparr>db = \<lparr>rows = [setMapped 7 ''ipp://p/7'' (formatTime (clock calm 5)) ann_reserved], seq = 1,
        instance_id = None\<rparr>, tick = 8\<rparr>)"
    using after_map [of ann_reserved "''ipp://p/7''" 1 None 2] by simp
  show ?thesis
    unfolding play_def day_requests_def fold_simps comp_def id_def r m snd_conv
    by (subst after_complete) (simp_all add: ann_done_def setMapped_def)
qed

subsection \<open>Histories\<close>

text \<open>
  C2: whatever requests the registry serves and whichever of its database calls fail, the job
  table keeps strictly increasing positive identifiers below the AUTOINCREMENT counter, at most
  one job per queue and upstream identifier, and a terminal time on every terminal job.
\<close>

theorem registry_invariant:
  assumes "\<forall>req \<in> set reqs. sane drv req" and "db_ok (db w)"
  shows "let d = db (play drv reqs w) in
    sorted_wrt (<) (map proxy_job_id (rows d))
    \<and> (\<forall>r \<in> set (rows d). 0 < proxy_job_id r \<and> proxy_job_id r \<le> seq d)
    \<and> (\<forall>r \<in> set (rows d). \<forall>r' \<in> set (rows d). queue r = queue r' \<and> upstream_job_id r = upstream_job_id r'
         \<and> upstream_job_id r \<noteq> None \<longrightarrow> r = r')
    \<and> (\<forall>r \<in> set (rows d). IsTerminalState (state r) \<longrightarrow> terminal_at r \<noteq> None)"
proof -
  have ok: "db_ok (db (play drv reqs w))"
    by (rule reg.reaches_ok [OF play_reaches]) (use assms in auto)
  then have "index_ok (rows (db (play drv reqs w)))" by (simp add: db_ok_def)
  then have "r = r'" if "r \<in> set (rows (db (play drv reqs w)))" "r' \<in> set (rows (db (play drv reqs w)))"
      and "queue r = queue r' \<and> upstream_job_id r = upstream_job_id r' \<and> upstream_job_id r \<noteq> None" for r r'
    using that index_ok_unique by (metis option.exhaust)
  with ok show ?thesis
    unfolding Let_def db_ok_def term_ok_def by (intro conjI ballI impI) blast+
qed

theorem registry_invariant_witness:
  "IsTerminalState (state ann_done) \<and> terminal_at ann_done \<noteq> None"
  using registry_invariant [OF day_requests_sane start_ok] IsTerminal_completed by (simp add: Let_def day_result)

text \<open>
  C3: a job that has reached a terminal state stays terminal and keeps its terminal time, and its
  queue, owner, user, name and creation time never change, whatever requests follow: a later row
  with the same identifier is the same job.
\<close>

theorem job_lifecycle:
  assumes "\<forall>req \<in> set reqs. sane drv req" "db_ok (db w)"
    and "r \<in> set (rows (db w))" "r' \<in> set (rows (db (play drv reqs w)))" "proxy_job_id r' = proxy_job_id r"
  shows "queue r' = queue r \<and> queue_owner r' = queue_owner r \<and> requesting_user r' = requesting_user r
    \<and> job_name r' = job_name r \<and> created_at r' = created_at r
    \<and> (IsTerminalState (state r) \<longrightarrow> IsTerminalState (state r') \<and> terminal_at r' = terminal_at r)"
proof -
  have "row_step r r'" by (rule reg.reaches_same_job [OF play_reaches]) (use assms in auto)
  moreover have "term_ok r" using assms(2,3) by (simp add: db_ok_def)
  ultimately show ?thesis by (auto simp: row_step_def term_ok_def)
qed

theorem job_lifecycle_witness:
  "IsTerminalState (state ann_done) \<and>
   terminal_at (setDirectTerminal ''completed'' (formatTime (clock calm 10)) ann_done) = terminal_at ann_done"
proof -
  let ?w = "\<lparr>db = \<lparr>rows = [ann_done], seq = 1, instance_id = None\<rparr>, tick = 10\<rparr>"
  let ?reqs = "[ReqUpdateState ''lab'' 1 ''completed'']"
  have "db_ok (db ?w)"
    using reg.reaches_ok [OF play_reaches [OF day_requests_sane] start_ok] by (simp add: day_result)
  moreover have "play calm ?reqs ?w = \<lparr>db = \<lparr>rows = [setDirectTerminal ''completed'' (formatTime (clock calm 10)) ann_done],
      seq = 1, instance_id = None\<rparr>, tick = 12\<rparr>"
    using after_complete [of ann_done 1 None 10] by (simp add: play_def)
  ultimately show ?thesis
    using job_lifecycle [of ?reqs calm ?w ann_done "setDirectTerminal ''completed'' (formatTime (clock calm 10)) ann_done"]
    by (simp add: sane_def) (simp add: setDirectTerminal_def)
qed

text \<open>
  Identifiers of deleted jobs are never handed out again.
\<close>

theorem identifiers_not_reused:
  assumes "\<forall>req \<in> set reqs. sane drv req" "db_ok (db w)"
    and "pid \<le> seq (db w)" "\<forall>r \<in> set (rows (db w)). proxy_job_id r \<noteq> pid"
  shows "\<forall>r \<in> set (rows (db (play drv reqs w))). proxy_job_id r \<noteq> pid"
  by (rule reg.deleted_stays_deleted [OF play_reaches]) (use assms in auto)

theorem identifiers_not_reused_witness:
  "proxy_job_id (lab_row ''ann'' (clock calm 0)\<lparr>proxy_job_id := 2\<rparr>) \<noteq> 1"
proof -
  let ?w = "\<lparr>db = \<lparr>rows = [], seq = 1, instance_id = None\<rparr>, tick = 0\<rparr>"
  let ?reqs = "[ReqReserve [AString ''lab'', AString ''ann'']]"
  have "db_ok (db ?w)" by (simp add: db_ok_def index_ok_def mapping_keys_def map_filter_simps)
  moreover have "rows (db (play calm ?reqs ?w)) = [lab_row ''ann'' (clock calm 0)\<lparr>proxy_job_id := 2\<rparr>]"
    using after_reserve [of "''ann''" 1 None 0] by (simp add: play_def)
  ultimately show ?thesis
    using identifiers_not_reused [of ?reqs calm ?w 1] by (simp only: list.set ball_simps sane_def) simp
qed

text \<open>
  C8: a request that reports an error, for whatever reason and at whatever point a database call
  failed, has left the database as it was.
\<close>

theorem failed_requests_change_nothing:
  assumes "serve drv req w = (Some e, w')"
  shows "db w' = db w"
  using assms by (rule serve_atomic)

theorem failed_requests_change_nothing_witness:
  "db (snd (serve calm (ReqMarkMapped []) start)) = db start"
proof -
  have "serve calm (ReqMarkMapped []) start = (Some ErrInvalidArgument, start)"
    by (simp add: outcome_def MarkMapped_def parseMappingArgs_def)
  from failed_requests_change_nothing [OF this] this show ?thesis by simp
qed

subsection \<open>Times and stored jobs\<close>

definition storable :: "instant option \<Rightarrow> bool" where
  "storable t = (case t of None \<Rightarrow> True | Some v \<Rightarrow> v \<noteq> 0 \<and> printable v)"

lemma format_not_empty: "format_RFC3339Nano t \<noteq> []"
  by (simp add: format_RFC3339Nano_def Let_def)

lemma parse_formatTime: "printable t \<Longrightarrow> parseTime (Some (formatTime t)) = t"
  by (auto simp: parseTime_def formatTime_def format_parse format_not_empty)

lemma parse_nullableTime: "storable t \<Longrightarrow> parseNullableTime (nullableTime t) = t"
  by (cases t) (auto simp: storable_def parseNullableTime_def nullableTime_def parse_formatTime Let_def,
      simp add: parseTime_def)

text \<open>
  An instant of the years 1 to 9999 that is written to a column is read back unchanged, and
  instants of different seconds compare in the database as they do in time.
\<close>

theorem stored_times:
  assumes "printable t" "printable t'" "0 < t"
  shows "parseTime (Some (formatTime t)) = t
    \<and> (t div 1000000000 < t' div 1000000000 \<longrightarrow> formatTime t < formatTime t')"
proof -
  have "formatTime t < formatTime t'" if less: "t div 1000000000 < t' div 1000000000"
  proof -
    from less assms have "0 < t'" using zdiv_mono1 [of t' t 1000000000] by (cases "t' \<le> t") auto
    then show ?thesis using format_less [OF assms(1,2) less] assms(3) by (simp add: formatTime_def)
  qed
  with assms show ?thesis by (simp add: parse_formatTime)
qed

theorem stored_times_witness:
  "parseTime (Some (formatTime 63000000000500000000)) = 63000000000500000000
   \<and> formatTime 63000000000500000000 < formatTime 63000000001000000000"
proof -
  have "printable 63000000000500000000" "printable 63000000001000000000" by code_simp+
  from stored_times [OF this] show ?thesis by simp
qed

lemma prefix_less: "xs @ ys < xs @ zs \<longleftrightarrow> ys < (zs :: string)"
  by (induction xs) simp_all

lemma format_seconds:
  "format_RFC3339Nano t = show_date (t div 1000000000 div 86400) @ ''T''
     @ show_clock (nat (t div 1000000000 mod 86400)) @ show_frac (nat (t mod 1000000000)) @ ''Z''"
proof -
  have d: "t div day_ns = t div 1000000000 div 86400"
    using zdiv_zmult2_eq [of 86400 t 1000000000] by (simp add: day_ns_def)
  have "t mod day_ns = 1000000000 * (t div 1000000000 mod 86400) + t mod 1000000000"
    using zmod_zmult2_eq [of 86400 t 1000000000] by (simp add: day_ns_def)
  then have "nat (t mod day_ns) = 1000000000 * nat (t div 1000000000 mod 86400) + nat (t mod 1000000000)"
    by (simp add: nat_add_distrib nat_mult_distrib)
  moreover have "nat (t mod 1000000000) < 1000000000" by (simp add: nat_less_iff)
  ultimately show ?thesis by (simp add: format_RFC3339Nano_def Let_def d)
qed

text \<open>
  Within one second the texts do not compare as the instants do: any instant strictly inside
  a second is stored as a smaller text than the start of that second, so a comparison of times in
  SQL can be wrong by up to a second.
\<close>

theorem stored_times_within_a_second:
  assumes "0 < t" "t mod 1000000000 = 0" "0 < n" "n < 1000000000"
  shows "formatTime (t + n) < formatTime t"
proof -
  have s: "(t + n) div 1000000000 = t div 1000000000" "(t + n) mod 1000000000 = n"
    using assms by (simp_all add: div_add1_eq [of t n] mod_add_eq [of t _ n, symmetric])
  have "show_frac (nat n) @ ''Z'' < show_frac (nat 0) @ ''Z''"
    using assms(3) by (simp add: show_frac_def less_char_def)
  moreover have "formatTime t = format_RFC3339Nano t" "formatTime (t + n) = format_RFC3339Nano (t + n)"
    using assms(1,3) by (simp_all add: formatTime_def)
  ultimately show ?thesis
    unfolding format_seconds s assms(2) by (simp only: prefix_less)
qed

theorem stored_times_within_a_second_witness:
  "formatTime 63000000000500000000 < formatTime 63000000000000000000"
  using stored_times_within_a_second [of 63000000000000000000 500000000] by simp

text \<open>The job that is read back: the identifier is assigned and the derived fields are filled in.\<close>

definition as_stored :: "int \<Rightarrow> Job \<Rightarrow> Job" where
  "as_stored pid job = job\<lparr>ProxyJobID := pid,
     HasUpstreamJobID := (HasUpstreamJobID job \<or> UpstreamJobID job \<noteq> 0),
     HasUpstreamJobURI := (HasUpstreamJobURI job \<or> UpstreamJobURI job \<noteq> []),
     Route := (Route job)\<lparr>rClientDocumentFormat := DocumentFormat job\<rparr>\<rparr>"

definition times_ok :: "Job \<Rightarrow> bool" where
  "times_ok job \<longleftrightarrow> printable (CreatedAt job) \<and> printable (UpdatedAt job) \<and> storable (TerminalAt job)
     \<and> storable (ReconcileAt job) \<and> storable (LastReconcileAt job) \<and> storable (NextReconcileAt job)"

lemma word_of_uint32 [simp]: "word_of_int (uint (v :: u32)) = v"
  by simp

text \<open>Route fields and flat fields agree after \<^verbatim>\<open>normalizeRoute\<close>.\<close>

definition route_settled :: "Job \<Rightarrow> bool" where
  "route_settled job \<longleftrightarrow> RouteKind job \<noteq> [] \<and> (UpstreamDocumentFormat job = [] \<longrightarrow> DocumentFormat job = [])
     \<and> Route job = (Route job)\<lparr>rUpstreamDocumentFormat := UpstreamDocumentFormat job, rKind := RouteKind job,
         rMapping := RouteMapping job, rMediaName := RouteMediaName job, rMediaWidth := RouteMediaWidth job,
         rMediaHeight := RouteMediaHeight job, rMediaType := RouteMediaType job, rMediaSource := RouteMediaSource job,
         rResolutionX := RouteResolutionX job, rResolutionY := RouteResolutionY job,
         rPrintQuality := RoutePrintQuality job, rSides := RouteSides job, rSheetBack := RouteSheetBack job\<rparr>"

lemma normalizeRoute_settled: "route_settled (normalizeRoute job)"
  by (simp add: route_settled_def normalizeRoute_def Let_def orText_def RoutePassThrough_def)

lemma withDefaults_settled: "route_settled job \<Longrightarrow> route_settled (withDefaults now job)"
  by (simp add: route_settled_def withDefaults_def Let_def)

lemma normalize_settled:
  assumes "route_settled job"
  shows "normalizeRoute (job\<lparr>Route := zeroRoute\<rparr>) = job\<lparr>Route := (Route job)\<lparr>rClientDocumentFormat := DocumentFormat job\<rparr>\<rparr>"
proof -
  have "Route job = \<lparr>rClientDocumentFormat = rClientDocumentFormat (Route job),
      rUpstreamDocumentFormat = UpstreamDocumentFormat job, rKind = RouteKind job,
      rMapping = RouteMapping job, rMediaName = RouteMediaName job, rMediaWidth = RouteMediaWidth job,
      rMediaHeight = RouteMediaHeight job, rMediaType = RouteMediaType job, rMediaSource = RouteMediaSource job,
      rResolutionX = RouteResolutionX job, rResolutionY = RouteResolutionY job,
      rPrintQuality = RoutePrintQuality job, rSides = RouteSides job, rSheetBack = RouteSheetBack job\<rparr>"
    (is "_ = ?route") using assms unfolding route_settled_def by (cases "Route job") simp
  then have "(Route job)\<lparr>rClientDocumentFormat := DocumentFormat job\<rparr> = ?route\<lparr>rClientDocumentFormat := DocumentFormat job\<rparr>"
    by simp
  then show ?thesis
    using assms unfolding route_settled_def
    by (simp add: normalizeRoute_def routeFromJob_def zeroRoute_def orText_def orElse_def Let_def)
qed

lemma scan_rowOfJob:
  assumes "route_settled job" "times_ok job"
  shows "scanJob ((rowOfJob job)\<lparr>proxy_job_id := pid\<rparr>) = as_stored pid job"
proof -
  have "scanJob ((rowOfJob job)\<lparr>proxy_job_id := pid\<rparr>) = normalizeRoute ((as_stored pid job)\<lparr>Route := zeroRoute\<rparr>)"
    unfolding scanJob_def
    by (rule arg_cong [where f = normalizeRoute])
      (use assms(2) in \<open>simp add: rowOfJob_def as_stored_def times_ok_def parse_formatTime parse_nullableTime
        boolInt_def nullableUpstreamID_def nullableUpstreamURI_def\<close>)
  moreover have "route_settled (as_stored pid job)"
    using assms(1) by (cases "Route job") (simp add: route_settled_def as_stored_def)
  ultimately show ?thesis
    by (simp add: normalize_settled) (simp add: as_stored_def)
qed

lemma queryRow_calm:
  "fault drv (tick w) = None \<Longrightarrow> queryRow drv P w =
     ((case filter P (rows (db w)) of [] \<Rightarrow> Inl ErrNoRows | r # _ \<Rightarrow> Inr r), w\<lparr>tick := Suc (tick w)\<rparr>)"
  by (simp add: call_defs split: list.split)

lemma CreateJob_Inr:
  assumes "CreateJob drv job w = (Inr pid, w1)"
  shows "pid = seq (db w) + 1"
    "rows (db w1) = rows (db w) @
       [(rowOfJob (withDefaults (clock drv (tick w)) (normalizeRoute job)))\<lparr>proxy_job_id := pid\<rparr>]"
  using assms by (auto simp: CreateJob_def call_defs sql_insert_def Let_def split: if_splits option.splits)

lemma created_readback:
  assumes created: "CreateJob drv job w = (Inr pid, w1)" and ok: "db_ok (db w)"
    and "times_ok (withDefaults (clock drv (tick w)) (normalizeRoute job))" "fault drv (tick w1) = None"
    and args: "args = [AInt pid] \<or> args = [AString (Queue job), AInt pid]"
  shows "fst (GetByProxyID drv args w1) =
      Inr (as_stored pid (withDefaults (clock drv (tick w)) (normalizeRoute job)))
    \<and> (\<forall>r \<in> set (rows (db w)). proxy_job_id r < pid)"
proof -
  let ?job = "withDefaults (clock drv (tick w)) (normalizeRoute job)"
  let ?row = "(rowOfJob ?job)\<lparr>proxy_job_id := pid\<rparr>"
  from args obtain q where q: "parseScopedID args = Inr (q, pid)" "q = [] \<or> q = Queue job"
    by (auto simp: parseScopedID_def)
  have new: "\<forall>r \<in> set (rows (db w)). proxy_job_id r < pid"
    using ok CreateJob_Inr(1) [OF created] by (auto simp: db_ok_def)
  moreover have "queue ?row = Queue job"
    by (simp add: rowOfJob_def withDefaults_def normalizeRoute_def Let_def)
  ultimately have "filter (byID q pid) (rows (db w1)) = [?row]"
    using q(2) by (auto simp: CreateJob_Inr(2) [OF created] byID_def filter_empty_conv)
  moreover have "scanJob ?row = as_stored pid ?job"
    by (rule scan_rowOfJob [OF withDefaults_settled [OF normalizeRoute_settled] assms(3)])
  ultimately show ?thesis
    using new by (simp add: GetByProxyID_def bindE_def q(1) queryRow_calm assms(4))
qed

text \<open>
  C11: a created job can be looked up by its identifier, alone or with its queue, and reads back
  exactly as it was stored after defaulting, every column included; its identifier is larger than
  that of every other job.
\<close>

theorem created_job_is_read_back:
  assumes created: "CreateJob drv job w = (Inr pid, w1)" and ok: "db_ok (db w)"
    and "times_ok (withDefaults (clock drv (tick w)) (normalizeRoute job))" "fault drv (tick w1) = None"
    and args: "args = [AInt pid] \<or> args = [AString (Queue job), AInt pid]"
  shows "fst (GetByProxyID drv args w1) =
      Inr (as_stored pid (withDefaults (clock drv (tick w)) (normalizeRoute job)))
    \<and> (\<forall>r \<in> set (rows (db w)). proxy_job_id r < pid)"
  using assms by (rule created_readback)

text \<open>The hypotheses hold for the first job of an empty registry.\<close>

definition ann_job :: Job where
  "ann_job = zeroJob\<lparr>Queue := ''lab'', RequestingUser := ''ann'', DocumentFormat := ''image/urf'', PayloadBytes := 49\<rparr>"

theorem created_job_is_read_back_witness:
  "\<exists>w1. CreateJob calm ann_job start = (Inr 1, w1)
    \<and> fst (GetByProxyID calm [AString ''lab'', AInt 1] w1) =
        Inr (as_stored 1 (withDefaults 63000000000000000000 (normalizeRoute ann_job)))"
proof -
  have "upstream_job_id (rowOfJob (withDefaults t (normalizeRoute ann_job))) = None" for t
    by (simp add: rowOfJob_def withDefaults_def normalizeRoute_def nullableUpstreamID_def ann_job_def zeroJob_def Let_def)
  then have "fst (CreateJob calm ann_job start) = Inr 1"
    by (simp add: CreateJob_def call_defs sql_insert_def Let_def index_ok_def mapping_keys_def map_filter_simps
        start_def empty_db_def)
  then obtain w1 where w1: "CreateJob calm ann_job start = (Inr 1, w1)" by (metis prod.collapse)
  have "times_ok (withDefaults 63000000000000000000 (normalizeRoute ann_job))"
    by code_simp
  then show ?thesis
    using created_job_is_read_back [OF w1 start_ok, of "[AString ''lab'', AInt 1]"] w1
    by (simp add: calm_def start_def ann_job_def zeroJob_def)
qed

subsection \<open>Mappings\<close>

lemma index_okI:
  assumes "distinct (map proxy_job_id rs)"
    and "\<And>r r' u. r \<in> set rs \<Longrightarrow> r' \<in> set rs \<Longrightarrow> upstream_job_id r = Some u \<Longrightarrow> upstream_job_id r' = Some u \<Longrightarrow>
      queue r = queue r' \<Longrightarrow> r = r'"
  shows "index_ok rs"
proof -
  have "distinct (filter (\<lambda>r. map_option (\<lambda>u. (queue r, u)) (upstream_job_id r) \<noteq> None) rs)"
    using assms(1) by (simp add: distinct_map)
  then show ?thesis
    unfolding index_ok_def mapping_keys_def List.map_filter_def comp_def distinct_map
    by (auto simp: inj_on_def intro: assms(2))
qed

text \<open>The row that \<^verbatim>\<open>MarkMapped\<close> finds, and the reasons to refuse a mapping for it.\<close>

definition conflicting :: "database \<Rightarrow> row \<Rightarrow> int \<Rightarrow> string \<Rightarrow> bool" where
  "conflicting d r uid uri \<longleftrightarrow>
     uid \<noteq> 0 \<and> upstream_job_id r \<noteq> None \<and> upstream_job_id r \<noteq> Some uid
   \<or> uri \<noteq> [] \<and> upstream_job_uri r \<noteq> None \<and> upstream_job_uri r \<noteq> Some uri
   \<or> uid \<noteq> 0 \<and> (\<exists>r' \<in> set (rows d). r' \<noteq> r \<and> queue r' = queue r \<and> upstream_job_id r' = Some uid)"

lemma filter_self: "distinct xs \<Longrightarrow> x \<in> set xs \<Longrightarrow> filter (\<lambda>y. y = x) xs = [x]"
  by (induction xs) (auto simp: filter_empty_conv)

lemma filter_byID:
  assumes "db_ok d" "r \<in> set (rows d)" "q = [] \<or> q = queue r"
  shows "filter (byID q (proxy_job_id r)) (rows d) = [r]"
proof -
  have dist: "distinct (map proxy_job_id (rows d))" using assms(1) strict_sorted_iff by (auto simp: db_ok_def)
  have "filter (byID q (proxy_job_id r)) (rows d) = filter (\<lambda>x. x = r) (rows d)"
    using assms ids_unique by (intro filter_cong) (auto simp: byID_def)
  also have "\<dots> = [r]"
    using dist assms(2) by (auto simp: distinct_map intro: filter_self)
  finally show ?thesis .
qed

lemma mapped_index_ok:
  assumes ok: "db_ok d" and r: "r \<in> set (rows d)" and free: "\<not> conflicting d r uid uri"
  shows "index_ok (map (\<lambda>x. if x = r then setMapped uid uri now x else x) (rows d))" (is "index_ok (map ?f _)")
proof (rule index_okI)
  have id: "proxy_job_id (?f x) = proxy_job_id x" "queue (?f x) = queue x" for x
    by (simp_all add: setMapped_def)
  have "map proxy_job_id (map ?f (rows d)) = map proxy_job_id (rows d)" by (simp only: map_map comp_def id)
  then show "distinct (map proxy_job_id (map ?f (rows d)))"
    using ok strict_sorted_iff by (metis db_ok_def)
  have clash: "x = r" if "x \<in> set (rows d)" "upstream_job_id x = Some u" "nullableIntValue uid = Some u"
      "queue x = queue r" for x u
    using that free by (auto simp: conflicting_def nullableIntValue_def split: if_splits)
  have up: "upstream_job_id (?f x) = (if x = r then nullableIntValue uid else upstream_job_id x)" for x
    by (simp add: setMapped_def)
  have idx: "index_ok (rows d)" using ok by (simp add: db_ok_def)
  fix y y' u
  assume "y \<in> set (map ?f (rows d))" "y' \<in> set (map ?f (rows d))"
  then obtain x x' where x: "x \<in> set (rows d)" "x' \<in> set (rows d)" and y: "y = ?f x" "y' = ?f x'"
    unfolding set_map by (elim imageE) (rule that)
  assume "upstream_job_id y = Some u" "upstream_job_id y' = Some u" "queue y = queue y'"
  then have same: "(if x = r then nullableIntValue uid else upstream_job_id x) = Some u"
      "(if x' = r then nullableIntValue uid else upstream_job_id x') = Some u" "queue x = queue x'"
    unfolding y up id by simp_all
  have "x = x'"
  proof (cases "x = r")
    case True
    with same x clash [of x' u] show ?thesis by (cases "x' = r") simp_all
  next
    case False
    with same x clash [of x u] index_ok_unique [OF idx x] show ?thesis by (cases "x' = r") auto
  qed
  then show "y = y'" by (simp only: y)
qed

lemma mapping_outcome:
  assumes calm: "\<And>n. fault drv n = None" and ok: "db_ok (db w)"
    and r: "r \<in> set (rows (db w))" "proxy_job_id r = pid" "queue r = q" "\<not> IsTerminalState (state r)"
  shows "case MarkMapped drv [AString q, AInt pid, AInt uid, AString uri] w of (res, w') \<Rightarrow>
    if conflicting (db w) r uid uri then res = Inl ErrMappingConflict \<and> db w' = db w
    else res = Inr () \<and> (\<exists>now. rows (db w') =
      map (\<lambda>x. if x = r then setMapped uid uri now x else x) (rows (db w)))"
proof -
  have found: "filter (byID q pid) (rows (db w)) = [r]"
    using filter_byID [OF ok r(1), of q] r(2,3) by simp
  have own: "filter (\<lambda>x. proxy_job_id x = pid) (rows (db w)) = [r]"
    using filter_byID [OF ok r(1), of "[]"] r(2) by (simp add: byID_def [abs_def])
  have self: "map (\<lambda>x. if byID q pid x then g x else x) (rows (db w)) =
      map (\<lambda>x. if x = r then g x else x) (rows (db w))" for g
    using r ids_unique [OF ok] by (intro map_cong) (auto simp: byID_def)
  define A where "A \<longleftrightarrow> uid \<noteq> 0 \<and> (\<exists>c \<in> set_option (upstream_job_id r). c \<noteq> uid)"
  define B where "B \<longleftrightarrow> uri \<noteq> [] \<and> (\<exists>c \<in> set_option (upstream_job_uri r). c \<noteq> uri)"
  define C where "C \<longleftrightarrow> (\<exists>x \<in> set (rows (db w)). upstream_job_id x = Some uid \<and> proxy_job_id x \<noteq> pid \<and> queue x = q)"
  have "proxy_job_id x \<noteq> pid \<longleftrightarrow> x \<noteq> r" if "x \<in> set (rows (db w))" for x
    using that r ids_unique [OF ok] by blast
  then have "C \<longleftrightarrow> (\<exists>x \<in> set (rows (db w)). x \<noteq> r \<and> queue x = queue r \<and> upstream_job_id x = Some uid)"
    unfolding C_def r(3) by blast
  then have conf: "conflicting (db w) r uid uri \<longleftrightarrow> A \<or> B \<or> uid \<noteq> 0 \<and> C"
    unfolding conflicting_def A_def B_def by (cases "upstream_job_id r"; cases "upstream_job_uri r") auto
  have dup: "duplicateMapping drv pid uid v = ((if C then Inl ErrMappingConflict else Inr ()), v\<lparr>tick := Suc (tick v)\<rparr>)"
    if "rows (db v) = rows (db w)" for v
    using that calm r(3) own
    by (auto simp: duplicateMapping_def call_defs C_def filter_empty_conv)
  show ?thesis
  proof (cases "conflicting (db w) r uid uri")
    case True
    then show ?thesis
      using calm found r(4)
      by (auto simp add: MarkMapped_def markMapped_def parseMappingArgs_def ok_or_def call_defs conf dup
          simp flip: A_def B_def)
  next
    case False
    then have "\<not> A" "\<not> B" "uid = 0 \<or> \<not> C" by (auto simp: conf)
    then show ?thesis
      using calm found r(4) False mapped_index_ok [OF ok r(1) False]
      by (auto simp add: MarkMapped_def markMapped_def parseMappingArgs_def ok_or_def call_defs dup sql_update_def self
          Let_def simp flip: A_def B_def)
  qed
qed


definition ann_world :: world where
  "ann_world = \<lparr>db = \<lparr>rows = [ann_reserved], seq = 1, instance_id = None\<rparr>, tick = 2\<rparr>"

lemma ann_world_ok: "db_ok (db ann_world)"
proof -
  have "play calm [ReqReserve [AString ''lab'', AString ''ann'']] start = ann_world"
    using after_reserve [of "''ann''" 0 None 0]
    by (simp add: play_def start_def empty_db_def ann_reserved_def ann_world_def)
  then show ?thesis
    using reg.reaches_ok [OF play_reaches start_ok, of "[ReqReserve [AString ''lab'', AString ''ann'']]" calm]
    by (simp add: sane_def)
qed


lemma markMapped_Inr:
  assumes "markMapped drv q pid uid uri w = (Inr x, w1)"
  obtains now r where "rows (db w1) = map (\<lambda>r. if byID q pid r then setMapped uid uri now r else r) (rows (db w))"
    "r \<in> set (rows (db w))" "byID q pid r"
proof -
  from assms obtain w0 w2 where body: "db w0 = db w" "db w1 = db w2"
    "bindE (activeRow drv q pid) (\<lambda>r.
       seqE (guardE (uid \<noteq> 0 \<and> (\<exists>c \<in> set_option (upstream_job_id r). c \<noteq> uid)) ErrMappingConflict)
      (seqE (guardE (uri \<noteq> [] \<and> (\<exists>c \<in> set_option (upstream_job_uri r). c \<noteq> uri)) ErrMappingConflict)
      (seqE (if uid \<noteq> 0 then duplicateMapping drv pid uid else ret ())
      (bindE (timeNow drv) (\<lambda>now.
       bindE (onUnique (exec drv (sql_update (byID q pid) (setMapped uid uri (formatTime now))))) expectRows))))) w0
     = (Inr x, w2)"
    unfolding markMapped_def by (auto elim!: transaction_cases)
  from body(3) obtain r v0 v1 v2 now where r: "activeRow drv q pid w0 = (Inr r, v0)"
    and dup: "(if uid \<noteq> 0 then duplicateMapping drv pid uid else ret ()) v0 = (Inr (), v1)"
    and upd: "timeNow drv v1 = (Inr now, v2)"
      "bindE (onUnique (exec drv (sql_update (byID q pid) (setMapped uid uri (formatTime now))))) expectRows v2 = (Inr x, w2)"
    by (elim bindE_InrE seqE_InrE guardE_InrE) simp
  have "db v0 = db w" using readonlyD [OF readonly_activeRow r] body(1) by simp
  then have "db v1 = db w"
    using readonlyD [OF readonly_if [OF readonly_duplicate readonly_basic(1)] dup] by simp
  then have v2: "db v2 = db w" using readonlyD [OF readonly_basic(7) upd(1)] by simp
  from upd(2) obtain n v3 where e: "exec drv (sql_update (byID q pid) (setMapped uid uri (formatTime now))) v2 = (Inr n, v3)"
    "expectRows n v3 = (Inr x, w2)"
    by (auto elim!: bindE_InrE simp: onUnique_def split: prod.splits sum.splits)
  from e(1) have "sql_update (byID q pid) (setMapped uid uri (formatTime now)) (db w) = Inr (db v3, n)"
    by (cases rule: exec_cases) (simp_all add: v2)
  moreover have "db v3 = db w1" using readonlyD [OF readonly_basic(8) e(2)] body(2) by simp
  ultimately have "rows (db w1) = map (\<lambda>r. if byID q pid r then setMapped uid uri (formatTime now) r else r) (rows (db w))"
    using sql_update_Inr(1) by metis
  moreover have "r \<in> set (rows (db w))" "byID q pid r"
    using r body(1) unfolding activeRow_def
    by (auto elim!: bindE_InrE seqE_InrE guardE_InrE dest: queryRow_found)
  ultimately show ?thesis by (rule that)
qed

text \<open>
  C33: after a successful \<^verbatim>\<open>MarkMapped\<close> the upstream identifier leads back to the job: looked up in
  its queue it returns that job, mapped, with the recorded URI.
\<close>

theorem mapped_job_is_found:
  assumes mapped: "MarkMapped drv [AString q, AInt pid, AInt uid, AString uri] w = (Inr x, w1)"
    and ok: "db_ok (db w)" and "uid \<noteq> 0" "q \<noteq> []" "fault drv (tick w1) = None"
  shows "\<exists>job. fst (GetByUpstreamID drv [AString q, AInt uid] w1) = Inr job
    \<and> ProxyJobID job = pid \<and> Queue job = q \<and> State job = StateMapped \<and> UpstreamJobID job = uid
    \<and> UpstreamJobURI job = uri"
proof -
  have m: "markMapped drv q pid uid uri w = (Inr x, w1)"
    using mapped by (simp add: MarkMapped_def parseMappingArgs_def ok_or_def)
  then obtain now r where rows: "rows (db w1) = map (\<lambda>r. if byID q pid r then setMapped uid uri now r else r) (rows (db w))"
    and r: "r \<in> set (rows (db w))" "byID q pid r" by (rule markMapped_Inr)
  let ?P = "\<lambda>r. upstream_job_id r = Some uid \<and> (q = [] \<or> queue r = q)"
  let ?r = "setMapped uid uri now r"
  have "?r = (if byID q pid r then setMapped uid uri now r else r)" using r(2) by simp
  then have in1: "?r \<in> set (rows (db w1))" unfolding rows set_map using r(1) by (rule image_eqI)
  have P: "upstream_job_id ?r = Some uid" "queue ?r = q"
    using r(2) assms(3,4) by (simp_all add: setMapped_def nullableIntValue_def byID_def)
  have "filter ?P (rows (db w1)) \<noteq> []" using in1 P unfolding filter_empty_conv by blast
  then obtain y ys where ys: "filter ?P (rows (db w1)) = y # ys" by (cases "filter ?P (rows (db w1))") auto
  then have "y \<in> set (filter ?P (rows (db w1)))" by simp
  then have y: "y \<in> set (rows (db w1))" "upstream_job_id y = Some uid" "queue y = q" using assms(4) by simp_all
  have "db_ok (db w1)"
    using effects_step [OF markMapped_permitted TrueI, of w drv q pid uid uri] m ok by (simp add: good_step_def)
  then have "index_ok (rows (db w1))" by (simp add: db_ok_def)
  from index_ok_unique [OF this y(1) in1 _ y(2) P(1)] have "y = ?r" by (simp add: y(3) P(2))
  then have "ProxyJobID (scanJob y) = pid \<and> Queue (scanJob y) = q \<and> State (scanJob y) = StateMapped
      \<and> UpstreamJobID (scanJob y) = uid \<and> UpstreamJobURI (scanJob y) = uri"
    using r(2) assms(3,4)
    by (simp add: scanJob_def normalizeRoute_def Let_def setMapped_def byID_def nullableIntValue_def
        nullableStringValue_def)
  moreover have "fst (GetByUpstreamID drv [AString q, AInt uid] w1) = Inr (scanJob y)"
    using ys by (simp add: GetByUpstreamID_def parseScopedID_def bindE_def queryRow_calm assms(5))
  ultimately show ?thesis by blast
qed

theorem mapped_job_is_found_witness:
  "\<exists>w1 job. MarkMapped calm [AString ''lab'', AInt 1, AInt 7, AString ''u''] ann_world = (Inr (), w1)
    \<and> fst (GetByUpstreamID calm [AString ''lab'', AInt 7] w1) = Inr job \<and> ProxyJobID job = 1"
proof -
  obtain w1 where w1: "MarkMapped calm [AString ''lab'', AInt 1, AInt 7, AString ''u''] ann_world = (Inr (), w1)"
    using after_map [of ann_reserved "''u''" 1 None 2]
    by (auto simp: ann_world_def outcome_def split: prod.splits sum.splits)
  from mapped_job_is_found [OF w1 ann_world_ok] w1 show ?thesis by auto
qed

end
