(* ===== verification/Store_Queries.thy ===== *)
theory Store_Queries
  imports Store_Theorems
begin

text \<open>
  Further properties of the job registry: which rows a request may touch, listing and paging,
  summaries, document accounting, reconciliation, retention and the instance identity.
\<close>

subsection \<open>Which rows a request may touch\<close>

definition parsed_target :: "store_error + string \<times> int \<times> 'a \<Rightarrow> (string \<times> int) option" where
  "parsed_target p = (case p of Inl _ \<Rightarrow> None | Inr (q, pid, _) \<Rightarrow> Some (q, pid))"

fun target :: "request \<Rightarrow> (string \<times> int) option" where
  "target (ReqUpdateRoute q pid route) = Some (q, pid)"
| "target (ReqMarkMapped args) = parsed_target (parseMappingArgs args)"
| "target (ReqMarkMappedNullable pid uid uri) = Some ([], pid)"
| "target (ReqMarkUncertain args) = parsed_target (parseUncertainArgs args)"
| "target (ReqMarkTerminal args) = parsed_target (parseTerminalArgs args)"
| "target (ReqUpdateState q pid st) = Some (q, pid)"
| "target (ReqUpdateDocument args) = parsed_target (parseDocumentArgs args)"
| "target (ReqMarkReconcileAttempt args) = (case parseIDTimeArgs args of Inl _ \<Rightarrow> None | Inr (pid, _) \<Rightarrow> Some ([], pid))"
| "target (ReqMarkReconciled args) = (case parseIDTimeArgs args of Inl _ \<Rightarrow> None | Inr (pid, _) \<Rightarrow> Some ([], pid))"
| "target (ReqScheduleReconciliation args) = (case parseIDTimeArgs args of Inl _ \<Rightarrow> None | Inr (pid, _) \<Rightarrow> Some ([], pid))"
| "target _ = None"

named_theorems touch_rules "rules for the rows a computation may change"

definition touches :: "(row \<Rightarrow> bool) \<Rightarrow> 'a sprog \<Rightarrow> bool" where
  "touches S m \<longleftrightarrow> (\<forall>w. \<exists>g. rows (db (snd (m w))) = map (\<lambda>r. if S r then g r else r) (rows (db w)))"

lemma touches_readonly: "readonly m \<Longrightarrow> touches S m"
  unfolding touches_def readonly_def by (intro allI exI [of _ "\<lambda>r. r"]) simp

lemma touches_after [touch_rules]:
  assumes "readonly m" "\<And>x. touches S (k x)"
  shows "touches S (bindE m k)"
  unfolding touches_def
proof
  fix w
  obtain r w1 where m: "m w = (r, w1)" by fastforce
  then have "db w1 = db w" using assms(1) by (rule readonlyD [rotated])
  then show "\<exists>g. rows (db (snd (bindE m k w))) = map (\<lambda>r. if S r then g r else r) (rows (db w))"
  proof (cases r)
    case (Inr x)
    have "\<exists>g. rows (db (snd (k x w1))) = map (\<lambda>r. if S r then g r else r) (rows (db w1))"
      using assms(2) [of x] by (simp only: touches_def)
    with m Inr \<open>db w1 = db w\<close> show ?thesis by simp
  qed (use m in \<open>auto intro: exI [of _ "\<lambda>r. r"]\<close>)
qed

lemma touches_after_seq [touch_rules]: "readonly m \<Longrightarrow> touches S k \<Longrightarrow> touches S (seqE m k)"
  unfolding seqE_def by (rule touches_after)

lemma touches_then:
  assumes "touches S m" "\<And>x. readonly (k x)"
  shows "touches S (bindE m k)"
  unfolding touches_def
proof
  fix w
  obtain r w1 where m: "m w = (r, w1)" by fastforce
  have "db (snd (bindE m k w)) = db w1"
    using m assms(2) by (cases r) (auto simp: readonly_def)
  then show "\<exists>g. rows (db (snd (bindE m k w))) = map (\<lambda>r. if S r then g r else r) (rows (db w))"
    using assms(1) m unfolding touches_def by (metis prod.sel(2))
qed

lemma touches_exec:
  assumes "\<And>r. P r \<Longrightarrow> S r"
  shows "touches S (exec drv (sql_update P f))"
  unfolding touches_def
proof
  fix w
  obtain x w1 where e: "exec drv (sql_update P f) w = (x, w1)" by fastforce
  then show "\<exists>g. rows (db (snd (exec drv (sql_update P f) w))) = map (\<lambda>r. if S r then g r else r) (rows (db w))"
  proof (cases rule: exec_cases)
    case (works n)
    then have "rows (db w1) = map (\<lambda>r. if P r then f r else r) (rows (db w))" by (simp add: sql_update_Inr(1))
    then have "rows (db w1) = map (\<lambda>r. if S r then (if P r then f r else r) else r) (rows (db w))"
      using assms by (auto intro: map_cong)
    then show ?thesis using e by (intro exI [of _ "\<lambda>r. if P r then f r else r"]) simp
  qed (use e in \<open>auto intro: exI [of _ "\<lambda>r. r"]\<close>)
qed

lemma touches_onUnique: "touches S m \<Longrightarrow> touches S (onUnique m)"
  unfolding touches_def onUnique_def by (auto split: prod.splits sum.splits) (metis prod.sel(2))+

lemma touches_transaction [touch_rules]:
  assumes "touches S m"
  shows "touches S (transaction drv m)"
  unfolding touches_def
proof
  fix w
  obtain x w1 where e: "transaction drv m w = (x, w1)" by fastforce
  then show "\<exists>g. rows (db (snd (transaction drv m w))) = map (\<lambda>r. if S r then g r else r) (rows (db w))"
  proof (cases rule: transaction_cases)
    case (works y w0 w2)
    then show ?thesis using assms e unfolding touches_def by (metis prod.sel(2))
  qed (use e in \<open>auto intro: exI [of _ "\<lambda>r. r"]\<close>)
qed

lemma touches_update [touch_rules]:
  "(\<And>r. P r \<Longrightarrow> S r) \<Longrightarrow> (\<And>n. readonly (k n)) \<Longrightarrow> touches S (bindE (exec drv (sql_update P f)) k)"
  by (intro touches_then touches_exec)

lemma touches_if [touch_rules]: "touches S m \<Longrightarrow> touches S m' \<Longrightarrow> touches S (if b then m else m')"
  by simp

lemma markMapped_touches: "touches (byID q pid) (markMapped drv q pid uid uri)"
  unfolding markMapped_def
  by (intro touches_transaction touches_after [OF readonly_activeRow] touches_after_seq
      touches_after [OF readonly_basic(7)] touches_then [OF touches_onUnique [OF touches_exec]] effect_rules)

lemma touches_parsed:
  assumes "parsed_target p = Some (q, pid)" "\<And>x. touches (byID q pid) (k (q, pid, x))"
  shows "touches (byID q pid) (bindE (liftE p) k)"
  using assms by (auto simp: parsed_target_def touches_def bindE_def split: sum.splits)

lemmas touch_steps = touches_after [OF readonly_orNow] touches_after [OF readonly_basic(7)]
  touches_after_seq [OF readonly_activeRow] touches_after [OF readonly_queryRow] touches_transaction
  touches_update touches_if

lemma inQueue_byID: "inQueue q pid r \<Longrightarrow> byID q pid r"
  by (simp add: inQueue_def byID_def)

lemma target_touches:
  assumes "target req = Some (q, pid)"
  shows "\<exists>g. rows (db (snd (serve drv req w))) = map (\<lambda>r. if byID q pid r then g r else r) (rows (db w))"
proof -
  have via: "\<exists>g. rows (db (snd (outcome m w))) = map (\<lambda>r. if byID q pid r then g r else r) (rows (db w))"
    if "touches (byID q pid) m" for m :: "unit sprog"
    using that unfolding touches_def outcome_def by (auto split: prod.splits sum.splits) (metis prod.sel(2))+
  have id: "touches (byID q pid) (bindE (liftE (parseIDTimeArgs args)) k)"
    if "(case parseIDTimeArgs args of Inl _ \<Rightarrow> None | Inr (p, _) \<Rightarrow> Some ([], p)) = Some (q, pid)"
      "\<And>t. touches (byID [] pid) (k (pid, t))" for args and k :: "int \<times> instant \<Rightarrow> unit sprog"
    using that by (auto simp: touches_def bindE_def split: sum.splits)
  show ?thesis
  proof (cases req)
    case (ReqUpdateRoute q' pid' route)
    with assms show ?thesis
      by (auto simp: UpdateRoute_def Let_def intro!: via touch_steps effect_rules)
  next
    case (ReqMarkMapped args)
    with assms show ?thesis
      by (auto simp: MarkMapped_def intro!: via touches_parsed markMapped_touches split: prod.splits)
  next
    case (ReqMarkMappedNullable pid' uid uri)
    with assms have eq: "q = []" "pid' = pid" by simp_all
    show ?thesis unfolding ReqMarkMappedNullable serve.simps
      by (rule via) (simp add: eq MarkMappedNullable_def markMapped_touches)
  next
    case (ReqMarkUncertain args)
    with assms show ?thesis
      by (auto simp: MarkUncertain_def intro!: via touches_parsed touch_steps effect_rules split: prod.splits)
  next
    case (ReqMarkTerminal args)
    with assms show ?thesis
      by (auto simp: MarkTerminal_def markTerminalParsed_def Let_def intro!: via touches_parsed touch_steps effect_rules split: prod.splits)
  next
    case (ReqUpdateState q' pid' st)
    with assms show ?thesis
      by (auto simp: UpdateState_def intro!: via touch_steps effect_rules intro: inQueue_byID)
  next
    case (ReqUpdateDocument args)
    with assms show ?thesis
      by (auto simp: UpdateDocument_def intro!: via touches_parsed touch_steps effect_rules split: prod.splits)
  next
    case (ReqMarkReconcileAttempt args)
    with assms show ?thesis
      by (auto simp: MarkReconcileAttempt_def Let_def intro!: via id touch_steps effect_rules)
  next
    case (ReqMarkReconciled args)
    with assms show ?thesis
      by (auto simp: MarkReconciled_def intro!: via id touch_steps effect_rules split: prod.splits)
  next
    case (ReqScheduleReconciliation args)
    with assms show ?thesis
      by (auto simp: ScheduleReconciliation_def intro!: via id touches_after_seq touch_steps effect_rules split: prod.splits)
  qed (use assms in auto)
qed



subsection \<open>Listing\<close>

lemma query_calm: "fault drv (tick w) = None \<Longrightarrow> query drv q w = (Inr (q (rows (db w))), w\<lparr>tick := Suc (tick w)\<rparr>)"
  by (simp add: call_defs)

lemma rows_distinct: "db_ok d \<Longrightarrow> distinct (rows d)"
  unfolding db_ok_def strict_sorted_iff by (simp add: distinct_map)

text \<open>
  The jobs of a user in a queue are exactly those rows of the table, in the order of their
  creation texts and identifiers, each once.
\<close>

theorem MyJobs_exact:
  assumes "fault drv (tick w) = None" "q \<noteq> []" "user \<noteq> []" "db_ok (db w)"
  shows "\<exists>rs. fst (MyJobs drv q user w) = Inr (map scanJob rs) \<and> distinct rs
    \<and> set rs = {r \<in> set (rows (db w)). queue r = q \<and> requesting_user r = user}
    \<and> sorted (map (\<lambda>r. (created_at r, proxy_job_id r)) rs)"
proof -
  let ?f = "noFilter\<lparr>fQueue := q, fRequestingUser := user\<rparr>"
  have merge: "mergeJobFilters noFilter ?f = ?f"
    by (simp add: mergeJobFilters_def noFilter_def orText_def orElse_def)
  let ?rs = "listRows ?f (rows (db w))"
  have rs: "?rs = sort_key (\<lambda>r. (created_at r, proxy_job_id r)) (filter (listed ?f) (rows (db w)))"
    by (simp add: listRows_def window_def noFilter_def)
  have "distinct ?rs" using rows_distinct [OF assms(4)] by (simp add: rs)
  moreover have "listed ?f r \<longleftrightarrow> queue r = q \<and> requesting_user r = user" for r
    using assms(2,3) by (auto simp: listed_def noFilter_def Let_def orText_def)
  then have "set ?rs = {r \<in> set (rows (db w)). queue r = q \<and> requesting_user r = user}" by (auto simp: rs)
  moreover have "sorted (map (\<lambda>r. (created_at r, proxy_job_id r)) ?rs)" by (simp only: rs sorted_sort_key)
  moreover have "fst (MyJobs drv q user w) = Inr (map scanJob ?rs)"
    unfolding MyJobs_def ListJobs_def parseJobFilterArgs_def filterArgs.simps merge
    by (simp add: bindE_def seqE_def guardE_def query_calm assms(1) noFilter_def)
  ultimately show ?thesis by blast
qed

theorem MyJobs_exact_witness:
  "\<exists>rs. fst (MyJobs calm ''lab'' ''ann'' ann_world) = Inr (map scanJob rs) \<and> set rs = {ann_reserved}"
proof -
  have "requesting_user ann_reserved = ''ann''"
    by (simp add: ann_reserved_def lab_row_def rowOfJob_def withDefaults_def normalizeRoute_def reservation_def
        zeroJob_def Let_def)
  then have "{r \<in> set (rows (db ann_world)). queue r = ''lab'' \<and> requesting_user r = ''ann''} = {ann_reserved}"
    by (auto simp: ann_world_def)
  then show ?thesis
    using MyJobs_exact [of calm ann_world "''lab''" "''ann''"] ann_world_ok by auto
qed

lemma concat_windows:
  "concat (map (\<lambda>i. take lim (drop (i * lim) xs)) [0..<n]) = take (n * lim) xs"
proof (induction n)
  case (Suc n)
  then show ?case using take_add [of "n * lim" lim xs] by (simp add: add.commute)
qed simp



subsection \<open>Summaries\<close>

definition tally :: "('a \<Rightarrow> bool) \<Rightarrow> ('a \<times> nat) list \<Rightarrow> nat" where
  "tally P gs = sum_list (map snd (filter (\<lambda>g. P (fst g)) gs))"

lemma summary_fold:
  fixes s :: JobSummary
  defines "v m k \<equiv> (case m k of None \<Rightarrow> 0 | Some x \<Rightarrow> (x :: int))"
  shows "Total (foldl addGroup s gs) = Total s + int (tally (\<lambda>_. True) gs)
    \<and> v (ByQueue (foldl addGroup s gs)) q = v (ByQueue s) q + int (tally (\<lambda>k. fst k = q) gs)
    \<and> v (ByState (foldl addGroup s gs)) st = v (ByState s) st + int (tally (\<lambda>k. snd k = st) gs)"
  unfolding v_def
  by (induction gs arbitrary: s) (auto simp: tally_def addGroup_def bump_def split: prod.splits)

lemma tally_groups: "tally P (groups rs) = length (filter (\<lambda>r. P (queue r, state r)) rs)"
proof -
  let ?f = "\<lambda>r. (queue r, state r)"
  let ?ks = "sort (remdups (map ?f rs))"
  have "tally P (groups rs) = sum_list (map (\<lambda>k. length (filter (\<lambda>r. ?f r = k) rs)) (filter P ?ks))"
    by (simp add: tally_def groups_def filter_map comp_def)
  also have "\<dots> = (\<Sum>k \<in> set (filter P ?ks). length (filter (\<lambda>r. ?f r = k) rs))"
    by (rule sum_list_distinct_conv_sum_set) simp
  also have "\<dots> = (\<Sum>k \<in> ?f ` {r \<in> set rs. P (?f r)}. count_list (map ?f (filter (\<lambda>r. P (?f r)) rs)) k)"
    by (rule sum.cong) (auto simp: count_list_eq_length_filter filter_map comp_def intro!: arg_cong [where f = length] filter_cong)
  also have "\<dots> = length (filter (\<lambda>r. P (?f r)) rs)"
    using sum_count_set [of "map ?f (filter (\<lambda>r. P (?f r)) rs)" "?f ` {r \<in> set rs. P (?f r)}"] by auto
  finally show ?thesis .
qed

text \<open>
  A summary counts every job once: its total is the size of the table, and the entry of a
  queue or a state is the number of its jobs (an absent entry counts as 0).
\<close>

theorem SummarizeJobs_counts:
  assumes "fault drv (tick w) = None"
  shows "\<exists>s. fst (SummarizeJobs drv False w) = Inr s \<and> Total s = int (length (rows (db w)))
    \<and> (\<forall>q. (case ByQueue s q of None \<Rightarrow> 0 | Some n \<Rightarrow> n) = int (length (filter (\<lambda>r. queue r = q) (rows (db w)))))
    \<and> (\<forall>st. (case ByState s st of None \<Rightarrow> 0 | Some n \<Rightarrow> n) = int (length (filter (\<lambda>r. state r = st) (rows (db w)))))"
proof -
  let ?z = "\<lparr>Total = 0, ByQueue = Map.empty, ByState = Map.empty\<rparr> :: JobSummary"
  have "fst (SummarizeJobs drv False w) = Inr (foldl addGroup ?z (groups (rows (db w))))"
    by (simp add: SummarizeJobs_def seqE_def bindE_def guardE_def query_calm assms)
  then show ?thesis using summary_fold [of ?z "groups (rows (db w))"] by (simp add: tally_groups)
qed

theorem SummarizeJobs_counts_witness:
  "\<exists>s. fst (SummarizeJobs calm False ann_world) = Inr s \<and> Total s = 1"
  using SummarizeJobs_counts [of calm ann_world] by (auto simp: ann_world_def)

subsection \<open>Document accounting\<close>

record document_report =
  dFormat :: string
  dBytes :: int
  dPages :: "int option"
  dCopies :: int
  dImpressions :: "int option"
  dLast :: bool

definition report :: "string \<Rightarrow> int \<Rightarrow> document_report \<Rightarrow> request" where
  "report q pid d = ReqUpdateDocument [AString q, AInt pid, AString (dFormat d), AInt64 (dBytes d), AIntPtr (dPages d),
     AInt (dCopies d), AIntPtr (dImpressions d), ABool (dLast d)]"

definition known :: "int option list \<Rightarrow> int option" where
  "known xs = (if \<forall>x \<in> set xs. x = None then None else Some (sum_list (map (\<lambda>x. case x of None \<Rightarrow> 0 | Some v \<Rightarrow> v) xs)))"

lemma known_snoc: "known (xs @ [x]) = addOptional x (known xs)"
proof -
  have "\<forall>x \<in> set xs. x = None \<Longrightarrow> sum_list (map (\<lambda>x. case x of None \<Rightarrow> 0 | Some v \<Rightarrow> (v :: int)) xs) = 0"
    by (induction xs) auto
  then show ?thesis by (cases x) (auto simp: known_def addOptional_def split: option.splits)
qed

lemma mapping_keys_map:
  assumes "\<And>r. queue (f r) = queue r" "\<And>r. upstream_job_id (f r) = upstream_job_id r"
  shows "mapping_keys (map f rs) = mapping_keys rs"
  by (induction rs) (auto simp: mapping_keys_def map_filter_simps assms split: option.split)

lemma report_step:
  assumes "\<And>n. fault drv n = None" "db_ok (db w)" "r \<in> set (rows (db w))" "proxy_job_id r = pid" "q = [] \<or> queue r = q"
  shows "\<exists>now. addDocument (dFormat d) (dBytes d) (dPages d) (orElse (dCopies d) 1) (dImpressions d) (dLast d) now r
    \<in> set (rows (db (snd (serve drv (report q pid d) w))))"
proof -
  let ?f = "\<lambda>now. addDocument (dFormat d) (dBytes d) (dPages d) (orElse (dCopies d) 1) (dImpressions d) (dLast d) now"
  have "mapping_keys (map (\<lambda>r. if P r then ?f now r else r) rs) = mapping_keys rs" for P now rs
    by (rule mapping_keys_map) (simp_all add: addDocument_def)
  then have idx: "index_ok (map (\<lambda>r. if P r then ?f now r else r) (rows (db w)))" for P now
    using assms(2) by (simp add: db_ok_def index_ok_def)
  have parsed: "parseDocumentArgs [AString q, AInt pid, AString (dFormat d), AInt64 (dBytes d), AIntPtr (dPages d),
      AInt (dCopies d), AIntPtr (dImpressions d), ABool (dLast d)] =
    Inr (q, pid, dFormat d, dBytes d, dPages d, dCopies d, dImpressions d, dLast d)"
    by (simp add: parseDocumentArgs_def splitQueue_def ok_or_def)
  have "rows (db (snd (serve drv (report q pid d) w))) =
      map (\<lambda>r. if byID q pid r then ?f (formatTime (clock drv (tick w))) r else r) (rows (db w))"
    using idx [of "byID q pid"] assms(1)
    by (simp add: report_def UpdateDocument_def parsed outcome_def call_defs sql_update_def Let_def)
  then show ?thesis using assms(3-5) by (intro exI [of _ "formatTime (clock drv (tick w))"]) (force simp: byID_def)
qed

text \<open>
  Document reports accumulate: after any number of reports for a job its payload size is the
  sum of the reported sizes, its document count the number of non-empty documents, its page count
  the sum of the known page counts, and its last-document mark is set if any report set it.
\<close>

theorem documents_accumulate:
  assumes "\<And>n. fault drv n = None" "\<And>n. clock drv n \<noteq> 0" "db_ok (db w)"
    and "r \<in> set (rows (db w))" "proxy_job_id r = pid" "queue r = q"
  shows "\<exists>r' \<in> set (rows (db (play drv (map (report q pid) ds) w))). proxy_job_id r' = pid \<and> queue r' = q
    \<and> payload_bytes r' = payload_bytes r + sum_list (map dBytes ds)
    \<and> document_count r' = document_count r + int (length (filter (\<lambda>d. dBytes d > 0) ds))
    \<and> page_count r' = known (page_count r # map dPages ds)
    \<and> (last_document r' \<noteq> 0 \<longleftrightarrow> last_document r \<noteq> 0 \<or> (\<exists>d \<in> set ds. dLast d))"
  using assms
proof (induction ds rule: rev_induct)
  case Nil
  then show ?case by (intro bexI [of _ r]) (auto simp: play_def known_def)
next
  case (snoc d ds)
  then obtain r' where r': "r' \<in> set (rows (db (play drv (map (report q pid) ds) w)))"
    "proxy_job_id r' = pid" "queue r' = q" "payload_bytes r' = payload_bytes r + sum_list (map dBytes ds)"
    "document_count r' = document_count r + int (length (filter (\<lambda>d. dBytes d > 0) ds))"
    "page_count r' = known (page_count r # map dPages ds)"
    "last_document r' \<noteq> 0 \<longleftrightarrow> last_document r \<noteq> 0 \<or> (\<exists>d \<in> set ds. dLast d)"
    by blast
  have "db_ok (db (play drv (map (report q pid) ds) w))"
    by (rule reg.reaches_ok [OF play_reaches snoc.prems(3)]) (auto simp: sane_def report_def snoc.prems(2))
  from report_step [OF snoc.prems(1) this r'(1,2), of q d] r'(3) obtain now where
    "addDocument (dFormat d) (dBytes d) (dPages d) (orElse (dCopies d) 1) (dImpressions d) (dLast d) now r'
      \<in> set (rows (db (play drv (map (report q pid) (ds @ [d])) w)))" (is "?new \<in> _")
    by (auto simp: play_def)
  moreover from known_snoc [of "page_count r # map dPages ds" "dPages d"] have
    "page_count ?new = known (page_count r # map dPages (ds @ [d]))" by (simp add: addDocument_def r'(6))
  ultimately show ?case
    using r' by (intro bexI [of _ ?new]) (auto simp: addDocument_def boolInt_def)
qed

theorem documents_accumulate_witness:
  "\<exists>r' \<in> set (rows (db (play calm (map (report ''lab'' 1)
      [\<lparr>dFormat = ''image/urf'', dBytes = 49, dPages = Some 1, dCopies = 1, dImpressions = None, dLast = True\<rparr>]) ann_world))).
    payload_bytes r' = payload_bytes ann_reserved + 49"
  using documents_accumulate [of calm ann_world ann_reserved 1 "''lab''"
      "[\<lparr>dFormat = ''image/urf'', dBytes = 49, dPages = Some 1, dCopies = 1, dImpressions = None, dLast = True\<rparr>]"]
    ann_world_ok
  by (auto simp: ann_world_def)

subsection \<open>Reconciliation\<close>

lemma backoff_form:
  assumes "0 < at" "0 < d"
  shows "reconciliationBackoff at (at + d) = max minute (min hour (2 * d))"
  using assms by (auto simp: reconciliationBackoff_def Let_def reconciliationInitialBackoff_def
      reconciliationMaxBackoff_def minute_def hour_def)

lemma backoff_range: "minute \<le> reconciliationBackoff a b \<and> reconciliationBackoff a b \<le> hour"
  by (auto simp: reconciliationBackoff_def Let_def reconciliationInitialBackoff_def reconciliationMaxBackoff_def
      minute_def hour_def)

lemma capped: "minute \<le> x \<Longrightarrow> max minute (min hour (2 * min hour x)) = min hour (2 * x)"
  by (auto simp: min_def max_def hour_def minute_def)

text \<open>
  The delay between two attempts is always between a minute and an hour, the first one is a
  minute, and it doubles from attempt to attempt until it stays at an hour.
\<close>

theorem reconciliation_backoff:
  assumes "0 < at"
  shows "minute \<le> reconciliationBackoff a b \<and> reconciliationBackoff a b \<le> hour
    \<and> reconciliationBackoff at at = minute
    \<and> ((\<lambda>d. reconciliationBackoff at (at + d)) ^^ n) minute = min hour (2 ^ n * minute)"
proof -
  have "((\<lambda>d. reconciliationBackoff at (at + d)) ^^ n) minute = min hour (2 ^ n * minute)"
  proof (induction n)
    case (Suc n)
    have "0 < min hour (2 ^ n * minute)" "minute \<le> 2 ^ n * minute" by (simp_all add: hour_def minute_def)
    then have "reconciliationBackoff at (at + min hour (2 ^ n * minute)) =
        max minute (min hour (2 * min hour (2 ^ n * minute)))"
      using backoff_form [OF assms] by blast
    also have "\<dots> = min hour (2 * (2 ^ n * minute))"
      using capped [OF \<open>minute \<le> 2 ^ n * minute\<close>] .
    finally show ?case using Suc by (simp add: mult.assoc)
  qed (simp add: hour_def minute_def)
  moreover have "reconciliationBackoff at at = minute"
    by (simp add: reconciliationBackoff_def reconciliationInitialBackoff_def)
  ultimately show ?thesis by (simp add: backoff_range)
qed

theorem reconciliation_backoff_witness:
  "((\<lambda>d. reconciliationBackoff 1 (1 + d)) ^^ 6) minute = hour"
  using reconciliation_backoff [of 1 0 0 6] by (simp add: hour_def minute_def)

lemma candidate_rows_properties:
  fixes q at lim rs
  defines "cs \<equiv> candidateRows q at lim rs"
  shows "set cs \<subseteq> {r \<in> set rs. due q at r}" "sorted (map dueKey cs)"
    "r \<in> set rs \<Longrightarrow> due q at r \<Longrightarrow> r \<notin> set cs \<Longrightarrow> 0 < lim \<and> length cs = nat lim \<and> (\<forall>c \<in> set cs. dueKey c \<le> dueKey r)"
proof -
  let ?xs = "sort_key dueKey (filter (due q at) rs)"
  have cs: "cs = (if lim > 0 then take (nat lim) ?xs else ?xs)"
    by (simp add: cs_def candidateRows_def window_def)
  then show "set cs \<subseteq> {r \<in> set rs. due q at r}" by (auto dest: in_set_takeD)
  have sorted: "sorted (map dueKey ?xs)" by simp
  then show "sorted (map dueKey cs)" by (simp add: cs take_map [symmetric] sorted_wrt_take)
  assume r: "r \<in> set rs" "due q at r" "r \<notin> set cs"
  then have lim: "0 < lim" "cs = take (nat lim) ?xs" and "r \<in> set ?xs" by (auto simp: cs split: if_splits)
  then have rest: "r \<in> set (drop (nat lim) ?xs)" using r(3) by (metis Un_iff append_take_drop_id set_append)
  then have "nat lim < length ?xs" by (cases "nat lim < length ?xs") auto
  then have "length cs = nat lim" by (simp add: lim(2))
  moreover have "dueKey c \<le> dueKey r" if "c \<in> set cs" for c
    using sorted that rest unfolding lim(2)
    by (subst (asm) append_take_drop_id [of "nat lim" ?xs, symmetric]) (auto simp: sorted_append simp del: append_take_drop_id)
  ultimately show "0 < lim \<and> length cs = nat lim \<and> (\<forall>c \<in> set cs. dueKey c \<le> dueKey r)" using lim(1) by simp
qed

text \<open>
  The reconciliation candidates are uncertain jobs that are due, in the order in which they
  became due; a due job is only left out when as many jobs as the limit allows became due no later.
\<close>

theorem candidates_exact:
  assumes "fault drv (Suc (tick w)) = None"
  shows "\<exists>cs. fst (ReconciliationCandidates drv [AString q, ATime at, AInt lim] w) = Inr (map scanJob cs)
    \<and> set cs \<subseteq> {r \<in> set (rows (db w)). state r = StateUncertain \<and> due q at r}
    \<and> sorted (map dueKey cs)
    \<and> (\<forall>r \<in> set (rows (db w)). due q at r \<and> r \<notin> set cs \<longrightarrow>
         0 < lim \<and> length cs = nat lim \<and> (\<forall>c \<in> set cs. dueKey c \<le> dueKey r))"
proof (intro exI conjI)
  show "fst (ReconciliationCandidates drv [AString q, ATime at, AInt lim] w) =
      Inr (map scanJob (candidateRows q at lim (rows (db w))))"
    by (simp add: ReconciliationCandidates_def bindE_def timeNow_def parseReconcileArgs_def query_calm assms)
qed (use candidate_rows_properties [where q = q and at = at and lim = lim and rs = "rows (db w)"] in \<open>auto simp: due_def\<close>)

theorem candidates_exact_witness:
  "\<exists>cs. fst (ReconciliationCandidates calm [AString ''lab'', ATime 1, AInt 5] ann_world) = Inr (map scanJob cs)
    \<and> set cs \<subseteq> {r \<in> {ann_reserved}. state r = StateUncertain \<and> due ''lab'' 1 r}"
  using candidates_exact [of calm ann_world "''lab''" 1 5] by (auto simp: ann_world_def)

lemma attempt_result:
  assumes "MarkReconcileAttempt drv [AInt pid, ATime at] w = (Inr x, w1)" "at \<noteq> 0" "db_ok (db w)"
    and "r' \<in> set (rows (db w1))" "proxy_job_id r' = pid"
  obtains delay where "next_reconcile_at r' = Some (formatTime (at + delay))" "minute \<le> delay" "delay \<le> hour"
    "state r' = StateUncertain" "terminal_at r' = None"
proof -
  let ?P = "\<lambda>r. byID [] pid r \<and> state r = StateUncertain \<and> terminal_at r = None"
  let ?body = "bindE (queryRow drv (byID [] pid)) (\<lambda>r.
       let nxt = at + reconciliationBackoff (parseTime (reconcile_at r)) (parseTime (next_reconcile_at r)) in
       bindE (exec drv (sql_update ?P (setAttempt (formatTime at) (formatTime nxt)))) (\<lambda>n.
       if n = 0 then bindE (queryRow drv (byID [] pid)) (\<lambda>r.
         if terminal_at r \<noteq> None \<or> IsTerminalState (state r) \<or> state r \<noteq> StateUncertain
         then throw ErrInvalidTransition else throw ErrNoRows)
       else ret ()))"
  have "transaction drv ?body w = (Inr x, w1)"
    using assms(1,2) by (simp add: MarkReconcileAttempt_def parseIDTimeArgs_def ok_or_def orNow_def)
  then obtain w0 w2 where body: "db w0 = db w" "db w1 = db w2" "?body w0 = (Inr x, w2)"
    by (auto elim!: transaction_cases)
  from body(3) obtain r v0 n v1 where r: "queryRow drv (byID [] pid) w0 = (Inr r, v0)"
    and e: "exec drv (sql_update ?P (setAttempt (formatTime at) (formatTime
        (at + reconciliationBackoff (parseTime (reconcile_at r)) (parseTime (next_reconcile_at r)))))) v0 = (Inr n, v1)"
    and k: "(if n = 0 then bindE (queryRow drv (byID [] pid)) (\<lambda>r.
         if terminal_at r \<noteq> None \<or> IsTerminalState (state r) \<or> state r \<noteq> StateUncertain
         then throw ErrInvalidTransition else throw ErrNoRows) else ret ()) v1 = (Inr x, w2)"
    unfolding Let_def by (elim bindE_InrE)
  from k have n: "n \<noteq> 0" "v1 = w2" by (auto elim!: bindE_InrE split: if_splits)
  let ?d = "reconciliationBackoff (parseTime (reconcile_at r)) (parseTime (next_reconcile_at r))"
  from e have upd: "sql_update ?P (setAttempt (formatTime at) (formatTime (at + ?d))) (db w) = Inr (db w1, n)"
    by (cases rule: exec_cases) (use queryRow_found(3) [OF r] body n in auto)
  note rows = sql_update_Inr(1) [OF upd]
  have "\<exists>y \<in> set (rows (db w)). ?P y"
    using sql_update_Inr(2) [OF upd] n(1) by (metis (mono_tags, lifting) filter_empty_conv list.size(3))
  then obtain y where y: "y \<in> set (rows (db w))" "?P y" by blast
  from assms(4) obtain z where z: "z \<in> set (rows (db w))"
    "r' = (if ?P z then setAttempt (formatTime at) (formatTime (at + ?d)) z else z)"
    unfolding rows by auto
  then have "z = y" using ids_unique [OF assms(3) z(1) y(1)] assms(5) y(2) by (auto simp: byID_def setAttempt_def split: if_splits)
  with z y have "next_reconcile_at r' = Some (formatTime (at + ?d))" "state r' = StateUncertain" "terminal_at r' = None"
    by (simp_all add: setAttempt_def)
  with backoff_range show ?thesis using that by blast
qed

lemma formatTime_order:
  assumes "printable t" "printable t'" "0 < t" "t div 1000000000 < t' div 1000000000"
  shows "formatTime t < formatTime t'"
proof -
  have "t < t'" using assms(4) zdiv_mono1 [of t' t 1000000000] by (cases "t < t'") auto
  then show ?thesis using format_less [OF assms(1,2,4)] assms(3) by (simp add: formatTime_def)
qed

lemma printable_between: "printable b \<Longrightarrow> 0 \<le> a \<Longrightarrow> a \<le> b \<Longrightarrow> printable a"
  by (simp add: printable_def)

text \<open>
  C39: a recorded attempt takes the job out of the candidates for at least a minute, and it is back
  no later than an hour after the attempt (both to the second): unmatched jobs neither crowd out
  the others nor are they given up.
\<close>

theorem attempted_job_waits:
  assumes "MarkReconcileAttempt drv [AInt pid, ATime at] w = (Inr x, w1)" "db_ok (db w)"
    and "0 < at" "printable (at + hour)" "r' \<in> set (rows (db w1))" "proxy_job_id r' = pid" "0 < t" "printable t"
  shows "(t div 1000000000 < (at + minute) div 1000000000 \<longrightarrow> \<not> due q t r')
    \<and> ((at + hour) div 1000000000 < t div 1000000000 \<longrightarrow> due [] t r')"
proof -
  from assms(3) have "at \<noteq> 0" by simp
  from attempt_result [OF assms(1) this assms(2,5,6)] obtain d where
    d: "next_reconcile_at r' = Some (formatTime (at + d))" "minute \<le> d" "d \<le> hour" "state r' = StateUncertain" by metis
  have "printable (at + d)" "0 < at + d" using d(2,3) assms(3,4) printable_between [of "at + hour" "at + d"]
    by (auto simp: minute_def)
  moreover have "(at + minute) div 1000000000 \<le> (at + d) div 1000000000"
      "(at + d) div 1000000000 \<le> (at + hour) div 1000000000" using d by (simp_all add: zdiv_mono1)
  ultimately have "t div 1000000000 < (at + minute) div 1000000000 \<Longrightarrow> formatTime t < formatTime (at + d)"
    and "(at + hour) div 1000000000 < t div 1000000000 \<Longrightarrow> formatTime (at + d) < formatTime t"
    using formatTime_order assms(7,8) by (meson order.strict_trans2 order.strict_trans1)+
  then show ?thesis by (auto simp: due_def d(1,4))
qed

definition lost_row :: row where
  "lost_row = setUncertain ''no answer'' (formatTime (clock calm 1)) ann_reserved"

definition lost_world :: world where
  "lost_world = \<lparr>db = \<lparr>rows = [lost_row], seq = 1, instance_id = None\<rparr>, tick = 2\<rparr>"

lemma lost_fields [simp]: "proxy_job_id lost_row = 1" "state lost_row = StateUncertain" "terminal_at lost_row = None"
  "upstream_job_id lost_row = None" "queue lost_row = ''lab''"
  by (simp_all add: lost_row_def setUncertain_def)

lemma lost_world_ok: "db_ok (db lost_world)"
  by (simp add: lost_world_def db_ok_def index_ok_def mapping_keys_def map_filter_simps term_ok_def)

theorem attempted_job_waits_witness:
  "\<exists>w1 r'. MarkReconcileAttempt calm [AInt 1, ATime 63000000000000000000] lost_world = (Inr (), w1)
    \<and> r' \<in> set (rows (db w1)) \<and> \<not> due [] 63000000059000000000 r' \<and> due [] 63000003601000000000 r'"
proof -
  have "\<exists>w1. MarkReconcileAttempt calm [AInt 1, ATime 63000000000000000000] lost_world = (Inr (), w1) \<and>
      (\<exists>r'. r' \<in> set (rows (db w1)) \<and> proxy_job_id r' = 1)"
    by (simp add: MarkReconcileAttempt_def parseIDTimeArgs_def ok_or_def orNow_def lost_world_def call_defs byID_def
        sql_update_def Let_def setAttempt_def index_ok_def mapping_keys_def map_filter_simps)
  then obtain w1 r' where w1: "MarkReconcileAttempt calm [AInt 1, ATime 63000000000000000000] lost_world = (Inr (), w1)"
    "r' \<in> set (rows (db w1))" "proxy_job_id r' = 1" by blast
  have "printable (63000000000000000000 + hour)" "printable 63000000059000000000" "printable 63000003601000000000"
    by code_simp+
  then have "\<not> due [] 63000000059000000000 r'" "due [] 63000003601000000000 r'"
    using attempted_job_waits [OF w1(1) lost_world_ok _ _ w1(2,3), of 63000000059000000000]
      attempted_job_waits [OF w1(1) lost_world_ok _ _ w1(2,3), of 63000003601000000000]
    by (simp_all add: minute_def hour_def)
  with w1 show ?thesis by blast
qed

subsection \<open>Retention\<close>

text \<open>
  Cleanup deletes exactly the rows in one of the terminal states whose terminal time lies
  before the cutoff, and reports their number. No other job is deleted; a job that became
  terminal in an earlier second than the cutoff is, and one of a later second is kept.
\<close>

theorem cleanup_exact:
  assumes "CleanupTerminalBefore drv (ATime c) w = (Inr n, w1)" "0 < c" "printable c"
  shows "rows (db w1) = filter (\<lambda>r. \<not> expired (formatTime c) r) (rows (db w))
    \<and> n + length (rows (db w1)) = length (rows (db w))
    \<and> (\<forall>r \<in> set (rows (db w)). state r \<notin> set terminalStates \<longrightarrow> r \<in> set (rows (db w1)))
    \<and> (\<forall>r \<in> set (rows (db w)). \<forall>t. 0 < t \<and> printable t \<and> state r \<in> set terminalStates
         \<and> terminal_at r = Some (formatTime t) \<longrightarrow>
           (t div 1000000000 < c div 1000000000 \<longrightarrow> r \<notin> set (rows (db w1)))
         \<and> (c div 1000000000 < t div 1000000000 \<longrightarrow> r \<in> set (rows (db w1))))"
proof -
  let ?P = "expired (formatTime c)"
  have e: "exec drv (sql_delete ?P) (w\<lparr>tick := Suc (tick w)\<rparr>) = (Inr n, w1)"
    using assms(1,2) by (simp add: CleanupTerminalBefore_def bindE_def timeNow_def parseCleanupCutoff_def)
  then have "sql_delete ?P (db w) = Inr (db w1, n)" by (cases rule: exec_cases) auto
  then have d: "db w1 = (db w)\<lparr>rows := filter (\<lambda>r. \<not> ?P r) (rows (db w))\<rparr>" "n = length (filter ?P (rows (db w)))"
    by (simp_all add: sql_delete_def)
  have "formatTime t < formatTime c" if "0 < t" "printable t" "t div 1000000000 < c div 1000000000" for t
    using formatTime_order that assms(3) by blast
  moreover have "\<not> formatTime t < formatTime c" if "0 < t" "printable t" "c div 1000000000 < t div 1000000000" for t
    using formatTime_order [of c t] that assms(2,3) by auto
  moreover have "n + length (rows (db w1)) = length (rows (db w))"
    unfolding d using sum_length_filter_compl [of ?P "rows (db w)"] by simp
  ultimately show ?thesis by (auto simp: d(1) expired_def)
qed

theorem cleanup_exact_witness:
  "\<exists>w1. CleanupTerminalBefore calm (ATime 63000000010000000000) (play calm day_requests start) = (Inr 1, w1)
    \<and> rows (db w1) = []"
proof -
  let ?c = "63000000010000000000"
  obtain n w1 where w1: "CleanupTerminalBefore calm (ATime ?c) (play calm day_requests start) = (Inr n, w1)"
    by (simp add: CleanupTerminalBefore_def call_defs parseCleanupCutoff_def sql_delete_def day_result)
  have p: "printable ?c" "printable 63000000008000000000" by code_simp+
  have "terminal_at ann_done = Some (formatTime 63000000008000000000)"
    by (simp add: ann_done_def setDirectTerminal_def setMapped_def calm_def)
  moreover have "state ann_done \<in> set terminalStates" by (simp add: terminalStates_def)
  moreover have gone: "(\<forall>t. 0 < t \<and> printable t \<and> state ann_done \<in> set terminalStates
       \<and> terminal_at ann_done = Some (formatTime t) \<longrightarrow> t div 1000000000 < ?c div 1000000000 \<longrightarrow> ann_done \<notin> set (rows (db w1)))"
    and len: "n + length (rows (db w1)) = 1"
    using cleanup_exact [OF w1 _ p(1), THEN conjunct2] by (auto simp: day_result)
  moreover have sub: "set (rows (db w1)) \<subseteq> {ann_done}"
    using cleanup_exact [OF w1 _ p(1), THEN conjunct1] by (simp add: day_result)
  ultimately have "ann_done \<notin> set (rows (db w1))"
    using gone [rule_format, of 63000000008000000000] p(2) by simp
  with len sub have "ann_done \<notin> set (rows (db w1)) \<and> n + length (rows (db w1)) = 1 \<and> set (rows (db w1)) \<subseteq> {ann_done}"
    by blast
  then have "rows (db w1) = [] \<and> n = 1" by (cases "rows (db w1)") auto
  with w1 show ?thesis by blast
qed

subsection \<open>Instance identity\<close>

text \<open>
  Once the registry has reported an instance identity, it reports the same one ever after.
\<close>

theorem instance_id_stable:
  assumes "InstanceID drv w = (Inr i, w1)" "db_ok (db w)" "\<forall>req \<in> set reqs. sane drv req"
    and "InstanceID drv (play drv reqs w1) = (Inr j, w2)"
  shows "j = i"
proof -
  have stored: "instance_id (db v') = Some k \<and> (\<forall>o'. instance_id (db v) = Some o' \<longrightarrow> k = o')"
    if "InstanceID drv v = (Inr k, v')" for v v' k
    using that unfolding InstanceID_def
    by (auto elim!: transaction_cases seqE_InrE exec_cases simp: dbcall_def split: option.splits)
      (drule arg_cong [where f = instance_id], simp)
  have "good_step (db w) (db w1)"
    using effects_step [OF InstanceID_permitted TrueI, of w drv] assms(1) by simp
  then have "db_ok (db w1)" using assms(2) by (simp add: good_step_def)
  from reg.reaches_evolves [OF play_reaches [OF assms(3)] this] stored [OF assms(1)] stored [OF assms(4)]
  show ?thesis by (auto simp: evolves_def)
qed

theorem instance_id_stable_witness:
  "fst (InstanceID calm start) = Inr (show_nat 2) \<and> fst (InstanceID calm (snd (InstanceID calm start))) = Inr (show_nat 2)"
proof -
  have 1: "InstanceID calm start = (Inr (show_nat 2), snd (InstanceID calm start))"
    "fst (InstanceID calm (snd (InstanceID calm start))) \<in> range Inr"
    by (simp_all add: InstanceID_def call_defs start_def empty_db_def calm_def numeral_2_eq_2)
  then obtain j where "InstanceID calm (snd (InstanceID calm start)) = (Inr j, snd (InstanceID calm (snd (InstanceID calm start))))"
    by (metis imageE prod.collapse)
  then have "j = show_nat 2"
    using instance_id_stable [OF 1(1) start_ok, of "[]" j] by (simp add: play_def)
  with 1 show ?thesis by (metis \<open>InstanceID calm (snd (InstanceID calm start)) = (Inr j, _)\<close> fst_conv)
qed

end
