(* ===== verification/Dnssd_Records.thy ===== *)
theory Dnssd_Records
  imports Go_Strings
begin

text \<open>
  The DNS-SD registrations of a queue, \<^verbatim>\<open>internal/dnssd/records.go\<close>: validation of a publication
  input, admission of its TXT data against the size limits, the registrations for the selected
  client profiles, and the alternate names tried after a name collision.

  A Go map is a list of pairs with distinct keys, in the order in which an iteration over it
  happens to deliver them; \<open>TXTEntries\<close> sorts, so its result does not depend on that order.
  \<^verbatim>\<open>EncodeLOC\<close> works on floating-point coordinates and is not modelled: the check that calls it is
  the parameter \<open>locErr\<close>, the error it returns for a location, if any.
\<close>

type_synonym txtmap = "(string \<times> string) list"

record PublicationProfiles =
  Ordinary :: bool
  AirPrint :: bool
  IPPEverywhere :: bool

record ServiceInput =
  siName :: string
  siHostname :: string
  siPort :: "16 word"
  siIPPS :: bool
  siInterface :: string
  siTXT :: txtmap
  siGeoLocation :: string
  siProfiles :: PublicationProfiles
  siProfilesSet :: bool
  siMaxCollisionRetries :: int

record ServiceRecord =
  srName :: string
  srHostname :: string
  srPort :: "16 word"
  srType :: string
  srSubtype :: string
  srTXT :: txtmap
  srGeoLocation :: string

datatype record_error =
    ErrText string
  | ErrGeo string
  | ErrKey string string

subsection \<open>Text helpers\<close>

text \<open>
  \<^verbatim>\<open>strings.EqualFold\<close> against an ASCII text: besides the ASCII letters only U+212A (Kelvin
  sign) and U+017F (long s) fold to an ASCII letter.
\<close>

fun FoldCase :: "string \<Rightarrow> string" where
  "FoldCase (a # b # c # s) =
     (if a = CHR 0xE2 \<and> b = CHR 0x84 \<and> c = CHR 0xAA then CHR ''k'' # FoldCase s
      else if a = CHR 0xC5 \<and> b = CHR 0xBF then CHR ''s'' # FoldCase (c # s)
      else ascii_lower a # FoldCase (b # c # s))"
| "FoldCase [a, b] =
     (if a = CHR 0xC5 \<and> b = CHR 0xBF then ''s'' else [ascii_lower a, ascii_lower b])"
| "FoldCase s = sql_lower s"

definition EqualFold :: "string \<Rightarrow> string \<Rightarrow> bool" where
  "EqualFold s t \<longleftrightarrow> FoldCase s = FoldCase t"

text \<open>Whether a text has a control character: U+0000 to U+001F and U+007F to U+009F.\<close>

fun hasControl :: "string \<Rightarrow> bool" where
  "hasControl [] = False"
| "hasControl (a # s) = (a < CHR 0x20 \<or> a = CHR 0x7F
     \<or> a = CHR 0xC2 \<and> (case s of [] \<Rightarrow> False | b # _ \<Rightarrow> CHR 0x80 \<le> b \<and> b \<le> CHR 0x9F)
     \<or> hasControl s)"

subsection \<open>TXT data\<close>

definition maxTXTEntryBytes :: nat where "maxTXTEntryBytes = 255"
definition maxTXTDataBytes :: nat where "maxTXTDataBytes = 1300"
definition maxRPBytes :: nat where "maxRPBytes = 400"

definition txtKeyOrder :: "string list" where
  "txtKeyOrder = [''rp'', ''txtvers'', ''qtotal'', ''priority'', ''note'', ''air'', ''tls'',
     ''adminurl'', ''uuid'', ''duuid'', ''ty'', ''color'', ''duplex'', ''copies'', ''collate'',
     ''papermax'', ''papercustom'', ''bind'', ''punch'', ''sort'', ''staple'', ''product'', ''pdl'', ''urf'']"

fun indexFrom :: "nat \<Rightarrow> string \<Rightarrow> string list \<Rightarrow> nat" where
  "indexFrom i k [] = i"
| "indexFrom i k (p # ps) = (if k = p then i else indexFrom (Suc i) k ps)"

definition txtKeyPriority :: "string \<Rightarrow> nat" where
  "txtKeyPriority key = indexFrom 0 (ToLower key) txtKeyOrder"

definition TXTEntries :: "txtmap \<Rightarrow> string list" where
  "TXTEntries t = map (\<lambda>(k, v). k @ ''='' @ v) (sort_key (\<lambda>(k, v). (txtKeyPriority k, ToLower k, k)) t)"

definition hasFold :: "txtmap \<Rightarrow> string \<Rightarrow> bool" where
  "hasFold t wanted \<longleftrightarrow> (\<exists>(k, v) \<in> set t. EqualFold k wanted)"

definition deleteFold :: "txtmap \<Rightarrow> string \<Rightarrow> txtmap" where
  "deleteFold t wanted = filter (\<lambda>(k, v). \<not> EqualFold k wanted) t"

text \<open>The loop of \<^verbatim>\<open>validateTXTEntryLimits\<close>: the wire size so far and the end of the first rp entry.\<close>

fun scanEntries :: "nat \<Rightarrow> nat \<Rightarrow> string list \<Rightarrow> string + nat \<times> nat" where
  "scanEntries tot rpEnd [] = Inr (tot, rpEnd)"
| "scanEntries tot rpEnd (e # es) =
     (if length e > maxTXTEntryBytes then Inl ''TXT entry exceeds 255 bytes''
      else let tot = tot + 1 + length e in
        scanEntries tot (if HasPrefix (ToLower e) ''rp='' \<and> rpEnd = 0 then tot else rpEnd) es)"

definition validateTXTEntryLimits :: "string list \<Rightarrow> string + unit" where
  "validateTXTEntryLimits entries =
     (case scanEntries 0 0 entries of
        Inl e \<Rightarrow> Inl e
      | Inr (tot, rpEnd) \<Rightarrow>
          if tot > maxTXTDataBytes then Inl ''TXT data exceeds 1300 bytes''
          else if rpEnd > maxRPBytes then Inl ''TXT rp entry must occur within the first 400 bytes''
          else Inr ())"

definition validateTXTSize :: "txtmap \<Rightarrow> string + unit" where
  "validateTXTSize t = validateTXTEntryLimits (TXTEntries t)"

subsection \<open>Validation\<close>

definition validateService :: "(string \<Rightarrow> string option) \<Rightarrow> ServiceInput \<Rightarrow> record_error + unit" where
  "validateService locErr input =
     (if siName input = [] then Inl (ErrText ''service name is required'')
      else if length (siName input) > 63 then Inl (ErrText ''service name must not exceed 63 bytes'')
      else if hasControl (siName input) then Inl (ErrText ''service name must not contain control characters'')
      else if siPort input = 0 then Inl (ErrText ''service port must be positive'')
      else if siMaxCollisionRetries input < 0 then Inl (ErrText ''max collision retries must not be negative'')
      else if siGeoLocation input \<noteq> [] then
        (case locErr (siGeoLocation input) of Some e \<Rightarrow> Inl (ErrGeo e) | None \<Rightarrow> Inr ())
      else Inr ())"

text \<open>One TXT pair; \<open>strict\<close> rejects every oversized pair, otherwise only the routing essentials.\<close>

definition validatePair :: "bool \<Rightarrow> string \<times> string \<Rightarrow> record_error + unit" where
  "validatePair strict p = (case p of (key, value) \<Rightarrow>
     if key = [] \<or> Contains key ''='' then Inl (ErrKey ''is invalid'' key)
     else if (length key > 255 \<or> length key + 1 + length value > 255)
       \<and> (strict \<or> EqualFold key ''rp'' \<or> EqualFold key ''txtvers'' \<or> EqualFold key ''qtotal'')
     then Inl (ErrKey ''exceeds 255 bytes'' key)
     else if hasControl key \<or> hasControl value then Inl (ErrKey ''contains a control character'' key)
     else Inr ())"

fun validatePairs :: "bool \<Rightarrow> txtmap \<Rightarrow> record_error + unit" where
  "validatePairs strict [] = Inr ()"
| "validatePairs strict (p # ps) = sumBind (validatePair strict p) (\<lambda>_. validatePairs strict ps)"

definition validateServiceInputBasic :: "(string \<Rightarrow> string option) \<Rightarrow> ServiceInput \<Rightarrow> record_error + unit" where
  "validateServiceInputBasic locErr input =
     sumBind (validateService locErr input) (\<lambda>_. validatePairs False (siTXT input))"

definition validateServiceInput :: "(string \<Rightarrow> string option) \<Rightarrow> ServiceInput \<Rightarrow> record_error + unit" where
  "validateServiceInput locErr input =
     sumBind (validateService locErr input) (\<lambda>_.
     sumBind (validatePairs True (siTXT input)) (\<lambda>_.
     case validateTXTSize (siTXT input) of Inl e \<Rightarrow> Inl (ErrText e) | Inr _ \<Rightarrow> Inr ()))"

subsection \<open>Admission by profile\<close>

definition isTXTProfileEssential :: "string \<Rightarrow> PublicationProfiles \<Rightarrow> bool" where
  "isTXTProfileEssential key p =
     (let k = ToLower (TrimSpace key) in
      if k \<in> {''rp'', ''txtvers'', ''qtotal''} then True
      else if k \<in> {''ty'', ''uuid'', ''pdl''} then AirPrint p \<or> IPPEverywhere p
      else if k = ''urf'' then AirPrint p
      else False)"

text \<open>The optional key of the lowest priority, or the empty text.\<close>

definition optionalTXTKey :: "txtmap \<Rightarrow> PublicationProfiles \<Rightarrow> string" where
  "optionalTXTKey t p =
     (let keys = sort_key (\<lambda>k. (txtKeyPriority k, ToLower k))
            (filter (\<lambda>k. \<not> isTXTProfileEssential k p) (map fst t))
      in if keys = [] then [] else last keys)"

definition fitProfilesForTXT :: "txtmap \<Rightarrow> PublicationProfiles \<Rightarrow> PublicationProfiles" where
  "fitProfilesForTXT t p0 =
     (let p = (if AirPrint p0 \<and> \<not> hasFold t ''urf'' then p0\<lparr>AirPrint := False\<rparr> else p0) in
      if (AirPrint p \<or> IPPEverywhere p) \<and> \<not> hasFold t ''pdl''
      then p\<lparr>AirPrint := False, IPPEverywhere := False\<rparr> else p)"

lemma EqualFold_refl [simp]: "EqualFold k k"
  by (simp add: EqualFold_def)

lemma deleteFold_shrinks: "hasFold t k \<Longrightarrow> length (deleteFold t k) < length t"
  unfolding deleteFold_def hasFold_def by (auto intro: length_filter_less)

lemma optionalTXTKey_in:
  assumes "optionalTXTKey t p \<noteq> []"
  shows "optionalTXTKey t p \<in> fst ` set t" "\<not> isTXTProfileEssential (optionalTXTKey t p) p"
proof -
  let ?keys = "sort_key (\<lambda>k. (txtKeyPriority k, ToLower k)) (filter (\<lambda>k. \<not> isTXTProfileEssential k p) (map fst t))"
  have "?keys \<noteq> []" "optionalTXTKey t p = last ?keys"
    using assms by (auto simp: optionalTXTKey_def Let_def split: if_splits)
  then have "optionalTXTKey t p \<in> set ?keys" by (metis last_in_set)
  then show "optionalTXTKey t p \<in> fst ` set t" "\<not> isTXTProfileEssential (optionalTXTKey t p) p" by auto
qed

lemma optional_shrinks:
  assumes "optionalTXTKey t p \<noteq> []"
  shows "length (deleteFold t (optionalTXTKey t p)) < length t"
proof (rule deleteFold_shrinks)
  from optionalTXTKey_in(1) [OF assms] show "hasFold t (optionalTXTKey t p)"
    unfolding hasFold_def by (auto intro!: bexI)
qed

function fitLoop :: "txtmap \<Rightarrow> PublicationProfiles \<Rightarrow> string + txtmap \<times> PublicationProfiles" where
  "fitLoop t p =
     (case validateTXTEntryLimits (TXTEntries t) of
        Inr _ \<Rightarrow> Inr (t, p)
      | Inl err \<Rightarrow>
          if Contains err ''rp entry'' then Inl err
          else if optionalTXTKey t p = [] then
            (if AirPrint p \<and> hasFold t ''urf''
             then fitLoop (deleteFold t ''urf'') (p\<lparr>AirPrint := False\<rparr>)
             else if IPPEverywhere p \<and> hasFold t ''pdl''
             then fitLoop (deleteFold t ''pdl'') (p\<lparr>IPPEverywhere := False, AirPrint := False\<rparr>)
             else Inl err)
          else fitLoop (deleteFold t (optionalTXTKey t p)) p)"
  by pat_completeness auto
termination
  by (relation "measure (\<lambda>(t, p). length t)") (auto intro: deleteFold_shrinks optional_shrinks)

declare fitLoop.simps [simp del]

definition fitProfileTXT :: "txtmap \<Rightarrow> PublicationProfiles \<Rightarrow> string + txtmap \<times> PublicationProfiles" where
  "fitProfileTXT input p =
     (let t = (if AirPrint p then input else deleteFold input ''urf'') in fitLoop t (fitProfilesForTXT t p))"

subsection \<open>Registrations\<close>

definition FullType :: "ServiceRecord \<Rightarrow> string" where
  "FullType r = (if srSubtype r = [] then srType r
     else srSubtype r @ ''._sub.'' @ (if HasPrefix (srType r) ''.'' then tl (srType r) else srType r))"

definition entry :: "ServiceInput \<Rightarrow> 16 word \<Rightarrow> string \<Rightarrow> string \<Rightarrow> txtmap \<Rightarrow> string \<Rightarrow> ServiceRecord" where
  "entry input port typ sub t geo = \<lparr>srName = siName input, srHostname = siHostname input, srPort = port,
     srType = typ, srSubtype = sub, srTXT = t, srGeoLocation = geo\<rparr>"

definition BuildRecords :: "(string \<Rightarrow> string option) \<Rightarrow> ServiceInput \<Rightarrow> record_error + ServiceRecord list" where
  "BuildRecords locErr input = sumBind (validateServiceInput locErr input) (\<lambda>_. Inr (
     [entry input (siPort input) ''_ipp._tcp'' [] (siTXT input) (siGeoLocation input),
      entry input (siPort input) ''_ipp._tcp'' ''_print'' [] [],
      entry input (siPort input) ''_ipp._tcp'' ''_universal'' [] [],
      entry input 0 ''_printer._tcp'' [] [] []]
     @ (if siIPPS input then
          [entry input (siPort input) ''_ipps._tcp'' [] (siTXT input) [],
           entry input (siPort input) ''_ipps._tcp'' ''_print'' [] [],
           entry input (siPort input) ''_ipps._tcp'' ''_universal'' [] []]
        else [])))"

definition BuildRecordsForProfiles ::
  "(string \<Rightarrow> string option) \<Rightarrow> ServiceInput \<Rightarrow> PublicationProfiles \<Rightarrow> record_error + ServiceRecord list" where
  "BuildRecordsForProfiles locErr input profiles =
     sumBind (validateServiceInputBasic locErr input) (\<lambda>_.
     if \<not> Ordinary profiles then Inr []
     else case fitProfileTXT (siTXT input) profiles of
       Inl e \<Rightarrow> Inl (ErrText e)
     | Inr (t, effective) \<Rightarrow> Inr (
         [entry input (siPort input) ''_ipp._tcp'' [] t (siGeoLocation input)]
         @ (if IPPEverywhere effective then [entry input (siPort input) ''_ipp._tcp'' ''_print'' [] []] else [])
         @ (if AirPrint effective then [entry input (siPort input) ''_ipp._tcp'' ''_universal'' [] []] else [])
         @ [entry input 0 ''_printer._tcp'' [] [] []]))"

fun profilesFrom :: "PublicationProfiles \<Rightarrow> ServiceRecord list \<Rightarrow> PublicationProfiles" where
  "profilesFrom p [] = p"
| "profilesFrom p (r # rs) = profilesFrom
     (if srType r \<noteq> ''_ipp._tcp'' then p
      else if srSubtype r = [] then p\<lparr>Ordinary := True\<rparr>
      else if srSubtype r = ''_print'' then p\<lparr>IPPEverywhere := True\<rparr>
      else if srSubtype r = ''_universal'' then p\<lparr>AirPrint := True\<rparr>
      else p) rs"

definition publicationProfilesForRecords :: "ServiceRecord list \<Rightarrow> PublicationProfiles" where
  "publicationProfilesForRecords rs = profilesFrom \<lparr>Ordinary = False, AirPrint = False, IPPEverywhere = False\<rparr> rs"

definition samePublicationStructure :: "ServiceRecord list \<Rightarrow> ServiceRecord list \<Rightarrow> bool" where
  "samePublicationStructure left right \<longleftrightarrow> length left = length right \<and>
     (\<forall>(l, r) \<in> set (zip left right). srName l = srName r \<and> srHostname l = srHostname r \<and> srPort l = srPort r
        \<and> srType l = srType r \<and> srSubtype l = srSubtype r \<and> srGeoLocation l = srGeoLocation r)"

subsection \<open>Names after collisions\<close>

definition AlternateServiceName :: "string \<Rightarrow> int \<Rightarrow> string" where
  "AlternateServiceName name attempt =
     (if attempt \<le> 0 then name else name @ '' ('' @ show_nat (nat (attempt + 1)) @ '')'')"

definition CollisionNames :: "string \<Rightarrow> int \<Rightarrow> string list" where
  "CollisionNames name maxAttempts =
     (if maxAttempts \<le> 0 then [] else map (\<lambda>a. AlternateServiceName name (int a)) [0..<nat maxAttempts])"

end
