(* ===== verification/Go_Text.thy ===== *)
theory Go_Text
  imports Dnssd_Records
begin

text \<open>
  Facts about the string functions of Go that the components share: case folding of ASCII texts, and
  trimming.
\<close>

subsection \<open>Case\<close>

definition ascii :: "string \<Rightarrow> bool" where
  "ascii s \<longleftrightarrow> (\<forall>c \<in> set s. of_char c < (128 :: nat))"

lemma ascii_lower_forms:
  assumes "ascii s"
  shows "ToLower s = sql_lower s" "FoldCase s = sql_lower s"
proof -
  show "ToLower s = sql_lower s"
    using assms by (induction s rule: ToLower.induct) (auto simp: ascii_def sql_lower_def)
  show "FoldCase s = sql_lower s"
    using assms by (induction s rule: FoldCase.induct) (auto simp: ascii_def sql_lower_def)
qed

lemma EqualFold_lower: "ascii s \<Longrightarrow> FoldCase n = n \<Longrightarrow> EqualFold s n \<longleftrightarrow> ToLower s = n"
  by (simp add: EqualFold_def ascii_lower_forms)

lemma FoldCase_plain:
  assumes "CHR ''k'' \<notin> set (FoldCase s)" "CHR ''s'' \<notin> set (FoldCase s)"
  shows "FoldCase s = sql_lower s"
  using assms by (induction s rule: FoldCase.induct) (auto simp: sql_lower_def split: if_splits)

lemma ascii_lower_128: "of_char (ascii_lower c) < (128 :: nat) \<longleftrightarrow> of_char c < (128 :: nat)"
  by (cases "CHR ''A'' \<le> c \<and> c \<le> CHR ''Z''") (auto simp: ascii_lower_def less_eq_char_def)

text \<open>Only the letters k, i and s have non-ASCII forms.\<close>

lemma ToLower_plain:
  assumes "CHR ''k'' \<notin> set (ToLower s)" "CHR ''i'' \<notin> set (ToLower s)"
  shows "ToLower s = sql_lower s"
  using assms by (induction s rule: ToLower.induct) (auto simp: sql_lower_def split: if_splits)

lemma ToLower_ascii:
  assumes "ascii (ToLower s)" "CHR ''k'' \<notin> set (ToLower s)" "CHR ''i'' \<notin> set (ToLower s)"
  shows "ascii s"
  using assms(1) unfolding ToLower_plain [OF assms(2,3)] by (auto simp: ascii_def sql_lower_def ascii_lower_128)

lemma ascii_lower_idem [simp]: "ascii_lower (ascii_lower c) = ascii_lower c"
  by (cases "CHR ''A'' \<le> c \<and> c \<le> CHR ''Z''") (auto simp: ascii_lower_def less_eq_char_def)

lemma sql_lower_ToLower: "sql_lower (ToLower s) = ToLower s"
  by (induction s rule: ToLower.induct) (simp_all add: sql_lower_def, simp_all add: ascii_lower_def)

lemma FoldCase_ascii:
  assumes "ascii (FoldCase s)" "CHR ''k'' \<notin> set (FoldCase s)" "CHR ''s'' \<notin> set (FoldCase s)"
  shows "ascii s"
  using assms(1) unfolding FoldCase_plain [OF assms(2,3)] by (auto simp: ascii_def sql_lower_def ascii_lower_128)

lemma fold_lower:
  assumes "EqualFold s w" "FoldCase w = w" "ascii w" "CHR ''k'' \<notin> set w" "CHR ''s'' \<notin> set w"
  shows "ToLower s = w" "ascii s"
proof -
  have s: "FoldCase s = w" using assms(1,2) by (simp add: EqualFold_def)
  show "ascii s" by (rule FoldCase_ascii) (simp_all add: s assms)
  with s show "ToLower s = w" by (simp add: ascii_lower_forms)
qed

lemma lower_fold:
  assumes "ToLower s = w" "ascii w" "CHR ''k'' \<notin> set w" "CHR ''i'' \<notin> set w" "FoldCase w = w"
  shows "EqualFold s w"
proof -
  have "ascii s" by (rule ToLower_ascii) (simp_all add: assms)
  with assms(1,5) show ?thesis by (simp add: EqualFold_def ascii_lower_forms)
qed

subsection \<open>Trimming\<close>

lemma trim_left_done: "leading ws (trim_left ws s) = None"
proof (induction ws s rule: trim_left.induct)
  case (1 ws s)
  then show ?case by (cases "leading ws s") (simp_all add: trim_left.simps)
qed

lemma trim_left_suffix: "\<exists>pre. s = pre @ trim_left ws s"
proof (induction ws s rule: trim_left.induct)
  case (1 ws s)
  show ?case
  proof (cases "leading ws s")
    case (Some w)
    from 1 [OF Some] obtain pre where "drop (length w) s = pre @ trim_left ws (drop (length w) s)" by blast
    with Some have "s = (take (length w) s @ pre) @ trim_left ws s" by (simp add: trim_left.simps [of ws s])
    then show ?thesis by blast
  qed (simp add: trim_left.simps)
qed

lemma TrimSpace_idem [simp]: "TrimSpace (TrimSpace s) = TrimSpace s"
proof -
  define u r where "u = trim_left spaces s" and "r = trim_left (map rev spaces) (rev (trim_left spaces s))"
  obtain pre where "rev u = pre @ r" unfolding u_def r_def using trim_left_suffix by blast
  then have u: "u = rev r @ rev pre" by (metis rev_append rev_rev_ident)
  have no: "leading spaces u = None" unfolding u_def by (rule trim_left_done)
  have "\<not> (take (length w) (rev r) = w \<and> w \<noteq> [])" if "w \<in> set spaces" for w
  proof
    assume w: "take (length w) (rev r) = w \<and> w \<noteq> []"
    then have "length w \<le> length (rev r)" by (metis length_take min.cobounded1)
    with w u have "take (length w) u = w" by (simp add: take_append)
    with w no that show False by (auto simp: leading_def find_None_iff)
  qed
  then have "leading spaces (rev r) = None" by (auto simp: leading_def find_None_iff)
  then have "trim_left spaces (rev r) = rev r" by (rule trim_left_id)
  moreover have "trim_left (map rev spaces) r = r" unfolding r_def by (rule trim_left_id) (rule trim_left_done)
  ultimately show ?thesis by (simp add: TrimSpace_def r_def)
qed

text \<open>Texts of printable ASCII characters without spaces.\<close>

definition visible :: "string \<Rightarrow> bool" where
  "visible s \<longleftrightarrow> (\<forall>c \<in> set s. 32 < (of_char c :: nat) \<and> of_char c < (127 :: nat))"

lemma visible_ascii: "visible s \<Longrightarrow> ascii s"
  by (auto simp: visible_def ascii_def)

lemma visible_rev [simp]: "visible (rev s) = visible s"
  by (simp add: visible_def)

lemma visible_TrimSpace:
  assumes "visible s"
  shows "TrimSpace s = s"
proof -
  have id: "trim_left ws t = t" if "visible t" "\<forall>w \<in> set ws. \<not> visible [hd w]" for ws t
  proof (rule trim_left_id)
    have "\<not> (take (length w) t = w \<and> w \<noteq> [])" if "w \<in> set ws" for w
    proof
      assume w: "take (length w) t = w \<and> w \<noteq> []"
      then have "hd w \<in> set t" by (metis hd_in_set in_set_takeD)
      with \<open>visible t\<close> \<open>\<forall>w \<in> set ws. \<not> visible [hd w]\<close> \<open>w \<in> set ws\<close> show False by (auto simp: visible_def)
    qed
    then show "leading ws t = None" by (auto simp: leading_def find_None_iff)
  qed
  have "\<forall>w \<in> set spaces. \<not> visible [hd w]" "\<forall>w \<in> set (map rev spaces). \<not> visible [hd w]"
    by (simp_all add: spaces_def visible_def)
  with assms id [of s spaces] id [of "rev s" "map rev spaces"] show ?thesis by (simp add: TrimSpace_def)
qed

end
