(* ===== verification/Dnssd_Theorems.thy ===== *)
theory Dnssd_Theorems
  imports Go_Text "HOL-Library.Multiset"
begin

text \<open>
  The properties of the DNS-SD registrations: what the size admission guarantees and when it
  gives up, that the registrations determine the published profiles, that the TXT payload does
  not depend on the iteration order of a map, and that collision names never repeat.
\<close>

subsection \<open>The order of TXT entries\<close>

lemma perm_sort_key:
  assumes "mset xs = mset ys" "inj_on f (set xs)"
  shows "sort_key f xs = sort_key f ys"
proof (rule properties_for_sort_key)
  show "mset (sort_key f ys) = mset xs" using assms(1) by simp
  show "sorted (map f (sort_key f ys))" by simp
  fix k assume k: "k \<in> set (sort_key f ys)"
  then have "k \<in> set xs" using assms(1) by (metis mset_eq_setD set_sort)
  have one: "filter (\<lambda>x. f k = f x) zs = replicate (count (mset xs) k) k" if "mset zs = mset xs" for zs
  proof -
    have "filter (\<lambda>x. f k = f x) zs = filter (\<lambda>x. x = k) zs"
      using that assms(2) \<open>k \<in> set xs\<close> by (intro filter_cong refl) (metis inj_onD mset_eq_setD)
    also have "\<dots> = replicate (count (mset zs) k) k"
      by (induction zs) auto
    finally show ?thesis using that by simp
  qed
  from assms(1) show "filter (\<lambda>x. f k = f x) (sort_key f ys) = filter (\<lambda>x. f k = f x) xs"
    by (simp add: one)
qed

text \<open>
  The TXT strings of a registration do not depend on the order in which the map delivers its
  keys.
\<close>

theorem TXTEntries_deterministic:
  assumes "distinct (map fst t)" "mset t = mset t'"
  shows "TXTEntries t = TXTEntries t'"
proof -
  have "inj_on (\<lambda>(k, v). (txtKeyPriority k, ToLower k, k)) (set t)"
    using eq_key_imp_eq_value [OF assms(1)] by (auto simp: inj_on_def)
  then show ?thesis unfolding TXTEntries_def by (simp only: perm_sort_key [OF assms(2)])
qed

theorem TXTEntries_deterministic_witness:
  "TXTEntries [(''pdl'', ''image/urf''), (''rp'', ''ipp/q'')] = TXTEntries [(''rp'', ''ipp/q''), (''pdl'', ''image/urf'')]"
  using TXTEntries_deterministic [of "[(''pdl'', ''image/urf''), (''rp'', ''ipp/q'')]"
      "[(''rp'', ''ipp/q''), (''pdl'', ''image/urf'')]"] by simp

subsection \<open>Case folding of the keys the admission names\<close>

definition letter :: "char \<Rightarrow> bool" where
  "letter c \<longleftrightarrow> (CHR ''A'' \<le> c \<and> c \<le> CHR ''Z'') \<or> (CHR ''a'' \<le> c \<and> c \<le> CHR ''z'')"

definition plain :: "string \<Rightarrow> bool" where
  "plain s \<longleftrightarrow> (\<forall>c \<in> set s. letter c)"

lemma ascii_lower_letter:
  "CHR ''a'' \<le> ascii_lower c \<Longrightarrow> ascii_lower c \<le> CHR ''z'' \<Longrightarrow>
   letter c"
  by (auto simp: ascii_lower_def letter_def split: if_splits)

lemma plain_visible: "plain s \<Longrightarrow> visible s"
  by (auto simp: plain_def letter_def visible_def less_eq_char_def)

lemma FoldCase_key:
  assumes "FoldCase s = w" "\<forall>c \<in> set w. CHR ''a'' \<le> c \<and> c \<le> CHR ''z''" "CHR ''k'' \<notin> set w" "CHR ''s'' \<notin> set w"
  shows "sql_lower s = w" "plain s"
proof -
  have "FoldCase s = sql_lower s"
    by (rule FoldCase_plain) (unfold assms(1), rule assms(3), rule assms(4))
  then show w: "sql_lower s = w" by (simp only: assms(1))
  show "plain s"
    unfolding plain_def
  proof
    fix c assume "c \<in> set s"
    then have "ascii_lower c \<in> set w" unfolding w [symmetric] by (simp add: sql_lower_def)
    from bspec [OF assms(2) this] show "letter c"
      by (elim conjE) (rule ascii_lower_letter)
  qed
qed

lemma plain_ToLower: "plain s \<Longrightarrow> ToLower s = sql_lower s"
  by (simp add: ascii_lower_forms visible_ascii plain_visible)

lemma plain_TrimSpace: "plain s \<Longrightarrow> TrimSpace s = s"
  by (simp add: visible_TrimSpace plain_visible)

lemma fold_key_lower:
  assumes "EqualFold k w" "w \<in> {''rp'', ''qtotal'', ''pdl'', ''urf''}"
  shows "ToLower (TrimSpace k) = w" "ToLower k = w"
proof -
  have "FoldCase k = w" using assms by (auto simp: EqualFold_def sql_lower_def ascii_lower_def)
  then have "sql_lower k = w" "plain k"
    using FoldCase_key [of k w] assms(2) by (auto simp: less_eq_char_def)
  then show "ToLower (TrimSpace k) = w" "ToLower k = w" by (simp_all add: plain_TrimSpace plain_ToLower)
qed

subsection \<open>Admission\<close>

lemma scanEntries_spec:
  "scanEntries a rp es = Inr (tot, rpEnd) \<Longrightarrow>
     (\<forall>e \<in> set es. length e \<le> 255) \<and> tot = a + sum_list (map (\<lambda>e. 1 + length e) es)"
proof (induction es arbitrary: a rp)
  case (Cons e es)
  then obtain rp' where "length e \<le> 255" "scanEntries (a + 1 + length e) rp' es = Inr (tot, rpEnd)"
    by (auto simp: maxTXTEntryBytes_def Let_def not_less split: if_splits)
  with Cons.IH show ?case by fastforce
qed simp

lemma limits_spec:
  assumes "validateTXTEntryLimits es = Inr ()"
  shows "(\<forall>e \<in> set es. length e \<le> 255) \<and> sum_list (map (\<lambda>e. 1 + length e) es) \<le> 1300"
proof -
  from assms obtain tot rpEnd where "scanEntries 0 0 es = Inr (tot, rpEnd)" "tot \<le> 1300"
    by (auto simp: validateTXTEntryLimits_def maxTXTDataBytes_def split: sum.splits prod.splits if_splits)
  with scanEntries_spec show ?thesis by fastforce
qed

text \<open>What the loop keeps: profiles are only withdrawn, and the keys they need are present.\<close>

definition supported :: "txtmap \<Rightarrow> PublicationProfiles \<Rightarrow> bool" where
  "supported t p \<longleftrightarrow> (AirPrint p \<longrightarrow> hasFold t ''urf'' \<and> hasFold t ''pdl'') \<and> (IPPEverywhere p \<longrightarrow> hasFold t ''pdl'')"

definition weaker :: "PublicationProfiles \<Rightarrow> PublicationProfiles \<Rightarrow> bool" where
  "weaker p' p \<longleftrightarrow> Ordinary p' = Ordinary p \<and> (AirPrint p' \<longrightarrow> AirPrint p) \<and> (IPPEverywhere p' \<longrightarrow> IPPEverywhere p)"

lemma fit_supported: "supported t (fitProfilesForTXT t p)"
  by (auto simp: supported_def fitProfilesForTXT_def Let_def)

lemma fit_weaker: "weaker (fitProfilesForTXT t p) p"
  by (auto simp: weaker_def fitProfilesForTXT_def Let_def)

lemma keeps_key:
  assumes "hasFold t w" "\<not> EqualFold k w" shows "hasFold (deleteFold t k) w"
  using assms by (force simp: hasFold_def deleteFold_def EqualFold_def)

lemma not_optional:
  assumes "\<not> isTXTProfileEssential k p" "w \<in> {''rp'', ''qtotal'', ''pdl'', ''urf''}" "isTXTProfileEssential w p"
  shows "\<not> EqualFold k w"
proof
  assume "EqualFold k w"
  then have "ToLower (TrimSpace k) = w" by (rule fold_key_lower) (rule assms(2))
  moreover have "EqualFold w w" by simp
  then have "ToLower (TrimSpace w) = w" by (rule fold_key_lower) (rule assms(2))
  ultimately show False using assms(1,3) by (simp add: isTXTProfileEssential_def)
qed

lemma essentials: "isTXTProfileEssential ''rp'' p" "isTXTProfileEssential ''qtotal'' p"
  "AirPrint p \<Longrightarrow> isTXTProfileEssential ''urf'' p" "AirPrint p \<or> IPPEverywhere p \<Longrightarrow> isTXTProfileEssential ''pdl'' p"
proof -
  have "ToLower (TrimSpace w) = w" if "w \<in> {''rp'', ''qtotal'', ''pdl'', ''urf''}" for w
    by (rule fold_key_lower [OF EqualFold_refl that])
  then show "isTXTProfileEssential ''rp'' p" "isTXTProfileEssential ''qtotal'' p"
    "AirPrint p \<Longrightarrow> isTXTProfileEssential ''urf'' p" "AirPrint p \<or> IPPEverywhere p \<Longrightarrow> isTXTProfileEssential ''pdl'' p"
    by (simp_all add: isTXTProfileEssential_def)
qed

lemma supported_delete_optional:
  assumes "supported t p" "optionalTXTKey t p \<noteq> []"
  shows "supported (deleteFold t (optionalTXTKey t p)) p"
  using assms(1) not_optional [OF optionalTXTKey_in(2) [OF assms(2)]] essentials keeps_key
  unfolding supported_def by (metis insertCI)

lemma deleteFold_subset: "set (deleteFold t k) \<subseteq> set t"
  by (auto simp: deleteFold_def)

lemma supported_withdraw:
  assumes "supported t p"
  shows "supported (deleteFold t ''urf'') (p\<lparr>AirPrint := False\<rparr>)"
    "supported (deleteFold t ''pdl'') (p\<lparr>IPPEverywhere := False, AirPrint := False\<rparr>)"
proof -
  have "\<not> EqualFold ''urf'' ''pdl''" by (simp add: EqualFold_def sql_lower_def ascii_lower_def)
  with assms keeps_key show "supported (deleteFold t ''urf'') (p\<lparr>AirPrint := False\<rparr>)"
    by (auto simp: supported_def)
qed (simp add: supported_def)

text \<open>Pairs that the admission never gives up.\<close>

definition routing :: "string \<times> string \<Rightarrow> bool" where
  "routing x \<longleftrightarrow> EqualFold (fst x) ''rp'' \<or> EqualFold (fst x) ''qtotal''"

lemma routing_kept:
  assumes "routing x" "x \<in> set t" "k \<in> {''urf'', ''pdl''} \<or> k = optionalTXTKey t p \<and> k \<noteq> []"
  shows "x \<in> set (deleteFold t k)"
proof -
  have "\<not> EqualFold ''rp'' ''urf''" "\<not> EqualFold ''rp'' ''pdl''" "\<not> EqualFold ''qtotal'' ''urf''" "\<not> EqualFold ''qtotal'' ''pdl''"
    by (simp_all add: EqualFold_def sql_lower_def ascii_lower_def)
  moreover have "\<not> EqualFold (optionalTXTKey t p) ''rp''" "\<not> EqualFold (optionalTXTKey t p) ''qtotal''"
    if "optionalTXTKey t p \<noteq> []"
    using not_optional [OF optionalTXTKey_in(2) [OF that]] essentials(1,2) by blast+
  ultimately have "\<not> EqualFold (fst x) k"
    using assms(1,3) unfolding routing_def EqualFold_def by (metis insertE singletonD)
  then show ?thesis using assms(2) by (auto simp: deleteFold_def)
qed

lemma fitLoop_sound:
  assumes "fitLoop t p = Inr (t', p')" "supported t p"
  shows "validateTXTEntryLimits (TXTEntries t') = Inr () \<and> set t' \<subseteq> set t \<and> supported t' p' \<and> weaker p' p
    \<and> (\<forall>x \<in> set t. routing x \<longrightarrow> x \<in> set t')"
  using assms
proof (induction t p rule: fitLoop.induct)
  case (1 t p)
  show ?case
  proof (cases "validateTXTEntryLimits (TXTEntries t)")
    case (Inr u)
    with "1.prems" show ?thesis by (simp add: fitLoop.simps [of t p] weaker_def)
  next
    case (Inl err)
    with "1.prems"(1) have rp: "\<not> Contains err ''rp entry''" by (auto simp: fitLoop.simps [of t p])
    consider (opt) "optionalTXTKey t p \<noteq> []"
      | (urf) "optionalTXTKey t p = []" "AirPrint p" "hasFold t ''urf''"
      | (pdl) "optionalTXTKey t p = []" "\<not> (AirPrint p \<and> hasFold t ''urf'')" "IPPEverywhere p" "hasFold t ''pdl''"
      using "1.prems"(1) Inl rp by (auto simp: fitLoop.simps [of t p] split: if_splits)
    then show ?thesis
    proof cases
      case opt
      then have run: "fitLoop (deleteFold t (optionalTXTKey t p)) p = Inr (t', p')"
        using "1.prems"(1) Inl rp by (simp add: fitLoop.simps [of t p])
      from "1.IH"(3) [OF Inl rp opt run supported_delete_optional [OF "1.prems"(2) opt]]
      show ?thesis using deleteFold_subset [of t] routing_kept [of _ t _ p] opt by blast
    next
      case urf
      then have run: "fitLoop (deleteFold t ''urf'') (p\<lparr>AirPrint := False\<rparr>) = Inr (t', p')"
        using "1.prems"(1) Inl rp by (simp add: fitLoop.simps [of t p])
      from "1.IH"(1) [OF Inl rp _ _ run supported_withdraw(1) [OF "1.prems"(2)]] urf
      show ?thesis using deleteFold_subset [of t "''urf''"] routing_kept [of _ t "''urf''" p] by (auto simp: weaker_def)
    next
      case pdl
      then have run: "fitLoop (deleteFold t ''pdl'') (p\<lparr>IPPEverywhere := False, AirPrint := False\<rparr>) = Inr (t', p')"
        using "1.prems"(1) Inl rp by (auto simp: fitLoop.simps [of t p])
      from "1.IH"(2) [OF Inl rp _ _ _ run supported_withdraw(2) [OF "1.prems"(2)]] pdl
      show ?thesis using deleteFold_subset [of t "''pdl''"] routing_kept [of _ t "''pdl''" p] by (auto simp: weaker_def)
    qed
  qed
qed

lemma priority_rp: "txtKeyPriority k = 0 \<longleftrightarrow> ToLower k = ''rp''"
proof -
  have "i \<le> indexFrom i k' ps" for i k' ps by (induction ps arbitrary: i) (auto intro: Suc_leD)
  from this [of 1] show ?thesis by (auto simp: txtKeyPriority_def txtKeyOrder_def dest: Suc_le_D)
qed

lemma rp_first:
  assumes "hasFold t ''rp''"
  obtains k v es where "TXTEntries t = (k @ ''='' @ v) # es" "ToLower k = ''rp''"
proof -
  let ?key = "\<lambda>(k, v). (txtKeyPriority k, ToLower k, k)"
  let ?s = "sort_key ?key t"
  from assms obtain k0 v0 where "(k0, v0) \<in> set ?s" and "EqualFold k0 ''rp''" by (auto simp: hasFold_def)
  then have k0: "txtKeyPriority k0 = 0" using fold_key_lower(2) [of k0 "''rp''"] priority_rp by blast
  obtain k v rest where s: "?s = (k, v) # rest" using \<open>(k0, v0) \<in> set ?s\<close> by (cases ?s) auto
  have "sorted (map ?key ?s)" by simp
  then have "?key (k, v) \<le> ?key (k0, v0)" using \<open>(k0, v0) \<in> set ?s\<close> unfolding s by auto
  then have "txtKeyPriority k = 0" using k0 by (simp add: less_eq_prod_def)
  then have "ToLower k = ''rp''" by (simp add: priority_rp)
  then show ?thesis using that [of k v "map (\<lambda>(k, v). k @ ''='' @ v) rest"] by (simp add: TXTEntries_def s)
qed

lemma fitProfileTXT_sound_ordinary: "fitProfileTXT input p = Inr (t, p') \<Longrightarrow> Ordinary p' = Ordinary p"
  using fitLoop_sound [OF _ fit_supported] fit_weaker unfolding fitProfileTXT_def Let_def weaker_def by metis

text \<open>
  C12: TXT data that is admitted fits: every string is at most 255 bytes and all of them at most
  1300 bytes on the wire. It is part of the input, with every rp and qtotal pair kept and rp in
  front. Profiles are only withdrawn, and one that is left has the keys it needs: urf and pdl for
  AirPrint, pdl for IPP Everywhere.
\<close>

theorem fitProfileTXT_sound:
  assumes "fitProfileTXT input p = Inr (t, p')"
  shows "(\<forall>e \<in> set (TXTEntries t). length e \<le> 255) \<and> sum_list (map (\<lambda>e. 1 + length e) (TXTEntries t)) \<le> 1300
    \<and> set t \<subseteq> set input
    \<and> (\<forall>(k, v) \<in> set input. EqualFold k ''rp'' \<or> EqualFold k ''qtotal'' \<longrightarrow> (k, v) \<in> set t)
    \<and> (hasFold t ''rp'' \<longrightarrow> (\<exists>k v. hd (TXTEntries t) = k @ ''='' @ v \<and> ToLower k = ''rp''))
    \<and> Ordinary p' = Ordinary p
    \<and> (AirPrint p' \<longrightarrow> AirPrint p \<and> hasFold t ''urf'' \<and> hasFold t ''pdl'')
    \<and> (IPPEverywhere p' \<longrightarrow> IPPEverywhere p \<and> hasFold t ''pdl'')"
proof -
  define t0 where "t0 = (if AirPrint p then input else deleteFold input ''urf'')"
  have "fitLoop t0 (fitProfilesForTXT t0 p) = Inr (t, p')" using assms by (simp only: fitProfileTXT_def t0_def Let_def)
  note sound = fitLoop_sound [OF this fit_supported]
  have sub: "set t0 \<subseteq> set input" using deleteFold_subset by (simp add: t0_def)
  have "x \<in> set t0" if "x \<in> set input" "routing x" for x
    using that routing_kept [of x input "''urf''" p] by (simp add: t0_def)
  with sound have kept: "\<forall>x \<in> set input. routing x \<longrightarrow> x \<in> set t" by blast
  have rp: "\<exists>k v. hd (TXTEntries t) = k @ ''='' @ v \<and> ToLower k = ''rp''" if "hasFold t ''rp''"
  proof -
    from that obtain k v es where "TXTEntries t = (k @ ''='' @ v) # es" "ToLower k = ''rp''" by (rule rp_first)
    then show ?thesis by (metis list.sel(1))
  qed
  have "weaker p' (fitProfilesForTXT t0 p)" "supported t p'" using sound by blast+
  with fit_weaker [of t0 p] have prof: "Ordinary p' = Ordinary p"
    "AirPrint p' \<longrightarrow> AirPrint p \<and> hasFold t ''urf'' \<and> hasFold t ''pdl''"
    "IPPEverywhere p' \<longrightarrow> IPPEverywhere p \<and> hasFold t ''pdl''" by (auto simp: weaker_def supported_def)
  have "\<forall>(k, v) \<in> set input. EqualFold k ''rp'' \<or> EqualFold k ''qtotal'' \<longrightarrow> (k, v) \<in> set t"
    using kept by (auto simp: routing_def)
  then show ?thesis using limits_spec sound sub rp prof by (intro conjI) (blast | simp)+
qed

theorem fitProfileTXT_sound_witness:
  "\<exists>t. fitProfileTXT [(''rp'', ''ipp/q''), (''pdl'', ''image/urf'')] \<lparr>Ordinary = True, AirPrint = True, IPPEverywhere = True\<rparr>
      = Inr (t, \<lparr>Ordinary = True, AirPrint = False, IPPEverywhere = True\<rparr>) \<and> hasFold t ''pdl''"
proof -
  have run: "fitProfileTXT [(''rp'', ''ipp/q''), (''pdl'', ''image/urf'')] \<lparr>Ordinary = True, AirPrint = True, IPPEverywhere = True\<rparr>
      = Inr ([(''rp'', ''ipp/q''), (''pdl'', ''image/urf'')], \<lparr>Ordinary = True, AirPrint = False, IPPEverywhere = True\<rparr>)"
    by code_simp
  from fitProfileTXT_sound [OF run] run show ?thesis by simp
qed

lemma optional_none:
  assumes "optionalTXTKey t p = []" "(k, v) \<in> set t" "\<forall>k \<in> fst ` set t. k \<noteq> []"
  shows "isTXTProfileEssential k p"
proof (rule ccontr)
  assume no: "\<not> isTXTProfileEssential k p"
  let ?keys = "sort_key (\<lambda>k. (txtKeyPriority k, ToLower k)) (filter (\<lambda>k. \<not> isTXTProfileEssential k p) (map fst t))"
  have "k \<in> set ?keys" using assms(2) no by force
  then have "?keys \<noteq> []" by (metis list.set(1) empty_iff)
  then have "last ?keys \<in> set ?keys" by (rule last_in_set)
  moreover from \<open>?keys \<noteq> []\<close> have "optionalTXTKey t p = last ?keys"
    unfolding optionalTXTKey_def Let_def by (rule if_not_P)
  ultimately show False using assms(1,3) by auto
qed

lemma fitLoop_gives_up:
  assumes "fitLoop t p = Inl err" "supported t p" "\<forall>k \<in> fst ` set t. k \<noteq> []"
  shows "\<exists>t'. set t' \<subseteq> set t \<and> validateTXTEntryLimits (TXTEntries t') = Inl err
    \<and> (Contains err ''rp entry'' \<or> (\<forall>(k, v) \<in> set t'. ToLower (TrimSpace k) \<in> {''rp'', ''txtvers'', ''qtotal''}))"
  using assms
proof (induction t p rule: fitLoop.induct)
  case (1 t p)
  then obtain e where Inl: "validateTXTEntryLimits (TXTEntries t) = Inl e"
    by (cases "validateTXTEntryLimits (TXTEntries t)") (simp_all add: fitLoop.simps [of t p])
  have keys: "\<forall>x \<in> fst ` set (deleteFold t k). x \<noteq> []" for k
    using "1.prems"(3) deleteFold_subset [of t k] by blast
  consider (rp) "Contains e ''rp entry''"
    | (opt) "\<not> Contains e ''rp entry''" "optionalTXTKey t p \<noteq> []"
    | (urf) "\<not> Contains e ''rp entry''" "optionalTXTKey t p = []" "AirPrint p" "hasFold t ''urf''"
    | (pdl) "\<not> Contains e ''rp entry''" "optionalTXTKey t p = []" "\<not> (AirPrint p \<and> hasFold t ''urf'')"
        "IPPEverywhere p" "hasFold t ''pdl''"
    | (stuck) "\<not> Contains e ''rp entry''" "optionalTXTKey t p = []" "\<not> (AirPrint p \<and> hasFold t ''urf'')"
        "\<not> (IPPEverywhere p \<and> hasFold t ''pdl'')" by blast
  then show ?case
  proof cases
    case rp
    then show ?thesis using "1.prems"(1) Inl by (auto simp: fitLoop.simps [of t p])
  next
    case opt
    then have "fitLoop (deleteFold t (optionalTXTKey t p)) p = Inl err"
      using "1.prems"(1) Inl by (simp add: fitLoop.simps [of t p])
    from "1.IH"(3) [OF Inl opt this supported_delete_optional [OF "1.prems"(2) opt(2)] keys]
    show ?thesis using deleteFold_subset [of t] by blast
  next
    case urf
    then have "fitLoop (deleteFold t ''urf'') (p\<lparr>AirPrint := False\<rparr>) = Inl err"
      using "1.prems"(1) Inl by (simp add: fitLoop.simps [of t p])
    from "1.IH"(1) [OF Inl urf(1) _ _ this supported_withdraw(1) [OF "1.prems"(2)] keys] urf
    show ?thesis using deleteFold_subset [of t] by blast
  next
    case pdl
    then have "fitLoop (deleteFold t ''pdl'') (p\<lparr>IPPEverywhere := False, AirPrint := False\<rparr>) = Inl err"
      using "1.prems"(1) Inl by (auto simp: fitLoop.simps [of t p])
    from "1.IH"(2) [OF Inl pdl(1) _ _ _ this supported_withdraw(2) [OF "1.prems"(2)] keys] pdl
    show ?thesis using deleteFold_subset [of t] by blast
  next
    case stuck
    then have "\<not> AirPrint p" "\<not> IPPEverywhere p" using "1.prems"(2) by (auto simp: supported_def)
    then have "\<forall>(k, v) \<in> set t. ToLower (TrimSpace k) \<in> {''rp'', ''txtvers'', ''qtotal''}"
      using optional_none [OF stuck(2)] "1.prems"(3)
      by (fastforce simp: isTXTProfileEssential_def Let_def split: if_splits)
    moreover have "err = e" using stuck "1.prems"(1) Inl by (auto simp: fitLoop.simps [of t p])
    ultimately show ?thesis using Inl by blast
  qed
qed

text \<open>
  The admission gives up only on a part of the TXT data that has nothing optional left: unless
  the position of rp is the reason, the routing and version keys alone do not fit, and every other
  key and every profile that stood in the way has been dropped.
\<close>

theorem fitProfileTXT_gives_up:
  assumes "fitProfileTXT input p = Inl err" "[] \<notin> fst ` set input"
  shows "\<exists>t. set t \<subseteq> set input \<and> validateTXTEntryLimits (TXTEntries t) = Inl err
    \<and> (Contains err ''rp entry'' \<or> (\<forall>(k, v) \<in> set t. ToLower (TrimSpace k) \<in> {''rp'', ''txtvers'', ''qtotal''}))"
proof -
  define t0 where "t0 = (if AirPrint p then input else deleteFold input ''urf'')"
  have "fitLoop t0 (fitProfilesForTXT t0 p) = Inl err" using assms(1) by (simp only: fitProfileTXT_def t0_def Let_def)
  moreover have sub: "set t0 \<subseteq> set input" using deleteFold_subset by (simp add: t0_def)
  then have "\<forall>k \<in> fst ` set t0. k \<noteq> []" using assms(2) by blast
  ultimately obtain t' where t': "set t' \<subseteq> set t0" and
    "validateTXTEntryLimits (TXTEntries t') = Inl err \<and> (Contains err ''rp entry'' \<or>
      (\<forall>(k, v) \<in> set t'. ToLower (TrimSpace k) \<in> {''rp'', ''txtvers'', ''qtotal''}))"
    using fitLoop_gives_up [OF _ fit_supported] by metis
  with order_trans [OF t' sub] show ?thesis by (elim conjE) (intro exI conjI)
qed

theorem fitProfileTXT_gives_up_witness:
  "\<exists>err t. fitProfileTXT [(''rp'', replicate 300 (CHR ''x''))] \<lparr>Ordinary = True, AirPrint = False, IPPEverywhere = False\<rparr> = Inl err
    \<and> set t \<subseteq> {(''rp'', replicate 300 (CHR ''x''))} \<and> validateTXTEntryLimits (TXTEntries t) = Inl err"
proof -
  let ?t = "[(''rp'', replicate 300 (CHR ''x''))]"
  let ?p = "\<lparr>Ordinary = True, AirPrint = False, IPPEverywhere = False\<rparr>"
  have "case fitProfileTXT ?t ?p of Inl _ \<Rightarrow> True | Inr _ \<Rightarrow> False" by code_simp
  then obtain err where run: "fitProfileTXT ?t ?p = Inl err" by (cases "fitProfileTXT ?t ?p") auto
  from fitProfileTXT_gives_up [OF run] run show ?thesis by auto
qed

subsection \<open>Registrations and names\<close>

definition profile_records :: "ServiceInput \<Rightarrow> txtmap \<Rightarrow> PublicationProfiles \<Rightarrow> ServiceRecord list" where
  "profile_records input t p =
     [entry input (siPort input) ''_ipp._tcp'' [] t (siGeoLocation input)]
     @ (if IPPEverywhere p then [entry input (siPort input) ''_ipp._tcp'' ''_print'' [] []] else [])
     @ (if AirPrint p then [entry input (siPort input) ''_ipp._tcp'' ''_universal'' [] []] else [])
     @ [entry input 0 ''_printer._tcp'' [] [] []]"

lemma profile_records_profiles: "Ordinary p \<Longrightarrow> publicationProfilesForRecords (profile_records input t p) = p"
  by (cases p) (simp add: publicationProfilesForRecords_def profile_records_def entry_def)

lemma valid_port: "validateServiceInputBasic locErr input = Inr () \<Longrightarrow> siPort input \<noteq> 0"
  by (simp add: validateServiceInputBasic_def validateService_def sumBind_Inr_iff split: if_splits)

text \<open>
  The registrations of a queue determine the profiles that are really published: reading them
  back yields the effective profiles of the admission. The first one is the service itself with
  the admitted TXT data, no registration announces IPPS, and the legacy printer registration has
  port 0.
\<close>

theorem records_determine_profiles:
  assumes "BuildRecordsForProfiles locErr input p = Inr rs" "Ordinary p"
  shows "\<exists>t p'. fitProfileTXT (siTXT input) p = Inr (t, p') \<and> publicationProfilesForRecords rs = p'
    \<and> srTXT (hd rs) = t \<and> srPort (last rs) = 0
    \<and> (\<forall>r \<in> set rs. srType r \<in> {''_ipp._tcp'', ''_printer._tcp''} \<and> srName r = siName input
         \<and> (srType r = ''_ipp._tcp'' \<longrightarrow> srPort r = siPort input \<and> srPort r \<noteq> 0))"
proof -
  have ok: "validateServiceInputBasic locErr input = Inr ()"
    using assms(1) by (cases "validateServiceInputBasic locErr input") (simp_all add: BuildRecordsForProfiles_def)
  with assms obtain x where fit: "fitProfileTXT (siTXT input) p = Inr x"
    by (cases "fitProfileTXT (siTXT input) p") (simp_all add: BuildRecordsForProfiles_def)
  obtain t p' where x: "x = (t, p')" by (cases x)
  have rs: "rs = profile_records input t p'"
    using assms ok fit x by (simp add: BuildRecordsForProfiles_def profile_records_def)
  have "Ordinary p'" using fitProfileTXT_sound_ordinary fit x assms(2) by blast
  then have "publicationProfilesForRecords rs = p'" unfolding rs by (rule profile_records_profiles)
  moreover have "srTXT (hd rs) = t" "srPort (last rs) = 0" by (simp_all add: rs profile_records_def entry_def)
  moreover have "\<forall>r \<in> set rs. srType r \<in> {''_ipp._tcp'', ''_printer._tcp''} \<and> srName r = siName input
         \<and> (srType r = ''_ipp._tcp'' \<longrightarrow> srPort r = siPort input \<and> srPort r \<noteq> 0)"
    using valid_port [OF ok] unfolding rs
    by (cases "IPPEverywhere p'"; cases "AirPrint p'") (simp_all add: profile_records_def entry_def)
  ultimately show ?thesis using fit x by blast
qed

theorem records_determine_profiles_witness:
  "\<exists>rs. BuildRecordsForProfiles (\<lambda>_. None)
      \<lparr>siName = ''Lab'', siHostname = ''h'', siPort = 631, siIPPS = False, siInterface = [],
       siTXT = [(''rp'', ''ipp/q''), (''pdl'', ''image/urf''), (''urf'', ''W8'')], siGeoLocation = [],
       siProfiles = \<lparr>Ordinary = True, AirPrint = True, IPPEverywhere = True\<rparr>, siProfilesSet = True,
       siMaxCollisionRetries = 0\<rparr> \<lparr>Ordinary = True, AirPrint = True, IPPEverywhere = True\<rparr> = Inr rs
    \<and> srPort (last rs) = 0 \<and> length rs = 4"
proof -
  let ?p = "\<lparr>Ordinary = True, AirPrint = True, IPPEverywhere = True\<rparr>"
  let ?in = "\<lparr>siName = ''Lab'', siHostname = ''h'', siPort = 631, siIPPS = False, siInterface = [],
       siTXT = [(''rp'', ''ipp/q''), (''pdl'', ''image/urf''), (''urf'', ''W8'')], siGeoLocation = [],
       siProfiles = ?p, siProfilesSet = True, siMaxCollisionRetries = 0\<rparr>"
  have "case BuildRecordsForProfiles (\<lambda>_. None) ?in ?p of Inl _ \<Rightarrow> False | Inr rs \<Rightarrow> length rs = 4"
    by code_simp
  then obtain rs where rs: "BuildRecordsForProfiles (\<lambda>_. None) ?in ?p = Inr rs" "length rs = 4"
    by (cases "BuildRecordsForProfiles (\<lambda>_. None) ?in ?p") auto
  from records_determine_profiles [OF rs(1)] rs show ?thesis by auto
qed

lemma digits_value: "foldl (\<lambda>a d. 10 * a + d) 0 (digits n) = n"
  by (induction n rule: digits.induct) (subst digits.simps, simp)

lemma digits_small: "d \<in> set (digits n) \<Longrightarrow> d < 10"
  by (induction n rule: digits.induct) (subst (asm) (2) digits.simps, auto split: if_splits)

lemma show_nat_inj: "show_nat m = show_nat n \<longleftrightarrow> m = n"
proof
  assume "show_nat m = show_nat n"
  moreover have "inj_on digit_char {..<10}"
    by (auto simp: inj_on_def digit_char_def)
  ultimately have "digits m = digits n"
    unfolding show_nat_def using digits_small by (auto intro: map_inj_on inj_on_subset)
  then show "m = n" by (metis digits_value)
qed simp

text \<open>
  The candidate names after collisions are as many as requested, start with the name itself
  and never repeat.
\<close>

theorem CollisionNames_distinct:
  assumes "0 < n"
  shows "distinct (CollisionNames name n) \<and> length (CollisionNames name n) = nat n \<and> hd (CollisionNames name n) = name"
proof -
  have "AlternateServiceName name (int a) = AlternateServiceName name (int b) \<longleftrightarrow> a = b" for a b
    by (cases "a = 0"; cases "b = 0") (auto simp: AlternateServiceName_def show_nat_inj)
  then have "inj_on (\<lambda>a. AlternateServiceName name (int a)) A" for A by (simp add: inj_on_def)
  then show ?thesis
    using assms by (simp add: CollisionNames_def distinct_map hd_map AlternateServiceName_def)
qed

theorem CollisionNames_distinct_witness: "distinct (CollisionNames ''Lab'' 3) \<and> length (CollisionNames ''Lab'' 3) = 3"
  using CollisionNames_distinct [of 3 "''Lab''"] by simp

end
