(* ===== verification/Dnssd_Publisher.thy ===== *)
theory Dnssd_Publisher
  imports Dnssd_Records
begin

text \<open>
  The publisher interface of \<^verbatim>\<open>internal/dnssd/publisher.go\<close> and its in-memory implementation,
  \<^verbatim>\<open>StubPublisher\<close>, which is also the publisher of every platform without Avahi
  (\<^verbatim>\<open>publisher_stub.go\<close>).

  The interface is two locales: \<open>reporting\<close> says that the status an operation returns is true of
  the publication kept, and \<open>transactional\<close> adds what the interface comment demands, that a
  failed update leaves the prior publication in place. The stub meets both.

  Every operation holds the publisher's mutex while it touches the state, so an operation is one
  step. A context is what successive looks at it find: the error of a cancelled one, or nothing.
  Copies of inputs and records are the values themselves; the logger is left out.
\<close>

subsection \<open>Data\<close>

datatype State = StatePublished | StateDegraded | StateWithdrawn | StateDisabled | StateUnpublished

datatype publish_error = PublishText string | PublishRecords record_error

record Status =
  stState :: State
  stName :: string
  stAttempts :: int
  stErr :: "publish_error option"

record Publication =
  pubName :: string
  pubInput :: ServiceInput
  pubRecords :: "ServiceRecord list"

type_synonym publish_outcome = "Status \<times> publish_error option"

datatype ctx = NilContext | Context "nat \<Rightarrow> string option"

fun contextErr :: "ctx \<Rightarrow> nat \<Rightarrow> publish_error option" where
  "contextErr NilContext i = Some (PublishText ''nil context'')"
| "contextErr (Context look) i = map_option PublishText (look i)"

definition status :: "State \<Rightarrow> string \<Rightarrow> Status" where
  "status st name = \<lparr>stState = st, stName = name, stAttempts = 0, stErr = None\<rparr>"

definition degraded :: "string \<Rightarrow> publish_error \<Rightarrow> Status" where
  "degraded name err = \<lparr>stState = StateDegraded, stName = name, stAttempts = 0, stErr = Some err\<rparr>"

definition currentName :: "Publication option \<Rightarrow> string \<Rightarrow> string" where
  "currentName current other = (case current of None \<Rightarrow> other | Some c \<Rightarrow> pubName c)"

definition DefaultCollisionRetries :: int where "DefaultCollisionRetries = 3"

definition attemptsAllowed :: "ServiceInput \<Rightarrow> int" where
  "attemptsAllowed input =
     (if siMaxCollisionRetries input = 0 then DefaultCollisionRetries else siMaxCollisionRetries input + 1)"

definition recordsFor :: "(string \<Rightarrow> string option) \<Rightarrow> ServiceInput \<Rightarrow> record_error + ServiceRecord list" where
  "recordsFor locErr input =
     (if siProfilesSet input then BuildRecordsForProfiles locErr input (siProfiles input) else BuildRecords locErr input)"

definition publicationAs :: "string \<Rightarrow> ServiceInput \<Rightarrow> ServiceRecord list \<Rightarrow> Publication" where
  "publicationAs candidate input records =
     \<lparr>pubName = candidate, pubInput = input\<lparr>siName := candidate\<rparr>,
      pubRecords = map (\<lambda>r. r\<lparr>srName := candidate\<rparr>) records\<rparr>"

subsection \<open>The stub\<close>

record StubPublisher =
  available :: bool
  disabled :: bool
  current :: "Publication option"
  collisions :: "string list"

definition NewStubPublisher :: StubPublisher where
  "NewStubPublisher = \<lparr>available = True, disabled = False, current = None, collisions = []\<rparr>"

text \<open>\<^verbatim>\<open>newPlatformPublisher\<close> without Avahi; \<open>off\<close> is the configured mode \<^verbatim>\<open>off\<close>.\<close>

definition newPlatformPublisher :: "bool \<Rightarrow> StubPublisher" where
  "newPlatformPublisher off =
     (let p = NewStubPublisher\<lparr>available := False\<rparr> in if off then p\<lparr>disabled := True\<rparr> else p)"

definition SetAvailable :: "bool \<Rightarrow> StubPublisher \<Rightarrow> StubPublisher" where
  "SetAvailable b p = p\<lparr>available := b\<rparr>"

definition SetCollidingNames :: "string list \<Rightarrow> StubPublisher \<Rightarrow> StubPublisher" where
  "SetCollidingNames names p = p\<lparr>collisions := names\<rparr>"

definition Withdraw :: "ctx \<Rightarrow> nat \<Rightarrow> StubPublisher \<Rightarrow> publish_outcome \<times> StubPublisher" where
  "Withdraw ctx look p =
     (case contextErr ctx look of
        Some err \<Rightarrow> ((degraded [] err, Some err), p)
      | None \<Rightarrow>
          if disabled p then ((status StateDisabled [], None), p\<lparr>current := None\<rparr>)
          else let name = currentName (current p) [] in
            if \<not> available p then ((degraded name (PublishText ''DNS-SD publisher unavailable''), None), p)
            else ((status StateWithdrawn name, None), p\<lparr>current := None\<rparr>))"

text \<open>The candidate loop: the first candidate without a collision, and its attempt number.\<close>

fun firstFree :: "string list \<Rightarrow> int \<Rightarrow> string list \<Rightarrow> (int \<times> string) option" where
  "firstFree taken attempt [] = None"
| "firstFree taken attempt (c # cs) =
     (if c \<in> set taken then firstFree taken (attempt + 1) cs else Some (attempt + 1, c))"

definition publishStub :: "ServiceInput \<Rightarrow> ServiceRecord list \<Rightarrow> StubPublisher \<Rightarrow> publish_outcome \<times> StubPublisher" where
  "publishStub input records p =
     (if disabled p then ((status StateDisabled (siName input), None), p\<lparr>current := None\<rparr>)
      else if \<not> available p then
        ((degraded (siName input) (PublishText ''DNS-SD publisher unavailable''), None), p)
      else case firstFree (collisions p) 0 (CollisionNames (siName input) (attemptsAllowed input)) of
        Some (attempt, candidate) \<Rightarrow>
          (((status StatePublished candidate)\<lparr>stAttempts := attempt\<rparr>, None),
           p\<lparr>current := Some (publicationAs candidate input records)\<rparr>)
      | None \<Rightarrow>
          (((degraded (siName input) (PublishText ''DNS-SD service name collision''))
              \<lparr>stAttempts := attemptsAllowed input\<rparr>, None), p))"

definition Update :: "(string \<Rightarrow> string option) \<Rightarrow> ctx \<Rightarrow> ServiceInput \<Rightarrow> StubPublisher \<Rightarrow> publish_outcome \<times> StubPublisher" where
  "Update locErr ctx input p =
     (case contextErr ctx 0 of
        Some err \<Rightarrow> ((degraded (siName input) err, Some err), p)
      | None \<Rightarrow>
     (case recordsFor locErr input of
        Inl err \<Rightarrow> ((degraded (siName input) (PublishRecords err), Some (PublishRecords err)), p)
      | Inr records \<Rightarrow>
          if siProfilesSet input \<and> \<not> Ordinary (siProfiles input) then Withdraw ctx 1 p
          else publishStub
            (if siProfilesSet input then input\<lparr>siProfiles := publicationProfilesForRecords records\<rparr> else input)
            records p))"

definition Publish :: "(string \<Rightarrow> string option) \<Rightarrow> ctx \<Rightarrow> ServiceInput \<Rightarrow> StubPublisher \<Rightarrow> publish_outcome \<times> StubPublisher" where
  "Publish = Update"

definition background :: ctx where "background = Context (\<lambda>_. None)"

definition Close :: "StubPublisher \<Rightarrow> publish_error option \<times> StubPublisher" where
  "Close p = (case Withdraw background 0 p of ((_, err), p') \<Rightarrow> (err, p'))"

definition Current :: "StubPublisher \<Rightarrow> Publication option" where
  "Current p = current p"

record DebugStateT =
  dsBackend :: string
  dsAvailability :: string
  dsEntryGroup :: string
  dsEntryGroupState :: string
  dsEntryGroupStateErr :: string
  dsClosed :: bool
  dsPublication :: "Publication option"

definition DebugState :: "StubPublisher \<Rightarrow> DebugStateT" where
  "DebugState p =
     \<lparr>dsBackend = ''stub'',
      dsAvailability = (if disabled p then ''disabled'' else if available p then ''available'' else ''unavailable''),
      dsEntryGroup = [], dsEntryGroupState = ''not_applicable'', dsEntryGroupStateErr = [], dsClosed = False,
      dsPublication = current p\<rparr>"

subsection \<open>Sequences of operations\<close>

text \<open>What a client and a test harness can ask of the stub; the controls return no status.\<close>

datatype stub_op =
    DoPublish ctx ServiceInput
  | DoUpdate ctx ServiceInput
  | DoWithdraw ctx
  | DoSetAvailable bool
  | DoSetCollidingNames "string list"

fun stubStep :: "(string \<Rightarrow> string option) \<Rightarrow> stub_op \<Rightarrow> StubPublisher \<Rightarrow> Status option \<times> StubPublisher" where
  "stubStep locErr (DoPublish ctx input) p = (case Publish locErr ctx input p of ((st, _), p') \<Rightarrow> (Some st, p'))"
| "stubStep locErr (DoUpdate ctx input) p = (case Update locErr ctx input p of ((st, _), p') \<Rightarrow> (Some st, p'))"
| "stubStep locErr (DoWithdraw ctx) p = (case Withdraw ctx 0 p of ((st, _), p') \<Rightarrow> (Some st, p'))"
| "stubStep locErr (DoSetAvailable b) p = (None, SetAvailable b p)"
| "stubStep locErr (DoSetCollidingNames names) p = (None, SetCollidingNames names p)"

text \<open>The statuses a sequence of operations returns, and the state it ends in.\<close>

fun runOps :: "('op \<Rightarrow> 's \<Rightarrow> Status option \<times> 's) \<Rightarrow> 'op list \<Rightarrow> 's \<Rightarrow> Status list \<times> 's" where
  "runOps step [] s = ([], s)"
| "runOps step (a # as) s =
     (case step a s of (r, s1) \<Rightarrow> case runOps step as s1 of (rs, s2) \<Rightarrow>
        ((case r of None \<Rightarrow> rs | Some st \<Rightarrow> st # rs), s2))"

text \<open>The client's bookkeeping: the name it believes published after a list of statuses.\<close>

fun announced :: "string option \<Rightarrow> Status list \<Rightarrow> string option" where
  "announced n [] = n"
| "announced n (st # sts) = announced
     (case stState st of StatePublished \<Rightarrow> Some (stName st) | StateDegraded \<Rightarrow> n | _ \<Rightarrow> None) sts"

subsection \<open>The contracts\<close>

text \<open>A publisher whose statuses are true of the publication it keeps.\<close>

locale reporting =
  fixes step :: "'op \<Rightarrow> 's \<Rightarrow> Status option \<times> 's"
    and kept :: "'s \<Rightarrow> Publication option"
    and inv :: "'s \<Rightarrow> bool"
  assumes inv_step: "inv s \<Longrightarrow> inv (snd (step a s))"
    and quiet: "inv s \<Longrightarrow> step a s = (None, s') \<Longrightarrow> kept s' = None \<or> kept s' = kept s"
    and published: "inv s \<Longrightarrow> step a s = (Some st, s') \<Longrightarrow> stState st = StatePublished \<Longrightarrow>
      map_option pubName (kept s') = Some (stName st)"
    and withdrawn: "inv s \<Longrightarrow> step a s = (Some st, s') \<Longrightarrow> stState st \<notin> {StatePublished, StateDegraded} \<Longrightarrow>
      kept s' = None"
    and lost_or_kept: "inv s \<Longrightarrow> step a s = (Some st, s') \<Longrightarrow> stState st = StateDegraded \<Longrightarrow>
      kept s' = None \<or> kept s' = kept s"
begin

lemma run_inv: "inv s \<Longrightarrow> inv (snd (runOps step as s))"
proof (induction as arbitrary: s)
  case (Cons a as)
  from Cons.IH [OF inv_step [OF Cons.prems, of a]] show ?case by (auto split: prod.splits)
qed simp

text \<open>Nothing is kept that was not announced, whatever fails on the way.\<close>

lemma kept_was_announced:
  assumes "inv s" "kept s = None \<or> map_option pubName (kept s) = n"
    "runOps step as s = (sts, s')"
  shows "kept s' = None \<or> map_option pubName (kept s') = announced n sts"
  using assms
proof (induction as arbitrary: s n sts)
  case (Cons a as)
  obtain r s1 rs where step: "step a s = (r, s1)" "runOps step as s1 = (rs, s')"
    "sts = (case r of None \<Rightarrow> rs | Some st \<Rightarrow> st # rs)"
    using Cons.prems(3) by (auto split: prod.splits)
  have "inv s1" using inv_step [OF Cons.prems(1), of a] step(1) by simp
  show ?case
  proof (cases r)
    case None
    with quiet [OF Cons.prems(1)] step have "kept s1 = None \<or> kept s1 = kept s" by simp
    with Cons.IH [OF \<open>inv s1\<close> _ step(2), of n] Cons.prems step None show ?thesis by auto
  next
    case (Some st)
    let ?n = "case stState st of StatePublished \<Rightarrow> Some (stName st) | StateDegraded \<Rightarrow> n | _ \<Rightarrow> None"
    have run: "step a s = (Some st, s1)" using step(1) Some by simp
    have "kept s1 = None \<or> map_option pubName (kept s1) = ?n"
      using published [OF Cons.prems(1) run] withdrawn [OF Cons.prems(1) run] lost_or_kept [OF Cons.prems(1) run]
        Cons.prems(2) by (cases "stState st") auto
    with Cons.IH [OF \<open>inv s1\<close> _ step(2), of ?n] step Some show ?thesis by simp
  qed
qed simp

end

text \<open>The interface comment: a failed update leaves the prior publication in place.\<close>

locale transactional = reporting +
  assumes quiet_keeps: "inv s \<Longrightarrow> step a s = (None, s') \<Longrightarrow> kept s' = kept s"
    and failed_keeps: "inv s \<Longrightarrow> step a s = (Some st, s') \<Longrightarrow> stState st = StateDegraded \<Longrightarrow> kept s' = kept s"
begin

text \<open>Then the client's bookkeeping is exact.\<close>

lemma kept_is_announced:
  assumes "inv s" "runOps step as s = (sts, s')"
  shows "map_option pubName (kept s') = announced (map_option pubName (kept s)) sts"
  using assms
proof (induction as arbitrary: s sts)
  case (Cons a as)
  obtain r s1 rs where step: "step a s = (r, s1)" "runOps step as s1 = (rs, s')"
    "sts = (case r of None \<Rightarrow> rs | Some st \<Rightarrow> st # rs)"
    using Cons.prems(2) by (auto split: prod.splits)
  have "inv s1" using inv_step [OF Cons.prems(1), of a] step(1) by simp
  show ?case
  proof (cases r)
    case None
    with quiet_keeps [OF Cons.prems(1)] Cons.IH [OF \<open>inv s1\<close> step(2)] step show ?thesis by simp
  next
    case (Some st)
    have "map_option pubName (kept s1) =
      (case stState st of StatePublished \<Rightarrow> Some (stName st) | StateDegraded \<Rightarrow> map_option pubName (kept s) | _ \<Rightarrow> None)"
      using published [OF Cons.prems(1)] withdrawn [OF Cons.prems(1)] failed_keeps [OF Cons.prems(1)] step(1) Some
      by (cases "stState st") auto
    with Cons.IH [OF \<open>inv s1\<close> step(2)] step Some show ?thesis by simp
  qed
qed simp

end

subsection \<open>The stub meets the contract\<close>

lemmas stub_defs = Publish_def Update_def Withdraw_def publishStub_def SetAvailable_def SetCollidingNames_def
  status_def degraded_def currentName_def publicationAs_def

interpretation stub: transactional "stubStep locErr" current "\<lambda>_. True"
proof unfold_locales
  fix s s' :: StubPublisher and a st
  show quiet: "stubStep locErr a s = (None, s') \<Longrightarrow> current s' = current s"
    by (cases a) (auto simp: SetAvailable_def SetCollidingNames_def split: prod.splits)
  then show "stubStep locErr a s = (None, s') \<Longrightarrow> current s' = None \<or> current s' = current s" by blast
  assume step: "stubStep locErr a s = (Some st, s')"
  then obtain ctx look input where op: "a = DoPublish ctx input \<or> a = DoUpdate ctx input \<or> a = DoWithdraw ctx"
    by (cases a) auto
  show "stState st = StatePublished \<Longrightarrow> map_option pubName (current s') = Some (stName st)"
    using op step by (auto simp: stub_defs Let_def split: prod.splits option.splits sum.splits if_splits)
  show "stState st \<notin> {StatePublished, StateDegraded} \<Longrightarrow> current s' = None"
    using op step by (auto simp: stub_defs Let_def split: prod.splits option.splits sum.splits if_splits)
  show *: "stState st = StateDegraded \<Longrightarrow> current s' = current s"
    using op step by (auto simp: stub_defs Let_def split: prod.splits option.splits sum.splits if_splits)
  then show "stState st = StateDegraded \<Longrightarrow> current s' = None \<or> current s' = current s" by blast
qed simp

end
