(* ===== verification/Dnssd_Avahi.thy ===== *)
theory Dnssd_Avahi
  imports Dnssd_Publisher
begin

text \<open>
  The Avahi publisher, \<^verbatim>\<open>internal/dnssd/publisher_avahi.go\<close>.

  Avahi, the system bus and the kernel's interface table are outside the program: they are the
  parameter \<open>env\<close>, a function that answers a call in a state of its own. A call carries the
  context it is bounded by: the caller's, which may be cancelled, or an independent one for
  cleanup. An error is its message, because the code classifies errors by their text.
  \<^verbatim>\<open>EncodeLOC\<close> is the parameter \<open>enc\<close> (a message, or the LOC payload).

  \<^verbatim>\<open>waitForGroupState\<close> polls every 25 ms for at most 2 s: at most 80 ticks fire before the
  deadline, and the call \<open>Tick\<close> asks the environment whether the next one does.

  The function fields that are nil in production (\<^verbatim>\<open>freeGroupFn\<close>, \<^verbatim>\<open>ensureBusFn\<close>,
  \<^verbatim>\<open>updateServiceTXTFn\<close>, \<^verbatim>\<open>createGroupFn\<close>) are left out.
\<close>

subsection \<open>The outside world\<close>

datatype reach = Caller | Independent

datatype call =
    Connected
  | SystemBus
  | InterfaceByName string
  | Tick
  | EntryGroupNew
  | AddServiceSubtype string int string string string
  | AddService string int string string string "16 word" "string list"
  | AddRecord string int string string
  | Commit string
  | GetState string
  | UpdateServiceTxt string int string string "string list"
  | Free string

datatype reply = Replied | PathReply string | IntReply int | Failed string

type_synonym 'e env = "reach \<Rightarrow> call \<Rightarrow> 'e \<Rightarrow> reply \<times> 'e"

fun replyErr :: "reply \<Rightarrow> string option" where
  "replyErr (Failed m) = Some m"
| "replyErr _ = None"

fun storePath :: "reply \<Rightarrow> string + string" where
  "storePath (PathReply p) = Inr p"
| "storePath (Failed m) = Inl m"
| "storePath _ = Inl ''dbus.Store: type mismatch''"

fun storeInt :: "reply \<Rightarrow> string + int" where
  "storeInt (IntReply i) = Inr i"
| "storeInt (Failed m) = Inl m"
| "storeInt _ = Inl ''dbus.Store: type mismatch''"

definition avahiInterfaceUnspec :: int where "avahiInterfaceUnspec = - 1"
definition avahiGroupUncommitted :: int where "avahiGroupUncommitted = 0"
definition avahiGroupRegistering :: int where "avahiGroupRegistering = 1"
definition avahiGroupEstablished :: int where "avahiGroupEstablished = 2"
definition avahiGroupCollision :: int where "avahiGroupCollision = 3"
definition avahiGroupFailure :: int where "avahiGroupFailure = 4"
definition avahiStatePollInterval :: nat where "avahiStatePollInterval = 25"
definition avahiStateWait :: nat where "avahiStateWait = 2000"

definition isCollisionError :: "string \<Rightarrow> bool" where
  "isCollisionError err =
     (let message = ToLower err in
      Contains message ''collision'' \<or> Contains message ''nameconflict'' \<or> Contains message ''already exists'')"

definition isStaleEntryGroupError :: "string \<Rightarrow> bool" where
  "isStaleEntryGroupError err =
     (let message = ToLower err in
      Contains message ''unknownobject'' \<or> Contains message ''unknown object'' \<or> Contains message ''no such object''
      \<or> Contains message ''serviceunknown'' \<or> Contains message ''service unknown''
      \<or> Contains message ''entry group no longer exists'')"

definition staleOpt :: "string option \<Rightarrow> bool" where
  "staleOpt err = (case err of None \<Rightarrow> False | Some m \<Rightarrow> isStaleEntryGroupError m)"

definition avahiTXT :: "txtmap \<Rightarrow> string list" where
  "avahiTXT t = TXTEntries t"

definition interfaceIndex :: "'e env \<Rightarrow> string \<Rightarrow> 'e \<Rightarrow> (string + int) \<times> 'e" where
  "interfaceIndex env name e =
     (if name = [] then (Inr avahiInterfaceUnspec, e)
      else case env Independent (InterfaceByName name) e of (r, e1) \<Rightarrow>
        (case storeInt r of Inl m \<Rightarrow> Inl m | Inr i \<Rightarrow> Inr (sint (word_of_int i :: 32 word)), e1))"

fun waitForGroupState :: "'e env \<Rightarrow> nat \<Rightarrow> string \<Rightarrow> 'e \<Rightarrow> (string + int) \<times> 'e" where
  "waitForGroupState env ticks path e =
     (case env Caller (GetState path) e of (r, e1) \<Rightarrow>
      case storeInt r of
        Inl m \<Rightarrow> (Inl m, e1)
      | Inr state \<Rightarrow>
          if state \<in> {avahiGroupEstablished, avahiGroupCollision, avahiGroupFailure} then (Inr state, e1)
          else (case ticks of
              0 \<Rightarrow> (Inl (''waiting for avahi entry group '' @ path @ '': context deadline exceeded''), e1)
            | Suc left \<Rightarrow>
                (case env Caller Tick e1 of (t, e2) \<Rightarrow>
                 case replyErr t of
                   Some m \<Rightarrow> (Inl (''waiting for avahi entry group '' @ path @ '': '' @ m), e2)
                 | None \<Rightarrow> waitForGroupState env left path e2)))"

declare waitForGroupState.simps [simp del]

subsection \<open>The publisher\<close>

record AvahiPublisher =
  apHostname :: string
  apInterface :: string
  apOff :: bool
  apConn :: bool
  apGroup :: string
  apCurrent :: "Publication option"
  apClosed :: bool

definition newAvahiPublisher :: "string \<Rightarrow> string \<Rightarrow> bool \<Rightarrow> AvahiPublisher" where
  "newAvahiPublisher hostname iface off =
     \<lparr>apHostname = hostname, apInterface = iface, apOff = off, apConn = False, apGroup = [], apCurrent = None,
      apClosed = False\<rparr>"

definition forget :: "AvahiPublisher \<Rightarrow> AvahiPublisher" where
  "forget p = p\<lparr>apGroup := [], apCurrent := None\<rparr>"

definition freeGroup :: "'e env \<Rightarrow> reach \<Rightarrow> string \<Rightarrow> AvahiPublisher \<Rightarrow> 'e \<Rightarrow> string option \<times> 'e" where
  "freeGroup env ctx path p e =
     (if \<not> apConn p \<or> path = [] then (None, e)
      else case env ctx (Free path) e of (r, e1) \<Rightarrow> (replyErr r, e1))"

definition ensureBus :: "'e env \<Rightarrow> AvahiPublisher \<Rightarrow> 'e \<Rightarrow> string option \<times> AvahiPublisher \<times> 'e" where
  "ensureBus env p e =
     (let (up, e1) = (if apConn p then (case env Independent Connected e of (r, e1) \<Rightarrow> (r = Replied, e1)) else (False, e)) in
      if up then (None, p, e1)
      else case env Independent SystemBus e1 of (r, e2) \<Rightarrow>
        (case replyErr r of Some m \<Rightarrow> (Some m, p, e2) | None \<Rightarrow> (None, p\<lparr>apConn := True\<rparr>, e2)))"

subsection \<open>Creating an entry group\<close>

text \<open>A new group, a name collision (whose message the caller drops), or another error.\<close>

datatype creation = Created string | Collision | CreateFailed string

definition createErr :: "string \<Rightarrow> creation" where
  "createErr m = (if isCollisionError m then Collision else CreateFailed m)"

definition addRecordTo :: "(string \<Rightarrow> string + string) \<Rightarrow> 'e env \<Rightarrow> string \<Rightarrow> int \<Rightarrow> ServiceRecord \<Rightarrow> 'e \<Rightarrow> creation option \<times> 'e" where
  "addRecordTo enc env path idx r e =
     (if srSubtype r \<noteq> [] then
        (case env Caller (AddServiceSubtype path idx (srName r) (srType r) (FullType r)) e of (a, e1) \<Rightarrow>
          (map_option createErr (replyErr a), e1))
      else case env Caller (AddService path idx (srName r) (srType r) (srHostname r) (srPort r) (avahiTXT (srTXT r))) e of
        (a, e1) \<Rightarrow>
          (case replyErr a of
             Some m \<Rightarrow> (Some (createErr m), e1)
           | None \<Rightarrow>
               if srGeoLocation r \<noteq> [] \<and> srHostname r \<noteq> [] then
                 (case enc (srGeoLocation r) of
                    Inl m \<Rightarrow> (Some (CreateFailed m), e1)
                  | Inr loc \<Rightarrow>
                      (case env Caller (AddRecord path idx (srHostname r) loc) e1 of (b, e2) \<Rightarrow>
                        (map_option createErr (replyErr b), e2)))
               else (None, e1)))"

fun addRecords :: "(string \<Rightarrow> string + string) \<Rightarrow> 'e env \<Rightarrow> string \<Rightarrow> int \<Rightarrow> ServiceRecord list \<Rightarrow> 'e \<Rightarrow> creation option \<times> 'e" where
  "addRecords enc env path idx [] e = (None, e)"
| "addRecords enc env path idx (r # rs) e =
     (case addRecordTo enc env path idx r e of
        (Some c, e1) \<Rightarrow> (Some c, e1)
      | (None, e1) \<Rightarrow> addRecords enc env path idx rs e1)"

text \<open>The body after the group exists; every result but \<open>Created\<close> runs the deferred cleanup.\<close>

definition fillGroup ::
  "(string \<Rightarrow> string + string) \<Rightarrow> 'e env \<Rightarrow> string \<Rightarrow> ServiceInput \<Rightarrow> ServiceRecord list \<Rightarrow> 'e \<Rightarrow> creation \<times> 'e" where
  "fillGroup enc env path input records e =
     (case interfaceIndex env (siInterface input) e of
        (Inl m, e1) \<Rightarrow> (CreateFailed m, e1)
      | (Inr idx, e1) \<Rightarrow>
     (case addRecords enc env path idx records e1 of
        (Some c, e2) \<Rightarrow> (c, e2)
      | (None, e2) \<Rightarrow>
     (case env Caller (Commit path) e2 of (r, e3) \<Rightarrow>
      case replyErr r of
        Some m \<Rightarrow> (createErr m, e3)
      | None \<Rightarrow>
     (case waitForGroupState env (avahiStateWait div avahiStatePollInterval) path e3 of
        (Inl m, e4) \<Rightarrow> (CreateFailed m, e4)
      | (Inr state, e4) \<Rightarrow>
          (if state = avahiGroupCollision then Collision
           else if state \<noteq> avahiGroupEstablished then
             CreateFailed (''avahi entry group entered state '' @ show_nat (nat state))
           else Created path, e4)))))"

definition createGroup ::
  "(string \<Rightarrow> string + string) \<Rightarrow> 'e env \<Rightarrow> ServiceInput \<Rightarrow> ServiceRecord list \<Rightarrow> AvahiPublisher \<Rightarrow> 'e \<Rightarrow> creation \<times> 'e" where
  "createGroup enc env input records p e =
     (case env Caller EntryGroupNew e of (r, e1) \<Rightarrow>
      case storePath r of
        Inl m \<Rightarrow> (createErr m, e1)
      | Inr path \<Rightarrow>
          (case fillGroup enc env path input records e1 of (c, e2) \<Rightarrow>
           case c of
             Created _ \<Rightarrow> (c, e2)
           | _ \<Rightarrow> (case freeGroup env Independent path p e2 of (_, e3) \<Rightarrow> (c, e3))))"

fun createFirst ::
  "(string \<Rightarrow> string + string) \<Rightarrow> 'e env \<Rightarrow> int \<Rightarrow> string list \<Rightarrow> ServiceInput \<Rightarrow> ServiceRecord list \<Rightarrow>
   AvahiPublisher \<Rightarrow> 'e \<Rightarrow> Status \<times> AvahiPublisher \<times> 'e" where
  "createFirst enc env attempt [] input records p e =
     ((degraded (siName input) (PublishText ''DNS-SD service name collision''))
        \<lparr>stAttempts := attemptsAllowed input\<rparr>, p, e)"
| "createFirst enc env attempt (candidate # cs) input records p e =
     (let pub = publicationAs candidate input records in
      case createGroup enc env (pubInput pub) (pubRecords pub) p e of
        (Collision, e1) \<Rightarrow> createFirst enc env (attempt + 1) cs input records p e1
      | (CreateFailed m, e1) \<Rightarrow> ((degraded candidate (PublishText m))\<lparr>stAttempts := attempt + 1\<rparr>, p, e1)
      | (Created path, e1) \<Rightarrow>
          ((status StatePublished candidate)\<lparr>stAttempts := attempt + 1\<rparr>, p\<lparr>apGroup := path, apCurrent := Some pub\<rparr>, e1))"

subsection \<open>Updating the TXT data of a group\<close>

definition previousFor :: "Publication option \<Rightarrow> string \<Rightarrow> ServiceRecord option" where
  "previousFor cur typ = (case cur of None \<Rightarrow> None
     | Some c \<Rightarrow> List.find (\<lambda>r. srSubtype r = [] \<and> srType r = typ) (rev (pubRecords c)))"

definition updateServiceTXT :: "'e env \<Rightarrow> reach \<Rightarrow> string \<Rightarrow> int \<Rightarrow> ServiceRecord \<Rightarrow> 'e \<Rightarrow> string option \<times> 'e" where
  "updateServiceTXT env ctx grp idx r e =
     (case env ctx (UpdateServiceTxt grp idx (srName r) (srType r) (avahiTXT (srTXT r))) e of (a, e1) \<Rightarrow> (replyErr a, e1))"

fun rollbackTXT ::
  "'e env \<Rightarrow> string \<Rightarrow> int \<Rightarrow> (string \<Rightarrow> ServiceRecord option) \<Rightarrow> ServiceRecord list \<Rightarrow> 'e \<Rightarrow> string option \<times> 'e" where
  "rollbackTXT env grp idx previous [] e = (None, e)"
| "rollbackTXT env grp idx previous (r # rs) e =
     (case previous (srType r) of
        None \<Rightarrow> (Some (''no previous TXT record for '' @ srType r), e)
      | Some old \<Rightarrow>
          (case updateServiceTXT env Independent grp idx old e of
             (Some m, e1) \<Rightarrow> (Some (''restore '' @ srType r @ '' TXT: '' @ m), e1)
           | (None, e1) \<Rightarrow> rollbackTXT env grp idx previous rs e1))"

definition rollbackMessage :: "string \<Rightarrow> string \<Rightarrow> string" where
  "rollbackMessage updateErr rollbackErr =
     ''TXT update failed: '' @ updateErr @ ''; rollback failed: '' @ rollbackErr"

text \<open>A failed update of one service: roll back, and free the group when that fails too.\<close>

definition abandonTXT ::
  "'e env \<Rightarrow> int \<Rightarrow> ServiceRecord list \<Rightarrow> string \<Rightarrow> AvahiPublisher \<Rightarrow> 'e \<Rightarrow> string option \<times> AvahiPublisher \<times> 'e" where
  "abandonTXT env idx updated err p e =
     (case rollbackTXT env (apGroup p) idx (previousFor (apCurrent p)) updated e of
        (None, e1) \<Rightarrow> (Some err, p, e1)
      | (Some m, e1) \<Rightarrow>
          (case freeGroup env Independent (apGroup p) p e1 of
             (None, e2) \<Rightarrow> (Some (rollbackMessage err m), forget p, e2)
           | (Some f, e2) \<Rightarrow> (Some (rollbackMessage err (m @ [CHR 0x0A] @ ''free failed group: '' @ f)), p, e2)))"

fun updateTXTs ::
  "'e env \<Rightarrow> int \<Rightarrow> ServiceRecord list \<Rightarrow> ServiceRecord list \<Rightarrow> AvahiPublisher \<Rightarrow> 'e \<Rightarrow> string option \<times> AvahiPublisher \<times> 'e" where
  "updateTXTs env idx updated [] p e = (None, p, e)"
| "updateTXTs env idx updated (r # rs) p e =
     (if srSubtype r \<noteq> [] \<or> srType r = ''_printer._tcp'' then updateTXTs env idx updated rs p e
      else case updateServiceTXT env Caller (apGroup p) idx r e of
        (Some err, e1) \<Rightarrow> abandonTXT env idx (updated @ [r]) err p e1
      | (None, e1) \<Rightarrow> updateTXTs env idx (updated @ [r]) rs p e1)"

definition updateGroupTXT ::
  "'e env \<Rightarrow> ServiceInput \<Rightarrow> ServiceRecord list \<Rightarrow> AvahiPublisher \<Rightarrow> 'e \<Rightarrow> string option \<times> AvahiPublisher \<times> 'e" where
  "updateGroupTXT env input records p e =
     (case interfaceIndex env (siInterface input) e of
        (Inl m, e1) \<Rightarrow> (Some m, p, e1)
      | (Inr idx, e1) \<Rightarrow> updateTXTs env idx [] records p e1)"

subsection \<open>Operations\<close>

text \<open>After a failed TXT update: a group that is gone or no longer established is given up.\<close>

definition recoverGroup :: "'e env \<Rightarrow> string \<Rightarrow> AvahiPublisher \<Rightarrow> 'e \<Rightarrow> AvahiPublisher \<times> 'e" where
  "recoverGroup env err p e =
     (if isStaleEntryGroupError err then (forget p, e)
      else if apGroup p \<noteq> [] \<and> apCurrent p \<noteq> None \<and> apConn p then
        (case env Independent (GetState (apGroup p)) e of (r, e1) \<Rightarrow>
         (let (stateErr, fine) = (case storeInt r of Inl m \<Rightarrow> (Some m, False) | Inr i \<Rightarrow> (None, i = avahiGroupEstablished)) in
          if fine then (p, e1)
          else case freeGroup env Independent (apGroup p) p e1 of (cleanupErr, e2) \<Rightarrow>
            (if cleanupErr = None \<or> staleOpt stateErr \<or> staleOpt cleanupErr then forget p else p, e2)))
      else (p, e))"

definition fillDefaults :: "AvahiPublisher \<Rightarrow> ServiceInput \<Rightarrow> ServiceInput" where
  "fillDefaults p input =
     (let input = (if siHostname input = [] then input\<lparr>siHostname := apHostname p\<rparr> else input) in
      if siInterface input = [] then input\<lparr>siInterface := apInterface p\<rparr> else input)"

definition withProfiles :: "ServiceRecord list \<Rightarrow> ServiceInput \<Rightarrow> ServiceInput" where
  "withProfiles records input =
     (if siProfilesSet input then input\<lparr>siProfiles := publicationProfilesForRecords records\<rparr> else input)"

definition withdrawProfile :: "'e env \<Rightarrow> ServiceInput \<Rightarrow> AvahiPublisher \<Rightarrow> 'e \<Rightarrow> Status \<times> AvahiPublisher \<times> 'e" where
  "withdrawProfile env input p e =
     (let name = currentName (apCurrent p) (siName input) in
      case (if apGroup p \<noteq> [] then freeGroup env Caller (apGroup p) p e else (None, e)) of (err, e1) \<Rightarrow>
        (case err of
           Some m \<Rightarrow>
             if \<not> isStaleEntryGroupError m then (degraded name (PublishText m), p, e1)
             else (status StateWithdrawn name, forget p, e1)
         | None \<Rightarrow> (status StateWithdrawn name, forget p, e1)))"

definition disablePublication :: "'e env \<Rightarrow> ServiceInput \<Rightarrow> AvahiPublisher \<Rightarrow> 'e \<Rightarrow> Status \<times> AvahiPublisher \<times> 'e" where
  "disablePublication env input p e =
     (case (if apGroup p \<noteq> [] then freeGroup env Caller (apGroup p) p e else (None, e)) of (err, e1) \<Rightarrow>
        (case err of
           Some m \<Rightarrow>
             (let name = currentName (apCurrent p) (siName input) in
              if isStaleEntryGroupError m
              then ((status StateDisabled name)\<lparr>stErr := Some (PublishText m)\<rparr>, forget p, e1)
              else (degraded name (PublishText m), p, e1))
         | None \<Rightarrow> (status StateDisabled (siName input), forget p, e1)))"

text \<open>The input under the identity of the current publication.\<close>

definition adoptIdentity :: "Publication \<Rightarrow> ServiceInput \<Rightarrow> ServiceInput" where
  "adoptIdentity c input = input\<lparr>siName := pubName c, siHostname := siHostname (pubInput c),
     siPort := siPort (pubInput c), siIPPS := siIPPS (pubInput c), siInterface := siInterface (pubInput c),
     siGeoLocation := siGeoLocation (pubInput c)\<rparr>"

text \<open>The part of \<^verbatim>\<open>Update\<close> that talks to the daemon about the input and its records.\<close>

definition synchronize ::
  "(string \<Rightarrow> string + string) \<Rightarrow> 'e env \<Rightarrow> ServiceInput \<Rightarrow> ServiceRecord list \<Rightarrow> AvahiPublisher \<Rightarrow> 'e \<Rightarrow>
   Status \<times> AvahiPublisher \<times> 'e" where
  "synchronize enc env input records p e =
     (case ensureBus env p e of
        (Some m, p1, e1) \<Rightarrow> (degraded (siName input) (PublishText m), p1, e1)
      | (None, p1, e1) \<Rightarrow>
          if apGroup p1 \<noteq> [] \<and> apCurrent p1 \<noteq> None then
            (case updateGroupTXT env input records p1 e1 of
               (Some err, p2, e2) \<Rightarrow>
                 (let name = currentName (apCurrent p2) (siName input) in
                  case recoverGroup env err p2 e2 of (p3, e3) \<Rightarrow> (degraded name (PublishText err), p3, e3))
             | (None, p2, e2) \<Rightarrow>
                 ((status StatePublished (siName input))\<lparr>stAttempts := 1\<rparr>,
                  p2\<lparr>apCurrent := Some \<lparr>pubName = siName input, pubInput = input, pubRecords = records\<rparr>\<rparr>, e2))
          else createFirst enc env 0 (CollisionNames (siName input) (attemptsAllowed input)) input records p1 e1)"

definition replacePublication ::
  "(string \<Rightarrow> string + string) \<Rightarrow> (string \<Rightarrow> string option) \<Rightarrow> 'e env \<Rightarrow> Publication \<Rightarrow> ServiceInput \<Rightarrow> AvahiPublisher \<Rightarrow> 'e \<Rightarrow>
   Status \<times> AvahiPublisher \<times> 'e" where
  "replacePublication enc locErr env c input0 p e =
     (let input = adoptIdentity c input0 in
      case recordsFor locErr input of
        Inl err \<Rightarrow> (degraded (siName input) (PublishRecords err), p, e)
      | Inr records \<Rightarrow>
          (let input = withProfiles records input in
           if apGroup p \<noteq> [] \<and> \<not> samePublicationStructure (pubRecords c) records then
             (case freeGroup env Caller (apGroup p) p e of (err, e1) \<Rightarrow>
                (case err of
                   Some m \<Rightarrow>
                     if \<not> isStaleEntryGroupError m then (degraded (pubName c) (PublishText m), p, e1)
                     else synchronize enc env input records (forget p) e1
                 | None \<Rightarrow> synchronize enc env input records (forget p) e1))
           else synchronize enc env input records p e))"

definition locErrOf :: "(string \<Rightarrow> string + string) \<Rightarrow> string \<Rightarrow> string option" where
  "locErrOf enc raw = (case enc raw of Inl m \<Rightarrow> Some m | Inr _ \<Rightarrow> None)"

definition AvahiUpdate ::
  "(string \<Rightarrow> string + string) \<Rightarrow> 'e env \<Rightarrow> ctx \<Rightarrow> ServiceInput \<Rightarrow> AvahiPublisher \<times> 'e \<Rightarrow> publish_outcome \<times> AvahiPublisher \<times> 'e" where
  "AvahiUpdate enc env ctx input0 s = (case s of (p, e) \<Rightarrow>
     case contextErr ctx 0 of
       Some err \<Rightarrow> ((degraded (siName input0) err, Some err), p, e)
     | None \<Rightarrow>
    (let input = fillDefaults p input0 in
     case recordsFor (locErrOf enc) input of
       Inl err \<Rightarrow> ((degraded (siName input) (PublishRecords err), Some (PublishRecords err)), p, e)
     | Inr records \<Rightarrow>
    (let profiled = (if Ordinary (siProfiles input) then withProfiles records input else input) in
     if apClosed p then
       (let err = PublishText ''DNS-SD publisher is closed'' in ((degraded (siName input) err, Some err), p, e))
     else
       (case (if siProfilesSet profiled \<and> \<not> Ordinary (siProfiles profiled) then withdrawProfile env profiled p e
              else if apOff p then disablePublication env profiled p e
              else case apCurrent p of
                None \<Rightarrow> synchronize enc env profiled records p e
              | Some c \<Rightarrow> replacePublication enc (locErrOf enc) env c profiled p e) of
          (st, p1, e1) \<Rightarrow> ((st, None), p1, e1)))))"

definition AvahiPublish ::
  "(string \<Rightarrow> string + string) \<Rightarrow> 'e env \<Rightarrow> ctx \<Rightarrow> ServiceInput \<Rightarrow> AvahiPublisher \<times> 'e \<Rightarrow> publish_outcome \<times> AvahiPublisher \<times> 'e" where
  "AvahiPublish = AvahiUpdate"

definition AvahiWithdraw :: "'e env \<Rightarrow> ctx \<Rightarrow> AvahiPublisher \<times> 'e \<Rightarrow> publish_outcome \<times> AvahiPublisher \<times> 'e" where
  "AvahiWithdraw env ctx s = (case s of (p, e) \<Rightarrow>
     case contextErr ctx 0 of
       Some err \<Rightarrow> ((degraded [] err, Some err), p, e)
     | None \<Rightarrow>
    (let name = currentName (apCurrent p) [] in
     if apGroup p = [] then ((status StateWithdrawn name, None), p\<lparr>apCurrent := None\<rparr>, e)
     else case freeGroup env Caller (apGroup p) p e of
       (Some m, e1) \<Rightarrow>
         if isStaleEntryGroupError m
         then (((status StateWithdrawn name)\<lparr>stErr := Some (PublishText m)\<rparr>, None), forget p, e1)
         else ((degraded name (PublishText m), None), p, e1)
     | (None, e1) \<Rightarrow> ((status StateWithdrawn name, None), forget p, e1)))"

definition AvahiClose :: "'e env \<Rightarrow> AvahiPublisher \<times> 'e \<Rightarrow> string option \<times> AvahiPublisher \<times> 'e" where
  "AvahiClose env s = (case s of (p, e) \<Rightarrow>
     if apClosed p then (None, p, e)
     else case (if apGroup p \<noteq> [] then freeGroup env Independent (apGroup p) p e else (None, e)) of (err, e1) \<Rightarrow>
       (let p1 = (if apGroup p \<noteq> [] then forget p else p)\<lparr>apClosed := True, apConn := False\<rparr> in
        case err of
          Some m \<Rightarrow> if \<not> isStaleEntryGroupError m then (Some m, p, e1) else (None, p1, e1)
        | None \<Rightarrow> (None, p1, e1)))"

definition avahiGroupStateName :: "int \<Rightarrow> string" where
  "avahiGroupStateName st =
     (if st = avahiGroupUncommitted then ''uncommitted''
      else if st = avahiGroupRegistering then ''registering''
      else if st = avahiGroupEstablished then ''established''
      else if st = avahiGroupCollision then ''collision''
      else if st = avahiGroupFailure then ''failure''
      else ''unknown('' @ (if st < 0 then ''-'' else []) @ show_nat (nat \<bar>st\<bar>) @ '')'')"

definition AvahiDebugState :: "'e env \<Rightarrow> AvahiPublisher \<times> 'e \<Rightarrow> DebugStateT \<times> 'e" where
  "AvahiDebugState env s = (case s of (p, e) \<Rightarrow>
     (let (availability, e1) =
         (if apClosed p then (''closed'', e)
          else if apConn p then (case env Independent Connected e of (r, e1) \<Rightarrow>
            (if r = Replied then ''connected'' else ''disconnected'', e1))
          else (''not_connected'', e));
       (grpState, grpErr, e2) =
         (if apGroup p = [] then (''not_created'', [], e1)
          else if \<not> apConn p then (''unknown'', ''Avahi connection is unavailable'', e1)
          else (case env Independent (GetState (apGroup p)) e1 of (r, e2) \<Rightarrow>
            (case storeInt r of Inl m \<Rightarrow> (''unknown'', m, e2) | Inr i \<Rightarrow> (avahiGroupStateName i, [], e2))))
      in (\<lparr>dsBackend = ''avahi'', dsAvailability = availability, dsEntryGroup = apGroup p, dsEntryGroupState = grpState,
          dsEntryGroupStateErr = grpErr, dsClosed = apClosed p, dsPublication = apCurrent p\<rparr>, e2)))"

datatype avahi_op = AvahiDoUpdate ctx ServiceInput | AvahiDoWithdraw ctx | AvahiDoClose

fun avahiStep :: "(string \<Rightarrow> string + string) \<Rightarrow> 'e env \<Rightarrow> avahi_op \<Rightarrow> AvahiPublisher \<times> 'e \<Rightarrow> Status option \<times> AvahiPublisher \<times> 'e" where
  "avahiStep enc env (AvahiDoUpdate ctx input) s = (case AvahiUpdate enc env ctx input s of ((st, _), s') \<Rightarrow> (Some st, s'))"
| "avahiStep enc env (AvahiDoWithdraw ctx) s = (case AvahiWithdraw env ctx s of ((st, _), s') \<Rightarrow> (Some st, s'))"
| "avahiStep enc env AvahiDoClose s = (case AvahiClose env s of (_, s') \<Rightarrow> (None, s'))"

end
