(* ===== verification/Dnssd_Sync.thy ===== *)
theory Dnssd_Sync
  imports Dnssd_Avahi
begin

text \<open>
  The publishers keep their contracts. For Avahi: the statuses are true of the publication kept
  (\<open>reporting\<close>), and, under the laws of the daemon stated below, the publisher never holds or
  leaks an entry group it does not know, and what it keeps as its publication is what the daemon
  advertises.
\<close>

subsection \<open>Statuses are true\<close>

definition truthful :: "Publication option \<Rightarrow> Status \<Rightarrow> Publication option \<Rightarrow> bool" where
  "truthful c st c' = (case stState st of
      StatePublished \<Rightarrow> map_option pubName c' = Some (stName st)
    | StateDegraded \<Rightarrow> c' = None \<or> c' = c
    | _ \<Rightarrow> c' = None)"

lemma truthful_simps [simp]:
  "truthful c (degraded n m) c' \<longleftrightarrow> c' = None \<or> c' = c"
  "truthful c ((degraded n m)\<lparr>stAttempts := k\<rparr>) c' \<longleftrightarrow> c' = None \<or> c' = c"
  "truthful c ((status StatePublished n)\<lparr>stAttempts := k\<rparr>) c' \<longleftrightarrow> map_option pubName c' = Some n"
  "truthful c (status StateWithdrawn n) c' \<longleftrightarrow> c' = None"
  "truthful c (status StateDisabled n) c' \<longleftrightarrow> c' = None"
  "truthful c ((status StateWithdrawn n)\<lparr>stErr := er\<rparr>) c' \<longleftrightarrow> c' = None"
  "truthful c ((status StateDisabled n)\<lparr>stErr := er\<rparr>) c' \<longleftrightarrow> c' = None"
  by (auto simp: truthful_def status_def degraded_def)

lemma forget_simps [simp]:
  "apCurrent (forget p) = None" "apGroup (forget p) = []" "apConn (forget p) = apConn p" "apClosed (forget p) = apClosed p"
  by (simp_all add: forget_def)

lemma publicationAs_simps [simp]:
  "pubName (publicationAs n input rs) = n" "pubInput (publicationAs n input rs) = input\<lparr>siName := n\<rparr>"
  "pubRecords (publicationAs n input rs) = map (\<lambda>r. r\<lparr>srName := n\<rparr>) rs"
  by (simp_all add: publicationAs_def)

lemma createFirst_truthful:
  "createFirst enc env k cs input records p e = (st, p', e') \<Longrightarrow> truthful (apCurrent p) st (apCurrent p')"
  by (induction cs arbitrary: k e) (auto simp: Let_def split: prod.splits creation.splits)

lemma ensureBus_same:
  "ensureBus env p e = (r, p', e') \<Longrightarrow> apCurrent p' = apCurrent p \<and> apGroup p' = apGroup p \<and> apClosed p' = apClosed p"
  by (auto simp: ensureBus_def Let_def split: prod.splits if_splits option.splits)

lemma ensureBus_conn: "ensureBus env p e = (None, p', e') \<Longrightarrow> apConn p'"
  by (auto simp: ensureBus_def Let_def split: prod.splits if_splits option.splits)

lemma updateGroupTXT_same:
  "updateGroupTXT env input records p e = (r, p', e') \<Longrightarrow> p' = p \<or> p' = forget p \<and> r \<noteq> None"
proof -
  have "updateTXTs env idx upd rs p e = (r, p', e') \<Longrightarrow> p' = p \<or> p' = forget p \<and> r \<noteq> None" for idx upd rs e
    by (induction rs arbitrary: upd e)
      (auto simp: abandonTXT_def split: prod.splits option.splits if_splits)
  then show "updateGroupTXT env input records p e = (r, p', e') \<Longrightarrow> p' = p \<or> p' = forget p \<and> r \<noteq> None"
    by (auto simp: updateGroupTXT_def split: prod.splits sum.splits)
qed

lemma recoverGroup_same: "recoverGroup env err p e = (p', e') \<Longrightarrow> p' = p \<or> p' = forget p"
  by (auto simp: recoverGroup_def Let_def split: prod.splits if_splits sum.splits)

lemma synchronize_truthful:
  assumes "synchronize enc env input records p e = (st, p', e')"
  shows "truthful (apCurrent p) st (apCurrent p')"
  using assms
  by (auto simp: synchronize_def Let_def split: prod.splits option.splits if_splits
      dest!: ensureBus_same updateGroupTXT_same recoverGroup_same createFirst_truthful)

lemma replacePublication_truthful:
  assumes "replacePublication enc locErr env c input p e = (st, p', e')"
  shows "truthful (apCurrent p) st (apCurrent p')"
proof -
  have "truthful None st c' \<Longrightarrow> truthful (apCurrent p) st c'" for st c'
    by (auto simp: truthful_def split: State.splits)
  with assms show ?thesis
    by (auto simp: replacePublication_def Let_def split: prod.splits option.splits if_splits sum.splits
        dest!: synchronize_truthful)
qed

lemma AvahiUpdate_truthful:
  assumes "AvahiUpdate enc env ctx input (p, e) = ((st, err), p', e')"
  shows "truthful (apCurrent p) st (apCurrent p')"
  using assms
  by (auto simp: AvahiUpdate_def withdrawProfile_def disablePublication_def Let_def
      split: prod.splits option.splits if_splits sum.splits
      dest!: synchronize_truthful replacePublication_truthful)

interpretation avahi: reporting "avahiStep enc env" "\<lambda>s. apCurrent (fst s)" "\<lambda>_. True"
proof unfold_locales
  fix s s' :: "AvahiPublisher \<times> 'a" and a st
  show "avahiStep enc env a s = (None, s') \<Longrightarrow> apCurrent (fst s') = None \<or> apCurrent (fst s') = apCurrent (fst s)"
    by (cases a; cases s) (auto simp: AvahiClose_def Let_def split: prod.splits option.splits if_splits)
  assume step: "avahiStep enc env a s = (Some st, s')"
  have "truthful (apCurrent (fst s)) st (apCurrent (fst s'))"
  proof (cases a)
    case (AvahiDoUpdate ctx input)
    with step show ?thesis by (cases s; cases s') (auto dest: AvahiUpdate_truthful split: prod.splits)
  next
    case (AvahiDoWithdraw ctx)
    with step show ?thesis
      by (cases s; cases s') (auto simp: AvahiWithdraw_def Let_def split: prod.splits option.splits if_splits)
  next
    case AvahiDoClose
    with step show ?thesis by (auto split: prod.splits)
  qed
  then show "stState st = StatePublished \<Longrightarrow> map_option pubName (apCurrent (fst s')) = Some (stName st)"
    "stState st \<notin> {StatePublished, StateDegraded} \<Longrightarrow> apCurrent (fst s') = None"
    "stState st = StateDegraded \<Longrightarrow> apCurrent (fst s') = None \<or> apCurrent (fst s') = apCurrent (fst s)"
    by (auto simp: truthful_def split: State.splits)
qed simp

text \<open>
  The service's bookkeeping for the stub publisher is exact: after any sequence of requests and
  changes of the network, the name of the publication kept is the one the returned statuses
  announce, that is the last one reported published and not withdrawn or disabled since. A failed
  update changes nothing.
\<close>

theorem stub_status_exact:
  "map_option pubName (current (snd (runOps (stubStep locErr) ops p))) =
     announced (map_option pubName (current p)) (fst (runOps (stubStep locErr) ops p))"
  by (rule stub.kept_is_announced) simp_all

text \<open>
  C14: for the Avahi publisher, after any sequence of updates, withdrawals and closes, and whatever the
  daemon answers, a publication that is kept is the one the returned statuses announce.
\<close>

theorem avahi_status_sound:
  "apCurrent (fst (snd (runOps (avahiStep enc env) ops (newAvahiPublisher h i off, e)))) = None \<or>
   map_option pubName (apCurrent (fst (snd (runOps (avahiStep enc env) ops (newAvahiPublisher h i off, e))))) =
     announced None (fst (runOps (avahiStep enc env) ops (newAvahiPublisher h i off, e)))"
  by (rule avahi.kept_was_announced) (simp_all add: newAvahiPublisher_def)

subsection \<open>The laws of the daemon\<close>

text \<open>
  The entry groups of the daemon that belong to this client: a path, and for each service name and
  type of the group its TXT strings. A group may vanish at any time (the daemon restarted), so a
  call bounds what is there afterwards from above.
\<close>

type_synonym grouptable = "string \<rightharpoonup> (string \<times> string \<rightharpoonup> string list)"

definition setTXT :: "grouptable \<Rightarrow> string \<Rightarrow> string \<times> string \<Rightarrow> string list \<Rightarrow> grouptable" where
  "setTXT g path key x = (case g path of None \<Rightarrow> g | Some svc \<Rightarrow> g(path \<mapsto> svc(key \<mapsto> x)))"

fun written :: "call \<Rightarrow> (string \<times> (string \<times> string) \<times> string list) option" where
  "written (AddService path i n t h q x) = Some (path, (n, t), x)"
| "written (UpdateServiceTxt path i n t x) = Some (path, (n, t), x)"
| "written _ = None"

text \<open>A successful write takes effect; a failed one may have, because the reply can be lost.\<close>

definition writes_law :: "'e env \<Rightarrow> ('e \<Rightarrow> grouptable) \<Rightarrow> bool" where
  "writes_law env groups \<longleftrightarrow> (\<forall>ctx c e r e' path key x. env ctx c e = (r, e') \<longrightarrow> written c = Some (path, key, x) \<longrightarrow>
     groups e' \<subseteq>\<^sub>m setTXT (groups e) path key x \<or> replyErr r \<noteq> None \<and> groups e' \<subseteq>\<^sub>m groups e)"

text \<open>An error that says the object is gone is true.\<close>

definition stale_law :: "'e env \<Rightarrow> ('e \<Rightarrow> grouptable) \<Rightarrow> bool" where
  "stale_law env groups \<longleftrightarrow>
     (\<forall>ctx path i n t x e r e'. env ctx (UpdateServiceTxt path i n t x) e = (r, e') \<longrightarrow> staleOpt (replyErr r) \<longrightarrow> groups e' path = None) \<and>
     (\<forall>ctx name e r e'. env ctx (InterfaceByName name) e = (r, e') \<longrightarrow> \<not> staleOpt (replyErr r))"

text \<open>Group paths are non-empty; freeing removes the group, and the bounded cleanup gets through.\<close>

definition groups_law :: "'e env \<Rightarrow> ('e \<Rightarrow> grouptable) \<Rightarrow> bool" where
  "groups_law env groups \<longleftrightarrow>
     (\<forall>ctx e r e'. env ctx EntryGroupNew e = (r, e') \<longrightarrow>
        (case r of PathReply path \<Rightarrow> path \<noteq> [] \<and> groups e' \<subseteq>\<^sub>m (groups e)(path \<mapsto> Map.empty) | _ \<Rightarrow> groups e' \<subseteq>\<^sub>m groups e)) \<and>
     (\<forall>ctx path e r e'. env ctx (Free path) e = (r, e') \<longrightarrow> groups e' \<subseteq>\<^sub>m groups e \<and>
        (replyErr r = None \<or> staleOpt (replyErr r) \<or> ctx = Independent \<longrightarrow> groups e' path = None))"

text \<open>Every other call writes nothing.\<close>

definition reads_law :: "'e env \<Rightarrow> ('e \<Rightarrow> grouptable) \<Rightarrow> bool" where
  "reads_law env groups \<longleftrightarrow> (\<forall>ctx c e r e'. env ctx c e = (r, e') \<longrightarrow> written c = None \<longrightarrow> c \<noteq> EntryGroupNew \<longrightarrow>
     groups e' \<subseteq>\<^sub>m groups e)"

definition daemon :: "'e env \<Rightarrow> ('e \<Rightarrow> grouptable) \<Rightarrow> bool" where
  "daemon env groups \<longleftrightarrow> writes_law env groups \<and> stale_law env groups \<and> groups_law env groups \<and> reads_law env groups"

lemma daemon_read:
  "daemon env g \<Longrightarrow> env ctx c e = (r, e') \<Longrightarrow> written c = None \<Longrightarrow> c \<noteq> EntryGroupNew \<Longrightarrow> g e' \<subseteq>\<^sub>m g e"
  unfolding daemon_def reads_law_def by blast

lemma daemon_write:
  "daemon env g \<Longrightarrow> env ctx c e = (r, e') \<Longrightarrow> written c = Some (path, key, x) \<Longrightarrow>
     g e' \<subseteq>\<^sub>m setTXT (g e) path key x \<or> replyErr r \<noteq> None \<and> g e' \<subseteq>\<^sub>m g e"
  unfolding daemon_def writes_law_def by blast

lemma daemon_new:
  "daemon env g \<Longrightarrow> env ctx EntryGroupNew e = (r, e') \<Longrightarrow>
     (case r of PathReply path \<Rightarrow> path \<noteq> [] \<and> g e' \<subseteq>\<^sub>m (g e)(path \<mapsto> Map.empty) | _ \<Rightarrow> g e' \<subseteq>\<^sub>m g e)"
  unfolding daemon_def groups_law_def by blast

lemma daemon_free:
  "daemon env g \<Longrightarrow> env ctx (Free path) e = (r, e') \<Longrightarrow> g e' \<subseteq>\<^sub>m g e \<and>
     (replyErr r = None \<or> staleOpt (replyErr r) \<or> ctx = Independent \<longrightarrow> g e' path = None)"
  unfolding daemon_def groups_law_def by blast

lemma map_le_None: "g' \<subseteq>\<^sub>m g \<Longrightarrow> g p = None \<Longrightarrow> g' p = None"
  by (auto simp: map_le_def dom_def)

lemma map_le_Some: "g' \<subseteq>\<^sub>m g \<Longrightarrow> g' p = Some x \<Longrightarrow> g p = Some x"
  by (auto simp: map_le_def dom_def)

lemma dom_setTXT [simp]: "dom (setTXT g path key x) = dom g"
  by (auto simp: setTXT_def split: option.splits)

lemma setTXT_None [simp]: "g path = None \<Longrightarrow> setTXT g path key x = g"
  by (simp add: setTXT_def)

subsection \<open>What the publisher keeps and what the daemon shows\<close>

text \<open>Only foreign groups and the group of the publisher exist.\<close>

definition covers :: "string set \<Rightarrow> string \<Rightarrow> grouptable \<Rightarrow> bool" where
  "covers B path g \<longleftrightarrow> dom g \<subseteq> B \<union> (if path = [] then {} else {path})"

definition mains :: "ServiceRecord list \<Rightarrow> ServiceRecord list" where
  "mains rs = filter (\<lambda>r. srSubtype r = []) rs"

definition key :: "ServiceRecord \<Rightarrow> string \<times> string" where
  "key r = (srName r, srType r)"

text \<open>The group, if it still exists, has every service of the records with its TXT strings.\<close>

definition shown :: "ServiceRecord list \<Rightarrow> string \<Rightarrow> grouptable \<Rightarrow> bool" where
  "shown rs path g \<longleftrightarrow> (\<forall>svc. g path = Some svc \<longrightarrow> (\<forall>r \<in> set (mains rs). svc (key r) = Some (avahiTXT (srTXT r))))"

lemma covers_le: "covers B path g \<Longrightarrow> g' \<subseteq>\<^sub>m g \<Longrightarrow> covers B path g'"
  unfolding covers_def by (meson map_le_implies_dom_le order_trans)

lemma covers_dom: "covers B path g \<Longrightarrow> dom g' \<subseteq> dom g \<Longrightarrow> covers B path g'"
  unfolding covers_def by (rule order_trans)

lemma covers_gone: "covers B path g \<Longrightarrow> g path = None \<Longrightarrow> covers B [] g"
  by (auto simp: covers_def split: if_splits)

lemma shown_le: "shown rs path g \<Longrightarrow> g' \<subseteq>\<^sub>m g \<Longrightarrow> shown rs path g'"
  unfolding shown_def by (metis map_le_Some)

lemma shown_gone: "g path = None \<Longrightarrow> shown rs path g"
  by (simp add: shown_def)

lemma setTXT_Some:
  assumes "g' \<subseteq>\<^sub>m setTXT g path k x" "g' path = Some svc'"
  obtains svc where "g path = Some svc" "svc' = svc(k \<mapsto> x)"
  using map_le_Some [OF assms] that by (auto simp: setTXT_def split: option.splits if_splits)

lemma shown_snoc:
  assumes "shown ds path g" "g' \<subseteq>\<^sub>m setTXT g path (key r) (avahiTXT (srTXT r))" "srSubtype r = []"
    "srType r \<notin> srType ` set (mains ds)"
  shows "shown (ds @ [r]) path g'"
  unfolding shown_def
proof (intro allI impI ballI)
  fix svc' q assume "g' path = Some svc'" and q: "q \<in> set (mains (ds @ [r]))"
  then obtain svc where svc: "g path = Some svc" "svc' = svc(key r \<mapsto> avahiTXT (srTXT r))"
    using setTXT_Some [OF assms(2)] by blast
  show "svc' (key q) = Some (avahiTXT (srTXT q))"
  proof (cases "q = r")
    case False
    then have "q \<in> set (mains ds)" using q by (auto simp: mains_def split: if_splits)
    moreover from this assms(4) have "key q \<noteq> key r" unfolding key_def by (metis image_eqI prod.inject)
    ultimately show ?thesis using assms(1) svc by (simp add: shown_def)
  qed (simp add: svc)
qed

lemma addRecordTo_effect:
  assumes "daemon env g" "addRecordTo enc env path idx r e = (c, e')"
  shows "dom (g e') \<subseteq> dom (g e)"
    "c = None \<Longrightarrow> g e' \<subseteq>\<^sub>m (if srSubtype r \<noteq> [] then g e else setTXT (g e) path (key r) (avahiTXT (srTXT r)))"
proof -
  have add: "g e1 \<subseteq>\<^sub>m setTXT (g e) path (key r) (avahiTXT (srTXT r)) \<or> replyErr a \<noteq> None \<and> g e1 \<subseteq>\<^sub>m g e"
    if "env Caller (AddService path idx (srName r) (srType r) (srHostname r) (srPort r) (avahiTXT (srTXT r))) e = (a, e1)" for a e1
    using daemon_write [OF assms(1) that] by (simp add: key_def)
  then have dom: "dom (g e1) \<subseteq> dom (g e)"
    if "env Caller (AddService path idx (srName r) (srType r) (srHostname r) (srPort r) (avahiTXT (srTXT r))) e = (a, e1)" for a e1
    using that map_le_implies_dom_le by (metis dom_setTXT)
  have more: "g e2 \<subseteq>\<^sub>m g e1" if "env Caller (AddRecord path idx (srHostname r) loc) e1 = (b, e2)" for loc b e1 e2
    using daemon_read [OF assms(1) that] by simp
  have sub: "g e1 \<subseteq>\<^sub>m g e" if "env Caller (AddServiceSubtype path idx (srName r) (srType r) (FullType r)) e = (a, e1)" for a e1
    using daemon_read [OF assms(1) that] by simp
  show "dom (g e') \<subseteq> dom (g e)"
    using assms(2)
    by (auto simp: addRecordTo_def simp del: domIff split: if_splits prod.splits option.splits sum.splits
        dest!: dom more [THEN map_le_implies_dom_le] sub [THEN map_le_implies_dom_le])
  show "g e' \<subseteq>\<^sub>m (if srSubtype r \<noteq> [] then g e else setTXT (g e) path (key r) (avahiTXT (srTXT r)))" if "c = None"
    using assms(2) that
    by (auto simp: addRecordTo_def split: if_splits prod.splits option.splits sum.splits
        dest!: add more sub intro: map_le_trans)
qed

lemma mains_append [simp]: "mains (xs @ ys) = mains xs @ mains ys"
  by (simp add: mains_def)

lemma mains_Cons [simp]: "mains (r # rs) = (if srSubtype r = [] then r # mains rs else mains rs)"
  by (simp add: mains_def)

lemma mains_Nil [simp]: "mains [] = []"
  by (simp add: mains_def)

lemma addRecords_effect:
  assumes "daemon env g" "addRecords enc env path idx rs e = (c, e')" "covers B path (g e)" "shown ds path (g e)"
    "distinct (map srType (mains (ds @ rs)))"
  shows "covers B path (g e') \<and> (c = None \<longrightarrow> shown (ds @ rs) path (g e'))"
  using assms(2-)
proof (induction rs arbitrary: ds e)
  case (Cons r rs)
  obtain c1 e1 where step: "addRecordTo enc env path idx r e = (c1, e1)" by fastforce
  from addRecordTo_effect(1) [OF assms(1) this] Cons.prems(2) have cov: "covers B path (g e1)" by (rule covers_dom [rotated])
  show ?case
  proof (cases c1)
    case None
    have "shown (ds @ [r]) path (g e1)"
    proof (cases "srSubtype r = []")
      case True
      with addRecordTo_effect(2) [OF assms(1) step None] Cons.prems(3,4) show ?thesis
        by (intro shown_snoc) auto
    next
      case False
      with addRecordTo_effect(2) [OF assms(1) step None] Cons.prems(3) show ?thesis
        using shown_le [of ds path "g e" "g e1"] by (simp add: shown_def)
    qed
    with Cons.IH [of e1 "ds @ [r]"] Cons.prems step None cov show ?thesis by simp
  next
    case (Some x)
    with Cons.prems(1) step cov show ?thesis by auto
  qed
qed simp

lemma interfaceIndex_le:
  assumes "daemon env g" "interfaceIndex env name e = (r, e')"
  shows "g e' \<subseteq>\<^sub>m g e" "r = Inl m \<Longrightarrow> \<not> isStaleEntryGroupError m"
proof -
  show "g e' \<subseteq>\<^sub>m g e"
    using assms daemon_read [OF assms(1), of Independent "InterfaceByName name"]
    by (auto simp: interfaceIndex_def split: if_splits prod.splits)
  have law: "\<not> staleOpt (replyErr a)" if "env Independent (InterfaceByName name) e = (a, e1)" for a e1
    using assms(1) that unfolding daemon_def stale_law_def by blast
  have m: "\<not> isStaleEntryGroupError ''dbus.Store: type mismatch''"
    by code_simp
  show "r = Inl m \<Longrightarrow> \<not> isStaleEntryGroupError m"
    using assms(2) m by (auto simp: interfaceIndex_def staleOpt_def split: if_splits prod.splits sum.splits
        elim!: storeInt.elims dest!: law)
qed

lemma wait_le:
  assumes "daemon env g"
  shows "waitForGroupState env n path e = (r, e') \<Longrightarrow> g e' \<subseteq>\<^sub>m g e"
proof (induction n arbitrary: e)
  case 0
  then show ?case using daemon_read [OF assms, of Caller "GetState path"]
    by (auto simp: waitForGroupState.simps [of _ 0] split: prod.splits sum.splits if_splits)
next
  case (Suc n)
  obtain a e1 t e2 where calls: "env Caller (GetState path) e = (a, e1)" "env Caller Tick e1 = (t, e2)" by fastforce
  then have "g e1 \<subseteq>\<^sub>m g e" "g e2 \<subseteq>\<^sub>m g e1" using daemon_read [OF assms] by fastforce+
  with Suc calls show ?case
    by (auto simp: waitForGroupState.simps [of _ "Suc n"] split: sum.splits if_splits option.splits intro: map_le_trans)
qed

lemma addRecords_not_created: "addRecords enc env path idx rs e = (Some c, e') \<Longrightarrow> c \<noteq> Created q"
proof (induction rs arbitrary: e)
  case (Cons r rs)
  have "addRecordTo enc env path idx r e = (Some c, e') \<Longrightarrow> c \<noteq> Created q" for e e'
    by (auto simp: addRecordTo_def createErr_def split: if_splits prod.splits option.splits sum.splits)
  with Cons show ?case by (auto split: prod.splits option.splits)
qed simp

lemma fillGroup_created:
  assumes "fillGroup enc env path input rs e = (Created q, e')"
  obtains idx e1 e2 a e3 where "q = path" "interfaceIndex env (siInterface input) e = (Inr idx, e1)"
    "addRecords enc env path idx rs e1 = (None, e2)" "env Caller (Commit path) e2 = (a, e3)"
    "waitForGroupState env (avahiStateWait div avahiStatePollInterval) path e3 = (Inr avahiGroupEstablished, e')"
  using assms by (auto simp: fillGroup_def createErr_def split: sum.splits prod.splits option.splits if_splits
      dest: addRecords_not_created)

lemma fillGroup_effect:
  assumes "daemon env g" "fillGroup enc env path input rs e = (c, e')" "covers B path (g e)"
    "distinct (map srType (mains rs))"
  shows "covers B path (g e')" "c = Created q \<Longrightarrow> q = path \<and> shown rs path (g e')"
proof -
  obtain i e1 where i: "interfaceIndex env (siInterface input) e = (i, e1)" by fastforce
  have cov1: "covers B path (g e1)" using covers_le [OF assms(3) interfaceIndex_le(1) [OF assms(1) i]] .
  have "shown [] path (g e1)" by (simp add: shown_def)
  note add = addRecords_effect [OF assms(1) _ cov1 this, simplified, OF _ assms(4)]
  have commit: "g e3 \<subseteq>\<^sub>m g e2" if "env Caller (Commit path) e2 = (a, e3)" for a e2 e3
    using daemon_read [OF assms(1) that] by simp
  show "covers B path (g e')"
    using assms(2) i cov1
    by (auto simp: fillGroup_def split: sum.splits prod.splits option.splits
        dest!: add commit wait_le [OF assms(1)] intro: covers_le)
  show "q = path \<and> shown rs path (g e')" if "c = Created q"
  proof -
    from assms(2) that obtain idx e1' e2 a e3 where run: "q = path" "interfaceIndex env (siInterface input) e = (Inr idx, e1')"
      "addRecords enc env path idx rs e1' = (None, e2)" "env Caller (Commit path) e2 = (a, e3)"
      "waitForGroupState env (avahiStateWait div avahiStatePollInterval) path e3 = (Inr avahiGroupEstablished, e')"
      by (auto elim: fillGroup_created)
    then have "shown rs path (g e2)" using add i by simp
    then have "shown rs path (g e')" using shown_le commit [OF run(4)] wait_le [OF assms(1) run(5)] by blast
    with run(1) show ?thesis by simp
  qed
qed

lemma freeGroup_effect:
  assumes "daemon env g" "freeGroup env ctx path p e = (r, e')"
  shows "g e' \<subseteq>\<^sub>m g e" "apConn p \<Longrightarrow> path \<noteq> [] \<Longrightarrow> r = None \<or> staleOpt r \<or> ctx = Independent \<Longrightarrow> g e' path = None"
  using assms(2) daemon_free [OF assms(1), of ctx path] map_le_refl [of "g e"]
  by (auto simp: freeGroup_def split: if_splits prod.splits)

lemma createGroup_effect:
  assumes "daemon env g" "createGroup enc env input rs p e = (c, e')" "covers B [] (g e)" "apConn p"
    "distinct (map srType (mains rs))"
  shows "case c of Created path \<Rightarrow> path \<noteq> [] \<and> covers B path (g e') \<and> shown rs path (g e') | _ \<Rightarrow> covers B [] (g e')"
proof -
  obtain a e1 where new: "env Caller EntryGroupNew e = (a, e1)" by fastforce
  show ?thesis
  proof (cases "storePath a")
    case (Inl m)
    then have "g e1 \<subseteq>\<^sub>m g e" using daemon_new [OF assms(1) new] by (cases a) auto
    with Inl new assms(2,3) show ?thesis
      by (auto simp: createGroup_def createErr_def intro: covers_le)
  next
    case (Inr path)
    then have "a = PathReply path" by (cases a) auto
    with daemon_new [OF assms(1) new] have path: "path \<noteq> []" "g e1 \<subseteq>\<^sub>m (g e)(path \<mapsto> Map.empty)" by auto
    have "covers B path ((g e)(path \<mapsto> Map.empty))" using assms(3) path(1) by (auto simp: covers_def)
    then have cov: "covers B path (g e1)" using path(2) by (rule covers_le)
    obtain d e2 where fill: "fillGroup enc env path input rs e1 = (d, e2)" by fastforce
    note fills = fillGroup_effect [OF assms(1) fill cov assms(5)]
    have freed: "covers B [] (g e3)" if "freeGroup env Independent path p e2 = (r, e3)" for r e3
      using covers_gone [OF covers_le [OF fills(1) freeGroup_effect(1) [OF assms(1) that]]]
        freeGroup_effect(2) [OF assms(1) that assms(4) path(1)] by simp
    show ?thesis
    proof (cases d)
      case (Created q)
      with fills(2) [of q] fill Inr new assms(2) fills(1) path(1) show ?thesis by (auto simp: createGroup_def)
    qed (use fill Inr new assms(2) freed in \<open>auto simp: createGroup_def split: prod.splits\<close>)
  qed
qed

text \<open>The state invariant: the group is the one of the publication, it is shown, and nothing else is left.\<close>

definition plainRecords :: "ServiceRecord list \<Rightarrow> bool" where
  "plainRecords rs \<longleftrightarrow> distinct (map srType (mains rs)) \<and> (\<forall>r \<in> set (mains rs). srType r = ''_printer._tcp'' \<longrightarrow> srTXT r = [])"

definition synced :: "('e \<Rightarrow> grouptable) \<Rightarrow> string set \<Rightarrow> AvahiPublisher \<times> 'e \<Rightarrow> bool" where
  "synced groups B s \<longleftrightarrow> (case s of (p, e) \<Rightarrow>
     (apCurrent p = None \<longleftrightarrow> apGroup p = []) \<and> (apGroup p \<noteq> [] \<longrightarrow> apConn p) \<and> covers B (apGroup p) (groups e) \<and>
     (\<forall>c. apCurrent p = Some c \<longrightarrow> plainRecords (pubRecords c) \<and> shown (pubRecords c) (apGroup p) (groups e)))"

lemma mains_rename: "mains (map (\<lambda>r. r\<lparr>srName := n\<rparr>) rs) = map (\<lambda>r. r\<lparr>srName := n\<rparr>) (mains rs)"
  by (induction rs) auto

lemma plainRecords_rename: "plainRecords rs \<Longrightarrow> plainRecords (map (\<lambda>r. r\<lparr>srName := n\<rparr>) rs)"
  by (auto simp: plainRecords_def mains_rename comp_def)

lemma createFirst_synced:
  assumes "daemon env g" "apConn p" "apCurrent p = None" "apGroup p = []" "plainRecords rs"
  shows "covers B [] (g e) \<Longrightarrow> createFirst enc env k cs input rs p e = (st, p', e') \<Longrightarrow> synced g B (p', e')"
proof (induction cs arbitrary: k e)
  case Nil
  then show ?case using assms by (auto simp: synced_def)
next
  case (Cons n cs)
  let ?pub = "publicationAs n input rs"
  obtain c e1 where create: "createGroup enc env (pubInput ?pub) (pubRecords ?pub) p e = (c, e1)" by fastforce
  have plain: "plainRecords (pubRecords ?pub)" using plainRecords_rename [OF assms(5)] by simp
  have eff: "case c of Created path \<Rightarrow> path \<noteq> [] \<and> covers B path (g e1) \<and> shown (pubRecords ?pub) path (g e1) | _ \<Rightarrow> covers B [] (g e1)"
    by (rule createGroup_effect [OF assms(1) create Cons.prems(1) assms(2)]) (use plain in \<open>simp add: plainRecords_def\<close>)
  show ?case
  proof (cases c)
    case Collision
    with eff have "covers B [] (g e1)" by simp
    moreover from Cons.prems(2) create Collision have "createFirst enc env (k + 1) cs input rs p e1 = (st, p', e')"
      by (simp add: Let_def)
    ultimately show ?thesis by (rule Cons.IH)
  qed (use eff create Cons.prems(2) plain assms in \<open>auto simp: synced_def Let_def\<close>)
qed

subsection \<open>TXT updates and their rollback\<close>

lemma same_structure_keys:
  "samePublicationStructure l r \<Longrightarrow> map key (mains l) = map key (mains r)"
proof -
  assume "samePublicationStructure l r"
  then have "length l = length r" "\<forall>(x, y) \<in> set (zip l r). srName x = srName y \<and> srType x = srType y \<and> srSubtype x = srSubtype y"
    by (auto simp: samePublicationStructure_def)
  then show ?thesis by (induction l r rule: list_induct2) (auto simp: key_def)
qed

lemma previousFor_found:
  assumes "apCurrent p = Some c" "t \<in> srType ` set (mains (pubRecords c))"
  obtains o' where "previousFor (apCurrent p) t = Some o'" "o' \<in> set (mains (pubRecords c))" "srType o' = t"
proof -
  let ?P = "\<lambda>r. srSubtype r = [] \<and> srType r = t"
  have "\<exists>r \<in> set (rev (pubRecords c)). ?P r" using assms(2) by (auto simp: mains_def)
  then obtain o' where o': "List.find ?P (rev (pubRecords c)) = Some o'"
    by (cases "List.find ?P (rev (pubRecords c))") (auto simp: find_None_iff)
  then have "o' \<in> set (rev (pubRecords c)) \<and> ?P o'" by (metis (mono_tags, lifting) find_Some_iff nth_mem)
  then show ?thesis using o' assms(1) that [of o'] by (simp add: previousFor_def mains_def)
qed

lemma updateServiceTXT_effect:
  assumes "daemon env g" "updateServiceTXT env ctx path idx r e = (a, e')"
  shows "dom (g e') \<subseteq> dom (g e)" "a = None \<Longrightarrow> g e' \<subseteq>\<^sub>m setTXT (g e) path (key r) (avahiTXT (srTXT r))"
    "g e' \<subseteq>\<^sub>m setTXT (g e) path (key r) (avahiTXT (srTXT r)) \<or> g e' \<subseteq>\<^sub>m g e"
    "staleOpt a \<Longrightarrow> g e' path = None"
proof -
  let ?call = "UpdateServiceTxt path idx (srName r) (srType r) (avahiTXT (srTXT r))"
  obtain b where call: "env ctx ?call e = (b, e')" "a = replyErr b"
    using assms(2) by (auto simp: updateServiceTXT_def split: prod.splits)
  have w: "g e' \<subseteq>\<^sub>m setTXT (g e) path (key r) (avahiTXT (srTXT r)) \<or> replyErr b \<noteq> None \<and> g e' \<subseteq>\<^sub>m g e"
    using daemon_write [OF assms(1) call(1)] by (simp add: key_def)
  then show "dom (g e') \<subseteq> dom (g e)" using map_le_implies_dom_le by (metis dom_setTXT)
  show "a = None \<Longrightarrow> g e' \<subseteq>\<^sub>m setTXT (g e) path (key r) (avahiTXT (srTXT r))"
    "g e' \<subseteq>\<^sub>m setTXT (g e) path (key r) (avahiTXT (srTXT r)) \<or> g e' \<subseteq>\<^sub>m g e"
    using w call(2) by auto
  show "staleOpt a \<Longrightarrow> g e' path = None"
    using assms(1) call unfolding daemon_def stale_law_def by blast
qed

text \<open>Services whose type is not among the updated ones still have their old TXT strings.\<close>

definition untouched :: "ServiceRecord list \<Rightarrow> ServiceRecord list \<Rightarrow> string \<Rightarrow> grouptable \<Rightarrow> bool" where
  "untouched old upd path g \<longleftrightarrow> (\<forall>svc. g path = Some svc \<longrightarrow>
     (\<forall>q \<in> set (mains old). srType q \<notin> srType ` set upd \<longrightarrow> svc (key q) = Some (avahiTXT (srTXT q))))"

lemma untouched_write:
  assumes "untouched old upd path g" "g' \<subseteq>\<^sub>m setTXT g path (key r) x \<or> g' \<subseteq>\<^sub>m g"
  shows "untouched old (upd @ [r]) path g'"
  unfolding untouched_def
proof (intro allI impI ballI)
  fix svc' q assume svc': "g' path = Some svc'" and q: "q \<in> set (mains old)" "srType q \<notin> srType ` set (upd @ [r])"
  then have "key q \<noteq> key r" by (auto simp: key_def)
  obtain svc where "g path = Some svc" "svc' (key q) = svc (key q)"
    using assms(2)
  proof
    assume "g' \<subseteq>\<^sub>m setTXT g path (key r) x"
    from setTXT_Some [OF this svc'] that \<open>key q \<noteq> key r\<close> show thesis by (metis fun_upd_other)
  next
    assume "g' \<subseteq>\<^sub>m g"
    from map_le_Some [OF this svc'] that show thesis by blast
  qed
  with assms(1) q show "svc' (key q) = Some (avahiTXT (srTXT q))" by (auto simp: untouched_def)
qed

lemma rollback_effect:
  assumes "daemon env g" "apCurrent p = Some c" "plainRecords (pubRecords c)"
  shows "rollbackTXT env path idx (previousFor (apCurrent p)) us e = (a, e') \<Longrightarrow>
    untouched (pubRecords c) us path (g e) \<Longrightarrow> srType ` set us \<subseteq> srType ` set (mains (pubRecords c)) \<Longrightarrow>
    dom (g e') \<subseteq> dom (g e) \<and> (a = None \<longrightarrow> shown (pubRecords c) path (g e'))"
proof (induction us arbitrary: e)
  case Nil
  then show ?case by (auto simp: untouched_def shown_def)
next
  case (Cons u us)
  from Cons.prems(3) obtain q where q: "previousFor (apCurrent p) (srType u) = Some q" "q \<in> set (mains (pubRecords c))"
    "srType q = srType u" using previousFor_found [OF assms(2)] by auto
  obtain b e1 where call: "updateServiceTXT env Independent path idx q e = (b, e1)" by fastforce
  note eff = updateServiceTXT_effect [OF assms(1) call]
  show ?case
  proof (cases b)
    case (Some m)
    with Cons.prems(1) q(1) call have "e' = e1" "a \<noteq> None" by auto
    with eff(1) show ?thesis by blast
  next
    case None
    have "untouched (pubRecords c) us path (g e1)"
      unfolding untouched_def
    proof (intro allI impI ballI)
      fix svc' q' assume "g e1 path = Some svc'" and q': "q' \<in> set (mains (pubRecords c))" "srType q' \<notin> srType ` set us"
      then obtain svc where svc: "g e path = Some svc" "svc' = svc(key q \<mapsto> avahiTXT (srTXT q))"
        using setTXT_Some [OF eff(2) [OF None]] by blast
      show "svc' (key q') = Some (avahiTXT (srTXT q'))"
      proof (cases "srType q' = srType q")
        case True
        with q(2) q'(1) assms(3) have "q' = q" by (auto simp: plainRecords_def distinct_map inj_on_def)
        then show ?thesis by (simp add: svc)
      next
        case False
        then have "svc' (key q') = svc (key q')" by (simp add: svc key_def)
        with False q' q(3) Cons.prems(2) svc(1) show ?thesis by (auto simp: untouched_def)
      qed
    qed
    with Cons.IH [of e1] Cons.prems(1,3) q(1) call None
    have "dom (g e') \<subseteq> dom (g e1) \<and> (a = None \<longrightarrow> shown (pubRecords c) path (g e'))" by simp
    with eff(1) show ?thesis by blast
  qed
qed

text \<open>The services whose TXT strings an update writes.\<close>

definition targets :: "ServiceRecord list \<Rightarrow> ServiceRecord list" where
  "targets rs = filter (\<lambda>r. srType r \<noteq> ''_printer._tcp'') (mains rs)"

lemma mains_targets [simp]: "mains (targets rs) = targets rs"
  by (auto simp: targets_def mains_def intro!: filter_cong)

lemma all_targets_shown:
  assumes "shown (targets new) path g" "untouched old (targets new) path g" "plainRecords old" "plainRecords new"
    "map key (mains old) = map key (mains new)"
  shows "shown new path g"
  unfolding shown_def
proof (intro allI impI ballI)
  fix svc r assume svc: "g path = Some svc" and r: "r \<in> set (mains new)"
  show "svc (key r) = Some (avahiTXT (srTXT r))"
  proof (cases "srType r = ''_printer._tcp''")
    case False
    with r have "r \<in> set (mains (targets new))" by (simp add: targets_def mains_def)
    with assms(1) svc show ?thesis by (simp add: shown_def)
  next
    case True
    from r obtain q where q: "q \<in> set (mains old)" "key q = key r"
      using assms(5) by (metis (no_types, lifting) imageE image_eqI list.set_map)
    then have "srType q = ''_printer._tcp''" using True by (simp add: key_def)
    moreover from this have "srType q \<notin> srType ` set (targets new)" by (auto simp: targets_def)
    ultimately have "svc (key q) = Some (avahiTXT [])" using assms(2,3) svc q(1) by (auto simp: untouched_def plainRecords_def)
    then show ?thesis using assms(4) q(2) r True by (simp add: plainRecords_def)
  qed
qed

text \<open>What a TXT update of a shown group leaves behind, by its result.\<close>

definition txtSettled :: "('e \<Rightarrow> grouptable) \<Rightarrow> ServiceRecord list \<Rightarrow> ServiceRecord list \<Rightarrow> AvahiPublisher \<Rightarrow>
    string option \<times> AvahiPublisher \<times> 'e \<Rightarrow> bool" where
  "txtSettled g old new p res \<longleftrightarrow> (case res of (a, p', e') \<Rightarrow>
     (case a of
        None \<Rightarrow> p' = p \<and> shown new (apGroup p) (g e')
      | Some m \<Rightarrow>
          p' = p \<and> shown old (apGroup p) (g e') \<and> (isStaleEntryGroupError m \<longrightarrow> g e' (apGroup p) = None)
          \<or> p' \<in> {p, forget p} \<and> g e' (apGroup p) = None))"

lemma abandonTXT_effect:
  assumes "daemon env g" "apCurrent p = Some c" "plainRecords (pubRecords c)" "apConn p" "apGroup p \<noteq> []"
    "abandonTXT env idx us err p e = res" "untouched (pubRecords c) us (apGroup p) (g e)"
    "srType ` set us \<subseteq> srType ` set (mains (pubRecords c))"
    "isStaleEntryGroupError err \<Longrightarrow> g e (apGroup p) = None"
  shows "txtSettled g (pubRecords c) new p res \<and> fst res \<noteq> None \<and> dom (g (snd (snd res))) \<subseteq> dom (g e)"
proof -
  obtain a e1 where roll: "rollbackTXT env (apGroup p) idx (previousFor (apCurrent p)) us e = (a, e1)" by fastforce
  note rolled = rollback_effect [OF assms(1-3) this assms(7,8)]
  show ?thesis
  proof (cases a)
    case None
    with roll assms(6) have "res = (Some err, p, e1)" by (auto simp: abandonTXT_def)
    with rolled None assms(9) show ?thesis by (auto simp: txtSettled_def)
  next
    case (Some m)
    obtain f e2 where free: "freeGroup env Independent (apGroup p) p e1 = (f, e2)" by fastforce
    note freed = freeGroup_effect [OF assms(1) free]
    have "g e2 (apGroup p) = None" using freed(2) assms(4,5) by simp
    moreover have "dom (g e2) \<subseteq> dom (g e)" using rolled map_le_implies_dom_le [OF freed(1)] by blast
    ultimately show ?thesis unfolding assms(6) [symmetric]
      by (cases f) (simp_all add: roll Some free abandonTXT_def txtSettled_def)
  qed
qed

lemma updateTXTs_effect:
  assumes "daemon env g" "apCurrent p = Some c" "plainRecords (pubRecords c)" "apConn p" "apGroup p \<noteq> []"
    "plainRecords new" "map key (mains (pubRecords c)) = map key (mains new)"
  shows "new = pre @ rs \<Longrightarrow> updateTXTs env idx (targets pre) rs p e = res \<Longrightarrow>
    untouched (pubRecords c) (targets pre) (apGroup p) (g e) \<Longrightarrow> shown (targets pre) (apGroup p) (g e) \<Longrightarrow>
    txtSettled g (pubRecords c) new p res \<and> dom (g (snd (snd res))) \<subseteq> dom (g e)"
proof (induction rs arbitrary: pre e)
  case Nil
  then show ?case using all_targets_shown [OF Nil(4,3) assms(3)] assms(6,7) by (auto simp: txtSettled_def)
next
  case (Cons r rs)
  show ?case
  proof (cases "srSubtype r \<noteq> [] \<or> srType r = ''_printer._tcp''")
    case True
    then have "targets (pre @ [r]) = targets pre" by (auto simp: targets_def)
    with Cons.IH [of "pre @ [r]" e] Cons.prems True show ?thesis by auto
  next
    case False
    then have tgt: "targets (pre @ [r]) = targets pre @ [r]" by (simp add: targets_def)
    obtain b e1 where call: "updateServiceTXT env Caller (apGroup p) idx r e = (b, e1)" by fastforce
    note eff = updateServiceTXT_effect [OF assms(1) call]
    have unt: "untouched (pubRecords c) (targets (pre @ [r])) (apGroup p) (g e1)"
      unfolding tgt by (rule untouched_write [OF Cons.prems(3) eff(3)])
    have "set (targets (pre @ [r])) \<subseteq> set (mains new)" unfolding Cons.prems(1) by (auto simp: targets_def)
    moreover have "srType ` set (mains new) = srType ` set (mains (pubRecords c))"
    proof -
      have "srType = snd \<circ> key" by (auto simp: key_def)
      then have "map srType (mains new) = map srType (mains (pubRecords c))" using assms(7) by (metis map_map)
      then show ?thesis by (metis list.set_map)
    qed
    ultimately have types: "srType ` set (targets (pre @ [r])) \<subseteq> srType ` set (mains (pubRecords c))" by blast
    show ?thesis
    proof (cases b)
      case (Some err)
      have "abandonTXT env idx (targets (pre @ [r])) err p e1 = res"
        using Cons.prems(2) False call Some tgt by simp
      from abandonTXT_effect [OF assms(1-5) this unt types, of new] eff(4) Some
      have "txtSettled g (pubRecords c) new p res" "dom (g (snd (snd res))) \<subseteq> dom (g e1)" by (simp_all add: staleOpt_def)
      then show ?thesis using eff(1) by blast
    next
      case None
      have "srType r \<notin> srType ` set (mains (targets pre))"
        using assms(6) False unfolding Cons.prems(1) plainRecords_def mains_targets by (auto simp: targets_def)
      then have sh: "shown (targets (pre @ [r])) (apGroup p) (g e1)"
        unfolding tgt using False by (intro shown_snoc [OF Cons.prems(4) eff(2) [OF None]]) auto
      have "updateTXTs env idx (targets (pre @ [r])) rs p e1 = res" using Cons.prems(2) False call None tgt by simp
      from Cons.IH [OF _ this unt sh] Cons.prems(1) eff(1) show ?thesis by force
    qed
  qed
qed

lemma updateGroupTXT_effect:
  assumes "daemon env g" "synced g B (p, e)" "apCurrent p = Some c" "plainRecords new"
    "samePublicationStructure (pubRecords c) new" "updateGroupTXT env input new p e = (a, p', e')"
  shows "txtSettled g (pubRecords c) new p (a, p', e') \<and> covers B (apGroup p) (g e')"
proof -
  from assms(2,3) have inv: "plainRecords (pubRecords c)" "apConn p" "apGroup p \<noteq> []" "covers B (apGroup p) (g e)"
    "shown (pubRecords c) (apGroup p) (g e)" by (auto simp: synced_def)
  obtain i e1 where i: "interfaceIndex env (siInterface input) e = (i, e1)" by fastforce
  note idx = interfaceIndex_le [OF assms(1) i]
  show ?thesis
  proof (cases i)
    case (Inl m)
    with assms(6) i have "a = Some m" "p' = p" "e' = e1" by (auto simp: updateGroupTXT_def)
    with idx Inl inv show ?thesis by (auto simp: txtSettled_def intro: shown_le covers_le)
  next
    case (Inr n)
    with assms(6) i have run: "updateTXTs env n (targets []) new p e1 = (a, p', e')" by (simp add: updateGroupTXT_def targets_def)
    have "shown (pubRecords c) (apGroup p) (g e1)" using shown_le [OF inv(5) idx(1)] .
    then have "untouched (pubRecords c) (targets []) (apGroup p) (g e1)" "shown (targets []) (apGroup p) (g e1)"
      by (auto simp: shown_def untouched_def targets_def)
    from updateTXTs_effect [OF assms(1,3) inv(1-3) assms(4) same_structure_keys [OF assms(5)] _ run this]
    have "txtSettled g (pubRecords c) new p (a, p', e')" "dom (g e') \<subseteq> dom (g e1)" by auto
    then show ?thesis using covers_dom [OF covers_le [OF inv(4) idx(1)]] by blast
  qed
qed

subsection \<open>Every operation keeps the invariant\<close>

lemma synced_le: "synced g B (p, e) \<Longrightarrow> g e' \<subseteq>\<^sub>m g e \<Longrightarrow> synced g B (p, e')"
  by (auto simp: synced_def intro: covers_le shown_le)

lemma synced_gone: "synced g B (p, e) \<Longrightarrow> apGroup p = [] \<or> g e (apGroup p) = None \<Longrightarrow> synced g B (forget p, e)"
  by (auto simp: synced_def intro: covers_gone)

lemma synced_free:
  assumes "daemon env g" "synced g B (p, e)" "freeGroup env ctx (apGroup p) p e = (r, e')"
  shows "synced g B (p, e')" "r = None \<or> staleOpt r \<or> ctx = Independent \<Longrightarrow> synced g B (forget p, e')"
proof -
  note free = freeGroup_effect [OF assms(1,3)]
  show *: "synced g B (p, e')" using synced_le [OF assms(2) free(1)] .
  assume "r = None \<or> staleOpt r \<or> ctx = Independent"
  moreover have "apGroup p \<noteq> [] \<Longrightarrow> apConn p" using assms(2) by (simp add: synced_def)
  ultimately have "apGroup p = [] \<or> g e' (apGroup p) = None" using free(2) by (cases "apGroup p = []") auto
  with * show "synced g B (forget p, e')" by (rule synced_gone)
qed

lemma recoverGroup_synced:
  assumes "daemon env g" "synced g B (p, e)" "isStaleEntryGroupError err \<Longrightarrow> apGroup p = [] \<or> g e (apGroup p) = None"
    "recoverGroup env err p e = (p', e')"
  shows "synced g B (p', e')"
proof -
  obtain r e1 where get: "env Independent (GetState (apGroup p)) e = (r, e1)" by fastforce
  have s1: "synced g B (p, e1)" using synced_le [OF assms(2) daemon_read [OF assms(1) get]] by simp
  obtain f e2 where free: "freeGroup env Independent (apGroup p) p e1 = (f, e2)" by fastforce
  from synced_free [OF assms(1) s1 free] synced_gone [OF assms(2,3)] assms(2,4) get free s1 show ?thesis
    by (auto simp: recoverGroup_def Let_def split: if_splits sum.splits)
qed

lemma txtSettled_synced:
  assumes "synced g B (p, e)" "apCurrent p = Some c" "covers B (apGroup p) (g e')" "txtSettled g (pubRecords c) new p (Some m, p', e')"
  shows "synced g B (p', e') \<and> (isStaleEntryGroupError m \<longrightarrow> apGroup p' = [] \<or> g e' (apGroup p') = None)"
  using assms by (auto simp: txtSettled_def synced_def intro: covers_gone shown_gone)

lemma ensureBus_synced:
  assumes "daemon env g" "synced g B (p, e)" "ensureBus env p e = (r, p', e')"
  shows "synced g B (p', e')"
proof -
  have conn: "g e1 \<subseteq>\<^sub>m g e" if "env Independent Connected e = (a, e1)" for a e1
    using daemon_read [OF assms(1) that] by simp
  have bus: "g e2 \<subseteq>\<^sub>m g e1" if "env Independent SystemBus e1 = (a, e2)" for a e1 e2
    using daemon_read [OF assms(1) that] by simp
  have "g e' \<subseteq>\<^sub>m g e" "p' = p \<or> p' = p\<lparr>apConn := True\<rparr>"
    using assms(3) by (auto simp: ensureBus_def Let_def split: if_splits prod.splits option.splits
        dest!: conn bus intro: map_le_trans)
  with assms(2) show ?thesis by (auto simp: synced_def intro: covers_le shown_le)
qed

lemma synchronize_synced:
  assumes "daemon env g" "synced g B (p, e)" "plainRecords rs"
    "\<And>c. apCurrent p = Some c \<Longrightarrow> samePublicationStructure (pubRecords c) rs"
    "synchronize enc env input rs p e = (st, p', e')"
  shows "synced g B (p', e')"
proof -
  obtain r p1 e1 where bus: "ensureBus env p e = (r, p1, e1)" by (metis prod_cases3)
  note s1 = ensureBus_synced [OF assms(1,2) bus] and same = ensureBus_same [OF bus]
  show ?thesis
  proof (cases "r = None \<and> apCurrent p1 \<noteq> None")
    case True
    then obtain c where c: "apCurrent p1 = Some c" by blast
    with s1 have "apGroup p1 \<noteq> []" by (simp add: synced_def)
    obtain a p2 e2 where upd: "updateGroupTXT env input rs p1 e1 = (a, p2, e2)" by (metis prod_cases3)
    have eff: "txtSettled g (pubRecords c) rs p1 (a, p2, e2) \<and> covers B (apGroup p1) (g e2)"
      by (rule updateGroupTXT_effect [OF assms(1) s1 c assms(3) assms(4) upd]) (use c same in simp)
    show ?thesis
    proof (cases a)
      case None
      with assms(3,5) eff s1 bus True upd \<open>apGroup p1 \<noteq> []\<close> show ?thesis
        by (auto simp: synchronize_def txtSettled_def synced_def)
    next
      case (Some m)
      with txtSettled_synced [OF s1 c, of e2 rs m p2] eff have "synced g B (p2, e2)"
        "isStaleEntryGroupError m \<Longrightarrow> apGroup p2 = [] \<or> g e2 (apGroup p2) = None" by auto
      note recover = recoverGroup_synced [OF assms(1) this]
      from assms(5) bus True upd Some \<open>apGroup p1 \<noteq> []\<close> show ?thesis
        by (auto simp: synchronize_def Let_def split: prod.splits intro: recover)
    qed
  next
    case False
    show ?thesis
    proof (cases r)
      case None
      with False have none: "apCurrent p1 = None" by simp
      with s1 have grp: "apGroup p1 = []" "covers B [] (g e1)" by (auto simp: synced_def)
      have conn: "apConn p1" using ensureBus_conn [of env p e p1 e1] bus None by simp
      from assms(5) bus None none have
        "createFirst enc env 0 (CollisionNames (siName input) (attemptsAllowed input)) input rs p1 e1 = (st, p', e')"
        by (simp add: synchronize_def)
      then show ?thesis by (rule createFirst_synced [OF assms(1) conn none grp(1) assms(3) grp(2)])
    qed (use assms(5) bus s1 in \<open>auto simp: synchronize_def\<close>)
  qed
qed

lemma recordsFor_plain:
  assumes "recordsFor locErr input = Inr rs"
  shows "plainRecords rs"
  using assms
  by (auto simp: recordsFor_def BuildRecordsForProfiles_def BuildRecords_def sumBind_def plainRecords_def entry_def
      split: if_splits sum.splits prod.splits)

lemma replacePublication_synced:
  assumes "daemon env g" "synced g B (p, e)" "apCurrent p = Some c"
    "replacePublication enc locErr env c input p e = (st, p', e')"
  shows "synced g B (p', e')"
proof (cases "recordsFor locErr (adoptIdentity c input)")
  case (Inl err)
  with assms(2,4) show ?thesis by (auto simp: replacePublication_def)
next
  case (Inr rs)
  note plain = recordsFor_plain [OF Inr]
  have grp: "apGroup p \<noteq> []" using assms(2,3) by (auto simp: synced_def)
  obtain r e1 where free: "freeGroup env Caller (apGroup p) p e = (r, e1)" by fastforce
  note freed = synced_free [OF assms(1,2) free]
  have fresh: "synced g B (p', e')" if "r = None \<or> staleOpt r"
    "synchronize enc env (withProfiles rs (adoptIdentity c input)) rs (forget p) e1 = (st, p', e')"
    by (rule synchronize_synced [OF assms(1) freed(2) plain _ that(2)]) (use that(1) in auto)
  show ?thesis
  proof (cases "samePublicationStructure (pubRecords c) rs")
    case True
    then have "synchronize enc env (withProfiles rs (adoptIdentity c input)) rs p e = (st, p', e')"
      using assms(4) Inr by (simp add: replacePublication_def)
    from synchronize_synced [OF assms(1,2) plain _ this] assms(3) True show ?thesis by simp
  next
    case False
    with assms(4) Inr grp free freed(1) fresh show ?thesis
      by (auto simp: replacePublication_def staleOpt_def Let_def split: option.splits if_splits)
  qed
qed

lemma AvahiUpdate_synced:
  assumes "daemon env g" "synced g B (p, e)" "AvahiUpdate enc env ctx input (p, e) = (out, p', e')"
  shows "synced g B (p', e')"
proof (cases "contextErr ctx 0 = None")
  case False
  with assms(2,3) show ?thesis by (auto simp: AvahiUpdate_def)
next
  case True
  let ?input = "fillDefaults p input"
  show ?thesis
  proof (cases "recordsFor (locErrOf enc) ?input")
    case (Inl err)
    with True assms(2,3) show ?thesis by (auto simp: AvahiUpdate_def Let_def)
  next
    case (Inr rs)
    let ?prof = "if Ordinary (siProfiles ?input) then withProfiles rs ?input else ?input"
    obtain r e1 where free: "freeGroup env Caller (apGroup p) p e = (r, e1)" by fastforce
    note freed = synced_free [OF assms(1,2) free]
    have gone: "apGroup p = [] \<Longrightarrow> synced g B (forget p, e)" using synced_gone [OF assms(2)] by simp
    have withdraw: "synced g B (p', e')" if "withdrawProfile env ?prof p e = (st, p', e')" for st
      using that free freed gone
      by (auto simp: withdrawProfile_def Let_def staleOpt_def split: if_splits option.splits)
    have disable: "synced g B (p', e')" if "disablePublication env ?prof p e = (st, p', e')" for st
      using that free freed gone
      by (auto simp: disablePublication_def Let_def staleOpt_def split: if_splits option.splits)
    have sync: "synced g B (p', e')" if "apCurrent p = None" "synchronize enc env ?prof rs p e = (st, p', e')" for st
      using synchronize_synced [OF assms(1,2) recordsFor_plain [OF Inr] _ that(2)] that(1) by simp
    note repl = replacePublication_synced [OF assms(1,2)]
    show ?thesis
    proof (cases "apClosed p")
      case False
      with assms(3) True Inr obtain st where
        "(if siProfilesSet ?prof \<and> \<not> Ordinary (siProfiles ?prof) then withdrawProfile env ?prof p e
          else if apOff p then disablePublication env ?prof p e
          else case apCurrent p of
            None \<Rightarrow> synchronize enc env ?prof rs p e
          | Some c \<Rightarrow> replacePublication enc (locErrOf enc) env c ?prof p e) = (st, p', e')"
        unfolding AvahiUpdate_def Let_def by (auto split: prod.splits simp del: if_split_asm)
      then show ?thesis
        by (cases "siProfilesSet ?prof \<and> \<not> Ordinary (siProfiles ?prof)"; cases "apOff p"; cases "apCurrent p")
          (simp_all only: if_True if_False option.case simp_thms withdraw disable sync repl)
    qed (use assms(2,3) True Inr in \<open>auto simp: AvahiUpdate_def Let_def\<close>)
  qed
qed

lemma AvahiWithdraw_synced:
  assumes "daemon env g" "synced g B (p, e)" "AvahiWithdraw env ctx (p, e) = (out, p', e')"
  shows "synced g B (p', e')"
proof -
  obtain r e1 where free: "freeGroup env Caller (apGroup p) p e = (r, e1)" by fastforce
  have "apGroup p = [] \<Longrightarrow> synced g B (p\<lparr>apCurrent := None\<rparr>, e)" using assms(2) by (auto simp: synced_def)
  with synced_free [OF assms(1,2) free] free assms(2,3) show ?thesis
    by (auto simp: AvahiWithdraw_def Let_def staleOpt_def split: if_splits option.splits)
qed

lemma AvahiClose_synced:
  assumes "daemon env g" "synced g B (p, e)" "AvahiClose env (p, e) = (out, p', e')"
  shows "synced g B (p', e')"
proof -
  obtain r e1 where free: "freeGroup env Independent (apGroup p) p e = (r, e1)" by fastforce
  have shut: "synced g B ((forget p)\<lparr>apClosed := True, apConn := False\<rparr>, e1)"
    using synced_free(2) [OF assms(1,2) free] by (auto simp: synced_def)
  have "apGroup p = [] \<Longrightarrow> synced g B (p\<lparr>apClosed := True, apConn := False\<rparr>, e)" using assms(2) by (auto simp: synced_def)
  with shut synced_free(1) [OF assms(1,2) free] free assms(2,3) show ?thesis
    by (auto simp: AvahiClose_def Let_def split: if_splits option.splits)
qed

lemma avahiStep_synced:
  assumes "daemon env g" "synced g B s"
  shows "synced g B (snd (avahiStep enc env a s))"
proof -
  obtain p e where s: "s = (p, e)" by fastforce
  show ?thesis
  proof (cases a)
    case (AvahiDoUpdate ctx input)
    obtain out p' e' where "AvahiUpdate enc env ctx input (p, e) = (out, p', e')" by (metis prod_cases3)
    from AvahiUpdate_synced [OF assms(1) assms(2) [unfolded s] this] this AvahiDoUpdate s show ?thesis
      by (simp split: prod.splits)
  next
    case (AvahiDoWithdraw ctx)
    obtain out p' e' where "AvahiWithdraw env ctx (p, e) = (out, p', e')" by (metis prod_cases3)
    from AvahiWithdraw_synced [OF assms(1) assms(2) [unfolded s] this] this AvahiDoWithdraw s show ?thesis
      by (simp split: prod.splits)
  next
    case AvahiDoClose
    obtain out p' e' where "AvahiClose env (p, e) = (out, p', e')" by (metis prod_cases3)
    from AvahiClose_synced [OF assms(1) assms(2) [unfolded s] this] this AvahiDoClose s show ?thesis by simp
  qed
qed

lemma avahi_runs_synced:
  "daemon env g \<Longrightarrow> synced g B s \<Longrightarrow> synced g B (snd (runOps (avahiStep enc env) ops s))"
proof (induction ops arbitrary: s)
  case (Cons a ops)
  from Cons.IH [OF Cons.prems(1) avahiStep_synced [OF Cons.prems, of enc a]] show ?case
    by (auto split: prod.splits)
qed simp

subsection \<open>Properties of the Avahi publisher\<close>

text \<open>A daemon that answers every call, for the examples below.\<close>

fun answering :: "grouptable env" where
  "answering ctx EntryGroupNew g = (PathReply ''/Client1/EntryGroup1'', g(''/Client1/EntryGroup1'' \<mapsto> Map.empty))"
| "answering ctx (AddService path i n t h q x) g = (Replied, setTXT g path (n, t) x)"
| "answering ctx (UpdateServiceTxt path i n t x) g = (Replied, setTXT g path (n, t) x)"
| "answering ctx (Free path) g = (Replied, g(path := None))"
| "answering ctx (GetState path) g = (IntReply 2, g)"
| "answering ctx (InterfaceByName name) g = (IntReply 3, g)"
| "answering ctx c g = (Replied, g)"

lemma answering_reads:
  "written c = None \<Longrightarrow> c \<noteq> EntryGroupNew \<Longrightarrow> answering ctx c g = (r, g') \<Longrightarrow> g' \<subseteq>\<^sub>m g"
  by (cases c) (auto simp: map_le_def split: if_splits)

lemma answering_writes:
  "written c = Some (path, k, x) \<Longrightarrow> answering ctx c g = (r, g') \<Longrightarrow> g' = setTXT g path k x"
  by (cases c) auto

lemma answering_daemon: "daemon answering (\<lambda>g. g)"
  unfolding daemon_def
proof (intro conjI)
  show "writes_law answering (\<lambda>g. g)" unfolding writes_law_def using answering_writes by (metis map_le_refl)
  show "stale_law answering (\<lambda>g. g)" unfolding stale_law_def by (auto simp: staleOpt_def)
  show "groups_law answering (\<lambda>g. g)" unfolding groups_law_def by (auto simp: map_le_def)
  show "reads_law answering (\<lambda>g. g)" unfolding reads_law_def using answering_reads by blast
qed

definition sampleInput :: ServiceInput where
  "sampleInput = \<lparr>siName = ''Office'', siHostname = ''print.local'', siPort = 631, siIPPS = False, siInterface = [],
     siTXT = [(''rp'', ''ipp/office''), (''pdl'', ''image/urf''), (''urf'', ''W8'')], siGeoLocation = [],
     siProfiles = \<lparr>Ordinary = True, AirPrint = True, IPPEverywhere = False\<rparr>, siProfilesSet = True,
     siMaxCollisionRetries = 0\<rparr>"

definition noLOC :: "string \<Rightarrow> string + string" where
  "noLOC raw = Inl ''unsupported geo URI''"


definition sampleRun :: "Status list \<times> AvahiPublisher \<times> grouptable" where
  "sampleRun = runOps (avahiStep noLOC answering) [AvahiDoUpdate background sampleInput]
     (newAvahiPublisher [] [] False, Map.empty)"

lemma sampleRun_values:
  "map stState (fst sampleRun) = [StatePublished]" "apGroup (fst (snd sampleRun)) = ''/Client1/EntryGroup1''"
  "\<not> apClosed (fst (snd sampleRun))"
  by code_simp+


lemma createFirst_published:
  "createFirst enc env k cs input rs p e = (st, p', e') \<Longrightarrow> stState st = StatePublished \<Longrightarrow>
     \<exists>n. apCurrent p' = Some (publicationAs n input rs)"
  by (induction cs arbitrary: k e)
    (auto simp: Let_def degraded_def status_def split: prod.splits creation.splits)

lemma synchronize_published:
  assumes "synchronize enc env input rs p e = (st, p', e')" "stState st = StatePublished"
  shows "\<exists>n c'. apCurrent p' = Some c' \<and> pubInput c' = input\<lparr>siName := n\<rparr>"
proof -
  have self: "\<exists>n. input = input\<lparr>siName := n\<rparr>" by (rule exI [of _ "siName input"]) simp
  from assms show ?thesis
    by (auto simp: synchronize_def Let_def degraded_def status_def self
        split: prod.splits option.splits if_splits dest!: createFirst_published)
qed

lemma replacePublication_published:
  assumes "replacePublication enc locErr env c input p e = (st, p', e')" "stState st = StatePublished"
  shows "\<exists>rs n c'. apCurrent p' = Some c' \<and> pubInput c' = (withProfiles rs (adoptIdentity c input))\<lparr>siName := n\<rparr>"
proof -
  from assms obtain rs q e1 where "synchronize enc env (withProfiles rs (adoptIdentity c input)) rs q e1 = (st, p', e')"
    by (auto simp: replacePublication_def Let_def degraded_def split: sum.splits if_splits prod.splits option.splits)
  from synchronize_published [OF this assms(2)] show ?thesis by blast
qed

text \<open>
  C15: an update of a publication that exists keeps its endpoint. Whatever host name, port, IPPS flag,
  interface and location the new input asks for, an update that reports success publishes those of
  the publication it replaces; a changed port or location takes effect only after a withdrawal.
\<close>

theorem avahi_keeps_endpoint:
  assumes "apCurrent p = Some c" "AvahiUpdate enc env ctx input (p, e) = ((st, err), p', e')" "stState st = StatePublished"
  shows "\<exists>c'. apCurrent p' = Some c' \<and> siHostname (pubInput c') = siHostname (pubInput c) \<and>
    siPort (pubInput c') = siPort (pubInput c) \<and> siIPPS (pubInput c') = siIPPS (pubInput c) \<and>
    siInterface (pubInput c') = siInterface (pubInput c) \<and> siGeoLocation (pubInput c') = siGeoLocation (pubInput c)"
proof -
  from assms obtain in1 where "replacePublication enc (locErrOf enc) env c in1 p e = (st, p', e')"
    by (auto simp: AvahiUpdate_def withdrawProfile_def disablePublication_def degraded_def status_def Let_def
        split: option.splits sum.splits if_splits prod.splits)
  from replacePublication_published [OF this assms(3)] show ?thesis
    by (auto simp: withProfiles_def adoptIdentity_def)
qed

definition sampleCurrent :: Publication where
  "sampleCurrent = the (apCurrent (fst (snd sampleRun)))"

theorem avahi_keeps_endpoint_witness:
  "let r = AvahiUpdate noLOC answering background (sampleInput\<lparr>siPort := 8631\<rparr>) (snd sampleRun) in
     stState (fst (fst r)) = StatePublished \<and>
     (\<exists>c'. apCurrent (fst (snd r)) = Some c' \<and> siPort (pubInput c') = 631)"
proof -
  let ?r = "AvahiUpdate noLOC answering background (sampleInput\<lparr>siPort := 8631\<rparr>) (snd sampleRun)"
  have cur: "apCurrent (fst (snd sampleRun)) = Some sampleCurrent" "siPort (pubInput sampleCurrent) = 631"
    by code_simp+
  have ok: "stState (fst (fst ?r)) = StatePublished" by code_simp
  from avahi_keeps_endpoint [OF cur(1), of noLOC answering background "sampleInput\<lparr>siPort := 8631\<rparr>" "snd (snd sampleRun)"
      "fst (fst ?r)" "snd (fst ?r)" "fst (snd ?r)" "snd (snd ?r)"] ok cur(2)
  show ?thesis by (auto simp: Let_def)
qed

text \<open>A bus that goes away: groups can be freed, and every other call fails.\<close>

fun failing :: "grouptable env" where
  "failing ctx (Free path) g = (Replied, g(path := None))"
| "failing ctx c g = (Failed ''connection closed'', g)"


end
