(* ===== verification/Ipp_Attrs.thy ===== *)
theory Ipp_Attrs
  imports Dnssd_Records
begin

text \<open>
  IPP messages and the attribute helpers of \<^verbatim>\<open>internal/ipp/attrs.go\<close>.

  The types of a message come from the package \<^verbatim>\<open>goipp\<close>, which is not part of the program: a value is
  one of the Go types the program distinguishes, or another one. How \<^verbatim>\<open>fmt.Sprint\<close> prints a value
  that is not a string is the parameter \<open>sprint\<close>. A missing group list is \<open>None\<close>, an empty one
  \<open>Some []\<close>. \<^verbatim>\<open>HTTPURLFromIPP\<close> is left out.
\<close>

subsection \<open>Messages\<close>

datatype tag =
    TagOperationGroup | TagJobGroup | TagDocumentGroup | TagUnsupportedGroup
  | TagCharset | TagLanguage | TagURI | TagInteger | TagBoolean | TagMimeType | TagKeyword | TagName | TagText
  | TagBeginCollection | TagRange | TagResolution | TagEnum
  | TagOther nat

datatype units = UnitsDpi | UnitsDpcm | UnitsOther nat

datatype val =
    Integer int
  | Boolean bool
  | String string
  | Resolution int int units
  | Range int int
  | Collection "attribute list"
  | OtherValue nat
and attribute = Attribute (attrName: string) (attrValues: "(tag \<times> val) list")

datatype op =
    OpPrintJob | OpValidateJob | OpCreateJob | OpSendDocument | OpCancelJob | OpGetJobAttributes | OpGetJobs
  | OpGetPrinterAttributes | OpCloseJob | OpCancelMyJobs | OpIdentifyPrinter | OpOther nat

record message =
  msgCode :: op
  msgOperation :: "attribute list"
  msgJob :: "attribute list"
  msgDocument :: "attribute list"
  msgSubscription :: "attribute list"
  msgGroups :: "(tag \<times> attribute list) list option"

subsection \<open>Lookups\<close>

fun Attr :: "attribute list \<Rightarrow> string \<Rightarrow> attribute option" where
  "Attr [] name = None"
| "Attr (attr # attrs) name = (if EqualFold (attrName attr) name then Some attr else Attr attrs name)"

definition FirstString :: "(val \<Rightarrow> string) \<Rightarrow> attribute list \<Rightarrow> string \<Rightarrow> string option" where
  "FirstString sprint attrs name =
     (case Attr attrs name of
        None \<Rightarrow> None
      | Some attr \<Rightarrow>
          (case attrValues attr of
             [] \<Rightarrow> None
           | (_, v) # _ \<Rightarrow> Some (case v of String s \<Rightarrow> s | _ \<Rightarrow> sprint v)))"

definition FirstInt :: "attribute list \<Rightarrow> string \<Rightarrow> int option" where
  "FirstInt attrs name =
     (case Attr attrs name of
        None \<Rightarrow> None
      | Some attr \<Rightarrow>
          (case attrValues attr of
             (_, Integer i) # _ \<Rightarrow> Some i
           | _ \<Rightarrow> None))"

definition HasStringValue :: "attribute list \<Rightarrow> string \<Rightarrow> string \<Rightarrow> bool" where
  "HasStringValue attrs name value =
     (case Attr attrs name of
        None \<Rightarrow> False
      | Some attr \<Rightarrow> String value \<in> snd ` set (attrValues attr))"

subsection \<open>Updates\<close>

text \<open>The loop of \<^verbatim>\<open>SetAttr\<close>; \<open>replaced\<close> says whether the new attribute is already in the output.\<close>

fun setLoop :: "attribute \<Rightarrow> bool \<Rightarrow> attribute list \<Rightarrow> attribute list" where
  "setLoop attr replaced [] = (if replaced then [] else [attr])"
| "setLoop attr replaced (existing # attrs) =
     (if EqualFold (attrName existing) (attrName attr)
      then (if replaced then setLoop attr True attrs else attr # setLoop attr True attrs)
      else existing # setLoop attr replaced attrs)"

definition SetAttr :: "attribute list \<Rightarrow> attribute \<Rightarrow> attribute list" where
  "SetAttr attrs attr = setLoop attr False attrs"

definition DropAttrs :: "attribute list \<Rightarrow> string list \<Rightarrow> attribute list" where
  "DropAttrs attrs names = filter (\<lambda>a. ToLower (attrName a) \<notin> set (map ToLower names)) attrs"

subsection \<open>Constructors\<close>

definition Keyword :: "string \<Rightarrow> string \<Rightarrow> attribute" where
  "Keyword name value = Attribute name [(TagKeyword, String value)]"

definition Keywords :: "string \<Rightarrow> string list \<Rightarrow> attribute" where
  "Keywords name values = Attribute name (map (\<lambda>v. (TagKeyword, String v)) values)"

definition URI :: "string \<Rightarrow> string \<Rightarrow> attribute" where
  "URI name value = Attribute name [(TagURI, String value)]"

definition Name :: "string \<Rightarrow> string \<Rightarrow> attribute" where
  "Name name value = Attribute name [(TagName, String value)]"

definition Text :: "string \<Rightarrow> string \<Rightarrow> attribute" where
  "Text name value = Attribute name [(TagText, String value)]"

definition BooleanAttr :: "string \<Rightarrow> bool \<Rightarrow> attribute" where
  "BooleanAttr name value = Attribute name [(TagBoolean, Boolean value)]"

definition IntegerAttr :: "string \<Rightarrow> int \<Rightarrow> attribute" where
  "IntegerAttr name value = Attribute name [(TagInteger, Integer (sint (word_of_int value :: 32 word)))]"

definition RewriteRequestPrinterURI :: "string \<Rightarrow> message \<Rightarrow> message" where
  "RewriteRequestPrinterURI printerURI msg =
     msg\<lparr>msgOperation := SetAttr (msgOperation msg) (URI ''printer-uri'' printerURI), msgGroups := None\<rparr>"

definition BasicOperationAttrs :: "string \<Rightarrow> attribute list" where
  "BasicOperationAttrs uri =
     [Attribute ''attributes-charset'' [(TagCharset, String ''utf-8'')],
      Attribute ''attributes-natural-language'' [(TagLanguage, String ''en'')],
      URI ''printer-uri'' uri]"

subsection \<open>Laws\<close>

lemma EqualFold_sym: "EqualFold a b \<longleftrightarrow> EqualFold b a"
  by (auto simp: EqualFold_def)

lemma EqualFold_trans: "EqualFold a b \<Longrightarrow> EqualFold b c \<longleftrightarrow> EqualFold a c"
  by (simp add: EqualFold_def)

lemma Attr_name: "Attr attrs name = Some a \<Longrightarrow> a \<in> set attrs \<and> EqualFold (attrName a) name"
  by (induction attrs) (auto split: if_splits)

lemma Attr_None: "Attr attrs name = None \<longleftrightarrow> (\<forall>a \<in> set attrs. \<not> EqualFold (attrName a) name)"
  by (induction attrs) auto

lemma Attr_cong: "EqualFold n m \<Longrightarrow> Attr attrs n = Attr attrs m"
  by (induction attrs) (auto simp: EqualFold_def)

lemma Attr_append: "Attr (xs @ ys) n = (case Attr xs n of None \<Rightarrow> Attr ys n | Some a \<Rightarrow> Some a)"
  by (induction xs) auto

lemma set_setLoop:
  "set (setLoop b replaced attrs) = (if replaced then {} else {b}) \<union> {a \<in> set attrs. \<not> EqualFold (attrName a) (attrName b)}"
  by (induction attrs arbitrary: replaced) auto

lemma Attr_setLoop:
  "Attr (setLoop a replaced attrs) n =
     (if EqualFold (attrName a) n then (if replaced then None else Some a) else Attr attrs n)"
  by (induction attrs arbitrary: replaced) (auto simp: EqualFold_def)

text \<open>An attribute list as a store of attributes, seen through lookups.\<close>

locale attribute_store =
  fixes get :: "'s \<Rightarrow> 'k \<Rightarrow> 'a option"
    and put :: "'s \<Rightarrow> 'a \<Rightarrow> 's"
    and same :: "'a \<Rightarrow> 'k \<Rightarrow> bool"
  assumes get_put_same: "same a k \<Longrightarrow> get (put s a) k = Some a"
    and get_put_other: "\<not> same a k \<Longrightarrow> get (put s a) k = get s k"
begin

lemma put_again: "(\<And>k. same a k \<longleftrightarrow> same b k) \<Longrightarrow> get (put (put s a) b) k = get (put s b) k"
  by (cases "same a k") (simp_all add: get_put_same get_put_other)

lemma put_swap: "(\<And>k. \<not> (same a k \<and> same b k)) \<Longrightarrow> get (put (put s a) b) k = get (put (put s b) a) k"
  by (cases "same a k"; cases "same b k") (auto simp: get_put_same get_put_other)

end

interpretation attrs: attribute_store Attr SetAttr "\<lambda>a k. EqualFold (attrName a) k"
  by unfold_locales (simp_all add: SetAttr_def Attr_setLoop)

end
