(* ===== verification/Go_Url.thy ===== *)
theory Go_Url
  imports Go_Strings
begin

text \<open>
  The parts of Go's package \<^verbatim>\<open>net/url\<close> that the proxy uses: parsing a URL into scheme, host, path,
  query and fragment, and the escaped form of a path. The syntax of the authority (user, host, port,
  IPv6 literals) is the parameter \<open>authority\<close>: the host of an authority text, or \<open>None\<close> when it is
  refused. Nothing below depends on which authorities are refused.
\<close>

subsection \<open>Cutting texts\<close>

fun Cut :: "char \<Rightarrow> string \<Rightarrow> string \<times> string" where
  "Cut sep [] = ([], [])"
| "Cut sep (c # s) = (if c = sep then ([], s) else (case Cut sep s of (a, b) \<Rightarrow> (c # a, b)))"

fun TrimLeftChar :: "char \<Rightarrow> string \<Rightarrow> string" where
  "TrimLeftChar c [] = []"
| "TrimLeftChar c (d # s) = (if d = c then TrimLeftChar c s else d # s)"

definition TrimRightChar :: "char \<Rightarrow> string \<Rightarrow> string" where
  "TrimRightChar c s = rev (TrimLeftChar c (rev s))"

subsection \<open>Escaping\<close>

definition isAlpha :: "char \<Rightarrow> bool" where
  "isAlpha c \<longleftrightarrow> (let l = ascii_lower c in l \<ge> CHR ''a'' \<and> l \<le> CHR ''z'')"

definition isDigit :: "char \<Rightarrow> bool" where
  "isDigit c \<longleftrightarrow> CHR ''0'' \<le> c \<and> c \<le> CHR ''9''"

definition ishex :: "char \<Rightarrow> bool" where
  "ishex c \<longleftrightarrow> isDigit c \<or> c \<in> set ''abcdefABCDEF''"

definition unhex :: "char \<Rightarrow> nat" where
  "unhex c = (if isDigit c then of_char c - 48 else if CHR ''a'' \<le> c then of_char c - 87 else of_char c - 55)"

definition upperhex :: "nat \<Rightarrow> char" where
  "upperhex n = (if n < 10 then char_of (48 + n) else char_of (55 + n))"

text \<open>\<^verbatim>\<open>shouldEscape\<close> in the mode \<^verbatim>\<open>encodePath\<close>.\<close>

definition shouldEscape :: "char \<Rightarrow> bool" where
  "shouldEscape c \<longleftrightarrow> \<not> (isAlpha c \<or> isDigit c \<or> c \<in> set ''-_.~'' \<or> c \<in> set ''$&+,/:;=@'')"

fun unescape :: "string \<Rightarrow> string option" where
  "unescape [] = Some []"
| "unescape (c # s) =
     (if c = CHR ''%'' then
        (case s of a # b # s' \<Rightarrow>
           if ishex a \<and> ishex b then map_option (\<lambda>r. char_of (16 * unhex a + unhex b) # r) (unescape s') else None
         | _ \<Rightarrow> None)
      else map_option (\<lambda>r. c # r) (unescape s))"

fun escape :: "string \<Rightarrow> string" where
  "escape [] = []"
| "escape (c # s) =
     (if shouldEscape c then [CHR ''%'', upperhex (of_char c div 16), upperhex (of_char c mod 16)] else [c]) @ escape s"

definition validEncoded :: "string \<Rightarrow> bool" where
  "validEncoded s \<longleftrightarrow> (\<forall>c \<in> set s. c \<in> set ''!$&'' \<or> c = CHR 0x27 \<or> c \<in> set ''()*+,;=:@[]%'' \<or> \<not> shouldEscape c)"

subsection \<open>URLs\<close>

record URL =
  urlScheme :: string
  urlHost :: string
  urlRawPath :: string
  urlPath :: string
  urlRawQuery :: string
  urlFragment :: string

definition emptyURL :: URL where
  "emptyURL = \<lparr>urlScheme = [], urlHost = [], urlRawPath = [], urlPath = [], urlRawQuery = [], urlFragment = []\<rparr>"

text \<open>\<^verbatim>\<open>getScheme\<close>: the scheme and the rest, or an error when there is only a colon.\<close>

fun schemeLoop :: "string \<Rightarrow> string \<Rightarrow> string \<Rightarrow> (string \<times> string) option" where
  "schemeLoop raw seen [] = Some ([], raw)"
| "schemeLoop raw seen (c # s) =
     (if isAlpha c then schemeLoop raw (seen @ [c]) s
      else if isDigit c \<or> c \<in> set ''+-.'' then (if seen = [] then Some ([], raw) else schemeLoop raw (seen @ [c]) s)
      else if c = CHR '':'' then (if seen = [] then None else Some (seen, s))
      else Some ([], raw))"

definition getScheme :: "string \<Rightarrow> (string \<times> string) option" where
  "getScheme raw = schemeLoop raw [] raw"

definition setPath :: "string \<Rightarrow> URL \<Rightarrow> URL option" where
  "setPath p u =
     (case unescape p of
        None \<Rightarrow> None
      | Some path \<Rightarrow> Some (u\<lparr>urlPath := path, urlRawPath := (if p = escape path then [] else p)\<rparr>))"

definition hasCTLByte :: "string \<Rightarrow> bool" where
  "hasCTLByte s \<longleftrightarrow> (\<exists>c \<in> set s. c < CHR '' '' \<or> c = CHR 0x7F)"

definition parseRest :: "(string \<Rightarrow> string option) \<Rightarrow> string \<Rightarrow> string \<Rightarrow> URL option" where
  "parseRest authority scheme rest0 =
     (case Cut (CHR ''?'') rest0 of (rest, query) \<Rightarrow>
      let u = emptyURL\<lparr>urlScheme := ToLower scheme, urlRawQuery := query\<rparr> in
      if \<not> HasPrefix rest ''/'' \<and> scheme \<noteq> [] then Some u
      else if \<not> HasPrefix rest ''/'' \<and> Contains (fst (Cut (CHR ''/'') rest)) '':'' then None
      else if (scheme \<noteq> [] \<or> \<not> HasPrefix rest ''///'') \<and> HasPrefix rest ''//'' then
        (let auth = takeWhile (\<lambda>c. c \<noteq> CHR ''/'') (drop 2 rest); path = dropWhile (\<lambda>c. c \<noteq> CHR ''/'') (drop 2 rest) in
         case authority auth of None \<Rightarrow> None | Some host \<Rightarrow> setPath path (u\<lparr>urlHost := host\<rparr>))
      else setPath rest u)"

definition parseURL :: "(string \<Rightarrow> string option) \<Rightarrow> string \<Rightarrow> URL option" where
  "parseURL authority raw =
     (if hasCTLByte raw then None
      else if raw = ''*'' then Some (emptyURL\<lparr>urlPath := ''*''\<rparr>)
      else case getScheme raw of
        None \<Rightarrow> None
      | Some (scheme, rest) \<Rightarrow> parseRest authority scheme rest)"

text \<open>\<^verbatim>\<open>url.Parse\<close>: the fragment is cut off first.\<close>

definition Parse :: "(string \<Rightarrow> string option) \<Rightarrow> string \<Rightarrow> URL option" where
  "Parse authority raw =
     (case Cut (CHR ''#'') raw of (u, frag) \<Rightarrow>
      case parseURL authority u of
        None \<Rightarrow> None
      | Some url \<Rightarrow>
          if frag = [] then Some url
          else map_option (\<lambda>f. url\<lparr>urlFragment := f\<rparr>) (unescape frag))"

definition EscapedPath :: "URL \<Rightarrow> string" where
  "EscapedPath u =
     (if urlRawPath u \<noteq> [] \<and> validEncoded (urlRawPath u) \<and> unescape (urlRawPath u) = Some (urlPath u) then urlRawPath u
      else if urlPath u = ''*'' then ''*''
      else escape (urlPath u))"

end
