(* ===== verification/Proxy_Protocol.thy ===== *)
theory Proxy_Protocol
  imports Ipp_Attrs Go_Url
begin

text \<open>
  Validation of IPP requests before they are dispatched, \<^verbatim>\<open>internal/proxy/protocol.go\<close>, with the
  helpers of \<^verbatim>\<open>service.go\<close> it calls, the size-limited readers, and the selection of requested printer
  attributes.

  Parameters: \<open>sprint\<close> and \<open>tagName\<close> print a value and a tag of the package \<^verbatim>\<open>goipp\<close>, \<open>authority\<close> is the
  authority syntax of \<^verbatim>\<open>net/url\<close>. An error is the record of the same name, \<open>None\<close> means accepted.
\<close>

subsection \<open>Limited readers\<close>

text \<open>
  A reader is a function of the size of the buffer it gets and its own state; it returns the bytes it
  delivers and an error, if any. \<open>Max\<close> and \<open>readCount\<close> are the fields of the same names.
\<close>

type_synonym 'r reader = "nat \<Rightarrow> 'r \<Rightarrow> (byte list \<times> string option) \<times> 'r"

record limiter =
  Max :: int
  readCount :: int

definition errReadLimitExceeded :: string where
  "errReadLimitExceeded = ''IPP request exceeds configured size limit''"

definition limitedSize :: "nat \<Rightarrow> limiter \<Rightarrow> nat" where
  "limitedSize len l = (if Max l > 0 \<and> int len > Max l - readCount l then nat (Max l - readCount l) else len)"

definition phaseLimitReader_Read ::
  "'r reader \<Rightarrow> nat \<Rightarrow> limiter \<times> 'r \<Rightarrow> (byte list \<times> string option) \<times> limiter \<times> 'r" where
  "phaseLimitReader_Read rd len s = (case s of (l, r) \<Rightarrow>
     if Max l > 0 \<and> readCount l \<ge> Max l then (([], Some errReadLimitExceeded), l, r)
     else case rd (limitedSize len l) r of ((bs, err), r') \<Rightarrow>
       ((bs, err), l\<lparr>readCount := readCount l + int (length bs)\<rparr>, r'))"

definition maxBytesReader_Read ::
  "'r reader \<Rightarrow> nat \<Rightarrow> limiter \<times> 'r \<Rightarrow> (byte list \<times> string option) \<times> limiter \<times> 'r" where
  "maxBytesReader_Read rd len s = (case s of (l, r) \<Rightarrow>
     if Max l > 0 \<and> readCount l \<ge> Max l then
       (case rd 1 r of ((probe, err), r') \<Rightarrow>
          ((if probe \<noteq> [] then ([], Some errReadLimitExceeded) else ([], err)), l, r'))
     else case rd (limitedSize len l) r of ((bs, err), r') \<Rightarrow>
       ((bs, err), l\<lparr>readCount := readCount l + int (length bs)\<rparr>, r'))"

subsection \<open>Errors\<close>

datatype ipp_status =
    StatusErrorBadRequest | StatusErrorCharset | StatusErrorNotFound | StatusErrorConflicting | StatusErrorAttributesOrValues
  | StatusErrorDocumentFormatError | StatusErrorDocumentFormatNotSupported | StatusErrorRequestEntity
  | StatusErrorServiceUnavailable | StatusErrorNotPossible | StatusErrorMultipleJobsNotSupported
  | StatusErrorOperationNotSupported | StatusErrorBusy | StatusErrorPrinterIsDeactivated

record ProtocolError =
  peStatus :: ipp_status
  peMessage :: string
  peUnsupported :: "attribute list"

definition protocolError :: "ipp_status \<Rightarrow> string \<Rightarrow> ProtocolError" where
  "protocolError st m = \<lparr>peStatus = st, peMessage = m, peUnsupported = []\<rparr>"

definition unsupportedError :: "ipp_status \<Rightarrow> string \<Rightarrow> attribute list \<Rightarrow> ProtocolError" where
  "unsupportedError st m as = \<lparr>peStatus = st, peMessage = m, peUnsupported = as\<rparr>"

text \<open>The first error of two checks, in this order.\<close>

definition firstOf :: "ProtocolError option \<Rightarrow> ProtocolError option \<Rightarrow> ProtocolError option" where
  "firstOf a b = (case a of None \<Rightarrow> b | Some e \<Rightarrow> Some e)"

definition failIf :: "bool \<Rightarrow> ProtocolError \<Rightarrow> ProtocolError option" where
  "failIf b e = (if b then Some e else None)"

definition attrsNamed :: "attribute list \<Rightarrow> string list \<Rightarrow> attribute list" where
  "attrsNamed attrs names = filter (\<lambda>a. ToLower (attrName a) \<in> set (map ToLower names)) attrs"

subsection \<open>Groups\<close>

fun groupLoop :: "(tag \<Rightarrow> string) \<Rightarrow> nat \<Rightarrow> nat \<Rightarrow> (tag \<times> attribute list) list \<Rightarrow> string + nat" where
  "groupLoop tagName operations jobs [] = Inr jobs"
| "groupLoop tagName operations jobs ((t, _) # gs) =
     (if t = TagOperationGroup then
        (if operations + 1 \<noteq> 1 \<or> jobs > 0 then Inl ''operation attribute group is duplicated or out of order''
         else groupLoop tagName (operations + 1) jobs gs)
      else if t = TagJobGroup then
        (if jobs + 1 > 1 then Inl ''job attribute group is duplicated'' else groupLoop tagName operations (jobs + 1) gs)
      else if t = TagDocumentGroup then Inl ''document attribute groups are not supported''
      else Inl (''attribute group '' @ tagName t @ '' is not valid in this request''))"

definition validateRequestGroups :: "(tag \<Rightarrow> string) \<Rightarrow> message \<Rightarrow> ProtocolError option" where
  "validateRequestGroups tagName msg =
     (case msgGroups msg of
        None \<Rightarrow> None
      | Some gs \<Rightarrow>
          if gs = [] \<or> fst (hd gs) \<noteq> TagOperationGroup then
            Some (protocolError StatusErrorBadRequest ''operation attributes must be the first group'')
          else case groupLoop tagName 0 0 gs of
            Inl m \<Rightarrow> Some (protocolError StatusErrorBadRequest m)
          | Inr jobs \<Rightarrow>
              failIf (jobs > 0 \<and> msgCode msg \<notin> {OpPrintJob, OpValidateJob, OpCreateJob})
                (protocolError StatusErrorBadRequest ''job attributes are not valid for this operation''))"

subsection \<open>Required attributes and the target\<close>

definition singleValueAttr :: "attribute \<Rightarrow> string \<Rightarrow> tag \<Rightarrow> bool" where
  "singleValueAttr attr name t \<longleftrightarrow>
     EqualFold (attrName attr) name \<and> length (attrValues attr) = 1 \<and> fst (hd (attrValues attr)) = t"

definition printerOperationRequiresURI :: "op \<Rightarrow> bool" where
  "printerOperationRequiresURI c \<longleftrightarrow>
     c \<in> {OpPrintJob, OpValidateJob, OpCreateJob, OpGetJobs, OpGetPrinterAttributes, OpCancelMyJobs, OpIdentifyPrinter}"

definition jobOperationRequiresTarget :: "op \<Rightarrow> bool" where
  "jobOperationRequiresTarget c \<longleftrightarrow> c \<in> {OpSendDocument, OpGetJobAttributes, OpCancelJob, OpCloseJob}"

definition validateRequiredOperationAttrs :: "attribute list \<Rightarrow> op \<Rightarrow> string option" where
  "validateRequiredOperationAttrs attrs c =
     (if length attrs < 2 \<or> \<not> singleValueAttr (attrs ! 0) ''attributes-charset'' TagCharset
        \<or> \<not> singleValueAttr (attrs ! 1) ''attributes-natural-language'' TagLanguage
      then Some ''attributes-charset and attributes-natural-language must be the first two operation attributes''
      else if printerOperationRequiresURI c \<and> (length attrs < 3 \<or> \<not> singleValueAttr (attrs ! 2) ''printer-uri'' TagURI)
      then Some ''printer-uri operation attribute is required''
      else None)"

fun duplicateIn :: "string list \<Rightarrow> attribute list \<Rightarrow> attribute option" where
  "duplicateIn seen [] = None"
| "duplicateIn seen (a # as) =
     (if ToLower (attrName a) \<in> set seen then Some a else duplicateIn (ToLower (attrName a) # seen) as)"

fun duplicateInGroups :: "attribute list list \<Rightarrow> ProtocolError option" where
  "duplicateInGroups [] = None"
| "duplicateInGroups (attrs # gs) =
     (case duplicateIn [] attrs of
        Some a \<Rightarrow> Some (unsupportedError StatusErrorBadRequest (''duplicate attribute: '' @ attrName a) [a])
      | None \<Rightarrow> duplicateInGroups gs)"

definition validateNoDuplicateAttrs :: "message \<Rightarrow> ProtocolError option" where
  "validateNoDuplicateAttrs msg = duplicateInGroups [msgOperation msg, msgJob msg, msgDocument msg, msgSubscription msg]"

definition sameTargetURI :: "(string \<Rightarrow> string option) \<Rightarrow> string \<Rightarrow> string \<Rightarrow> bool" where
  "sameTargetURI authority left right =
     (case (Parse authority left, Parse authority right) of
        (Some l, Some r) \<Rightarrow>
          if urlScheme l = [] \<or> urlHost l = [] \<or> urlScheme r = [] \<or> urlHost r = [] then False
          else if \<not> EqualFold (urlScheme l) (urlScheme r) \<or> urlRawQuery l \<noteq> [] \<or> urlRawQuery r \<noteq> []
            \<or> urlFragment l \<noteq> [] \<or> urlFragment r \<noteq> [] then False
          else TrimRightChar (CHR ''/'') (EscapedPath l) = TrimRightChar (CHR ''/'') (EscapedPath r)
      | _ \<Rightarrow> False)"

text \<open>\<^verbatim>\<open>strconv.Atoi\<close> on 64-bit integers: an optional sign and decimal digits.\<close>

fun decimal :: "int \<Rightarrow> string \<Rightarrow> int option" where
  "decimal n [] = Some n"
| "decimal n (c # s) = (if isDigit c then decimal (10 * n + int (of_char c - 48)) s else None)"

definition Atoi :: "string \<Rightarrow> int option" where
  "Atoi s =
     (let digs = (case s of c # t \<Rightarrow> if c = CHR ''-'' \<or> c = CHR ''+'' then t else s | [] \<Rightarrow> []) in
      if digs = [] then None
      else case decimal 0 digs of
        None \<Rightarrow> None
      | Some n \<Rightarrow>
          (let v = (if hd s = CHR ''-'' then - n else n) in
           if - (2 ^ 63) \<le> v \<and> v < 2 ^ 63 then Some v else None))"

text \<open>The identifier in a job URI of a printer, if it is one.\<close>

definition jobIDForPrinterURI :: "(string \<Rightarrow> string option) \<Rightarrow> string \<Rightarrow> string \<Rightarrow> int option" where
  "jobIDForPrinterURI authority rawJobURI printerURI =
     (case (Parse authority rawJobURI, Parse authority printerURI) of
        (Some job, Some printer) \<Rightarrow>
          if urlRawQuery job \<noteq> [] \<or> urlFragment job \<noteq> [] then None
          else if urlScheme job = [] \<or> urlScheme printer = [] \<or> urlHost job = [] \<or> urlHost printer = []
            \<or> \<not> EqualFold (urlScheme job) (urlScheme printer) then None
          else
            (let prefix = TrimRightChar (CHR ''/'') (EscapedPath printer) @ ''/jobs/'' in
             if \<not> HasPrefix (EscapedPath job) prefix then None
             else
               (let tail = drop (length prefix) (EscapedPath job) in
                if tail = [] \<or> Contains tail ''/'' then None
                else case Atoi tail of Some i \<Rightarrow> if i > 0 then Some i else None | None \<Rightarrow> None))
      | _ \<Rightarrow> None)"

definition proxyJobURI :: "string \<Rightarrow> int \<Rightarrow> string" where
  "proxyJobURI printerURI jobID =
     TrimRightChar (CHR ''/'') printerURI @ ''/jobs/'' @ (if jobID < 0 then ''-'' else []) @ show_nat (nat \<bar>jobID\<bar>)"

definition validateTarget :: "(val \<Rightarrow> string) \<Rightarrow> (string \<Rightarrow> string option) \<Rightarrow> attribute list \<Rightarrow> op \<Rightarrow> string \<Rightarrow> ProtocolError option" where
  "validateTarget sprint authority attrs c printerURI =
     (let printer = FirstString sprint attrs ''printer-uri''; jobURI = FirstString sprint attrs ''job-uri'';
          jobID = FirstInt attrs ''job-id'';
          isQueue = (case printer of None \<Rightarrow> False | Some u \<Rightarrow> sameTargetURI authority u printerURI) in
      if printerOperationRequiresURI c then
        (if length attrs < 3 \<or> \<not> singleValueAttr (attrs ! 2) ''printer-uri'' TagURI
         then Some (protocolError StatusErrorBadRequest ''printer-uri must be the third operation attribute'')
         else if \<not> isQueue then Some (protocolError StatusErrorNotFound ''printer-uri does not identify this queue'')
         else failIf (jobURI \<noteq> None \<or> jobID \<noteq> None)
           (protocolError StatusErrorBadRequest ''printer operation contains a job target''))
      else if \<not> jobOperationRequiresTarget c then None
      else case jobURI of
        Some uri \<Rightarrow>
          if length attrs < 3 \<or> \<not> singleValueAttr (attrs ! 2) ''job-uri'' TagURI
          then Some (protocolError StatusErrorBadRequest ''job-uri must be the third operation attribute'')
          else if printer \<noteq> None \<or> jobID \<noteq> None
          then Some (protocolError StatusErrorBadRequest ''supply either job-uri or printer-uri with job-id'')
          else failIf (jobIDForPrinterURI authority uri printerURI = None)
            (protocolError StatusErrorNotFound ''job-uri does not identify a job in this queue'')
      | None \<Rightarrow>
          if length attrs < 4 \<or> \<not> singleValueAttr (attrs ! 2) ''printer-uri'' TagURI
            \<or> \<not> singleValueAttr (attrs ! 3) ''job-id'' TagInteger
          then Some (protocolError StatusErrorBadRequest
            ''printer-uri and job-id must be the third and fourth operation attributes'')
          else failIf (\<not> isQueue \<or> (case jobID of None \<Rightarrow> True | Some i \<Rightarrow> i < 1))
            (protocolError StatusErrorNotFound ''printer-uri and positive job-id are required''))"

subsection \<open>Collections\<close>

definition validMediaColKeyword :: "attribute \<Rightarrow> bool" where
  "validMediaColKeyword attr =
     (case attrValues attr of [(TagKeyword, String s)] \<Rightarrow> TrimSpace s \<noteq> [] | _ \<Rightarrow> False)"

definition validMediaColPositiveInteger :: "attribute \<Rightarrow> bool" where
  "validMediaColPositiveInteger attr = (case attrValues attr of [(TagInteger, Integer i)] \<Rightarrow> i > 0 | _ \<Rightarrow> False)"

definition validMediaColNonNegativeInteger :: "attribute \<Rightarrow> bool" where
  "validMediaColNonNegativeInteger attr = (case attrValues attr of [(TagInteger, Integer i)] \<Rightarrow> i \<ge> 0 | _ \<Rightarrow> False)"

record mediaColSyntaxState =
  mcSeen :: "string list"
  mcSelector :: bool

record mediaColDimensions =
  hasX :: bool
  hasY :: bool

definition collectionOf :: "attribute \<Rightarrow> attribute list option" where
  "collectionOf attr = (case attrValues attr of [(TagBeginCollection, Collection as)] \<Rightarrow> Some as | _ \<Rightarrow> None)"

text \<open>The cases of the switch over the member names.\<close>

datatype member_kind = SelectorMember | SizeMember | XMember | YMember | KeywordMember | MarginMember | UnknownMember

definition memberKind :: "string \<Rightarrow> member_kind" where
  "memberKind name =
     (if name \<in> {''media-size-name'', ''media-key''} then SelectorMember
      else if name = ''media-size'' then SizeMember
      else if name = ''x-dimension'' then XMember
      else if name = ''y-dimension'' then YMember
      else if name \<in> {''media-type'', ''media-source'', ''media-color''} then KeywordMember
      else if name \<in> {''media-bottom-margin'', ''media-left-margin'', ''media-right-margin'', ''media-top-margin''} then MarginMember
      else UnknownMember)"

text \<open>
  \<^verbatim>\<open>validMediaColMembers\<close> and \<^verbatim>\<open>validMediaSizeMember\<close>: the state after the members, or \<open>None\<close> when they are
  rejected. The dimensions are present exactly inside a media-size collection.
\<close>

function validMediaColMembers ::
  "attribute list \<Rightarrow> mediaColSyntaxState \<Rightarrow> mediaColDimensions option \<Rightarrow> mediaColSyntaxState option" where
  "validMediaColMembers [] st dims =
     (case dims of None \<Rightarrow> Some st | Some d \<Rightarrow> if hasX d \<and> hasY d then Some st else None)"
| "validMediaColMembers (m # ms) st dims =
     (let name = ToLower (attrName m); st1 = st\<lparr>mcSeen := name # mcSeen st\<rparr>; chosen = st1\<lparr>mcSelector := True\<rparr> in
      if name = [] \<or> name \<in> set (mcSeen st) then None
      else case memberKind name of
        SelectorMember \<Rightarrow> if validMediaColKeyword m then validMediaColMembers ms chosen dims else None
      | SizeMember \<Rightarrow>
          if dims \<noteq> None then None
          else (case collectionOf m of
             None \<Rightarrow> None
           | Some as \<Rightarrow>
               (case validMediaColMembers as st1 (Some \<lparr>hasX = False, hasY = False\<rparr>) of
                  None \<Rightarrow> None
                | Some st2 \<Rightarrow> validMediaColMembers ms (st2\<lparr>mcSelector := True\<rparr>) dims))
      | XMember \<Rightarrow>
          (case dims of
             None \<Rightarrow> None
           | Some d \<Rightarrow> if validMediaColPositiveInteger m then validMediaColMembers ms st1 (Some (d\<lparr>hasX := True\<rparr>)) else None)
      | YMember \<Rightarrow>
          (case dims of
             None \<Rightarrow> None
           | Some d \<Rightarrow> if validMediaColPositiveInteger m then validMediaColMembers ms st1 (Some (d\<lparr>hasY := True\<rparr>)) else None)
      | KeywordMember \<Rightarrow> if validMediaColKeyword m then validMediaColMembers ms st1 dims else None
      | MarginMember \<Rightarrow> if validMediaColNonNegativeInteger m then validMediaColMembers ms st1 dims else None
      | UnknownMember \<Rightarrow> None)"
  by pat_completeness auto
termination
  by (relation "measures [\<lambda>(ms, st, dims). if dims = None then 1 else 0, \<lambda>(ms, st, dims). length ms]") auto

declare validMediaColMembers.simps [simp del]

definition validMediaColSyntax :: "attribute \<Rightarrow> bool" where
  "validMediaColSyntax attr =
     (case collectionOf attr of
        None \<Rightarrow> False
      | Some as \<Rightarrow>
          (case validMediaColMembers as \<lparr>mcSeen = [], mcSelector = False\<rparr> None of
             None \<Rightarrow> False
           | Some st \<Rightarrow> mcSelector st))"

definition validPositiveRanges :: "attribute \<Rightarrow> bool" where
  "validPositiveRanges attr \<longleftrightarrow> attrValues attr \<noteq> [] \<and>
     (\<forall>v \<in> set (attrValues attr). case v of (TagRange, Range lower upper) \<Rightarrow> lower \<ge> 1 \<and> upper \<ge> lower | _ \<Rightarrow> False)"

definition validateOverride :: "attribute \<Rightarrow> tag \<times> val \<Rightarrow> ProtocolError option" where
  "validateOverride attr v =
     (let err = (\<lambda>m. Some (unsupportedError StatusErrorAttributesOrValues m [attr])) in
      case v of
        (TagBeginCollection, Collection attrs) \<Rightarrow>
          (let pages = Attr attrs ''pages''; documents = Attr attrs ''document-numbers'' in
           if (pages = None) = (documents = None) then
             err ''each override requires exactly one pages or document-numbers selector''
           else if length attrs < 2 then err ''override has no job-template attributes''
           else if \<not> validPositiveRanges (the (if documents \<noteq> None then documents else pages)) then
             err ''override selector must contain positive ranges''
           else None)
      | _ \<Rightarrow> err ''overrides values must be collections'')"

fun firstError :: "('a \<Rightarrow> ProtocolError option) \<Rightarrow> 'a list \<Rightarrow> ProtocolError option" where
  "firstError f [] = None"
| "firstError f (x # xs) = firstOf (f x) (firstError f xs)"

definition validateOverrides :: "attribute \<Rightarrow> ProtocolError option" where
  "validateOverrides attr =
     (if attrValues attr = []
      then Some (unsupportedError StatusErrorAttributesOrValues ''overrides requires at least one collection'' [attr])
      else firstError (validateOverride attr) (attrValues attr))"

subsection \<open>Values\<close>

record rule =
  ruleAttrs :: "attribute list"
  ruleName :: string
  ruleTag :: tag
  rulePositive :: bool

definition mkRule :: "attribute list \<Rightarrow> string \<Rightarrow> tag \<Rightarrow> bool \<Rightarrow> rule" where
  "mkRule as n t pos = \<lparr>ruleAttrs = as, ruleName = n, ruleTag = t, rulePositive = pos\<rparr>"

text \<open>The rules, all of them for a single value.\<close>

definition rules :: "message \<Rightarrow> rule list" where
  "rules msg =
     [mkRule (msgOperation msg) ''attributes-charset'' TagCharset False,
      mkRule (msgOperation msg) ''attributes-natural-language'' TagLanguage False,
      mkRule (msgOperation msg) ''printer-uri'' TagURI False,
      mkRule (msgOperation msg) ''job-uri'' TagURI False,
      mkRule (msgOperation msg) ''job-id'' TagInteger True,
      mkRule (msgOperation msg) ''last-document'' TagBoolean False,
      mkRule (msgOperation msg) ''document-format'' TagMimeType False,
      mkRule (msgOperation msg) ''ipp-attribute-fidelity'' TagBoolean False,
      mkRule (msgOperation msg) ''my-jobs'' TagBoolean False,
      mkRule (msgOperation msg) ''limit'' TagInteger True,
      mkRule (msgOperation msg) ''which-jobs'' TagKeyword False,
      mkRule (msgJob msg) ''copies'' TagInteger True,
      mkRule (msgJob msg) ''media'' TagKeyword False,
      mkRule (msgJob msg) ''media-col'' TagBeginCollection False]"

definition checkValue :: "rule \<Rightarrow> attribute \<Rightarrow> tag \<times> val \<Rightarrow> ProtocolError option" where
  "checkValue r attr v =
     (if fst v \<noteq> ruleTag r then
        Some (unsupportedError StatusErrorAttributesOrValues (ruleName r @ '' has invalid value syntax'') [attr])
      else failIf (rulePositive r \<and> (case snd v of Integer i \<Rightarrow> i < 1 | _ \<Rightarrow> True))
        (unsupportedError StatusErrorAttributesOrValues (ruleName r @ '' must be positive'') [attr]))"

definition checkRule :: "rule \<Rightarrow> ProtocolError option" where
  "checkRule r =
     (case Attr (ruleAttrs r) (ruleName r) of
        None \<Rightarrow> None
      | Some attr \<Rightarrow>
          if length (attrValues attr) \<noteq> 1 then
            Some (unsupportedError StatusErrorAttributesOrValues (ruleName r @ '' has invalid cardinality'') [attr])
          else firstOf (firstError (checkValue r attr) (attrValues attr))
            (failIf (ruleName r = ''media-col'' \<and> \<not> validMediaColSyntax attr)
              (unsupportedError StatusErrorAttributesOrValues ''media-col has invalid collection members'' [attr])))"

definition checkRequested :: "message \<Rightarrow> ProtocolError option" where
  "checkRequested msg =
     (case Attr (msgOperation msg) ''requested-attributes'' of
        None \<Rightarrow> None
      | Some attr \<Rightarrow>
          if attrValues attr = [] then
            Some (unsupportedError StatusErrorAttributesOrValues ''requested-attributes requires at least one keyword'' [attr])
          else firstError (\<lambda>v. failIf (fst v \<noteq> TagKeyword)
            (unsupportedError StatusErrorAttributesOrValues ''requested-attributes has invalid value syntax'' [attr])) (attrValues attr))"

definition whichJobs :: "string list" where
  "whichJobs = [''completed'', ''not-completed'', ''aborted'', ''all'', ''canceled'', ''pending'', ''pending-held'',
     ''processing'', ''processing-stopped'']"

definition checkWhich :: "(val \<Rightarrow> string) \<Rightarrow> message \<Rightarrow> ProtocolError option" where
  "checkWhich sprint msg =
     (case FirstString sprint (msgOperation msg) ''which-jobs'' of
        None \<Rightarrow> None
      | Some value \<Rightarrow>
          failIf (ToLower value \<notin> set whichJobs)
            (unsupportedError StatusErrorAttributesOrValues ''which-jobs has unsupportedError value''
              (case Attr (msgOperation msg) ''which-jobs'' of None \<Rightarrow> [] | Some a \<Rightarrow> [a])))"

definition validateKnownValues :: "(val \<Rightarrow> string) \<Rightarrow> message \<Rightarrow> ProtocolError option" where
  "validateKnownValues sprint msg =
     firstOf (firstError checkRule (rules msg)) (firstOf (checkRequested msg) (checkWhich sprint msg))"

subsection \<open>The whole request\<close>

definition checkCharset :: "(val \<Rightarrow> string) \<Rightarrow> message \<Rightarrow> ProtocolError option" where
  "checkCharset sprint msg =
     failIf (\<not> EqualFold (case FirstString sprint (msgOperation msg) ''attributes-charset'' of None \<Rightarrow> [] | Some s \<Rightarrow> s) ''utf-8'')
       (unsupportedError StatusErrorCharset ''only utf-8 is supported'' (attrsNamed (msgOperation msg) [''attributes-charset'']))"

definition checkMediaConflict :: "message \<Rightarrow> ProtocolError option" where
  "checkMediaConflict msg =
     failIf (Attr (msgJob msg) ''media'' \<noteq> None \<and> Attr (msgJob msg) ''media-col'' \<noteq> None)
       (unsupportedError StatusErrorConflicting ''media and media-col cannot both be supplied''
         (attrsNamed (msgJob msg) [''media'', ''media-col'']))"

definition checkPayload :: "message \<Rightarrow> bool \<Rightarrow> ProtocolError option" where
  "checkPayload msg hasPayload =
     (if msgCode msg = OpPrintJob \<and> \<not> hasPayload then
        Some (protocolError StatusErrorBadRequest ''document data is required'')
      else if msgCode msg = OpSendDocument then
        (case map_option attrValues (Attr (msgOperation msg) ''last-document'') of
           Some [(TagBoolean, Boolean lastDocument)] \<Rightarrow>
             failIf (\<not> hasPayload \<and> \<not> lastDocument)
               (protocolError StatusErrorBadRequest ''document data is required unless last-document is true'')
         | _ \<Rightarrow> Some (protocolError StatusErrorBadRequest ''last-document boolean is required''))
      else None)"

definition ValidateProtocolRequest ::
  "(val \<Rightarrow> string) \<Rightarrow> (tag \<Rightarrow> string) \<Rightarrow> (string \<Rightarrow> string option) \<Rightarrow> message option \<Rightarrow> string \<Rightarrow> bool \<Rightarrow> ProtocolError option" where
  "ValidateProtocolRequest sprint tagName authority msg0 printerURI hasPayload =
     (case msg0 of
        None \<Rightarrow> Some (protocolError StatusErrorBadRequest ''empty IPP request'')
      | Some msg \<Rightarrow>
          firstOf (validateRequestGroups tagName msg)
         (firstOf (map_option (protocolError StatusErrorBadRequest)
                   (validateRequiredOperationAttrs (msgOperation msg) (msgCode msg)))
         (firstOf (checkCharset sprint msg)
         (firstOf (validateNoDuplicateAttrs msg)
         (firstOf (validateTarget sprint authority (msgOperation msg) (msgCode msg) printerURI)
         (firstOf (checkMediaConflict msg)
         (firstOf (validateKnownValues sprint msg)
         (firstOf (case Attr (msgJob msg) ''overrides'' of None \<Rightarrow> None | Some attr \<Rightarrow> validateOverrides attr)
                 (checkPayload msg hasPayload)))))))))"

definition validateExplicitDocumentFormat :: "attribute list \<Rightarrow> ProtocolError option" where
  "validateExplicitDocumentFormat attrs =
     (let missing = Some (unsupportedError StatusErrorBadRequest ''document-format is required for a payload-bearing operation''
            (attrsNamed attrs [''document-format''])) in
      case Attr attrs ''document-format'' of
        None \<Rightarrow> missing
      | Some attr \<Rightarrow>
          (case attrValues attr of
             [(t, v)] \<Rightarrow>
               if t \<noteq> TagMimeType then missing
               else failIf (case v of String s \<Rightarrow> TrimSpace s = [] | _ \<Rightarrow> True)
                 (unsupportedError StatusErrorAttributesOrValues ''document-format has invalid value syntax'' [attr])
           | _ \<Rightarrow> missing))"

subsection \<open>Versions and requested attributes\<close>

text \<open>A version is its major and minor number.\<close>

definition closestSupportedVersion :: "nat \<times> nat \<Rightarrow> nat \<times> nat" where
  "closestSupportedVersion v =
     (case v of (major, minor) \<Rightarrow>
        if major < 1 then (1, 0)
        else if major = 1 \<and> minor = 0 then (1, 0)
        else if major = 1 then (1, 1)
        else (2, 0))"

definition bothForms :: "string list" where
  "bothForms = [''copies'', ''cover-back'', ''cover-front'', ''feed-orientation'', ''finishings'', ''imposition-template'',
     ''insert-sheet'', ''job-hold-until'', ''job-priority'', ''job-sheets'', ''media'', ''media-col'', ''media-type'',
     ''media-source'', ''multiple-document-handling'', ''number-up'', ''number-up-layout'', ''orientation-requested'',
     ''output-bin'', ''page-delivery'', ''presentation-direction-number-up'', ''print-color-mode'',
     ''print-content-optimize'', ''print-quality'', ''print-scaling'', ''printer-resolution'', ''proof-print'', ''sides'']"

definition jobTemplatePrinterAttributes :: "string list" where
  "jobTemplatePrinterAttributes =
     concat (map (\<lambda>n. [n @ ''-supported'', n @ ''-default'']) bothForms)
     @ [''media-col-ready'', ''media-ready'', ''media-size-supported'', ''page-ranges-supported'']"

definition descriptionPrefixes :: "string list" where
  "descriptionPrefixes = [''printer-name'', ''printer-info'', ''printer-location'', ''printer-make-and-model'', ''printer-uri'',
     ''printer-uuid'', ''printer-more-info'', ''printer-dns-sd-name'']"

definition statusNames :: "string list" where
  "statusNames = [''printer-state'', ''printer-state-reasons'', ''printer-state-message'', ''printer-is-accepting-jobs'',
     ''queued-job-count'']"

definition requestedAttributeCategory :: "string list \<Rightarrow> string \<Rightarrow> bool" where
  "requestedAttributeCategory wanted name \<longleftrightarrow>
     ''printer-description'' \<in> set wanted \<and> (\<exists>p \<in> set descriptionPrefixes. HasPrefix name p)
     \<or> ''printer-status'' \<in> set wanted \<and> name \<in> set statusNames
     \<or> ''job-template'' \<in> set wanted \<and> name \<in> set jobTemplatePrinterAttributes"

fun stringsOf :: "(tag \<times> val) list \<Rightarrow> string list" where
  "stringsOf [] = []"
| "stringsOf ((_, v) # vs) = (case v of String s \<Rightarrow> ToLower s # stringsOf vs | _ \<Rightarrow> stringsOf vs)"

definition FilterRequestedPrinterAttributes :: "attribute list \<Rightarrow> attribute list \<Rightarrow> attribute list" where
  "FilterRequestedPrinterAttributes attrs operation =
     (let requested = Attr operation ''requested-attributes'';
          wanted = (case requested of None \<Rightarrow> [] | Some a \<Rightarrow> stringsOf (attrValues a));
          everything = (requested = None \<or> ''all'' \<in> set wanted) in
      filter (\<lambda>a. let name = ToLower (attrName a) in
        (name = ''media-col-database'' \<longrightarrow> ''media-col-database'' \<in> set wanted) \<and>
        (everything \<or> name \<in> set wanted \<or> requestedAttributeCategory wanted name)) attrs)"

end
