(* ===== verification/Go_Float.thy ===== *)
theory Go_Float
  imports Main
begin

text \<open>
  Positive \<^verbatim>\<open>float64\<close> arithmetic as far as the program uses it: \<^verbatim>\<open>strconv.ParseFloat\<close> of a decimal
  fraction, a product with a small whole number, comparisons and \<^verbatim>\<open>math.Round\<close>. Every result is the
  nearest number with a significand of 53 bits, ties to even. A number is a significand and an
  exponent of two; the exponent is not bounded, and the program refuses every number that a bounded
  exponent would change.
\<close>

type_synonym float64 = "int \<times> int"

function bits :: "int \<Rightarrow> int" where
  "bits n = (if n \<le> 0 then 0 else 1 + bits (n div 2))"
  by pat_completeness auto
termination
  by (relation "measure nat") auto

declare bits.simps [simp del]

definition nearestEven :: "int \<Rightarrow> int \<Rightarrow> int" where
  "nearestEven n d =
     (let q = n div d; r = n mod d in if 2 * r < d \<or> 2 * r = d \<and> even q then q else q + 1)"

text \<open>The fraction \<open>n / d\<close> divided by \<open>2\<^sup>e\<close>, as numerator and denominator.\<close>

definition scaleTo :: "int \<Rightarrow> int \<Rightarrow> int \<Rightarrow> int \<times> int" where
  "scaleTo n d e = (if e \<ge> 0 then (n, d * 2 ^ nat e) else (n * 2 ^ nat (- e), d))"

definition float64Exponent :: "int \<Rightarrow> int \<Rightarrow> int" where
  "float64Exponent n d =
     (let k = bits n - bits d - 53; s = scaleTo n d k in
      if fst s \<ge> 2 ^ 53 * snd s then k + 1 else k)"

definition toFloat :: "int \<Rightarrow> int \<Rightarrow> float64" where
  "toFloat n d =
     (let e = float64Exponent n d; s = scaleTo n d e in (nearestEven (fst s) (snd s), e))"

definition mulFloat :: "float64 \<Rightarrow> int \<Rightarrow> float64" where
  "mulFloat x k = (case x of (m, e) \<Rightarrow>
     if e \<ge> 0 then toFloat (m * k * 2 ^ nat e) 1 else toFloat (m * k) (2 ^ nat (- e)))"

definition floatLess :: "float64 \<Rightarrow> int \<Rightarrow> bool" where
  "floatLess x k = (case x of (m, e) \<Rightarrow> if e \<ge> 0 then m * 2 ^ nat e < k else m < k * 2 ^ nat (- e))"

definition floatGreater :: "float64 \<Rightarrow> int \<Rightarrow> bool" where
  "floatGreater x k = (case x of (m, e) \<Rightarrow> if e \<ge> 0 then m * 2 ^ nat e > k else m > k * 2 ^ nat (- e))"

definition roundFloat :: "float64 \<Rightarrow> int" where
  "roundFloat x = (case x of (m, e) \<Rightarrow>
     if e \<ge> 0 then m * 2 ^ nat e else (2 * m + 2 ^ nat (- e)) div (2 * 2 ^ nat (- e)))"

end
