(* ===== verification/Proxy_Media.thy ===== *)
theory Proxy_Media
  imports Proxy_Protocol Go_Float
begin

text \<open>
  The media catalog of a queue, \<^verbatim>\<open>internal/proxy/capabilities.go\<close>: the sizes named by the policy with
  what the printer reports about them, media collections sent upstream and described to clients, and
  the check of a policy against a printer.
\<close>

subsection \<open>Policies\<close>

record PolicyConfig =
  policyMedia :: string
  MediaSupported :: "string list"
  MediaDefault :: string
  policyMediaType :: string
  PrintColorMode :: string
  policySource :: "string option"
  PrintScaling :: "string option"
  UseMediaCol :: bool
  policyFidelity :: string

definition policyMediaNames :: "PolicyConfig \<Rightarrow> string list" where
  "policyMediaNames policy =
     (let out = filter (\<lambda>n. n \<noteq> []) (map TrimSpace (MediaSupported policy)) in
      if out \<noteq> [] then out
      else if TrimSpace (policyMedia policy) \<noteq> [] then [TrimSpace (policyMedia policy)]
      else [''iso_a4_210x297mm''])"

definition policyMediaDefault :: "PolicyConfig \<Rightarrow> string" where
  "policyMediaDefault policy =
     (if TrimSpace (MediaDefault policy) \<noteq> [] then TrimSpace (MediaDefault policy)
      else if TrimSpace (policyMedia policy) \<noteq> [] then TrimSpace (policyMedia policy)
      else hd (policyMediaNames policy))"

definition mediaNameKey :: "string \<Rightarrow> string" where
  "mediaNameKey name = ToLower (TrimSpace name)"

definition policyMediaSource :: "PolicyConfig \<Rightarrow> string" where
  "policyMediaSource policy = (case policySource policy of None \<Rightarrow> [] | Some s \<Rightarrow> TrimSpace s)"

subsection \<open>Sizes\<close>

record mediaSize =
  sizeName :: string
  XDimension :: int
  YDimension :: int
  HasDimension :: bool
  sizeType :: string
  sizeSource :: string
  HasMediaType :: bool
  HasMediaSource :: bool
  Ready :: bool
  BottomMargin :: int
  LeftMargin :: int
  RightMargin :: int
  TopMargin :: int
  HasBottomMargin :: bool
  HasLeftMargin :: bool
  HasRightMargin :: bool
  HasTopMargin :: bool
  aliases :: "string list"

text \<open>The zero value of the struct.\<close>

definition zeroMediaSize :: mediaSize where
  "zeroMediaSize = \<lparr>sizeName = [], XDimension = 0, YDimension = 0, HasDimension = False, sizeType = [], sizeSource = [],
     HasMediaType = False, HasMediaSource = False, Ready = False, BottomMargin = 0, LeftMargin = 0, RightMargin = 0,
     TopMargin = 0, HasBottomMargin = False, HasLeftMargin = False, HasRightMargin = False, HasTopMargin = False,
     aliases = []\<rparr>"

record mediaCatalog =
  Sizes :: "mediaSize list"
  Instances :: "mediaSize list"
  ByName :: "string \<rightharpoonup> mediaSize"
  ByNameAll :: "string \<Rightarrow> mediaSize list"

record mediaCollection =
  collSize :: mediaSize
  collNames :: "string list"
  collReady :: bool

definition dimensionsEqual :: "mediaSize \<Rightarrow> mediaSize \<Rightarrow> bool" where
  "dimensionsEqual a b \<longleftrightarrow> HasDimension a \<and> HasDimension b \<and>
     (XDimension a = XDimension b \<and> YDimension a = YDimension b
      \<or> XDimension a = YDimension b \<and> YDimension a = XDimension b)"

subsection \<open>Sizes from PWG names\<close>

text \<open>
  The expression \<^verbatim>\<open>(?i)([0-9]+(?:\.[0-9]+)?)x([0-9]+(?:\.[0-9]+)?)(mm|in)(?:$|[_-])\<close>. At a given position
  it can match in one way only: digits have to be followed by a point, an \<^verbatim>\<open>x\<close> or a unit, so a shorter
  run of digits never leads to a match. A number is its digits before and after the point.
\<close>

definition matchNumber :: "string \<Rightarrow> ((string \<times> string) \<times> string) option" where
  "matchNumber s =
     (let ds = takeWhile isDigit s; r = dropWhile isDigit s in
      if ds = [] then None
      else case r of
        c # t \<Rightarrow> if c = CHR ''.'' \<and> takeWhile isDigit t \<noteq> []
                  then Some ((ds, takeWhile isDigit t), dropWhile isDigit t) else Some ((ds, []), r)
      | [] \<Rightarrow> Some ((ds, []), []))"

definition matchUnit :: "string \<Rightarrow> (bool \<times> string) option" where
  "matchUnit s =
     (let u = map ascii_lower (take 2 s) in
      if u = ''mm'' then Some (False, drop 2 s) else if u = ''in'' then Some (True, drop 2 s) else None)"

text \<open>The two numbers and whether the unit is \<^verbatim>\<open>in\<close>.\<close>

definition matchDimensions :: "string \<Rightarrow> ((string \<times> string) \<times> (string \<times> string) \<times> bool) option" where
  "matchDimensions s =
     (case matchNumber s of
        Some (x, c # r) \<Rightarrow>
          if ascii_lower c \<noteq> CHR ''x'' then None
          else (case matchNumber r of
             Some (y, r') \<Rightarrow>
               (case matchUnit r' of
                  Some (inches, r'') \<Rightarrow>
                    if r'' = [] \<or> hd r'' = CHR ''_'' \<or> hd r'' = CHR ''-'' then Some (x, y, inches) else None
                | None \<Rightarrow> None)
           | None \<Rightarrow> None)
      | _ \<Rightarrow> None)"

fun pwgMediaDimensions :: "string \<Rightarrow> ((string \<times> string) \<times> (string \<times> string) \<times> bool) option" where
  "pwgMediaDimensions [] = matchDimensions []"
| "pwgMediaDimensions (c # s) = (case matchDimensions (c # s) of None \<Rightarrow> pwgMediaDimensions s | Some m \<Rightarrow> Some m)"

definition digitsValue :: "string \<Rightarrow> int" where
  "digitsValue ds = foldl (\<lambda>n c. 10 * n + (of_char c - 48)) 0 ds"

definition roundedIPPDimension :: "float64 \<Rightarrow> int \<Rightarrow> int option" where
  "roundedIPPDimension v multiplier =
     (let scaled = mulFloat v multiplier in
      if floatLess scaled 1 \<or> floatGreater scaled (2 ^ 31 - 1) then None
      else if roundFloat scaled < 1 \<or> roundFloat scaled > 2 ^ 31 - 1 then None
      else Some (roundFloat scaled))"

text \<open>\<^verbatim>\<open>strconv.ParseFloat\<close> of such a number.\<close>

definition parseNumber :: "string \<times> string \<Rightarrow> float64 option" where
  "parseNumber num = (case num of (whole, fraction) \<Rightarrow>
     if digitsValue (whole @ fraction) = 0 then None
     else Some (toFloat (digitsValue (whole @ fraction)) (10 ^ length fraction)))"

definition mediaSizeFromPWGName :: "string \<Rightarrow> mediaSize option" where
  "mediaSizeFromPWGName name =
     (case pwgMediaDimensions (TrimSpace name) of
        None \<Rightarrow> None
      | Some (xs, ys, inches) \<Rightarrow>
          (case (parseNumber xs, parseNumber ys) of
             (Some x, Some y) \<Rightarrow>
               (let multiplier = (if inches then 2540 else 100) in
                case (roundedIPPDimension x multiplier, roundedIPPDimension y multiplier) of
                  (Some xd, Some yd) \<Rightarrow>
                    Some (zeroMediaSize\<lparr>sizeName := TrimSpace name, XDimension := xd, YDimension := yd, HasDimension := True\<rparr>)
                | _ \<Rightarrow> None)
           | _ \<Rightarrow> None))"

subsection \<open>Values of collections\<close>

definition stringValue :: "val \<Rightarrow> string option" where
  "stringValue v = (case v of String s \<Rightarrow> Some s | _ \<Rightarrow> None)"

definition fixedInteger :: "(tag \<times> val) list \<Rightarrow> int option" where
  "fixedInteger values =
     (case values of
        [(_, Integer i)] \<Rightarrow> Some i
      | [(_, Range lower upper)] \<Rightarrow> if lower = upper then Some lower else None
      | _ \<Rightarrow> None)"

definition fixedNonNegativeInteger :: "(tag \<times> val) list \<Rightarrow> int option" where
  "fixedNonNegativeInteger values = (case values of [(_, Integer i)] \<Rightarrow> if i \<ge> 0 then Some i else None | _ \<Rightarrow> None)"

definition fixedKeyword :: "(tag \<times> val) list \<Rightarrow> string option" where
  "fixedKeyword values =
     (case values of
        [(t, String s)] \<Rightarrow> if t = TagKeyword \<or> t = TagName then Some (TrimSpace s) else None
      | _ \<Rightarrow> None)"

definition containsMediaName :: "string list \<Rightarrow> string \<Rightarrow> bool" where
  "containsMediaName names wanted \<longleftrightarrow> (\<exists>n \<in> set names. EqualFold (TrimSpace n) (TrimSpace wanted))"

definition hasString :: "attribute \<Rightarrow> string \<Rightarrow> bool" where
  "hasString attr value \<longleftrightarrow>
     (\<exists>v \<in> set (attrValues attr). case snd v of String s \<Rightarrow> EqualFold s value | _ \<Rightarrow> False)"

text \<open>The walk over a collection and everything nested in it; the last two fields are its local variables.\<close>

record walker =
  walkCollection :: mediaCollection
  mediaSizeName :: string
  mediaKey :: string

definition onSize :: "(mediaSize \<Rightarrow> mediaSize) \<Rightarrow> walker \<Rightarrow> walker" where
  "onSize f w = w\<lparr>walkCollection := (walkCollection w)\<lparr>collSize := f (collSize (walkCollection w))\<rparr>\<rparr>"

fun walkNames :: "string \<Rightarrow> (tag \<times> val) list \<Rightarrow> walker \<Rightarrow> walker" where
  "walkNames name [] w = w"
| "walkNames name ((_, v) # vs) w =
     (case stringValue v of
        None \<Rightarrow> walkNames name vs w
      | Some raw \<Rightarrow>
          (let label = TrimSpace raw; c = walkCollection w in
           if label = [] \<or> containsMediaName (collNames c) label then walkNames name vs w
           else walkNames name vs
             (w\<lparr>walkCollection := c\<lparr>collNames := collNames c @ [label]\<rparr>,
                mediaSizeName := if name = ''media-size-name'' \<and> mediaSizeName w = [] then label else mediaSizeName w,
                mediaKey := if name = ''media-key'' \<and> mediaKey w = [] then label else mediaKey w\<rparr>)))"

text \<open>One member, before the collections nested in it.\<close>

definition walkMember :: "string \<Rightarrow> (tag \<times> val) list \<Rightarrow> walker \<Rightarrow> walker" where
  "walkMember name vs w =
     (let size = collSize (walkCollection w) in
      if name = ''media-key'' \<or> name = ''media-size-name'' then walkNames name vs w
      else if name = ''x-dimension'' then
        (case fixedInteger vs of
           Some i \<Rightarrow> if i > 0 \<and> XDimension size = 0 then onSize (\<lambda>s. s\<lparr>XDimension := i\<rparr>) w else w | None \<Rightarrow> w)
      else if name = ''y-dimension'' then
        (case fixedInteger vs of
           Some i \<Rightarrow> if i > 0 \<and> YDimension size = 0 then onSize (\<lambda>s. s\<lparr>YDimension := i\<rparr>) w else w | None \<Rightarrow> w)
      else if name = ''media-type'' then
        (case fixedKeyword vs of
           Some k \<Rightarrow> if k \<noteq> [] \<and> \<not> HasMediaType size then onSize (\<lambda>s. s\<lparr>sizeType := k, HasMediaType := True\<rparr>) w else w
         | None \<Rightarrow> w)
      else if name = ''media-source'' then
        (case fixedKeyword vs of
           Some k \<Rightarrow> if k \<noteq> [] \<and> \<not> HasMediaSource size then onSize (\<lambda>s. s\<lparr>sizeSource := k, HasMediaSource := True\<rparr>) w else w
         | None \<Rightarrow> w)
      else if name = ''media-bottom-margin'' then
        (case fixedNonNegativeInteger vs of
           Some i \<Rightarrow> if \<not> HasBottomMargin size then onSize (\<lambda>s. s\<lparr>BottomMargin := i, HasBottomMargin := True\<rparr>) w else w
         | None \<Rightarrow> w)
      else if name = ''media-left-margin'' then
        (case fixedNonNegativeInteger vs of
           Some i \<Rightarrow> if \<not> HasLeftMargin size then onSize (\<lambda>s. s\<lparr>LeftMargin := i, HasLeftMargin := True\<rparr>) w else w
         | None \<Rightarrow> w)
      else if name = ''media-right-margin'' then
        (case fixedNonNegativeInteger vs of
           Some i \<Rightarrow> if \<not> HasRightMargin size then onSize (\<lambda>s. s\<lparr>RightMargin := i, HasRightMargin := True\<rparr>) w else w
         | None \<Rightarrow> w)
      else if name = ''media-top-margin'' then
        (case fixedNonNegativeInteger vs of
           Some i \<Rightarrow> if \<not> HasTopMargin size then onSize (\<lambda>s. s\<lparr>TopMargin := i, HasTopMargin := True\<rparr>) w else w
         | None \<Rightarrow> w)
      else w)"

fun walkAttrs :: "attribute list \<Rightarrow> walker \<Rightarrow> walker"
and walkValues :: "(tag \<times> val) list \<Rightarrow> walker \<Rightarrow> walker" where
  "walkAttrs [] w = w"
| "walkAttrs (Attribute name vs # as) w = walkAttrs as (walkValues vs (walkMember (ToLower name) vs w))"
| "walkValues [] w = w"
| "walkValues ((_, Collection as) # vs) w = walkValues vs (walkAttrs as w)"
| "walkValues (_ # vs) w = walkValues vs w"

definition mediaCollectionFromAttrs :: "attribute list \<Rightarrow> mediaCollection" where
  "mediaCollectionFromAttrs attrs =
     (let w = walkAttrs attrs \<lparr>walkCollection = \<lparr>collSize = zeroMediaSize, collNames = [], collReady = False\<rparr>,
                mediaSizeName = [], mediaKey = []\<rparr>;
          c = walkCollection w; size = collSize c;
          name = (if mediaSizeName w \<noteq> [] then mediaSizeName w else if mediaKey w \<noteq> [] then mediaKey w
                  else if collNames c \<noteq> [] then hd (collNames c) else sizeName size) in
      c\<lparr>collSize := size\<lparr>sizeName := name, HasDimension := (XDimension size > 0 \<and> YDimension size > 0),
           aliases := collNames c\<rparr>\<rparr>)"

definition mediaCollectionFromValue :: "val \<Rightarrow> mediaCollection option" where
  "mediaCollectionFromValue v =
     (case v of
        Collection attrs \<Rightarrow>
          (let c = mediaCollectionFromAttrs attrs in
           if collNames c \<noteq> [] \<or> HasDimension (collSize c) then Some c else None)
      | _ \<Rightarrow> None)"

fun collectionsOf :: "bool \<Rightarrow> (tag \<times> val) list \<Rightarrow> mediaCollection list" where
  "collectionsOf ready [] = []"
| "collectionsOf ready ((_, v) # vs) =
     (case mediaCollectionFromValue v of
        None \<Rightarrow> collectionsOf ready vs
      | Some c \<Rightarrow> c\<lparr>collReady := ready\<rparr> # collectionsOf ready vs)"

fun upstreamMediaCollections :: "attribute list \<Rightarrow> mediaCollection list" where
  "upstreamMediaCollections [] = []"
| "upstreamMediaCollections (attr # attrs) =
     (let name = ToLower (attrName attr) in
      (if name \<in> {''media-col-database'', ''media-col-ready'', ''media-size-supported''}
       then collectionsOf (name = ''media-col-ready'') (attrValues attr) else [])
      @ upstreamMediaCollections attrs)"

subsection \<open>Instances\<close>

definition mergeNames :: "string list \<Rightarrow> string list \<Rightarrow> string list" where
  "mergeNames names new = foldl (\<lambda>ns a. if containsMediaName ns a then ns else ns @ [a]) names new"

definition mergeMediaSize :: "mediaSize \<Rightarrow> mediaSize \<Rightarrow> mediaSize" where
  "mergeMediaSize dst src =
     (let d1 = (if \<not> HasDimension dst \<and> HasDimension src
                then dst\<lparr>XDimension := XDimension src, YDimension := YDimension src, HasDimension := True\<rparr> else dst);
          d2 = (if \<not> HasBottomMargin d1 \<and> HasBottomMargin src
                then d1\<lparr>BottomMargin := BottomMargin src, HasBottomMargin := True\<rparr> else d1);
          d3 = (if \<not> HasLeftMargin d2 \<and> HasLeftMargin src
                then d2\<lparr>LeftMargin := LeftMargin src, HasLeftMargin := True\<rparr> else d2);
          d4 = (if \<not> HasRightMargin d3 \<and> HasRightMargin src
                then d3\<lparr>RightMargin := RightMargin src, HasRightMargin := True\<rparr> else d3);
          d5 = (if \<not> HasTopMargin d4 \<and> HasTopMargin src
                then d4\<lparr>TopMargin := TopMargin src, HasTopMargin := True\<rparr> else d4);
          d6 = (if \<not> HasMediaType d5 \<and> HasMediaType src
                then d5\<lparr>sizeType := sizeType src, HasMediaType := True\<rparr> else d5);
          d7 = (if \<not> HasMediaSource d6 \<and> HasMediaSource src
                then d6\<lparr>sizeSource := sizeSource src, HasMediaSource := True\<rparr> else d6) in
      d7\<lparr>Ready := (Ready d7 \<or> Ready src), aliases := mergeNames (aliases d7) (aliases src)\<rparr>)"

definition sameMediaInstance :: "mediaSize \<Rightarrow> mediaSize \<Rightarrow> bool" where
  "sameMediaInstance a b \<longleftrightarrow>
     \<not> (HasMediaSource a \<noteq> HasMediaSource b \<or> HasMediaSource a \<and> \<not> EqualFold (sizeSource a) (sizeSource b)) \<and>
     \<not> (HasMediaType a \<noteq> HasMediaType b \<or> HasMediaType a \<and> \<not> EqualFold (sizeType a) (sizeType b)) \<and>
     \<not> (HasDimension a \<and> HasDimension b \<and> \<not> dimensionsEqual a b) \<and>
     \<not> (HasBottomMargin a \<and> HasBottomMargin b \<and> BottomMargin a \<noteq> BottomMargin b) \<and>
     \<not> (HasLeftMargin a \<and> HasLeftMargin b \<and> LeftMargin a \<noteq> LeftMargin b) \<and>
     \<not> (HasRightMargin a \<and> HasRightMargin b \<and> RightMargin a \<noteq> RightMargin b) \<and>
     \<not> (HasTopMargin a \<and> HasTopMargin b \<and> TopMargin a \<noteq> TopMargin b)"

fun mergeMediaInstance :: "mediaSize list \<Rightarrow> mediaSize \<Rightarrow> mediaSize list" where
  "mergeMediaInstance [] candidate = [candidate]"
| "mergeMediaInstance (i # is) candidate =
     (if sameMediaInstance i candidate
      then (let m = mergeMediaSize i candidate in m\<lparr>Ready := (Ready m \<or> Ready candidate)\<rparr>) # is
      else i # mergeMediaInstance is candidate)"

definition mediaSizeHasNonZeroMargin :: "mediaSize \<Rightarrow> bool" where
  "mediaSizeHasNonZeroMargin s \<longleftrightarrow>
     HasBottomMargin s \<and> BottomMargin s > 0 \<or> HasLeftMargin s \<and> LeftMargin s > 0
     \<or> HasRightMargin s \<and> RightMargin s > 0 \<or> HasTopMargin s \<and> TopMargin s > 0"

definition mediaInstancePreference :: "mediaSize \<Rightarrow> int" where
  "mediaInstancePreference s = (if Ready s then 100 else 0) + (if mediaSizeHasNonZeroMargin s then 10 else 0)"

definition preferredMediaInstance :: "mediaSize list \<Rightarrow> mediaSize" where
  "preferredMediaInstance instances =
     (case instances of
        [] \<Rightarrow> zeroMediaSize
      | i # is \<Rightarrow>
          foldl (\<lambda>best c. if mediaInstancePreference c > mediaInstancePreference best then c else best) i is)"

definition mediaCollectionHasName :: "mediaCollection \<Rightarrow> string \<Rightarrow> bool" where
  "mediaCollectionHasName c policyName \<longleftrightarrow>
     (\<exists>a \<in> set (collNames c). EqualFold (TrimSpace a) (TrimSpace policyName))
     \<or> sizeName (collSize c) \<noteq> [] \<and> EqualFold (TrimSpace (sizeName (collSize c))) (TrimSpace policyName)"

definition mediaCollectionMatches :: "mediaCollection \<Rightarrow> string \<Rightarrow> mediaSize option \<Rightarrow> bool" where
  "mediaCollectionMatches c policyName policySize \<longleftrightarrow>
     mediaCollectionHasName c policyName
     \<or> (case policySize of None \<Rightarrow> False | Some p \<Rightarrow> dimensionsEqual p (collSize c))"

text \<open>\<open>None\<close> stands for the empty result.\<close>

definition provenAutomaticMediaSource :: "attribute list \<Rightarrow> string option" where
  "provenAutomaticMediaSource upstream =
     (let supported = Attr upstream ''media-source-supported'';
          nonEmpty = (\<lambda>s. if s = [] then None else Some s) in
      case (case supported of None \<Rightarrow> None
            | Some attr \<Rightarrow> List.find (\<lambda>s. EqualFold s ''auto'')
                (map the (filter (\<lambda>k. k \<noteq> None) (map (\<lambda>v. fixedKeyword [v]) (attrValues attr))))) of
        Some source \<Rightarrow> Some source
      | None \<Rightarrow>
          (case Attr upstream ''media-source-default'' of
             None \<Rightarrow> None
           | Some attr \<Rightarrow>
               (case fixedKeyword (attrValues attr) of
                  None \<Rightarrow> None
                | Some source \<Rightarrow>
                    (case supported of
                       Some advertised \<Rightarrow>
                         if attrValues advertised \<noteq> [] then (if hasString advertised source then nonEmpty source else None)
                         else nonEmpty source
                     | None \<Rightarrow> nonEmpty source))))"

subsection \<open>The catalog\<close>

text \<open>The entry for one collection of the printer, and the entries for one name of the policy.\<close>

definition candidateFor :: "string \<Rightarrow> mediaSize \<Rightarrow> mediaCollection \<Rightarrow> mediaSize" where
  "candidateFor name base c =
     (let size = collSize c;
          c1 = (if HasDimension size \<and> (\<not> HasDimension base \<or> mediaCollectionHasName c name)
                then base\<lparr>XDimension := XDimension size, YDimension := YDimension size, HasDimension := True\<rparr> else base);
          c2 = (mergeMediaSize c1 size)\<lparr>sizeName := name\<rparr>;
          c3 = c2\<lparr>aliases := mergeNames (aliases c2) (collNames c)\<rparr> in
      if collReady c then c3\<lparr>Ready := True\<rparr> else c3)"

definition wantedCollection :: "string \<Rightarrow> string \<Rightarrow> mediaSize option \<Rightarrow> mediaCollection \<Rightarrow> bool" where
  "wantedCollection configuredSource name policySize c \<longleftrightarrow>
     mediaCollectionMatches c name policySize \<and>
     \<not> (configuredSource \<noteq> [] \<and> HasMediaSource (collSize c) \<and> \<not> EqualFold (sizeSource (collSize c)) configuredSource)"

definition baseFor :: "string \<Rightarrow> mediaSize" where
  "baseFor name =
     (case mediaSizeFromPWGName name of
        None \<Rightarrow> zeroMediaSize\<lparr>sizeName := name\<rparr>
      | Some p \<Rightarrow> zeroMediaSize\<lparr>sizeName := name, XDimension := XDimension p, YDimension := YDimension p, HasDimension := True\<rparr>)"

definition completeInstance :: "attribute list \<Rightarrow> PolicyConfig \<Rightarrow> mediaSize \<Rightarrow> mediaSize" where
  "completeInstance upstream policy i =
     (let i1 = (if \<not> HasMediaSource i then
                  (case provenAutomaticMediaSource upstream of
                     Some source \<Rightarrow> i\<lparr>sizeSource := source, HasMediaSource := True\<rparr> | None \<Rightarrow> i)
                else i) in
      if \<not> HasMediaType i1 \<and> TrimSpace (policyMediaType policy) \<noteq> []
      then i1\<lparr>sizeType := TrimSpace (policyMediaType policy), HasMediaType := True\<rparr> else i1)"

definition instancesFor :: "attribute list \<Rightarrow> PolicyConfig \<Rightarrow> string \<Rightarrow> mediaSize list" where
  "instancesFor upstream policy name =
     (let base = baseFor name;
          wanted = filter (wantedCollection (policyMediaSource policy) name (mediaSizeFromPWGName name))
                     (upstreamMediaCollections upstream);
          instances = foldl (\<lambda>is c. mergeMediaInstance is (candidateFor name base c)) [] wanted in
      map (completeInstance upstream policy) (if instances = [] then [base] else instances))"

definition addMedia :: "attribute list \<Rightarrow> PolicyConfig \<Rightarrow> mediaCatalog \<Rightarrow> string \<Rightarrow> mediaCatalog" where
  "addMedia upstream policy catalog name =
     (let instances = instancesFor upstream policy name; key = mediaNameKey name in
      \<lparr>Sizes = Sizes catalog @ instances, Instances = Instances catalog @ instances,
       ByName = (ByName catalog)(key \<mapsto> preferredMediaInstance instances),
       ByNameAll = (ByNameAll catalog)(key := ByNameAll catalog key @ instances)\<rparr>)"

definition buildMediaCatalog :: "attribute list \<Rightarrow> PolicyConfig \<Rightarrow> mediaCatalog" where
  "buildMediaCatalog upstream policy =
     foldl (addMedia upstream policy) \<lparr>Sizes = [], Instances = [], ByName = (\<lambda>_. None), ByNameAll = (\<lambda>_. [])\<rparr>
       (policyMediaNames policy)"

subsection \<open>Media collections\<close>

definition mediaSizeMember :: "mediaSize \<Rightarrow> attribute list" where
  "mediaSizeMember s =
     (if HasDimension s
      then [Attribute ''media-size'' [(TagBeginCollection,
              Collection [IntegerAttr ''x-dimension'' (XDimension s), IntegerAttr ''y-dimension'' (YDimension s)])]]
      else [])"

definition keywordMember :: "string \<Rightarrow> string \<Rightarrow> attribute list" where
  "keywordMember name value = (if value \<noteq> [] then [Keyword name value] else [])"

definition mediaColJobAttr :: "string \<Rightarrow> mediaSize \<Rightarrow> string \<Rightarrow> string \<Rightarrow> attribute" where
  "mediaColJobAttr name s mediaType mediaSource =
     Attribute name [(TagBeginCollection, Collection
       (mediaSizeMember s @ keywordMember ''media-type'' mediaType @ keywordMember ''media-source'' mediaSource))]"

definition validMediaSizeName :: "string \<Rightarrow> bool" where
  "validMediaSizeName name \<longleftrightarrow> TrimSpace name \<noteq> []
     \<and> (\<forall>c \<in> set (TrimSpace name). c \<notin> {CHR '' '', CHR 0x09, CHR 0x0D, CHR 0x0A})"

definition appendKnownMargins :: "attribute list \<Rightarrow> mediaSize \<Rightarrow> attribute list" where
  "appendKnownMargins members s =
     members
     @ (if HasBottomMargin s then [IntegerAttr ''media-bottom-margin'' (BottomMargin s)] else [])
     @ (if HasLeftMargin s then [IntegerAttr ''media-left-margin'' (LeftMargin s)] else [])
     @ (if HasRightMargin s then [IntegerAttr ''media-right-margin'' (RightMargin s)] else [])
     @ (if HasTopMargin s then [IntegerAttr ''media-top-margin'' (TopMargin s)] else [])"

definition mediaColDescriptionAttr :: "string \<Rightarrow> mediaSize \<Rightarrow> string \<Rightarrow> string \<Rightarrow> attribute" where
  "mediaColDescriptionAttr name s mediaType mediaSource =
     (let kind = (if mediaType = [] \<and> HasMediaType s then sizeType s else mediaType);
          source = (if mediaSource = [] \<and> HasMediaSource s then sizeSource s else mediaSource) in
      Attribute name [(TagBeginCollection, Collection (appendKnownMargins
        ((if validMediaSizeName (sizeName s) then [Keyword ''media-size-name'' (sizeName s)] else [])
         @ mediaSizeMember s @ keywordMember ''media-type'' kind @ keywordMember ''media-source'' source) s))])"

definition mediaColsAttr :: "string \<Rightarrow> mediaSize list \<Rightarrow> string \<Rightarrow> string \<Rightarrow> attribute" where
  "mediaColsAttr name sizes mediaType mediaSource =
     Attribute name (concat (map (\<lambda>s. attrValues (mediaColDescriptionAttr name s mediaType mediaSource)) sizes))"

definition mediaColDatabaseAttrWithSource :: "mediaSize list \<Rightarrow> string \<Rightarrow> string \<Rightarrow> attribute" where
  "mediaColDatabaseAttrWithSource = mediaColsAttr ''media-col-database''"

definition mediaColReadyAttr :: "mediaSize list \<Rightarrow> string \<Rightarrow> string \<Rightarrow> attribute" where
  "mediaColReadyAttr = mediaColsAttr ''media-col-ready''"

definition mediaSizeSupportedAttr :: "mediaSize list \<Rightarrow> attribute option" where
  "mediaSizeSupportedAttr sizes =
     (let values = map (\<lambda>s. (TagBeginCollection,
            Collection [IntegerAttr ''x-dimension'' (XDimension s), IntegerAttr ''y-dimension'' (YDimension s)]))
            (filter HasDimension sizes) in
      if values = [] then None else Some (Attribute ''media-size-supported'' values))"

definition mediaColSupportedNames :: "mediaCatalog \<Rightarrow> PolicyConfig \<Rightarrow> string list" where
  "mediaColSupportedNames catalog policy =
     (let some = (\<lambda>given P name. if given \<or> (\<exists>s \<in> set (Instances catalog). P s) then [name] else []) in
      (if \<exists>s \<in> set (Sizes catalog). validMediaSizeName (sizeName s) then [''media-size-name''] else [])
      @ (if \<exists>s \<in> set (Sizes catalog). HasDimension s then [''media-size''] else [])
      @ some (TrimSpace (policyMediaType policy) \<noteq> []) HasMediaType ''media-type''
      @ some False HasBottomMargin ''media-bottom-margin'' @ some False HasLeftMargin ''media-left-margin''
      @ some False HasRightMargin ''media-right-margin'' @ some False HasTopMargin ''media-top-margin''
      @ some (policyMediaSource policy \<noteq> []) HasMediaSource ''media-source'')"

subsection \<open>Ready media\<close>

fun attributeStringsOf :: "(tag \<times> val) list \<Rightarrow> string list option" where
  "attributeStringsOf [] = Some []"
| "attributeStringsOf ((_, v) # vs) =
     (case v of String s \<Rightarrow> map_option (\<lambda>r. s # r) (attributeStringsOf vs) | _ \<Rightarrow> None)"

definition attributeStrings :: "attribute \<Rightarrow> string list option" where
  "attributeStrings attr = (if attrValues attr = [] then None else attributeStringsOf (attrValues attr))"

definition containsReadyInstance :: "mediaSize list \<Rightarrow> mediaSize \<Rightarrow> bool" where
  "containsReadyInstance sizes wanted \<longleftrightarrow> (\<exists>s \<in> set sizes. sameMediaInstance s wanted \<and> dimensionsEqual s wanted)"

definition hasReadyName :: "mediaSize list \<Rightarrow> string \<Rightarrow> bool" where
  "hasReadyName sizes name \<longleftrightarrow> (\<exists>s \<in> set sizes. mediaNameKey (sizeName s) = name)"

text \<open>The score of an entry of the catalog for a collection, \<open>None\<close> when it is passed over.\<close>

definition collectionScore :: "mediaCollection \<Rightarrow> mediaSize \<Rightarrow> int option" where
  "collectionScore c s =
     (let cs = collSize c;
          byAlias = (\<exists>a \<in> set (collNames c). EqualFold (TrimSpace a) (TrimSpace (sizeName s)));
          byName = (sizeName cs \<noteq> [] \<and> EqualFold (TrimSpace (sizeName cs)) (TrimSpace (sizeName s)));
          nameMatch = (byAlias \<or> byName);
          score = (if byAlias then 4 else 0) + (if byName then 4 else 0)
                  + (if \<not> nameMatch \<and> HasDimension cs \<and> dimensionsEqual cs s then 2 else 0) in
      if \<not> nameMatch \<and> score = 0 then None
      else if HasMediaSource cs \<and> (\<not> HasMediaSource s \<or> \<not> EqualFold (sizeSource cs) (sizeSource s)) then None
      else if HasMediaType cs \<and> (\<not> HasMediaType s \<or> \<not> EqualFold (sizeType cs) (sizeType s)) then None
      else if HasDimension cs \<and> (\<not> HasDimension s \<or> \<not> dimensionsEqual cs s) then None
      else Some (score + (if HasMediaSource cs then 3 else 0) + (if HasMediaType cs then 3 else 0)
                 + (if HasDimension cs then 2 else 0)))"

fun bestIndex :: "mediaCollection \<Rightarrow> int \<times> int \<Rightarrow> int \<Rightarrow> mediaSize list \<Rightarrow> int" where
  "bestIndex c best index [] = fst best"
| "bestIndex c best index (s # ss) =
     bestIndex c (case collectionScore c s of Some score \<Rightarrow> if score > snd best then (index, score) else best | None \<Rightarrow> best)
       (index + 1) ss"

definition catalogIndexForCollection :: "mediaCollection \<Rightarrow> mediaCatalog \<Rightarrow> int" where
  "catalogIndexForCollection c catalog = bestIndex c (- 1, - 1) 0 (Instances catalog)"

definition overlayMediaSize :: "mediaSize \<Rightarrow> mediaSize \<Rightarrow> mediaSize" where
  "overlayMediaSize dst src =
     (let d1 = (if HasDimension src
                then dst\<lparr>XDimension := XDimension src, YDimension := YDimension src, HasDimension := True\<rparr> else dst);
          d2 = (if HasBottomMargin src then d1\<lparr>BottomMargin := BottomMargin src, HasBottomMargin := True\<rparr> else d1);
          d3 = (if HasLeftMargin src then d2\<lparr>LeftMargin := LeftMargin src, HasLeftMargin := True\<rparr> else d2);
          d4 = (if HasRightMargin src then d3\<lparr>RightMargin := RightMargin src, HasRightMargin := True\<rparr> else d3);
          d5 = (if HasTopMargin src then d4\<lparr>TopMargin := TopMargin src, HasTopMargin := True\<rparr> else d4);
          d6 = (if HasMediaType src then d5\<lparr>sizeType := sizeType src, HasMediaType := True\<rparr> else d5);
          d7 = (if HasMediaSource src then d6\<lparr>sizeSource := sizeSource src, HasMediaSource := True\<rparr> else d6) in
      d7\<lparr>Ready := (Ready d7 \<or> Ready src)\<rparr>)"

fun readyFromCollections :: "mediaCatalog \<Rightarrow> mediaSize list \<Rightarrow> (tag \<times> val) list \<Rightarrow> mediaSize list" where
  "readyFromCollections catalog ready [] = ready"
| "readyFromCollections catalog ready ((_, v) # vs) =
     (case mediaCollectionFromValue v of
        None \<Rightarrow> readyFromCollections catalog ready vs
      | Some c \<Rightarrow>
          (let index = catalogIndexForCollection c catalog;
               resolved = (overlayMediaSize (Instances catalog ! nat index) (collSize c))\<lparr>Ready := True\<rparr> in
           if index < 0 \<or> containsReadyInstance ready resolved then readyFromCollections catalog ready vs
           else readyFromCollections catalog (ready @ [resolved]) vs))"

fun readyFromNames :: "mediaCatalog \<Rightarrow> mediaSize list \<Rightarrow> string list \<Rightarrow> mediaSize list" where
  "readyFromNames catalog ready [] = ready"
| "readyFromNames catalog ready (key # keys) =
     (if hasReadyName ready key then readyFromNames catalog ready keys
      else case ByName catalog key of
        None \<Rightarrow> readyFromNames catalog ready keys
      | Some s \<Rightarrow> readyFromNames catalog (ready @ [s\<lparr>Ready := True\<rparr>]) keys)"

fun firstNames :: "string list \<Rightarrow> mediaSize list \<Rightarrow> string list" where
  "firstNames seen [] = []"
| "firstNames seen (s # ss) =
     (let key = mediaNameKey (sizeName s) in
      if key \<in> set seen then firstNames seen ss else sizeName s # firstNames (key # seen) ss)"

text \<open>The names the printer reports as ready are the keys of a Go map; \<open>order\<close> is the order of its iteration.\<close>

definition readySizes :: "(string list \<Rightarrow> string list) \<Rightarrow> attribute list \<Rightarrow> mediaCatalog \<Rightarrow> mediaSize list" where
  "readySizes order upstream catalog =
     (let names = (case Attr upstream ''media-ready'' of
             None \<Rightarrow> [] | Some attr \<Rightarrow> (case attributeStrings attr of None \<Rightarrow> [] | Some vs \<Rightarrow> remdups (map mediaNameKey vs)));
          fromCols = (case Attr upstream ''media-col-ready'' of
             None \<Rightarrow> [] | Some attr \<Rightarrow> readyFromCollections catalog [] (attrValues attr)) in
      readyFromNames catalog fromCols (order names))"

definition filteredReadyAttributes ::
  "(string list \<Rightarrow> string list) \<Rightarrow> attribute list \<Rightarrow> mediaCatalog \<Rightarrow> PolicyConfig \<Rightarrow> attribute list" where
  "filteredReadyAttributes order upstream catalog policy =
     (let sizes = readySizes order upstream catalog in
      if sizes = [] then []
      else [Keywords ''media-ready'' (firstNames [] sizes),
            mediaColReadyAttr sizes (policyMediaType policy) (policyMediaSource policy)])"

subsection \<open>A policy against a printer\<close>

definition upstreamSupportsMedia :: "attribute list \<Rightarrow> string \<Rightarrow> bool" where
  "upstreamSupportsMedia attrs policyName \<longleftrightarrow>
     (case Attr attrs ''media-supported'' of None \<Rightarrow> False | Some a \<Rightarrow> hasString a policyName)
     \<or> (\<exists>c \<in> set (upstreamMediaCollections attrs). mediaCollectionMatches c policyName (mediaSizeFromPWGName policyName))"

definition mediaAdvertised :: "attribute list \<Rightarrow> PolicyConfig \<Rightarrow> string \<Rightarrow> bool" where
  "mediaAdvertised attrs policy media =
     (if UseMediaCol policy then upstreamSupportsMedia attrs media
      else case Attr attrs ''media-supported'' of None \<Rightarrow> False | Some a \<Rightarrow> hasString a media)"

text \<open>The error message, or \<open>None\<close>.\<close>

definition ValidatePolicyAgainstUpstream :: "attribute list \<Rightarrow> PolicyConfig \<Rightarrow> string option" where
  "ValidatePolicyAgainstUpstream attrs policy =
     (case List.find (\<lambda>m. \<not> mediaAdvertised attrs policy m) (policyMediaNames policy) of
        Some media \<Rightarrow> Some (''upstream does not advertise media-supported='' @ media)
      | None \<Rightarrow>
      if (case Attr attrs ''print-color-mode-supported'' of None \<Rightarrow> False | Some a \<Rightarrow> \<not> hasString a (PrintColorMode policy))
      then Some (''upstream does not advertise print-color-mode-supported='' @ PrintColorMode policy)
      else if policyMediaType policy \<noteq> []
        \<and> (case Attr attrs ''media-type-supported'' of None \<Rightarrow> False | Some a \<Rightarrow> \<not> hasString a (policyMediaType policy))
      then Some (''upstream does not advertise media-type-supported='' @ policyMediaType policy)
      else if policyMediaSource policy \<noteq> []
        \<and> (case Attr attrs ''media-source-supported'' of None \<Rightarrow> True | Some a \<Rightarrow> \<not> hasString a (policyMediaSource policy))
      then Some (''upstream does not advertise media-source-supported='' @ policyMediaSource policy)
      else case List.find (\<lambda>s. \<not> HasDimension s) (Sizes (buildMediaCatalog attrs policy)) of
        Some s \<Rightarrow> Some (''cannot resolve fixed dimensions for media-supported='' @ sizeName s)
      | None \<Rightarrow> None)"

end
