(* ===== verification/Proxy_Normalize.thy ===== *)
theory Proxy_Normalize
  imports Proxy_Media
begin

text \<open>
  The policy boundary for job attributes, \<^verbatim>\<open>internal/proxy/normalizer.go\<close>: which attributes of a client
  reach the printer, which are replaced by the policy of the queue, and what the client is told about it.
  \<open>sprint\<close> is \<^verbatim>\<open>fmt.Sprint\<close> on values of the package \<^verbatim>\<open>goipp\<close>.
\<close>

definition policyDropAttrs :: "string list" where
  "policyDropAttrs = [''media'', ''media-col'', ''media-type'', ''media-source'', ''media-weight-metric'', ''media-color'',
     ''media-pre-printed'', ''media-hole-count'', ''media-order-count'', ''media-recycled'', ''media-tooth'',
     ''print-color-mode'', ''output-mode'']"

record NormalizationLog =
  ClientMedia :: string
  ClientMediaCol :: string
  ClientMediaType :: string
  ClientMediaSource :: string
  ClientPrintColorMode :: string
  RequestedMedia :: string
  RequestedMediaCol :: string
  EffectiveMedia :: string
  MediaFallback :: bool
  ForcedMedia :: string
  ForcedMediaType :: string
  ForcedMediaSource :: string
  ForcedPrintColorMode :: string

record NormalizationOptions =
  optPolicy :: PolicyConfig
  optUpstream :: "attribute list"
  DropVendorAttrs :: "string list"
  PreserveJobAttrs :: "string list"
  Fidelity :: bool
  FidelityMode :: string

record NormalizationResult =
  resAttrs :: "attribute list"
  resLog :: NormalizationLog
  resUnsupported :: "attribute list"
  Substitutions :: "string list"
  Substituted :: bool

record NormalizationError =
  neStatus :: ipp_status
  neMessage :: string
  neUnsupported :: "attribute list"

subsection \<open>Overrides\<close>

fun dropNested :: "string list \<Rightarrow> attribute list \<Rightarrow> attribute list"
and dropNestedValues :: "string list \<Rightarrow> (tag \<times> val) list \<Rightarrow> (tag \<times> val) list" where
  "dropNested names [] = []"
| "dropNested names (Attribute n vs # as) =
     (if ToLower n \<in> set names then dropNested names as
      else Attribute n (dropNestedValues names vs) # dropNested names as)"
| "dropNestedValues names [] = []"
| "dropNestedValues names ((t, Collection as) # vs) = (t, Collection (dropNested names as)) # dropNestedValues names vs"
| "dropNestedValues names (v # vs) = v # dropNestedValues names vs"

definition dropNestedPolicyAttrs :: "attribute list \<Rightarrow> string list \<Rightarrow> attribute list" where
  "dropNestedPolicyAttrs attrs vendorDrop = dropNested (map ToLower (policyDropAttrs @ vendorDrop)) attrs"

definition overrideSelectors :: "string list" where
  "overrideSelectors = [''document-number'', ''document-numbers'', ''page-ranges'', ''pages'', ''document-copies'', ''copy-numbers'']"

definition hasOverridePayload :: "attribute list \<Rightarrow> bool" where
  "hasOverridePayload attrs \<longleftrightarrow> (\<exists>a \<in> set attrs. ToLower (attrName a) \<notin> set overrideSelectors)"

fun sanitizeValues :: "string list \<Rightarrow> (tag \<times> val) list \<Rightarrow> (tag \<times> val) list" where
  "sanitizeValues vendorDrop [] = []"
| "sanitizeValues vendorDrop ((_, v) # vs) =
     (case v of
        Collection as \<Rightarrow>
          (let filtered = dropNestedPolicyAttrs as vendorDrop in
           if filtered = [] \<or> \<not> hasOverridePayload filtered then sanitizeValues vendorDrop vs
           else (TagBeginCollection, Collection filtered) # sanitizeValues vendorDrop vs)
      | _ \<Rightarrow> sanitizeValues vendorDrop vs)"

definition sanitizeOverridesAttr :: "attribute \<Rightarrow> string list \<Rightarrow> attribute option" where
  "sanitizeOverridesAttr attr vendorDrop =
     (let values = sanitizeValues vendorDrop (attrValues attr) in
      if values = [] then None else Some (Attribute (attrName attr) values))"

fun sanitizeOverrides :: "attribute list \<Rightarrow> string list \<Rightarrow> attribute list" where
  "sanitizeOverrides [] vendorDrop = []"
| "sanitizeOverrides (attr # attrs) vendorDrop =
     (if \<not> EqualFold (attrName attr) ''overrides'' then attr # sanitizeOverrides attrs vendorDrop
      else case sanitizeOverridesAttr attr vendorDrop of
        Some a \<Rightarrow> a # sanitizeOverrides attrs vendorDrop
      | None \<Rightarrow> sanitizeOverrides attrs vendorDrop)"

subsection \<open>The requested media\<close>

record mediaColSelector =
  selNames :: "string list"
  selX :: int
  selY :: int
  selHasX :: bool
  selHasY :: bool
  selInvalid :: bool

definition selectMember :: "string \<Rightarrow> attribute \<Rightarrow> mediaColSelector \<Rightarrow> mediaColSelector" where
  "selectMember name attr sel =
     (if name \<in> {''media-key'', ''media-size-name''} then
        (case attributeStrings attr of
           Some [s] \<Rightarrow> if TrimSpace s = [] then sel\<lparr>selInvalid := True\<rparr> else sel\<lparr>selNames := selNames sel @ [TrimSpace s]\<rparr>
         | _ \<Rightarrow> sel\<lparr>selInvalid := True\<rparr>)
      else if name = ''x-dimension'' then
        (case fixedInteger (attrValues attr) of
           Some i \<Rightarrow> if selHasX sel then sel\<lparr>selInvalid := True\<rparr> else sel\<lparr>selX := i, selHasX := True\<rparr>
         | None \<Rightarrow> sel\<lparr>selInvalid := True\<rparr>)
      else if name = ''y-dimension'' then
        (case fixedInteger (attrValues attr) of
           Some i \<Rightarrow> if selHasY sel then sel\<lparr>selInvalid := True\<rparr> else sel\<lparr>selY := i, selHasY := True\<rparr>
         | None \<Rightarrow> sel\<lparr>selInvalid := True\<rparr>)
      else sel)"

fun collectMediaColSelector :: "attribute list \<Rightarrow> mediaColSelector \<Rightarrow> mediaColSelector"
and collectValues :: "(tag \<times> val) list \<Rightarrow> mediaColSelector \<Rightarrow> mediaColSelector" where
  "collectMediaColSelector [] sel = sel"
| "collectMediaColSelector (Attribute n vs # as) sel =
     collectMediaColSelector as (collectValues vs (selectMember (ToLower n) (Attribute n vs) sel))"
| "collectValues [] sel = sel"
| "collectValues ((_, Collection as) # vs) sel = collectValues vs (collectMediaColSelector as sel)"
| "collectValues (_ # vs) sel = collectValues vs sel"

text \<open>The media named by all selectors together: \<open>None\<close> when they do not agree, \<open>Some None\<close> when there is none.\<close>

fun resolveNames :: "mediaCatalog \<Rightarrow> mediaSize option \<Rightarrow> string list \<Rightarrow> mediaSize option option" where
  "resolveNames catalog named [] = Some named"
| "resolveNames catalog named (raw # raws) =
     (case ByName catalog (mediaNameKey raw) of
        None \<Rightarrow> None
      | Some s \<Rightarrow>
          (case named of
             None \<Rightarrow> resolveNames catalog (Some s) raws
           | Some n \<Rightarrow>
               if mediaNameKey (sizeName n) \<noteq> mediaNameKey (sizeName s) then None
               else resolveNames catalog named raws))"

definition resolveDimensions :: "mediaCatalog \<Rightarrow> mediaColSelector \<Rightarrow> mediaSize option option" where
  "resolveDimensions catalog sel =
     (if \<not> selHasX sel \<and> \<not> selHasY sel then Some None
      else if \<not> selHasX sel \<or> \<not> selHasY sel \<or> selX sel \<le> 0 \<or> selY sel \<le> 0 then None
      else case filter (dimensionsEqual (zeroMediaSize\<lparr>XDimension := selX sel, YDimension := selY sel, HasDimension := True\<rparr>))
                  (Sizes catalog) of
        [s] \<Rightarrow> Some (Some s)
      | _ \<Rightarrow> None)"

definition resolveMediaCol :: "attribute \<Rightarrow> mediaCatalog \<Rightarrow> mediaSize option" where
  "resolveMediaCol attr catalog =
     (case attrValues attr of
        [(_, Collection as)] \<Rightarrow>
          (let sel = collectMediaColSelector as
                 \<lparr>selNames = [], selX = 0, selY = 0, selHasX = False, selHasY = False, selInvalid = False\<rparr> in
           if selInvalid sel then None
           else case (resolveNames catalog None (selNames sel), resolveDimensions catalog sel) of
             (Some (Some n), Some (Some d)) \<Rightarrow> if dimensionsEqual n d then Some n else None
           | (Some (Some n), Some None) \<Rightarrow> Some n
           | (Some None, Some (Some d)) \<Rightarrow> Some d
           | _ \<Rightarrow> None)
      | _ \<Rightarrow> None)"

definition attributeDisplay :: "(val \<Rightarrow> string) \<Rightarrow> attribute \<Rightarrow> string" where
  "attributeDisplay sprint attr =
     (case map (sprint \<circ> snd) (attrValues attr) of [] \<Rightarrow> [] | p # ps \<Rightarrow> p @ concat (map (\<lambda>q. CHR '','' # q) ps))"

definition defaultMedia :: "mediaCatalog \<Rightarrow> PolicyConfig \<Rightarrow> mediaSize" where
  "defaultMedia catalog policy =
     (let d = (case ByName catalog (mediaNameKey (policyMediaDefault policy)) of None \<Rightarrow> zeroMediaSize | Some s \<Rightarrow> s) in
      if sizeName d = [] \<and> Sizes catalog \<noteq> [] then hd (Sizes catalog) else d)"

text \<open>The size, the texts of the request for the log and whether it is a fallback.\<close>

definition selectRequestedMedia ::
  "(val \<Rightarrow> string) \<Rightarrow> attribute list \<Rightarrow> mediaCatalog \<Rightarrow> PolicyConfig \<Rightarrow> mediaSize \<times> string \<times> string \<times> bool" where
  "selectRequestedMedia sprint attrs catalog policy =
     (let d = defaultMedia catalog policy in
      case Attr attrs ''media-col'' of
        Some mediaCol \<Rightarrow>
          (let raw = attributeDisplay sprint mediaCol in
           case resolveMediaCol mediaCol catalog of
             Some selected \<Rightarrow> (selected, raw, raw, False)
           | None \<Rightarrow> (d, raw, raw, True))
      | None \<Rightarrow>
          (case Attr attrs ''media'' of
             Some media \<Rightarrow>
               (let raw = attributeDisplay sprint media in
                case attributeStrings media of
                  Some [v] \<Rightarrow>
                    (case ByName catalog (mediaNameKey v) of
                       Some selected \<Rightarrow> (selected, raw, [], False)
                     | None \<Rightarrow> (d, raw, [], True))
                | _ \<Rightarrow> (d, raw, [], True))
           | None \<Rightarrow> (d, [], [], True)))"

subsection \<open>Job attributes\<close>

definition orEmpty :: "string option \<Rightarrow> string" where
  "orEmpty s = (case s of None \<Rightarrow> [] | Some t \<Rightarrow> t)"

text \<open>The attributes the policy itself adds, those of the medium and the others.\<close>

definition mediaAttrs :: "PolicyConfig \<Rightarrow> mediaSize \<Rightarrow> attribute list" where
  "mediaAttrs policy selected =
     (if UseMediaCol policy
      then [mediaColJobAttr ''media-col'' selected (policyMediaType policy) (policyMediaSource policy)]
      else Keyword ''media'' (sizeName selected)
        # (if policyMediaType policy \<noteq> [] then [Keyword ''media-type'' (policyMediaType policy)] else []))
     @ (if \<not> UseMediaCol policy \<and> policyMediaSource policy \<noteq> []
        then [Keyword ''media-source'' (policyMediaSource policy)] else [])"

definition colorAttrs :: "PolicyConfig \<Rightarrow> attribute list" where
  "colorAttrs policy =
     Keyword ''print-color-mode'' (PrintColorMode policy)
     # (if PrintColorMode policy = ''monochrome'' then [Keyword ''output-mode'' ''monochrome''] else [])"

definition setScaling :: "PolicyConfig \<Rightarrow> attribute list \<Rightarrow> attribute list" where
  "setScaling policy attrs =
     (case PrintScaling policy of
        Some s \<Rightarrow> if s \<noteq> [] then SetAttr attrs (Keyword ''print-scaling'' s) else attrs
      | None \<Rightarrow> attrs)"

text \<open>The size that is printed on, with the texts for the log and the fallback mark.\<close>

definition effectiveMedia ::
  "(val \<Rightarrow> string) \<Rightarrow> attribute list \<Rightarrow> PolicyConfig \<Rightarrow> attribute list \<Rightarrow> mediaSize \<times> string \<times> string \<times> bool" where
  "effectiveMedia sprint attrs policy upstream =
     (let catalog = buildMediaCatalog upstream policy in
      case selectRequestedMedia sprint attrs catalog policy of
        (selected, requested, requestedCol, fallback) \<Rightarrow>
          if sizeName selected = [] then (hd (Sizes catalog), requested, requestedCol, True)
          else (selected, requested, requestedCol, fallback))"

definition NormalizeJobAttrsWithCapabilities ::
  "(val \<Rightarrow> string) \<Rightarrow> attribute list \<Rightarrow> PolicyConfig \<Rightarrow> string list \<Rightarrow> attribute list \<Rightarrow> attribute list \<times> NormalizationLog" where
  "NormalizeJobAttrsWithCapabilities sprint attrs policy vendorDrop upstream =
     (case effectiveMedia sprint attrs policy upstream of
        (selected, requested, requestedCol, fallback) \<Rightarrow>
          (let log = \<lparr>ClientMedia = orEmpty (FirstString sprint attrs ''media''),
                 ClientMediaCol = (case Attr attrs ''media-col'' of None \<Rightarrow> [] | Some a \<Rightarrow> attributeDisplay sprint a),
                 ClientMediaType = orEmpty (FirstString sprint attrs ''media-type''),
                 ClientMediaSource = orEmpty (FirstString sprint attrs ''media-source''),
                 ClientPrintColorMode = orEmpty (FirstString sprint attrs ''print-color-mode''),
                 RequestedMedia = requested, RequestedMediaCol = requestedCol, EffectiveMedia = sizeName selected,
                 MediaFallback = fallback, ForcedMedia = sizeName selected, ForcedMediaType = policyMediaType policy,
                 ForcedMediaSource = policyMediaSource policy, ForcedPrintColorMode = PrintColorMode policy\<rparr>;
               out = sanitizeOverrides (DropAttrs attrs (policyDropAttrs @ vendorDrop)) vendorDrop in
           (setScaling policy (out @ mediaAttrs policy selected) @ colorAttrs policy, log)))"

definition NormalizeJobAttrs ::
  "(val \<Rightarrow> string) \<Rightarrow> attribute list \<Rightarrow> PolicyConfig \<Rightarrow> string list \<Rightarrow> attribute list \<times> NormalizationLog" where
  "NormalizeJobAttrs sprint attrs policy vendorDrop = NormalizeJobAttrsWithCapabilities sprint attrs policy vendorDrop []"

definition malformedPolicyAttribute :: "attribute \<Rightarrow> bool" where
  "malformedPolicyAttribute attr \<longleftrightarrow>
     (let name = ToLower (attrName attr) in
      if name \<in> {''media'', ''media-type'', ''media-source'', ''print-color-mode'', ''output-mode''}
      then \<not> validMediaColKeyword attr
      else if name = ''media-col'' then \<not> validMediaColSyntax attr
      else False)"

definition malformedPolicyAttributes :: "attribute list \<Rightarrow> attribute list" where
  "malformedPolicyAttributes attrs = filter malformedPolicyAttribute attrs"

subsection \<open>The policy boundary\<close>

text \<open>The attributes that are neither controlled by the policy nor on the allowlist.\<close>

definition allowedJobAttr :: "NormalizationOptions \<Rightarrow> attribute \<Rightarrow> bool" where
  "allowedJobAttr opts attr \<longleftrightarrow>
     ToLower (attrName attr) \<in> set (map ToLower (policyDropAttrs @ DropVendorAttrs opts))
     \<or> ToLower (attrName attr) \<in> set (map (ToLower \<circ> TrimSpace) (PreserveJobAttrs opts))"

text \<open>What is reported as substituted besides the refused attributes: names and attributes, in this order.\<close>

definition substitutions ::
  "(val \<Rightarrow> string) \<Rightarrow> attribute list \<Rightarrow> NormalizationOptions \<Rightarrow> attribute list \<Rightarrow> NormalizationLog \<Rightarrow> (string \<times> attribute) list" where
  "substitutions sprint attrs opts normalized log =
     (let policy = optPolicy opts;
          report = (\<lambda>name P. case Attr attrs name of Some a \<Rightarrow> if P then [(name, a)] else [] | None \<Rightarrow> []);
          forced = (\<lambda>name want. report name
            (\<not> EqualFold (TrimSpace (orEmpty (FirstString sprint attrs name))) (TrimSpace want))) in
      report ''media'' (MediaFallback log \<or> \<not> HasStringValue normalized ''media'' (ClientMedia log))
      @ report ''media-col'' (MediaFallback log \<or> \<not> UseMediaCol policy)
      @ forced ''media-type'' (policyMediaType policy)
      @ forced ''media-source'' (policyMediaSource policy)
      @ forced ''print-color-mode'' (PrintColorMode policy)
      @ forced ''output-mode'' (PrintColorMode policy)
      @ concat (map (\<lambda>name. case Attr attrs name of Some a \<Rightarrow> [(attrName a, a)] | None \<Rightarrow> []) (DropVendorAttrs opts)))"

definition FidelityWarn :: string where "FidelityWarn = ''warn''"

definition FidelityReject :: string where "FidelityReject = ''reject''"

definition NormalizeJobAttrsWithOptions ::
  "(val \<Rightarrow> string) \<Rightarrow> attribute list \<Rightarrow> NormalizationOptions \<Rightarrow> NormalizationError + NormalizationResult" where
  "NormalizeJobAttrsWithOptions sprint attrs opts =
     (let mode = (if FidelityMode opts = [] then FidelityWarn else FidelityMode opts);
          err = (\<lambda>st m as. Inl \<lparr>neStatus = st, neMessage = m, neUnsupported = as\<rparr>) in
      if mode \<noteq> FidelityWarn \<and> mode \<noteq> FidelityReject then err StatusErrorBadRequest ''invalid fidelity mode'' []
      else if malformedPolicyAttributes attrs \<noteq> [] then
        err StatusErrorAttributesOrValues ''malformed policy-controlled attribute'' (malformedPolicyAttributes attrs)
      else
        (let input = filter (allowedJobAttr opts) attrs; unsup = filter (\<lambda>a. \<not> allowedJobAttr opts a) attrs in
         if Fidelity opts \<and> unsup \<noteq> [] then
           err StatusErrorAttributesOrValues ''unsupported job-template attributes'' unsup
         else case NormalizeJobAttrsWithCapabilities sprint input (optPolicy opts) (DropVendorAttrs opts) (optUpstream opts) of
           (normalized, log) \<Rightarrow>
             (let subs = substitutions sprint attrs opts normalized log;
                  result = \<lparr>resAttrs = normalized, resLog = log, resUnsupported = unsup @ map snd subs,
                    Substitutions = map attrName unsup @ map fst subs, Substituted = (unsup \<noteq> [] \<or> subs \<noteq> [])\<rparr> in
              if Fidelity opts \<and> mode = FidelityReject \<and> Substituted result then
                err StatusErrorAttributesOrValues ''job attributes conflict with queue policy'' (resUnsupported result)
              else Inr result)))"

end
