(* ===== verification/Proxy_Theorems.thy ===== *)
theory Proxy_Theorems
  imports Proxy_Protocol
begin

text \<open>
  What the request validation accepts, stated without the order of its checks.
\<close>

subsection \<open>Collections\<close>

definition lname :: "attribute \<Rightarrow> string" where
  "lname m = ToLower (attrName m)"

abbreviation kind :: "attribute \<Rightarrow> member_kind" where
  "kind m \<equiv> memberKind (lname m)"

text \<open>Members that may occur at both levels of a media-col value.\<close>

definition plainMember :: "attribute \<Rightarrow> bool" where
  "plainMember m \<longleftrightarrow>
     kind m \<in> {SelectorMember, KeywordMember} \<and> validMediaColKeyword m \<or>
     kind m = MarginMember \<and> validMediaColNonNegativeInteger m"

definition sizeMembers :: "attribute list \<Rightarrow> bool" where
  "sizeMembers ms \<longleftrightarrow>
     (\<forall>m \<in> set ms. plainMember m \<or> kind m \<in> {XMember, YMember} \<and> validMediaColPositiveInteger m)"

definition selecting :: "attribute list \<Rightarrow> bool" where
  "selecting ms \<longleftrightarrow> (\<exists>m \<in> set ms. kind m \<in> {SelectorMember, SizeMember})"

lemma kind_nonempty: "lname m = [] \<Longrightarrow> kind m = UnknownMember"
  by (simp add: memberKind_def)

lemmas member_simps = validMediaColMembers.simps Let_def lname_def [symmetric] sizeMembers_def plainMember_def selecting_def

lemma members_Some:
  "validMediaColMembers ms st (Some d) = Some st' \<longleftrightarrow>
     sizeMembers ms \<and> distinct (map lname ms) \<and> set (map lname ms) \<inter> set (mcSeen st) = {} \<and>
     (hasX d \<or> (\<exists>m \<in> set ms. kind m = XMember)) \<and> (hasY d \<or> (\<exists>m \<in> set ms. kind m = YMember)) \<and>
     st' = st\<lparr>mcSeen := rev (map lname ms) @ mcSeen st, mcSelector := mcSelector st \<or> selecting ms\<rparr>"
proof (induction ms arbitrary: st d)
  case Nil
  then show ?case by (auto simp: member_simps)
next
  case (Cons m ms)
  show ?case by (cases "kind m") (auto simp: member_simps Cons.IH dest: kind_nonempty)
qed

text \<open>The names of all members of a media-col value, those inside media-size included.\<close>

definition nested :: "attribute \<Rightarrow> attribute list" where
  "nested m = (if kind m = SizeMember then (case collectionOf m of None \<Rightarrow> [] | Some as \<Rightarrow> as) else [])"

definition flatNames :: "attribute list \<Rightarrow> string list" where
  "flatNames ms = concat (map (\<lambda>m. lname m # map lname (nested m)) ms)"

text \<open>A size collection: members that fit, and both dimensions.\<close>

definition sizeOK :: "attribute \<Rightarrow> bool" where
  "sizeOK m \<longleftrightarrow> collectionOf m \<noteq> None \<and> sizeMembers (nested m) \<and>
     (\<exists>x \<in> set (nested m). kind x = XMember) \<and> (\<exists>y \<in> set (nested m). kind y = YMember)"

definition topMembers :: "attribute list \<Rightarrow> bool" where
  "topMembers ms \<longleftrightarrow> (\<forall>m \<in> set ms. plainMember m \<or> kind m = SizeMember \<and> sizeOK m)"

lemma members_None:
  "validMediaColMembers ms st None = Some st' \<longleftrightarrow>
     topMembers ms \<and> distinct (flatNames ms) \<and> set (flatNames ms) \<inter> set (mcSeen st) = {} \<and>
     st' = st\<lparr>mcSeen := rev (flatNames ms) @ mcSeen st, mcSelector := mcSelector st \<or> selecting ms\<rparr>"
proof (induction ms arbitrary: st)
  case Nil
  then show ?case by (auto simp: member_simps topMembers_def flatNames_def)
next
  case (Cons m ms)
  show ?case
  proof (cases "kind m = SizeMember")
    case False
    then have flat: "flatNames (m # ms) = lname m # flatNames ms" by (simp add: flatNames_def nested_def)
    have top: "topMembers (m # ms) \<longleftrightarrow> plainMember m \<and> topMembers ms" using False by (auto simp: topMembers_def)
    show ?thesis
      unfolding flat top
      by (cases "kind m") (use False in \<open>auto simp: member_simps Cons.IH dest: kind_nonempty\<close>)
  next
    case True
    then have name: "lname m \<noteq> []" using kind_nonempty by force
    show ?thesis
    proof (cases "collectionOf m")
      case None
      with True show ?thesis by (auto simp: member_simps topMembers_def sizeOK_def)
    next
      case (Some as)
      have seq: "(case validMediaColMembers as st1 dd of None \<Rightarrow> None | Some st2 \<Rightarrow> f st2) = Some st' \<longleftrightarrow>
        (\<exists>st2. validMediaColMembers as st1 dd = Some st2 \<and> f st2 = Some st')" for st1 dd f
        by (auto split: option.splits)
      have nest: "nested m = as" using True Some by (simp add: nested_def)
      have sel: "selecting (m # ms)" using True by (simp add: selecting_def)
      have flat: "flatNames (m # ms) = lname m # map lname as @ flatNames ms" by (simp add: flatNames_def nest)
      have ok: "topMembers (m # ms) \<longleftrightarrow> topMembers ms \<and> sizeMembers as \<and>
          (\<exists>x \<in> set as. kind x = XMember) \<and> (\<exists>y \<in> set as. kind y = YMember)"
        using True Some by (auto simp: topMembers_def sizeOK_def nest plainMember_def)
      have "validMediaColMembers (m # ms) st None = Some st' \<longleftrightarrow> lname m \<notin> set (mcSeen st) \<and>
        (\<exists>st2. validMediaColMembers as (st\<lparr>mcSeen := lname m # mcSeen st\<rparr>) (Some \<lparr>hasX = False, hasY = False\<rparr>) = Some st2 \<and>
           validMediaColMembers ms (st2\<lparr>mcSelector := True\<rparr>) None = Some st')"
        using True Some name by (simp add: validMediaColMembers.simps Let_def lname_def [symmetric] seq)
      then show ?thesis
        unfolding flat ok using sel by (auto simp: Cons.IH members_Some)
    qed
  qed
qed

text \<open>A media-col value in words: its members fit, no name occurs twice, and something selects media.\<close>

definition mediaColSpec :: "attribute \<Rightarrow> bool" where
  "mediaColSpec attr \<longleftrightarrow> (\<exists>ms. collectionOf attr = Some ms \<and> topMembers ms \<and> distinct (flatNames ms) \<and> selecting ms)"

lemma validMediaColSyntax_iff: "validMediaColSyntax attr \<longleftrightarrow> mediaColSpec attr"
proof (cases "collectionOf attr")
  case (Some ms)
  show ?thesis
  proof (cases "validMediaColMembers ms \<lparr>mcSeen = [], mcSelector = False\<rparr> None")
    case None
    then have "\<not> (topMembers ms \<and> distinct (flatNames ms))"
      using members_None [of ms "\<lparr>mcSeen = [], mcSelector = False\<rparr>"] by fastforce
    with Some None show ?thesis by (auto simp: validMediaColSyntax_def mediaColSpec_def)
  next
    case st: (Some st)
    from st members_None [of ms _ st] have "topMembers ms" "distinct (flatNames ms)" "mcSelector st \<longleftrightarrow> selecting ms" by auto
    with Some st show ?thesis by (auto simp: validMediaColSyntax_def mediaColSpec_def)
  qed
qed (simp add: validMediaColSyntax_def mediaColSpec_def)

subsection \<open>What is accepted\<close>

lemma firstOf_None [simp]: "firstOf a b = None \<longleftrightarrow> a = None \<and> b = None"
  by (simp add: firstOf_def split: option.splits)

lemma failIf_None [simp]: "failIf b e = None \<longleftrightarrow> \<not> b"
  by (simp add: failIf_def)

lemma firstError_None [simp]: "firstError f xs = None \<longleftrightarrow> (\<forall>x \<in> set xs. f x = None)"
  by (induction xs) auto

text \<open>The groups are the operation group alone, or with one job group where jobs are submitted.\<close>

definition groupsOK :: "message \<Rightarrow> bool" where
  "groupsOK msg \<longleftrightarrow> (case msgGroups msg of None \<Rightarrow> True | Some gs \<Rightarrow>
     map fst gs = [TagOperationGroup] \<or>
     map fst gs = [TagOperationGroup, TagJobGroup] \<and> msgCode msg \<in> {OpPrintJob, OpValidateJob, OpCreateJob})"

lemma groupLoop_rest:
  "groupLoop tn (Suc n) j gs = Inr k \<longleftrightarrow>
     (gs = [] \<and> k = j) \<or> (j = 0 \<and> k = 1 \<and> map fst gs = [TagJobGroup])"
proof (induction gs arbitrary: n j)
  case (Cons g gs)
  obtain t x where "g = (t, x)" by fastforce
  with Cons.IH show ?case by (cases gs) auto
qed auto

lemma validateRequestGroups_iff: "validateRequestGroups tn msg = None \<longleftrightarrow> groupsOK msg"
proof (cases "msgGroups msg")
  case (Some gs)
  show ?thesis
  proof (cases gs)
    case (Cons g gs')
    obtain t x where "g = (t, x)" by fastforce
    with Some Cons show ?thesis
      by (auto simp: validateRequestGroups_def groupsOK_def groupLoop_rest split: sum.splits)
  qed (simp add: Some validateRequestGroups_def groupsOK_def)
qed (simp add: validateRequestGroups_def groupsOK_def)

text \<open>No two attributes of a group have the same name, whatever its case.\<close>

definition namesOK :: "message \<Rightarrow> bool" where
  "namesOK msg \<longleftrightarrow> (\<forall>g \<in> {msgOperation msg, msgJob msg, msgDocument msg, msgSubscription msg}. distinct (map lname g))"

lemma duplicateIn_None: "duplicateIn seen as = None \<longleftrightarrow> distinct (map lname as) \<and> set (map lname as) \<inter> set seen = {}"
  by (induction as arbitrary: seen) (auto simp: lname_def)

lemma validateNoDuplicateAttrs_iff: "validateNoDuplicateAttrs msg = None \<longleftrightarrow> namesOK msg"
proof -
  have "duplicateInGroups gs = None \<longleftrightarrow> (\<forall>g \<in> set gs. distinct (map lname g))" for gs
  proof (induction gs)
    case (Cons g gs)
    then show ?case using duplicateIn_None [of "[]" g] by (cases "duplicateIn [] g") auto
  qed simp
  then show ?thesis by (simp add: validateNoDuplicateAttrs_def namesOK_def del: duplicateInGroups.simps)
qed

definition headOK :: "(val \<Rightarrow> string) \<Rightarrow> message \<Rightarrow> bool" where
  "headOK sprint msg \<longleftrightarrow> (\<exists>c l rest. msgOperation msg = c # l # rest \<and>
     singleValueAttr c ''attributes-charset'' TagCharset \<and> singleValueAttr l ''attributes-natural-language'' TagLanguage \<and>
     (\<exists>v. attrValues c = [(TagCharset, v)] \<and> EqualFold (case v of String s \<Rightarrow> s | _ \<Rightarrow> sprint v) ''utf-8''))"

text \<open>
  The target: an operation on the queue names it by its third attribute and no job; an operation on a
  job names the job by its URI alone, or the queue and a positive identifier.
\<close>

definition third :: "attribute list \<Rightarrow> string \<Rightarrow> tag \<Rightarrow> bool" where
  "third as name t \<longleftrightarrow> length as \<ge> 3 \<and> singleValueAttr (as ! 2) name t"

definition namesQueue :: "(val \<Rightarrow> string) \<Rightarrow> (string \<Rightarrow> string option) \<Rightarrow> attribute list \<Rightarrow> string \<Rightarrow> bool" where
  "namesQueue sprint authority as printerURI \<longleftrightarrow>
     (\<exists>u. FirstString sprint as ''printer-uri'' = Some u \<and> sameTargetURI authority u printerURI)"

definition targetOK :: "(val \<Rightarrow> string) \<Rightarrow> (string \<Rightarrow> string option) \<Rightarrow> message \<Rightarrow> string \<Rightarrow> bool" where
  "targetOK sprint authority msg printerURI \<longleftrightarrow> (let as = msgOperation msg in
     (printerOperationRequiresURI (msgCode msg) \<longrightarrow>
        third as ''printer-uri'' TagURI \<and> namesQueue sprint authority as printerURI \<and>
        FirstString sprint as ''job-uri'' = None \<and> FirstInt as ''job-id'' = None) \<and>
     (jobOperationRequiresTarget (msgCode msg) \<longrightarrow>
        (\<exists>u i. FirstString sprint as ''job-uri'' = Some u \<and> third as ''job-uri'' TagURI \<and>
           FirstString sprint as ''printer-uri'' = None \<and> FirstInt as ''job-id'' = None \<and>
           jobIDForPrinterURI authority u printerURI = Some i) \<or>
        (\<exists>i. FirstString sprint as ''job-uri'' = None \<and> third as ''printer-uri'' TagURI \<and> length as \<ge> 4 \<and>
           singleValueAttr (as ! 3) ''job-id'' TagInteger \<and> namesQueue sprint authority as printerURI \<and>
           FirstInt as ''job-id'' = Some i \<and> i > 0)))"

lemma validateTarget_iff:
  "validateTarget sprint authority (msgOperation msg) (msgCode msg) printerURI = None \<longleftrightarrow> targetOK sprint authority msg printerURI"
proof -
  let ?as = "msgOperation msg"
  have excl: "printerOperationRequiresURI c \<Longrightarrow> \<not> jobOperationRequiresTarget c" for c
    by (auto simp: printerOperationRequiresURI_def jobOperationRequiresTarget_def)
  have queue: "(case FirstString sprint ?as ''printer-uri'' of None \<Rightarrow> False | Some u \<Rightarrow> sameTargetURI authority u printerURI) \<longleftrightarrow>
      namesQueue sprint authority ?as printerURI"
    by (auto simp: namesQueue_def split: option.splits)
  have id: "(case FirstInt ?as ''job-id'' of None \<Rightarrow> True | Some i \<Rightarrow> i < 1) \<longleftrightarrow> \<not> (\<exists>i. FirstInt ?as ''job-id'' = Some i \<and> i > 0)"
    by (auto split: option.splits)
  have third: "length ?as < 3 \<or> \<not> singleValueAttr (?as ! 2) n t \<longleftrightarrow> \<not> third ?as n t" for n t
    by (auto simp: third_def)
  have fourth: "length ?as < 4 \<or> \<not> singleValueAttr (?as ! 2) n t \<or> Q \<longleftrightarrow> \<not> (third ?as n t \<and> length ?as \<ge> 4 \<and> \<not> Q)" for n t Q
    by (auto simp: third_def)
  note code = validateTarget_def targetOK_def Let_def queue id third fourth
  show ?thesis
  proof (cases "printerOperationRequiresURI (msgCode msg)")
    case True
    with excl show ?thesis by (simp add: code)
  next
    case False
    then show ?thesis by (cases "FirstString sprint ?as ''job-uri''") (auto simp: code, auto simp: third_def)
  qed
qed

text \<open>Values: known attributes have one value of their type, and the listed ones are in range.\<close>

definition valuesOK :: "(val \<Rightarrow> string) \<Rightarrow> message \<Rightarrow> bool" where
  "valuesOK sprint msg \<longleftrightarrow>
     (\<forall>r \<in> set (rules msg). \<forall>attr. Attr (ruleAttrs r) (ruleName r) = Some attr \<longrightarrow>
        (\<exists>v. attrValues attr = [(ruleTag r, v)] \<and> (rulePositive r \<longrightarrow> (\<exists>i. v = Integer i \<and> i > 0))) \<and>
        (ruleName r = ''media-col'' \<longrightarrow> mediaColSpec attr)) \<and>
     (\<forall>attr. Attr (msgOperation msg) ''requested-attributes'' = Some attr \<longrightarrow>
        attrValues attr \<noteq> [] \<and> fst ` set (attrValues attr) \<subseteq> {TagKeyword}) \<and>
     (\<forall>w. FirstString sprint (msgOperation msg) ''which-jobs'' = Some w \<longrightarrow> ToLower w \<in> set whichJobs)"

lemma checkRule_iff:
  "checkRule r = None \<longleftrightarrow> (\<forall>attr. Attr (ruleAttrs r) (ruleName r) = Some attr \<longrightarrow>
     (\<exists>v. attrValues attr = [(ruleTag r, v)] \<and> (rulePositive r \<longrightarrow> (\<exists>i. v = Integer i \<and> i > 0))) \<and>
     (ruleName r = ''media-col'' \<longrightarrow> mediaColSpec attr))"
proof (cases "Attr (ruleAttrs r) (ruleName r)")
  case (Some attr)
  show ?thesis
  proof (cases "length (attrValues attr) = 1")
    case True
    then obtain t v where v: "attrValues attr = [(t, v)]" by (metis One_nat_def length_0_conv length_Suc_conv surj_pair)
    have "(case v of Integer i \<Rightarrow> i < 1 | _ \<Rightarrow> True) \<longleftrightarrow> \<not> (\<exists>i. v = Integer i \<and> i > 0)" by (auto split: val.splits)
    with Some v show ?thesis
      by (auto simp: checkRule_def checkValue_def validMediaColSyntax_iff failIf_def)
  qed (auto simp: Some checkRule_def)
qed (simp add: checkRule_def)

lemma validateKnownValues_iff: "validateKnownValues sprint msg = None \<longleftrightarrow> valuesOK sprint msg"
proof -
  have "checkRequested msg = None \<longleftrightarrow> (\<forall>attr. Attr (msgOperation msg) ''requested-attributes'' = Some attr \<longrightarrow>
        attrValues attr \<noteq> [] \<and> fst ` set (attrValues attr) \<subseteq> {TagKeyword})"
    by (auto simp: checkRequested_def split: option.splits)
  moreover have "checkWhich sprint msg = None \<longleftrightarrow>
      (\<forall>w. FirstString sprint (msgOperation msg) ''which-jobs'' = Some w \<longrightarrow> ToLower w \<in> set whichJobs)"
    by (auto simp: checkWhich_def split: option.splits)
  ultimately show ?thesis by (simp add: validateKnownValues_def valuesOK_def checkRule_iff)
qed

text \<open>Overrides: each selects pages or documents by positive ranges and overrides something.\<close>

definition overrideOK :: "tag \<times> val \<Rightarrow> bool" where
  "overrideOK v \<longleftrightarrow> (\<exists>as sel. v = (TagBeginCollection, Collection as) \<and> length as \<ge> 2 \<and> validPositiveRanges sel \<and>
     (Attr as ''pages'' = Some sel \<and> Attr as ''document-numbers'' = None \<or>
      Attr as ''document-numbers'' = Some sel \<and> Attr as ''pages'' = None))"

definition overridesOK :: "message \<Rightarrow> bool" where
  "overridesOK msg \<longleftrightarrow> (\<forall>attr. Attr (msgJob msg) ''overrides'' = Some attr \<longrightarrow>
     attrValues attr \<noteq> [] \<and> (\<forall>v \<in> set (attrValues attr). overrideOK v))"

lemma validateOverride_iff: "validateOverride attr v = None \<longleftrightarrow> overrideOK v"
proof (cases "\<exists>as. v = (TagBeginCollection, Collection as)")
  case True
  then obtain as where "v = (TagBeginCollection, Collection as)" by blast
  then show ?thesis
    by (cases "Attr as ''pages''"; cases "Attr as ''document-numbers''") (auto simp: validateOverride_def overrideOK_def Let_def)
next
  case False
  then have "validateOverride attr v \<noteq> None"
    by (cases v; cases "fst v"; cases "snd v") (auto simp: validateOverride_def Let_def)
  with False show ?thesis by (auto simp: overrideOK_def)
qed

definition payloadOK :: "message \<Rightarrow> bool \<Rightarrow> bool" where
  "payloadOK msg hasPayload \<longleftrightarrow>
     (msgCode msg = OpPrintJob \<longrightarrow> hasPayload) \<and>
     (msgCode msg = OpSendDocument \<longrightarrow> (\<exists>attr lastDocument. Attr (msgOperation msg) ''last-document'' = Some attr \<and>
        attrValues attr = [(TagBoolean, Boolean lastDocument)] \<and> (hasPayload \<or> lastDocument)))"

lemma checkPayload_iff: "checkPayload msg hasPayload = None \<longleftrightarrow> payloadOK msg hasPayload"
proof -
  have "(case x of Some [(TagBoolean, Boolean b)] \<Rightarrow> f b | _ \<Rightarrow> Some e) = None \<longleftrightarrow>
      (\<exists>b. x = Some [(TagBoolean, Boolean b)] \<and> f b = None)"
    for x :: "(tag \<times> val) list option" and f and e :: ProtocolError
    by (auto split: option.splits list.splits tag.splits val.splits)
  then show ?thesis by (auto simp: checkPayload_def payloadOK_def simp del: case_map_option)
qed


text \<open>The requests that are accepted.\<close>

definition acceptable ::
  "(val \<Rightarrow> string) \<Rightarrow> (string \<Rightarrow> string option) \<Rightarrow> message \<Rightarrow> string \<Rightarrow> bool \<Rightarrow> bool" where
  "acceptable sprint authority msg printerURI hasPayload \<longleftrightarrow>
     groupsOK msg \<and> headOK sprint msg \<and> namesOK msg \<and> targetOK sprint authority msg printerURI \<and>
     (Attr (msgJob msg) ''media'' = None \<or> Attr (msgJob msg) ''media-col'' = None) \<and>
     valuesOK sprint msg \<and> overridesOK msg \<and> payloadOK msg hasPayload"

lemma FirstString_head:
  assumes "singleValueAttr a name t"
  shows "\<exists>v. attrValues a = [(t, v)]" "FirstString sprint (a # as) name = (case attrValues a of (_, v) # _ \<Rightarrow>
    Some (case v of String s \<Rightarrow> s | _ \<Rightarrow> sprint v) | [] \<Rightarrow> None)"
proof -
  from assms have "length (attrValues a) = 1" "fst (hd (attrValues a)) = t" "EqualFold (attrName a) name"
    by (auto simp: singleValueAttr_def)
  then show "\<exists>v. attrValues a = [(t, v)]"
    by (cases "attrValues a") auto
  show "FirstString sprint (a # as) name = (case attrValues a of (_, v) # _ \<Rightarrow>
    Some (case v of String s \<Rightarrow> s | _ \<Rightarrow> sprint v) | [] \<Rightarrow> None)"
    using \<open>EqualFold (attrName a) name\<close> by (simp add: FirstString_def split: list.splits)
qed

lemma head_iff:
  "validateRequiredOperationAttrs (msgOperation msg) (msgCode msg) = None \<and> checkCharset sprint msg = None \<longleftrightarrow>
     headOK sprint msg \<and> (printerOperationRequiresURI (msgCode msg) \<longrightarrow> third (msgOperation msg) ''printer-uri'' TagURI)"
proof (cases "\<exists>c l rest. msgOperation msg = c # l # rest")
  case False
  then have "length (msgOperation msg) < 2"
    by (cases "msgOperation msg"; cases "tl (msgOperation msg)") auto
  with False show ?thesis by (auto simp: headOK_def validateRequiredOperationAttrs_def)
next
  case True
  then obtain c l rest where ops: "msgOperation msg = c # l # rest" by blast
  show ?thesis
  proof (cases "singleValueAttr c ''attributes-charset'' TagCharset")
    case one: True
    then obtain v where v: "attrValues c = [(TagCharset, v)]" using FirstString_head(1) by blast
    with FirstString_head(2) [OF one] ops one show ?thesis
      by (auto simp: headOK_def validateRequiredOperationAttrs_def checkCharset_def third_def not_less less_eq_iff_succ_less)
  qed (auto simp: headOK_def validateRequiredOperationAttrs_def ops)
qed

lemma validation_iff:
  "ValidateProtocolRequest sprint tagName authority (Some msg) printerURI hasPayload = None \<longleftrightarrow>
     acceptable sprint authority msg printerURI hasPayload"
proof -
  have "(case Attr (msgJob msg) ''overrides'' of None \<Rightarrow> None | Some attr \<Rightarrow> validateOverrides attr) = None \<longleftrightarrow> overridesOK msg"
    by (auto simp: overridesOK_def validateOverrides_def validateOverride_iff split: option.splits)
  moreover have "targetOK sprint authority msg printerURI \<Longrightarrow>
      printerOperationRequiresURI (msgCode msg) \<longrightarrow> third (msgOperation msg) ''printer-uri'' TagURI"
    by (simp add: targetOK_def Let_def)
  moreover have "checkMediaConflict msg = None \<longleftrightarrow> Attr (msgJob msg) ''media'' = None \<or> Attr (msgJob msg) ''media-col'' = None"
    by (simp add: checkMediaConflict_def)
  ultimately show ?thesis
    using head_iff [of msg sprint]
    by (auto simp: ValidateProtocolRequest_def acceptable_def validateRequestGroups_iff validateNoDuplicateAttrs_iff
        validateTarget_iff validateKnownValues_iff checkPayload_iff)
qed

text \<open>
  C17: a request is accepted by the validation exactly when its groups are in order, it starts with the
  charset utf-8 and a language, no attribute name occurs twice in a group, it names its queue or a
  job of its queue as its operation requires, media is given at most once, every known value has its
  type, cardinality and range (media-col down to its members), every override selects positive
  ranges and overrides something, and the document data is there where it is needed.
\<close>

theorem ValidateProtocolRequest_accepts_iff:
  "ValidateProtocolRequest sprint tagName authority (Some msg) printerURI hasPayload = None \<longleftrightarrow>
     acceptable sprint authority msg printerURI hasPayload"
  by (rule validation_iff)

end
