(* ===== verification/Proxy_Policy.thy ===== *)
theory Proxy_Policy
  imports Proxy_Normalize Proxy_Theorems Go_Text
begin

text \<open>
  Properties of the policy boundary: what reaches the printer, which medium is printed on, and that a
  request stays well formed on its way through the policy.
\<close>

subsection \<open>Names\<close>

text \<open>A property of all names in a list of attributes, at any depth.\<close>

fun allNames :: "(string \<Rightarrow> bool) \<Rightarrow> attribute list \<Rightarrow> bool"
and allNamesIn :: "(string \<Rightarrow> bool) \<Rightarrow> (tag \<times> val) list \<Rightarrow> bool" where
  "allNames P [] = True"
| "allNames P (Attribute n vs # as) = (P n \<and> allNamesIn P vs \<and> allNames P as)"
| "allNamesIn P [] = True"
| "allNamesIn P ((_, Collection as) # vs) = (allNames P as \<and> allNamesIn P vs)"
| "allNamesIn P (_ # vs) = allNamesIn P vs"

lemma allNames_all: "allNames P as \<longleftrightarrow> (\<forall>a \<in> set as. P (attrName a) \<and> allNamesIn P (attrValues a))"
proof (induction as)
  case (Cons a as)
  then show ?case by (cases a) auto
qed simp

lemma dropNested_clean:
  "allNames (\<lambda>n. ToLower n \<notin> set names) (dropNested names as)"
  "allNamesIn (\<lambda>n. ToLower n \<notin> set names) (dropNestedValues names vs)"
  by (induction names as and names vs rule: dropNested_dropNestedValues.induct) auto

definition asciiNames :: "attribute list \<Rightarrow> bool" where
  "asciiNames as \<longleftrightarrow> (\<forall>a \<in> set as. ascii (attrName a))"

text \<open>Looking up a lower-case name in such a list, where no name occurs twice.\<close>

lemma Attr_Some:
  assumes "asciiNames as" "FoldCase n = n"
  shows "Attr as n = Some a \<Longrightarrow> a \<in> set as \<and> lname a = n"
    "distinct (map lname as) \<Longrightarrow> a \<in> set as \<Longrightarrow> lname a = n \<Longrightarrow> Attr as n = Some a"
proof -
  show a: "Attr as n = Some a \<Longrightarrow> a \<in> set as \<and> lname a = n" for a
    using Attr_name [of as n a] assms by (auto simp: asciiNames_def lname_def EqualFold_lower)
  assume d: "distinct (map lname as)" "a \<in> set as" "lname a = n"
  then have "Attr as n \<noteq> None" using assms by (auto simp: Attr_None asciiNames_def lname_def EqualFold_lower)
  then obtain b where b: "Attr as n = Some b" by blast
  with a d have "b = a" by (metis distinct_map inj_on_eq_iff)
  with b show "Attr as n = Some a" by simp
qed

subsection \<open>The catalog\<close>

text \<open>Dimensions as IPP can carry them.\<close>

definition dimsOK :: "mediaSize \<Rightarrow> bool" where
  "dimsOK s \<longleftrightarrow> HasDimension s \<longrightarrow> 0 < XDimension s \<and> XDimension s < 2 ^ 31 \<and> 0 < YDimension s \<and> YDimension s < 2 ^ 31"

lemma merge_name: "sizeName (mergeMediaSize a b) = sizeName a"
  by (simp add: mergeMediaSize_def Let_def if_distrib [of sizeName] del: if_split)

lemma merge_dims:
  "HasDimension (mergeMediaSize a b) \<longleftrightarrow> HasDimension a \<or> HasDimension b"
  "XDimension (mergeMediaSize a b) = (if \<not> HasDimension a \<and> HasDimension b then XDimension b else XDimension a)"
  "YDimension (mergeMediaSize a b) = (if \<not> HasDimension a \<and> HasDimension b then YDimension b else YDimension a)"
  by (simp_all add: mergeMediaSize_def Let_def if_distrib [of HasDimension] if_distrib [of XDimension] if_distrib [of YDimension]
      del: if_split)

lemma merge_dimsOK: "dimsOK a \<Longrightarrow> dimsOK b \<Longrightarrow> dimsOK (mergeMediaSize a b)"
  by (auto simp: dimsOK_def merge_dims)

lemmas merge_fields = merge_name merge_dims(1) merge_dimsOK

lemma dimsOK_irrelevant [simp]:
  "dimsOK (s\<lparr>sizeName := n\<rparr>) = dimsOK s" "dimsOK (s\<lparr>aliases := ns\<rparr>) = dimsOK s" "dimsOK (s\<lparr>Ready := r\<rparr>) = dimsOK s"
  "dimsOK (s\<lparr>sizeSource := t, HasMediaSource := h\<rparr>) = dimsOK s" "dimsOK (s\<lparr>sizeType := t, HasMediaType := h\<rparr>) = dimsOK s"
  by (simp_all add: dimsOK_def)

lemma mergeMediaInstance_all:
  assumes "\<forall>i \<in> set is. P i" "P c" "\<And>a b. P a \<Longrightarrow> P b \<Longrightarrow> P (mergeMediaSize a b)" "\<And>a r. P a \<Longrightarrow> P (a\<lparr>Ready := r\<rparr>)"
  shows "\<forall>i \<in> set (mergeMediaInstance is c). P i"
  using assms(1) by (induction "is") (auto simp: Let_def assms(2-4))

lemma mergeMediaInstance_nonempty: "mergeMediaInstance is c \<noteq> []"
  by (cases "is") auto

lemma rounded_bounds: "roundedIPPDimension v m = Some i \<Longrightarrow> 0 < i \<and> i < 2 ^ 31"
  by (auto simp: roundedIPPDimension_def Let_def split: if_splits)

lemma PWGName_bounds: "mediaSizeFromPWGName name = Some p \<Longrightarrow> dimsOK p \<and> HasDimension p"
  unfolding mediaSizeFromPWGName_def dimsOK_def Let_def
  by (clarsimp split: option.split_asm prod.split_asm dest!: rounded_bounds)

lemma base_facts: "sizeName (baseFor name) = name" "dimsOK (baseFor name)"
proof -
  show "sizeName (baseFor name) = name" by (simp add: baseFor_def split: option.splits)
  show "dimsOK (baseFor name)"
  proof (cases "mediaSizeFromPWGName name")
    case (Some p)
    with PWGName_bounds [OF Some] show ?thesis by (simp add: baseFor_def dimsOK_def)
  qed (simp add: baseFor_def dimsOK_def zeroMediaSize_def)
qed

lemma candidate_facts:
  "sizeName (candidateFor name base c) = name"
  "dimsOK base \<Longrightarrow> dimsOK (collSize c) \<Longrightarrow> dimsOK (candidateFor name base c)"
proof -
  show "sizeName (candidateFor name base c) = name" by (simp add: candidateFor_def Let_def)
  assume ok: "dimsOK base" "dimsOK (collSize c)"
  let ?b = "if HasDimension (collSize c) \<and> (\<not> HasDimension base \<or> mediaCollectionHasName c name)
      then base\<lparr>XDimension := XDimension (collSize c), YDimension := YDimension (collSize c), HasDimension := True\<rparr> else base"
  have "dimsOK ?b" using ok by (simp add: dimsOK_def)
  then have "dimsOK (mergeMediaSize ?b (collSize c))" using ok(2) by (rule merge_fields(3))
  then show "dimsOK (candidateFor name base c)" by (simp add: candidateFor_def Let_def del: if_split)
qed

lemma complete_facts:
  "sizeName (completeInstance up policy i) = sizeName i" "dimsOK (completeInstance up policy i) = dimsOK i"
  "HasDimension (completeInstance up policy i) = HasDimension i"
  by (simp_all add: completeInstance_def Let_def split: option.splits)

lemma instances_facts:
  "instancesFor up policy name \<noteq> []"
  "s \<in> set (instancesFor up policy name) \<Longrightarrow> sizeName s = name"
  "\<forall>c \<in> set (upstreamMediaCollections up). dimsOK (collSize c) \<Longrightarrow> s \<in> set (instancesFor up policy name) \<Longrightarrow> dimsOK s"
proof -
  define wanted where "wanted = filter (wantedCollection (policyMediaSource policy) name (mediaSizeFromPWGName name))
      (upstreamMediaCollections up)"
  define found where "found = foldl (\<lambda>is c. mergeMediaInstance is (candidateFor name (baseFor name) c)) []"
  have inst: "instancesFor up policy name = map (completeInstance up policy) (if found wanted = [] then [baseFor name] else found wanted)"
    by (simp add: instancesFor_def Let_def wanted_def found_def)
  have names: "\<forall>i \<in> set (foldl (\<lambda>is c. mergeMediaInstance is (candidateFor name (baseFor name) c)) is cs). sizeName i = name"
    if "\<forall>i \<in> set is. sizeName i = name" for "is" cs
    using that
  proof (induction cs arbitrary: "is")
    case (Cons c cs)
    have "\<forall>i \<in> set (mergeMediaInstance is (candidateFor name (baseFor name) c)). sizeName i = name"
      by (rule mergeMediaInstance_all) (simp_all add: Cons.prems candidate_facts merge_fields)
    from Cons.IH [OF this] show ?case by simp
  qed simp
  have dims: "\<forall>i \<in> set (foldl (\<lambda>is c. mergeMediaInstance is (candidateFor name (baseFor name) c)) is cs). dimsOK i"
    if "\<forall>i \<in> set is. dimsOK i" "\<forall>c \<in> set cs. dimsOK (collSize c)" for "is" cs
    using that
  proof (induction cs arbitrary: "is")
    case (Cons c cs)
    have "\<forall>i \<in> set (mergeMediaInstance is (candidateFor name (baseFor name) c)). dimsOK i"
      by (rule mergeMediaInstance_all) (use Cons.prems in \<open>simp_all add: candidate_facts base_facts merge_fields\<close>)
    from Cons.IH [OF this] Cons.prems show ?case by simp
  qed simp
  show "instancesFor up policy name \<noteq> []" by (simp add: inst)
  have i: "\<exists>i. s = completeInstance up policy i \<and> (i = baseFor name \<or> i \<in> set (found wanted))"
    if "s \<in> set (instancesFor up policy name)" using that unfolding inst by (auto split: if_splits)
  show "sizeName s = name" if "s \<in> set (instancesFor up policy name)"
    using i [OF that] names [of "[]" wanted] by (auto simp: complete_facts base_facts found_def)
  show "dimsOK s" if up: "\<forall>c \<in> set (upstreamMediaCollections up). dimsOK (collSize c)" and s: "s \<in> set (instancesFor up policy name)"
  proof -
    have "\<forall>c \<in> set wanted. dimsOK (collSize c)" using up by (simp add: wanted_def)
    with dims [of "[]" wanted] have "\<forall>i \<in> set (found wanted). dimsOK i" by (simp add: found_def)
    with i [OF s] show ?thesis by (auto simp: complete_facts base_facts)
  qed
qed

text \<open>Every entry of the catalog is named by the policy, and a name finds an entry exactly when the policy has it.\<close>

lemma catalog_fold:
  "Sizes (foldl (addMedia up policy) c names) = Sizes c @ concat (map (instancesFor up policy) names)"
  "ByName (foldl (addMedia up policy) c names) k =
     (case List.find (\<lambda>n. mediaNameKey n = k) (rev names) of
        Some n \<Rightarrow> Some (preferredMediaInstance (instancesFor up policy n)) | None \<Rightarrow> ByName c k)"
  by (induction names arbitrary: c rule: rev_induct) (simp_all add: addMedia_def Let_def)

lemma preferred_in: "is \<noteq> [] \<Longrightarrow> preferredMediaInstance is \<in> set is"
proof -
  have "foldl (\<lambda>best c. if mediaInstancePreference c > mediaInstancePreference best then c else best) i is \<in> set (i # is)" for i "is"
    by (induction "is" arbitrary: i) auto
  then show "is \<noteq> [] \<Longrightarrow> preferredMediaInstance is \<in> set is" by (cases "is") (auto simp: preferredMediaInstance_def)
qed

lemma policyMediaNames_facts: "policyMediaNames policy \<noteq> []" "n \<in> set (policyMediaNames policy) \<Longrightarrow> n \<noteq> []"
  by (auto simp: policyMediaNames_def Let_def split: if_splits)

lemma catalog_sizes:
  "Sizes (buildMediaCatalog up policy) \<noteq> []"
  "s \<in> set (Sizes (buildMediaCatalog up policy)) \<Longrightarrow> sizeName s \<in> set (policyMediaNames policy)"
  "\<forall>c \<in> set (upstreamMediaCollections up). dimsOK (collSize c) \<Longrightarrow> s \<in> set (Sizes (buildMediaCatalog up policy)) \<Longrightarrow> dimsOK s"
proof -
  have sizes: "Sizes (buildMediaCatalog up policy) = concat (map (instancesFor up policy) (policyMediaNames policy))"
    by (simp add: buildMediaCatalog_def catalog_fold)
  show "Sizes (buildMediaCatalog up policy) \<noteq> []"
    using policyMediaNames_facts(1) [of policy] instances_facts(1) by (cases "policyMediaNames policy") (auto simp: sizes)
  show "s \<in> set (Sizes (buildMediaCatalog up policy)) \<Longrightarrow> sizeName s \<in> set (policyMediaNames policy)"
    by (auto simp: sizes dest: instances_facts(2))
  show "\<forall>c \<in> set (upstreamMediaCollections up). dimsOK (collSize c) \<Longrightarrow> s \<in> set (Sizes (buildMediaCatalog up policy)) \<Longrightarrow> dimsOK s"
    unfolding sizes by (auto dest: instances_facts(3))
qed

lemma catalog_names:
  "ByName (buildMediaCatalog up policy) k = Some s \<Longrightarrow>
     s \<in> set (Sizes (buildMediaCatalog up policy)) \<and> mediaNameKey (sizeName s) = k"
  "ByName (buildMediaCatalog up policy) k = None \<longleftrightarrow> k \<notin> mediaNameKey ` set (policyMediaNames policy)"
proof -
  have sizes: "Sizes (buildMediaCatalog up policy) = concat (map (instancesFor up policy) (policyMediaNames policy))"
    and names: "ByName (buildMediaCatalog up policy) k = map_option (preferredMediaInstance \<circ> instancesFor up policy)
      (List.find (\<lambda>n. mediaNameKey n = k) (rev (policyMediaNames policy)))"
    by (simp_all add: buildMediaCatalog_def catalog_fold split: option.splits)
  show "ByName (buildMediaCatalog up policy) k = None \<longleftrightarrow> k \<notin> mediaNameKey ` set (policyMediaNames policy)"
    unfolding names by (auto simp: find_None_iff)
  assume "ByName (buildMediaCatalog up policy) k = Some s"
  then obtain n where n: "List.find (\<lambda>n. mediaNameKey n = k) (rev (policyMediaNames policy)) = Some n"
    "s = preferredMediaInstance (instancesFor up policy n)" unfolding names by auto
  from n(1) have "n \<in> set (rev (policyMediaNames policy)) \<and> mediaNameKey n = k" by (auto simp: find_Some_iff set_conv_nth)
  moreover have "s \<in> set (instancesFor up policy n)" using preferred_in [OF instances_facts(1)] n(2) by simp
  ultimately show "s \<in> set (Sizes (buildMediaCatalog up policy)) \<and> mediaNameKey (sizeName s) = k"
    using instances_facts(2) by (auto simp: sizes)
qed

subsection \<open>The medium\<close>

lemma resolveNames_in:
  "resolveNames (buildMediaCatalog up policy) named raws = Some (Some s) \<Longrightarrow>
     named = Some s \<or> s \<in> set (Sizes (buildMediaCatalog up policy))"
  by (induction raws arbitrary: named) (auto split: option.splits if_splits dest: catalog_names(1))

lemma resolveMediaCol_in:
  "resolveMediaCol attr (buildMediaCatalog up policy) = Some s \<Longrightarrow> s \<in> set (Sizes (buildMediaCatalog up policy))"
proof -
  have dims: "resolveDimensions c sel = Some (Some d) \<Longrightarrow> d \<in> set (Sizes c)" for c sel d
    by (auto simp: resolveDimensions_def split: if_splits list.splits) (metis filter_is_subset insertI1 list.set(2) subsetD)
  have names: "resolveNames (buildMediaCatalog up policy) None raws = Some (Some s) \<Longrightarrow> s \<in> set (Sizes (buildMediaCatalog up policy))" for raws s
    using resolveNames_in by blast
  assume "resolveMediaCol attr (buildMediaCatalog up policy) = Some s"
  then show ?thesis
    by (auto simp: resolveMediaCol_def Let_def split: list.split_asm val.split_asm option.split_asm if_split_asm dest: dims names)
qed

lemma defaultMedia_in: "defaultMedia (buildMediaCatalog up policy) policy \<in> set (Sizes (buildMediaCatalog up policy))"
proof (cases "ByName (buildMediaCatalog up policy) (mediaNameKey (policyMediaDefault policy))")
  case (Some s)
  with catalog_names(1) [OF Some] catalog_sizes(1,2) policyMediaNames_facts show ?thesis
    by (force simp: defaultMedia_def)
qed (simp add: defaultMedia_def zeroMediaSize_def catalog_sizes)

lemma effectiveMedia_in:
  assumes "effectiveMedia sprint attrs policy up = (sel, r, rc, fb)"
  shows "sel \<in> set (Sizes (buildMediaCatalog up policy))" "sizeName sel \<in> set (policyMediaNames policy)"
    "selectRequestedMedia sprint attrs (buildMediaCatalog up policy) policy = (sel, r, rc, fb)"
proof -
  obtain s r' rc' fb' where s: "selectRequestedMedia sprint attrs (buildMediaCatalog up policy) policy = (s, r', rc', fb')"
    by (metis prod_cases4)
  then have in_cat: "s \<in> set (Sizes (buildMediaCatalog up policy))"
    using defaultMedia_in [of up policy]
    by (auto simp: selectRequestedMedia_def Let_def split: option.splits list.splits dest: resolveMediaCol_in catalog_names(1))
  then have "sizeName s \<noteq> []" using catalog_sizes(2) policyMediaNames_facts(2) by blast
  with assms s have eq: "(sel, r, rc, fb) = (s, r', rc', fb')" by (simp add: effectiveMedia_def)
  with in_cat s show "sel \<in> set (Sizes (buildMediaCatalog up policy))"
    "selectRequestedMedia sprint attrs (buildMediaCatalog up policy) policy = (sel, r, rc, fb)" by auto
  then show "sizeName sel \<in> set (policyMediaNames policy)" using catalog_sizes(2) by blast
qed

definition selectorOf :: "attribute \<Rightarrow> mediaColSelector" where
  "selectorOf attr = (case attrValues attr of
     (_, Collection as) # _ \<Rightarrow> collectMediaColSelector as
       \<lparr>selNames = [], selX = 0, selY = 0, selHasX = False, selHasY = False, selInvalid = False\<rparr>
   | _ \<Rightarrow> \<lparr>selNames = [], selX = 0, selY = 0, selHasX = False, selHasY = False, selInvalid = True\<rparr>)"

text \<open>A size meets a selector: all names are names of it, and given dimensions are its own in some order.\<close>

definition meets :: "mediaSize \<Rightarrow> mediaColSelector \<Rightarrow> bool" where
  "meets s sel \<longleftrightarrow> \<not> selInvalid sel \<and> (\<forall>n \<in> set (selNames sel). mediaNameKey n = mediaNameKey (sizeName s)) \<and>
     (selHasX sel \<or> selHasY sel \<longrightarrow> HasDimension s \<and> {XDimension s, YDimension s} = {selX sel, selY sel})"

lemma resolveNames_meets:
  "resolveNames (buildMediaCatalog up policy) named raws = Some (Some s) \<Longrightarrow>
     (\<forall>n \<in> set raws. mediaNameKey n = mediaNameKey (sizeName s)) \<and> (\<forall>m. named = Some m \<longrightarrow> s = m)"
proof (induction raws arbitrary: named)
  case (Cons raw raws)
  show ?case
  proof (cases named)
    case None
    with Cons show ?thesis by (auto split: option.splits dest: catalog_names(1)) (metis catalog_names(1))+
  next
    case (Some m)
    with Cons show ?thesis by (auto split: option.splits if_splits dest: catalog_names(1)) (metis catalog_names(1))+
  qed
qed auto

lemma resolveNames_Nil: "resolveNames c None raws = Some None \<Longrightarrow> raws = []"
proof -
  have "resolveNames c named raws = Some None \<Longrightarrow> named = None \<and> raws = []" for named
    by (induction raws arbitrary: named) (auto split: option.splits if_splits)
  then show "resolveNames c None raws = Some None \<Longrightarrow> raws = []" by blast
qed

lemma resolveDimensions_meets:
  "resolveDimensions c sel = Some None \<Longrightarrow> \<not> selHasX sel \<and> \<not> selHasY sel"
  "resolveDimensions c sel = Some (Some d) \<Longrightarrow> HasDimension d \<and> {XDimension d, YDimension d} = {selX sel, selY sel}"
proof -
  show "resolveDimensions c sel = Some None \<Longrightarrow> \<not> selHasX sel \<and> \<not> selHasY sel"
    by (auto simp: resolveDimensions_def split: if_splits list.splits)
  let ?r = "zeroMediaSize\<lparr>XDimension := selX sel, YDimension := selY sel, HasDimension := True\<rparr>"
  assume "resolveDimensions c sel = Some (Some d)"
  then have "filter (dimensionsEqual ?r) (Sizes c) = [d]"
    by (auto simp: resolveDimensions_def split: if_splits list.splits)
  then have "d \<in> set (filter (dimensionsEqual ?r) (Sizes c))" by simp
  then have "dimensionsEqual ?r d" by simp
  then show "HasDimension d \<and> {XDimension d, YDimension d} = {selX sel, selY sel}"
    by (auto simp: dimensionsEqual_def)
qed

lemma resolveMediaCol_meets:
  assumes "resolveMediaCol attr (buildMediaCatalog up policy) = Some s"
  shows "meets s (selectorOf attr)"
proof -
  let ?c = "buildMediaCatalog up policy"
  obtain t as where vs: "attrValues attr = [(t, Collection as)]"
    using assms by (auto simp: resolveMediaCol_def split: list.split_asm val.split_asm)
  define sel where "sel = selectorOf attr"
  have sel: "sel = collectMediaColSelector as
      \<lparr>selNames = [], selX = 0, selY = 0, selHasX = False, selHasY = False, selInvalid = False\<rparr>"
    by (simp add: sel_def selectorOf_def vs)
  have valid: "\<not> selInvalid sel" using assms by (auto simp: resolveMediaCol_def vs sel [symmetric] Let_def)
  obtain n d where nd: "resolveNames ?c None (selNames sel) = Some n" "resolveDimensions ?c sel = Some d"
    and s: "(n = Some s \<and> (case d of None \<Rightarrow> True | Some d' \<Rightarrow> dimensionsEqual s d')) \<or> (n = None \<and> d = Some s)"
    using assms valid by (auto simp: resolveMediaCol_def vs sel [symmetric] Let_def split: option.splits if_splits)
  from s have names: "\<forall>m \<in> set (selNames sel). mediaNameKey m = mediaNameKey (sizeName s)"
    using resolveNames_meets [of up policy None "selNames sel" s] resolveNames_Nil [of ?c "selNames sel"] nd(1) by auto
  have "HasDimension s \<and> {XDimension s, YDimension s} = {selX sel, selY sel}" if "selHasX sel \<or> selHasY sel"
    using s nd(2) that resolveDimensions_meets [of ?c sel]
    by (cases d) (auto simp: dimensionsEqual_def doubleton_eq_iff)
  with valid names show ?thesis by (simp add: meets_def sel_def)
qed

lemma effective_media_facts:
  assumes "effectiveMedia sprint attrs policy upstream = (sel, requested, requestedCol, fallback)"
  shows "sel \<in> set (Sizes (buildMediaCatalog upstream policy))" "sizeName sel \<in> set (policyMediaNames policy)"
    "fallback \<longrightarrow> mediaNameKey (policyMediaDefault policy) \<in> mediaNameKey ` set (policyMediaNames policy) \<longrightarrow>
       mediaNameKey (sizeName sel) = mediaNameKey (policyMediaDefault policy)"
    "\<not> fallback \<longrightarrow> (\<exists>a. Attr attrs ''media-col'' = Some a \<and> meets sel (selectorOf a)) \<or>
       (\<exists>a t v. Attr attrs ''media-col'' = None \<and> Attr attrs ''media'' = Some a \<and> attrValues a = [(t, String v)] \<and>
          mediaNameKey (sizeName sel) = mediaNameKey v)"
    "Attr attrs ''media-col'' = None \<longrightarrow> Attr attrs ''media'' = Some (Attribute n [(t, String v)]) \<longrightarrow>
       (fallback \<longleftrightarrow> mediaNameKey v \<notin> mediaNameKey ` set (policyMediaNames policy))"
proof -
  let ?c = "buildMediaCatalog upstream policy"
  note s = effectiveMedia_in [OF assms]
  then show "sel \<in> set (Sizes ?c)" "sizeName sel \<in> set (policyMediaNames policy)" by blast+
  have strings: "attributeStrings a = Some [v] \<longleftrightarrow> (\<exists>t. attrValues a = [(t, String v)])" for a v
    by (cases "attrValues a"; cases "tl (attrValues a)") (auto simp: attributeStrings_def split: val.splits)
  have default: "fallback \<Longrightarrow> sel = defaultMedia ?c policy"
    using s(3) by (auto simp: selectRequestedMedia_def Let_def split: option.splits list.splits)
  show "fallback \<longrightarrow> mediaNameKey (policyMediaDefault policy) \<in> mediaNameKey ` set (policyMediaNames policy) \<longrightarrow>
       mediaNameKey (sizeName sel) = mediaNameKey (policyMediaDefault policy)"
  proof (intro impI)
    assume fb: "fallback" and key: "mediaNameKey (policyMediaDefault policy) \<in> mediaNameKey ` set (policyMediaNames policy)"
    then obtain m where m: "ByName ?c (mediaNameKey (policyMediaDefault policy)) = Some m" using catalog_names(2) by blast
    then have "sizeName m \<noteq> []" using catalog_names(1) catalog_sizes(2) policyMediaNames_facts(2) by blast
    with m default [OF fb] catalog_names(1) [OF m] show "mediaNameKey (sizeName sel) = mediaNameKey (policyMediaDefault policy)"
      by (simp add: defaultMedia_def)
  qed
  show "\<not> fallback \<longrightarrow> (\<exists>a. Attr attrs ''media-col'' = Some a \<and> meets sel (selectorOf a)) \<or>
       (\<exists>a t v. Attr attrs ''media-col'' = None \<and> Attr attrs ''media'' = Some a \<and> attrValues a = [(t, String v)] \<and>
          mediaNameKey (sizeName sel) = mediaNameKey v)"
    using s(3) by (auto simp: selectRequestedMedia_def Let_def strings split: option.split_asm list.split_asm
        dest: resolveMediaCol_meets catalog_names(1))
  show "Attr attrs ''media-col'' = None \<longrightarrow> Attr attrs ''media'' = Some (Attribute n [(t, String v)]) \<longrightarrow>
       (fallback \<longleftrightarrow> mediaNameKey v \<notin> mediaNameKey ` set (policyMediaNames policy))"
    using s(3) catalog_names(2) [of upstream policy "mediaNameKey v"]
    by (cases "ByName ?c (mediaNameKey v)") (auto simp: selectRequestedMedia_def Let_def attributeStrings_def)
qed
text \<open>
  The medium of a job is always an entry of the catalog of the policy. It is the requested one when
  that is available: a named medium is matched by its name, a collection by all its names and
  dimensions. In every other case it is the default of the policy, and marked as a fallback.
\<close>

theorem effective_media:
  assumes "effectiveMedia sprint attrs policy upstream = (sel, requested, requestedCol, fallback)"
  shows "sel \<in> set (Sizes (buildMediaCatalog upstream policy)) \<and> sizeName sel \<in> set (policyMediaNames policy) \<and>
    (fallback \<longrightarrow> mediaNameKey (policyMediaDefault policy) \<in> mediaNameKey ` set (policyMediaNames policy) \<longrightarrow>
       mediaNameKey (sizeName sel) = mediaNameKey (policyMediaDefault policy)) \<and>
    (\<not> fallback \<longrightarrow> (\<exists>a. Attr attrs ''media-col'' = Some a \<and> meets sel (selectorOf a)) \<or>
       (\<exists>a t v. Attr attrs ''media-col'' = None \<and> Attr attrs ''media'' = Some a \<and> attrValues a = [(t, String v)] \<and>
          mediaNameKey (sizeName sel) = mediaNameKey v)) \<and>
    (Attr attrs ''media-col'' = None \<longrightarrow> Attr attrs ''media'' = Some (Attribute n [(t, String v)]) \<longrightarrow>
       (fallback \<longleftrightarrow> mediaNameKey v \<notin> mediaNameKey ` set (policyMediaNames policy)))"
  by (intro conjI effective_media_facts [OF assms])

subsection \<open>What reaches the printer\<close>

definition controlled :: "NormalizationOptions \<Rightarrow> string \<Rightarrow> bool" where
  "controlled opts n \<longleftrightarrow> ToLower n \<in> set (map ToLower (policyDropAttrs @ DropVendorAttrs opts))"

definition listedAttr :: "NormalizationOptions \<Rightarrow> string \<Rightarrow> bool" where
  "listedAttr opts n \<longleftrightarrow> ToLower n \<in> set (map (ToLower \<circ> TrimSpace) (PreserveJobAttrs opts))"

definition scalingAttrs :: "PolicyConfig \<Rightarrow> attribute list" where
  "scalingAttrs policy = (case PrintScaling policy of
     Some s \<Rightarrow> if s \<noteq> [] then [Keyword ''print-scaling'' s] else [] | None \<Rightarrow> [])"

text \<open>All attributes that come from the policy.\<close>

definition ownAttrs :: "PolicyConfig \<Rightarrow> mediaSize \<Rightarrow> attribute list" where
  "ownAttrs policy sel = mediaAttrs policy sel @ scalingAttrs policy @ colorAttrs policy"

lemma allowed_split: "allowedJobAttr opts a \<longleftrightarrow> controlled opts (attrName a) \<or> listedAttr opts (attrName a)"
  by (simp add: allowedJobAttr_def controlled_def listedAttr_def)

lemma set_setScaling:
  "set (setScaling policy xs) = set (scalingAttrs policy) \<union>
     {b \<in> set xs. scalingAttrs policy = [] \<or> \<not> EqualFold (attrName b) ''print-scaling''}"
  by (auto simp: setScaling_def scalingAttrs_def SetAttr_def set_setLoop Keyword_def split: option.splits)

lemma mem_sanitize:
  "a \<in> set (sanitizeOverrides xs v) \<longleftrightarrow>
     (a \<in> set xs \<and> \<not> EqualFold (attrName a) ''overrides'') \<or>
     (\<exists>b \<in> set xs. EqualFold (attrName b) ''overrides'' \<and> sanitizeOverridesAttr b v = Some a)"
  by (induction xs) (auto split: option.splits)

lemma sanitizeValues_clean:
  "allNamesIn (\<lambda>n. ToLower n \<notin> set (map ToLower (policyDropAttrs @ v))) (sanitizeValues v vs)"
proof (induction vs)
  case (Cons p vs)
  obtain t w where "p = (t, w)" by fastforce
  with Cons show ?case
    by (cases w) (simp_all add: Let_def dropNestedPolicyAttrs_def dropNested_clean(1) del: map_append set_append set_map)
qed simp

lemma sanitized_facts:
  assumes "sanitizeOverridesAttr b v = Some a"
  shows "attrName a = attrName b" "allNamesIn (\<lambda>n. ToLower n \<notin> set (map ToLower (policyDropAttrs @ v))) (attrValues a)"
  using assms sanitizeValues_clean [of v "attrValues b"] by (auto simp: sanitizeOverridesAttr_def Let_def split: if_splits)

lemma own_names:
  "a \<in> set (mediaAttrs policy sel) \<Longrightarrow> lname a \<in> {''media'', ''media-col'', ''media-type'', ''media-source''} \<and>
     \<not> EqualFold (attrName a) ''print-scaling'' \<and> \<not> EqualFold (attrName a) ''overrides''"
proof -
  have names: "attrName a \<in> {''media'', ''media-col'', ''media-type'', ''media-source''}" if "a \<in> set (mediaAttrs policy sel)"
    using that by (auto simp: mediaAttrs_def Keyword_def mediaColJobAttr_def split: if_splits)
  have "\<forall>n \<in> {''media'', ''media-col'', ''media-type'', ''media-source''}. ToLower n = n \<and>
      \<not> EqualFold n ''print-scaling'' \<and> \<not> EqualFold n ''overrides''" by code_simp
  with names show "a \<in> set (mediaAttrs policy sel) \<Longrightarrow> lname a \<in> {''media'', ''media-col'', ''media-type'', ''media-source''} \<and>
     \<not> EqualFold (attrName a) ''print-scaling'' \<and> \<not> EqualFold (attrName a) ''overrides''"
    by (auto simp: lname_def)
qed

text \<open>The attributes of a normalized job.\<close>

lemma normalized_attrs:
  assumes "NormalizeJobAttrsWithOptions sprint attrs opts = Inr r"
  obtains sel req rc fb where "effectiveMedia sprint (filter (allowedJobAttr opts) attrs) (optPolicy opts) (optUpstream opts) = (sel, req, rc, fb)"
    "EffectiveMedia (resLog r) = sizeName sel"
    "resAttrs r = setScaling (optPolicy opts)
       (sanitizeOverrides (filter (\<lambda>a. \<not> controlled opts (attrName a)) (filter (allowedJobAttr opts) attrs)) (DropVendorAttrs opts)
        @ mediaAttrs (optPolicy opts) sel) @ colorAttrs (optPolicy opts)"
proof -
  obtain sel req rc fb where m: "effectiveMedia sprint (filter (allowedJobAttr opts) attrs) (optPolicy opts) (optUpstream opts) = (sel, req, rc, fb)"
    by (metis prod_cases4)
  have drop: "DropAttrs xs (policyDropAttrs @ DropVendorAttrs opts) = filter (\<lambda>a. \<not> controlled opts (attrName a)) xs" for xs
    by (simp add: DropAttrs_def controlled_def)
  from assms have "resAttrs r = fst (NormalizeJobAttrsWithCapabilities sprint (filter (allowedJobAttr opts) attrs) (optPolicy opts) (DropVendorAttrs opts) (optUpstream opts))"
    "resLog r = snd (NormalizeJobAttrsWithCapabilities sprint (filter (allowedJobAttr opts) attrs) (optPolicy opts) (DropVendorAttrs opts) (optUpstream opts))"
    by (auto simp: NormalizeJobAttrsWithOptions_def Let_def split: if_split_asm prod.split_asm)
  with m show thesis by (intro that [OF m]) (simp_all add: NormalizeJobAttrsWithCapabilities_def Let_def drop)
qed

text \<open>
  C25: whatever a client sends, the attributes that go to the printer are those of the policy, for a
  medium of the policy, and attributes of the allowlist that the policy does not control. Those are
  the client's own, unchanged, except for overrides: nothing the policy controls is left in them at
  any depth. Every allowed attribute arrives, except that the policy's scaling replaces the client's.
\<close>

theorem policy_boundary:
  assumes "NormalizeJobAttrsWithOptions sprint attrs opts = Inr r"
  shows "\<exists>sel \<in> set (Sizes (buildMediaCatalog (optUpstream opts) (optPolicy opts))).
    sizeName sel = EffectiveMedia (resLog r) \<and> sizeName sel \<in> set (policyMediaNames (optPolicy opts)) \<and>
    set (ownAttrs (optPolicy opts) sel) \<subseteq> set (resAttrs r) \<and>
    (\<forall>a \<in> set (resAttrs r). a \<in> set (ownAttrs (optPolicy opts) sel) \<or>
       listedAttr opts (attrName a) \<and> \<not> controlled opts (attrName a) \<and>
       (if EqualFold (attrName a) ''overrides'' then allNamesIn (\<lambda>n. \<not> controlled opts n) (attrValues a) else a \<in> set attrs)) \<and>
    (\<forall>a \<in> set attrs. listedAttr opts (attrName a) \<and> \<not> controlled opts (attrName a) \<and> \<not> EqualFold (attrName a) ''overrides'' \<and>
       (scalingAttrs (optPolicy opts) = [] \<or> \<not> EqualFold (attrName a) ''print-scaling'') \<longrightarrow> a \<in> set (resAttrs r))"
proof -
  from assms obtain sel req rc fb where m: "effectiveMedia sprint (filter (allowedJobAttr opts) attrs) (optPolicy opts) (optUpstream opts) = (sel, req, rc, fb)"
    and log: "EffectiveMedia (resLog r) = sizeName sel"
    and res: "resAttrs r = setScaling (optPolicy opts)
       (sanitizeOverrides (filter (\<lambda>a. \<not> controlled opts (attrName a)) (filter (allowedJobAttr opts) attrs)) (DropVendorAttrs opts)
        @ mediaAttrs (optPolicy opts) sel) @ colorAttrs (optPolicy opts)"
    by (rule normalized_attrs)
  have clean: "allNamesIn (\<lambda>n. \<not> controlled opts n) (attrValues a)" "attrName a = attrName b"
    if "sanitizeOverridesAttr b (DropVendorAttrs opts) = Some a" for a b
    using sanitized_facts [OF that] by (simp_all add: controlled_def)
  show ?thesis
  proof (intro bexI [of _ sel] conjI ballI impI)
    show "sel \<in> set (Sizes (buildMediaCatalog (optUpstream opts) (optPolicy opts)))"
      "sizeName sel \<in> set (policyMediaNames (optPolicy opts))" by (rule effectiveMedia_in [OF m])+
    show "sizeName sel = EffectiveMedia (resLog r)" by (simp add: log)
    show "set (ownAttrs (optPolicy opts) sel) \<subseteq> set (resAttrs r)"
      using own_names by (auto simp: res ownAttrs_def set_setScaling)
    fix a
    show "a \<in> set (ownAttrs (optPolicy opts) sel) \<or>
       listedAttr opts (attrName a) \<and> \<not> controlled opts (attrName a) \<and>
       (if EqualFold (attrName a) ''overrides'' then allNamesIn (\<lambda>n. \<not> controlled opts n) (attrValues a) else a \<in> set attrs)"
      if "a \<in> set (resAttrs r)"
      using that by (auto simp: res ownAttrs_def set_setScaling mem_sanitize allowed_split clean(2) dest: clean(1))
    show "a \<in> set (resAttrs r)" if "a \<in> set attrs" "listedAttr opts (attrName a) \<and> \<not> controlled opts (attrName a) \<and>
       \<not> EqualFold (attrName a) ''overrides'' \<and> (scalingAttrs (optPolicy opts) = [] \<or> \<not> EqualFold (attrName a) ''print-scaling'')"
      using that by (auto simp: res set_setScaling mem_sanitize allowed_split)
  qed
qed

end
