(* ===== verification/Proxy_Compose.thy ===== *)
theory Proxy_Compose
  imports Proxy_Policy
begin

text \<open>
  Request validation and the policy boundary together: a valid request is still valid after the policy
  has replaced its job attributes.
\<close>

declare ToLower.simps [simp del] FoldCase.simps [simp del]

subsection \<open>Sizes from the printer\<close>

text \<open>Integers of the package \<^verbatim>\<open>goipp\<close> have 32 bits.\<close>

fun int32Attrs :: "attribute list \<Rightarrow> bool"
and int32Values :: "(tag \<times> val) list \<Rightarrow> bool" where
  "int32Attrs [] = True"
| "int32Attrs (Attribute _ vs # as) = (int32Values vs \<and> int32Attrs as)"
| "int32Values [] = True"
| "int32Values ((_, v) # vs) =
     ((case v of Integer i \<Rightarrow> i < 2 ^ 31 | Range l u \<Rightarrow> u < 2 ^ 31 | Collection as \<Rightarrow> int32Attrs as | _ \<Rightarrow> True) \<and> int32Values vs)"

definition walkOK :: "walker \<Rightarrow> bool" where
  "walkOK w \<longleftrightarrow> (let s = collSize (walkCollection w) in XDimension s < 2 ^ 31 \<and> YDimension s < 2 ^ 31)"

lemma walkNames_OK: "walkOK (walkNames n vs w) = walkOK w"
  by (induction n vs w rule: walkNames.induct) (auto simp: Let_def walkOK_def split: option.splits)

lemma fixedInteger_32: "fixedInteger vs = Some i \<Longrightarrow> int32Values vs \<Longrightarrow> i < 2 ^ 31"
  by (auto simp: fixedInteger_def split: list.split_asm val.split_asm if_splits)

lemma walkMember_OK:
  assumes "walkOK w" "int32Values vs"
  shows "walkOK (walkMember n vs w)"
proof -
  have upd: "walkOK (onSize f w)" if "\<And>s. XDimension (f s) = XDimension s" "\<And>s. YDimension (f s) = YDimension s" for f
    using assms(1) that by (simp add: walkOK_def onSize_def Let_def)
  have "walkOK (onSize (\<lambda>s. s\<lparr>XDimension := i\<rparr>) w)" "walkOK (onSize (\<lambda>s. s\<lparr>YDimension := i\<rparr>) w)"
    if "fixedInteger vs = Some i" for i
    using assms(1) fixedInteger_32 [OF that assms(2)] by (simp_all add: walkOK_def onSize_def Let_def)
  then have x: "walkOK (case fixedInteger vs of None \<Rightarrow> w | Some i \<Rightarrow> if P i then onSize (\<lambda>s. s\<lparr>XDimension := i\<rparr>) w else w)"
    "walkOK (case fixedInteger vs of None \<Rightarrow> w | Some i \<Rightarrow> if P i then onSize (\<lambda>s. s\<lparr>YDimension := i\<rparr>) w else w)" for P
    using assms(1) by (simp_all split: option.split)
  have k: "walkOK (case k of None \<Rightarrow> w | Some i \<Rightarrow> if P i then onSize (f i) w else w)"
    if "\<And>i s. XDimension (f i s) = XDimension s" "\<And>i s. YDimension (f i s) = YDimension s"
    for k :: "'a option" and P f
    using assms(1) upd that by (simp split: option.split)
  have choice: "walkOK a \<Longrightarrow> walkOK b \<Longrightarrow> walkOK (if Q then a else b)" for Q a b by simp
  show ?thesis
    unfolding walkMember_def Let_def
    by (intro choice x k) (simp_all add: assms(1) walkNames_OK)
qed

lemma walk_OK:
  "int32Attrs as \<Longrightarrow> walkOK w \<Longrightarrow> walkOK (walkAttrs as w)"
  "int32Values vs \<Longrightarrow> walkOK w \<Longrightarrow> walkOK (walkValues vs w)"
  by (induction as w and vs w rule: walkAttrs_walkValues.induct) (auto intro: walkMember_OK)

lemma collection_dims: "int32Values [(t, v)] \<Longrightarrow> mediaCollectionFromValue v = Some c \<Longrightarrow> dimsOK (collSize c)"
proof (cases v)
  case (Collection as)
  assume "int32Values [(t, v)]" and c: "mediaCollectionFromValue v = Some c"
  define w where "w = walkAttrs as \<lparr>walkCollection = \<lparr>collSize = zeroMediaSize, collNames = [], collReady = False\<rparr>,
                mediaSizeName = [], mediaKey = []\<rparr>"
  have "walkOK w" unfolding w_def
    by (rule walk_OK(1)) (use \<open>int32Values [(t, v)]\<close> Collection in \<open>simp_all add: walkOK_def zeroMediaSize_def\<close>)
  moreover from c Collection have "c = mediaCollectionFromAttrs as"
    by (auto simp: mediaCollectionFromValue_def Let_def split: if_splits)
  ultimately show ?thesis by (simp add: mediaCollectionFromAttrs_def w_def [symmetric] Let_def dimsOK_def walkOK_def)
qed (simp_all add: mediaCollectionFromValue_def)

lemma upstream_dims:
  assumes "int32Attrs up"
  shows "\<forall>c \<in> set (upstreamMediaCollections up). dimsOK (collSize c)"
proof -
  have vals: "\<forall>c \<in> set (collectionsOf b vs). dimsOK (collSize c)" if "int32Values vs" for b vs
    using that
  proof (induction vs)
    case (Cons p vs)
    obtain t v where p: "p = (t, v)" by fastforce
    with Cons.prems have "int32Values [(t, v)]" "int32Values vs" by auto
    with Cons.IH collection_dims show ?case by (auto simp: p split: option.splits)
  qed simp
  show ?thesis using assms
  proof (induction up)
    case (Cons a up)
    with vals show ?case by (cases a) (auto simp: Let_def)
  qed simp
qed

subsection \<open>Well-formed requests stay well formed\<close>

lemma setLoop_distinct:
  assumes "\<forall>a \<in> set xs. lname a = lname k \<longrightarrow> EqualFold (attrName a) (attrName k)" "distinct (map lname xs)"
  shows "distinct (map lname (setLoop k replaced xs))" "replaced \<Longrightarrow> lname k \<notin> lname ` set (setLoop k replaced xs)"
proof -
  have names: "lname k \<notin> lname ` {b \<in> set xs. \<not> EqualFold (attrName b) (attrName k)}" using assms(1) by auto
  then show "replaced \<Longrightarrow> lname k \<notin> lname ` set (setLoop k replaced xs)" by (simp add: set_setLoop)
  show "distinct (map lname (setLoop k replaced xs))"
    using assms
  proof (induction xs arbitrary: replaced)
    case (Cons a xs)
    have "lname k \<notin> lname ` {b \<in> set xs. \<not> EqualFold (attrName b) (attrName k)}" using Cons.prems(1) by auto
    with Cons show ?case by (auto simp: set_setLoop)
  qed simp
qed

lemma sanitize_attrName: "a \<in> set (sanitizeOverrides xs v) \<Longrightarrow> \<exists>b \<in> set xs. attrName a = attrName b"
  by (auto simp: mem_sanitize dest: sanitized_facts(1))

lemma sanitize_ascii: "asciiNames xs \<Longrightarrow> asciiNames (sanitizeOverrides xs v)"
  using sanitize_attrName unfolding asciiNames_def by metis

lemma sanitize_names:
  "distinct (map lname xs) \<Longrightarrow> distinct (map lname (sanitizeOverrides xs v))"
  "lname ` set (sanitizeOverrides xs v) \<subseteq> lname ` set xs"
proof -
  show sub: "lname ` set (sanitizeOverrides xs v) \<subseteq> lname ` set xs" for xs
  proof
    fix n assume "n \<in> lname ` set (sanitizeOverrides xs v)"
    then obtain a b where "n = lname a" "b \<in> set xs" "attrName a = attrName b" using sanitize_attrName by blast
    then show "n \<in> lname ` set xs" by (metis imageI lname_def)
  qed
  show "distinct (map lname xs) \<Longrightarrow> distinct (map lname (sanitizeOverrides xs v))"
  proof (induction xs)
    case (Cons a xs)
    with sub [of xs] show ?case
      by (auto simp: lname_def dest!: sanitized_facts(1) split: option.splits)
  qed simp
qed

text \<open>The names the policy uses, in lower case as they are.\<close>

lemma policy_names:
  "\<forall>n \<in> {''media'', ''media-col'', ''media-type'', ''media-source'', ''print-color-mode'', ''output-mode'', ''print-scaling'',
      ''overrides'', ''copies'', ''pages'', ''document-numbers''}. FoldCase n = n \<and> ToLower n = n"
  "\<forall>n \<in> {''media'', ''media-col'', ''media-type'', ''media-source'', ''print-color-mode'', ''output-mode''}.
      n \<in> set (map ToLower policyDropAttrs)"
  by code_simp+

lemma fold_names: "FoldCase ''copies'' = ''copies''" "FoldCase ''overrides'' = ''overrides''"
  using policy_names(1) by simp_all

lemma own_lname:
  "lname (Keyword ''media'' x) = ''media''" "lname (Keyword ''media-type'' x) = ''media-type''"
  "lname (Keyword ''media-source'' x) = ''media-source''" "lname (Keyword ''print-color-mode'' x) = ''print-color-mode''"
  "lname (Keyword ''output-mode'' x) = ''output-mode''" "lname (Keyword ''print-scaling'' x) = ''print-scaling''"
  "lname (mediaColJobAttr ''media-col'' s t u) = ''media-col''"
  unfolding lname_def Keyword_def mediaColJobAttr_def attribute.sel by code_simp+

lemma own_name_lists:
  "map lname (mediaAttrs policy sel) \<in> {[''media-col''], [''media''], [''media'', ''media-type''], [''media'', ''media-source''],
      [''media'', ''media-type'', ''media-source'']}"
  "map lname (colorAttrs policy) \<in> {[''print-color-mode''], [''print-color-mode'', ''output-mode'']}"
  by (auto simp: mediaAttrs_def colorAttrs_def own_lname)

lemma normalized_distinct:
  assumes "distinct (map lname xs)" "asciiNames xs" "\<forall>a \<in> set xs. \<not> controlled opts (attrName a)"
  shows "distinct (map lname (setScaling policy (sanitizeOverrides xs v @ mediaAttrs policy sel) @ colorAttrs policy))"
proof -
  let ?S = "sanitizeOverrides xs v" and ?M = "mediaAttrs policy sel"
  have free: "lname a \<notin> {''media'', ''media-col'', ''media-type'', ''media-source'', ''print-color-mode'', ''output-mode''}"
    if "a \<in> set ?S" for a
  proof -
    have "lname a \<in> lname ` set xs" using that sanitize_names(2) by blast
    then obtain b where "b \<in> set xs" "lname a = ToLower (attrName b)" unfolding lname_def by blast
    with assms(3) have "lname a \<notin> set (map ToLower policyDropAttrs)" unfolding controlled_def by auto
    with policy_names(2) show ?thesis by auto
  qed
  have M: "lname ` set ?M \<subseteq> {''media'', ''media-col'', ''media-type'', ''media-source''}" "distinct (map lname ?M)"
    using own_name_lists(1) [of policy sel] by (auto simp flip: set_map)
  have C: "lname ` set (colorAttrs policy) \<subseteq> {''print-color-mode'', ''output-mode''}" "distinct (map lname (colorAttrs policy))"
    using own_name_lists(2) [of policy] by (auto simp flip: set_map)
  have SM: "distinct (map lname (?S @ ?M))" using sanitize_names(1) [OF assms(1)] M free by auto
  have "\<forall>a \<in> set (?S @ ?M). lname a = ''print-scaling'' \<longrightarrow> EqualFold (attrName a) ''print-scaling''"
  proof (intro ballI impI)
    fix a assume a: "a \<in> set (?S @ ?M)" "lname a = ''print-scaling''"
    with M have "a \<in> set ?S" by auto
    then have "ascii (attrName a)" using sanitize_ascii [OF assms(2)] by (simp add: asciiNames_def)
    with a policy_names(1) show "EqualFold (attrName a) ''print-scaling''" by (simp add: EqualFold_lower lname_def)
  qed
  with SM have "distinct (map lname (setScaling policy (?S @ ?M)))"
    using setLoop_distinct(1) [of "?S @ ?M" "Keyword ''print-scaling'' s" for s] policy_names(1)
    by (auto simp: setScaling_def SetAttr_def own_lname split: option.splits) (simp_all add: Keyword_def)
  moreover have "n \<notin> {''print-color-mode'', ''output-mode''}" if "n \<in> lname ` set (setScaling policy (?S @ ?M))" for n
  proof -
    have "lname ` set (scalingAttrs policy) \<subseteq> {''print-scaling''}" by (auto simp: scalingAttrs_def own_lname split: option.splits)
    with that consider "n = ''print-scaling''" | a where "a \<in> set ?S" "n = lname a" | "n \<in> lname ` set ?M"
      by (auto simp: set_setScaling)
    then show ?thesis
    proof cases
      case 2
      with free [OF 2(1)] show ?thesis by simp
    next
      case 3
      with M(1) have "n \<in> {''media'', ''media-col'', ''media-type'', ''media-source''}" by blast
      then show ?thesis by auto
    qed simp
  qed
  then have "lname ` set (setScaling policy (?S @ ?M)) \<inter> lname ` set (colorAttrs policy) = {}" using C(1) by blast
  ultimately show ?thesis using C(2) by simp
qed

text \<open>Looking up a name in the normalized attributes.\<close>

lemma own_fold:
  "\<forall>n \<in> {''media'', ''media-col'', ''copies'', ''overrides''}.
     \<not> EqualFold ''print-scaling'' n \<and> \<not> EqualFold ''print-color-mode'' n \<and> \<not> EqualFold ''output-mode'' n"
  "\<forall>n \<in> {''copies'', ''overrides''}. \<not> EqualFold ''media'' n \<and> \<not> EqualFold ''media-col'' n \<and> \<not> EqualFold ''media-type'' n
     \<and> \<not> EqualFold ''media-source'' n"
  "\<not> EqualFold ''media'' ''media-col''" "\<not> EqualFold ''media-col'' ''media''" "\<not> EqualFold ''media-type'' ''media''"
  "\<not> EqualFold ''media-source'' ''media''" "\<not> EqualFold ''media-type'' ''media-col''" "\<not> EqualFold ''media-source'' ''media-col''"
  by code_simp+

lemma Attr_normalized:
  assumes "n \<in> {''media'', ''media-col'', ''copies'', ''overrides''}"
  shows "Attr (setScaling policy xs @ colorAttrs policy) n = Attr xs n"
proof -
  have "Attr (colorAttrs policy) n = None"
    using assms own_fold(1) by (auto simp: colorAttrs_def Keyword_def Attr_None)
  moreover have "Attr (setScaling policy xs) n = Attr xs n"
    using assms own_fold(1) attrs.get_put_other [of "Keyword ''print-scaling'' s" n xs for s]
    by (auto simp: setScaling_def Keyword_def split: option.splits)
  ultimately show ?thesis by (simp add: Attr_append split: option.splits)
qed

lemma Attr_media:
  "Attr (mediaAttrs policy sel) ''media'' = (if UseMediaCol policy then None else Some (Keyword ''media'' (sizeName sel)))"
  "Attr (mediaAttrs policy sel) ''media-col'' =
     (if UseMediaCol policy then Some (mediaColJobAttr ''media-col'' sel (policyMediaType policy) (policyMediaSource policy)) else None)"
  "Attr (mediaAttrs policy sel) ''copies'' = None" "Attr (mediaAttrs policy sel) ''overrides'' = None"
  using own_fold by (auto simp: mediaAttrs_def Keyword_def mediaColJobAttr_def EqualFold_refl Attr_None)

lemma sint_32: "0 < i \<Longrightarrow> i < 2 ^ 31 \<Longrightarrow> sint (word_of_int i :: 32 word) = i"
  by (simp add: signed_of_int signed_take_bit_int_eq_self)

text \<open>A job collection the policy writes for a size with dimensions is a valid media collection.\<close>

lemma mediaColJobAttr_valid:
  assumes "HasDimension sel" "dimsOK sel" "mediaType = [] \<or> TrimSpace mediaType \<noteq> []" "mediaSource = [] \<or> TrimSpace mediaSource \<noteq> []"
  shows "mediaColSpec (mediaColJobAttr ''media-col'' sel mediaType mediaSource)"
proof -
  let ?x = "IntegerAttr ''x-dimension'' (XDimension sel)" and ?y = "IntegerAttr ''y-dimension'' (YDimension sel)"
  define size where "size = Attribute ''media-size'' [(TagBeginCollection, Collection [?x, ?y])]"
  define rest where "rest = keywordMember ''media-type'' mediaType @ keywordMember ''media-source'' mediaSource"
  have names: "lname ?x = ''x-dimension''" "lname ?y = ''y-dimension''" "lname size = ''media-size''"
    "lname (Keyword ''media-type'' mediaType) = ''media-type''" "lname (Keyword ''media-source'' mediaSource) = ''media-source''"
    unfolding lname_def IntegerAttr_def Keyword_def size_def attribute.sel by code_simp+
  have kinds: "kind ?x = XMember" "kind ?y = YMember" "kind size = SizeMember"
    "kind (Keyword ''media-type'' mediaType) = KeywordMember" "kind (Keyword ''media-source'' mediaSource) = KeywordMember"
    unfolding names by code_simp+
  have dims: "0 < XDimension sel" "XDimension sel < 2 ^ 31" "0 < YDimension sel" "YDimension sel < 2 ^ 31"
    using assms(1,2) by (simp_all add: dimsOK_def)
  have pos: "validMediaColPositiveInteger ?x" "validMediaColPositiveInteger ?y"
    using dims sint_32 by (simp_all add: validMediaColPositiveInteger_def IntegerAttr_def)
  have nest: "nested size = [?x, ?y]" "collectionOf size = Some [?x, ?y]"
    unfolding nested_def kinds by (simp_all add: size_def collectionOf_def)
  have "sizeMembers [?x, ?y]" unfolding sizeMembers_def using kinds pos by auto
  then have sizeOK: "sizeOK size" unfolding sizeOK_def nest using kinds by auto
  have plain: "m \<in> set rest \<Longrightarrow> plainMember m" for m
    using assms(3,4) kinds(4,5)
    by (auto simp: rest_def keywordMember_def plainMember_def validMediaColKeyword_def Keyword_def split: if_splits)
  have rest: "flatNames rest \<in> {[], [''media-type''], [''media-source''], [''media-type'', ''media-source'']}"
    unfolding rest_def keywordMember_def flatNames_def using names(4,5) kinds(4,5) by (auto simp: nested_def)
  have col: "collectionOf (mediaColJobAttr ''media-col'' sel mediaType mediaSource) = Some (size # rest)"
    using assms(1) by (simp add: collectionOf_def mediaColJobAttr_def mediaSizeMember_def size_def rest_def)
  have "topMembers (size # rest)" using sizeOK kinds(3) plain by (auto simp: topMembers_def)
  moreover have "selecting (size # rest)" using kinds(3) by (simp add: selecting_def)
  moreover have "flatNames (size # rest) = [''media-size'', ''x-dimension'', ''y-dimension''] @ flatNames rest"
    by (simp add: flatNames_def nest names)
  then have "distinct (flatNames (size # rest))" using rest by auto
  ultimately show ?thesis using col by (auto simp: mediaColSpec_def)
qed

lemma dropNested_lookup:
  assumes "asciiNames as" "FoldCase n = n" "n \<notin> set names"
  shows "Attr (dropNested names as) n = map_option (\<lambda>a. Attribute (attrName a) (dropNestedValues names (attrValues a))) (Attr as n)"
  using assms(1)
proof (induction as)
  case (Cons a as)
  then show ?case using assms(2,3) by (cases a) (auto simp: asciiNames_def EqualFold_lower)
qed simp

lemma ranges_kept: "validPositiveRanges a \<Longrightarrow> dropNestedValues names (attrValues a) = attrValues a"
proof -
  have "\<forall>v \<in> set vs. (case v of (TagRange, Range lower upper) \<Rightarrow> lower \<ge> 1 \<and> upper \<ge> lower | _ \<Rightarrow> False) \<Longrightarrow>
    dropNestedValues names vs = vs" for vs
  proof (induction vs)
    case (Cons p vs)
    obtain t v where "p = (t, v)" by fastforce
    with Cons show ?case by (cases v) (auto split: tag.splits)
  qed simp
  then show "validPositiveRanges a \<Longrightarrow> dropNestedValues names (attrValues a) = attrValues a"
    by (simp add: validPositiveRanges_def)
qed

lemma sanitized_override:
  assumes "overrideOK v" "allNamesIn ascii [v]" "\<not> controlled opts ''pages''" "\<not> controlled opts ''document-numbers''"
    "w \<in> set (sanitizeValues (DropVendorAttrs opts) [v])"
  shows "overrideOK w"
proof -
  let ?N = "map ToLower (policyDropAttrs @ DropVendorAttrs opts)"
  obtain as sel where v: "v = (TagBeginCollection, Collection as)" and sel: "validPositiveRanges sel"
    "(Attr as ''pages'' = Some sel \<and> Attr as ''document-numbers'' = None) \<or>
     (Attr as ''document-numbers'' = Some sel \<and> Attr as ''pages'' = None)"
    using assms(1) by (auto simp: overrideOK_def)
  define bs where "bs = dropNested ?N as"
  define sel' where "sel' = Attribute (attrName sel) (dropNestedValues ?N (attrValues sel))"
  have w: "w = (TagBeginCollection, Collection bs)" "hasOverridePayload bs"
    using assms(5) by (auto simp: v Let_def dropNestedPolicyAttrs_def bs_def split: if_splits)
  have ascii: "asciiNames as" using assms(2) by (simp add: v asciiNames_def allNames_all)
  have free: "''pages'' \<notin> set ?N" "''document-numbers'' \<notin> set ?N"
    using assms(3,4) policy_names(1) by (simp_all add: controlled_def)
  note look = dropNested_lookup [OF ascii, of "''pages''" ?N, folded bs_def] dropNested_lookup [OF ascii, of "''document-numbers''" ?N, folded bs_def]
  have found: "(Attr bs ''pages'' = Some sel' \<and> Attr bs ''document-numbers'' = None) \<or>
     (Attr bs ''document-numbers'' = Some sel' \<and> Attr bs ''pages'' = None)"
    using sel(2) free policy_names(1) look by (auto simp: sel'_def)
  have ranges: "validPositiveRanges sel'" using sel(1) by (simp add: sel'_def ranges_kept validPositiveRanges_def)
  have "sel' \<in> set bs" using found Attr_name by blast
  moreover have "lname sel' \<in> set overrideSelectors"
  proof -
    have "lname sel \<in> {''pages'', ''document-numbers''}"
      using sel(2) Attr_Some(1) [OF ascii] policy_names(1) by blast
    moreover have "{''pages'', ''document-numbers''} \<subseteq> set overrideSelectors" by code_simp
    ultimately show ?thesis by (auto simp: lname_def sel'_def)
  qed
  moreover obtain b where "b \<in> set bs" "lname b \<notin> set overrideSelectors" using w(2) by (auto simp: hasOverridePayload_def lname_def)
  ultimately have "length bs \<ge> 2" by (cases bs; cases "tl bs") auto
  with w(1) found ranges show ?thesis by (auto simp: overrideOK_def)
qed

lemma sanitizeValues_each: "w \<in> set (sanitizeValues v vs) \<Longrightarrow> \<exists>x \<in> set vs. w \<in> set (sanitizeValues v [x])"
proof (induction vs)
  case (Cons p vs)
  obtain t x where "p = (t, x)" by fastforce
  with Cons show ?case by (cases x) (auto simp: Let_def split: if_splits)
qed simp

lemma allNamesIn_each: "allNamesIn P vs \<Longrightarrow> x \<in> set vs \<Longrightarrow> allNamesIn P [x]"
proof (induction vs)
  case (Cons p vs)
  obtain t y where "p = (t, y)" by fastforce
  with Cons show ?case by (cases y) auto
qed simp

text \<open>What is left of the client's attributes before the policy adds its own.\<close>

definition keptAttrs :: "NormalizationOptions \<Rightarrow> attribute list \<Rightarrow> attribute list" where
  "keptAttrs opts attrs = filter (\<lambda>a. \<not> controlled opts (attrName a)) (filter (allowedJobAttr opts) attrs)"

lemma kept_facts:
  assumes "distinct (map lname attrs)" "allNames ascii attrs"
  shows "set (keptAttrs opts attrs) \<subseteq> set attrs" "distinct (map lname (keptAttrs opts attrs))" "asciiNames (keptAttrs opts attrs)"
    "\<forall>a \<in> set (keptAttrs opts attrs). \<not> controlled opts (attrName a)"
  using assms by (auto simp: keptAttrs_def asciiNames_def allNames_all distinct_map_filter)

lemma kept_lookup:
  fixes opts attrs
  defines "S \<equiv> sanitizeOverrides (keptAttrs opts attrs) (DropVendorAttrs opts)"
  assumes "distinct (map lname attrs)" "allNames ascii attrs"
  shows "Attr S ''media'' = None" "Attr S ''media-col'' = None"
    "Attr S ''copies'' = Some a \<Longrightarrow> Attr attrs ''copies'' = Some a"
    "Attr S ''overrides'' = Some a \<Longrightarrow> \<exists>b. Attr attrs ''overrides'' = Some b \<and> sanitizeOverridesAttr b (DropVendorAttrs opts) = Some a"
proof -
  note k = kept_facts [OF assms(2,3), where opts = opts]
  have names: "asciiNames attrs" using assms(3) by (simp add: asciiNames_def allNames_all)
  have ascii: "asciiNames S" unfolding S_def by (rule sanitize_ascii [OF k(3)])
  have same: "EqualFold (attrName b) n \<longleftrightarrow> lname b = n" if "b \<in> set attrs" "FoldCase n = n" for b n
    using that names by (simp add: asciiNames_def EqualFold_lower lname_def)
  have drop: "Attr S n = None" if "n \<in> {''media'', ''media-col''}" for n
  proof (rule ccontr)
    assume "Attr S n \<noteq> None"
    moreover have "FoldCase n = n" using that policy_names(1) by auto
    ultimately obtain a where "a \<in> set S" "lname a = n" using Attr_Some(1) [OF ascii] by blast
    then obtain b where "b \<in> set (keptAttrs opts attrs)" "lname b = n"
      using sanitize_attrName [of a] unfolding S_def lname_def by metis
    with k(4) have "\<not> controlled opts (attrName b)" "n = ToLower (attrName b)" by (simp_all add: lname_def)
    then have "n \<notin> set (map ToLower policyDropAttrs)" unfolding controlled_def by simp
    with that policy_names(2) show False by auto
  qed
  then show "Attr S ''media'' = None" "Attr S ''media-col'' = None" by simp_all
  have "''copies'' \<noteq> ''overrides''" by simp
  show "Attr attrs ''copies'' = Some a" if "Attr S ''copies'' = Some a"
  proof -
    from that have a: "a \<in> set S" "lname a = ''copies''" using Attr_Some(1) [OF ascii fold_names(1) that] by simp_all
    moreover have "lname c \<noteq> ''copies''" if "c \<in> set attrs" "EqualFold (attrName c) ''overrides''" for c
      using that same [OF _ fold_names(2)] by simp
    then have "lname a \<noteq> ''copies''" if "c \<in> set attrs" "EqualFold (attrName c) ''overrides''"
      "sanitizeOverridesAttr c (DropVendorAttrs opts) = Some a" for c
      using that(1,2) sanitized_facts(1) [OF that(3)] by (simp add: lname_def)
    ultimately have "a \<in> set (keptAttrs opts attrs)" using k(1) unfolding S_def mem_sanitize by auto
    then have "a \<in> set attrs" using k(1) by blast
    with a show ?thesis using Attr_Some(2) [OF names fold_names(1) assms(2)] by simp
  qed
  show "\<exists>b. Attr attrs ''overrides'' = Some b \<and> sanitizeOverridesAttr b (DropVendorAttrs opts) = Some a" if "Attr S ''overrides'' = Some a"
  proof -
    from that have a: "a \<in> set S" "lname a = ''overrides''" using Attr_Some(1) [OF ascii fold_names(2) that] by simp_all
    moreover have "EqualFold (attrName a) ''overrides''" using that Attr_name by blast
    ultimately obtain b where b: "b \<in> set attrs" "sanitizeOverridesAttr b (DropVendorAttrs opts) = Some a"
      using k(1) unfolding S_def mem_sanitize by blast
    then have "lname b = ''overrides''" using a(2) sanitized_facts(1) by (metis lname_def)
    with b show ?thesis using Attr_Some(2) [OF names fold_names(2) assms(2)] by blast
  qed
qed

lemma normalized_values:
  assumes "valuesOK sprint msg" "out = setScaling policy (S @ mediaAttrs policy sel) @ colorAttrs policy"
    "Attr S ''media'' = None" "Attr S ''media-col'' = None" "\<And>a. Attr S ''copies'' = Some a \<Longrightarrow> Attr (msgJob msg) ''copies'' = Some a"
    "UseMediaCol policy \<Longrightarrow> mediaColSpec (mediaColJobAttr ''media-col'' sel (policyMediaType policy) (policyMediaSource policy))"
  shows "valuesOK sprint (msg\<lparr>msgJob := out\<rparr>)"
    "Attr out ''media'' = None \<or> Attr out ''media-col'' = None" "Attr out ''overrides'' = Attr S ''overrides''"
proof -
  have look: "Attr out n = (case Attr S n of None \<Rightarrow> Attr (mediaAttrs policy sel) n | Some a \<Rightarrow> Some a)"
    if "n \<in> {''media'', ''media-col'', ''copies'', ''overrides''}" for n
    using Attr_normalized [OF that] by (simp add: assms(2) Attr_append)
  show "Attr out ''media'' = None \<or> Attr out ''media-col'' = None" by (simp add: look assms(3,4) Attr_media)
  show "Attr out ''overrides'' = Attr S ''overrides''" by (simp add: look Attr_media split: option.splits)
  have copies: "Attr out ''copies'' = Some a \<Longrightarrow> Attr (msgJob msg) ''copies'' = Some a" for a
    using assms(5) by (auto simp: look Attr_media split: option.splits)
  have media: "Attr out ''media'' = Some a \<Longrightarrow> attrValues a = [(TagKeyword, String (sizeName sel))]" for a
    by (auto simp: look assms(3) Attr_media Keyword_def split: if_splits)
  have mediaCol: "Attr out ''media-col'' = Some a \<Longrightarrow> (\<exists>v. attrValues a = [(TagBeginCollection, v)]) \<and> mediaColSpec a" for a
    using assms(6) by (auto simp: look assms(4) Attr_media split: if_splits) (simp add: mediaColJobAttr_def)
  show "valuesOK sprint (msg\<lparr>msgJob := out\<rparr>)"
    using assms(1) by (auto simp: valuesOK_def rules_def mkRule_def dest: copies media mediaCol)
qed

text \<open>
  C26: a request that passed the validation passes it again after the policy of its queue has replaced
  its job attributes, whatever attributes the client sent: no name occurs twice, the medium is given
  once and with the right type, a media collection has valid dimensions, and overrides still select
  pages or documents. The queue must have passed its check against the printer, and the
  configuration must not drop the selectors of overrides.
\<close>

theorem normalized_request_accepted:
  assumes "ValidateProtocolRequest sprint tagName authority (Some msg) printerURI hasPayload = None"
    "NormalizeJobAttrsWithOptions sprint (msgJob msg) opts = Inr r"
    "ValidatePolicyAgainstUpstream (optUpstream opts) (optPolicy opts) = None"
    "int32Attrs (optUpstream opts)" "allNames ascii (msgJob msg)"
    "policyMediaType (optPolicy opts) = [] \<or> TrimSpace (policyMediaType (optPolicy opts)) \<noteq> []"
    "\<not> controlled opts ''pages''" "\<not> controlled opts ''document-numbers''"
  shows "ValidateProtocolRequest sprint tagName authority (Some (msg\<lparr>msgJob := resAttrs r\<rparr>)) printerURI hasPayload = None"
proof -
  let ?policy = "optPolicy opts"
  define S where "S = sanitizeOverrides (keptAttrs opts (msgJob msg)) (DropVendorAttrs opts)"
  from assms(2) obtain sel req rc fb
    where m: "effectiveMedia sprint (filter (allowedJobAttr opts) (msgJob msg)) ?policy (optUpstream opts) = (sel, req, rc, fb)"
      and res: "resAttrs r = setScaling ?policy (S @ mediaAttrs ?policy sel) @ colorAttrs ?policy"
    unfolding S_def keptAttrs_def by (rule normalized_attrs)
  from assms(1) have ok: "acceptable sprint authority msg printerURI hasPayload" by (simp add: validation_iff)
  then have d: "distinct (map lname (msgJob msg))" by (simp add: acceptable_def namesOK_def)
  note k = kept_facts [OF d assms(5), where opts = opts] and look = kept_lookup [OF d assms(5), where opts = opts, folded S_def]
  have "HasDimension sel" "dimsOK sel"
    using effectiveMedia_in(1) [OF m] assms(3) catalog_sizes(3) [OF upstream_dims [OF assms(4)]]
    by (auto simp: ValidatePolicyAgainstUpstream_def find_None_iff split: option.splits if_splits)
  then have col: "mediaColSpec (mediaColJobAttr ''media-col'' sel (policyMediaType ?policy) (policyMediaSource ?policy))"
    by (rule mediaColJobAttr_valid) (use assms(6) in \<open>auto simp: policyMediaSource_def split: option.splits\<close>)
  have vals: "valuesOK sprint msg" using ok by (simp add: acceptable_def)
  note norm = normalized_values [OF vals res look(1,2,3) col]
  have names: "distinct (map lname (resAttrs r))" unfolding res S_def by (rule normalized_distinct [OF k(2,3,4)])
  have overrides: "overridesOK (msg\<lparr>msgJob := resAttrs r\<rparr>)"
    unfolding overridesOK_def
  proof (intro allI impI)
    fix a assume "Attr (msgJob (msg\<lparr>msgJob := resAttrs r\<rparr>)) ''overrides'' = Some a"
    then obtain b where b: "Attr (msgJob msg) ''overrides'' = Some b" "sanitizeOverridesAttr b (DropVendorAttrs opts) = Some a"
      using norm(3) look(4) by auto
    have "allNamesIn ascii (attrValues b)" using assms(5) Attr_name [OF b(1)] by (auto simp: allNames_all)
    then have "overrideOK w" if "w \<in> set (attrValues a)" for w
      using sanitized_override [OF _ _ assms(7,8)] that b sanitizeValues_each allNamesIn_each ok
      unfolding acceptable_def overridesOK_def sanitizeOverridesAttr_def Let_def
      by (metis (no_types, lifting) attribute.sel(2) option.distinct(1) option.inject)
    then show "attrValues a \<noteq> [] \<and> (\<forall>v \<in> set (attrValues a). overrideOK v)"
      using b(2) by (auto simp: sanitizeOverridesAttr_def Let_def split: if_splits)
  qed
  have "groupsOK (msg\<lparr>msgJob := out\<rparr>) = groupsOK msg" "headOK sprint (msg\<lparr>msgJob := out\<rparr>) = headOK sprint msg"
    "targetOK sprint authority (msg\<lparr>msgJob := out\<rparr>) printerURI = targetOK sprint authority msg printerURI"
    "payloadOK (msg\<lparr>msgJob := out\<rparr>) hasPayload = payloadOK msg hasPayload" for out
    by (simp_all add: groupsOK_def headOK_def targetOK_def payloadOK_def cong: option.case_cong)
  with ok norm(1,2) names overrides have "acceptable sprint authority (msg\<lparr>msgJob := resAttrs r\<rparr>) printerURI hasPayload"
    by (simp add: acceptable_def namesOK_def)
  then show ?thesis by (simp add: validation_iff)
qed

subsection \<open>What the client is told\<close>

lemma substitution_facts:
  assumes "NormalizeJobAttrsWithOptions sprint attrs opts = Inr r"
  shows "set (resUnsupported r) \<subseteq> set attrs" "Substituted r \<longleftrightarrow> resUnsupported r \<noteq> []"
    "Fidelity opts \<longrightarrow> FidelityMode opts = FidelityReject \<longrightarrow> resUnsupported r = []"
    "\<forall>a \<in> set attrs. \<not> controlled opts (attrName a) \<and> \<not> listedAttr opts (attrName a) \<longrightarrow> a \<in> set (resUnsupported r) \<and> \<not> Fidelity opts"
    "Attr attrs ''media'' = Some a \<longrightarrow> a \<in> set (resUnsupported r) \<or>
       \<not> MediaFallback (resLog r) \<and> HasStringValue (resAttrs r) ''media'' (ClientMedia (resLog r))"
    "\<forall>(name, want) \<in> {(''media-type'', policyMediaType (optPolicy opts)), (''media-source'', policyMediaSource (optPolicy opts)),
         (''print-color-mode'', PrintColorMode (optPolicy opts)), (''output-mode'', PrintColorMode (optPolicy opts))}.
       Attr attrs name = Some a \<longrightarrow> a \<in> set (resUnsupported r) \<or>
       EqualFold (TrimSpace (orEmpty (FirstString sprint attrs name))) (TrimSpace want)"
    "\<forall>v \<in> set (DropVendorAttrs opts). Attr attrs v = Some a \<longrightarrow> a \<in> set (resUnsupported r)"
proof -
  let ?un = "filter (\<lambda>a. \<not> allowedJobAttr opts a) attrs"
  let ?subs = "substitutions sprint attrs opts (resAttrs r) (resLog r)"
  have r: "resUnsupported r = ?un @ map snd ?subs" "Substituted r \<longleftrightarrow> ?un \<noteq> [] \<or> ?subs \<noteq> []"
    "Fidelity opts \<Longrightarrow> ?un = []" "Fidelity opts \<Longrightarrow> FidelityMode opts = FidelityReject \<Longrightarrow> \<not> Substituted r"
    using assms by (auto simp: NormalizeJobAttrsWithOptions_def Let_def FidelityReject_def FidelityWarn_def split: if_split_asm prod.split_asm)
  show "Substituted r \<longleftrightarrow> resUnsupported r \<noteq> []" by (simp add: r)
  show "Fidelity opts \<longrightarrow> FidelityMode opts = FidelityReject \<longrightarrow> resUnsupported r = []" using r by auto
  have subs: "snd p \<in> set attrs" if "p \<in> set ?subs" for p
    using that by (auto simp: substitutions_def Let_def split: option.split_asm if_split_asm dest!: Attr_name [OF sym])
  then show "set (resUnsupported r) \<subseteq> set attrs" by (auto simp: r(1))
  show "\<forall>a \<in> set attrs. \<not> controlled opts (attrName a) \<and> \<not> listedAttr opts (attrName a) \<longrightarrow> a \<in> set (resUnsupported r) \<and> \<not> Fidelity opts"
    using r(3) by (auto simp: r(1) allowed_split filter_empty_conv)
  show "Attr attrs ''media'' = Some a \<longrightarrow> a \<in> set (resUnsupported r) \<or>
       \<not> MediaFallback (resLog r) \<and> HasStringValue (resAttrs r) ''media'' (ClientMedia (resLog r))"
    by (auto simp: r(1) substitutions_def Let_def)
  show "\<forall>(name, want) \<in> {(''media-type'', policyMediaType (optPolicy opts)), (''media-source'', policyMediaSource (optPolicy opts)),
         (''print-color-mode'', PrintColorMode (optPolicy opts)), (''output-mode'', PrintColorMode (optPolicy opts))}.
       Attr attrs name = Some a \<longrightarrow> a \<in> set (resUnsupported r) \<or>
       EqualFold (TrimSpace (orEmpty (FirstString sprint attrs name))) (TrimSpace want)"
    by (simp add: r(1) substitutions_def Let_def image_Un) (auto split: if_splits)
  show "\<forall>v \<in> set (DropVendorAttrs opts). Attr attrs v = Some a \<longrightarrow> a \<in> set (resUnsupported r)"
  proof (intro ballI impI)
    fix v assume "v \<in> set (DropVendorAttrs opts)" "Attr attrs v = Some a"
    then have "(attrName a, a) \<in> set (concat (map (\<lambda>name. case Attr attrs name of Some a \<Rightarrow> [(attrName a, a)] | None \<Rightarrow> [])
        (DropVendorAttrs opts)))" by (auto intro!: bexI [of _ v])
    then have "(attrName a, a) \<in> set ?subs" unfolding substitutions_def Let_def set_append by blast
    then show "a \<in> set (resUnsupported r)" unfolding r(1) by (auto intro: rev_image_eqI)
  qed
qed


subsection \<open>A queue and its jobs\<close>

text \<open>A queue for A4 and Letter on a printer that knows both, and a job for Letter.\<close>

definition office :: PolicyConfig where
  "office = \<lparr>policyMedia = [], MediaSupported = [''iso_a4_210x297mm'', ''na_letter_8.5x11in''], MediaDefault = ''iso_a4_210x297mm'',
     policyMediaType = ''stationery'', PrintColorMode = ''monochrome'', policySource = None, PrintScaling = Some ''fit'',
     UseMediaCol = True, policyFidelity = ''reject''\<rparr>"

definition officePrinter :: "attribute list" where
  "officePrinter = [Keywords ''media-supported'' [''iso_a4_210x297mm'', ''na_letter_8.5x11in'']]"

definition officeOptions :: "bool \<Rightarrow> NormalizationOptions" where
  "officeOptions fidelity = \<lparr>optPolicy = office, optUpstream = officePrinter, DropVendorAttrs = [''PageSize''],
     PreserveJobAttrs = [''copies'', ''print-scaling'', ''overrides''], Fidelity = fidelity, FidelityMode = ''reject''\<rparr>"

definition letterJob :: "attribute list" where
  "letterJob = [Keyword ''media'' ''NA_Letter_8.5x11in'', IntegerAttr ''copies'' 2, Keyword ''PageSize'' ''A3'']"

definition officeRequest :: message where
  "officeRequest = \<lparr>msgCode = OpPrintJob, msgOperation = BasicOperationAttrs ''ipp://print.local/ipp/office'', msgJob = letterJob,
     msgDocument = [], msgSubscription = [], msgGroups = None\<rparr>"

lemma office_dimensions: "ValidatePolicyAgainstUpstream officePrinter office = None"
proof -
  let ?names = "[''iso_a4_210x297mm'', ''na_letter_8.5x11in'']"
  have names: "policyMediaNames office = ?names" by code_simp
  have "upstreamMediaCollections officePrinter = []" by code_simp
  then have inst: "instancesFor officePrinter office n = [completeInstance officePrinter office (baseFor n)]" for n
    by (simp add: instancesFor_def Let_def)
  have "mediaSizeFromPWGName ''iso_a4_210x297mm'' \<noteq> None" "mediaSizeFromPWGName ''na_letter_8.5x11in'' \<noteq> None" by code_simp+
  moreover have "Sizes (buildMediaCatalog officePrinter office) = concat (map (instancesFor officePrinter office) (policyMediaNames office))"
    by (simp add: buildMediaCatalog_def catalog_fold)
  ultimately have "\<forall>s \<in> set (Sizes (buildMediaCatalog officePrinter office)). HasDimension s"
    by (auto simp: names inst complete_facts(3) baseFor_def)
  then have "List.find (\<lambda>s. \<not> HasDimension s) (Sizes (buildMediaCatalog officePrinter office)) = None" by (simp add: find_None_iff)
  moreover have "List.find (\<lambda>m. \<not> mediaAdvertised officePrinter office m) ?names = None" by code_simp
  moreover have "Attr officePrinter ''print-color-mode-supported'' = None" "Attr officePrinter ''media-type-supported'' = None"
    "policyMediaSource office = []" by code_simp+
  ultimately show ?thesis by (simp add: ValidatePolicyAgainstUpstream_def names)
qed

lemma office_normalizes: "\<exists>r. NormalizeJobAttrsWithOptions sprint letterJob (officeOptions False) = Inr r"
proof -
  have "malformedPolicyAttributes letterJob = []" by code_simp
  then show ?thesis
    by (simp add: NormalizeJobAttrsWithOptions_def officeOptions_def FidelityReject_def Let_def split: prod.split)
qed

definition officeResult :: NormalizationResult where
  "officeResult = projr (NormalizeJobAttrsWithOptions (\<lambda>_. []) letterJob (officeOptions False))"

lemma office_result: "NormalizeJobAttrsWithOptions (\<lambda>_. []) letterJob (officeOptions False) = Inr officeResult"
  using office_normalizes [of "\<lambda>_. []"] by (auto simp: officeResult_def)

theorem normalized_request_accepted_witness:
  "ValidateProtocolRequest (\<lambda>_. []) (\<lambda>_. []) Some (Some (officeRequest\<lparr>msgJob := resAttrs officeResult\<rparr>)) ''ipp://print.local/ipp/office'' True = None"
proof (rule normalized_request_accepted [where opts = "officeOptions False"])
  show "ValidateProtocolRequest (\<lambda>_. []) (\<lambda>_. []) Some (Some officeRequest) ''ipp://print.local/ipp/office'' True = None" by code_simp
  have fields: "optPolicy (officeOptions False) = office" "optUpstream (officeOptions False) = officePrinter"
    by (simp_all add: officeOptions_def)
  show "NormalizeJobAttrsWithOptions (\<lambda>_. []) (msgJob officeRequest) (officeOptions False) = Inr officeResult"
    using office_result by (simp add: officeRequest_def)
  show "ValidatePolicyAgainstUpstream (optUpstream (officeOptions False)) (optPolicy (officeOptions False)) = None"
    unfolding fields by (rule office_dimensions)
  show "int32Attrs (optUpstream (officeOptions False))" "allNames ascii (msgJob officeRequest)"
    "policyMediaType (optPolicy (officeOptions False)) = [] \<or> TrimSpace (policyMediaType (optPolicy (officeOptions False))) \<noteq> []"
    "\<not> controlled (officeOptions False) ''pages''" "\<not> controlled (officeOptions False) ''document-numbers''" by code_simp+
qed



theorem policy_boundary_witness:
  "\<exists>sel \<in> set (Sizes (buildMediaCatalog officePrinter office)). sizeName sel = EffectiveMedia (resLog officeResult) \<and>
     set (ownAttrs office sel) \<subseteq> set (resAttrs officeResult) \<and> IntegerAttr ''copies'' 2 \<in> set (resAttrs officeResult) \<and>
     (\<forall>a \<in> set (resAttrs officeResult). a \<in> set (ownAttrs office sel) \<or> listedAttr (officeOptions False) (attrName a))"
proof -
  have copies: "IntegerAttr ''copies'' 2 \<in> set letterJob" "listedAttr (officeOptions False) (attrName (IntegerAttr ''copies'' 2))"
    "\<not> controlled (officeOptions False) (attrName (IntegerAttr ''copies'' 2))" "\<not> EqualFold (attrName (IntegerAttr ''copies'' 2)) ''overrides''"
    "\<not> EqualFold (attrName (IntegerAttr ''copies'' 2)) ''print-scaling''" by code_simp+
  have fields: "optPolicy (officeOptions False) = office" "optUpstream (officeOptions False) = officePrinter"
    by (simp_all add: officeOptions_def)
  from policy_boundary [OF office_result] copies show ?thesis unfolding fields by blast
qed

theorem effective_media_witness:
  "case effectiveMedia (\<lambda>_. []) letterJob office officePrinter of (sel, requested, requestedCol, fallback) \<Rightarrow>
     sizeName sel \<in> set (policyMediaNames office) \<and> \<not> fallback"
proof -
  obtain sel req rc fb where e: "effectiveMedia (\<lambda>_. []) letterJob office officePrinter = (sel, req, rc, fb)" by (metis prod_cases4)
  have "Attr letterJob ''media-col'' = None" "Attr letterJob ''media'' = Some (Attribute ''media'' [(TagKeyword, String ''NA_Letter_8.5x11in'')])"
    "mediaNameKey ''NA_Letter_8.5x11in'' \<in> mediaNameKey ` set (policyMediaNames office)" by code_simp+
  with effective_media [OF e, of "''media''" TagKeyword "''NA_Letter_8.5x11in''"] e show ?thesis by simp
qed

end
