(* ===== verification/Proxy_Uri.thy ===== *)
theory Proxy_Uri
  imports Proxy_Protocol
begin

text \<open>
  The job URIs the proxy hands out are read back: decimal numerals, paths and schemes under
  \<^verbatim>\<open>url.Parse\<close>, and the round trip.
\<close>

subsection \<open>Job URIs\<close>

lemma decimal_append: "decimal n (s @ t) = (case decimal n s of None \<Rightarrow> None | Some m \<Rightarrow> decimal m t)"
  by (induction s arbitrary: n) auto

lemma digit_char_facts: "d < 10 \<Longrightarrow> isDigit (digit_char d)" "d < 10 \<Longrightarrow> of_char (digit_char d) - 48 = d"
  by (auto simp: isDigit_def digit_char_def less_eq_char_def)

lemma show_nat_simps: "show_nat n = (if 10 \<le> n then show_nat (n div 10) @ [digit_char (n mod 10)] else [digit_char n])"
  by (simp add: show_nat_def digits.simps [of n])

lemma decimal_show: "decimal 0 (show_nat n) = Some (int n)"
proof (induction n rule: less_induct)
  case (less n)
  show ?case
  proof (cases "10 \<le> n")
    case True
    then have "decimal 0 (show_nat (n div 10)) = Some (int (n div 10))" by (intro less) simp
    then have "decimal 0 (show_nat n) = Some (10 * int (n div 10) + int (n mod 10))"
      using True by (simp add: show_nat_simps [of n] decimal_append digit_char_facts)
    moreover have "10 * int (n div 10) + int (n mod 10) = int n"
      using mult_div_mod_eq [of 10 n] by (metis of_nat_add of_nat_mult of_nat_numeral)
    ultimately show ?thesis by simp
  qed (simp add: show_nat_simps [of n] digit_char_facts)
qed

lemma show_nat_digits: "c \<in> set (show_nat n) \<Longrightarrow> isDigit c"
proof (induction n rule: less_induct)
  case (less n)
  from less.prems less.IH [of "n div 10"] show ?case
    by (cases "10 \<le> n") (auto simp: show_nat_simps [of n] digit_char_facts)
qed

lemma show_nat_nonempty: "show_nat n \<noteq> []"
  by (simp add: show_nat_simps [of n])

lemma Atoi_show:
  assumes "n < 2 ^ 63"
  shows "Atoi (show_nat n) = Some (int n)"
proof -
  obtain c t where s: "show_nat n = c # t" using show_nat_nonempty by (meson neq_Nil_conv)
  then have "isDigit c" using show_nat_digits [of c n] by simp
  then have "c \<noteq> CHR ''-'' \<and> c \<noteq> CHR ''+''" by (auto simp: isDigit_def less_eq_char_def)
  moreover have "int n < 2 ^ 63" using assms by (metis of_nat_less_iff of_nat_numeral of_nat_power)
  ultimately show ?thesis using decimal_show [of n] s by (simp add: Atoi_def)
qed

lemma schemeLoop_prefix:
  assumes "schemeLoop raw seen s = Some (sch, rest)" "sch \<noteq> []"
  obtains mid where "s = mid @ CHR '':'' # rest" "\<And>raw' rest'. schemeLoop raw' seen (mid @ CHR '':'' # rest') = Some (sch, rest')"
  using assms
proof (induction s arbitrary: seen thesis)
  case (Cons c s)
  consider (go) "isAlpha c \<or> (isDigit c \<or> c \<in> set ''+-.'') \<and> seen \<noteq> []" | (colon) "\<not> isAlpha c" "c = CHR '':''" "seen \<noteq> []"
    using Cons.prems(2,3) by (auto split: if_splits)
  then show ?case
  proof cases
    case go
    then have "schemeLoop raw (seen @ [c]) s = Some (sch, rest)" using Cons.prems(2,3) by (auto split: if_splits)
    from Cons.IH [OF _ this Cons.prems(3)] obtain mid where mid: "s = mid @ CHR '':'' # rest"
      "\<And>raw' rest'. schemeLoop raw' (seen @ [c]) (mid @ CHR '':'' # rest') = Some (sch, rest')" by auto
    show ?thesis by (rule Cons.prems(1) [of "c # mid"]) (use mid go in auto)
  next
    case colon
    then have "sch = seen" "rest = s" using Cons.prems(2) by (auto simp: isDigit_def less_eq_char_def)
    then show ?thesis using Cons.prems(1) [of "[]"] colon by (auto simp: isDigit_def less_eq_char_def)
  qed
qed simp

lemma unescape_slash:
  "unescape (s @ CHR ''/'' # t) =
     (case unescape s of None \<Rightarrow> None | Some x \<Rightarrow> map_option (\<lambda>y. x @ CHR ''/'' # y) (unescape t))"
proof (induction s rule: unescape.induct)
  case (2 c s)
  show ?case
  proof (cases "c = CHR ''%''")
    case True
    have no: "\<not> ishex (CHR ''/'')" by (simp add: ishex_def isDigit_def less_eq_char_def)
    show ?thesis
    proof (cases s)
      case (Cons a s1)
      then show ?thesis
        using True no "2.IH"(1) [of a s1] by (cases s1) (auto simp: option.map_comp comp_def split: option.splits)
    qed (use True no in \<open>auto split: list.splits\<close>)
  next
    case False
    with "2.IH"(2) show ?thesis by (auto simp: option.map_comp comp_def split: option.splits)
  qed
qed simp

lemma TrimLeftChar_replicate: "\<exists>k. s = replicate k c @ TrimLeftChar c s"
proof (induction s)
  case (Cons d s)
  then obtain k where "s = replicate k c @ TrimLeftChar c s" by blast
  then have "d = c \<Longrightarrow> d # s = replicate (Suc k) c @ TrimLeftChar c (d # s)" by simp
  moreover have "d \<noteq> c \<Longrightarrow> d # s = replicate 0 c @ TrimLeftChar c (d # s)" by simp
  ultimately show ?case by blast
qed simp

lemma TrimRightChar_replicate: "\<exists>k. s = TrimRightChar c s @ replicate k c"
proof -
  from TrimLeftChar_replicate [of "rev s" c] obtain k where "rev s = replicate k c @ TrimLeftChar c (rev s)" by blast
  then have "rev (rev s) = rev (replicate k c @ TrimLeftChar c (rev s))" by (rule arg_cong)
  then have "s = TrimRightChar c s @ replicate k c" by (simp add: TrimRightChar_def)
  then show ?thesis by blast
qed

lemma TrimLeftChar_append: "x \<noteq> [] \<Longrightarrow> hd x \<noteq> c \<Longrightarrow> TrimLeftChar c (y @ x @ z) = TrimLeftChar c y @ x @ z"
  by (induction y) (auto simp: neq_Nil_conv)

lemma TrimRightChar_append: "x \<noteq> [] \<Longrightarrow> last x \<noteq> c \<Longrightarrow> TrimRightChar c (z @ x @ y) = z @ x @ TrimRightChar c y"
  by (simp add: TrimRightChar_def TrimLeftChar_append hd_rev)

lemma validEncoded_append [simp]: "validEncoded (a @ b) \<longleftrightarrow> validEncoded a \<and> validEncoded b"
  by (simp only: validEncoded_def set_append ball_Un)

lemma unescape_trim:
  assumes "unescape p \<noteq> None" "unescape t \<noteq> None"
  shows "unescape (TrimRightChar (CHR ''/'') p @ CHR ''/'' # t) \<noteq> None"
proof -
  define q where "q = TrimRightChar (CHR ''/'') p"
  obtain k where k: "p = q @ replicate k (CHR ''/'')" unfolding q_def using TrimRightChar_replicate by blast
  have "unescape q \<noteq> None"
  proof (cases k)
    case 0
    with k assms(1) show ?thesis by simp
  next
    case (Suc n)
    then show ?thesis using assms(1) unescape_slash [of q "replicate n (CHR ''/'')"]
      by (auto simp: k split: option.splits)
  qed
  then show ?thesis using assms(2) by (auto simp: q_def [symmetric] unescape_slash split: option.splits)
qed

lemma setPath_escaped:
  assumes "setPath p u = Some u'" "validEncoded p" "p = [] \<or> hd p = CHR ''/''"
  shows "EscapedPath u' = p"
proof -
  from assms(1) obtain path where path: "unescape p = Some path" "u' = u\<lparr>urlPath := path, urlRawPath := (if p = escape path then [] else p)\<rparr>"
    by (auto simp: setPath_def split: option.splits)
  show ?thesis
  proof (cases "p = escape path")
    case True
    have "path \<noteq> ''*''"
      using True assms(3) by (auto simp: shouldEscape_def isAlpha_def ascii_lower_def isDigit_def less_eq_char_def)
    with True show ?thesis by (simp add: path EscapedPath_def)
  next
    case False
    then have "p \<noteq> []" using path(1) by auto
    with False assms(2) path show ?thesis by (simp add: EscapedPath_def)
  qed
qed

lemma Cut_none: "sep \<notin> set s \<Longrightarrow> Cut sep s = (s, [])"
  by (induction s) auto

lemma validEncoded_char:
  assumes "validEncoded s" "c \<in> set s"
  shows "c \<noteq> CHR ''#'' \<and> c \<noteq> CHR ''?'' \<and> \<not> c < CHR '' '' \<and> c \<noteq> CHR 0x7F"
proof -
  have "\<forall>c. validEncoded [c] \<longrightarrow> c \<noteq> CHR ''#'' \<and> c \<noteq> CHR ''?'' \<and> \<not> c < CHR '' '' \<and> c \<noteq> CHR 0x7F"
    by code_simp
  moreover have "validEncoded [c]" using assms unfolding validEncoded_def by simp
  ultimately show ?thesis by blast
qed

lemma validEncoded_plain:
  assumes "validEncoded s"
  shows "CHR ''#'' \<notin> set s" "CHR ''?'' \<notin> set s" "\<not> hasCTLByte s"
  using validEncoded_char [OF assms] by (auto simp: hasCTLByte_def)

lemma unescape_plain: "CHR ''%'' \<notin> set s \<Longrightarrow> unescape s = Some s"
  by (induction s) auto

lemma HasPrefix_append: "HasPrefix (a @ b) a"
  by (induction a) auto

lemma Contains_char: "Contains s [c] \<longleftrightarrow> c \<in> set s"
  by (induction s) auto

lemma setPath_host: "setPath p v = Some u \<Longrightarrow> urlHost u = urlHost v \<and> urlScheme u = urlScheme v"
  by (auto simp: setPath_def split: option.splits)

lemma parseRest_host:
  assumes "parseRest authority sch rest = Some u" "Cut (CHR ''?'') rest = (rest, [])" "urlHost u \<noteq> []"
  shows "HasPrefix rest ''//'' \<and> (\<exists>host. authority (takeWhile (\<lambda>c. c \<noteq> CHR ''/'') (drop 2 rest)) = Some host \<and>
    setPath (dropWhile (\<lambda>c. c \<noteq> CHR ''/'') (drop 2 rest)) (emptyURL\<lparr>urlScheme := ToLower sch, urlHost := host\<rparr>) = Some u)"
proof -
  let ?u = "emptyURL\<lparr>urlScheme := ToLower sch\<rparr>"
  have empty: "urlHost ?u = []" "?u\<lparr>urlRawQuery := []\<rparr> = ?u" by (simp_all add: emptyURL_def)
  have no: "setPath rest ?u \<noteq> Some u" using setPath_host [of rest ?u u] empty(1) assms(3) by auto
  show ?thesis
    using assms(1,3) no unfolding parseRest_def assms(2) prod.case Let_def empty(2)
    by (auto simp: empty(1) split: if_split_asm option.split_asm)
qed

lemma schemeLoop_none: "schemeLoop raw seen s = Some ([], rest) \<Longrightarrow> rest = raw"
  by (induction s arbitrary: seen) (auto split: if_splits)

text \<open>How a URL with an authority and without query and fragment is taken apart.\<close>

lemma Parse_parts:
  assumes "Parse authority raw = Some u" "urlScheme u \<noteq> []" "urlHost u \<noteq> []" "validEncoded raw" "authority [] = Some []"
  obtains mid sch auth path where "raw = mid @ CHR '':'' # ''//'' @ auth @ path" "auth \<noteq> []" "CHR ''/'' \<notin> set auth"
    "path = [] \<or> hd path = CHR ''/''" "authority auth = Some (urlHost u)" "urlScheme u = ToLower sch"
    "setPath path (emptyURL\<lparr>urlScheme := ToLower sch, urlHost := urlHost u\<rparr>) = Some u"
    "\<forall>raw' rest'. schemeLoop raw' [] (mid @ CHR '':'' # rest') = Some (sch, rest')" "sch \<noteq> []"
proof -
  note chars = validEncoded_plain [OF assms(4)]
  have url: "parseURL authority raw = Some u"
    using assms(1) by (simp add: Parse_def Cut_none [OF chars(1)] split: option.splits)
  have "raw \<noteq> ''*''" using url assms(2) by (auto simp: parseURL_def hasCTLByte_def emptyURL_def split: if_splits)
  with url obtain sch rest where rest: "schemeLoop raw [] raw = Some (sch, rest)" "parseRest authority sch rest = Some u"
    by (auto simp: parseURL_def getScheme_def split: if_splits option.splits)
  have "set rest \<subseteq> set raw"
  proof (cases "sch = []")
    case False
    then obtain mid where "raw = mid @ CHR '':'' # rest" using schemeLoop_prefix [OF rest(1)] by blast
    then show ?thesis by auto
  next
    case True
    with rest(1) schemeLoop_none show ?thesis by blast
  qed
  then have "CHR ''?'' \<notin> set rest" using chars(2) by auto
  from parseRest_host [OF rest(2) Cut_none [OF this] assms(3)]
  obtain host where pre: "HasPrefix rest ''//''"
    and host: "authority (takeWhile (\<lambda>c. c \<noteq> CHR ''/'') (drop 2 rest)) = Some host"
    and path: "setPath (dropWhile (\<lambda>c. c \<noteq> CHR ''/'') (drop 2 rest)) (emptyURL\<lparr>urlScheme := ToLower sch, urlHost := host\<rparr>) = Some u"
    by blast
  let ?auth = "takeWhile (\<lambda>c. c \<noteq> CHR ''/'') (drop 2 rest)" and ?path = "dropWhile (\<lambda>c. c \<noteq> CHR ''/'') (drop 2 rest)"
  have hu: "urlHost u = host" "urlScheme u = ToLower sch" using setPath_host [OF path] by (simp_all add: emptyURL_def)
  have sch: "sch \<noteq> []" using hu(2) assms(2) by (auto simp: sql_lower_def)
  from schemeLoop_prefix [OF rest(1) sch] obtain mid where mid: "raw = mid @ CHR '':'' # rest"
    "\<And>raw' rest'. schemeLoop raw' [] (mid @ CHR '':'' # rest') = Some (sch, rest')" by blast
  have "rest = ''//'' @ drop 2 rest"
    using pre by (cases rest; cases "tl rest") auto
  then have "raw = mid @ CHR '':'' # ''//'' @ ?auth @ ?path" using mid(1) by (metis takeWhile_dropWhile_id)
  moreover have "?auth \<noteq> []" using host assms(3,5) hu(1) by auto
  moreover have "CHR ''/'' \<notin> set ?auth" by (auto dest: set_takeWhileD)
  moreover have "?path = [] \<or> hd ?path = CHR ''/''" using hd_dropWhile [of "\<lambda>c. c \<noteq> CHR ''/''" "drop 2 rest"] by blast
  ultimately show ?thesis using that [of mid ?auth ?path sch] mid(2) host hu path sch by simp
qed

lemma split_authority:
  "CHR ''/'' \<notin> set auth \<Longrightarrow> path \<noteq> [] \<Longrightarrow> hd path = CHR ''/'' \<Longrightarrow>
     takeWhile (\<lambda>c. c \<noteq> CHR ''/'') (auth @ path) = auth \<and> dropWhile (\<lambda>c. c \<noteq> CHR ''/'') (auth @ path) = path"
  by (induction auth) (auto simp: neq_Nil_conv)

lemma Parse_compose:
  assumes "\<forall>raw' rest'. schemeLoop raw' [] (mid @ CHR '':'' # rest') = Some (sch, rest')" "sch \<noteq> []"
    "authority auth = Some host" "CHR ''/'' \<notin> set auth" "path \<noteq> []" "hd path = CHR ''/''"
    "validEncoded (mid @ CHR '':'' # ''//'' @ auth @ path)"
    "setPath path (emptyURL\<lparr>urlScheme := ToLower sch, urlHost := host\<rparr>) = Some u"
  shows "Parse authority (mid @ CHR '':'' # ''//'' @ auth @ path) = Some u"
proof -
  define raw where "raw = mid @ CHR '':'' # ''//'' @ auth @ path"
  have "validEncoded raw" using assms(7) raw_def by simp
  note chars = validEncoded_plain [OF this]
  have "CHR ''?'' \<notin> set (''//'' @ auth @ path)" using chars(2) by (simp add: raw_def)
  note cut = Cut_none [OF this] and split = split_authority [OF assms(4-6)]
  have rest: "parseRest authority sch (''//'' @ auth @ path) = Some u"
    using cut assms(2,3,8) split by (simp add: parseRest_def emptyURL_def)
  have "schemeLoop raw [] raw = Some (sch, ''//'' @ auth @ path)" unfolding raw_def using assms(1) by blast
  moreover have "raw \<noteq> ''*''" unfolding raw_def by (cases mid) auto
  ultimately have "parseURL authority raw = Some u" using chars(3) rest by (simp add: parseURL_def getScheme_def)
  then show ?thesis using Cut_none [OF chars(1)] unfolding raw_def [symmetric] by (simp add: Parse_def)
qed

lemma show_nat_plain:
  "CHR ''%'' \<notin> set (show_nat n)" "CHR ''/'' \<notin> set (show_nat n)" "validEncoded (show_nat n)"
proof -
  have "\<not> isDigit (CHR ''%'')" "\<not> isDigit (CHR ''/'')" by code_simp+
  then show "CHR ''%'' \<notin> set (show_nat n)" "CHR ''/'' \<notin> set (show_nat n)" using show_nat_digits by blast+
  show "validEncoded (show_nat n)" using show_nat_digits unfolding validEncoded_def shouldEscape_def by blast
qed

text \<open>The path of a job URI.\<close>

lemma jobs_path:
  assumes "path = [] \<or> hd path = CHR ''/''" "validEncoded path" "unescape path \<noteq> None"
    and jp: "jp = TrimRightChar (CHR ''/'') path @ ''/jobs/'' @ show_nat n"
  shows "validEncoded jp" "jp \<noteq> []" "hd jp = CHR ''/''" "unescape jp \<noteq> None"
proof -
  obtain k where k: "path = TrimRightChar (CHR ''/'') path @ replicate k (CHR ''/'')" using TrimRightChar_replicate by blast
  with assms(2) have "validEncoded (TrimRightChar (CHR ''/'') path)" by (metis validEncoded_append)
  moreover have "validEncoded ''/jobs/''" by code_simp
  ultimately show "validEncoded jp" unfolding jp using show_nat_plain(3) by (simp only: validEncoded_append simp_thms)
  from k assms(1) show "jp \<noteq> []" "hd jp = CHR ''/''" unfolding jp
    by (cases "TrimRightChar (CHR ''/'') path"; auto)+
  have "unescape (''jobs/'' @ show_nat n) \<noteq> None"
    using unescape_plain [of "''jobs/'' @ show_nat n"] show_nat_plain(1) by simp
  with assms(3) show "unescape jp \<noteq> None" using unescape_trim [of path "''jobs/'' @ show_nat n"] by (simp add: jp)
qed

lemma proxyJobURI_split:
  assumes "auth \<noteq> []" "CHR ''/'' \<notin> set auth" "0 < jobID"
  shows "proxyJobURI (pre @ auth @ path) jobID
    = pre @ auth @ TrimRightChar (CHR ''/'') path @ ''/jobs/'' @ show_nat (nat jobID)"
proof -
  have "last auth \<noteq> CHR ''/''" using assms(1,2) by (metis last_in_set)
  from TrimRightChar_append [OF assms(1) this, of pre path] show ?thesis
    using assms(3) by (simp add: proxyJobURI_def)
qed

text \<open>
  C18: the identifier of a job is read back from the URI the proxy hands out for it, for every printer
  URI with a scheme and a host that is written in URL characters, with or without trailing slashes.
\<close>

theorem job_uri_roundtrip:
  assumes "Parse authority printerURI = Some u" "urlScheme u \<noteq> []" "urlHost u \<noteq> []" "validEncoded printerURI"
    "authority [] = Some []" "0 < jobID" "jobID < 2 ^ 63"
  shows "jobIDForPrinterURI authority (proxyJobURI printerURI jobID) printerURI = Some jobID"
proof -
  obtain mid sch auth path where parts: "printerURI = mid @ CHR '':'' # ''//'' @ auth @ path" "auth \<noteq> []" "CHR ''/'' \<notin> set auth"
    "path = [] \<or> hd path = CHR ''/''" "authority auth = Some (urlHost u)" "urlScheme u = ToLower sch"
    "setPath path (emptyURL\<lparr>urlScheme := ToLower sch, urlHost := urlHost u\<rparr>) = Some u"
    "\<forall>raw' rest'. schemeLoop raw' [] (mid @ CHR '':'' # rest') = Some (sch, rest')" "sch \<noteq> []"
    by (rule Parse_parts [OF assms(1-5)])
  define tp ids jp where "tp = TrimRightChar (CHR ''/'') path" and "ids = show_nat (nat jobID)"
    and jp_def: "jp = TrimRightChar (CHR ''/'') path @ ''/jobs/'' @ show_nat (nat jobID)"
  have jp: "jp = tp @ ''/jobs/'' @ ids" by (simp add: jp_def tp_def ids_def)
  have uri: "proxyJobURI printerURI jobID = mid @ CHR '':'' # ''//'' @ auth @ jp"
    using proxyJobURI_split [OF parts(2,3) assms(6), of "mid @ CHR '':'' # ''//''" path] by (simp add: parts(1) jp_def)
  have "printerURI = (mid @ CHR '':'' # ''//'') @ auth @ path" by (simp add: parts(1))
  with assms(4) have enc: "validEncoded (mid @ CHR '':'' # ''//'')" "validEncoded auth" and valid: "validEncoded path"
    by (simp_all only: validEncoded_append)
  have "unescape path \<noteq> None" using parts(7) by (auto simp: setPath_def split: option.splits)
  note path = jobs_path [OF parts(4) valid this jp_def]
  from path(4) obtain uj where uj: "setPath jp (emptyURL\<lparr>urlScheme := ToLower sch, urlHost := urlHost u\<rparr>) = Some uj"
    by (auto simp: setPath_def)
  have "validEncoded ((mid @ CHR '':'' # ''//'') @ auth @ jp)" using enc path(1) by (simp only: validEncoded_append)
  then have "validEncoded (mid @ CHR '':'' # ''//'' @ auth @ jp)" by simp
  from Parse_compose [where authority = authority and auth = auth, OF parts(8,9,5,3) path(2,3) this uj]
  have job: "Parse authority (proxyJobURI printerURI jobID) = Some uj" unfolding uri .
  have esc: "EscapedPath uj = jp" "EscapedPath u = path"
    using setPath_escaped [OF uj path(1)] path(3) setPath_escaped [OF parts(7) valid parts(4)] by simp_all
  have fields: "urlRawQuery uj = []" "urlFragment uj = []" "urlHost uj = urlHost u" "urlScheme uj = urlScheme u"
    using uj parts(6) by (auto simp: setPath_def emptyURL_def split: option.splits)
  have "HasPrefix jp (tp @ ''/jobs/'')" using HasPrefix_append [of "tp @ ''/jobs/''" ids] by (simp add: jp)
  moreover have "drop (length (tp @ ''/jobs/'')) jp = ids" by (simp add: jp)
  moreover have "ids \<noteq> []" "\<not> Contains ids ''/''"
    using show_nat_nonempty show_nat_plain(2) by (auto simp: ids_def Contains_char)
  moreover have "Atoi ids = Some jobID"
    using Atoi_show [of "nat jobID"] assms(6,7) by (simp add: ids_def nat_less_iff)
  ultimately show ?thesis
    using assms(2,3,6) by (simp add: jobIDForPrinterURI_def job assms(1) fields esc tp_def [symmetric] Let_def)
qed

theorem job_uri_roundtrip_witness:
  "jobIDForPrinterURI Some (proxyJobURI ''ipp://print.local:631/ipp/office/'' 17) ''ipp://print.local:631/ipp/office/'' = Some 17"
proof -
  obtain u where u: "Parse Some ''ipp://print.local:631/ipp/office/'' = Some u"
    "urlScheme u \<noteq> []" "urlHost u \<noteq> []"
  proof -
    have "(case Parse Some ''ipp://print.local:631/ipp/office/'' of
        None \<Rightarrow> False | Some u \<Rightarrow> urlScheme u \<noteq> [] \<and> urlHost u \<noteq> [])" by code_simp
    then show thesis using that by (auto split: option.splits)
  qed
  have "validEncoded ''ipp://print.local:631/ipp/office/''" by code_simp
  from job_uri_roundtrip [OF u this] show ?thesis by simp
qed

end
