(* ===== verification/Proxy_Raster.thy ===== *)
theory Proxy_Raster
  imports Proxy_Media
begin

text \<open>
  Raster formats of a printer, \<^verbatim>\<open>internal/proxy/capabilities.go\<close>: the grammar of URF tokens, complete URF
  and PWG Raster capability families, and the document formats a queue takes over from its printer.
\<close>

subsection \<open>Tokens\<close>

text \<open>
  The expressions are case-insensitive and anchored at both ends; matching them means matching the
  folded text, which is what \<^verbatim>\<open>(?i)\<close> does. Numbers have no leading zero.
\<close>

definition positiveNumber :: "string \<Rightarrow> bool" where
  "positiveNumber s \<longleftrightarrow> s \<noteq> [] \<and> hd s \<noteq> CHR ''0'' \<and> (\<forall>c \<in> set s. isDigit c)"

fun splitDash :: "string \<Rightarrow> string list" where
  "splitDash [] = [[]]"
| "splitDash (c # s) = (if c = CHR ''-'' then [] # splitDash s
     else (case splitDash s of [] \<Rightarrow> [[c]] | t # ts \<Rightarrow> (c # t) # ts))"

definition numberList :: "string \<Rightarrow> bool" where
  "numberList s \<longleftrightarrow> (\<forall>n \<in> set (splitDash s). positiveNumber n)"

definition prefixedList :: "string list \<Rightarrow> string \<Rightarrow> bool" where
  "prefixedList ps token \<longleftrightarrow> (let t = FoldCase token in \<exists>p \<in> set ps. HasPrefix t p \<and> numberList (drop (length p) t))"

definition urfVersionToken :: "string \<Rightarrow> bool" where
  "urfVersionToken token \<longleftrightarrow> (let t = FoldCase token; r = drop 1 t; f = drop 1 (dropWhile isDigit r) in
     HasPrefix t ''v'' \<and> takeWhile isDigit r \<noteq> [] \<and> HasPrefix (dropWhile isDigit r) ''.'' \<and> f \<noteq> [] \<and> (\<forall>c \<in> set f. isDigit c))"

definition urfWidthToken :: "string \<Rightarrow> bool" where "urfWidthToken = prefixedList [''w'']"

definition urfColorSpaceToken :: "string \<Rightarrow> bool" where
  "urfColorSpaceToken = prefixedList [''srgb'', ''adobergb'', ''devrgb'', ''devw'', ''devcmyk'']"

definition urfPositiveNumericListToken :: "string \<Rightarrow> bool" where
  "urfPositiveNumericListToken = prefixedList [''cp'', ''dm'', ''fn'', ''is'', ''mt'', ''ob'', ''pq'']"

definition urfOptionalZeroToken :: "string \<Rightarrow> bool" where
  "urfOptionalZeroToken token \<longleftrightarrow> (let t = FoldCase token in
     (HasPrefix t ''ifu'' \<or> HasPrefix t ''ofu'') \<and> (drop 3 t = ''0'' \<or> positiveNumber (drop 3 t)))"

definition urfResolutionToken :: "string \<Rightarrow> bool" where "urfResolutionToken = prefixedList [''rs'']"

lemma leading_length: "leading ws s = Some w \<Longrightarrow> 0 < length w"
  by (simp add: leading_Some)

text \<open>\<open>cur\<close> is the token being read, \<open>pending\<close> the comma that still needs one; \<^verbatim>\<open>unicode.IsSpace\<close> ends a token too.\<close>

function splitLoop :: "string list \<Rightarrow> string \<Rightarrow> bool \<Rightarrow> string \<Rightarrow> string list option" where
  "splitLoop tokens cur pending s =
     (case s of
        [] \<Rightarrow>
          (let all = (if cur \<noteq> [] then tokens @ [cur] else tokens) in
           if pending \<or> all = [] then None else Some all)
      | c # r \<Rightarrow>
          (let tokens' = (if cur \<noteq> [] then tokens @ [cur] else tokens); pending' = (if cur \<noteq> [] then False else pending) in
           if c = CHR '','' then (if tokens' = [] \<or> pending' then None else splitLoop tokens' [] True r)
           else case leading spaces s of
             Some w \<Rightarrow> splitLoop tokens' [] pending' (drop (length w) s)
           | None \<Rightarrow> splitLoop tokens (cur @ [c]) False r))"
  by pat_completeness auto
termination
  by (relation "measure (\<lambda>(tokens, cur, pending, s). length s)") (auto dest: leading_length)

declare splitLoop.simps [simp del]

definition splitURFTokens :: "string \<Rightarrow> string list option" where
  "splitURFTokens s = splitLoop [] [] False s"

subsection \<open>Families\<close>

definition hasMimeTypeValue :: "attribute \<Rightarrow> string \<Rightarrow> bool" where
  "hasMimeTypeValue attr wanted \<longleftrightarrow>
     (\<forall>v \<in> set (attrValues attr). fst v = TagMimeType \<and> stringValue (snd v) \<noteq> None) \<and>
     (\<exists>v \<in> set (attrValues attr). case snd v of String s \<Rightarrow> EqualFold s wanted | _ \<Rightarrow> False)"

definition knownURFToken :: "string \<Rightarrow> bool" where
  "knownURFToken t \<longleftrightarrow> urfResolutionToken t \<or> urfWidthToken t \<or> urfColorSpaceToken t \<or> urfVersionToken t
     \<or> urfPositiveNumericListToken t \<or> urfOptionalZeroToken t"

text \<open>All tokens of the values, \<open>None\<close> when a value is not a keyword with tokens.\<close>

fun urfTokensOf :: "(tag \<times> val) list \<Rightarrow> string list option" where
  "urfTokensOf [] = Some []"
| "urfTokensOf ((t, v) # vs) =
     (if t \<noteq> TagKeyword then None
      else case v of
        String s \<Rightarrow>
          (case splitURFTokens s of
             None \<Rightarrow> None
           | Some parts \<Rightarrow> if \<forall>p \<in> set parts. knownURFToken p then map_option ((@) parts) (urfTokensOf vs) else None)
      | _ \<Rightarrow> None)"

text \<open>A token that matches an earlier expression of the switch does not count for a later one.\<close>

definition validURFFamily :: "attribute list \<Rightarrow> bool" where
  "validURFFamily upstream =
     (case Attr upstream ''document-format-supported'' of
        None \<Rightarrow> False
      | Some formats \<Rightarrow>
          hasMimeTypeValue formats ''image/urf'' \<and>
          (case Attr upstream ''urf-supported'' of
             None \<Rightarrow> False
           | Some attr \<Rightarrow>
               attrValues attr \<noteq> [] \<and>
               (case urfTokensOf (attrValues attr) of
                  None \<Rightarrow> False
                | Some tokens \<Rightarrow>
                    length tokens \<ge> 3 \<and>
                    (\<exists>t \<in> set tokens. \<not> urfResolutionToken t \<and> urfWidthToken t) \<and>
                    (\<exists>t \<in> set tokens. \<not> urfResolutionToken t \<and> \<not> urfWidthToken t \<and> urfColorSpaceToken t) \<and>
                    (\<exists>t \<in> set tokens. urfResolutionToken t))))"

definition pwgBlackRasterType :: "string \<Rightarrow> bool" where
  "pwgBlackRasterType s \<longleftrightarrow> FoldCase s \<in> {''black_1'', ''black_8'', ''black_16''}"

definition pwgGrayRasterType :: "string \<Rightarrow> bool" where
  "pwgGrayRasterType s \<longleftrightarrow> FoldCase s \<in> {''sgray_1'', ''sgray_8'', ''sgray_16''}"

definition pwgColorRasterType :: "string \<Rightarrow> bool" where
  "pwgColorRasterType s \<longleftrightarrow> FoldCase s \<in> {''srgb_8'', ''srgb_16'', ''rgb_8'', ''rgb_16'', ''adobe-rgb_8'', ''adobe-rgb_16'',
     ''cmyk_8'', ''cmyk_16''}"

definition pwgDeviceRasterType :: "string \<Rightarrow> bool" where
  "pwgDeviceRasterType s \<longleftrightarrow> (\<exists>n \<in> set [''1'', ''2'', ''3'', ''4'', ''5'', ''6'', ''7'', ''8'', ''9'', ''10'', ''11'', ''12'', ''13'', ''14'', ''15''].
     FoldCase s = ''device'' @ n @ ''_8'' \<or> FoldCase s = ''device'' @ n @ ''_16'')"

definition validPWGRasterType :: "string \<Rightarrow> bool" where
  "validPWGRasterType rasterType \<longleftrightarrow> (let value = TrimSpace rasterType in
     pwgBlackRasterType value \<or> pwgGrayRasterType value \<or> pwgColorRasterType value \<or> pwgDeviceRasterType value)"

definition rasterTypeCompatible :: "string \<Rightarrow> string \<Rightarrow> bool" where
  "rasterTypeCompatible rasterType colorMode =
     (let value = ToLower (TrimSpace rasterType) in
      if \<not> validPWGRasterType value then False
      else if EqualFold (TrimSpace colorMode) ''monochrome'' then pwgBlackRasterType value \<or> pwgGrayRasterType value
      else if EqualFold (TrimSpace colorMode) ''color'' then pwgColorRasterType value \<or> pwgDeviceRasterType value
      else True)"

definition rasterTypeValue :: "tag \<times> val \<Rightarrow> bool" where
  "rasterTypeValue v \<longleftrightarrow> fst v = TagKeyword \<and>
     (case snd v of String s \<Rightarrow> TrimSpace s \<noteq> [] \<and> validPWGRasterType s | _ \<Rightarrow> False)"

definition filteredPWGRasterTypes :: "attribute \<Rightarrow> string \<Rightarrow> attribute option" where
  "filteredPWGRasterTypes attr colorMode =
     (if attrValues attr = [] \<or> (\<exists>v \<in> set (attrValues attr). \<not> rasterTypeValue v) then None
      else
        (let values = filter (\<lambda>v. case snd v of String s \<Rightarrow> rasterTypeCompatible s colorMode | _ \<Rightarrow> False) (attrValues attr) in
         if values = [] then None else Some (Attribute (attrName attr) values)))"

definition pwgResolutionValue :: "tag \<times> val \<Rightarrow> bool" where
  "pwgResolutionValue v \<longleftrightarrow> fst v = TagResolution \<and>
     (case snd v of Resolution x y u \<Rightarrow> x > 0 \<and> y > 0 \<and> (u = UnitsDpi \<or> u = UnitsDpcm) | _ \<Rightarrow> False)"

definition validPWGRasterFamily :: "attribute list \<Rightarrow> PolicyConfig \<Rightarrow> bool" where
  "validPWGRasterFamily upstream policy \<longleftrightarrow>
     (case Attr upstream ''document-format-supported'' of
        None \<Rightarrow> False | Some formats \<Rightarrow> hasMimeTypeValue formats ''image/pwg-raster'') \<and>
     (case Attr upstream ''pwg-raster-document-type-supported'' of
        None \<Rightarrow> False
      | Some types \<Rightarrow> attrValues types \<noteq> [] \<and> filteredPWGRasterTypes types (PrintColorMode policy) \<noteq> None) \<and>
     (case Attr upstream ''pwg-raster-document-resolution-supported'' of
        None \<Rightarrow> False
      | Some resolutions \<Rightarrow> attrValues resolutions \<noteq> [] \<and> (\<forall>v \<in> set (attrValues resolutions). pwgResolutionValue v)) \<and>
     (case Attr upstream ''pwg-raster-document-sheet-back'' of
        None \<Rightarrow> False
      | Some sheetBack \<Rightarrow>
          length (attrValues sheetBack) = 1 \<and> fst (hd (attrValues sheetBack)) = TagKeyword \<and>
          (case fixedKeyword (attrValues sheetBack) of
             None \<Rightarrow> False
           | Some sheet \<Rightarrow> EqualFold sheet ''normal'' \<or> EqualFold sheet ''flipped'' \<or> EqualFold sheet ''rotated''
               \<or> EqualFold sheet ''manual-tumble''))"

subsection \<open>Document formats\<close>

definition fixedStringValue :: "(tag \<times> val) list \<Rightarrow> string option" where
  "fixedStringValue values =
     (case values of [(_, String s)] \<Rightarrow> if TrimSpace s \<noteq> [] then Some (TrimSpace s) else None | _ \<Rightarrow> None)"

definition formatInValues :: "string \<Rightarrow> (tag \<times> val) list \<Rightarrow> bool" where
  "formatInValues format values \<longleftrightarrow>
     (\<exists>v \<in> set values. case snd v of String s \<Rightarrow> EqualFold s format | _ \<Rightarrow> False)"

definition keptFormat :: "bool \<Rightarrow> bool \<Rightarrow> tag \<times> val \<Rightarrow> bool" where
  "keptFormat pwgOK urfOK v \<longleftrightarrow> fst v = TagMimeType \<and>
     (case snd v of
        String s \<Rightarrow>
          (let lower = ToLower (TrimSpace s) in
           TrimSpace s \<noteq> [] \<and> lower \<noteq> ''application/octet-stream'' \<and>
           (lower = ''image/pwg-raster'' \<longrightarrow> pwgOK) \<and> (lower = ''image/urf'' \<longrightarrow> urfOK))
      | _ \<Rightarrow> False)"

definition copied :: "attribute list \<Rightarrow> string \<Rightarrow> attribute list" where
  "copied upstream name = (case Attr upstream name of None \<Rightarrow> [] | Some attr \<Rightarrow> [attr])"

definition synthesizedFormatAttributes :: "attribute list \<Rightarrow> PolicyConfig \<Rightarrow> attribute list" where
  "synthesizedFormatAttributes upstream policy =
     (case Attr upstream ''document-format-supported'' of
        None \<Rightarrow> []
      | Some formatAttr \<Rightarrow>
          (let pwgOK = validPWGRasterFamily upstream policy; urfOK = validURFFamily upstream;
               values = filter (keptFormat pwgOK urfOK) (attrValues formatAttr);
               mime = (\<lambda>name v. Attribute name [(TagMimeType, v)]);
               known = (\<lambda>attr. case fixedStringValue (attrValues attr) of
                 Some f \<Rightarrow> if formatInValues f values then Some f else None | None \<Rightarrow> None) in
           if values = [] then []
           else [Attribute ''document-format-supported'' values]
             @ (case Attr upstream ''document-format-default'' of
                  None \<Rightarrow> []
                | Some attr \<Rightarrow> [mime ''document-format-default'' (case known attr of Some f \<Rightarrow> String f | None \<Rightarrow> snd (hd values))])
             @ (case Attr upstream ''document-format-preferred'' of
                  None \<Rightarrow> []
                | Some attr \<Rightarrow> (case known attr of Some f \<Rightarrow> [mime ''document-format-preferred'' (String f)] | None \<Rightarrow> []))
             @ (if pwgOK then
                  (case Attr upstream ''pwg-raster-document-type-supported'' of
                     None \<Rightarrow> []
                   | Some attr \<Rightarrow> (case filteredPWGRasterTypes attr (PrintColorMode policy) of Some f \<Rightarrow> [f] | None \<Rightarrow> []))
                  @ copied upstream ''pwg-raster-document-resolution-supported''
                  @ copied upstream ''pwg-raster-document-sheet-back''
                else [])
             @ (if urfOK then copied upstream ''urf-supported'' else [])))"

definition hasKeywordString :: "attribute \<Rightarrow> string \<Rightarrow> bool" where
  "hasKeywordString attr wanted = foldr (\<lambda>v r.
     case v of
       (TagKeyword, String s) \<Rightarrow> TrimSpace s \<noteq> [] \<and> (EqualFold (TrimSpace s) wanted \<or> r)
     | _ \<Rightarrow> False) (attrValues attr) False"

end
