(* ===== verification/Proxy_Routing.thy ===== *)
theory Proxy_Routing
  imports Proxy_Raster Urf_Types Store_Types
begin

text \<open>
  Document routes, \<^verbatim>\<open>internal/proxy/routing.go\<close>: which formats a queue accepts, which of them are translated
  from Apple Raster to PWG Raster, with which page settings, and how the route of a job is pinned in
  the registry (\<^verbatim>\<open>airprint.go\<close>). Copies of slices are values here.
\<close>

subsection \<open>Routes\<close>

definition AirPrintPathNative :: string where "AirPrintPathNative = ''native''"
definition AirPrintPathEmulated :: string where "AirPrintPathEmulated = ''emulated''"
definition AirPrintPathUnavailable :: string where "AirPrintPathUnavailable = ''unavailable''"

record documentRoute =
  ClientFormat :: string
  UpstreamFormat :: string
  Transform :: bool
  routeMapping :: Mapping
  routePage :: PageSettings
  Resolutions :: "u32 list"
  routeTokens :: "string list"

record RouteSnapshot =
  Routes :: "documentRoute list"
  AirPrintPath :: string
  Reason :: string
  URFTokens :: "string list"

definition zeroPage :: PageSettings where
  "zeroPage = \<lparr>MediaName = [], MediaWidth = 0, MediaHeight = 0, MediaType = [], MediaSource = 0, ResolutionX = 0,
     ResolutionY = 0, PrintQuality = 0, Sides = [], SheetBack = []\<rparr>"

definition passRoute :: "string \<Rightarrow> PageSettings \<Rightarrow> documentRoute" where
  "passRoute format page = \<lparr>ClientFormat = format, UpstreamFormat = format, Transform = False, routeMapping = MappingUnknown 0,
     routePage = page, Resolutions = [], routeTokens = []\<rparr>"

definition matches :: "documentRoute \<Rightarrow> string \<Rightarrow> bool" where
  "matches r format \<longleftrightarrow> EqualFold (TrimSpace (ClientFormat r)) (TrimSpace format)"

definition routeFor :: "RouteSnapshot \<Rightarrow> string \<Rightarrow> documentRoute option" where
  "routeFor s format = List.find (\<lambda>r. matches r format) (Routes s)"

definition defaultRoute :: "(val \<Rightarrow> string) \<Rightarrow> RouteSnapshot \<Rightarrow> attribute list \<Rightarrow> documentRoute option" where
  "defaultRoute sprint s upstream =
     (case (case FirstString sprint upstream ''document-format-default'' of None \<Rightarrow> None | Some f \<Rightarrow> routeFor s f) of
        Some r \<Rightarrow> Some r
      | None \<Rightarrow>
          (case (if AirPrintPath s = AirPrintPathEmulated then routeFor s ''image/urf'' else None) of
             Some r \<Rightarrow> Some r
           | None \<Rightarrow> (case Routes s of [] \<Rightarrow> None | r # _ \<Rightarrow> Some r)))"

subsection \<open>URF tokens\<close>

text \<open>
  \<^verbatim>\<open>strings.ToUpper\<close>, as far as ASCII results can tell: besides the ASCII letters only U+0131 and U+017F
  have an ASCII upper case.
\<close>

definition ascii_upper :: "char \<Rightarrow> char" where
  "ascii_upper c = (if CHR ''a'' \<le> c \<and> c \<le> CHR ''z'' then char_of (of_char c - 32 :: nat) else c)"

fun ToUpper :: "string \<Rightarrow> string" where
  "ToUpper (a # b # s) =
     (if a = CHR 0xC4 \<and> b = CHR 0xB1 then CHR ''I'' # ToUpper s
      else if a = CHR 0xC5 \<and> b = CHR 0xBF then CHR ''S'' # ToUpper s
      else ascii_upper a # ToUpper (b # s))"
| "ToUpper [a] = [ascii_upper a]"
| "ToUpper [] = []"

definition isColorURFToken :: "string \<Rightarrow> bool" where
  "isColorURFToken t \<longleftrightarrow> HasPrefix t ''SRGB'' \<or> HasPrefix t ''ADOBERGB'' \<or> HasPrefix t ''DEVRGB'' \<or> HasPrefix t ''DEVCMYK''"

definition isAnyColorURFToken :: "string list \<Rightarrow> bool" where
  "isAnyColorURFToken tokens \<longleftrightarrow> (\<exists>t \<in> set tokens. isColorURFToken t)"

definition containsURFPrefix :: "string list \<Rightarrow> string \<Rightarrow> bool" where
  "containsURFPrefix tokens prefix \<longleftrightarrow> (\<exists>t \<in> set tokens. HasPrefix t prefix)"

definition urfPrefixes :: "string list" where
  "urfPrefixes = [''V'', ''W'', ''SRGB'', ''DEVRGB'', ''DEVW'', ''DEVCMYK'', ''RS'', ''CP'', ''DM'', ''FN'', ''IS'', ''MT'', ''OB'', ''PQ'',
     ''IFU'', ''OFU'']"

fun rankFrom :: "int \<Rightarrow> string list \<Rightarrow> string \<Rightarrow> int" where
  "rankFrom i [] t = 100"
| "rankFrom i (p # ps) t = (if HasPrefix t p then i else rankFrom (i + 1) ps t)"

definition urfTokenRank :: "string \<Rightarrow> int" where
  "urfTokenRank t = rankFrom 0 urfPrefixes t"

fun uniqueFrom :: "string list \<Rightarrow> string list \<Rightarrow> string list" where
  "uniqueFrom seen [] = []"
| "uniqueFrom seen (v # vs) = (if v \<in> set seen then uniqueFrom seen vs else v # uniqueFrom (v # seen) vs)"

definition uniqueStrings :: "string list \<Rightarrow> string list" where
  "uniqueStrings values = uniqueFrom [] values"

fun rawURFTokens :: "(tag \<times> val) list \<Rightarrow> string list option" where
  "rawURFTokens [] = Some []"
| "rawURFTokens ((_, v) # vs) =
     (case v of
        String s \<Rightarrow>
          (case splitURFTokens s of
             None \<Rightarrow> None
           | Some parts \<Rightarrow> map_option ((@) (map ToUpper parts)) (rawURFTokens vs))
      | _ \<Rightarrow> None)"

definition preferredColor :: "string list \<Rightarrow> string" where
  "preferredColor tokens =
     foldl (\<lambda>p t. if HasPrefix t ''SRGB'' then ''SRGB'' else if p = [] \<and> HasPrefix t ''DEVRGB'' then ''DEVRGB'' else p) [] tokens"

definition keptToken :: "string \<Rightarrow> string \<Rightarrow> string \<Rightarrow> bool" where
  "keptToken colorMode preferred t \<longleftrightarrow>
     \<not> (colorMode = ''monochrome'' \<and> isColorURFToken t) \<and>
     \<not> (colorMode = ''color'' \<and> (HasPrefix t ''W'' \<or> HasPrefix t ''DEVW'' \<or> isColorURFToken t \<and> \<not> HasPrefix t preferred))"

definition nativeURFTokens :: "attribute list \<Rightarrow> PolicyConfig \<Rightarrow> string list option" where
  "nativeURFTokens upstream policy =
     (case Attr upstream ''urf-supported'' of
        None \<Rightarrow> None
      | Some attr \<Rightarrow>
          if attrValues attr = [] then None
          else case rawURFTokens (attrValues attr) of
            None \<Rightarrow> None
          | Some raw \<Rightarrow>
              (let colorMode = ToLower (TrimSpace (PrintColorMode policy));
                   preferred = (if colorMode = ''color'' then preferredColor raw else []);
                   tokens = filter (keptToken colorMode preferred) raw in
               if colorMode = ''color'' \<and> preferred = [] then None
               else if \<not> containsURFPrefix tokens ''RS''
                 \<or> colorMode = ''monochrome'' \<and> \<not> containsURFPrefix tokens ''W''
                 \<or> colorMode = ''color'' \<and> \<not> containsURFPrefix tokens preferred
                 \<or> colorMode \<noteq> ''monochrome'' \<and> colorMode \<noteq> ''color'' \<and> \<not> containsURFPrefix tokens ''W'' \<and> \<not> isAnyColorURFToken tokens
               then None
               else if tokens = [] then None
               else Some (uniqueStrings (sort_key urfTokenRank tokens))))"

subsection \<open>Capabilities of the printer\<close>

fun admittedFrom :: "bool \<Rightarrow> string list \<Rightarrow> (tag \<times> val) list \<Rightarrow> string list" where
  "admittedFrom octets seen [] = []"
| "admittedFrom octets seen ((t, v) # vs) =
     (case v of
        String s \<Rightarrow>
          (let f = ToLower (TrimSpace s) in
           if t \<noteq> TagMimeType \<or> f = [] \<or> \<not> octets \<and> f = ''application/octet-stream'' \<or> f \<in> set seen then admittedFrom octets seen vs
           else f # admittedFrom octets (f # seen) vs)
      | _ \<Rightarrow> admittedFrom octets seen vs)"

definition admittedUpstreamFormats :: "attribute list \<Rightarrow> string list" where
  "admittedUpstreamFormats upstream =
     (case Attr upstream ''document-format-supported'' of None \<Rightarrow> [] | Some attr \<Rightarrow> admittedFrom False [] (attrValues attr))"

definition admittedLegacyFormats :: "attribute list \<Rightarrow> string list" where
  "admittedLegacyFormats upstream =
     (case Attr upstream ''document-format-supported'' of None \<Rightarrow> [] | Some attr \<Rightarrow> admittedFrom True [] (attrValues attr))"

definition containsMimeType :: "attribute list \<Rightarrow> string \<Rightarrow> bool" where
  "containsMimeType attrs wanted =
     (case Attr attrs ''document-format-supported'' of
        None \<Rightarrow> False
      | Some attr \<Rightarrow> (\<exists>v \<in> set (attrValues attr). fst v = TagMimeType \<and>
          (case snd v of String s \<Rightarrow> EqualFold (TrimSpace s) wanted | _ \<Rightarrow> False)))"

definition hasRasterType :: "attribute list \<Rightarrow> string \<Rightarrow> bool" where
  "hasRasterType attrs wanted =
     (case Attr attrs ''pwg-raster-document-type-supported'' of
        None \<Rightarrow> False
      | Some attr \<Rightarrow> (\<exists>v \<in> set (attrValues attr). case snd v of String s \<Rightarrow> EqualFold (TrimSpace s) wanted | _ \<Rightarrow> False))"

definition mappingForPolicyAndTypes :: "attribute list \<Rightarrow> PolicyConfig \<Rightarrow> Mapping" where
  "mappingForPolicyAndTypes attrs policy =
     (if EqualFold (TrimSpace (PrintColorMode policy)) ''monochrome'' then MappingW8ToSGray8
      else if hasRasterType attrs ''srgb_8'' then MappingSRGB24ToSRGB8
      else MappingDEVRGB24ToRGB8)"

fun squareFrom :: "u32 list \<Rightarrow> (tag \<times> val) list \<Rightarrow> u32 list" where
  "squareFrom seen [] = []"
| "squareFrom seen ((_, v) # vs) =
     (case v of
        Resolution x y u \<Rightarrow>
          if x \<le> 0 \<or> x \<noteq> y \<or> u \<noteq> UnitsDpi \<or> word_of_int x \<in> set seen then squareFrom seen vs
          else word_of_int x # squareFrom (word_of_int x # seen) vs
      | _ \<Rightarrow> squareFrom seen vs)"

definition squarePWGResolutions :: "attribute list \<Rightarrow> u32 list" where
  "squarePWGResolutions attrs =
     (case Attr attrs ''pwg-raster-document-resolution-supported'' of None \<Rightarrow> [] | Some attr \<Rightarrow> sort (squareFrom [] (attrValues attr)))"

definition fixedSheetBack :: "attribute list \<Rightarrow> string option" where
  "fixedSheetBack attrs =
     (case Attr attrs ''pwg-raster-document-sheet-back'' of
        None \<Rightarrow> None
      | Some attr \<Rightarrow>
          (case attrValues attr of
             [(TagKeyword, String s)] \<Rightarrow>
               (let v = ToLower (TrimSpace s) in
                if v \<in> {''normal'', ''flipped'', ''rotated'', ''manual-tumble''} then Some v else None)
           | _ \<Rightarrow> None))"

definition defaultSides :: "(val \<Rightarrow> string) \<Rightarrow> attribute list \<Rightarrow> string" where
  "defaultSides sprint attrs =
     (case FirstString sprint attrs ''sides-default'' of
        None \<Rightarrow> ''one-sided''
      | Some s \<Rightarrow>
          (let v = ToLower (TrimSpace s) in
           if v \<in> {''one-sided'', ''two-sided-long-edge'', ''two-sided-short-edge''} then v else ''one-sided''))"

definition defaultPageSettings :: "(val \<Rightarrow> string) \<Rightarrow> attribute list \<Rightarrow> PolicyConfig \<Rightarrow> PageSettings" where
  "defaultPageSettings sprint upstream policy =
     (let p0 = zeroPage\<lparr>MediaName := policyMediaDefault policy, MediaType := policyMediaType policy, Sides := defaultSides sprint upstream\<rparr>;
          p1 = (case ByName (buildMediaCatalog upstream policy) (mediaNameKey (policyMediaDefault policy)) of
                  None \<Rightarrow> p0
                | Some s \<Rightarrow>
                    if HasDimension s then p0\<lparr>MediaWidth := word_of_int (XDimension s), MediaHeight := word_of_int (YDimension s),
                      MediaType := (if sizeType s \<noteq> [] then sizeType s else policyMediaType policy)\<rparr> else p0);
          p2 = (case squarePWGResolutions upstream of [] \<Rightarrow> p1 | r # _ \<Rightarrow> p1\<lparr>ResolutionX := r, ResolutionY := r\<rparr>);
          p3 = (case FirstInt upstream ''print-quality-default'' of
                  Some q \<Rightarrow> if 3 \<le> q \<and> q \<le> 5 then p2\<lparr>PrintQuality := word_of_int q\<rparr> else p2 | None \<Rightarrow> p2) in
      case fixedSheetBack upstream of Some sheet \<Rightarrow> p3\<lparr>SheetBack := sheet\<rparr> | None \<Rightarrow> p3)"

subsection \<open>Emulated AirPrint\<close>

text \<open>The route and its tokens, or the reason why there is none.\<close>

definition emulatedColor :: "attribute list \<Rightarrow> PolicyConfig \<Rightarrow> string + string" where
  "emulatedColor upstream policy =
     (if EqualFold (TrimSpace (PrintColorMode policy)) ''monochrome'' then
        (if hasRasterType upstream ''sgray_8'' then Inr ''W8'' else Inl ''monochrome policy requires upstream sgray_8'')
      else if EqualFold (TrimSpace (PrintColorMode policy)) ''color'' then
        (if hasRasterType upstream ''srgb_8'' then Inr ''SRGB24''
         else if hasRasterType upstream ''rgb_8'' then Inr ''DEVRGB24''
         else Inl ''color policy requires upstream srgb_8 or rgb_8'')
      else Inl ''AirPrint emulation requires monochrome or color policy'')"

definition emulatedRoute ::
  "(val \<Rightarrow> string) \<Rightarrow> attribute list \<Rightarrow> PolicyConfig \<Rightarrow> mediaSize \<Rightarrow> u32 list \<Rightarrow> string \<Rightarrow> documentRoute" where
  "emulatedRoute sprint upstream policy selected resolutions sheet =
     \<lparr>ClientFormat = [], UpstreamFormat = [], Transform = False, routeMapping = mappingForPolicyAndTypes upstream policy,
      routePage = zeroPage\<lparr>MediaName := sizeName selected, MediaWidth := word_of_int (XDimension selected),
        MediaHeight := word_of_int (YDimension selected), MediaType := sizeType selected, ResolutionX := hd resolutions,
        ResolutionY := hd resolutions, Sides := defaultSides sprint upstream, SheetBack := sheet\<rparr>,
      Resolutions = resolutions, routeTokens = []\<rparr>"

definition emulatedURFRoute ::
  "(val \<Rightarrow> string) \<Rightarrow> attribute list \<Rightarrow> PolicyConfig \<Rightarrow> string + documentRoute \<times> string list" where
  "emulatedURFRoute sprint upstream policy =
     (let resolutions = squarePWGResolutions upstream in
      if \<not> containsMimeType upstream ''image/pwg-raster'' then Inl ''upstream does not support image/pwg-raster''
      else if \<not> validPWGRasterFamily upstream policy then
        Inl ''upstream lacks a complete compatible PWG Raster capability family''
      else case ByName (buildMediaCatalog upstream policy) (mediaNameKey (policyMediaDefault policy)) of
        None \<Rightarrow> Inl ''configured media has no resolvable dimensions''
      | Some selected \<Rightarrow>
          if \<not> HasDimension selected \<or> XDimension selected \<le> 0 \<or> YDimension selected \<le> 0 then
            Inl ''configured media has no resolvable dimensions''
          else if resolutions = [] then Inl ''upstream exposes no square PWG Raster resolution''
          else case emulatedColor upstream policy of
            Inl reason \<Rightarrow> Inl reason
          | Inr color \<Rightarrow>
              (case fixedSheetBack upstream of
                 None \<Rightarrow> Inl ''upstream has no usable PWG Raster sheet-back mode''
               | Some sheet \<Rightarrow>
                   Inr (emulatedRoute sprint upstream policy selected resolutions sheet,
                        [''V1.4'', color, ''RS'' @ show_nat (unat (hd resolutions))])))"

subsection \<open>Snapshots\<close>

definition AirPrintDisabled :: string where "AirPrintDisabled = ''disabled''"
definition AirPrintAuto :: string where "AirPrintAuto = ''auto''"
definition AirPrintEmulateIfMissing :: string where "AirPrintEmulateIfMissing = ''emulate-if-missing''"

definition normalizeAirPrintMode :: "string \<Rightarrow> string" where
  "normalizeAirPrintMode mode =
     (let m = ToLower (TrimSpace mode) in
      if m = [] \<or> m = AirPrintAuto then AirPrintAuto
      else if m = AirPrintEmulateIfMissing then AirPrintEmulateIfMissing
      else m)"

text \<open>The routes that hand a document on unchanged.\<close>

definition passRoutes :: "(val \<Rightarrow> string) \<Rightarrow> attribute list \<Rightarrow> PolicyConfig \<Rightarrow> bool \<Rightarrow> documentRoute list" where
  "passRoutes sprint upstream policy nativeURF =
     map (\<lambda>format. passRoute format (defaultPageSettings sprint upstream policy))
       (filter (\<lambda>format. \<not> (EqualFold format ''image/urf'' \<and> \<not> nativeURF)
                      \<and> \<not> (EqualFold format ''image/pwg-raster'' \<and> \<not> validPWGRasterFamily upstream policy))
         (admittedUpstreamFormats upstream))"

text \<open>
  Of the queue's configuration only the AirPrint mode matters, \<open>mode\<close>. The reasons set before the routes are
  collected never survive: every path through the function sets another one.
\<close>

definition buildRouteSnapshot ::
  "(val \<Rightarrow> string) \<Rightarrow> attribute list \<Rightarrow> PolicyConfig \<Rightarrow> string \<Rightarrow> RouteSnapshot" where
  "buildRouteSnapshot sprint upstream policy mode =
     (let native = (if validURFFamily upstream then nativeURFTokens upstream policy else None);
          passed = passRoutes sprint upstream policy (native \<noteq> None);
          unavailable = (\<lambda>reason. \<lparr>Routes = passed, AirPrintPath = AirPrintPathUnavailable, Reason = reason, URFTokens = []\<rparr>) in
      case native of
        Some tokens \<Rightarrow>
          \<lparr>Routes = passed, AirPrintPath = AirPrintPathNative, Reason = ''upstream provides a valid native image/urf family'',
           URFTokens = tokens\<rparr>
      | None \<Rightarrow>
          if normalizeAirPrintMode mode \<noteq> AirPrintEmulateIfMissing then
            unavailable (if normalizeAirPrintMode mode = AirPrintDisabled then ''disabled by configuration (airprint_mode=disabled)''
                         else ''native-only mode requires a valid upstream image/urf family'')
          else case emulatedURFRoute sprint upstream policy of
            Inl why \<Rightarrow> unavailable why
          | Inr (route, tokens) \<Rightarrow>
              \<lparr>Routes = passed @ [route\<lparr>ClientFormat := ''image/urf'', UpstreamFormat := ''image/pwg-raster'', Transform := True,
                 routeTokens := tokens\<rparr>],
               AirPrintPath = AirPrintPathEmulated, Reason = ''native URF is unavailable; exact URF-to-PWG route is eligible'',
               URFTokens = tokens\<rparr>)"

text \<open>What routing reads of a capability model.\<close>

record capabilityModel =
  modelUpstream :: "attribute list"
  modelPolicy :: PolicyConfig
  modelAirPrintMode :: string
  modelRoutes :: RouteSnapshot

definition routeSnapshotForModel :: "(val \<Rightarrow> string) \<Rightarrow> capabilityModel \<Rightarrow> RouteSnapshot" where
  "routeSnapshotForModel sprint model =
     (if Routes (modelRoutes model) \<noteq> [] \<or> AirPrintPath (modelRoutes model) \<noteq> [] then modelRoutes model
      else buildRouteSnapshot sprint (modelUpstream model) (modelPolicy model) (modelAirPrintMode model))"

subsection \<open>Page settings of a job\<close>

fun nestedIn :: "(val \<Rightarrow> string) \<Rightarrow> string \<Rightarrow> attribute list \<Rightarrow> string"
and nestedInValues :: "(val \<Rightarrow> string) \<Rightarrow> string \<Rightarrow> (tag \<times> val) list \<Rightarrow> string" where
  "nestedIn sprint name [] = []"
| "nestedIn sprint name (Attribute _ vs # as) = orText (nestedInValues sprint name vs) (nestedIn sprint name as)"
| "nestedInValues sprint name [] = []"
| "nestedInValues sprint name ((_, Collection as) # vs) =
     orText (case FirstString sprint as name of Some v \<Rightarrow> TrimSpace v | None \<Rightarrow> nestedIn sprint name as)
       (nestedInValues sprint name vs)"
| "nestedInValues sprint name (_ # vs) = nestedInValues sprint name vs"

definition nestedStringValue :: "(val \<Rightarrow> string) \<Rightarrow> attribute list \<Rightarrow> string \<Rightarrow> string" where
  "nestedStringValue sprint attrs name =
     (case FirstString sprint attrs name of Some v \<Rightarrow> TrimSpace v | None \<Rightarrow> nestedIn sprint name attrs)"

definition nestedStringAttribute :: "(val \<Rightarrow> string) \<Rightarrow> attribute list \<Rightarrow> string \<Rightarrow> string \<Rightarrow> string" where
  "nestedStringAttribute sprint attrs collectionName memberName =
     (case Attr attrs collectionName of
        None \<Rightarrow> []
      | Some attr \<Rightarrow>
          (case attrValues attr of
             [(_, Collection as)] \<Rightarrow> nestedStringValue sprint as memberName
           | _ \<Rightarrow> []))"

definition singleResolution :: "attribute list \<Rightarrow> string \<Rightarrow> (int \<times> int \<times> units) option" where
  "singleResolution attrs name =
     (case Attr attrs name of
        None \<Rightarrow> None
      | Some attr \<Rightarrow>
          (case attrValues attr of
             [(TagResolution, Resolution x y u)] \<Rightarrow> Some (x, y, u)
           | _ \<Rightarrow> None))"

definition containsResolution :: "u32 list \<Rightarrow> u32 \<Rightarrow> bool" where
  "containsResolution values wanted \<longleftrightarrow> wanted \<in> set values"

text \<open>The name of the medium a job asks for.\<close>

definition requestedMediaName :: "(val \<Rightarrow> string) \<Rightarrow> attribute list \<Rightarrow> string option" where
  "requestedMediaName sprint attrs =
     (case FirstString sprint attrs ''media'' of
        Some media \<Rightarrow> Some media
      | None \<Rightarrow>
          (let media = nestedStringAttribute sprint attrs ''media-col'' ''media-size-name'' in
           if media = [] then None else Some media))"

definition mediaOnlyPolicy :: "string \<Rightarrow> string \<Rightarrow> PolicyConfig" where
  "mediaOnlyPolicy media paper =
     \<lparr>policyMedia = media, MediaSupported = [], MediaDefault = [], policyMediaType = paper, PrintColorMode = [],
      policySource = None, PrintScaling = None, UseMediaCol = False, policyFidelity = []\<rparr>"

definition pageMedia :: "attribute list \<Rightarrow> string option \<Rightarrow> PageSettings \<Rightarrow> PageSettings" where
  "pageMedia upstream media p =
     (case media of
        None \<Rightarrow> p
      | Some m \<Rightarrow>
          (case ByName (buildMediaCatalog upstream (mediaOnlyPolicy m (MediaType p))) (mediaNameKey m) of
             None \<Rightarrow> p
           | Some s \<Rightarrow>
               if HasDimension s
               then p\<lparr>MediaName := sizeName s, MediaWidth := word_of_int (XDimension s), MediaHeight := word_of_int (YDimension s)\<rparr>
               else p))"

definition routePageSettings ::
  "(val \<Rightarrow> string) \<Rightarrow> documentRoute \<Rightarrow> attribute list \<Rightarrow> attribute list \<Rightarrow> PageSettings" where
  "routePageSettings sprint route attrs upstream =
     (let p1 = pageMedia upstream (requestedMediaName sprint attrs) (routePage route);
          p2 = (case FirstString sprint attrs ''sides'' of None \<Rightarrow> p1 | Some s \<Rightarrow> p1\<lparr>Sides := ToLower (TrimSpace s)\<rparr>);
          p3 = (case FirstInt attrs ''print-quality'' of
                  Some q \<Rightarrow> if 3 \<le> q \<and> q \<le> 5 then p2\<lparr>PrintQuality := word_of_int q\<rparr> else p2 | None \<Rightarrow> p2) in
      case singleResolution attrs ''printer-resolution'' of
        None \<Rightarrow> p3
      | Some (x, y, u) \<Rightarrow>
          if x > 0 \<and> x = y \<and> u = UnitsDpi \<and> (Resolutions route = [] \<or> containsResolution (Resolutions route) (word_of_int x))
          then p3\<lparr>ResolutionX := word_of_int x, ResolutionY := word_of_int x\<rparr> else p3)"

subsection \<open>Advertised formats\<close>

definition formatRouteList :: "documentRoute list \<Rightarrow> string list" where
  "formatRouteList routes = uniqueStrings (map ClientFormat routes)"

definition mappingOutputType :: "Mapping \<Rightarrow> string" where
  "mappingOutputType m =
     (case m of MappingW8ToSGray8 \<Rightarrow> ''sgray_8'' | MappingSRGB24ToSRGB8 \<Rightarrow> ''srgb_8'' | MappingDEVRGB24ToRGB8 \<Rightarrow> ''rgb_8''
      | MappingUnknown _ \<Rightarrow> [])"

definition replaceAttr :: "attribute list \<Rightarrow> attribute \<Rightarrow> attribute list" where
  "replaceAttr attrs attr = SetAttr (DropAttrs attrs [attrName attr]) attr"

definition applyEmulatedRasterCapabilities :: "attribute list \<Rightarrow> RouteSnapshot \<Rightarrow> attribute list" where
  "applyEmulatedRasterCapabilities attrs routes =
     (case List.find Transform (Routes routes) of
        None \<Rightarrow> attrs
      | Some emulated \<Rightarrow>
          (let output = mappingOutputType (routeMapping emulated);
               attrs1 = (if output \<noteq> [] then replaceAttr attrs (Keyword ''pwg-raster-document-type-supported'' output) else attrs);
               values = map (\<lambda>r. (TagResolution, Resolution (uint r) (uint r) UnitsDpi)) (filter (\<lambda>r. r \<noteq> 0) (Resolutions emulated)) in
           if values = [] then attrs1
           else replaceAttr attrs1 (Attribute ''pwg-raster-document-resolution-supported'' values)))"

definition applyRouteCapabilities :: "(val \<Rightarrow> string) \<Rightarrow> attribute list \<Rightarrow> capabilityModel \<Rightarrow> attribute list" where
  "applyRouteCapabilities sprint base model =
     (let routes = routeSnapshotForModel sprint model; formats = formatRouteList (Routes routes) in
      if formats = [] then DropAttrs base [''urf-supported'']
      else
        (let r1 = replaceAttr base (Attribute ''document-format-supported'' (map (\<lambda>f. (TagMimeType, String f)) formats));
             r2 = (if AirPrintPath routes = AirPrintPathNative \<or> AirPrintPath routes = AirPrintPathEmulated
                   then replaceAttr r1 (Keywords ''urf-supported'' (URFTokens routes))
                   else DropAttrs r1 [''urf-supported'']);
             r3 = (if AirPrintPath routes = AirPrintPathEmulated then applyEmulatedRasterCapabilities r2 routes else r2) in
         if AirPrintPath routes = AirPrintPathEmulated \<and> Attr r3 ''document-format-default'' = None
         then r3 @ [Attribute ''document-format-default'' [(TagMimeType, String ''image/urf'')]] else r3))"

subsection \<open>Requests\<close>

definition legacyPassThroughRoute :: "(val \<Rightarrow> string) \<Rightarrow> attribute list \<Rightarrow> string \<Rightarrow> documentRoute option" where
  "legacyPassThroughRoute sprint upstream format =
     (let formats = admittedLegacyFormats upstream;
          page = defaultPageSettings sprint upstream (mediaOnlyPolicy [] []);
          given = ToLower (TrimSpace format);
          byDefault = (case FirstString sprint upstream ''document-format-default'' of Some f \<Rightarrow> ToLower (TrimSpace f) | None \<Rightarrow> []);
          wanted = orText given (orText byDefault (if formats = [] then [] else hd formats)) in
      if wanted = [] then None
      else if wanted = ''application/octet-stream'' then Some (passRoute wanted page)
      else map_option (\<lambda>f. passRoute f page) (List.find (\<lambda>f. EqualFold f wanted) formats))"

text \<open>
  What the service holds about a queue: its committed model, the attributes of its last probe, and its
  configuration (policy and AirPrint mode).
\<close>

definition routeForRequest ::
  "(val \<Rightarrow> string) \<Rightarrow> capabilityModel option \<Rightarrow> attribute list option \<Rightarrow> (PolicyConfig \<times> string) option \<Rightarrow> string
    \<Rightarrow> documentRoute option" where
  "routeForRequest sprint model probed printer format =
     (let pick = (\<lambda>snapshot upstream. if TrimSpace format = [] then defaultRoute sprint snapshot upstream else routeFor snapshot format) in
      case model of
        Some m \<Rightarrow> pick (routeSnapshotForModel sprint m) (modelUpstream m)
      | None \<Rightarrow>
          (case printer of
             None \<Rightarrow> None
           | Some (policy, mode) \<Rightarrow>
               (let upstream = (case probed of Some up \<Rightarrow> up | None \<Rightarrow> []) in
                case pick (buildRouteSnapshot sprint upstream policy mode) upstream of
                  Some r \<Rightarrow> Some r
                | None \<Rightarrow> legacyPassThroughRoute sprint upstream format)))"

definition clientRoute ::
  "(val \<Rightarrow> string) \<Rightarrow> capabilityModel option \<Rightarrow> attribute list option \<Rightarrow> (PolicyConfig \<times> string) option \<Rightarrow> string
    \<Rightarrow> message \<Rightarrow> ProtocolError + documentRoute" where
  "clientRoute sprint model probed printer format req =
     (case routeForRequest sprint model probed printer format of
        Some r \<Rightarrow> Inr r
      | None \<Rightarrow> Inl (unsupportedError StatusErrorDocumentFormatNotSupported ''document-format is not admitted for this queue''
                 (attrsNamed (msgOperation req) [''document-format''])))"

definition rewriteDocumentFormat :: "attribute list \<Rightarrow> string \<Rightarrow> attribute list" where
  "rewriteDocumentFormat attrs format =
     (if TrimSpace format = [] then attrs else SetAttr attrs (Attribute ''document-format'' [(TagMimeType, String format)]))"

end
