(* ===== verification/Proxy_Snapshot.thy ===== *)
theory Proxy_Snapshot
  imports Proxy_Routing Proxy_Compose
begin

text \<open>
  Properties of the routes of a queue: which formats have a route, that native and emulated AirPrint
  exclude each other, and that no color token is offered against the policy.
\<close>

subsection \<open>Lists without repetitions\<close>

lemma uniqueFrom_facts: "set (uniqueFrom seen vs) = set vs - set seen" "distinct (uniqueFrom seen vs)"
  by (induction seen vs rule: uniqueFrom.induct) auto

lemma uniqueStrings_facts [simp]: "set (uniqueStrings vs) = set vs" "distinct (uniqueStrings vs)"
  by (simp_all add: uniqueStrings_def uniqueFrom_facts)

lemma uniqueFrom_id: "distinct vs \<Longrightarrow> set vs \<inter> set seen = {} \<Longrightarrow> uniqueFrom seen vs = vs"
  by (induction seen vs rule: uniqueFrom.induct) auto

lemma uniqueStrings_id: "distinct vs \<Longrightarrow> uniqueStrings vs = vs"
  by (simp add: uniqueStrings_def uniqueFrom_id)

subsection \<open>Formats\<close>

text \<open>The formats that a list of values names, in lower case.\<close>

definition namesFormat :: "(tag \<times> val) list \<Rightarrow> string \<Rightarrow> bool" where
  "namesFormat vs f \<longleftrightarrow> f \<noteq> [] \<and> (\<exists>s. (TagMimeType, String s) \<in> set vs \<and> f = ToLower (TrimSpace s))"

lemma admittedFrom_facts:
  "set (admittedFrom octets seen vs) = {f. namesFormat vs f \<and> (octets \<or> f \<noteq> ''application/octet-stream'') \<and> f \<notin> set seen}"
  "distinct (admittedFrom octets seen vs)"
proof -
  have "set (admittedFrom octets seen vs) = {f. namesFormat vs f \<and> (octets \<or> f \<noteq> ''application/octet-stream'') \<and> f \<notin> set seen}
      \<and> distinct (admittedFrom octets seen vs)"
  proof (induction vs arbitrary: seen)
    case (Cons p vs)
    obtain t v where p: "p = (t, v)" by fastforce
    show ?case
      using Cons.IH [of seen] Cons.IH [of "ToLower (TrimSpace s) # seen" for s]
      by (cases v) (auto simp: p namesFormat_def Let_def)
  qed (simp add: namesFormat_def)
  then show "set (admittedFrom octets seen vs) = {f. namesFormat vs f \<and> (octets \<or> f \<noteq> ''application/octet-stream'') \<and> f \<notin> set seen}"
    "distinct (admittedFrom octets seen vs)" by simp_all
qed

lemma admitted_facts:
  "f \<in> set (admittedUpstreamFormats up) \<longleftrightarrow>
     f \<noteq> ''application/octet-stream'' \<and> (\<exists>a. Attr up ''document-format-supported'' = Some a \<and> namesFormat (attrValues a) f)"
  "distinct (admittedUpstreamFormats up)"
  by (cases "Attr up ''document-format-supported''"; auto simp: admittedUpstreamFormats_def admittedFrom_facts)+

text \<open>Spellings of the format of Apple Raster.\<close>

lemma urf_spelling:
  assumes "EqualFold s ''image/urf''"
  shows "ToLower s = ''image/urf''" "TrimSpace s = s" "ascii s"
proof -
  have "FoldCase ''image/urf'' = ''image/urf''" by code_simp
  note fold = fold_lower [OF assms this]
  show a: "ascii s" and l: "ToLower s = ''image/urf''" by (rule fold; simp add: ascii_def)+
  then have plain: "sql_lower s = ''image/urf''" by (simp add: ascii_lower_forms)
  have "visible s" unfolding visible_def
  proof
    fix c assume "c \<in> set s"
    then have "ascii_lower c \<in> set ''image/urf''" unfolding plain [symmetric] by (simp add: sql_lower_def)
    then show "32 < (of_char c :: nat) \<and> of_char c < (127 :: nat)"
      by (cases "CHR ''A'' \<le> c \<and> c \<le> CHR ''Z''") (auto simp: ascii_lower_def less_eq_char_def)
  qed
  then show "TrimSpace s = s" by (rule visible_TrimSpace)
qed

lemma native_format:
  assumes "validURFFamily up"
  shows "''image/urf'' \<in> set (admittedUpstreamFormats up)"
proof -
  from assms obtain a v where a: "Attr up ''document-format-supported'' = Some a" and v: "v \<in> set (attrValues a)" "fst v = TagMimeType"
    "case snd v of String s \<Rightarrow> EqualFold s ''image/urf'' | _ \<Rightarrow> False"
    by (auto simp: validURFFamily_def hasMimeTypeValue_def split: option.split_asm)
  then obtain s where "(TagMimeType, String s) \<in> set (attrValues a)" "EqualFold s ''image/urf''"
    by (cases v; cases "snd v") auto
  with urf_spelling have "namesFormat (attrValues a) ''image/urf''" by (fastforce simp: namesFormat_def)
  with a show ?thesis by (simp add: admitted_facts)
qed

lemma urf_admitted:
  assumes "f \<in> set (admittedUpstreamFormats up)"
  shows "EqualFold f ''image/urf'' \<longleftrightarrow> f = ''image/urf''"
proof
  assume e: "EqualFold f ''image/urf''"
  from assms obtain s where f: "f = ToLower s" by (auto simp: admitted_facts namesFormat_def)
  have "ToLower f = f" using urf_spelling(3) [OF e] by (simp add: ascii_lower_forms f sql_lower_ToLower)
  with urf_spelling(1) [OF e] show "f = ''image/urf''" by simp
qed (simp add: EqualFold_def)

subsection \<open>Tokens\<close>

lemma nativeURFTokens_facts:
  assumes "nativeURFTokens up policy = Some tokens"
  shows "tokens \<noteq> []" "distinct tokens" "containsURFPrefix tokens ''RS''"
    "ToLower (TrimSpace (PrintColorMode policy)) = ''monochrome'' \<Longrightarrow> t \<in> set tokens \<Longrightarrow> \<not> isColorURFToken t"
    "ToLower (TrimSpace (PrintColorMode policy)) = ''color'' \<Longrightarrow> t \<in> set tokens \<Longrightarrow> \<not> HasPrefix t ''W'' \<and> \<not> HasPrefix t ''DEVW''"
proof -
  let ?mode = "ToLower (TrimSpace (PrintColorMode policy))"
  from assms obtain raw preferred where t: "tokens = uniqueStrings (sort_key urfTokenRank (filter (keptToken ?mode preferred) raw))"
    and rs: "containsURFPrefix (filter (keptToken ?mode preferred) raw) ''RS''"
    by (auto simp: nativeURFTokens_def Let_def split: option.split_asm if_split_asm)
  then have set: "set tokens = set (filter (keptToken ?mode preferred) raw)" by simp
  show "distinct tokens" by (simp add: t)
  show "containsURFPrefix tokens ''RS''" using rs by (simp add: containsURFPrefix_def set)
  then show "tokens \<noteq> []" by (auto simp: containsURFPrefix_def)
  show "?mode = ''monochrome'' \<Longrightarrow> t \<in> set tokens \<Longrightarrow> \<not> isColorURFToken t" for t
    by (auto simp: set keptToken_def)
  show "?mode = ''color'' \<Longrightarrow> t \<in> set tokens \<Longrightarrow> \<not> HasPrefix t ''W'' \<and> \<not> HasPrefix t ''DEVW''" for t
    by (auto simp: set keptToken_def)
qed

lemma emulated_facts:
  assumes "emulatedURFRoute sprint up policy = Inr (r, tokens)"
  obtains selected sheet color where
    "containsMimeType up ''image/pwg-raster''" "validPWGRasterFamily up policy"
    "ByName (buildMediaCatalog up policy) (mediaNameKey (policyMediaDefault policy)) = Some selected"
    "HasDimension selected" "0 < XDimension selected" "0 < YDimension selected" "squarePWGResolutions up \<noteq> []"
    "emulatedColor up policy = Inr color" "fixedSheetBack up = Some sheet"
    "r = emulatedRoute sprint up policy selected (squarePWGResolutions up) sheet"
    "tokens = [''V1.4'', color, ''RS'' @ show_nat (unat (hd (squarePWGResolutions up)))]"
  using assms that by (auto simp: emulatedURFRoute_def Let_def split: if_split_asm option.split_asm sum.split_asm)

lemma native_exclusive:
  obtains (native) tokens where "validURFFamily up" "nativeURFTokens up policy = Some tokens"
    "buildRouteSnapshot sprint up policy mode = \<lparr>Routes = passRoutes sprint up policy True, AirPrintPath = AirPrintPathNative,
       Reason = ''upstream provides a valid native image/urf family'', URFTokens = tokens\<rparr>"
  | (emulated) r tokens where "normalizeAirPrintMode mode = AirPrintEmulateIfMissing" "emulatedURFRoute sprint up policy = Inr (r, tokens)"
    "\<not> (validURFFamily up \<and> nativeURFTokens up policy \<noteq> None)"
    "buildRouteSnapshot sprint up policy mode = \<lparr>Routes = passRoutes sprint up policy False @
         [r\<lparr>ClientFormat := ''image/urf'', UpstreamFormat := ''image/pwg-raster'', Transform := True, routeTokens := tokens\<rparr>],
       AirPrintPath = AirPrintPathEmulated, Reason = ''native URF is unavailable; exact URF-to-PWG route is eligible'',
       URFTokens = tokens\<rparr>"
  | (unavailable) reason where "\<not> (validURFFamily up \<and> nativeURFTokens up policy \<noteq> None)"
    "normalizeAirPrintMode mode = AirPrintEmulateIfMissing \<Longrightarrow> \<exists>why. emulatedURFRoute sprint up policy = Inl why"
    "buildRouteSnapshot sprint up policy mode = \<lparr>Routes = passRoutes sprint up policy False, AirPrintPath = AirPrintPathUnavailable,
       Reason = reason, URFTokens = []\<rparr>"
proof (cases "if validURFFamily up then nativeURFTokens up policy else None")
  case (Some tokens)
  then have "validURFFamily up" "nativeURFTokens up policy = Some tokens" by (auto split: if_split_asm)
  then show thesis by (rule native) (use Some in \<open>simp add: buildRouteSnapshot_def\<close>)
next
  case None
  then have no: "\<not> (validURFFamily up \<and> nativeURFTokens up policy \<noteq> None)" by auto
  show thesis
  proof (cases "normalizeAirPrintMode mode = AirPrintEmulateIfMissing")
    case True
    show thesis
    proof (cases "emulatedURFRoute sprint up policy")
      case (Inl why)
      show thesis by (rule unavailable [OF no]) (use True Inl None in \<open>auto simp: buildRouteSnapshot_def\<close>)
    next
      case (Inr p)
      obtain r tokens where p: "p = (r, tokens)" by fastforce
      show thesis by (rule emulated [OF True _ no]) (use True Inr None p in \<open>auto simp: buildRouteSnapshot_def\<close>)
    qed
  next
    case False
    show thesis by (rule unavailable [OF no]) (use False None in \<open>auto simp: buildRouteSnapshot_def\<close>)
  qed
qed

subsection \<open>Routes\<close>

text \<open>Whether a document of this format can be handed on as it is.\<close>

definition passable :: "attribute list \<Rightarrow> PolicyConfig \<Rightarrow> bool \<Rightarrow> string \<Rightarrow> bool" where
  "passable up policy nativeURF f \<longleftrightarrow> f \<in> set (admittedUpstreamFormats up) \<and>
     (EqualFold f ''image/urf'' \<longrightarrow> nativeURF) \<and> (EqualFold f ''image/pwg-raster'' \<longrightarrow> validPWGRasterFamily up policy)"

lemma passRoutes_facts:
  "set (passRoutes sprint up policy n) = (\<lambda>f. passRoute f (defaultPageSettings sprint up policy)) ` {f. passable up policy n f}"
  "distinct (map ClientFormat (passRoutes sprint up policy n))"
  by (auto simp: passRoutes_def passable_def comp_def passRoute_def admitted_facts(2) intro!: imageI)

text \<open>The token of the color space a mapping reads.\<close>

definition mappingToken :: "Mapping \<Rightarrow> string" where
  "mappingToken m =
     (case m of MappingW8ToSGray8 \<Rightarrow> ''W8'' | MappingSRGB24ToSRGB8 \<Rightarrow> ''SRGB24'' | MappingDEVRGB24ToRGB8 \<Rightarrow> ''DEVRGB24''
      | MappingUnknown _ \<Rightarrow> [])"

lemma color_modes: "EqualFold s ''color'' \<Longrightarrow> \<not> EqualFold s ''monochrome''"
proof -
  have "\<not> EqualFold ''color'' ''monochrome''" by code_simp
  then show "EqualFold s ''color'' \<Longrightarrow> \<not> EqualFold s ''monochrome''" by (simp add: EqualFold_def)
qed

lemma emulated_mapping:
  assumes "emulatedColor up policy = Inr color"
  shows "mappingToken (mappingForPolicyAndTypes up policy) = color" "validateMapping (mappingForPolicyAndTypes up policy) = Inr ()"
    "hasRasterType up (mappingOutputType (mappingForPolicyAndTypes up policy))"
  using assms color_modes
  by (auto simp: emulatedColor_def mappingForPolicyAndTypes_def mappingToken_def validateMapping_def mappingOutputType_def
      split: if_split_asm)

lemma snapshot_facts:
  "let s = buildRouteSnapshot sprint up policy mode in
     distinct (map ClientFormat (Routes s)) \<and>
     (\<forall>r \<in> set (Routes s). \<not> Transform r \<longrightarrow> UpstreamFormat r = ClientFormat r) \<and>
     (\<forall>f. (\<exists>r \<in> set (Routes s). ClientFormat r = f \<and> \<not> Transform r) \<longleftrightarrow> passable up policy (AirPrintPath s = AirPrintPathNative) f) \<and>
     (\<forall>r \<in> set (Routes s). Transform r \<longrightarrow>
        ClientFormat r = ''image/urf'' \<and> UpstreamFormat r = ''image/pwg-raster'' \<and> containsMimeType up ''image/pwg-raster'' \<and>
        validPWGRasterFamily up policy \<and> hasRasterType up (mappingOutputType (routeMapping r)) \<and>
        mappingToken (routeMapping r) \<in> set (URFTokens s) \<and> routeTokens r = URFTokens s) \<and>
     ((\<exists>r \<in> set (Routes s). Transform r) \<longleftrightarrow> AirPrintPath s = AirPrintPathEmulated) \<and>
     ((\<exists>r \<in> set (Routes s). ClientFormat r = ''image/urf'') \<longleftrightarrow> AirPrintPath s \<noteq> AirPrintPathUnavailable)"
proof -
  have paths: "AirPrintPathNative \<noteq> AirPrintPathEmulated" "AirPrintPathNative \<noteq> AirPrintPathUnavailable"
    "AirPrintPathEmulated \<noteq> AirPrintPathUnavailable"
    by (simp_all add: AirPrintPathNative_def AirPrintPathEmulated_def AirPrintPathUnavailable_def)
  have pass: "(\<exists>r \<in> set (passRoutes sprint up policy n). ClientFormat r = f) \<longleftrightarrow> passable up policy n f"
    "(\<exists>r \<in> set (passRoutes sprint up policy n). ClientFormat r = f \<and> \<not> Transform r) \<longleftrightarrow> passable up policy n f"
    "\<forall>r \<in> set (passRoutes sprint up policy n). \<not> Transform r \<and> UpstreamFormat r = ClientFormat r" for n f
    by (auto simp: passRoutes_facts passRoute_def)
  have urf: "EqualFold ''image/urf'' ''image/urf''" "\<not> EqualFold ''image/urf'' ''image/pwg-raster''" by code_simp+
  have no_urf: "\<not> passable up policy False ''image/urf''" by (simp add: passable_def urf)
  show ?thesis
  proof (cases rule: native_exclusive [of up policy sprint mode])
    case (native tokens)
    have "passable up policy True ''image/urf''" using native_format [OF native(1)] urf by (simp add: passable_def)
    then show ?thesis using pass [where n = True] passRoutes_facts(2) paths by (auto simp: native(3))
  next
    case (emulated r tokens)
    from emulated(2) obtain selected sheet color where e: "containsMimeType up ''image/pwg-raster''" "validPWGRasterFamily up policy"
      "emulatedColor up policy = Inr color" "r = emulatedRoute sprint up policy selected (squarePWGResolutions up) sheet"
      "tokens = [''V1.4'', color, ''RS'' @ show_nat (unat (hd (squarePWGResolutions up)))]" by (rule emulated_facts)
    have "ClientFormat ` set (passRoutes sprint up policy False) = {f. passable up policy False f}"
      by (simp add: passRoutes_facts(1) image_image passRoute_def)
    then have "''image/urf'' \<notin> ClientFormat ` set (passRoutes sprint up policy False)" using no_urf by simp
    then show ?thesis
      using pass [where n = False] passRoutes_facts(2) paths emulated_mapping [OF e(3)] e
      by (simp add: emulated(4) emulatedRoute_def Let_def)
  next
    case (unavailable reason)
    then show ?thesis using pass [where n = False] passRoutes_facts(2) paths no_urf by (auto simp: unavailable(3))
  qed
qed

text \<open>
  C28: the routes of a queue. No format has two routes; a document is handed on unchanged only in a
  format the printer admits, and every such format has a route unless it is a raster format whose
  capabilities are incomplete. Apple Raster is accepted exactly when the queue announces a native or an
  emulated AirPrint path; it is translated exactly on the emulated path, to the PWG Raster type of the
  printer that the announced color space is mapped to.
\<close>

theorem route_snapshot:
  "let s = buildRouteSnapshot sprint up policy mode in
     distinct (map ClientFormat (Routes s)) \<and>
     (\<forall>r \<in> set (Routes s). \<not> Transform r \<longrightarrow> UpstreamFormat r = ClientFormat r) \<and>
     (\<forall>f. (\<exists>r \<in> set (Routes s). ClientFormat r = f \<and> \<not> Transform r) \<longleftrightarrow> passable up policy (AirPrintPath s = AirPrintPathNative) f) \<and>
     (\<forall>r \<in> set (Routes s). Transform r \<longrightarrow>
        ClientFormat r = ''image/urf'' \<and> UpstreamFormat r = ''image/pwg-raster'' \<and> containsMimeType up ''image/pwg-raster'' \<and>
        validPWGRasterFamily up policy \<and> hasRasterType up (mappingOutputType (routeMapping r)) \<and>
        mappingToken (routeMapping r) \<in> set (URFTokens s) \<and> routeTokens r = URFTokens s) \<and>
     ((\<exists>r \<in> set (Routes s). Transform r) \<longleftrightarrow> AirPrintPath s = AirPrintPathEmulated) \<and>
     ((\<exists>r \<in> set (Routes s). ClientFormat r = ''image/urf'') \<longleftrightarrow> AirPrintPath s \<noteq> AirPrintPathUnavailable)"
  by (rule snapshot_facts)

lemma lower_modes:
  "ToLower s = ''monochrome'' \<Longrightarrow> EqualFold s ''monochrome''"
  "ToLower s = ''color'' \<Longrightarrow> EqualFold s ''color''"
proof -
  have "FoldCase ''monochrome'' = ''monochrome''" "FoldCase ''color'' = ''color''" by code_simp+
  then show "ToLower s = ''monochrome'' \<Longrightarrow> EqualFold s ''monochrome''" "ToLower s = ''color'' \<Longrightarrow> EqualFold s ''color''"
    by (auto intro: lower_fold simp: ascii_def)
qed

text \<open>
  C31: the AirPrint tokens a queue announces agree with its policy, on the native and on the emulated
  path: a monochrome queue announces no color space, a color queue no grayscale one, and a
  resolution is always announced.
\<close>

theorem announced_tokens:
  assumes "t \<in> set (URFTokens (buildRouteSnapshot sprint up policy mode))"
  shows "containsURFPrefix (URFTokens (buildRouteSnapshot sprint up policy mode)) ''RS'' \<and>
    (ToLower (TrimSpace (PrintColorMode policy)) = ''monochrome'' \<longrightarrow> \<not> isColorURFToken t) \<and>
    (ToLower (TrimSpace (PrintColorMode policy)) = ''color'' \<longrightarrow> \<not> HasPrefix t ''W'' \<and> \<not> HasPrefix t ''DEVW'')"
proof (cases rule: native_exclusive [of up policy sprint mode])
  case (native tokens)
  with assms nativeURFTokens_facts [OF native(2)] show ?thesis by simp
next
  case (emulated r tokens)
  from emulated(2) obtain selected sheet color where e: "emulatedColor up policy = Inr color"
    "tokens = [''V1.4'', color, ''RS'' @ show_nat (unat (hd (squarePWGResolutions up)))]" by (rule emulated_facts)
  have mono: "EqualFold (TrimSpace (PrintColorMode policy)) ''monochrome'' \<Longrightarrow> color = ''W8''"
    and col: "EqualFold (TrimSpace (PrintColorMode policy)) ''color'' \<Longrightarrow> color = ''SRGB24'' \<or> color = ''DEVRGB24''"
    using e(1) color_modes by (auto simp: emulatedColor_def split: if_split_asm)
  from assms have t: "t = ''V1.4'' \<or> t = color \<or> t = ''RS'' @ show_nat (unat (hd (squarePWGResolutions up)))"
    by (simp add: emulated(4) e(2))
  have "\<not> isColorURFToken t" if "ToLower (TrimSpace (PrintColorMode policy)) = ''monochrome''"
    using t mono [OF lower_modes(1) [OF that]] by (auto simp: isColorURFToken_def)
  moreover have "\<not> HasPrefix t ''W'' \<and> \<not> HasPrefix t ''DEVW''" if "ToLower (TrimSpace (PrintColorMode policy)) = ''color''"
    using t col [OF lower_modes(2) [OF that]] by auto
  ultimately show ?thesis by (simp add: emulated(4) e(2) containsURFPrefix_def)
next
  case unavailable
  with assms show ?thesis by simp
qed

subsection \<open>A queue with emulated AirPrint\<close>

text \<open>The office queue on a printer that prints PDF and PWG Raster in gray.\<close>

definition rasterPrinter :: "attribute list" where
  "rasterPrinter = officePrinter @
     [Attribute ''document-format-supported'' [(TagMimeType, String ''application/pdf''), (TagMimeType, String ''image/pwg-raster'')],
      Keywords ''pwg-raster-document-type-supported'' [''sgray_8''],
      Attribute ''pwg-raster-document-resolution-supported'' [(TagResolution, Resolution 300 300 UnitsDpi)],
      Keyword ''pwg-raster-document-sheet-back'' ''normal'']"

definition a4 :: mediaSize where
  "a4 = zeroMediaSize\<lparr>sizeName := ''iso_a4_210x297mm'', XDimension := 21000, YDimension := 29700, HasDimension := True,
     sizeType := ''stationery'', HasMediaType := True\<rparr>"

definition a4Page :: PageSettings where
  "a4Page = zeroPage\<lparr>MediaName := ''iso_a4_210x297mm'', MediaWidth := 21000, MediaHeight := 29700, MediaType := ''stationery'',
     ResolutionX := 300, ResolutionY := 300, Sides := ''one-sided'', SheetBack := ''normal''\<rparr>"

definition urfRoute :: documentRoute where
  "urfRoute = \<lparr>ClientFormat = ''image/urf'', UpstreamFormat = ''image/pwg-raster'', Transform = True, routeMapping = MappingW8ToSGray8,
     routePage = a4Page, Resolutions = [300], routeTokens = [''V1.4'', ''W8'', ''RS300'']\<rparr>"

lemma instances_alone:
  assumes "upstreamMediaCollections up = []"
  shows "instancesFor up policy n = [completeInstance up policy (baseFor n)]"
  using assms by (simp add: instancesFor_def Let_def)

lemma raster_default:
  "ByName (buildMediaCatalog rasterPrinter office) (mediaNameKey (policyMediaDefault office)) = Some a4"
proof -
  have "upstreamMediaCollections rasterPrinter = []" by code_simp
  note inst = instances_alone [OF this]
  have "List.find (\<lambda>n. mediaNameKey n = mediaNameKey (policyMediaDefault office)) (rev (policyMediaNames office)) = Some ''iso_a4_210x297mm''"
    by code_simp
  moreover have "mediaSizeFromPWGName ''iso_a4_210x297mm'' =
      Some (zeroMediaSize\<lparr>sizeName := ''iso_a4_210x297mm'', XDimension := 21000, YDimension := 29700, HasDimension := True\<rparr>)"
    by code_simp
  moreover have "provenAutomaticMediaSource rasterPrinter = None" "TrimSpace (policyMediaType office) = ''stationery''" by code_simp+
  ultimately show ?thesis
    by (simp add: buildMediaCatalog_def catalog_fold inst preferredMediaInstance_def completeInstance_def baseFor_def a4_def
        zeroMediaSize_def)
qed

lemma raster_emulated:
  "emulatedURFRoute sprint rasterPrinter office =
     Inr (urfRoute\<lparr>ClientFormat := [], UpstreamFormat := [], Transform := False, routeTokens := []\<rparr>, [''V1.4'', ''W8'', ''RS300''])"
proof -
  have "containsMimeType rasterPrinter ''image/pwg-raster''" "validPWGRasterFamily rasterPrinter office"
    "squarePWGResolutions rasterPrinter = [300]" "emulatedColor rasterPrinter office = Inr ''W8''"
    "fixedSheetBack rasterPrinter = Some ''normal''" "mappingForPolicyAndTypes rasterPrinter office = MappingW8ToSGray8"
    "Attr rasterPrinter ''sides-default'' = None" "show_nat 300 = ''300''" by code_simp+
  moreover from this(7) have "defaultSides sprint rasterPrinter = ''one-sided''" by (simp add: defaultSides_def FirstString_def)
  ultimately show ?thesis
    by (simp add: emulatedURFRoute_def raster_default emulatedRoute_def urfRoute_def a4Page_def a4_def zeroMediaSize_def Let_def)
qed

lemma raster_snapshot:
  "AirPrintPath (buildRouteSnapshot sprint rasterPrinter office ''emulate-if-missing'') = AirPrintPathEmulated"
  "urfRoute \<in> set (Routes (buildRouteSnapshot sprint rasterPrinter office ''emulate-if-missing''))"
  "URFTokens (buildRouteSnapshot sprint rasterPrinter office ''emulate-if-missing'') = [''V1.4'', ''W8'', ''RS300'']"
proof -
  have "\<not> validURFFamily rasterPrinter" "normalizeAirPrintMode ''emulate-if-missing'' = AirPrintEmulateIfMissing" by code_simp+
  then show "AirPrintPath (buildRouteSnapshot sprint rasterPrinter office ''emulate-if-missing'') = AirPrintPathEmulated"
    "urfRoute \<in> set (Routes (buildRouteSnapshot sprint rasterPrinter office ''emulate-if-missing''))"
    "URFTokens (buildRouteSnapshot sprint rasterPrinter office ''emulate-if-missing'') = [''V1.4'', ''W8'', ''RS300'']"
    by (simp_all add: buildRouteSnapshot_def raster_emulated urfRoute_def)
qed

theorem route_snapshot_witness:
  "ClientFormat urfRoute = ''image/urf'' \<and> UpstreamFormat urfRoute = ''image/pwg-raster'' \<and> hasRasterType rasterPrinter ''sgray_8''"
proof -
  have "\<forall>r \<in> set (Routes (buildRouteSnapshot (\<lambda>_. []) rasterPrinter office ''emulate-if-missing'')). Transform r \<longrightarrow>
      ClientFormat r = ''image/urf'' \<and> UpstreamFormat r = ''image/pwg-raster'' \<and> hasRasterType rasterPrinter (mappingOutputType (routeMapping r))"
    using route_snapshot [of "\<lambda>_. []" rasterPrinter office "''emulate-if-missing''"] unfolding Let_def by simp
  from bspec [OF this raster_snapshot(2)] show ?thesis by (simp add: urfRoute_def mappingOutputType_def)
qed

theorem announced_tokens_witness:
  "\<not> isColorURFToken ''W8'' \<and> containsURFPrefix [''V1.4'', ''W8'', ''RS300''] ''RS''"
proof -
  have "ToLower (TrimSpace (PrintColorMode office)) = ''monochrome''" by code_simp
  then show ?thesis
    using announced_tokens [of "''W8''" "\<lambda>_. []" rasterPrinter office "''emulate-if-missing''"] raster_snapshot(3) by simp
qed

end
