(* ===== verification/Proxy_Formats.thy ===== *)
theory Proxy_Formats
  imports Proxy_Snapshot
begin

text \<open>
  The formats a queue announces against the routes it has: they agree as soon as there is a route, and
  may differ when there is none.
\<close>

declare ToLower.simps [simp del] FoldCase.simps [simp del]

subsection \<open>Replacing attributes\<close>

lemma ascii_EqualFold: "ascii a \<Longrightarrow> ascii b \<Longrightarrow> EqualFold a b \<longleftrightarrow> ToLower a = ToLower b"
  by (simp add: EqualFold_def ascii_lower_forms)

lemma Attr_Drop:
  assumes "asciiNames as" "ascii m"
  shows "Attr (DropAttrs as [m]) n = (if EqualFold m n then None else Attr as n)"
  using assms(1)
proof (induction as)
  case (Cons a as)
  then have a: "EqualFold (attrName a) m \<longleftrightarrow> ToLower (attrName a) = ToLower m" using assms(2) by (simp add: asciiNames_def ascii_EqualFold)
  have "Attr (DropAttrs as [m]) n = (if EqualFold m n then None else Attr as n)" using Cons by (simp add: asciiNames_def)
  then show ?case using a by (auto simp: DropAttrs_def EqualFold_def)
qed (simp add: DropAttrs_def)

lemma Attr_replace:
  assumes "asciiNames as" "ascii (attrName a)"
  shows "Attr (replaceAttr as a) n = (if EqualFold (attrName a) n then Some a else Attr as n)"
  using assms by (simp add: replaceAttr_def SetAttr_def Attr_setLoop Attr_Drop)

lemma asciiNames_steps:
  assumes "asciiNames as"
  shows "asciiNames (DropAttrs as ms)" "ascii (attrName a) \<Longrightarrow> asciiNames (replaceAttr as a)"
proof -
  show d: "asciiNames (DropAttrs as ms)" for ms using assms by (auto simp: asciiNames_def DropAttrs_def)
  have "asciiNames bs \<Longrightarrow> ascii (attrName a) \<Longrightarrow> asciiNames (setLoop a b bs)" for b bs
    by (induction bs arbitrary: b) (auto simp: asciiNames_def)
  with d show "ascii (attrName a) \<Longrightarrow> asciiNames (replaceAttr as a)" by (simp add: replaceAttr_def SetAttr_def)
qed

lemma format_names:
  "ascii ''document-format-supported'' \<and> ascii ''urf-supported'' \<and> ascii ''pwg-raster-document-type-supported'' \<and>
   ascii ''pwg-raster-document-resolution-supported''"
  "\<forall>a \<in> {''document-format-supported'', ''urf-supported'', ''pwg-raster-document-type-supported'', ''pwg-raster-document-resolution-supported'',
       ''document-format-default''}.
   \<forall>b \<in> {''document-format-supported'', ''urf-supported''}. EqualFold a b \<longleftrightarrow> a = b"
  by code_simp+

lemma emulated_attrs:
  assumes "asciiNames as" "n \<in> {''document-format-supported'', ''urf-supported''}"
  shows "Attr (applyEmulatedRasterCapabilities as s) n = Attr as n"
proof -
  have other: "\<not> EqualFold ''pwg-raster-document-type-supported'' n" "\<not> EqualFold ''pwg-raster-document-resolution-supported'' n"
    using assms(2) format_names(2) by auto
  have "Attr (replaceAttr bs (Keyword ''pwg-raster-document-type-supported'' x)) n = Attr bs n"
    "asciiNames (replaceAttr bs (Keyword ''pwg-raster-document-type-supported'' x))"
    "Attr (replaceAttr bs (Attribute ''pwg-raster-document-resolution-supported'' y)) n = Attr bs n" if "asciiNames bs" for bs x y
    using that other format_names(1) by (simp_all add: Attr_replace asciiNames_steps Keyword_def)
  with assms(1) show ?thesis by (auto simp: applyEmulatedRasterCapabilities_def Let_def split: option.split)
qed

text \<open>
  C32: as soon as a queue has a route, the formats it announces are exactly the client formats of its
  routes, in their order, and it announces AirPrint tokens, those of its snapshot, exactly when it has
  an AirPrint path; whatever format attributes were taken over from the printer before.
\<close>

theorem announced_formats:
  assumes "modelRoutes model = buildRouteSnapshot sprint up policy mode" "Routes (modelRoutes model) \<noteq> []" "asciiNames base"
  shows "Attr (applyRouteCapabilities sprint base model) ''document-format-supported'' =
      Some (Attribute ''document-format-supported'' (map (\<lambda>r. (TagMimeType, String (ClientFormat r))) (Routes (modelRoutes model)))) \<and>
    Attr (applyRouteCapabilities sprint base model) ''urf-supported'' =
      (if AirPrintPath (modelRoutes model) = AirPrintPathUnavailable then None
       else Some (Keywords ''urf-supported'' (URFTokens (modelRoutes model))))"
proof -
  let ?s = "modelRoutes model" and ?N = "{''document-format-supported'', ''urf-supported''}"
  have snap: "routeSnapshotForModel sprint model = ?s" using assms(2) by (simp add: routeSnapshotForModel_def)
  have "distinct (map ClientFormat (Routes ?s))" using snapshot_facts [of sprint up policy mode] by (simp add: Let_def assms(1))
  then have formats: "formatRouteList (Routes ?s) = map ClientFormat (Routes ?s)" by (simp add: formatRouteList_def uniqueStrings_id)
  define r1 where "r1 = replaceAttr base (Attribute ''document-format-supported'' (map (\<lambda>f. (TagMimeType, String f)) (map ClientFormat (Routes ?s))))"
  define r2 where "r2 = (if AirPrintPath ?s = AirPrintPathNative \<or> AirPrintPath ?s = AirPrintPathEmulated
      then replaceAttr r1 (Keywords ''urf-supported'' (URFTokens ?s)) else DropAttrs r1 [''urf-supported''])"
  define r3 where "r3 = (if AirPrintPath ?s = AirPrintPathEmulated then applyEmulatedRasterCapabilities r2 ?s else r2)"
  have out: "applyRouteCapabilities sprint base model = (if AirPrintPath ?s = AirPrintPathEmulated \<and> Attr r3 ''document-format-default'' = None
      then r3 @ [Attribute ''document-format-default'' [(TagMimeType, String ''image/urf'')]] else r3)"
    using assms(2) by (simp add: applyRouteCapabilities_def snap formats Let_def r1_def r2_def r3_def)
  have a1: "asciiNames r1" using assms(3) format_names(1) by (simp add: r1_def asciiNames_steps)
  then have a2: "asciiNames r2" using format_names(1) by (simp add: r2_def asciiNames_steps Keywords_def)
  have "Attr (applyRouteCapabilities sprint base model) n = Attr r2 n" if "n \<in> ?N" for n
  proof -
    have "\<not> EqualFold ''document-format-default'' n" using that format_names(2) by auto
    then show ?thesis using emulated_attrs [OF a2 that] by (simp add: out Attr_append r3_def split: option.split)
  qed
  moreover have "AirPrintPath ?s = AirPrintPathUnavailable \<longleftrightarrow> \<not> (AirPrintPath ?s = AirPrintPathNative \<or> AirPrintPath ?s = AirPrintPathEmulated)"
    unfolding assms(1)
    by (cases rule: native_exclusive [of up policy sprint mode])
      (simp_all add: AirPrintPathNative_def AirPrintPathEmulated_def AirPrintPathUnavailable_def)
  moreover have "EqualFold ''document-format-supported'' ''document-format-supported''" "EqualFold ''urf-supported'' ''urf-supported''"
    "\<not> EqualFold ''urf-supported'' ''document-format-supported''" using format_names(2) by auto
  ultimately show ?thesis
    using a1 assms(3) format_names(1) by (auto simp: r2_def r1_def Attr_replace Attr_Drop Keywords_def comp_def)
qed

theorem announced_formats_witness:
  "Attr (applyRouteCapabilities (\<lambda>_. []) [Keyword ''urf-supported'' ''SRGB24'']
      \<lparr>modelUpstream = rasterPrinter, modelPolicy = office, modelAirPrintMode = ''emulate-if-missing'',
       modelRoutes = buildRouteSnapshot (\<lambda>_. []) rasterPrinter office ''emulate-if-missing''\<rparr>) ''urf-supported'' =
    Some (Keywords ''urf-supported'' [''V1.4'', ''W8'', ''RS300''])"
proof -
  let ?s = "buildRouteSnapshot (\<lambda>_. []) rasterPrinter office ''emulate-if-missing''"
  have "Routes ?s \<noteq> []" using raster_snapshot(2) by (metis empty_iff empty_set)
  moreover have "asciiNames [Keyword ''urf-supported'' ''SRGB24'']" by code_simp
  moreover have "AirPrintPathEmulated \<noteq> AirPrintPathUnavailable" by (simp add: AirPrintPathEmulated_def AirPrintPathUnavailable_def)
  ultimately show ?thesis
    using announced_formats [of "\<lparr>modelUpstream = rasterPrinter, modelPolicy = office, modelAirPrintMode = ''emulate-if-missing'',
       modelRoutes = ?s\<rparr>" "\<lambda>_. []" rasterPrinter office "''emulate-if-missing''" "[Keyword ''urf-supported'' ''SRGB24'']"] raster_snapshot(1,3)
    by simp
qed

definition adobePrinter :: "attribute list" where
  "adobePrinter = [Attribute ''document-format-supported'' [(TagMimeType, String ''image/urf'')],
     Keywords ''urf-supported'' [''W8'', ''ADOBERGB24'', ''RS300'']]"


end
