(* ===== verification/Proxy_Airprint.thy ===== *)
theory Proxy_Airprint
  imports Proxy_Routing Urf_Translate
begin

text \<open>
  AirPrint documents in the proxy, \<^verbatim>\<open>internal/proxy/airprint.go\<close>: translating a document for a route, the
  IPP status of a translation error, and how the route of a job is pinned in the registry and read
  back when its document arrives.
\<close>

subsection \<open>Translation\<close>

text \<open>An error of the translator, or another Go error.\<close>

datatype payload_error = UrfFailed urf_error | Failed goerr

definition payloadLimits :: "int \<Rightarrow> Limits" where
  "payloadLimits maxBytes =
     (if maxBytes > 0 then DefaultLimits\<lparr>MaxInputBytes := maxBytes, MaxOutputBytes := maxBytes\<rparr> else DefaultLimits)"

definition payloadOptions ::
  "(val \<Rightarrow> string) \<Rightarrow> documentRoute \<Rightarrow> attribute list \<Rightarrow> attribute list \<Rightarrow> int \<Rightarrow> bool \<Rightarrow> Options" where
  "payloadOptions sprint route attrs upstream maxBytes observed =
     \<lparr>OMapping = routeMapping route, OPage = routePageSettings sprint route attrs upstream,
      OLimits = payloadLimits maxBytes, OObserver = observed\<rparr>"

text \<open>
  \<^verbatim>\<open>translatePayload\<close>: \<open>None\<close> as a result is the nil document of a route without translation, a result
  comes with the staging file positioned at its start. \<open>nilPayload\<close> says whether the request had a
  body, \<open>temp\<close> is the error of creating the staging file, \<open>observed\<close> whether a statistics span
  is active. On an error the staging file is removed.
\<close>

definition translatePayload ::
  "'e host \<Rightarrow> (val \<Rightarrow> string) \<Rightarrow> bool \<Rightarrow> goerr option \<Rightarrow> bool \<Rightarrow> documentRoute \<Rightarrow> attribute list \<Rightarrow> attribute list \<Rightarrow> int
    \<Rightarrow> 'e \<Rightarrow> ((payload_error + Result option) \<times> 'e) option" where
  "translatePayload host sprint nilPayload temp observed route attrs upstream maxBytes e =
     (if \<not> Transform route then Some (Inr None, e)
      else if nilPayload then Some (Inl (Failed (ErrNew ''emulated document payload is missing'')), e)
      else case temp of
        Some err \<Rightarrow> Some (Inl (Failed (Wrapped ''create AirPrint translation staging file'' err)), e)
      | None \<Rightarrow>
          (case Translate host False False False (payloadOptions sprint route attrs upstream maxBytes observed) e of
             None \<Rightarrow> None
           | Some (Inl err, e', _) \<Rightarrow> Some (Inl (UrfFailed err), e')
           | Some (Inr res, e', _) \<Rightarrow>
               (case hCtxErr host e' of
                  (Some err, e'') \<Rightarrow> Some (Inl (Failed err), e'')
                | (None, e'') \<Rightarrow>
                    (case hSeek host 0 SeekStart e'' of
                       ((_, Some err), e3) \<Rightarrow> Some (Inl (Failed (Wrapped ''rewind AirPrint translation staging file'' err)), e3)
                     | ((_, None), e3) \<Rightarrow> Some (Inr (Some res), e3)))))"

subsection \<open>Errors\<close>

definition kindProtocol :: "ErrorKind \<Rightarrow> ipp_status \<times> string" where
  "kindProtocol kind =
     (case kind of
        KindMalformedInput \<Rightarrow> (StatusErrorDocumentFormatError, ''AirPrint document is malformed'')
      | KindUnsupportedInput \<Rightarrow> (StatusErrorDocumentFormatNotSupported, ''AirPrint document format is not supported by this queue'')
      | KindSettingsMismatch \<Rightarrow> (StatusErrorDocumentFormatNotSupported, ''AirPrint document format is not supported by this queue'')
      | KindInvalidOptions \<Rightarrow> (StatusErrorDocumentFormatNotSupported, ''AirPrint document format is not supported by this queue'')
      | KindResourceLimit \<Rightarrow> (StatusErrorRequestEntity, ''AirPrint document exceeds the configured translation limit'')
      | KindCanceled \<Rightarrow> (StatusErrorServiceUnavailable, ''AirPrint document translation was canceled'')
      | KindSourceIO \<Rightarrow> (StatusErrorServiceUnavailable, ''AirPrint document could not be staged for translation'')
      | KindDestinationIO \<Rightarrow> (StatusErrorServiceUnavailable, ''AirPrint document could not be staged for translation''))"

definition translationErrorProtocol :: "message option \<Rightarrow> payload_error option \<Rightarrow> ProtocolError option" where
  "translationErrorProtocol req err =
     (case err of
        None \<Rightarrow> None
      | Some e \<Rightarrow>
          (case (case e of
                   UrfFailed u \<Rightarrow> kindProtocol (Kind u)
                 | Failed g \<Rightarrow>
                     if errors_Is g CtxCanceled \<or> errors_Is g CtxDeadlineExceeded
                     then (StatusErrorServiceUnavailable, ''AirPrint document translation was canceled'')
                     else (StatusErrorDocumentFormatError, ''AirPrint document translation failed'')) of
             (status, msg) \<Rightarrow>
               Some (case req of
                  None \<Rightarrow> protocolError status msg
                | Some m \<Rightarrow> unsupportedError status msg (attrsNamed (msgOperation m) [''document-format'']))))"

subsection \<open>Pinned routes\<close>

definition RouteURFToPWG :: string where "RouteURFToPWG = ''urf-to-pwg''"

definition proxyRouteKind :: "documentRoute \<Rightarrow> string" where
  "proxyRouteKind route = (if Transform route then RouteURFToPWG else RoutePassThrough)"

definition routeToStore :: "documentRoute \<Rightarrow> DocumentRoute" where
  "routeToStore route =
     (let page = routePage route in
      \<lparr>rClientDocumentFormat = ToLower (TrimSpace (ClientFormat route)),
       rUpstreamDocumentFormat = ToLower (TrimSpace (UpstreamFormat route)),
       rKind = (if Transform route then RouteURFToPWG else RoutePassThrough),
       rMapping = Mapping_String (routeMapping route),
       rMediaName = MediaName page, rMediaWidth = MediaWidth page, rMediaHeight = MediaHeight page,
       rMediaType = MediaType page, rMediaSource = MediaSource page, rResolutionX = ResolutionX page,
       rResolutionY = ResolutionY page, rPrintQuality = PrintQuality page, rSides = Sides page, rSheetBack = SheetBack page\<rparr>)"

definition mappingFromString :: "string \<Rightarrow> Mapping" where
  "mappingFromString value =
     (let v = ToLower (TrimSpace value) in
      if v = ToLower (Mapping_String MappingW8ToSGray8) then MappingW8ToSGray8
      else if v = ToLower (Mapping_String MappingSRGB24ToSRGB8) then MappingSRGB24ToSRGB8
      else if v = ToLower (Mapping_String MappingDEVRGB24ToRGB8) then MappingDEVRGB24ToRGB8
      else MappingUnknown 0)"

definition routeFromStore :: "Job \<Rightarrow> documentRoute option" where
  "routeFromStore job =
     (let r = Route job;
          client = orText (rClientDocumentFormat r) (DocumentFormat job);
          up = orText (orText (rUpstreamDocumentFormat r) (UpstreamDocumentFormat job)) client;
          kind = orText (orText (rKind r) (RouteKind job)) RoutePassThrough;
          page = \<lparr>MediaName = orText (rMediaName r) (RouteMediaName job),
            MediaWidth = orElse (rMediaWidth r) (RouteMediaWidth job),
            MediaHeight = orElse (rMediaHeight r) (RouteMediaHeight job),
            MediaType = orText (rMediaType r) (RouteMediaType job),
            MediaSource = orElse (rMediaSource r) (RouteMediaSource job),
            ResolutionX = orElse (rResolutionX r) (RouteResolutionX job),
            ResolutionY = orElse (rResolutionY r) (RouteResolutionY job),
            PrintQuality = orElse (rPrintQuality r) (RoutePrintQuality job),
            Sides = orText (rSides r) (RouteSides job),
            SheetBack = orText (rSheetBack r) (RouteSheetBack job)\<rparr> in
      if client = [] \<or> up = [] then None
      else Some \<lparr>ClientFormat = client, UpstreamFormat = up, Transform = (kind = RouteURFToPWG),
        routeMapping = mappingFromString (orText (rMapping r) (RouteMapping job)), routePage = page,
        Resolutions = [], routeTokens = []\<rparr>)"

text \<open>The job that \<^verbatim>\<open>handlePrintJob\<close> and \<^verbatim>\<open>handleCreateJob\<close> reserve for a request.\<close>

definition jobForRoute :: "string \<Rightarrow> string \<Rightarrow> string \<Rightarrow> string \<Rightarrow> documentRoute \<Rightarrow> int \<Rightarrow> Job" where
  "jobForRoute q user name format route copies =
     zeroJob\<lparr>Queue := q, QueueOwner := q, RequestingUser := user, JobName := name, DocumentFormat := format,
       UpstreamDocumentFormat := UpstreamFormat route, Route := routeToStore route, Copies := copies\<rparr>"

end
