(* ===== verification/Proxy_Emulation.thy ===== *)
theory Proxy_Emulation
  imports Proxy_Airprint Proxy_Snapshot Urf_Theorems Store_Theorems
begin

text \<open>
  Routing, job policy, registry and translator together: an emulated route sets the translator up
  so that it can start, a document is printed exactly when the translator accepts it, and the route of
  a job is found again in the registry when its document arrives.
\<close>

declare ToLower.simps [simp del] FoldCase.simps [simp del]

subsection \<open>Page settings\<close>

text \<open>Resolutions of the package \<^verbatim>\<open>goipp\<close> read from a message have 32 bits.\<close>

definition int32Resolutions :: "attribute list \<Rightarrow> bool" where
  "int32Resolutions attrs \<longleftrightarrow> (\<forall>a \<in> set attrs. \<forall>v \<in> set (attrValues a). case snd v of Resolution x y u \<Rightarrow> x < 2 ^ 31 | _ \<Rightarrow> True)"

lemma word_pos: "0 < i \<Longrightarrow> i < 2 ^ 31 \<Longrightarrow> (word_of_int i :: u32) \<noteq> 0"
proof
  assume i: "0 < i" "i < 2 ^ 31" and "(word_of_int i :: u32) = 0"
  then have "uint (word_of_int i :: u32) = 0" by simp
  with i show False by (simp add: unsigned_of_int take_bit_int_eq_self)
qed

lemma squareFrom_pos:
  assumes "\<forall>v \<in> set vs. case snd v of Resolution x y u \<Rightarrow> x < 2 ^ 31 | _ \<Rightarrow> True"
  shows "0 \<notin> set (squareFrom seen vs)"
  using assms
proof (induction vs arbitrary: seen)
  case (Cons p vs)
  obtain t v where p: "p = (t, v)" by fastforce
  have IH: "0 \<notin> set (squareFrom seen vs)" for seen using Cons by simp
  show ?case
  proof (cases v)
    case (Resolution x y u)
    with Cons.prems have "0 < x \<Longrightarrow> (word_of_int x :: u32) \<noteq> 0" using word_pos [of x] by (simp add: p)
    with Resolution IH show ?thesis by (auto simp: p)
  qed (simp_all add: p IH)
qed simp

lemma square_pos: "int32Resolutions up \<Longrightarrow> r \<in> set (squarePWGResolutions up) \<Longrightarrow> r \<noteq> 0"
proof -
  assume up: "int32Resolutions up" and r: "r \<in> set (squarePWGResolutions up)"
  then obtain a where a: "Attr up ''pwg-raster-document-resolution-supported'' = Some a" "r \<in> set (squareFrom [] (attrValues a))"
    by (cases "Attr up ''pwg-raster-document-resolution-supported''") (auto simp: squarePWGResolutions_def)
  have "0 \<notin> set (squareFrom [] (attrValues a))"
    by (rule squareFrom_pos) (use up Attr_name [OF a(1)] in \<open>auto simp: int32Resolutions_def\<close>)
  with a(2) show "r \<noteq> 0" by auto
qed

text \<open>What a job of an emulated route can change: the medium, the sides, the quality and the resolution.\<close>

lemma pageMedia_facts:
  assumes "int32Attrs up" "MediaWidth p \<noteq> 0" "MediaHeight p \<noteq> 0"
  shows "MediaWidth (pageMedia up m p) \<noteq> 0" "MediaHeight (pageMedia up m p) \<noteq> 0"
proof -
  have dims: "word_of_int (XDimension s) \<noteq> (0 :: u32)" "word_of_int (YDimension s) \<noteq> (0 :: u32)"
    if "ByName (buildMediaCatalog up q) k = Some s" "HasDimension s" for q k s
  proof -
    have "dimsOK s" using catalog_sizes(3) [OF upstream_dims [OF assms(1)]] catalog_names(1) [OF that(1)] by blast
    then show "word_of_int (XDimension s) \<noteq> (0 :: u32)" "word_of_int (YDimension s) \<noteq> (0 :: u32)"
      using that(2) word_pos by (auto simp: dimsOK_def)
  qed
  show "MediaWidth (pageMedia up m p) \<noteq> 0" "MediaHeight (pageMedia up m p) \<noteq> 0"
    using assms(2,3) dims by (auto simp: pageMedia_def split: option.splits)
qed

lemma pageMedia_other [simp]:
  "MediaType (pageMedia up m p) = MediaType p" "MediaSource (pageMedia up m p) = MediaSource p"
  "ResolutionX (pageMedia up m p) = ResolutionX p" "ResolutionY (pageMedia up m p) = ResolutionY p"
  "PrintQuality (pageMedia up m p) = PrintQuality p" "Sides (pageMedia up m p) = Sides p" "SheetBack (pageMedia up m p) = SheetBack p"
  by (simp_all add: pageMedia_def split: option.splits)

text \<open>The routes that translate, with what their page settings hold.\<close>

lemma emulated_route_settings:
  assumes "r \<in> set (Routes (buildRouteSnapshot sprint up pol mode))" "Transform r" "int32Attrs up" "int32Resolutions up"
  shows "validateMapping (routeMapping r) = Inr ()" "MediaWidth (routePage r) \<noteq> 0" "MediaHeight (routePage r) \<noteq> 0"
    "Resolutions r \<noteq> []" "\<forall>x \<in> set (Resolutions r). x \<noteq> 0" "ResolutionX (routePage r) = hd (Resolutions r)"
    "ResolutionY (routePage r) = hd (Resolutions r)" "PrintQuality (routePage r) = 0"
    "Sides (routePage r) \<in> set sides_values" "SheetBack (routePage r) \<in> set sheetBack_values"
proof -
  have pass: "\<forall>r \<in> set (passRoutes sprint up pol n). \<not> Transform r" for n by (auto simp: passRoutes_facts passRoute_def)
  from assms(1,2) obtain r0 tokens where e: "emulatedURFRoute sprint up pol = Inr (r0, tokens)"
    and r: "r = r0\<lparr>ClientFormat := ''image/urf'', UpstreamFormat := ''image/pwg-raster'', Transform := True, routeTokens := tokens\<rparr>"
    by (cases rule: native_exclusive [of up pol sprint mode]) (use pass in auto)
  from e obtain selected sheet color where f:
    "ByName (buildMediaCatalog up pol) (mediaNameKey (policyMediaDefault pol)) = Some selected"
    "HasDimension selected" "squarePWGResolutions up \<noteq> []" "emulatedColor up pol = Inr color" "fixedSheetBack up = Some sheet"
    "r0 = emulatedRoute sprint up pol selected (squarePWGResolutions up) sheet" by (rule emulated_facts)
  have "dimsOK selected" using catalog_sizes(3) [OF upstream_dims [OF assms(3)]] catalog_names(1) [OF f(1)] by blast
  with f(2) show "MediaWidth (routePage r) \<noteq> 0" "MediaHeight (routePage r) \<noteq> 0"
    using word_pos by (auto simp: r f(6) emulatedRoute_def dimsOK_def)
  show "validateMapping (routeMapping r) = Inr ()" using emulated_mapping(2) [OF f(4)] by (simp add: r f(6) emulatedRoute_def)
  show "Resolutions r \<noteq> []" "\<forall>x \<in> set (Resolutions r). x \<noteq> 0" using f(3) square_pos [OF assms(4)] by (auto simp: r f(6) emulatedRoute_def)
  show "ResolutionX (routePage r) = hd (Resolutions r)" "ResolutionY (routePage r) = hd (Resolutions r)" "PrintQuality (routePage r) = 0"
    by (simp_all add: r f(6) emulatedRoute_def zeroPage_def)
  show "Sides (routePage r) \<in> set sides_values"
    by (simp add: r f(6) emulatedRoute_def defaultSides_def sides_values_def Let_def split: option.split)
  from f(5) have "sheet \<in> {''normal'', ''flipped'', ''rotated'', ''manual-tumble''}"
    by (auto simp: fixedSheetBack_def Let_def split: option.split_asm list.split_asm prod.split_asm tag.split_asm val.split_asm if_split_asm)
  then show "SheetBack (routePage r) \<in> set sheetBack_values" by (auto simp: r f(6) emulatedRoute_def sheetBack_values_def)
qed

text \<open>What a job may ask for, and what fits a PWG page header.\<close>

definition sidesOK :: "(val \<Rightarrow> string) \<Rightarrow> attribute list \<Rightarrow> bool" where
  "sidesOK sprint attrs \<longleftrightarrow>
     (case FirstString sprint attrs ''sides'' of None \<Rightarrow> True | Some s \<Rightarrow> ToLower (TrimSpace s) \<in> set ([] # sides_values))"

definition headerText :: "string \<Rightarrow> bool" where
  "headerText s \<longleftrightarrow> CHR 0x00 \<notin> set s \<and> length s < 64"

lemma routePageSettings_fields:
  "MediaName (routePageSettings sprint r attrs up) = MediaName (pageMedia up (requestedMediaName sprint attrs) (routePage r))"
  "MediaWidth (routePageSettings sprint r attrs up) = MediaWidth (pageMedia up (requestedMediaName sprint attrs) (routePage r))"
  "MediaHeight (routePageSettings sprint r attrs up) = MediaHeight (pageMedia up (requestedMediaName sprint attrs) (routePage r))"
  "MediaType (routePageSettings sprint r attrs up) = MediaType (routePage r)"
  "SheetBack (routePageSettings sprint r attrs up) = SheetBack (routePage r)"
  "Sides (routePageSettings sprint r attrs up) =
     (case FirstString sprint attrs ''sides'' of None \<Rightarrow> Sides (routePage r) | Some s \<Rightarrow> ToLower (TrimSpace s))"
  "PrintQuality (routePageSettings sprint r attrs up) \<in> {PrintQuality (routePage r), 3, 4, 5}"
proof -
  have q: "q = 3 \<or> q = 4 \<or> q = 5" if "3 \<le> q" "q \<le> 5" for q :: int using that by arith
  show "PrintQuality (routePageSettings sprint r attrs up) \<in> {PrintQuality (routePage r), 3, 4, 5}"
    by (auto simp: routePageSettings_def Let_def split: option.splits dest: q)
qed (simp_all add: routePageSettings_def Let_def split: option.splits)

lemma routePageSettings_resolution:
  assumes "Resolutions r \<noteq> []" "ResolutionX (routePage r) \<in> set (Resolutions r)" "ResolutionY (routePage r) = ResolutionX (routePage r)"
  shows "ResolutionX (routePageSettings sprint r attrs up) \<in> set (Resolutions r) \<and>
    ResolutionY (routePageSettings sprint r attrs up) = ResolutionX (routePageSettings sprint r attrs up)"
  using assms by (auto simp: routePageSettings_def Let_def containsResolution_def split: option.splits)

lemma validate_iff:
  assumes "MediaWidth p \<noteq> 0" "MediaHeight p \<noteq> 0" "ResolutionX p \<noteq> 0" "ResolutionY p = ResolutionX p"
    "SheetBack p \<in> set sheetBack_values" "PrintQuality p \<in> {0, 3, 4, 5}"
  shows "(\<exists>q. validatePageSettings p = Inr q) \<longleftrightarrow> headerText (MediaName p) \<and> headerText (MediaType p) \<and> Sides p \<in> set ([] # sides_values)"
proof -
  have ok: "validatePWGString f v = Inr ()" if "headerText v" for f v
    using that by (simp add: validatePWGString_def headerText_def)
  have bad: "\<exists>e. validatePWGString f v = Inl e" if "\<not> headerText v" for f v
    using that by (auto simp: validatePWGString_def headerText_def)
  have lists: "[] \<notin> set sheetBack_values" "''one-sided'' \<in> set sides_values" by (simp_all add: sides_values_def sheetBack_values_def)
  have sb: "(if SheetBack p = [] then ''normal'' else SheetBack p) = SheetBack p" using assms(5) lists by auto
  consider (name) "\<not> headerText (MediaName p)" | (kind) "headerText (MediaName p)" "\<not> headerText (MediaType p)"
    | (texts) "headerText (MediaName p)" "headerText (MediaType p)" by blast
  then show ?thesis
  proof cases
    case name
    with bad [of "MediaName p" "''media name''"] show ?thesis by (auto simp: validatePageSettings_def)
  next
    case kind
    with ok bad [of "MediaType p" "''media type''"] show ?thesis by (auto simp: validatePageSettings_def)
  next
    case texts
    with ok have "validatePageSettings p = (let sd = (if Sides p = [] then ''one-sided'' else Sides p) in
        if sd \<notin> set sides_values then Inl (pageSettingsError (Errorf ''unsupported sides %q'' [FStr sd]))
        else Inr \<lparr>mediaName = MediaName p, mediaWidth = MediaWidth p, mediaHeight = MediaHeight p, mediaType = MediaType p,
          mediaSource = MediaSource p, resX = ResolutionX p, resY = ResolutionY p, quality = PrintQuality p, sides = sd,
          sheetBack = SheetBack p\<rparr>)"
      unfolding validatePageSettings_def sb Let_def using assms by simp
    then show ?thesis using texts lists(2) by (cases "Sides p = []"; cases "Sides p \<in> set sides_values") (simp_all add: Let_def)
  qed
qed

lemma settings_accepted:
  assumes "r \<in> set (Routes (buildRouteSnapshot sprint up pol mode))" "Transform r" "int32Attrs up" "int32Resolutions up"
  shows "validateMapping (routeMapping r) = Inr () \<and>
    ((\<exists>p. validatePageSettings (routePageSettings sprint r attrs up) = Inr p) \<longleftrightarrow>
       sidesOK sprint attrs \<and> headerText (MediaType (routePage r)) \<and> headerText (MediaName (routePageSettings sprint r attrs up)))"
proof -
  note f = emulated_route_settings [OF assms]
  let ?p = "routePageSettings sprint r attrs up"
  have dims: "MediaWidth ?p \<noteq> 0" "MediaHeight ?p \<noteq> 0" using pageMedia_facts [OF assms(3) f(2,3)] by (simp_all add: routePageSettings_fields)
  have "ResolutionX ?p \<in> set (Resolutions r) \<and> ResolutionY ?p = ResolutionX ?p"
    by (rule routePageSettings_resolution) (use f(4,6,7) in simp_all)
  then have res: "ResolutionX ?p \<noteq> 0" "ResolutionY ?p = ResolutionX ?p" using f(5) by auto
  have "(\<exists>p. validatePageSettings ?p = Inr p) \<longleftrightarrow> headerText (MediaName ?p) \<and> headerText (MediaType ?p) \<and> Sides ?p \<in> set ([] # sides_values)"
    by (rule validate_iff [OF dims res]) (use f(8,10) routePageSettings_fields(5,7) [of sprint r attrs up] in simp_all)
  then show ?thesis using f(1,9) by (auto simp: routePageSettings_fields sidesOK_def split: option.splits)
qed

text \<open>
  An emulated route is always ready for the translator. Its mapping is one the translator knows,
  and whatever a job asks for, the page settings made for it are accepted exactly when the requested
  sides are a value of the translator and the names of the medium fit a page header: dimensions,
  resolution, quality and sheet-back never fail.
\<close>

theorem emulated_settings:
  assumes "r \<in> set (Routes (buildRouteSnapshot sprint up pol mode))" "Transform r" "int32Attrs up" "int32Resolutions up"
  shows "validateMapping (routeMapping r) = Inr () \<and>
    ((\<exists>p. validatePageSettings (routePageSettings sprint r attrs up) = Inr p) \<longleftrightarrow>
       sidesOK sprint attrs \<and> headerText (MediaType (routePage r)) \<and> headerText (MediaName (routePageSettings sprint r attrs up)))"
  by (rule settings_accepted [OF assms])

lemma payloadLimits_valid: "validateLimits (payloadLimits maxBytes) = Inr ()"
  by (simp add: payloadLimits_def validateLimits_def DefaultLimits_def)


subsection \<open>The medium of a job\<close>

lemma media_spelling:
  assumes "w \<in> {''media'', ''media-col''}"
  shows "EqualFold n w \<Longrightarrow> controlled opts n"
proof -
  have "\<forall>w \<in> {''media'', ''media-col''}. FoldCase w = w \<and> ToLower w = w" by code_simp
  from bspec [OF this assms] have low: "FoldCase w = w" "ToLower w = w" by simp_all
  have "ascii w" "CHR ''k'' \<notin> set w" "CHR ''s'' \<notin> set w" using assms by (auto simp: ascii_def)
  with low(1) have "EqualFold n w \<Longrightarrow> ToLower n = w" by (rule fold_lower(1) [rotated])
  then have "EqualFold n w \<Longrightarrow> ToLower n = ToLower w" by (simp add: low(2))
  moreover have "w \<in> set policyDropAttrs" using assms by (auto simp: policyDropAttrs_def)
  ultimately show "EqualFold n w \<Longrightarrow> controlled opts n" by (simp add: controlled_def)
qed

lemma normalized_media:
  assumes "NormalizeJobAttrsWithOptions sprint attrs opts = Inr r"
  obtains sel where "sizeName sel = EffectiveMedia (resLog r)"
    "Attr (resAttrs r) ''media'' = (if UseMediaCol (optPolicy opts) then None else Some (Keyword ''media'' (sizeName sel)))"
    "Attr (resAttrs r) ''media-col'' = (if UseMediaCol (optPolicy opts)
       then Some (mediaColJobAttr ''media-col'' sel (policyMediaType (optPolicy opts)) (policyMediaSource (optPolicy opts))) else None)"
proof -
  let ?kept = "sanitizeOverrides (filter (\<lambda>a. \<not> controlled opts (attrName a)) (filter (allowedJobAttr opts) attrs)) (DropVendorAttrs opts)"
  from assms obtain sel req rc fb where log: "EffectiveMedia (resLog r) = sizeName sel"
    and res: "resAttrs r = setScaling (optPolicy opts) (?kept @ mediaAttrs (optPolicy opts) sel) @ colorAttrs (optPolicy opts)"
    by (rule normalized_attrs)
  have none: "Attr ?kept w = None" if "w \<in> {''media'', ''media-col''}" for w
    unfolding Attr_None
  proof
    fix a assume "a \<in> set ?kept"
    then obtain b where "b \<in> set (filter (\<lambda>a. \<not> controlled opts (attrName a)) (filter (allowedJobAttr opts) attrs))" "attrName a = attrName b"
      using sanitize_attrName by blast
    then have "\<not> controlled opts (attrName a)" by simp
    with media_spelling [OF that] show "\<not> EqualFold (attrName a) w" by blast
  qed
  have look: "Attr (resAttrs r) w = Attr (mediaAttrs (optPolicy opts) sel) w" if "w \<in> {''media'', ''media-col''}" for w
  proof -
    from that have "w \<in> {''media'', ''media-col'', ''copies'', ''overrides''}" by blast
    from Attr_normalized [OF this] none [OF that] show ?thesis by (simp add: res Attr_append)
  qed
  show thesis by (rule that [of sel]) (simp_all add: log look Attr_media)
qed

text \<open>A media collection sent upstream has no name of a size in it.\<close>

lemma mediaCol_unnamed: "nestedStringValue sprint (mediaSizeMember s @ keywordMember ''media-type'' k @ keywordMember ''media-source'' q) ''media-size-name'' = []"
proof -
  have names: "\<forall>n \<in> {''media-size'', ''media-type'', ''media-source'', ''x-dimension'', ''y-dimension''}. \<not> EqualFold n ''media-size-name''"
    by code_simp
  have "Attr (mediaSizeMember s @ keywordMember ''media-type'' k @ keywordMember ''media-source'' q) ''media-size-name'' = None"
    using names by (auto simp: Attr_None mediaSizeMember_def keywordMember_def Keyword_def)
  moreover have "Attr [IntegerAttr ''x-dimension'' i, IntegerAttr ''y-dimension'' j] ''media-size-name'' = None" for i j
    using names by (simp add: IntegerAttr_def)
  then have "nestedIn sprint ''media-size-name'' (mediaSizeMember s @ keywordMember ''media-type'' k @ keywordMember ''media-source'' q) = []"
    by (simp add: mediaSizeMember_def keywordMember_def Keyword_def FirstString_def orText_def IntegerAttr_def)
  ultimately show ?thesis by (simp add: nestedStringValue_def FirstString_def)
qed


subsection \<open>Pinned routes\<close>

text \<open>The routes a queue can choose, with formats in their canonical spelling.\<close>

definition storableRoute :: "documentRoute \<Rightarrow> bool" where
  "storableRoute r \<longleftrightarrow> ClientFormat r \<noteq> [] \<and> UpstreamFormat r \<noteq> [] \<and>
     ToLower (TrimSpace (ClientFormat r)) = ClientFormat r \<and> ToLower (TrimSpace (UpstreamFormat r)) = UpstreamFormat r \<and>
     routeMapping r \<in> {MappingW8ToSGray8, MappingSRGB24ToSRGB8, MappingDEVRGB24ToRGB8, MappingUnknown 0}"

lemma mapping_roundtrip: "m \<in> {MappingW8ToSGray8, MappingSRGB24ToSRGB8, MappingDEVRGB24ToRGB8, MappingUnknown 0} \<Longrightarrow>
  mappingFromString (Mapping_String m) = m"
proof -
  have "\<forall>m \<in> set [MappingW8ToSGray8, MappingSRGB24ToSRGB8, MappingDEVRGB24ToRGB8, MappingUnknown 0]. mappingFromString (Mapping_String m) = m"
    by code_simp
  then show "m \<in> {MappingW8ToSGray8, MappingSRGB24ToSRGB8, MappingDEVRGB24ToRGB8, MappingUnknown 0} \<Longrightarrow>
    mappingFromString (Mapping_String m) = m" by auto
qed

lemma route_columns:
  assumes "storableRoute r"
  shows "routeFromStore (as_stored pid (withDefaults now (normalizeRoute (reservation (jobForRoute q user name format r n))))) =
    Some (r\<lparr>ClientFormat := orText format (ClientFormat r), Resolutions := [], routeTokens := []\<rparr>)"
proof -
  have s: "ToLower (TrimSpace (ClientFormat r)) = ClientFormat r" "ToLower (TrimSpace (UpstreamFormat r)) = UpstreamFormat r"
    "ClientFormat r \<noteq> []" "UpstreamFormat r \<noteq> []" "mappingFromString (Mapping_String (routeMapping r)) = routeMapping r"
    using assms mapping_roundtrip by (simp_all add: storableRoute_def)
  have m: "Mapping_String (routeMapping r) \<noteq> []" by (cases "routeMapping r") simp_all
  have kind: "RouteURFToPWG \<noteq> []" "RoutePassThrough \<noteq> []" "RouteURFToPWG \<noteq> RoutePassThrough"
    by (simp_all add: RouteURFToPWG_def RoutePassThrough_def)
  have empty: "orText [] [] = []" "orElse (0 :: u32) 0 = 0" "orText x x = x" "orElse y (0 :: u32) = y" "orText x [] = x" "orElse y y = y"
    for x and y :: u32 by (simp_all add: orText_def orElse_def)
  show ?thesis
    using s m kind
    by (simp add: routeFromStore_def as_stored_def withDefaults_def normalizeRoute_def routeFromJob_def reservation_def jobForRoute_def
        routeToStore_def zeroJob_def zeroRoute_def empty Let_def)
      (cases r; cases "routePage r"; simp add: orText_def)
qed

text \<open>
  C29: the route chosen for a job stays with it. Once the job is reserved with its route, reading it
  from the registry yields a route to the same upstream format, with the same translation and page
  settings, for the same client format up to its spelling; so the document of a later Send-Document
  is treated by the route of its Create-Job whatever the printer reports in between.
\<close>

theorem pinned_route:
  assumes "Reserve drv [AJob (jobForRoute q user name format r n)] w = (Inr pid, w1)" "db_ok (db w)"
    and "printable (clock drv (tick w))" "fault drv (tick w1) = None"
    and "storableRoute r" "format = [] \<or> matches r format"
  shows "\<exists>job c. fst (GetByProxyID drv [AString q, AInt pid] w1) = Inr job \<and>
    routeFromStore job = Some (r\<lparr>ClientFormat := c, Resolutions := [], routeTokens := []\<rparr>) \<and>
    EqualFold (TrimSpace c) (TrimSpace (ClientFormat r))"
proof -
  let ?job = "reservation (jobForRoute q user name format r n)"
  have created: "CreateJob drv ?job w = (Inr pid, w1)"
    using assms(1) by (simp add: Reserve_def parseReservationArgs_def liftE_def bindE_def)
  have "\<not> IsTerminalState StateReserved" by code_simp
  then have times: "times_ok (withDefaults (clock drv (tick w)) (normalizeRoute ?job))"
    using assms(3) by (simp add: times_ok_def withDefaults_def normalizeRoute_def reservation_def jobForRoute_def zeroJob_def orElse_def
        storable_def Let_def)
  have "Queue ?job = q" by (simp add: reservation_def jobForRoute_def)
  then have "fst (GetByProxyID drv [AString q, AInt pid] w1) =
      Inr (as_stored pid (withDefaults (clock drv (tick w)) (normalizeRoute ?job)))"
    using created_readback [OF created assms(2) times assms(4), of "[AString q, AInt pid]"] by simp
  moreover have "EqualFold (TrimSpace (orText format (ClientFormat r))) (TrimSpace (ClientFormat r))"
    using assms(6) by (auto simp: orText_def matches_def EqualFold_def)
  ultimately show ?thesis using route_columns [OF assms(5)] by blast
qed

subsection \<open>The office queue\<close>

lemma raster_bounds: "int32Attrs rasterPrinter" "int32Resolutions rasterPrinter"
  by code_simp+

lemma urf_settings: "routePageSettings sprint urfRoute [] up = a4Page"
  by (simp add: routePageSettings_def requestedMediaName_def FirstString_def nestedStringAttribute_def pageMedia_def FirstInt_def
      singleResolution_def urfRoute_def)

lemma a4_texts: "headerText (MediaType a4Page)" "headerText (MediaName a4Page)" "routePage urfRoute = a4Page" "Transform urfRoute"
  by (simp_all add: headerText_def a4Page_def urfRoute_def)

theorem emulated_settings_witness:
  "(\<exists>p. validatePageSettings a4Page = Inr p) \<and> validateMapping MappingW8ToSGray8 = Inr ()"
proof -
  have "sidesOK (\<lambda>_. []) []" by (simp add: sidesOK_def FirstString_def)
  moreover have "routeMapping urfRoute = MappingW8ToSGray8" by (simp add: urfRoute_def)
  ultimately show ?thesis
    using emulated_settings [OF raster_snapshot(2) a4_texts(4) raster_bounds, of "\<lambda>_. []" "[]"] a4_texts by (simp add: urf_settings)
qed



theorem pinned_route_witness:
  "\<exists>job c. fst (GetByProxyID calm [AString ''lab'', AInt 1] (snd (Reserve calm [AJob (jobForRoute ''lab'' ''ann'' [] ''image/urf'' urfRoute 1)] start))) = Inr job \<and>
     routeFromStore job = Some (urfRoute\<lparr>ClientFormat := c, Resolutions := [], routeTokens := []\<rparr>)"
proof -
  let ?job = "jobForRoute ''lab'' ''ann'' [] ''image/urf'' urfRoute 1"
  have "upstream_job_id (rowOfJob (withDefaults t (normalizeRoute (reservation ?job)))) = None" for t
    by (simp add: rowOfJob_def withDefaults_def normalizeRoute_def reservation_def nullableUpstreamID_def jobForRoute_def zeroJob_def Let_def)
  then have "fst (Reserve calm [AJob ?job] start) = Inr 1"
    by (simp add: Reserve_def parseReservationArgs_def liftE_def bindE_def CreateJob_def call_defs sql_insert_def Let_def index_ok_def
        mapping_keys_def map_filter_simps start_def empty_db_def)
  then obtain w1 where w1: "Reserve calm [AJob ?job] start = (Inr 1, w1)" by (metis prod.collapse)
  have "printable (clock calm (tick start))" "storableRoute urfRoute" "matches urfRoute ''image/urf''" by code_simp+
  moreover have "fault calm (tick w1) = None" by (simp add: calm_def)
  ultimately show ?thesis using pinned_route [OF w1 start_ok] w1 by fastforce
qed

end
