(* ===== verification/Proxy_Jobs.thy ===== *)
theory Proxy_Jobs
  imports Proxy_Airprint Proxy_Normalize Store_Ops
begin

text \<open>
  The job operations of the IPP service, \<^verbatim>\<open>internal/proxy/service.go\<close>: every handler with its calls to the
  registry and to the printer, in their order. Logging and statistics are left out. The printer, the
  database, the clock and the texts of errors are parameters; the handlers of one service run against
  a state of the registry and the list of requests sent upstream so far.
\<close>

subsection \<open>The service\<close>

datatype status =
    StatusOk | StatusOkIgnoredOrSubstituted | StatusOkOther nat
  | StatusError ipp_status | StatusErrorOther nat

record response =
  respCode :: status
  respOperation :: "attribute list"
  respUnsupported :: "attribute list"
  respJob :: "attribute list"
  respGroups :: "(tag \<times> attribute list) list option"

record printerConfig =
  UpstreamURI :: string
  printerPolicy :: PolicyConfig
  printerDropVendor :: "string list"
  printerPreserve :: "string list"
  printerAirPrintMode :: string

text \<open>
  \<open>upstreamDo\<close> answers a request, given those sent before: a transport error or a response.
  \<open>statusText\<close>, \<open>errorText\<close> and \<open>payloadText\<close> are the texts of \<^verbatim>\<open>goipp.Status\<close>, of store errors and of
  translation errors.
\<close>

record proxy =
  sprintOf :: "val \<Rightarrow> string"
  driverOf :: driver
  errorText :: "store_error \<Rightarrow> string"
  payloadText :: "payload_error \<Rightarrow> string"
  statusText :: "status \<Rightarrow> string"
  upstreamDo :: "message list \<Rightarrow> message \<Rightarrow> string + response"
  capabilityModels :: "string \<Rightarrow> capabilityModel option"
  capabilities :: "string \<Rightarrow> attribute list option"
  proxyPrinters :: "string \<Rightarrow> printerConfig option"
  PublicBaseURL :: string
  MaxDocumentBytes :: int

record svc =
  svcStore :: world
  sent :: "message list"
  LastTranslationError :: "string \<Rightarrow> string"

text \<open>The URI of a queue, as clients know it.\<close>

definition proxyPrinterURI :: "proxy \<Rightarrow> string \<Rightarrow> string" where
  "proxyPrinterURI px q = TrimRightChar (CHR ''/'') (PublicBaseURL px) @ ''/'' @ q"

definition onStore :: "'a sprog \<Rightarrow> svc \<Rightarrow> (store_error + 'a) \<times> svc" where
  "onStore p st = (case p (svcStore st) of (r, w) \<Rightarrow> (r, st\<lparr>svcStore := w\<rparr>))"

definition ignoring :: "'a sprog \<Rightarrow> svc \<Rightarrow> svc" where
  "ignoring p st = snd (onStore p st)"

definition upstreamCall :: "proxy \<Rightarrow> message \<Rightarrow> svc \<Rightarrow> (string + response) \<times> svc" where
  "upstreamCall px m st = (upstreamDo px (sent st) m, st\<lparr>sent := sent st @ [m]\<rparr>)"

definition upstreamCapabilities :: "proxy \<Rightarrow> string \<Rightarrow> attribute list" where
  "upstreamCapabilities px q = (case capabilities px q of Some attrs \<Rightarrow> attrs | None \<Rightarrow> [])"

subsection \<open>Responses\<close>

definition ippSuccess :: "response \<Rightarrow> bool" where
  "ippSuccess r = (case respCode r of StatusError _ \<Rightarrow> False | StatusErrorOther _ \<Rightarrow> False | _ \<Rightarrow> True)"

definition responseOperationAttrs :: "string \<Rightarrow> attribute list" where
  "responseOperationAttrs msg =
     [Attribute ''attributes-charset'' [(TagCharset, String ''utf-8'')], Attribute ''attributes-natural-language'' [(TagLanguage, String ''en'')]]
     @ (if msg \<noteq> [] then [Text ''status-message'' msg] else [])"

definition statusResponse :: "status \<Rightarrow> string \<Rightarrow> response" where
  "statusResponse code msg =
     \<lparr>respCode = code, respOperation = responseOperationAttrs msg, respUnsupported = [], respJob = [], respGroups = None\<rparr>"

definition protocolResponse :: "ipp_status \<Rightarrow> string \<Rightarrow> response" where
  "protocolResponse st msg = statusResponse (StatusError st) msg"

definition statusMessage :: "proxy \<Rightarrow> response \<Rightarrow> string" where
  "statusMessage px r = (case FirstString (sprintOf px) (respOperation r) ''status-message'' of Some s \<Rightarrow> s | None \<Rightarrow> [])"

definition validJobStateAttribute :: "attribute \<Rightarrow> bool" where
  "validJobStateAttribute attr =
     (case attrValues attr of [(t, Integer i)] \<Rightarrow> t = TagEnum \<and> 3 \<le> i \<and> i \<le> 9 | _ \<Rightarrow> False)"

definition validJobStateReasonsAttribute :: "attribute \<Rightarrow> bool" where
  "validJobStateReasonsAttribute attr \<longleftrightarrow> attrValues attr \<noteq> [] \<and>
     (\<forall>v \<in> set (attrValues attr). fst v = TagKeyword \<and> (case snd v of String s \<Rightarrow> TrimSpace s \<noteq> [] | _ \<Rightarrow> False))"

definition jobClocks :: "string list" where
  "jobClocks = [''time-at-creation'', ''time-at-processing'', ''time-at-completed'', ''date-time-at-creation'',
     ''date-time-at-processing'', ''date-time-at-completed'', ''job-printer-up-time'']"

definition rewriteJobAttrs :: "attribute list \<Rightarrow> int \<Rightarrow> string \<Rightarrow> attribute list" where
  "rewriteJobAttrs attrs pid uri =
     (let a1 = SetAttr attrs (IntegerAttr ''job-id'' pid);
          a2 = SetAttr a1 (URI ''job-uri'' (proxyJobURI uri pid));
          a3 = SetAttr a2 (URI ''job-printer-uri'' uri);
          a4 = (if (case Attr a3 ''job-state'' of Some a \<Rightarrow> validJobStateAttribute a | None \<Rightarrow> False) then a3
                else SetAttr a3 (Attribute ''job-state'' [(TagEnum, Integer 3)]));
          a5 = (if (case Attr a4 ''job-state-reasons'' of Some a \<Rightarrow> validJobStateReasonsAttribute a | None \<Rightarrow> False) then a4
                else SetAttr a4 (Keyword ''job-state-reasons'' ''none'')) in
      DropAttrs a5 jobClocks)"

definition rewriteResponseJob :: "response \<Rightarrow> int \<Rightarrow> string \<Rightarrow> response" where
  "rewriteResponseJob r pid uri =
     r\<lparr>respJob := rewriteJobAttrs (respJob r) pid uri,
       respGroups := map_option (map (\<lambda>(t, as). (t, if t = TagJobGroup then rewriteJobAttrs as pid uri else as))) (respGroups r)\<rparr>"

definition applyNormalizationResult :: "response \<Rightarrow> NormalizationResult \<Rightarrow> response" where
  "applyNormalizationResult r result =
     (if \<not> ippSuccess r \<or> \<not> Substituted result then r
      else r\<lparr>respCode := (if respCode r = StatusOk then StatusOkIgnoredOrSubstituted else respCode r),
             respUnsupported := respUnsupported r @ resUnsupported result,
             respGroups := (case respGroups r of
                Some gs \<Rightarrow> if resUnsupported result \<noteq> [] then Some (gs @ [(TagUnsupportedGroup, resUnsupported result)]) else Some gs
              | None \<Rightarrow> None)\<rparr>)"

text \<open>\<^verbatim>\<open>strconv.Itoa\<close>\<close>

definition Itoa :: "int \<Rightarrow> string" where
  "Itoa n = (if n < 0 then ''-'' else []) @ show_nat (nat \<bar>n\<bar>)"

definition requestedJobAttributes :: "attribute list \<Rightarrow> string list" where
  "requestedJobAttributes operation =
     (case Attr operation ''requested-attributes'' of
        None \<Rightarrow> [''job-id'', ''job-uri'']
      | Some attr \<Rightarrow> concat (map (\<lambda>v. case snd v of String s \<Rightarrow> [ToLower (TrimSpace s)] | _ \<Rightarrow> []) (attrValues attr)))"

definition jobDescriptionAttributes :: "string list" where
  "jobDescriptionAttributes =
    [''job-account-id'', ''job-accounting-impressions'', ''job-accounting-sheets'', ''job-accounting-sheets-completed'',
    ''job-accounting-user-id'', ''job-cancel-after'', ''job-completed-with-errors'', ''job-document-access-errors'',
    ''job-error-action'', ''job-id'', ''job-impressions'', ''job-impressions-completed'', ''job-k-octets'',
    ''job-k-octets-processed'', ''job-media-sheets'', ''job-media-sheets-completed'', ''job-message-from-operator'',
    ''job-more-info'', ''job-name'', ''job-originating-user-name'', ''job-pages-completed'', ''job-printer-up-time'',
    ''job-printer-uri'', ''job-save-disposition'', ''job-state'', ''job-state-message'', ''job-state-reasons'', ''job-uri'',
    ''job-uuid'', ''time-at-completed'', ''time-at-creation'', ''time-at-processing'', ''date-time-at-completed'',
    ''date-time-at-creation'', ''date-time-at-processing'']"

definition jobTemplateAttributes :: "string list" where
  "jobTemplateAttributes =
    [''copies'', ''cover-back'', ''cover-front'', ''feed-orientation'', ''finishings'', ''finishings-col'',
    ''imposition-template'', ''insert-sheet'', ''job-hold-until'', ''job-hold-until-time'', ''job-priority'',
    ''job-sheets'', ''media'', ''media-col'', ''media-color'', ''media-source'', ''media-type'', ''media-weight'',
    ''multiple-document-handling'', ''number-up'', ''orientation-requested'', ''output-bin'', ''output-mode'',
    ''page-delivery'', ''page-ranges'', ''pages-per-subset'', ''presentation-direction-number-up'', ''print-color-mode'',
    ''print-content-optimize'', ''print-quality'', ''print-scaling'', ''printer-resolution'', ''sides'']"

definition requestedJobAttribute :: "string list \<Rightarrow> string \<Rightarrow> bool" where
  "requestedJobAttribute wanted name \<longleftrightarrow>
     name \<in> set wanted
     \<or> (''job-description'' \<in> set wanted \<and> name \<in> set jobDescriptionAttributes)
     \<or> (''job-template'' \<in> set wanted \<and> name \<in> set jobTemplateAttributes)"

definition projectJobAttributes :: "attribute list \<Rightarrow> string list \<Rightarrow> attribute list" where
  "projectJobAttributes attrs wanted =
     (if ''all'' \<in> set wanted then attrs else filter (\<lambda>a. requestedJobAttribute wanted (ToLower (attrName a))) attrs)"

subsection \<open>Requests\<close>

definition targetNames :: "string list" where
  "targetNames = [''attributes-charset'', ''attributes-natural-language'', ''printer-uri'', ''job-uri'', ''job-id'']"

definition orderOperationTargets :: "attribute list \<Rightarrow> attribute list" where
  "orderOperationTargets attrs =
     concat (map (\<lambda>n. case Attr attrs n of Some a \<Rightarrow> [a] | None \<Rightarrow> []) targetNames)
     @ filter (\<lambda>a. ToLower (attrName a) \<notin> set targetNames) attrs"

definition rewriteOperationForUpstream :: "attribute list \<Rightarrow> string \<Rightarrow> attribute list" where
  "rewriteOperationForUpstream attrs uri = orderOperationTargets (SetAttr attrs (URI ''printer-uri'' uri))"

definition rewriteMappedJobOperation :: "attribute list \<Rightarrow> Job \<Rightarrow> attribute list" where
  "rewriteMappedJobOperation attrs job =
     orderOperationTargets (DropAttrs (SetAttr attrs (IntegerAttr ''job-id'' (UpstreamJobID job))) [''job-uri''])"

text \<open>
  \<^verbatim>\<open>strconv.Atoi\<close> with its error ignored: zero, or the limit of the type when the digits leave 64 bits,
  even if something else follows them.
\<close>

definition AtoiIgnoring :: "string \<Rightarrow> int" where
  "AtoiIgnoring s =
     (let digs = (case s of c # t \<Rightarrow> if c = CHR ''-'' \<or> c = CHR ''+'' then t else s | [] \<Rightarrow> []);
          run = takeWhile isDigit digs;
          n = (case decimal 0 run of Some v \<Rightarrow> v | None \<Rightarrow> 0);
          limit = (if hd s = CHR ''-'' then - (2 ^ 63) else 2 ^ 63 - 1) in
      if digs = [] then 0
      else if n \<ge> 2 ^ 64 then limit
      else if run \<noteq> digs then 0
      else case Atoi s of Some i \<Rightarrow> i | None \<Rightarrow> limit)"

definition jobIDFromURI :: "string \<Rightarrow> int" where
  "jobIDFromURI uri =
     (let tail = rev (takeWhile (\<lambda>c. c \<noteq> CHR ''/'') (rev uri)) in
      if CHR ''/'' \<notin> set uri \<or> tail = [] then 0 else AtoiIgnoring tail)"

definition requestProxyJobID :: "proxy \<Rightarrow> message \<Rightarrow> int" where
  "requestProxyJobID px req =
     (case FirstInt (msgOperation req) ''job-id'' of
        Some i \<Rightarrow> i
      | None \<Rightarrow> (case FirstString (sprintOf px) (msgOperation req) ''job-uri'' of Some u \<Rightarrow> jobIDFromURI u | None \<Rightarrow> 0))"

definition lookupRequestJob :: "proxy \<Rightarrow> string \<Rightarrow> message \<Rightarrow> svc \<Rightarrow> (store_error + Job) \<times> svc" where
  "lookupRequestJob px q req st =
     (if requestProxyJobID px req = 0 then (Inl ErrNoRows, st)
      else onStore (GetByProxyID (driverOf px) [AString q, AInt (requestProxyJobID px req)]) st)"

definition copiesFromAttrs :: "attribute list \<Rightarrow> int" where
  "copiesFromAttrs attrs = (case FirstInt attrs ''copies'' of Some c \<Rightarrow> if c < 1 then 1 else c | None \<Rightarrow> 1)"

definition singleBoolean :: "attribute list \<Rightarrow> string \<Rightarrow> bool" where
  "singleBoolean attrs name =
     (case Attr attrs name of Some a \<Rightarrow> (case attrValues a of [(_, Boolean b)] \<Rightarrow> b | _ \<Rightarrow> False) | None \<Rightarrow> False)"

definition operationString :: "proxy \<Rightarrow> message \<Rightarrow> string \<Rightarrow> string" where
  "operationString px req name = (case FirstString (sprintOf px) (msgOperation req) name of Some s \<Rightarrow> s | None \<Rightarrow> [])"

definition normalizationOptions :: "proxy \<Rightarrow> string \<Rightarrow> printerConfig \<Rightarrow> message \<Rightarrow> NormalizationOptions" where
  "normalizationOptions px q printer req =
     (let pol = (case capabilityModels px q of Some m \<Rightarrow> modelPolicy m | None \<Rightarrow> printerPolicy printer) in
      \<lparr>optPolicy = pol, optUpstream = upstreamCapabilities px q, DropVendorAttrs = printerDropVendor printer,
       PreserveJobAttrs = printerPreserve printer, Fidelity = singleBoolean (msgOperation req) ''ipp-attribute-fidelity'',
       FidelityMode = policyFidelity pol\<rparr>)"

definition normalizeJobRequest :: "proxy \<Rightarrow> string \<Rightarrow> printerConfig \<Rightarrow> message \<Rightarrow> response + NormalizationResult" where
  "normalizeJobRequest px q printer req =
     (case NormalizeJobAttrsWithOptions (sprintOf px) (msgJob req) (normalizationOptions px q printer req) of
        Inr result \<Rightarrow> Inr result
      | Inl err \<Rightarrow> Inl ((protocolResponse (neStatus err) (neMessage err))\<lparr>respUnsupported := neUnsupported err\<rparr>))"

definition requestRoute :: "proxy \<Rightarrow> string \<Rightarrow> string \<Rightarrow> message \<Rightarrow> ProtocolError + documentRoute" where
  "requestRoute px q format req =
     clientRoute (sprintOf px) (capabilityModels px q) (capabilities px q)
       (map_option (\<lambda>p. (printerPolicy p, printerAirPrintMode p)) (proxyPrinters px q)) format req"

text \<open>The request that goes to the printer.\<close>

definition upstreamRequest :: "printerConfig \<Rightarrow> documentRoute \<Rightarrow> NormalizationResult \<Rightarrow> message \<Rightarrow> message" where
  "upstreamRequest printer route result req =
     req\<lparr>msgOperation := rewriteOperationForUpstream (rewriteDocumentFormat (msgOperation req) (UpstreamFormat route)) (UpstreamURI printer),
         msgJob := resAttrs result, msgGroups := None\<rparr>"

end
