(* ===== verification/Proxy_Service.thy ===== *)
theory Proxy_Service
  imports Proxy_Jobs
begin

text \<open>
  The handlers of the IPP service for job operations, \<^verbatim>\<open>internal/proxy/service.go\<close>. A handler returns the text
  of a Go error or a response, and the state after it. The handlers that translate a document return
  \<open>None\<close> when the translation does not end, which never happens.
\<close>

subsection \<open>Bookkeeping\<close>

definition StateFailed :: string where "StateFailed = ''failed''"
definition StateCanceled :: string where "StateCanceled = ''canceled''"

definition markUncertain :: "proxy \<Rightarrow> string \<Rightarrow> int \<Rightarrow> string \<Rightarrow> svc \<Rightarrow> svc" where
  "markUncertain px q pid why = ignoring (MarkUncertain (driverOf px) [AString q, AInt pid, AString why])"

text \<open>A job the printer has refused.\<close>

definition markFailed :: "proxy \<Rightarrow> string \<Rightarrow> int \<Rightarrow> response \<Rightarrow> svc \<Rightarrow> svc" where
  "markFailed px q pid r =
     ignoring (MarkTerminal (driverOf px)
       [AString q, AInt pid, AString StateFailed, AString (statusText px (respCode r)), AString (statusMessage px r)])"

text \<open>The identity the printer gave to an accepted job.\<close>

definition recordMapping :: "proxy \<Rightarrow> string \<Rightarrow> int \<Rightarrow> response \<Rightarrow> string \<Rightarrow> svc \<Rightarrow> svc" where
  "recordMapping px q pid r why st =
     (let uid = (case FirstInt (respJob r) ''job-id'' of Some i \<Rightarrow> i | None \<Rightarrow> 0);
          uri = (case FirstString (sprintOf px) (respJob r) ''job-uri'' of Some s \<Rightarrow> s | None \<Rightarrow> []) in
      if uid > 0 then
        (case onStore (MarkMapped (driverOf px) [AString q, AInt pid, AInt uid, AString uri]) st of
           (Inl e, st') \<Rightarrow> markUncertain px q pid (errorText px e) st'
         | (Inr _, st') \<Rightarrow> st')
      else markUncertain px q pid why st)"

record PayloadMetadata =
  mdBytes :: int
  mdPageCount :: "int option"
  mdCopies :: int
  mdImpressions :: "int option"

definition storeMetadata :: "proxy \<Rightarrow> string \<Rightarrow> int \<Rightarrow> string \<Rightarrow> PayloadMetadata \<Rightarrow> bool \<Rightarrow> svc \<Rightarrow> svc" where
  "storeMetadata px q pid format meta lst st =
     (case onStore (UpdatePayloadMetadataWithLastDocument (driverOf px) q pid format (mdBytes meta) (mdPageCount meta) (mdCopies meta)
             (mdImpressions meta) lst) st of
        (Inl e, st') \<Rightarrow> markUncertain px q pid (errorText px e) st'
      | (Inr _, st') \<Rightarrow> st')"

definition recordTranslationError :: "string \<Rightarrow> string \<Rightarrow> svc \<Rightarrow> svc" where
  "recordTranslationError q err st = st\<lparr>LastTranslationError := (LastTranslationError st)(q := err)\<rparr>"

text \<open>
  The body of a request: what a translation works on, the error of creating the recorder for a body
  that is handed on, and what the recorder reports about it once it has been sent.
\<close>

record 'e body =
  bodyHost :: "'e host"
  bodyEnv :: 'e
  bodyTemp :: "goerr option"
  bodyObserved :: bool
  bodyRecorder :: "string option"
  bodyFinish :: "string \<Rightarrow> int \<Rightarrow> PayloadMetadata"

definition translated :: "proxy \<Rightarrow> 'e body \<Rightarrow> documentRoute \<Rightarrow> attribute list \<Rightarrow> attribute list \<Rightarrow> (payload_error + Result option) option" where
  "translated px b route attrs up =
     map_option fst (translatePayload (bodyHost b) (sprintOf px) False (bodyTemp b) (bodyObserved b) route attrs up (MaxDocumentBytes px)
       (bodyEnv b))"

definition translatedMetadata :: "Result \<Rightarrow> int \<Rightarrow> PayloadMetadata" where
  "translatedMetadata res n =
     \<lparr>mdBytes = InputBytes res, mdPageCount = Some (uint (Pages res)), mdCopies = n, mdImpressions = Some (uint (Pages res) * n)\<rparr>"

definition translationResponse :: "proxy \<Rightarrow> message \<Rightarrow> payload_error \<Rightarrow> response" where
  "translationResponse px req err =
     (case translationErrorProtocol (Some req) (Some err) of
        Some pe \<Rightarrow> protocolResponse (peStatus pe) (peMessage pe) | None \<Rightarrow> protocolResponse StatusErrorBadRequest [])"

subsection \<open>Validate-Job\<close>

definition handleValidateJob :: "proxy \<Rightarrow> string \<Rightarrow> printerConfig \<Rightarrow> message \<Rightarrow> svc \<Rightarrow> (string + response) \<times> svc" where
  "handleValidateJob px q printer req st =
     (case normalizeJobRequest px q printer req of
        Inl rejected \<Rightarrow> (Inr rejected, st)
      | Inr result \<Rightarrow>
          (case requestRoute px q (operationString px req ''document-format'') req of
             Inl pe \<Rightarrow> (Inr (protocolResponse (peStatus pe) (peMessage pe)), st)
           | Inr route \<Rightarrow>
               (case upstreamCall px (upstreamRequest printer route result req) st of
                  (Inl e, st') \<Rightarrow> (Inl e, st')
                | (Inr r, st') \<Rightarrow> (Inr (applyNormalizationResult r result), st'))))"

subsection \<open>Print-Job and Create-Job\<close>

text \<open>\<open>quoted\<close> is the verb \<^verbatim>\<open>%q\<close> of \<^verbatim>\<open>fmt\<close>.\<close>

definition validatePayloadDocumentFormat :: "proxy \<Rightarrow> (string \<Rightarrow> string) \<Rightarrow> string \<Rightarrow> message \<Rightarrow> ProtocolError option" where
  "validatePayloadDocumentFormat px quoted q req =
     (let format = operationString px req ''document-format''; named = attrsNamed (msgOperation req) [''document-format''] in
      if TrimSpace format = [] then
        Some (unsupportedError StatusErrorDocumentFormatNotSupported ''document-format is not admitted for a payload-bearing operation'' named)
      else case capabilityModels px q of
        None \<Rightarrow> None
      | Some model \<Rightarrow>
          (let routes = routeSnapshotForModel (sprintOf px) model in
           if Routes routes = [] then
             Some (protocolError StatusErrorDocumentFormatNotSupported ''the proxy has no admitted document formats'')
           else if routeFor routes (ToLower (TrimSpace format)) = None then
             Some (unsupportedError StatusErrorDocumentFormatNotSupported
               (''document-format '' @ quoted format @ '' is not supported by the proxy'') named)
           else None))"

text \<open>After the request has been sent: \<open>answer\<close> is what came back.\<close>

definition finishPrint ::
  "proxy \<Rightarrow> string \<Rightarrow> int \<Rightarrow> string \<Rightarrow> NormalizationResult \<Rightarrow> PayloadMetadata \<Rightarrow> (string + response) \<times> svc \<Rightarrow> (string + response) \<times> svc" where
  "finishPrint px q pid format result meta answer =
     (case answer of
        (Inl e, st) \<Rightarrow> (Inl e, markUncertain px q pid e st)
      | (Inr r, st) \<Rightarrow>
          if \<not> ippSuccess r then (Inr r, markFailed px q pid r st)
          else
            (let r' = applyNormalizationResult r result in
             (Inr (rewriteResponseJob r' pid (proxyPrinterURI px q)),
              storeMetadata px q pid format meta True (recordMapping px q pid r' ''upstream accepted job without job-id'' st))))"

definition submitPrint ::
  "proxy \<Rightarrow> string \<Rightarrow> printerConfig \<Rightarrow> message \<Rightarrow> 'e body \<Rightarrow> string \<Rightarrow> documentRoute \<Rightarrow> NormalizationResult \<Rightarrow> Result option \<Rightarrow> svc
    \<Rightarrow> (string + response) \<times> svc" where
  "submitPrint px q printer req b format route result doc st =
     (let n = copiesFromAttrs (resAttrs result) in
      case onStore (Reserve (driverOf px) [AJob (jobForRoute q (operationString px req ''requesting-user-name'')
             (operationString px req ''job-name'') format route n)]) st of
        (Inl e, st1) \<Rightarrow> (Inl (''reserve proxy job: '' @ errorText px e), st1)
      | (Inr pid, st1) \<Rightarrow>
          (case doc of
             Some res \<Rightarrow>
               finishPrint px q pid format result (translatedMetadata res n) (upstreamCall px (upstreamRequest printer route result req) st1)
           | None \<Rightarrow>
               (case bodyRecorder b of
                  Some err \<Rightarrow>
                    (Inl err, ignoring (MarkTerminal (driverOf px) [AString q, AInt pid, AString StateFailed, AString [], AString err])
                       (recordTranslationError q err st1))
                | None \<Rightarrow>
                    finishPrint px q pid format result (bodyFinish b format n)
                      (upstreamCall px (upstreamRequest printer route result req) st1))))"

definition handlePrintJob ::
  "proxy \<Rightarrow> (string \<Rightarrow> string) \<Rightarrow> string \<Rightarrow> printerConfig \<Rightarrow> message \<Rightarrow> 'e body \<Rightarrow> svc \<Rightarrow> ((string + response) \<times> svc) option" where
  "handlePrintJob px quoted q printer req b st =
     (let format = operationString px req ''document-format''; refuse = (\<lambda>pe. Some (Inr (protocolResponse (peStatus pe) (peMessage pe)), st)) in
      case validateExplicitDocumentFormat (msgOperation req) of
        Some pe \<Rightarrow> refuse pe
      | None \<Rightarrow>
      (case validatePayloadDocumentFormat px quoted q req of
        Some pe \<Rightarrow> refuse pe
      | None \<Rightarrow>
      (case requestRoute px q format req of
        Inl pe \<Rightarrow> refuse pe
      | Inr route0 \<Rightarrow>
      (case normalizeJobRequest px q printer req of
        Inl rejected \<Rightarrow> Some (Inr rejected, st)
      | Inr result \<Rightarrow>
          (let route = route0\<lparr>routePage := routePageSettings (sprintOf px) route0 (resAttrs result) (upstreamCapabilities px q)\<rparr> in
           case translated px b route (resAttrs result) (upstreamCapabilities px q) of
             None \<Rightarrow> None
           | Some (Inl err) \<Rightarrow> Some (Inr (translationResponse px req err), recordTranslationError q (payloadText px err) st)
           | Some (Inr doc) \<Rightarrow> Some (submitPrint px q printer req b format route result doc st))))))"

definition finishCreate ::
  "proxy \<Rightarrow> string \<Rightarrow> int \<Rightarrow> NormalizationResult \<Rightarrow> (string + response) \<times> svc \<Rightarrow> (string + response) \<times> svc" where
  "finishCreate px q pid result answer =
     (case answer of
        (Inl e, st) \<Rightarrow> (Inl e, markUncertain px q pid e st)
      | (Inr r, st) \<Rightarrow>
          if \<not> ippSuccess r then (Inr r, markFailed px q pid r st)
          else
            (let r' = applyNormalizationResult r result in
             (Inr (rewriteResponseJob r' pid (proxyPrinterURI px q)), recordMapping px q pid r' ''upstream created job without job-id'' st)))"

definition handleCreateJob :: "proxy \<Rightarrow> string \<Rightarrow> printerConfig \<Rightarrow> message \<Rightarrow> svc \<Rightarrow> (string + response) \<times> svc" where
  "handleCreateJob px q printer req st =
     (case normalizeJobRequest px q printer req of
        Inl rejected \<Rightarrow> (Inr rejected, st)
      | Inr result \<Rightarrow>
          (let given = operationString px req ''document-format'' in
           case requestRoute px q given req of
             Inl pe \<Rightarrow> (Inr (protocolResponse (peStatus pe) (peMessage pe)), st)
           | Inr route0 \<Rightarrow>
               (let format = (if TrimSpace given = [] then ClientFormat route0 else given);
                    route = route0\<lparr>routePage := routePageSettings (sprintOf px) route0 (resAttrs result) (upstreamCapabilities px q)\<rparr> in
                case onStore (Reserve (driverOf px) [AJob (jobForRoute q (operationString px req ''requesting-user-name'')
                       (operationString px req ''job-name'') format route (copiesFromAttrs (resAttrs result)))]) st of
                  (Inl e, st1) \<Rightarrow> (Inl (''reserve proxy job: '' @ errorText px e), st1)
                | (Inr pid, st1) \<Rightarrow>
                    finishCreate px q pid result (upstreamCall px (upstreamRequest printer route result req) st1))))"

subsection \<open>Send-Document\<close>

text \<open>Whether a document can be sent to the job: the printer knows the job, and the job is not over.\<close>

definition acceptsDocument :: "Job \<Rightarrow> bool" where
  "acceptsDocument job \<longleftrightarrow>
     \<not> (\<not> HasUpstreamJobID job \<or> UpstreamJobID job < 1 \<or> State job = StateReserved \<or> State job = StateUncertain
        \<or> IsTerminalState (State job))"

definition sendRoute :: "proxy \<Rightarrow> string \<Rightarrow> message \<Rightarrow> Job \<Rightarrow> documentRoute option" where
  "sendRoute px q req job =
     (case routeFromStore job of
        Some route \<Rightarrow> Some route
      | None \<Rightarrow>
          (let requested = operationString px req ''document-format'' in
           routeForRequest (sprintOf px) (capabilityModels px q) (capabilities px q)
             (map_option (\<lambda>p. (printerPolicy p, printerAirPrintMode p)) (proxyPrinters px q))
             (if TrimSpace requested = [] then DocumentFormat job else requested)))"

text \<open>The refusals of Send-Document before the document is read.\<close>

definition sendRefusal :: "proxy \<Rightarrow> message \<Rightarrow> Job \<Rightarrow> documentRoute \<Rightarrow> bool \<Rightarrow> response option" where
  "sendRefusal px req job route hasPayload =
     (if (case FirstString (sprintOf px) (msgOperation req) ''document-format'' of
            Some f \<Rightarrow> \<not> EqualFold (TrimSpace f) (TrimSpace (ClientFormat route)) | None \<Rightarrow> False) then
        Some (protocolResponse StatusErrorConflicting ''document-format conflicts with the route pinned at Create-Job'')
      else if \<not> acceptsDocument job then
        Some (protocolResponse StatusErrorNotPossible ''job is not available for document submission'')
      else if LastDocument job \<or> (DocumentCount job > 0 \<and> hasPayload) then
        Some (protocolResponse StatusErrorMultipleJobsNotSupported ''this proxy accepts exactly one document per job'')
      else if hasPayload \<and> orText (ClientFormat route) (DocumentFormat job) = [] then
        Some (protocolResponse StatusErrorDocumentFormatNotSupported ''job has no pinned document format'')
      else None)"

definition sendRequest :: "printerConfig \<Rightarrow> documentRoute \<Rightarrow> Job \<Rightarrow> message \<Rightarrow> message" where
  "sendRequest printer route job req =
     req\<lparr>msgOperation := rewriteOperationForUpstream
           (rewriteDocumentFormat (rewriteMappedJobOperation (msgOperation req) job) (UpstreamFormat route)) (UpstreamURI printer),
         msgGroups := None\<rparr>"

definition finishSend ::
  "proxy \<Rightarrow> string \<Rightarrow> int \<Rightarrow> string \<Rightarrow> bool \<Rightarrow> PayloadMetadata \<Rightarrow> (string + response) \<times> svc \<Rightarrow> (string + response) \<times> svc" where
  "finishSend px q pid format lst meta answer =
     (case answer of
        (Inl e, st) \<Rightarrow> (Inl e, markUncertain px q pid e st)
      | (Inr r, st) \<Rightarrow>
          (Inr (rewriteResponseJob r pid (proxyPrinterURI px q)),
           if pid \<le> 0 then st
           else if ippSuccess r then storeMetadata px q pid format meta lst st
           else ignoring (UpdateState (driverOf px) q pid ''failed'') st))"

definition submitDocument ::
  "proxy \<Rightarrow> string \<Rightarrow> printerConfig \<Rightarrow> message \<Rightarrow> 'e body \<Rightarrow> int \<Rightarrow> Job \<Rightarrow> documentRoute \<Rightarrow> Result option \<Rightarrow> svc
    \<Rightarrow> (string + response) \<times> svc" where
  "submitDocument px q printer req b pid job route doc st =
     (let format = orText (ClientFormat route) (DocumentFormat job); lst = singleBoolean (msgOperation req) ''last-document'';
          n = Copies job in
      case doc of
        Some res \<Rightarrow> finishSend px q pid format lst (translatedMetadata res n) (upstreamCall px (sendRequest printer route job req) st)
      | None \<Rightarrow>
          (case bodyRecorder b of
             Some err \<Rightarrow> (Inl err, markUncertain px q pid err st)
           | None \<Rightarrow>
               finishSend px q pid format lst (bodyFinish b format n) (upstreamCall px (sendRequest printer route job req) st)))"

definition handleSendDocument ::
  "proxy \<Rightarrow> string \<Rightarrow> printerConfig \<Rightarrow> message \<Rightarrow> 'e body \<Rightarrow> bool \<Rightarrow> svc \<Rightarrow> ((string + response) \<times> svc) option" where
  "handleSendDocument px q printer req b hasPayload st =
     (case lookupRequestJob px q req st of
        (Inl e, st1) \<Rightarrow> Some (Inl (errorText px e), st1)
      | (Inr job, st1) \<Rightarrow>
          (let pid = (if requestProxyJobID px req = 0 then ProxyJobID job else requestProxyJobID px req) in
           case sendRoute px q req job of
             None \<Rightarrow> Some (Inr (protocolResponse StatusErrorNotPossible ''job has no pinned document route''), st1)
           | Some route \<Rightarrow>
               (case sendRefusal px req job route hasPayload of
                  Some refused \<Rightarrow> Some (Inr refused, st1)
                | None \<Rightarrow>
                    if hasPayload \<and> Transform route then
                      (case translated px b route [] (upstreamCapabilities px q) of
                         None \<Rightarrow> None
                       | Some (Inl err) \<Rightarrow>
                           Some (Inr (translationResponse px req err), recordTranslationError q (payloadText px err) st1)
                       | Some (Inr doc) \<Rightarrow> Some (submitDocument px q printer req b pid job route doc st1))
                    else Some (submitDocument px q printer req b pid job route None st1))))"

subsection \<open>Operations on mapped jobs\<close>

definition jobStateLabel :: "int \<Rightarrow> string" where
  "jobStateLabel n =
     (if n = 3 then ''pending'' else if n = 4 then ''pending-held'' else if n = 5 then ''processing''
      else if n = 6 then ''processing-stopped'' else if n = 7 then ''canceled'' else if n = 8 then ''aborted''
      else if n = 9 then ''completed'' else Itoa n)"

definition syncObservedJob :: "proxy \<Rightarrow> string \<Rightarrow> Job \<Rightarrow> attribute list \<Rightarrow> svc \<Rightarrow> svc" where
  "syncObservedJob px q job attrs st =
     (case FirstInt attrs ''job-state'' of
        None \<Rightarrow> st
      | Some n \<Rightarrow>
          (let args = [AString q, AInt (ProxyJobID job), AString (jobStateLabel n), AString []] in
           if 7 \<le> n \<and> n \<le> 9 then ignoring (MarkTerminal (driverOf px) args) st
           else ignoring (UpdateObserved (driverOf px) args) st))"

definition mappedRequest :: "printerConfig \<Rightarrow> Job \<Rightarrow> message \<Rightarrow> message" where
  "mappedRequest printer job req =
     req\<lparr>msgOperation := rewriteOperationForUpstream (rewriteMappedJobOperation (msgOperation req) job) (UpstreamURI printer),
         msgGroups := None\<rparr>"

definition finishMapped :: "proxy \<Rightarrow> string \<Rightarrow> op \<Rightarrow> Job \<Rightarrow> (string + response) \<times> svc \<Rightarrow> (string + response) \<times> svc" where
  "finishMapped px q c job answer =
     (case answer of
        (Inl e, st) \<Rightarrow> (Inl e, if c = OpCancelJob \<or> c = OpCloseJob then markUncertain px q (ProxyJobID job) e st else st)
      | (Inr r, st) \<Rightarrow>
          (Inr (rewriteResponseJob r (ProxyJobID job) (proxyPrinterURI px q)),
           if \<not> ippSuccess r then st
           else if c = OpCancelJob then
             ignoring (MarkTerminal (driverOf px) [AString q, AInt (ProxyJobID job), AString StateCanceled, AString []]) st
           else syncObservedJob px q job (respJob r) st))"

definition handleMappedJobOperation :: "proxy \<Rightarrow> string \<Rightarrow> printerConfig \<Rightarrow> message \<Rightarrow> svc \<Rightarrow> (string + response) \<times> svc" where
  "handleMappedJobOperation px q printer req st =
     (case lookupRequestJob px q req st of
        (Inl e, st1) \<Rightarrow>
          (if e = ErrNoRows then Inr (protocolResponse StatusErrorNotFound ''unknown job'') else Inl (errorText px e), st1)
      | (Inr job, st1) \<Rightarrow>
          if \<not> HasUpstreamJobID job \<or> UpstreamJobID job < 1 \<or> State job = StateReserved \<or> State job = StateUncertain then
            (Inr (protocolResponse StatusErrorNotPossible ''job mapping is not yet available''), st1)
          else if IsTerminalState (State job) \<and> msgCode req \<noteq> OpGetJobAttributes then
            (Inr (protocolResponse StatusErrorNotPossible ''job is already terminal''), st1)
          else finishMapped px q (msgCode req) job (upstreamCall px (mappedRequest printer job req) st1))"

definition forwardPrinterOperation :: "proxy \<Rightarrow> printerConfig \<Rightarrow> message \<Rightarrow> svc \<Rightarrow> (string + response) \<times> svc" where
  "forwardPrinterOperation px printer req =
     upstreamCall px (req\<lparr>msgOperation := rewriteOperationForUpstream (msgOperation req) (UpstreamURI printer), msgGroups := None\<rparr>)"

end
