(* ===== verification/Proxy_Listing.thy ===== *)
theory Proxy_Listing
  imports Proxy_Service
begin

text \<open>
  The operations of the IPP service over several jobs, \<^verbatim>\<open>internal/proxy/service.go\<close>: Get-Jobs, Cancel-My-Jobs and
  the maintenance that reconciles the registry with the jobs the printers report.
\<close>

subsection \<open>Get-Jobs\<close>

text \<open>What a listing depends on besides the jobs: the user whose jobs are wanted, and the limit, zero for none.\<close>

record listing =
  onlyUser :: "string option"
  jobLimit :: int
  jobWanted :: "string list"

definition requestListing :: "proxy \<Rightarrow> message \<Rightarrow> listing" where
  "requestListing px req =
     \<lparr>onlyUser = (if singleBoolean (msgOperation req) ''my-jobs'' then Some (operationString px req ''requesting-user-name'') else None),
      jobLimit = (case FirstInt (msgOperation req) ''limit'' of Some n \<Rightarrow> n | None \<Rightarrow> 0),
      jobWanted = requestedJobAttributes (msgOperation req)\<rparr>"

text \<open>One job of the response: \<open>kept\<close> jobs are in the answer already.\<close>

definition filterJob :: "proxy \<Rightarrow> string \<Rightarrow> listing \<Rightarrow> attribute list \<Rightarrow> int \<times> svc \<Rightarrow> attribute list option \<times> int \<times> svc" where
  "filterJob px q ls attrs s =
     (case s of (kept, st) \<Rightarrow>
        if jobLimit ls > 0 \<and> kept \<ge> jobLimit ls then (None, kept, st)
        else case FirstInt attrs ''job-id'' of
          None \<Rightarrow> (None, kept, st)
        | Some uid \<Rightarrow>
            (case onStore (GetByUpstreamID (driverOf px) [AString q, AInt uid]) st of
               (Inl _, st1) \<Rightarrow> (None, kept, st1)
             | (Inr job, st1) \<Rightarrow>
                 if (case onlyUser ls of Some user \<Rightarrow> RequestingUser job \<noteq> user | None \<Rightarrow> False) then (None, kept, st1)
                 else (Some (projectJobAttributes (rewriteJobAttrs attrs (ProxyJobID job) (proxyPrinterURI px q)) (jobWanted ls)),
                       kept + 1, syncObservedJob px q job attrs st1)))"

text \<open>The groups of a response; the attributes of the jobs kept are collected beside them.\<close>

fun filterGroups ::
  "proxy \<Rightarrow> string \<Rightarrow> listing \<Rightarrow> (tag \<times> attribute list) list \<Rightarrow> int \<times> svc
    \<Rightarrow> (tag \<times> attribute list) list \<times> attribute list \<times> int \<times> svc" where
  "filterGroups px q ls [] s = ([], [], s)"
| "filterGroups px q ls ((t, attrs) # gs) s =
     (if t \<noteq> TagJobGroup then
        (case filterGroups px q ls gs s of (gs', job, s') \<Rightarrow> ((t, attrs) # gs', job, s'))
      else case filterJob px q ls attrs s of
        (None, s1) \<Rightarrow> filterGroups px q ls gs s1
      | (Some as, s1) \<Rightarrow> (case filterGroups px q ls gs s1 of (gs', job, s') \<Rightarrow> ((t, as) # gs', as @ job, s')))"

definition getJobsRequest :: "printerConfig \<Rightarrow> message \<Rightarrow> message" where
  "getJobsRequest printer req =
     req\<lparr>msgOperation := rewriteOperationForUpstream
           (DropAttrs (msgOperation req) [''limit'', ''requested-attributes''] @ [Keyword ''requested-attributes'' ''all''])
           (UpstreamURI printer),
         msgGroups := None\<rparr>"

definition handleGetJobs :: "proxy \<Rightarrow> string \<Rightarrow> printerConfig \<Rightarrow> message \<Rightarrow> svc \<Rightarrow> (string + response) \<times> svc" where
  "handleGetJobs px q printer req st =
     (let ls = requestListing px req in
      case upstreamCall px (getJobsRequest printer req) st of
        (Inl e, st1) \<Rightarrow> (Inl e, st1)
      | (Inr r, st1) \<Rightarrow>
          if \<not> ippSuccess r then (Inr r, st1)
          else (case respGroups r of
            Some gs \<Rightarrow> (case filterGroups px q ls gs (0, st1) of (gs', job, _, st2) \<Rightarrow> (Inr (r\<lparr>respGroups := Some gs', respJob := job\<rparr>), st2))
          | None \<Rightarrow> (case filterJob px q ls (respJob r) (0, st1) of
                (Some attrs, _, st2) \<Rightarrow> (Inr (r\<lparr>respJob := attrs\<rparr>), st2)
              | (None, _, st2) \<Rightarrow> (Inr (r\<lparr>respJob := []\<rparr>), st2))))"

subsection \<open>Cancel-My-Jobs\<close>

definition newRequest :: "op \<Rightarrow> attribute list \<Rightarrow> message" where
  "newRequest c attrs = \<lparr>msgCode = c, msgOperation = attrs, msgJob = [], msgDocument = [], msgSubscription = [], msgGroups = None\<rparr>"

text \<open>The jobs one after the other, and how many of them could not be canceled.\<close>

fun cancelJobs :: "proxy \<Rightarrow> string \<Rightarrow> printerConfig \<Rightarrow> string \<Rightarrow> Job list \<Rightarrow> svc \<Rightarrow> nat \<times> svc" where
  "cancelJobs px q printer user [] st = (0, st)"
| "cancelJobs px q printer user (job # jobs) st =
     (if \<not> HasUpstreamJobID job \<or> UpstreamJobID job < 1 then cancelJobs px q printer user jobs st
      else case upstreamCall px (newRequest OpCancelJob (BasicOperationAttrs (UpstreamURI printer)
               @ [Name ''requesting-user-name'' user, IntegerAttr ''job-id'' (UpstreamJobID job)])) st of
        (Inl e, st1) \<Rightarrow>
          (case cancelJobs px q printer user jobs (markUncertain px q (ProxyJobID job) e st1) of (n, st2) \<Rightarrow> (Suc n, st2))
      | (Inr r, st1) \<Rightarrow>
          if \<not> ippSuccess r then (case cancelJobs px q printer user jobs st1 of (n, st2) \<Rightarrow> (Suc n, st2))
          else cancelJobs px q printer user jobs
                 (ignoring (MarkTerminal (driverOf px) [AString q, AInt (ProxyJobID job), AString StateCanceled, AString []]) st1))"

definition handleCancelMyJobs :: "proxy \<Rightarrow> string \<Rightarrow> printerConfig \<Rightarrow> message \<Rightarrow> svc \<Rightarrow> (string + response) \<times> svc" where
  "handleCancelMyJobs px q printer req st =
     (let user = operationString px req ''requesting-user-name'' in
      if user = [] then (Inr (protocolResponse StatusErrorBadRequest ''requesting-user-name is required''), st)
      else case onStore (ListJobs (driverOf px) [AFilter (noFilter\<lparr>fQueue := q, fRequestingUser := user, fExcludeTerminal := True\<rparr>)]) st of
        (Inl e, st1) \<Rightarrow> (Inl (errorText px e), st1)
      | (Inr jobs, st1) \<Rightarrow>
          (case cancelJobs px q printer user jobs st1 of (n, st2) \<Rightarrow>
             (Inr (if n > 0 then protocolResponse StatusErrorNotPossible (Itoa (int n) @ '' jobs could not be canceled'')
                   else statusResponse StatusOk []), st2)))"

subsection \<open>Reconciliation\<close>

text \<open>
  A text of the printer's report that has to agree with what the registry has, where the registry has
  one: \<open>None\<close> when it does not, whether it was compared otherwise.
\<close>

definition agrees :: "proxy \<Rightarrow> attribute list \<Rightarrow> string \<Rightarrow> string \<Rightarrow> bool option" where
  "agrees px attrs name known =
     (if known = [] then Some False
      else if FirstString (sprintOf px) attrs name = Some known then Some True else None)"

definition sameReconciledJob :: "proxy \<Rightarrow> Job \<Rightarrow> attribute list \<Rightarrow> bool" where
  "sameReconciledJob px job attrs =
     (case agrees px attrs ''job-uri'' (UpstreamJobURI job) of None \<Rightarrow> False | Some uri \<Rightarrow>
      case agrees px attrs ''job-name'' (JobName job) of None \<Rightarrow> False | Some name \<Rightarrow>
      case agrees px attrs ''job-originating-user-name'' (RequestingUser job) of None \<Rightarrow> False | Some user \<Rightarrow>
        (HasUpstreamJobID job \<and> UpstreamJobID job > 0) \<or> uri \<or> name \<or> user)"

definition responseJobGroups :: "response \<Rightarrow> attribute list list" where
  "responseJobGroups r =
     (case respGroups r of
        None \<Rightarrow> if respJob r = [] then [] else [respJob r]
      | Some gs \<Rightarrow> map snd (filter (\<lambda>g. fst g = TagJobGroup) gs))"

text \<open>The report of the printer about a job that is mapped.\<close>

definition reportOf :: "proxy \<Rightarrow> Job \<Rightarrow> attribute list list \<Rightarrow> attribute list option" where
  "reportOf px job reports = find (\<lambda>attrs. FirstInt attrs ''job-id'' = Some (UpstreamJobID job) \<and> sameReconciledJob px job attrs) reports"

definition reconcileJob :: "proxy \<Rightarrow> string \<Rightarrow> attribute list list \<Rightarrow> Job \<Rightarrow> svc \<Rightarrow> svc" where
  "reconcileJob px q reports job st0 =
     (let drv = driverOf px;
          st = (if State job = StateUncertain then
                  ignoring (bindE (timeNow drv) (\<lambda>now. MarkReconcileAttempt drv [AInt (ProxyJobID job), ATime now])) st0
                else st0) in
      if HasUpstreamJobID job then
        (case reportOf px job reports of
           None \<Rightarrow> st
         | Some attrs \<Rightarrow>
             if IsTerminalState (State job) then st
             else (case onStore (MarkMapped drv [AString q, AInt (ProxyJobID job), AInt (UpstreamJobID job), AString (UpstreamJobURI job)]) st of
               (Inl _, st1) \<Rightarrow> st1
             | (Inr _, st1) \<Rightarrow> syncObservedJob px q job attrs st1))
      else
        (case filter (sameReconciledJob px job) reports of
           [attrs] \<Rightarrow>
             (case FirstInt attrs ''job-id'' of
                Some uid \<Rightarrow>
                  if uid < 1 then st
                  else (case onStore (MarkMapped drv [AString q, AInt (ProxyJobID job), AInt uid,
                            AString (case FirstString (sprintOf px) attrs ''job-uri'' of Some u \<Rightarrow> u | None \<Rightarrow> [])]) st of
                    (Inl _, st1) \<Rightarrow> st1
                  | (Inr _, st1) \<Rightarrow> syncObservedJob px q (job\<lparr>UpstreamJobID := uid, HasUpstreamJobID := True\<rparr>) attrs st1)
              | None \<Rightarrow> st)
         | _ \<Rightarrow> st))"

definition reconcileRequest :: "printerConfig \<Rightarrow> message" where
  "reconcileRequest printer =
     newRequest OpGetJobs (BasicOperationAttrs (UpstreamURI printer)
       @ [Keyword ''which-jobs'' ''all'',
          Keywords ''requested-attributes'' [''job-id'', ''job-uri'', ''job-name'', ''job-originating-user-name'', ''job-state'',
            ''job-state-reasons'', ''job-impressions-completed'', ''job-media-sheets-completed'']])"

definition reconcileQueue :: "proxy \<Rightarrow> Job list \<Rightarrow> string \<Rightarrow> svc \<Rightarrow> svc" where
  "reconcileQueue px jobs q st =
     (case proxyPrinters px q of
        None \<Rightarrow> st
      | Some printer \<Rightarrow>
          if capabilities px q = None then st
          else (case upstreamCall px (reconcileRequest printer) st of
            (Inl _, st1) \<Rightarrow> st1
          | (Inr r, st1) \<Rightarrow>
              if \<not> ippSuccess r then st1
              else fold (reconcileJob px q (responseJobGroups r)) (filter (\<lambda>j. Queue j = q) jobs) st1))"

text \<open>The canceled jobs that are asked about.\<close>

definition recentlyCanceled :: "instant \<Rightarrow> JobFilter" where
  "recentlyCanceled t = noFilter\<lparr>fState := StateCanceled, fTerminalAfter := t\<rparr>"

text \<open>
  \<open>order\<close> is the order in which the queues are visited: that of a Go map, which is not specified. With the
  statistics switched on, jobs canceled in the last ten minutes are asked about too.
\<close>

definition reconcileUncertainJobs :: "proxy \<Rightarrow> (string list \<Rightarrow> string list) \<Rightarrow> bool \<Rightarrow> svc \<Rightarrow> (store_error + unit) \<times> svc" where
  "reconcileUncertainJobs px order statistics st =
     (let drv = driverOf px in
      case onStore (bindE (bindE (timeNow drv) (\<lambda>now. ReconciliationCandidates drv [ATime now, AInt 100])) (\<lambda>candidates.
             bindE (ListJobs drv [AFilter (noFilter\<lparr>fState := StateMapped\<rparr>)]) (\<lambda>mapped.
             bindE (if statistics then bindE (timeNow drv) (\<lambda>now. ListJobs drv [AFilter (recentlyCanceled (now - 600000000000))]) else ret []) (\<lambda>canceled.
             ret (candidates @ mapped @ canceled))))) st of
        (Inl e, st1) \<Rightarrow> (Inl e, st1)
      | (Inr jobs, st1) \<Rightarrow> (Inr (), fold (reconcileQueue px jobs) (order (remdups (map Queue jobs))) st1))"

definition runMaintenance :: "proxy \<Rightarrow> (string list \<Rightarrow> string list) \<Rightarrow> bool \<Rightarrow> int \<Rightarrow> svc \<Rightarrow> svc" where
  "runMaintenance px order statistics retention st =
     snd (reconcileUncertainJobs px order statistics
       (ignoring (bindE (timeNow (driverOf px)) (\<lambda>now. CleanupExpired (driverOf px) now retention)) st))"

end
