(* ===== verification/Store_Calm.thy ===== *)
theory Store_Calm
  imports Store_Theorems
begin

text \<open>
  What the operations of the registry do to the row of a job when no database call fails: each of
  them replaces that row and leaves the others as they are.
\<close>

subsection \<open>Replacing a row\<close>

definition updated :: "database \<Rightarrow> row \<Rightarrow> (row \<Rightarrow> row) \<Rightarrow> row list" where
  "updated d r g = map (\<lambda>x. if x = r then g x else x) (rows d)"

text \<open>A change that touches neither the identity of the row nor its place in the index.\<close>

definition keeps_keys :: "(row \<Rightarrow> row) \<Rightarrow> bool" where
  "keeps_keys g \<longleftrightarrow> (\<forall>r. proxy_job_id (g r) = proxy_job_id r \<and> queue (g r) = queue r \<and> upstream_job_id (g r) = upstream_job_id r)"

lemma updated_in: "r \<in> set (rows d) \<Longrightarrow> g r \<in> set (updated d r g)"
  by (auto simp: updated_def)

lemma index_ok_map:
  assumes "keeps_keys g" "index_ok rs"
  shows "index_ok (map (\<lambda>r. if P r then g r else r) rs)"
proof -
  have "mapping_keys (map (\<lambda>r. if P r then g r else r) rs) = mapping_keys rs"
    using assms(1) by (auto simp: mapping_keys_def List.map_filter_def keeps_keys_def filter_map comp_def
        intro!: map_cong filter_cong)
  then show ?thesis using assms(2) by (simp add: index_ok_def)
qed

lemma map_byID:
  assumes "db_ok d" "r \<in> set (rows d)" "proxy_job_id r = pid" "queue r = q"
  shows "map (\<lambda>x. if byID q pid x then g x else x) (rows d) = updated d r g"
  unfolding updated_def using assms ids_unique [OF assms(1)] by (intro map_cong) (auto simp: byID_def)

lemma update_calm:
  assumes "fault drv (tick w) = None" "db_ok (db w)" "r \<in> set (rows (db w))" "proxy_job_id r = pid" "queue r = q" "keeps_keys g"
  shows "exec drv (sql_update (byID q pid) g) w =
    (Inr 1, w\<lparr>db := (db w)\<lparr>rows := updated (db w) r g\<rparr>, tick := Suc (tick w)\<rparr>)"
proof -
  have "index_ok (updated (db w) r g)"
    using index_ok_map [OF assms(6), of "rows (db w)" "byID q pid"] assms(2) map_byID [OF assms(2-5)] by (simp add: db_ok_def)
  then show ?thesis
    using assms(1) filter_byID [OF assms(2,3), of q] assms(4,5)
    by (simp add: call_defs sql_update_def Let_def map_byID [OF assms(2-5)])
qed

lemma keeps_keys_setters [simp]:
  "keeps_keys (setUncertain why at)" "keeps_keys (setTerminal obs err at)" "keeps_keys (setDirectTerminal s at)"
  "keeps_keys (addDocument format bytes pgs cps impressions lst at)"
  by (simp_all add: keeps_keys_def setUncertain_def setTerminal_def setDirectTerminal_def addDocument_def)

subsection \<open>The operations\<close>

lemma MarkUncertain_calm:
  assumes "\<And>n. fault drv n = None" "db_ok (db w)" "r \<in> set (rows (db w))" "proxy_job_id r = pid" "queue r = q"
    and "\<not> IsTerminalState (state r)"
  shows "MarkUncertain drv [AString q, AInt pid, AString why] w =
    (Inr (), w\<lparr>db := (db w)\<lparr>rows := updated (db w) r (setUncertain why (formatTime (clock drv (tick w))))\<rparr>, tick := tick w + 5\<rparr>)"
  using assms filter_byID [OF assms(2,3), of q]
  by (auto simp: MarkUncertain_def parseUncertainArgs_def splitQueue_def ok_or_def orNow_def transaction_def activeRow_def
      bindE_def seqE_def timeNow_def dbcall_def queryRow_calm guardE_def expectRows_def update_calm numeral_eq_Suc)

lemma MarkTerminal_calm:
  assumes "\<And>n. fault drv n = None" "db_ok (db w)" "r \<in> set (rows (db w))" "proxy_job_id r = pid" "queue r = q"
  shows "\<exists>obs at. MarkTerminal drv [AString q, AInt pid, AString s, AString o0, AString err] w =
    (Inr (), w\<lparr>db := (db w)\<lparr>rows := updated (db w) r (setTerminal obs err at)\<rparr>, tick := tick w + 2\<rparr>)"
  using assms
  by (auto simp: MarkTerminal_def markTerminalParsed_def parseTerminalArgs_def splitQueue_def ok_or_def orNow_def
      bindE_def seqE_def timeNow_def guardE_def expectRows_def update_calm Let_def)

lemma UpdatePayload_calm:
  assumes "\<And>n. fault drv n = None" "db_ok (db w)" "r \<in> set (rows (db w))" "proxy_job_id r = pid" "queue r = q"
  shows "\<exists>at. UpdatePayloadMetadataWithLastDocument drv q pid format bytes pgs cps imps lst w =
    (Inr (), w\<lparr>db := (db w)\<lparr>rows := updated (db w) r (addDocument format bytes pgs (orElse cps 1) imps lst at)\<rparr>, tick := tick w + 2\<rparr>)"
  using assms
  by (auto simp: UpdatePayloadMetadataWithLastDocument_def UpdateDocument_def parseDocumentArgs_def splitQueue_def ok_or_def
      bindE_def seqE_def timeNow_def guardE_def expectRows_def update_calm)

end
