(* ===== verification/Proxy_Lifecycle.thy ===== *)
theory Proxy_Lifecycle
  imports Proxy_Listing Store_Calm
begin

text \<open>
  The IPP service as a client of the job registry: what the handlers do to the job table, and what
  they send to the printer.
\<close>

subsection \<open>The job table under the handlers\<close>

abbreviation jobs_of :: "svc \<Rightarrow> database" where
  "jobs_of st \<equiv> db (svcStore st)"

abbreviation moved :: "svc \<Rightarrow> svc \<Rightarrow> bool" where
  "moved st st' \<equiv> good_step (jobs_of st) (jobs_of st')"

named_theorems moved_rules

lemma moved_onStore: "permitted (\<lambda>_. True) p \<Longrightarrow> onStore p st = (r, st') \<Longrightarrow> moved st st'"
  using effects_step [of "\<lambda>_. True" p "\<lambda>_ _. True" "svcStore st"] by (auto simp: onStore_def split: prod.splits)

lemma moved_ignoring: "permitted (\<lambda>_. True) p \<Longrightarrow> moved st (ignoring p st)"
  using moved_onStore by (metis ignoring_def prod.collapse)

lemma moved_eq: "x = (r, st') \<Longrightarrow> moved st (snd x) \<Longrightarrow> moved st st'"
  by simp

lemma moved_call: "upstreamCall px m st = (r, st') \<Longrightarrow> moved st st'"
  by (auto simp: upstreamCall_def)

lemmas store_steps = MarkMapped_permitted MarkUncertain_permitted UpdateObserved_permitted UpdateState_permitted
  UpdateDocument_permitted MarkReconcileAttempt_permitted CleanupExpired_permitted

lemma MarkTerminal_permitted: "permitted (\<lambda>_. True) (MarkTerminal drv args)"
  by (simp add: MarkTerminal_def markTerminalParsed_permitted)

lemma lookup_moved:
  "onStore (GetByProxyID drv args) st = (r, st') \<Longrightarrow> jobs_of st' = jobs_of st"
  "onStore (GetByUpstreamID drv args) st = (r', st') \<Longrightarrow> jobs_of st' = jobs_of st"
  "onStore (ListJobs drv args) st = (r'', st') \<Longrightarrow> jobs_of st' = jobs_of st"
  using lookups_readonly by (auto simp: onStore_def split: prod.splits dest!: readonlyD [rotated])

lemma moved_markUncertain [moved_rules]: "moved st (markUncertain px q pid why st)"
  by (simp add: markUncertain_def moved_ignoring MarkUncertain_permitted)

lemma moved_markFailed [moved_rules]: "moved st (markFailed px q pid r st)"
  by (simp add: markFailed_def moved_ignoring MarkTerminal_permitted)

lemma moved_recordMapping [moved_rules]: "moved st (recordMapping px q pid r why st)"
  by (auto simp: recordMapping_def Let_def moved_rules split: prod.splits sum.splits
      intro: good_step_trans moved_markUncertain dest: moved_onStore [OF MarkMapped_permitted])

lemma moved_storeMetadata [moved_rules]: "moved st (storeMetadata px q pid format meta lst st)"
  by (auto simp: storeMetadata_def UpdatePayloadMetadataWithLastDocument_def split: prod.splits sum.splits
      intro: good_step_trans moved_markUncertain dest: moved_onStore [OF UpdateDocument_permitted])

lemma moved_sync [moved_rules]: "moved st (syncObservedJob px q job attrs st)"
  by (auto simp: syncObservedJob_def Let_def intro!: moved_ignoring MarkTerminal_permitted UpdateObserved_permitted split: option.split)

lemma moved_lookup: "lookupRequestJob px q req st = (r, st') \<Longrightarrow> jobs_of st' = jobs_of st"
  by (auto simp: lookupRequestJob_def lookup_moved split: if_splits)

lemma recordTranslationError_jobs [simp]: "svcStore (recordTranslationError q e st) = svcStore st"
  by (simp add: recordTranslationError_def)

lemma moved_finish:
  "moved st (snd (finishPrint px q pid format result meta (r, st)))"
  "moved st (snd (finishCreate px q pid result (r, st)))"
  "moved st (snd (finishSend px q pid format lst meta (r, st)))"
  "moved st (snd (finishMapped px q c job (r, st)))"
  by (auto simp: finishPrint_def finishCreate_def finishSend_def finishMapped_def Let_def moved_rules moved_ignoring
      UpdateState_permitted MarkTerminal_permitted intro: good_step_trans [OF moved_recordMapping moved_storeMetadata] split: sum.split)

lemma moved_submit:
  "moved st (snd (upstreamCall px m st))"
  "moved st (snd (finishPrint px q pid format result meta (upstreamCall px m st)))"
  "moved st (snd (finishCreate px q pid result (upstreamCall px m st)))"
  "moved st (snd (finishSend px q pid format lst meta (upstreamCall px m st)))"
  "moved st (snd (finishMapped px q c job (upstreamCall px m st)))"
proof -
  obtain r st1 where c: "upstreamCall px m st = (r, st1)" by (cases "upstreamCall px m st")
  from moved_call [OF c] show "moved st (snd (upstreamCall px m st))" by (simp add: c)
  show "moved st (snd (finishPrint px q pid format result meta (upstreamCall px m st)))"
    "moved st (snd (finishCreate px q pid result (upstreamCall px m st)))"
    "moved st (snd (finishSend px q pid format lst meta (upstreamCall px m st)))"
    "moved st (snd (finishMapped px q c job (upstreamCall px m st)))"
    unfolding c by (rule good_step_trans [OF moved_call [OF c] moved_finish(1)] good_step_trans [OF moved_call [OF c] moved_finish(2)]
        good_step_trans [OF moved_call [OF c] moved_finish(3)] good_step_trans [OF moved_call [OF c] moved_finish(4)])+
qed

lemma moved_validate: "moved st (snd (handleValidateJob px q printer req st))"
  using moved_submit(1) [of st px] by (auto simp: handleValidateJob_def split: sum.splits prod.splits) (metis snd_conv)+

lemma moved_submitPrint:
  assumes "\<And>n. clock (driverOf px) n \<noteq> 0"
  shows "moved st (snd (submitPrint px q printer req b format route result doc st))"
proof -
  have "moved st st1" if "onStore (Reserve (driverOf px) args) st = (r, st1)" for r st1 args
    using moved_onStore [OF Reserve_permitted [OF assms] that] .
  then show ?thesis
    by (auto simp: submitPrint_def Let_def split: prod.splits sum.splits option.splits
        intro: good_step_trans [OF _ moved_submit(2)]
          good_step_trans [OF _ moved_ignoring [OF MarkTerminal_permitted, of "recordTranslationError _ _ _", simplified]])
qed

lemma moved_print:
  assumes "\<And>n. clock (driverOf px) n \<noteq> 0" "handlePrintJob px quoted q printer req b st = Some (res, st')"
  shows "moved st st'"
  using assms(2)
  by (auto simp: handlePrintJob_def Let_def split: option.splits sum.splits intro: moved_eq [OF _ moved_submitPrint [OF assms(1)]])

lemma moved_create:
  assumes "\<And>n. clock (driverOf px) n \<noteq> 0"
  shows "moved st (snd (handleCreateJob px q printer req st))"
proof -
  have "moved st st1" if "onStore (Reserve (driverOf px) args) st = (r, st1)" for r st1 args
    using moved_onStore [OF Reserve_permitted [OF assms] that] .
  then show ?thesis
    by (auto simp: handleCreateJob_def Let_def split: prod.splits sum.splits intro: good_step_trans [OF _ moved_submit(3)])
qed

lemma moved_submitDocument: "moved st (snd (submitDocument px q printer req b pid job route doc st))"
  by (auto simp: submitDocument_def Let_def moved_submit(4) moved_rules split: option.splits)

lemma moved_send:
  assumes "handleSendDocument px q printer req b hasPayload st = Some (res, st')"
  shows "moved st st'"
proof -
  obtain r st1 where l: "lookupRequestJob px q req st = (r, st1)" by (cases "lookupRequestJob px q req st")
  have "moved st1 st'"
    using assms
    by (auto simp: handleSendDocument_def l Let_def split: option.splits sum.splits if_splits
        intro: moved_eq [OF _ moved_submitDocument])
  with moved_lookup [OF l] show ?thesis by simp
qed

lemma moved_mapped: "moved st (snd (handleMappedJobOperation px q printer req st))"
proof -
  obtain r st1 where l: "lookupRequestJob px q req st = (r, st1)" by (cases "lookupRequestJob px q req st")
  have "moved st1 (snd (handleMappedJobOperation px q printer req st))"
    by (auto simp: handleMappedJobOperation_def l moved_submit(5) split: sum.splits)
  with moved_lookup [OF l] show ?thesis by simp
qed

lemma moved_forward: "moved st (snd (forwardPrinterOperation px printer req st))"
  by (simp add: forwardPrinterOperation_def moved_submit(1))

subsection \<open>Listings\<close>

lemma moved_filterJob: "filterJob px q ls attrs (kept, st) = (res, kept', st') \<Longrightarrow> moved st st'"
  by (auto simp: filterJob_def moved_rules lookup_moved(2) split: if_splits option.splits prod.splits sum.splits
      dest!: lookup_moved(2)) (metis moved_sync)+

lemma moved_filterGroups: "filterGroups px q ls gs (kept, st) = (gs', job, kept', st') \<Longrightarrow> moved st st'"
proof (induction gs arbitrary: kept st gs' job)
  case (Cons g gs)
  obtain t attrs where g: "g = (t, attrs)" by (cases g)
  obtain x k1 st1 where f: "filterJob px q ls attrs (kept, st) = (x, k1, st1)" by (cases "filterJob px q ls attrs (kept, st)")
  show ?case
    using Cons.prems Cons.IH moved_filterJob [OF f]
    by (auto simp: g f split: if_splits option.splits prod.splits intro: good_step_trans)
qed simp

lemma moved_getJobs: "moved st (snd (handleGetJobs px q printer req st))"
proof -
  obtain r st1 where c: "upstreamCall px (getJobsRequest printer req) st = (r, st1)"
    by (cases "upstreamCall px (getJobsRequest printer req) st")
  show ?thesis
    using moved_call [OF c] moved_filterGroups [of px q _ _ 0 st1] moved_filterJob [of px q _ _ 0 st1]
    by (auto simp: handleGetJobs_def c Let_def split: sum.splits option.splits prod.splits) (blast intro: good_step_trans)+
qed

lemma moved_cancelJobs: "moved st (snd (cancelJobs px q printer user jobs st))"
proof (induction jobs arbitrary: st)
  case (Cons job jobs)
  let ?m = "newRequest OpCancelJob (BasicOperationAttrs (UpstreamURI printer)
    @ [Name ''requesting-user-name'' user, IntegerAttr ''job-id'' (UpstreamJobID job)])"
  obtain r st1 where c: "upstreamCall px ?m st = (r, st1)" by (cases "upstreamCall px ?m st")
  show ?case
    using Cons.IH [of st] Cons.IH [of st1] moved_call [OF c] good_step_trans [OF moved_markUncertain Cons.IH, of st1]
      good_step_trans [OF moved_ignoring [OF MarkTerminal_permitted] Cons.IH, of st1]
    by (auto simp: c split: sum.splits prod.splits) (metis good_step_trans snd_conv)+
qed simp

lemma moved_cancel: "moved st (snd (handleCancelMyJobs px q printer req st))"
  using moved_cancelJobs
  by (auto simp: handleCancelMyJobs_def Let_def split: sum.splits prod.splits dest!: lookup_moved(3)) (metis snd_conv)+

subsection \<open>Maintenance\<close>

lemma moved_mapAndSync:
  assumes "moved st0 st"
  shows "moved st0 (case onStore (MarkMapped drv args) st of (Inl _, st1) \<Rightarrow> st1 | (Inr _, st1) \<Rightarrow> syncObservedJob px q job attrs st1)"
  using assms moved_onStore [OF MarkMapped_permitted, of drv args st]
  by (auto split: sum.split prod.split) (blast intro: good_step_trans moved_sync)+

lemma moved_attempt:
  "moved st (if b then ignoring (bindE (timeNow drv) (\<lambda>now. MarkReconcileAttempt drv [AInt pid, ATime now])) st else st)"
  by (auto intro!: moved_ignoring effects_timeNow MarkReconcileAttempt_permitted)

lemma moved_reconcileJob: "moved st (reconcileJob px q reports job st)"
proof -
  define st1 where "st1 = (if State job = StateUncertain then ignoring (bindE (timeNow (driverOf px))
    (\<lambda>now. MarkReconcileAttempt (driverOf px) [AInt (ProxyJobID job), ATime now])) st else st)"
  have st1: "moved st st1" unfolding st1_def by (rule moved_attempt)
  show ?thesis
    unfolding reconcileJob_def Let_def st1_def [symmetric]
    by (auto intro!: moved_mapAndSync st1 split: list.split option.split)
qed

lemma moved_fold:
  assumes "\<And>x st. moved st (f x st)"
  shows "moved st (fold f xs st)"
proof (induction xs arbitrary: st)
  case (Cons x xs)
  from assms Cons.IH show ?case by (auto intro: good_step_trans)
qed simp

lemma moved_reconcileQueue: "moved st (reconcileQueue px jobs q st)"
  by (auto simp: reconcileQueue_def split: option.split sum.split prod.split dest!: moved_call
      intro: good_step_trans [OF _ moved_fold [OF moved_reconcileJob]])

lemma moved_reconcile: "moved st (snd (reconcileUncertainJobs px order statistics st))"
proof -
  let ?drv = "driverOf px"
  let ?m = "bindE (bindE (timeNow ?drv) (\<lambda>now. ReconciliationCandidates ?drv [ATime now, AInt 100])) (\<lambda>candidates.
             bindE (ListJobs ?drv [AFilter (noFilter\<lparr>fState := StateMapped\<rparr>)]) (\<lambda>mapped.
             bindE (if statistics then bindE (timeNow ?drv) (\<lambda>now. ListJobs ?drv [AFilter (recentlyCanceled (now - 600000000000))]) else ret []) (\<lambda>canceled.
             ret (candidates @ mapped @ canceled))))"
  have "permitted (\<lambda>_. True) ?m" by (intro permitted_readonly effect_rules lookups_readonly)
  then have "moved st st1" if "onStore ?m st = (r, st1)" for r st1
    using that by (rule moved_onStore)
  then show ?thesis
    unfolding reconcileUncertainJobs_def Let_def
    by (auto split: sum.split prod.split intro: good_step_trans [OF _ moved_fold [OF moved_reconcileQueue]])
qed

lemma moved_maintenance: "moved st (runMaintenance px order statistics retention st)"
  unfolding runMaintenance_def
  by (rule good_step_trans [OF moved_ignoring moved_reconcile]) (intro effects_timeNow CleanupExpired_permitted)

subsection \<open>The service as a state machine\<close>

text \<open>One request, or one round of maintenance; the handlers of different requests are taken one after the other.\<close>

inductive service_step :: "proxy \<Rightarrow> 'e host \<Rightarrow> svc \<Rightarrow> svc \<Rightarrow> bool" for px :: proxy and host :: "'e host" where
  validate: "handleValidateJob px q printer req st = (res, st') \<Longrightarrow> service_step px host st st'"
| print: "handlePrintJob px quoted q printer req b st = Some (res, st') \<Longrightarrow> bodyHost b = host \<Longrightarrow> service_step px host st st'"
| create: "handleCreateJob px q printer req st = (res, st') \<Longrightarrow> service_step px host st st'"
| send: "handleSendDocument px q printer req b hasPayload st = Some (res, st') \<Longrightarrow> bodyHost b = host \<Longrightarrow> service_step px host st st'"
| mapped: "handleMappedJobOperation px q printer req st = (res, st') \<Longrightarrow> service_step px host st st'"
| forward: "forwardPrinterOperation px printer req st = (res, st') \<Longrightarrow> service_step px host st st'"
| getJobs: "handleGetJobs px q printer req st = (res, st') \<Longrightarrow> service_step px host st st'"
| cancel: "handleCancelMyJobs px q printer req st = (res, st') \<Longrightarrow> service_step px host st st'"
| maintain: "runMaintenance px order statistics retention st = st' \<Longrightarrow> service_step px host st st'"

lemma service_step_moved:
  assumes "\<And>n. clock (driverOf px) n \<noteq> 0" "service_step px host st st'"
  shows "moved st st'"
  using assms(2)
proof cases
  case (print quoted q printer req b res)
  then show ?thesis using moved_print [OF assms(1)] by blast
next
  case (send q printer req b hasPayload res)
  then show ?thesis using moved_send by blast
next
  case (create q printer req res)
  then show ?thesis using moved_create [OF assms(1)] by (metis snd_conv)
qed (metis moved_validate moved_mapped moved_forward moved_getJobs moved_cancel moved_maintenance snd_conv)+

definition clocked :: "proxy \<Rightarrow> bool" where
  "clocked px \<longleftrightarrow> (\<forall>n. clock (driverOf px) n \<noteq> 0)"

interpretation svc: evolving "\<lambda>st st'. clocked px \<and> service_step px host st st'" "\<lambda>st. jobs_of st" for px :: proxy and host :: "'e host"
  by unfold_locales (auto simp: clocked_def intro: service_step_moved)

lemma service_reaches:
  fixes host :: "'e host"
  assumes "rtranclp (service_step px host) st st'" "clocked px"
  shows "svc.reaches TYPE('e) px host st st'"
  using assms(1)
proof (induction rule: rtranclp_induct)
  case base
  show ?case by (rule svc.now)
next
  case (step st1 st2)
  show ?case by (rule svc.later [OF step.IH]) (simp add: assms(2) step.hyps(2))
qed

end
