(* ===== verification/Proxy_Accounts.thy ===== *)
theory Proxy_Accounts
  imports Proxy_Lifecycle
begin

text \<open>
  What the registry knows about a job once Print-Job or Create-Job has answered, when the database
  works: the answer of the printer decides the state of the job.
\<close>

subsection \<open>Reservations\<close>

lemma mapping_keys_append: "mapping_keys (rs @ rs') = mapping_keys rs @ mapping_keys rs'"
  by (simp add: mapping_keys_def List.map_filter_def)

lemma Reserve_calm:
  assumes "\<And>n. fault drv n = None" "db_ok (db w)"
  obtains r w1 where "Reserve drv [AJob job] w = (Inr (seq (db w) + 1), w1)" "rows (db w1) = rows (db w) @ [r]"
    "proxy_job_id r = seq (db w) + 1" "queue r = Queue job" "requesting_user r = RequestingUser job"
    "state r = StateReserved" "upstream_job_id r = None" "upstream_job_uri r = None"
proof -
  let ?job = "withDefaults (clock drv (tick w)) (normalizeRoute (reservation job))"
  let ?r = "(rowOfJob ?job)\<lparr>proxy_job_id := seq (db w) + 1\<rparr>"
  have r: "queue ?r = Queue job" "requesting_user ?r = RequestingUser job" "state ?r = StateReserved"
    "upstream_job_id ?r = None" "upstream_job_uri ?r = None"
    by (simp_all add: rowOfJob_def withDefaults_def normalizeRoute_def reservation_def Let_def nullableUpstreamID_def
        nullableUpstreamURI_def)
  have "mapping_keys [?r] = []" using r(4) by (simp add: mapping_keys_def map_filter_simps)
  then have "index_ok (rows (db w) @ [?r])" using assms(2) by (simp add: db_ok_def index_ok_def mapping_keys_append)
  then have "Reserve drv [AJob job] w =
      (Inr (seq (db w) + 1), w\<lparr>db := (db w)\<lparr>rows := rows (db w) @ [?r], seq := seq (db w) + 1\<rparr>, tick := Suc (Suc (tick w))\<rparr>)"
    by (simp add: Reserve_def parseReservationArgs_def CreateJob_def call_defs assms(1) sql_insert_def Let_def)
  from that [OF this _ _ r] show thesis by simp
qed

subsection \<open>The answer of the printer\<close>

text \<open>The upstream identifiers that jobs of the queue have, and the state the answer gives to a job.\<close>

definition taken :: "string \<Rightarrow> database \<Rightarrow> int \<Rightarrow> bool" where
  "taken q d uid \<longleftrightarrow> (\<exists>r \<in> set (rows d). queue r = q \<and> upstream_job_id r = Some uid)"

definition accounted :: "(int \<Rightarrow> bool) \<Rightarrow> string + response \<Rightarrow> row \<Rightarrow> bool" where
  "accounted used answer r \<longleftrightarrow>
     (case answer of
        Inl e \<Rightarrow> state r = StateUncertain \<and> observed_error r = e
      | Inr a \<Rightarrow>
          if \<not> ippSuccess a then state r = StateTerminal
          else (case FirstInt (respJob a) ''job-id'' of
            Some uid \<Rightarrow> if uid > 0 \<and> \<not> used uid then state r = StateMapped \<and> upstream_job_id r = Some uid else state r = StateUncertain
          | None \<Rightarrow> state r = StateUncertain))"

text \<open>A row of the table that belongs to the submission.\<close>

definition submitted :: "database \<Rightarrow> int \<Rightarrow> string \<Rightarrow> string \<Rightarrow> row \<Rightarrow> bool" where
  "submitted d pid q user r \<longleftrightarrow> r \<in> set (rows d) \<and> proxy_job_id r = pid \<and> queue r = q \<and> requesting_user r = user"

text \<open>One call of the registry that replaces the row of the submission.\<close>

lemma submitted_updated:
  assumes "submitted d pid q user r" "rows d' = updated d r g" "keeps_keys g" "\<And>x. requesting_user (g x) = requesting_user x"
  shows "submitted d' pid q user (g r)"
  using assms by (auto simp: submitted_def keeps_keys_def updated_in)

lemma uncertain_row:
  assumes "\<And>n. fault (driverOf px) n = None" "db_ok (jobs_of st)" "submitted (jobs_of st) pid q user r" "\<not> IsTerminalState (state r)"
  shows "\<exists>r'. submitted (jobs_of (markUncertain px q pid why st)) pid q user r' \<and> state r' = StateUncertain \<and> observed_error r' = why"
proof -
  obtain at where "MarkUncertain (driverOf px) [AString q, AInt pid, AString why] (svcStore st) =
      (Inr (), (svcStore st)\<lparr>db := (jobs_of st)\<lparr>rows := updated (jobs_of st) r (setUncertain why at)\<rparr>, tick := tick (svcStore st) + 5\<rparr>)"
    using MarkUncertain_calm [OF assms(1,2), of r pid q why] assms(3,4) by (auto simp: submitted_def)
  then have "rows (jobs_of (markUncertain px q pid why st)) = updated (jobs_of st) r (setUncertain why at)"
    by (simp add: markUncertain_def ignoring_def onStore_def)
  from submitted_updated [OF assms(3) this] show ?thesis by (auto simp: setUncertain_def)
qed

lemma failed_row:
  assumes "\<And>n. fault (driverOf px) n = None" "db_ok (jobs_of st)" "submitted (jobs_of st) pid q user r"
  shows "\<exists>r'. submitted (jobs_of (ignoring (MarkTerminal (driverOf px) [AString q, AInt pid, AString s, AString ob, AString err]) st)) pid q user r'
    \<and> state r' = StateTerminal"
proof -
  obtain obs at where "MarkTerminal (driverOf px) [AString q, AInt pid, AString s, AString ob, AString err] (svcStore st) =
      (Inr (), (svcStore st)\<lparr>db := (jobs_of st)\<lparr>rows := updated (jobs_of st) r (setTerminal obs err at)\<rparr>, tick := tick (svcStore st) + 2\<rparr>)"
    using MarkTerminal_calm [OF assms(1,2), of r pid q s ob err] assms(3) by (auto simp: submitted_def)
  then have "rows (jobs_of (ignoring (MarkTerminal (driverOf px) [AString q, AInt pid, AString s, AString ob, AString err]) st))
      = updated (jobs_of st) r (setTerminal obs err at)"
    by (simp add: ignoring_def onStore_def)
  from submitted_updated [OF assms(3) this] show ?thesis by (auto simp: setTerminal_def)
qed

lemma document_row:
  assumes "\<And>n. fault (driverOf px) n = None" "db_ok (jobs_of st)" "submitted (jobs_of st) pid q user r"
  shows "\<exists>r'. submitted (jobs_of (storeMetadata px q pid format meta lst st)) pid q user r'
    \<and> state r' = state r \<and> upstream_job_id r' = upstream_job_id r \<and> observed_error r' = observed_error r"
proof -
  obtain at where "UpdatePayloadMetadataWithLastDocument (driverOf px) q pid format (mdBytes meta) (mdPageCount meta) (mdCopies meta)
      (mdImpressions meta) lst (svcStore st) = (Inr (), (svcStore st)\<lparr>db := (jobs_of st)\<lparr>rows := updated (jobs_of st) r
        (addDocument format (mdBytes meta) (mdPageCount meta) (orElse (mdCopies meta) 1) (mdImpressions meta) lst at)\<rparr>,
        tick := tick (svcStore st) + 2\<rparr>)"
    using UpdatePayload_calm [OF assms(1,2), of r pid q] assms(3) by (fastforce simp: submitted_def)
  then have "rows (jobs_of (storeMetadata px q pid format meta lst st)) = updated (jobs_of st) r
      (addDocument format (mdBytes meta) (mdPageCount meta) (orElse (mdCopies meta) 1) (mdImpressions meta) lst at)"
    by (simp add: storeMetadata_def onStore_def)
  from submitted_updated [OF assms(3) this] show ?thesis by (auto simp: addDocument_def)
qed

text \<open>A row that was reserved and has no upstream identity yet.\<close>

definition unmapped :: "row \<Rightarrow> bool" where
  "unmapped r \<longleftrightarrow> \<not> IsTerminalState (state r) \<and> upstream_job_id r = None \<and> upstream_job_uri r = None"

lemma conflicting_taken:
  assumes "unmapped r" "queue r = q" "uid > 0"
  shows "conflicting d r uid uri \<longleftrightarrow> taken q d uid"
proof -
  have "x \<noteq> r" if "upstream_job_id x = Some uid" for x using that assms(1) by (auto simp: unmapped_def)
  then show ?thesis using assms by (auto simp: conflicting_def taken_def unmapped_def)
qed

lemma mapped_row:
  assumes "\<And>n. fault (driverOf px) n = None" "db_ok (jobs_of st)" "submitted (jobs_of st) pid q user r" "unmapped r"
    and ok: "ippSuccess a"
  shows "\<exists>r'. submitted (jobs_of (recordMapping px q pid a why st)) pid q user r'
    \<and> accounted (taken q (jobs_of st)) (Inr a) r'"
proof -
  let ?uid = "case FirstInt (respJob a) ''job-id'' of Some i \<Rightarrow> i | None \<Rightarrow> 0"
  let ?uri = "case FirstString (sprintOf px) (respJob a) ''job-uri'' of Some s \<Rightarrow> s | None \<Rightarrow> []"
  have r: "r \<in> set (rows (jobs_of st))" "proxy_job_id r = pid" "queue r = q" "\<not> IsTerminalState (state r)"
    using assms(3,4) by (simp_all add: submitted_def unmapped_def)
  obtain res w' where m: "MarkMapped (driverOf px) [AString q, AInt pid, AInt ?uid, AString ?uri] (svcStore st) = (res, w')"
    by (cases "MarkMapped (driverOf px) [AString q, AInt pid, AInt ?uid, AString ?uri] (svcStore st)")
  note out = mapping_outcome [OF assms(1,2) r, of ?uid ?uri, unfolded m prod.case]
  consider (none) "\<not> ?uid > 0" | (conflict) "?uid > 0" "taken q (jobs_of st) ?uid" | (free) "?uid > 0" "\<not> taken q (jobs_of st) ?uid"
    by blast
  then show ?thesis
  proof cases
    case none
    have "recordMapping px q pid a why st = markUncertain px q pid why st" using none by (simp add: recordMapping_def)
    moreover have "\<exists>r'. submitted (jobs_of (markUncertain px q pid why st)) pid q user r' \<and> state r' = StateUncertain \<and> observed_error r' = why"
      by (rule uncertain_row [OF assms(1-3) r(4)])
    ultimately show ?thesis using none by (auto simp: accounted_def ok split: option.splits)
  next
    case conflict
    then have "res = Inl ErrMappingConflict" "db w' = jobs_of st"
      using out conflicting_taken [OF assms(4) r(3) conflict(1)] by auto
    then have rec: "recordMapping px q pid a why st = markUncertain px q pid (errorText px ErrMappingConflict) (st\<lparr>svcStore := w'\<rparr>)"
      and same: "jobs_of (st\<lparr>svcStore := w'\<rparr>) = jobs_of st"
      using conflict(1) m by (simp_all add: recordMapping_def onStore_def)
    from uncertain_row [OF assms(1), of "st\<lparr>svcStore := w'\<rparr>" pid q user r, unfolded same, OF assms(2,3) r(4)]
    show ?thesis unfolding rec using conflict by (fastforce simp: accounted_def ok split: option.splits)
  next
    case free
    then obtain now where w': "res = Inr ()" "rows (db w') = updated (jobs_of st) r (setMapped ?uid ?uri now)"
      using out conflicting_taken [OF assms(4) r(3) free(1)] by (auto simp: updated_def)
    then have rows: "rows (jobs_of (recordMapping px q pid a why st)) = updated (jobs_of st) r (setMapped ?uid ?uri now)"
      using free(1) m by (simp add: recordMapping_def onStore_def)
    have "submitted (jobs_of (recordMapping px q pid a why st)) pid q user (setMapped ?uid ?uri now r)"
      unfolding submitted_def rows
      by (intro conjI updated_in r(1)) (use assms(3) in \<open>simp_all add: setMapped_def submitted_def\<close>)
    moreover have "accounted (taken q (jobs_of st)) (Inr a) (setMapped ?uid ?uri now r)"
      using free by (auto simp: accounted_def ok setMapped_def nullableIntValue_def split: option.splits)
    ultimately show ?thesis by blast
  qed
qed

subsection \<open>Submissions\<close>

lemma normalized_answer [simp]:
  "respJob (applyNormalizationResult a result) = respJob a"
  "ippSuccess (applyNormalizationResult a result) = ippSuccess a"
  "accounted used (Inr (applyNormalizationResult a result)) = accounted used (Inr a)"
  by (auto simp: applyNormalizationResult_def accounted_def ippSuccess_def fun_eq_iff split: status.splits option.splits)

lemma finished_row:
  assumes "\<And>n. fault (driverOf px) n = None" "db_ok (jobs_of st)" "submitted (jobs_of st) pid q user r" "unmapped r"
  shows "\<exists>r'. submitted (jobs_of (snd (finishCreate px q pid result (answer, st)))) pid q user r' \<and> accounted (taken q (jobs_of st)) answer r'"
    and "\<exists>r'. submitted (jobs_of (snd (finishPrint px q pid format result meta (answer, st)))) pid q user r'
      \<and> accounted (taken q (jobs_of st)) answer r'"
proof -
  have active: "\<not> IsTerminalState (state r)" using assms(4) by (simp add: unmapped_def)
  note unc = uncertain_row [OF assms(1-3) active] and fail = failed_row [OF assms(1-3)]
  show "\<exists>r'. submitted (jobs_of (snd (finishCreate px q pid result (answer, st)))) pid q user r' \<and> accounted (taken q (jobs_of st)) answer r'"
  proof (cases answer)
    case (Inl e)
    then show ?thesis using unc [of e] by (auto simp: finishCreate_def accounted_def)
  next
    case (Inr a)
    show ?thesis
    proof (cases "ippSuccess a")
      case True
      then show ?thesis
        using Inr mapped_row [OF assms, of "applyNormalizationResult a result"] by (simp add: finishCreate_def Let_def)
    next
      case False
      then show ?thesis using Inr fail by (auto simp: finishCreate_def accounted_def markFailed_def)
    qed
  qed
  show "\<exists>r'. submitted (jobs_of (snd (finishPrint px q pid format result meta (answer, st)))) pid q user r'
      \<and> accounted (taken q (jobs_of st)) answer r'"
  proof (cases answer)
    case (Inl e)
    then show ?thesis using unc [of e] by (auto simp: finishPrint_def accounted_def)
  next
    case (Inr a)
    show ?thesis
    proof (cases "ippSuccess a")
      case True
      let ?a = "applyNormalizationResult a result" and ?why = "''upstream accepted job without job-id''"
      let ?st = "recordMapping px q pid ?a ?why st"
      from True mapped_row [OF assms, of ?a ?why] obtain r' where
        r': "submitted (jobs_of ?st) pid q user r'" "accounted (taken q (jobs_of st)) (Inr a)  r'" by auto
      have "db_ok (jobs_of ?st)" using moved_recordMapping assms(2) by (auto simp: good_step_def)
      from document_row [OF assms(1) this r'(1), of format meta True] r'(2) show ?thesis
        using True Inr by (fastforce simp: finishPrint_def Let_def accounted_def split: option.splits)
    next
      case False
      then show ?thesis using Inr fail by (auto simp: finishPrint_def accounted_def markFailed_def)
    qed
  qed
qed

lemma jobForRoute_fields [simp]:
  "Queue (jobForRoute q user name format route n) = q" "RequestingUser (jobForRoute q user name format route n) = user"
  by (simp_all add: jobForRoute_def)

lemma sent_store [simp]:
  "sent (ignoring p st) = sent st" "sent (markUncertain px q pid why st) = sent st" "sent (markFailed px q pid a st) = sent st"
  "sent (recordTranslationError q e st) = sent st"
  by (simp_all add: ignoring_def onStore_def markUncertain_def markFailed_def recordTranslationError_def split: prod.split)

lemma sent_onStore: "onStore p st = (r, st') \<Longrightarrow> sent st' = sent st"
  by (auto simp: onStore_def split: prod.splits)

lemma sent_mapping [simp]:
  "sent (recordMapping px q pid a why st) = sent st" "sent (storeMetadata px q pid format meta lst st) = sent st"
  by (auto simp: recordMapping_def storeMetadata_def Let_def split: prod.split sum.split dest!: sent_onStore)

lemma sent_finish [simp]:
  "sent (snd (finishCreate px q pid result (answer, st))) = sent st"
  "sent (snd (finishPrint px q pid format result meta (answer, st))) = sent st"
  by (auto simp: finishCreate_def finishPrint_def Let_def split: sum.split)

lemma reserved_row:
  assumes "\<And>n. fault (driverOf px) n = None" "\<And>n. clock (driverOf px) n \<noteq> 0" "db_ok (jobs_of st)"
  obtains r st1 where "onStore (Reserve (driverOf px) [AJob (jobForRoute q user name format route n)]) st = (Inr (seq (jobs_of st) + 1), st1)"
    "sent st1 = sent st" "db_ok (jobs_of st1)" "rows (jobs_of st1) = rows (jobs_of st) @ [r]"
    "submitted (jobs_of st1) (seq (jobs_of st) + 1) q user r" "unmapped r" "taken q (jobs_of st1) = taken q (jobs_of st)"
proof -
  let ?job = "jobForRoute q user name format route n"
  from Reserve_calm [OF assms(1,3), of ?job] obtain r w1 where r: "Reserve (driverOf px) [AJob ?job] (svcStore st) = (Inr (seq (jobs_of st) + 1), w1)"
    "rows (db w1) = rows (jobs_of st) @ [r]" "proxy_job_id r = seq (jobs_of st) + 1" "queue r = q" "requesting_user r = user"
    "state r = StateReserved" "upstream_job_id r = None" "upstream_job_uri r = None"
    by (metis (no_types, lifting) jobForRoute_fields)
  show thesis
  proof (rule that [of "st\<lparr>svcStore := w1\<rparr>" r])
    show on: "onStore (Reserve (driverOf px) [AJob ?job]) st = (Inr (seq (jobs_of st) + 1), st\<lparr>svcStore := w1\<rparr>)"
      by (simp add: onStore_def r(1))
    show "db_ok (jobs_of (st\<lparr>svcStore := w1\<rparr>))"
      using moved_onStore [OF Reserve_permitted [OF assms(2)] on] assms(3) by (simp add: good_step_def)
    show "taken q (jobs_of (st\<lparr>svcStore := w1\<rparr>)) = taken q (jobs_of st)"
      using r(2,7) by (auto simp: taken_def fun_eq_iff)
  qed (use r in \<open>simp_all add: submitted_def unmapped_def\<close>)
qed

lemma submitted_accounted:
  assumes "\<And>n. fault (driverOf px) n = None" "db_ok (jobs_of st1)" "submitted (jobs_of st1) pid q user r" "unmapped r" "sent st1 = sent st"
    and "finishCreate px q pid result (upstreamCall px m st1) = (res, st')
      \<or> finishPrint px q pid format result meta (upstreamCall px m st1) = (res, st')"
  shows "sent st' = sent st @ [m] \<and> (\<exists>r'. submitted (jobs_of st') pid q user r' \<and> accounted (taken q (jobs_of st1)) (upstreamDo px (sent st) m) r')"
proof -
  let ?st = "st1\<lparr>sent := sent st @ [m]\<rparr>"
  have st': "st' = snd (finishCreate px q pid result (upstreamDo px (sent st) m, ?st))
      \<or> st' = snd (finishPrint px q pid format result meta (upstreamDo px (sent st) m, ?st))"
    using assms(6) by (auto simp: upstreamCall_def assms(5))
  then have "sent st' = sent st @ [m]" by auto
  moreover have "\<exists>r'. submitted (jobs_of st') pid q user r' \<and> accounted (taken q (jobs_of st1)) (upstreamDo px (sent st) m) r'"
    using st' finished_row [of px ?st pid q user r] assms(1-4) by auto
  ultimately show ?thesis ..
qed

text \<open>
  Nothing was sent and no job is left open, or one request was sent and the registry has the job,
  in the state the answer gives it.
\<close>

definition job_recorded :: "proxy \<Rightarrow> string \<Rightarrow> string \<Rightarrow> svc \<Rightarrow> svc \<Rightarrow> bool" where
  "job_recorded px q user st st' \<longleftrightarrow>
     sent st' = sent st \<and> (\<forall>r \<in> set (rows (jobs_of st')). r \<in> set (rows (jobs_of st)) \<or> state r = StateTerminal)
     \<or> (\<exists>m r. sent st' = sent st @ [m] \<and> r \<in> set (rows (jobs_of st')) \<and> proxy_job_id r = seq (jobs_of st) + 1 \<and> queue r = q
          \<and> requesting_user r = user \<and> accounted (taken q (jobs_of st)) (upstreamDo px (sent st) m) r)"

lemma job_recorded_refused: "sent st' = sent st \<Longrightarrow> jobs_of st' = jobs_of st \<Longrightarrow> job_recorded px q user st st'"
  by (simp add: job_recorded_def)

lemma job_recorded_sent:
  assumes "sent st' = sent st @ [m] \<and> (\<exists>r'. submitted (jobs_of st') (seq (jobs_of st) + 1) q user r'
      \<and> accounted (taken q (jobs_of st)) (upstreamDo px (sent st) m) r')"
  shows "job_recorded px q user st st'"
  using assms by (auto simp: job_recorded_def submitted_def)

lemma submitPrint_recorded:
  assumes "\<And>n. fault (driverOf px) n = None" "\<And>n. clock (driverOf px) n \<noteq> 0" "db_ok (jobs_of st)"
    and "submitPrint px q printer req b format route result doc st = (res, st')"
  shows "job_recorded px q (operationString px req ''requesting-user-name'') st st'"
proof -
  let ?user = "operationString px req ''requesting-user-name''" and ?pid = "seq (jobs_of st) + 1"
  let ?n = "copiesFromAttrs (resAttrs result)" and ?m = "upstreamRequest printer route result req"
  obtain r st1 where r: "onStore (Reserve (driverOf px) [AJob (jobForRoute q ?user (operationString px req ''job-name'') format route ?n)]) st
      = (Inr ?pid, st1)" "sent st1 = sent st" "db_ok (jobs_of st1)" "rows (jobs_of st1) = rows (jobs_of st) @ [r]"
    "submitted (jobs_of st1) ?pid q ?user r" "unmapped r" "taken q (jobs_of st1) = taken q (jobs_of st)"
    by (rule reserved_row [OF assms(1-3)])
  have sent: ?thesis if "finishPrint px q ?pid format result meta (upstreamCall px ?m st1) = (res, st')" for meta
    using submitted_accounted [OF assms(1) r(3,5,6,2) disjI2 [OF that]] unfolding r(7) by (blast intro: job_recorded_sent)
  show ?thesis
  proof (cases "doc = None \<and> bodyRecorder b \<noteq> None")
    case True
    then obtain err where err: "doc = None" "bodyRecorder b = Some err" by auto
    let ?st = "recordTranslationError q err st1"
    from assms(4) have st': "st' = ignoring (MarkTerminal (driverOf px) [AString q, AInt ?pid, AString StateFailed, AString [], AString err]) ?st"
      by (simp add: submitPrint_def Let_def r(1) err)
    from MarkTerminal_calm [OF assms(1) r(3), of r ?pid q StateFailed "[]" err] r(5) obtain obs at where
      "rows (jobs_of st') = updated (jobs_of st1) r (setTerminal obs err at)"
      by (fastforce simp: st' submitted_def ignoring_def onStore_def)
    then have "x \<in> set (rows (jobs_of st)) \<or> state x = StateTerminal" if "x \<in> set (rows (jobs_of st'))" for x
      using that by (auto simp: updated_def r(4) setTerminal_def split: if_splits)
    then show ?thesis by (simp add: job_recorded_def st' r(2))
  next
    case False
    then show ?thesis
      using assms(4) sent by (cases doc) (auto simp: submitPrint_def Let_def r(1))
  qed
qed

lemma handlePrintJob_recorded:
  assumes "\<And>n. fault (driverOf px) n = None" "\<And>n. clock (driverOf px) n \<noteq> 0" "db_ok (jobs_of st)"
    and "handlePrintJob px quoted q printer req b st = Some (res, st')"
  shows "job_recorded px q (operationString px req ''requesting-user-name'') st st'"
  using assms(4)
  by (auto simp: handlePrintJob_def Let_def job_recorded_refused split: option.splits sum.splits
      intro: submitPrint_recorded [OF assms(1-3)])

lemma handleCreateJob_recorded:
  assumes "\<And>n. fault (driverOf px) n = None" "\<And>n. clock (driverOf px) n \<noteq> 0" "db_ok (jobs_of st)"
    and "handleCreateJob px q printer req st = (res, st')"
  shows "job_recorded px q (operationString px req ''requesting-user-name'') st st'"
proof (cases "sent st' = sent st \<and> jobs_of st' = jobs_of st")
  case False
  let ?user = "operationString px req ''requesting-user-name''" and ?given = "operationString px req ''document-format''"
  from False assms(4) obtain result route0 where n: "normalizeJobRequest px q printer req = Inr result" "requestRoute px q ?given req = Inr route0"
    by (auto simp: handleCreateJob_def Let_def split: sum.splits)
  define route where "route = route0\<lparr>routePage := routePageSettings (sprintOf px) route0 (resAttrs result) (upstreamCapabilities px q)\<rparr>"
  define format where "format = (if TrimSpace ?given = [] then ClientFormat route0 else ?given)"
  obtain r st1 where r: "onStore (Reserve (driverOf px) [AJob (jobForRoute q ?user (operationString px req ''job-name'') format route
      (copiesFromAttrs (resAttrs result)))]) st = (Inr (seq (jobs_of st) + 1), st1)" "sent st1 = sent st" "db_ok (jobs_of st1)"
    "rows (jobs_of st1) = rows (jobs_of st) @ [r]"
    "submitted (jobs_of st1) (seq (jobs_of st) + 1) q ?user r" "unmapped r" "taken q (jobs_of st1) = taken q (jobs_of st)"
    by (rule reserved_row [OF assms(1-3)])
  have "finishCreate px q (seq (jobs_of st) + 1) result (upstreamCall px (upstreamRequest printer route result req) st1) = (res, st')"
    using assms(4) by (simp add: handleCreateJob_def n Let_def r(1) flip: route_def format_def)
  from submitted_accounted [OF assms(1) r(3,5,6,2) disjI1 [OF this]] show ?thesis
    unfolding r(7) by (blast intro: job_recorded_sent)
qed (simp add: job_recorded_refused)

end
