(* ===== verification/Proxy_Contract.thy ===== *)
theory Proxy_Contract
  imports Proxy_Accounts Go_Text
begin

text \<open>
  The promises of the IPP service: clients see the identity of the proxy's job and the printer sees its own, operations
  reach the printer for mapped jobs only, every submission is accounted for, and the job table keeps
  its invariant.
\<close>

declare ToLower.simps [simp del] FoldCase.simps [simp del]

subsection \<open>Attributes\<close>

lemma set_SetAttr: "set (SetAttr attrs b) = insert b {a \<in> set attrs. \<not> EqualFold (attrName a) (attrName b)}"
  by (simp add: SetAttr_def set_setLoop)

lemma Attr_SetAttr: "Attr (SetAttr attrs b) n = (if EqualFold (attrName b) n then Some b else Attr attrs n)"
  by (simp add: SetAttr_def Attr_setLoop)

lemma attrName_constructors [simp]:
  "attrName (IntegerAttr n i) = n" "attrName (URI n u) = n" "attrName (Keyword n k) = n" "attrName (Name n u) = n"
  by (simp_all add: IntegerAttr_def URI_def Keyword_def Name_def)

lemma identity_names:
  "EqualFold ''job-id'' ''job-id''" "\<not> EqualFold ''job-uri'' ''job-id''" "\<not> EqualFold ''job-printer-uri'' ''job-id''"
  "\<not> EqualFold ''job-state'' ''job-id''" "\<not> EqualFold ''job-state-reasons'' ''job-id''"
  "EqualFold ''job-uri'' ''job-uri''" "\<not> EqualFold ''job-id'' ''job-uri''" "\<not> EqualFold ''job-printer-uri'' ''job-uri''"
  "\<not> EqualFold ''job-state'' ''job-uri''" "\<not> EqualFold ''job-state-reasons'' ''job-uri''"
  "EqualFold ''job-printer-uri'' ''job-printer-uri''" "\<not> EqualFold ''job-id'' ''job-printer-uri''" "\<not> EqualFold ''job-uri'' ''job-printer-uri''"
  "\<not> EqualFold ''job-state'' ''job-printer-uri''" "\<not> EqualFold ''job-state-reasons'' ''job-printer-uri''"
  "\<not> EqualFold ''job-id'' ''job-state''" "\<not> EqualFold ''job-uri'' ''job-state''" "\<not> EqualFold ''job-printer-uri'' ''job-state''"
  "\<not> EqualFold ''job-id'' ''job-state-reasons''" "\<not> EqualFold ''job-uri'' ''job-state-reasons''"
  "\<not> EqualFold ''job-printer-uri'' ''job-state-reasons''"
  by code_simp+

lemma clock_names:
  "ToLower ` set jobClocks = set jobClocks" "ToLower ''job-id'' \<notin> set jobClocks" "ToLower ''job-uri'' \<notin> set jobClocks"
  "ToLower ''job-printer-uri'' \<notin> set jobClocks"
  by code_simp+

text \<open>The attributes with a name, up to case.\<close>

definition named :: "attribute list \<Rightarrow> string \<Rightarrow> attribute set" where
  "named attrs n = {a \<in> set attrs. EqualFold (attrName a) n}"

lemma named_SetAttr:
  "EqualFold (attrName b) n \<Longrightarrow> named (SetAttr attrs b) n = {b}"
  "\<not> EqualFold (attrName b) n \<Longrightarrow> named (SetAttr attrs b) n = named attrs n"
  by (auto simp: named_def set_SetAttr EqualFold_def)

lemma named_DropAttrs:
  "(\<And>a. a \<in> named attrs n \<Longrightarrow> ToLower (attrName a) \<notin> ToLower ` set names) \<Longrightarrow> named (DropAttrs attrs names) n = named attrs n"
  by (auto simp: named_def DropAttrs_def)

text \<open>The attributes of a job that do not identify it, say how far it is, or tell the time of the printer.\<close>

definition describing :: "attribute \<Rightarrow> bool" where
  "describing a \<longleftrightarrow> ToLower (attrName a) \<notin> set jobClocks \<and>
     (\<forall>n \<in> {''job-id'', ''job-uri'', ''job-printer-uri'', ''job-state'', ''job-state-reasons''}. \<not> EqualFold (attrName a) n)"

lemma rewritten_identity:
  "named (rewriteJobAttrs attrs pid uri) ''job-id'' = {IntegerAttr ''job-id'' pid}
   \<and> named (rewriteJobAttrs attrs pid uri) ''job-uri'' = {URI ''job-uri'' (proxyJobURI uri pid)}
   \<and> named (rewriteJobAttrs attrs pid uri) ''job-printer-uri'' = {URI ''job-printer-uri'' uri}
   \<and> {a \<in> set (rewriteJobAttrs attrs pid uri). ToLower (attrName a) \<in> set jobClocks} = {}
   \<and> {a \<in> set attrs. describing a} \<subseteq> set (rewriteJobAttrs attrs pid uri)"
proof -
  define as where "as = SetAttr (SetAttr (SetAttr attrs (IntegerAttr ''job-id'' pid)) (URI ''job-uri'' (proxyJobURI uri pid)))
    (URI ''job-printer-uri'' uri)"
  define as' where "as' = (if (case Attr as ''job-state'' of Some a \<Rightarrow> validJobStateAttribute a | None \<Rightarrow> False) then as
    else SetAttr as (Attribute ''job-state'' [(TagEnum, Integer 3)]))"
  define bs where "bs = (if (case Attr as' ''job-state-reasons'' of Some a \<Rightarrow> validJobStateReasonsAttribute a | None \<Rightarrow> False) then as'
    else SetAttr as' (Keyword ''job-state-reasons'' ''none''))"
  have rw: "rewriteJobAttrs attrs pid uri = DropAttrs bs jobClocks"
    by (simp add: rewriteJobAttrs_def Let_def bs_def as'_def as_def)
  have as: "named as ''job-id'' = {IntegerAttr ''job-id'' pid}" "named as ''job-uri'' = {URI ''job-uri'' (proxyJobURI uri pid)}"
    "named as ''job-printer-uri'' = {URI ''job-printer-uri'' uri}"
    by (simp_all add: as_def named_SetAttr identity_names)
  then have bs: "named bs ''job-id'' = {IntegerAttr ''job-id'' pid}" "named bs ''job-uri'' = {URI ''job-uri'' (proxyJobURI uri pid)}"
    "named bs ''job-printer-uri'' = {URI ''job-printer-uri'' uri}"
    by (simp_all add: bs_def as'_def named_SetAttr identity_names)
  have "describing a \<Longrightarrow> a \<in> set attrs \<Longrightarrow> a \<in> set (DropAttrs bs jobClocks)" for a
    by (simp add: describing_def DropAttrs_def clock_names bs_def as'_def as_def set_SetAttr)
  moreover have "{a \<in> set (DropAttrs bs jobClocks). ToLower (attrName a) \<in> set jobClocks} = {}"
    by (auto simp: DropAttrs_def clock_names)
  moreover have "named (DropAttrs bs jobClocks) ''job-id'' = named bs ''job-id''" "named (DropAttrs bs jobClocks) ''job-uri'' = named bs ''job-uri''"
    "named (DropAttrs bs jobClocks) ''job-printer-uri'' = named bs ''job-printer-uri''"
    by (rule named_DropAttrs, simp add: bs clock_names)+
  ultimately show ?thesis unfolding rw bs by blast
qed


subsection \<open>Requests to the printer\<close>

lemma Attr_filter: "(\<And>a. a \<in> named attrs n \<Longrightarrow> P a) \<Longrightarrow> Attr (filter P attrs) n = Attr attrs n"
  by (induction attrs) (auto simp: named_def)

lemma Attr_targets:
  "Attr (concat (map (\<lambda>m. case Attr attrs m of Some a \<Rightarrow> [a] | None \<Rightarrow> []) names)) n =
     (if \<exists>m \<in> set names. EqualFold m n then Attr attrs n else None)"
proof (induction names)
  case (Cons m names)
  show ?case
  proof (cases "Attr attrs m")
    case None
    then have "Attr attrs n = None" if "EqualFold m n" using Attr_cong [OF that] by metis
    with Cons None show ?thesis by auto
  next
    case (Some a)
    then have "EqualFold (attrName a) n \<longleftrightarrow> EqualFold m n" using Attr_name [OF Some] by (auto simp: EqualFold_def)
    moreover have "Attr attrs n = Some a" if "EqualFold m n" using Attr_cong [OF that] Some by metis
    ultimately show ?thesis using Cons Some by auto
  qed
qed simp

lemma Attr_order:
  assumes "\<exists>m \<in> set targetNames. EqualFold m n"
  shows "Attr (orderOperationTargets attrs) n = Attr attrs n"
proof (cases "Attr attrs n")
  case None
  then have "Attr (filter P attrs) n = None" for P by (simp add: Attr_None)
  then show ?thesis using None by (simp add: orderOperationTargets_def Attr_append Attr_targets)
qed (simp add: orderOperationTargets_def Attr_append Attr_targets assms)

lemma target_names:
  "\<exists>m \<in> set targetNames. EqualFold m ''printer-uri''" "\<exists>m \<in> set targetNames. EqualFold m ''job-uri''"
  "\<exists>m \<in> set targetNames. EqualFold m ''job-id''"
  "EqualFold ''printer-uri'' ''printer-uri''" "\<not> EqualFold ''printer-uri'' ''job-id''" "\<not> EqualFold ''printer-uri'' ''job-uri''"
  "\<not> EqualFold ''document-format'' ''printer-uri''" "\<not> EqualFold ''document-format'' ''job-id''"
  "\<not> EqualFold ''document-format'' ''job-uri''" "ToLower ''job-id'' \<noteq> ToLower ''job-uri''"
  by code_simp+

lemma job_uri_dropped: "Attr (DropAttrs attrs [''job-uri'']) ''job-uri'' = None"
proof -
  have "FoldCase ''job-uri'' = ''job-uri''" "ToLower ''job-uri'' = ''job-uri''" by code_simp+
  moreover have "ascii ''job-uri''" "CHR ''k'' \<notin> set ''job-uri''" "CHR ''s'' \<notin> set ''job-uri''" by (simp_all add: ascii_def)
  ultimately have "ToLower (attrName a) = ToLower ''job-uri''" if "EqualFold (attrName a) ''job-uri''" for a
    using fold_lower(1) [OF that] by simp
  then show ?thesis by (auto simp: Attr_None DropAttrs_def)
qed

text \<open>The printer is told which of its jobs is meant.\<close>

definition addressed :: "string \<Rightarrow> int \<Rightarrow> message \<Rightarrow> bool" where
  "addressed uri uid m \<longleftrightarrow>
     Attr (msgOperation m) ''printer-uri'' = Some (URI ''printer-uri'' uri)
     \<and> Attr (msgOperation m) ''job-id'' = Some (IntegerAttr ''job-id'' uid)
     \<and> Attr (msgOperation m) ''job-uri'' = None"

lemma mapped_addressed:
  "addressed (UpstreamURI printer) (UpstreamJobID job) (mappedRequest printer job req)"
  "addressed (UpstreamURI printer) (UpstreamJobID job) (sendRequest printer route job req)"
proof -
  let ?ops = "rewriteMappedJobOperation (msgOperation req) job"
  have "Attr (DropAttrs (SetAttr (msgOperation req) (IntegerAttr ''job-id'' i)) [''job-uri'']) ''job-id'' = Some (IntegerAttr ''job-id'' i)" for i
    using Attr_filter [of "SetAttr (msgOperation req) (IntegerAttr ''job-id'' i)" "''job-id''"]
    by (simp add: DropAttrs_def named_SetAttr identity_names target_names Attr_SetAttr)
  then have ops: "Attr ?ops ''job-id'' = Some (IntegerAttr ''job-id'' (UpstreamJobID job))" "Attr ?ops ''job-uri'' = None"
    by (simp_all add: rewriteMappedJobOperation_def Attr_order target_names job_uri_dropped)
  then have "Attr (rewriteDocumentFormat ?ops f) ''job-id'' = Some (IntegerAttr ''job-id'' (UpstreamJobID job))"
    "Attr (rewriteDocumentFormat ?ops f) ''job-uri'' = None" for f
    by (simp_all add: rewriteDocumentFormat_def Attr_SetAttr target_names)
  with ops show "addressed (UpstreamURI printer) (UpstreamJobID job) (mappedRequest printer job req)"
    "addressed (UpstreamURI printer) (UpstreamJobID job) (sendRequest printer route job req)"
    by (simp_all add: addressed_def mappedRequest_def sendRequest_def rewriteOperationForUpstream_def Attr_order target_names Attr_SetAttr)
qed

lemma scan_fields:
  "ProxyJobID (scanJob r) = proxy_job_id r" "Queue (scanJob r) = queue r" "RequestingUser (scanJob r) = requesting_user r"
  "State (scanJob r) = state r" "HasUpstreamJobID (scanJob r) \<longleftrightarrow> upstream_job_id r \<noteq> None"
  "upstream_job_id r = Some uid \<Longrightarrow> UpstreamJobID (scanJob r) = uid"
  by (auto simp: scanJob_def normalizeRoute_def Let_def split: option.split)

lemma lookup_found:
  assumes "lookupRequestJob px q req st = (Inr job, st1)"
  shows "\<exists>r \<in> set (rows (jobs_of st)). job = scanJob r \<and> proxy_job_id r = requestProxyJobID px req \<and> (q = [] \<or> queue r = q)"
    "sent st1 = sent st"
proof -
  from assms obtain r w1 where "queryRow (driverOf px) (byID q (requestProxyJobID px req)) (svcStore st) = (Inr r, w1)" "job = scanJob r"
    by (auto simp: lookupRequestJob_def onStore_def GetByProxyID_def parseScopedID_def split: if_splits prod.splits elim!: bindE_InrE)
  with queryRow_found(1,2) [OF this(1)] show
    "\<exists>r \<in> set (rows (jobs_of st)). job = scanJob r \<and> proxy_job_id r = requestProxyJobID px req \<and> (q = [] \<or> queue r = q)"
    by (auto simp: byID_def)
  show "sent st1 = sent st" using assms by (auto simp: lookupRequestJob_def sent_onStore split: if_splits)
qed

lemma sent_answered [simp]:
  "sent (snd (finishSend px q pid format lst meta (answer, st))) = sent st"
  "sent (snd (finishMapped px q c job (answer, st))) = sent st"
  "sent (syncObservedJob px q job attrs st) = sent st"
  by (auto simp: finishSend_def finishMapped_def syncObservedJob_def Let_def split: sum.split option.split)

lemma sent_submit:
  "sent (snd (finishSend px q pid format lst meta (upstreamCall px m st))) = sent st @ [m]"
  "sent (snd (finishMapped px q c job (upstreamCall px m st))) = sent st @ [m]"
  by (simp_all add: upstreamCall_def)

text \<open>Jobs the printer can be asked about.\<close>

definition reachable_job :: "row \<Rightarrow> int \<Rightarrow> bool" where
  "reachable_job r uid \<longleftrightarrow> upstream_job_id r = Some uid \<and> 1 \<le> uid \<and> state r \<noteq> StateReserved \<and> state r \<noteq> StateUncertain"

lemma reachable_scan:
  assumes "HasUpstreamJobID (scanJob r)" "\<not> UpstreamJobID (scanJob r) < 1" "State (scanJob r) \<noteq> StateReserved" "State (scanJob r) \<noteq> StateUncertain"
  shows "reachable_job r (UpstreamJobID (scanJob r))"
  using assms by (auto simp: reachable_job_def scan_fields)

lemma sent_document:
  assumes "submitDocument px q printer req b pid job route doc st = (res, st')"
  shows "sent st' = sent st \<or> sent st' = sent st @ [sendRequest printer route job req]"
proof -
  have "sent (snd (submitDocument px q printer req b pid job route doc st)) = sent st
      \<or> sent (snd (submitDocument px q printer req b pid job route doc st)) = sent st @ [sendRequest printer route job req]"
    by (auto simp: submitDocument_def Let_def sent_submit split: option.split)
  then show ?thesis by (simp add: assms)
qed

lemma sent_send:
  assumes "handleSendDocument px q printer req b hasPayload st = Some (res, st')" "lookupRequestJob px q req st = (x, st1)"
  shows "sent st' = sent st1 \<or> (\<exists>job route. x = Inr job \<and> acceptsDocument job \<and> sent st' = sent st1 @ [sendRequest printer route job req])"
  using assms
  by (auto simp: handleSendDocument_def Let_def sendRefusal_def split: sum.splits option.splits if_splits dest!: sent_document)

lemma sent_mapped:
  assumes "handleMappedJobOperation px q printer req st = (res, st')" "lookupRequestJob px q req st = (x, st1)"
  shows "sent st' = sent st1 \<or> (\<exists>job. x = Inr job \<and> HasUpstreamJobID job \<and> \<not> UpstreamJobID job < 1 \<and> State job \<noteq> StateReserved
    \<and> State job \<noteq> StateUncertain \<and> (IsTerminalState (State job) \<longrightarrow> msgCode req = OpGetJobAttributes)
    \<and> sent st' = sent st1 @ [mappedRequest printer job req])"
proof (cases x)
  case (Inr job)
  have "sent (snd (finishMapped px q (msgCode req) job (upstreamCall px (mappedRequest printer job req) st1))) = sent st1 @ [mappedRequest printer job req]"
    by (rule sent_submit)
  then show ?thesis using assms Inr by (auto simp: handleMappedJobOperation_def split: if_splits)
qed (use assms in \<open>auto simp: handleMappedJobOperation_def\<close>)

end
