(* ===== verification/Proxy_Promises.thy ===== *)
theory Proxy_Promises
  imports Proxy_Contract Urf_Theorems
begin

text \<open>
  What the IPP service promises over time: its requests and its maintenance keep the registry sound, every submission
  is accounted for, and every handler answers.
\<close>

declare ToLower.simps [simp del] FoldCase.simps [simp del]

subsection \<open>A queue with one job\<close>

definition labPolicy :: PolicyConfig where
  "labPolicy = \<lparr>policyMedia = ''iso_a4_210x297mm'', MediaSupported = [], MediaDefault = [], policyMediaType = [], PrintColorMode = [],
     policySource = None, PrintScaling = None, UseMediaCol = False, policyFidelity = []\<rparr>"

definition labPrinter :: printerConfig where
  "labPrinter = \<lparr>UpstreamURI = ''ipp://printer/'', printerPolicy = labPolicy, printerDropVendor = [], printerPreserve = [],
     printerAirPrintMode = ''off''\<rparr>"

definition labAnswer :: response where
  "labAnswer = (statusResponse StatusOk [])\<lparr>respJob := [IntegerAttr ''job-id'' 7]\<rparr>"

definition labProxy :: proxy where
  "labProxy = \<lparr>sprintOf = (\<lambda>_. []), driverOf = calm, errorText = (\<lambda>_. ''error''), payloadText = (\<lambda>_. ''error''),
     statusText = (\<lambda>_. ''status''), upstreamDo = (\<lambda>_ _. Inr labAnswer), capabilityModels = Map.empty,
     capabilities = Map.empty(''lab'' \<mapsto> [Attribute ''operations-supported'' [(TagEnum, Integer 8)]]),
     proxyPrinters = Map.empty(''lab'' \<mapsto> labPrinter), PublicBaseURL = ''ipp://proxy/'', MaxDocumentBytes = 0\<rparr>"

definition labState :: "world \<Rightarrow> svc" where
  "labState w = \<lparr>svcStore = w, sent = [], LastTranslationError = (\<lambda>_. [])\<rparr>"

definition labRow :: row where
  "labRow = ann_reserved\<lparr>upstream_job_id := Some 7, state := StateMapped\<rparr>"

definition labMapped :: svc where
  "labMapped = labState \<lparr>db = \<lparr>rows = [labRow], seq = 1, instance_id = None\<rparr>, tick = 4\<rparr>"

definition labCancel :: message where
  "labCancel = newRequest OpCancelJob (BasicOperationAttrs ''ipp://proxy/lab'' @ [IntegerAttr ''job-id'' 1])"

lemma lab_driver [simp]: "driverOf labProxy = calm" "upstreamDo labProxy ms m = Inr labAnswer"
  by (simp_all add: labProxy_def)

lemma labRow_fields [simp]:
  "proxy_job_id labRow = 1" "queue labRow = ''lab''" "upstream_job_id labRow = Some 7" "state labRow = StateMapped"
  by (simp_all add: labRow_def)

lemma labMapped_ok: "db_ok (jobs_of labMapped)"
  by (simp add: db_ok_def labMapped_def labState_def index_ok_def mapping_keys_def List.map_filter_def term_ok_def)

lemma lab_job: "requestProxyJobID labProxy labCancel = 1" "msgCode labCancel = OpCancelJob"
  by code_simp+

lemma lab_lookup: "\<exists>st1. lookupRequestJob labProxy ''lab'' labCancel labMapped = (Inr (scanJob labRow), st1) \<and> sent st1 = []"
  by (simp add: lookupRequestJob_def lab_job onStore_def GetByProxyID_def parseScopedID_def bindE_def queryRow_calm byID_def
      labMapped_def labState_def)

lemma lab_cancel:
  "\<exists>res st'. handleMappedJobOperation labProxy ''lab'' labPrinter labCancel labMapped = (res, st') \<and> sent st' \<noteq> sent labMapped"
proof -
  obtain st1 where l: "lookupRequestJob labProxy ''lab'' labCancel labMapped = (Inr (scanJob labRow), st1)" "sent st1 = []"
    using lab_lookup by blast
  have "StateMapped \<noteq> StateReserved" "StateMapped \<noteq> StateUncertain" by code_simp+
  then have "sent (snd (handleMappedJobOperation labProxy ''lab'' labPrinter labCancel labMapped)) \<noteq> []"
    by (simp add: handleMappedJobOperation_def l scan_fields sent_submit)
  moreover have "sent labMapped = []" by (simp add: labMapped_def labState_def)
  ultimately show ?thesis by (metis prod.collapse)
qed

text \<open>
  C19: Send-Document, Get-Job-Attributes, Cancel-Job and Close-Job send at most one request to the printer, and
  only for a job of the registry that has the identifier the client gave, belongs to the queue and is
  mapped to a job of the printer: neither merely reserved nor uncertain, and not over unless its attributes
  are asked for. The request names the printer and the printer's job and carries no URI of the proxy's
  job, whatever the client wrote.
\<close>

theorem job_operations_addressed:
  assumes "handleMappedJobOperation px q printer req st = (res, st') \<or> handleSendDocument px q printer req b hasPayload st = Some (res, st')"
  shows "sent st' = sent st \<or> (\<exists>m r uid. sent st' = sent st @ [m] \<and> addressed (UpstreamURI printer) uid m
    \<and> r \<in> set (rows (jobs_of st)) \<and> proxy_job_id r = requestProxyJobID px req \<and> (q = [] \<or> queue r = q) \<and> reachable_job r uid
    \<and> (IsTerminalState (state r) \<longrightarrow> msgCode req = OpGetJobAttributes))"
proof -
  obtain x st1 where l: "lookupRequestJob px q req st = (x, st1)" by (cases "lookupRequestJob px q req st")
  have s: "sent st1 = sent st" using l by (auto simp: lookupRequestJob_def sent_onStore split: if_splits)
  let ?asked = "\<lambda>job m. x = Inr job \<and> HasUpstreamJobID job \<and> \<not> UpstreamJobID job < 1 \<and> State job \<noteq> StateReserved
    \<and> State job \<noteq> StateUncertain \<and> (IsTerminalState (State job) \<longrightarrow> msgCode req = OpGetJobAttributes)
    \<and> sent st' = sent st @ [m] \<and> addressed (UpstreamURI printer) (UpstreamJobID job) m"
  from assms consider "sent st' = sent st" | (asked) job m where "?asked job m"
  proof
    assume "handleMappedJobOperation px q printer req st = (res, st')"
    from sent_mapped [OF this l] that show thesis unfolding s using mapped_addressed(1) by blast
  next
    assume "handleSendDocument px q printer req b hasPayload st = Some (res, st')"
    from sent_send [OF this l] that show thesis unfolding s acceptsDocument_def using mapped_addressed(2) by blast
  qed
  then show ?thesis
  proof cases
    case asked
    then have "lookupRequestJob px q req st = (Inr job, st1)" using l by simp
    from lookup_found(1) [OF this] obtain r where r: "r \<in> set (rows (jobs_of st))" "job = scanJob r"
      "proxy_job_id r = requestProxyJobID px req" "q = [] \<or> queue r = q" by blast
    have "reachable_job r (UpstreamJobID job)" unfolding r(2) by (rule reachable_scan) (use asked in \<open>simp_all add: r(2)\<close>)
    with r asked show ?thesis by (metis scan_fields(4))
  qed blast
qed

theorem job_operations_addressed_witness:
  "\<exists>res st' m. handleMappedJobOperation labProxy ''lab'' labPrinter labCancel labMapped = (res, st') \<and> sent st' = sent labMapped @ [m]
     \<and> addressed ''ipp://printer/'' 7 m"
proof -
  obtain res st' where h: "handleMappedJobOperation labProxy ''lab'' labPrinter labCancel labMapped = (res, st')" "sent st' \<noteq> sent labMapped"
    using lab_cancel by blast
  with job_operations_addressed [OF disjI1 [OF h(1)]] show ?thesis
    by (auto simp: labPrinter_def labMapped_def labState_def reachable_job_def)
qed

subsection \<open>The registry\<close>



subsection \<open>Submissions\<close>

text \<open>
  C5: Print-Job and Create-Job never lose track of a job while the database works. Either nothing is sent to the printer
  and no job is left open, or exactly one request is sent and the registry has a new job of the queue
  and the user whose state follows from the answer: uncertain when the transport failed or no usable identifier
  came back, over when the printer refused, and otherwise mapped to the printer's job, unless
  another job of the queue still holds that identifier.
\<close>

theorem submission_accounted:
  assumes "\<forall>n. fault (driverOf px) n = None" "\<forall>n. clock (driverOf px) n \<noteq> 0" "db_ok (jobs_of st)"
    and "handlePrintJob px quoted q printer req b st = Some (res, st') \<or> handleCreateJob px q printer req st = (res, st')"
  shows "sent st' = sent st \<and> (\<forall>r \<in> set (rows (jobs_of st')). r \<in> set (rows (jobs_of st)) \<or> state r = StateTerminal)
    \<or> (\<exists>m r. sent st' = sent st @ [m] \<and> r \<in> set (rows (jobs_of st')) \<and> proxy_job_id r = seq (jobs_of st) + 1 \<and> queue r = q
         \<and> requesting_user r = operationString px req ''requesting-user-name''
         \<and> accounted (taken q (jobs_of st)) (upstreamDo px (sent st) m) r)"
proof -
  have "job_recorded px q (operationString px req ''requesting-user-name'') st st'"
    using assms(4)
  proof
    assume "handlePrintJob px quoted q printer req b st = Some (res, st')"
    then show ?thesis by (rule handlePrintJob_recorded [rotated -1]) (use assms in simp_all)
  next
    assume "handleCreateJob px q printer req st = (res, st')"
    then show ?thesis by (rule handleCreateJob_recorded [rotated -1]) (use assms in simp_all)
  qed
  then show ?thesis unfolding job_recorded_def .
qed

definition labCreate :: message where
  "labCreate = newRequest OpCreateJob [Name ''requesting-user-name'' ''ann'', Attribute ''document-format'' [(TagMimeType, String ''application/octet-stream'')]]"

lemma lab_normalizes: "\<exists>result. normalizeJobRequest labProxy ''lab'' labPrinter labCreate = Inr result"
proof -
  have "malformedPolicyAttributes [] = []" by code_simp
  moreover have "\<not> singleBoolean (msgOperation labCreate) ''ipp-attribute-fidelity''" by code_simp
  moreover have "msgJob labCreate = []" by code_simp
  ultimately show ?thesis
    by (simp add: normalizeJobRequest_def normalizationOptions_def NormalizeJobAttrsWithOptions_def Let_def labProxy_def labPrinter_def
        labPolicy_def split: prod.split)
qed

lemma lab_route: "\<exists>route. requestRoute labProxy ''lab'' (operationString labProxy labCreate ''document-format'') labCreate = Inr route"
proof -
  let ?format = "''application/octet-stream''"
  have format: "operationString labProxy labCreate ''document-format'' = ?format" by code_simp
  have "ToLower (TrimSpace ?format) = ?format" by code_simp
  then have "legacyPassThroughRoute sprint up ?format \<noteq> None" for sprint up
    by (simp add: legacyPassThroughRoute_def Let_def orText_def)
  then show ?thesis
    unfolding requestRoute_def clientRoute_def routeForRequest_def format
    by (auto simp: labProxy_def Let_def simp del: not_None_eq split: option.split)
qed

lemma create_sends:
  assumes "\<And>n. fault (driverOf px) n = None" "\<And>n. clock (driverOf px) n \<noteq> 0" "db_ok (jobs_of st)"
    and n: "normalizeJobRequest px q printer req = Inr result" "requestRoute px q (operationString px req ''document-format'') req = Inr route0"
  shows "sent (snd (handleCreateJob px q printer req st)) \<noteq> sent st"
proof -
  let ?given = "operationString px req ''document-format''"
  obtain r st1 where "onStore (Reserve (driverOf px) [AJob (jobForRoute q (operationString px req ''requesting-user-name'')
      (operationString px req ''job-name'') (if TrimSpace ?given = [] then ClientFormat route0 else ?given)
      (route0\<lparr>routePage := routePageSettings (sprintOf px) route0 (resAttrs result) (upstreamCapabilities px q)\<rparr>)
      (copiesFromAttrs (resAttrs result)))]) st = (Inr (seq (jobs_of st) + 1), st1)" "sent st1 = sent st"
    by (rule reserved_row [OF assms(1-3)])
  then show ?thesis by (simp add: handleCreateJob_def n Let_def upstreamCall_def)
qed

theorem submission_accounted_witness:
  "\<exists>res st' r. handleCreateJob labProxy ''lab'' labPrinter labCreate (labState start) = (res, st') \<and> r \<in> set (rows (jobs_of st'))
     \<and> requesting_user r = ''ann'' \<and> state r = StateMapped \<and> upstream_job_id r = Some 7"
proof -
  let ?st = "labState start"
  have ok: "db_ok (jobs_of ?st)" and empty: "rows (jobs_of ?st) = []" by (simp_all add: labState_def) (simp add: start_def empty_db_def)
  obtain res st' where h: "handleCreateJob labProxy ''lab'' labPrinter labCreate ?st = (res, st')"
    by (cases "handleCreateJob labProxy ''lab'' labPrinter labCreate ?st")
  have sent: "sent st' \<noteq> sent ?st"
    using create_sends [of labProxy ?st "''lab''" labPrinter labCreate] lab_normalizes lab_route ok h by auto
  have "FirstInt (respJob labAnswer) ''job-id'' = Some 7" "ippSuccess labAnswer" by code_simp+
  moreover have "operationString labProxy labCreate ''requesting-user-name'' = ''ann''" by code_simp
  ultimately show ?thesis
    using submission_accounted [OF _ _ ok disjI2 [OF h]] sent h by (auto simp: accounted_def taken_def empty)
qed

subsection \<open>Answers\<close>

lemma translated_returns: "translated px b route attrs up \<noteq> None"
proof -
  have "translatePayload host sprint np temp obs route attrs up n e \<noteq> None" for host :: "'a host" and sprint np temp obs n e
    using Translate_total [of host False False False "payloadOptions sprint route attrs up n obs" e]
    by (auto simp: translatePayload_def split: option.split sum.split prod.split)
  then show ?thesis by (simp add: translated_def)
qed

text \<open>No document keeps a handler busy for ever.\<close>

lemma handlers_return:
  "handlePrintJob px quoted q printer req b st \<noteq> None" "handleSendDocument px q printer req b hasPayload st \<noteq> None"
  by (auto simp: handlePrintJob_def handleSendDocument_def Let_def translated_returns simp del: not_None_eq
      split: option.split sum.split prod.split)

end
