(* ===== verification/Proxy_Listed.thy ===== *)
theory Proxy_Listed
  imports Proxy_Promises
begin

text \<open>
  The answers to Get-Jobs and the requests of Cancel-My-Jobs: jobs of the queue, and of the user where that is
  asked for, and no others.
\<close>

subsection \<open>Observations\<close>

text \<open>Observing a job changes neither its identity nor its mapping.\<close>

definition same_job :: "row \<Rightarrow> row \<Rightarrow> bool" where
  "same_job r r' \<longleftrightarrow> proxy_job_id r' = proxy_job_id r \<and> queue r' = queue r \<and> requesting_user r' = requesting_user r
     \<and> upstream_job_id r' = upstream_job_id r"

abbreviation same_jobs :: "database \<Rightarrow> database \<Rightarrow> bool" where
  "same_jobs d d' \<equiv> list_all2 same_job (rows d) (rows d')"

definition quiet :: "'a sprog \<Rightarrow> bool" where
  "quiet p \<longleftrightarrow> (\<forall>w r w'. p w = (r, w') \<longrightarrow> same_jobs (db w) (db w'))"

named_theorems quiet_rules

lemma same_job_refl [simp]: "same_job r r"
  by (simp add: same_job_def)

lemma same_jobs_refl [simp]: "same_jobs d d"
  by (simp add: list_all2_same)

lemma same_jobs_trans: "same_jobs d d' \<Longrightarrow> same_jobs d' d'' \<Longrightarrow> same_jobs d d''"
  by (rule list_all2_trans [of same_job same_job]) (auto simp: same_job_def)

lemma quiet_readonly: "readonly p \<Longrightarrow> quiet p"
  unfolding quiet_def using readonlyD same_jobs_refl by metis

lemma quiet_bindE [quiet_rules]: "quiet m \<Longrightarrow> (\<And>x. quiet (k x)) \<Longrightarrow> quiet (bindE m k)"
  unfolding quiet_def bindE_def by (auto split: prod.splits sum.splits) (blast intro: same_jobs_trans)+

lemma quiet_if [quiet_rules]: "quiet m \<Longrightarrow> quiet m' \<Longrightarrow> quiet (if b then m else m')"
  by simp

lemma quiet_case_prod [quiet_rules]: "(\<And>a b. quiet (m a b)) \<Longrightarrow> quiet (case x of (a, b) \<Rightarrow> m a b)"
  by (cases x) simp

lemma quiet_update [quiet_rules]: "(\<And>r. same_job r (f r)) \<Longrightarrow> quiet (exec drv (sql_update P f))"
  unfolding quiet_def
proof (intro allI impI)
  fix w r w' assume f: "\<And>r. same_job r (f r)" and "exec drv (sql_update P f) w = (r, w')"
  from this(2) show "same_jobs (db w) (db w')"
    by (cases rule: exec_cases) (auto simp: f list_all2_map2 list_all2_same dest!: sql_update_Inr(1))
qed

lemma quiet_markTerminal: "quiet (markTerminalParsed drv args)"
  unfolding markTerminalParsed_def Let_def
  by (intro quiet_rules quiet_readonly effect_rules) (simp add: same_job_def setTerminal_def)

lemma quiet_sync: "same_jobs (jobs_of st) (jobs_of (syncObservedJob px q job attrs st))"
proof -
  have "quiet (UpdateObserved drv args)" for drv args
    unfolding UpdateObserved_def
    by (intro quiet_rules quiet_readonly effect_rules quiet_markTerminal) (simp add: same_job_def)
  moreover have "quiet (MarkTerminal drv args)" for drv args by (simp add: MarkTerminal_def quiet_markTerminal)
  moreover have "quiet p \<Longrightarrow> same_jobs (jobs_of st) (jobs_of (ignoring p st))" for p :: "unit sprog"
    by (auto simp: quiet_def ignoring_def onStore_def split: prod.splits)
  ultimately show ?thesis by (auto simp: syncObservedJob_def Let_def split: option.split)
qed

subsection \<open>Get-Jobs\<close>

text \<open>One job of an answer: the report of the printer on a job of the registry, under the proxy's identity.\<close>

definition listed_job :: "proxy \<Rightarrow> string \<Rightarrow> listing \<Rightarrow> database \<Rightarrow> attribute list \<Rightarrow> attribute list \<Rightarrow> bool" where
  "listed_job px q ls d report attrs \<longleftrightarrow>
     (\<exists>r \<in> set (rows d). queue r = q \<and> upstream_job_id r \<noteq> None \<and> FirstInt report ''job-id'' = upstream_job_id r
        \<and> (\<forall>user. onlyUser ls = Some user \<longrightarrow> requesting_user r = user)
        \<and> attrs = projectJobAttributes (rewriteJobAttrs report (proxy_job_id r) (proxyPrinterURI px q)) (jobWanted ls))"

lemma same_jobs_before: "same_jobs d d' \<Longrightarrow> r' \<in> set (rows d') \<Longrightarrow> \<exists>r \<in> set (rows d). same_job r r'"
  by (metis in_set_conv_nth list_all2_conv_all_nth)

lemma filterJob_listed:
  assumes "filterJob px q ls report (kept, st) = (x, kept', st')" "same_jobs d (jobs_of st)" "q \<noteq> []"
  shows "same_jobs d (jobs_of st')" "kept' = kept + (if x = None then 0 else 1)" "x = Some attrs \<Longrightarrow> listed_job px q ls d report attrs"
    "x = Some attrs \<Longrightarrow> jobLimit ls > 0 \<Longrightarrow> kept < jobLimit ls"
proof -
  consider (none) "x = None" "kept' = kept" "jobs_of st' = jobs_of st"
    | (found) uid job st1 where "FirstInt report ''job-id'' = Some uid" "\<not> (jobLimit ls > 0 \<and> kept \<ge> jobLimit ls)"
      "onStore (GetByUpstreamID (driverOf px) [AString q, AInt uid]) st = (Inr job, st1)"
      "\<not> (case onlyUser ls of Some user \<Rightarrow> RequestingUser job \<noteq> user | None \<Rightarrow> False)"
      "x = Some (projectJobAttributes (rewriteJobAttrs report (ProxyJobID job) (proxyPrinterURI px q)) (jobWanted ls))"
      "kept' = kept + 1" "st' = syncObservedJob px q job report st1"
    using assms(1) by (auto simp: filterJob_def split: if_splits option.splits sum.splits prod.splits dest: lookup_moved(2))
  then have "same_jobs d (jobs_of st') \<and> kept' = kept + (if x = None then 0 else 1) \<and> (x = Some attrs \<longrightarrow> listed_job px q ls d report attrs)
      \<and> (x = Some attrs \<longrightarrow> jobLimit ls > 0 \<longrightarrow> kept < jobLimit ls)"
  proof cases
    case none
    with assms(2) show ?thesis by simp
  next
    case found
    from found(3) obtain r w1 where q: "queryRow (driverOf px) (\<lambda>r. upstream_job_id r = Some uid \<and> (q = [] \<or> queue r = q)) (svcStore st) = (Inr r, w1)"
      "job = scanJob r"
      by (auto simp: onStore_def GetByUpstreamID_def parseScopedID_def split: prod.splits elim!: bindE_InrE)
    from queryRow_found(1,2) [OF q(1)] have r: "r \<in> set (rows (jobs_of st))" "upstream_job_id r = Some uid" "queue r = q"
      using assms(3) by auto
    from same_jobs_before [OF assms(2) r(1)] obtain r0 where r0: "r0 \<in> set (rows d)" "same_job r0 r" by blast
    then have same: "upstream_job_id r0 = Some uid" "queue r0 = q" "proxy_job_id r = proxy_job_id r0" "requesting_user r = requesting_user r0"
      using r(2,3) by (simp_all add: same_job_def)
    have "listed_job px q ls d report (projectJobAttributes (rewriteJobAttrs report (ProxyJobID job) (proxyPrinterURI px q)) (jobWanted ls))"
      unfolding listed_job_def using r0(1) same found(1,4) by (intro bexI [of _ r0]) (auto simp: q(2) scan_fields split: option.splits)
    moreover have "same_jobs d (jobs_of st')"
      unfolding found(7) using quiet_sync same_jobs_trans assms(2) lookup_moved(2) [OF found(3)] by metis
    ultimately show ?thesis using found by auto
  qed
  then show "same_jobs d (jobs_of st')" "kept' = kept + (if x = None then 0 else 1)" "x = Some attrs \<Longrightarrow> listed_job px q ls d report attrs"
    "x = Some attrs \<Longrightarrow> jobLimit ls > 0 \<Longrightarrow> kept < jobLimit ls" by blast+
qed

text \<open>The job groups of a response.\<close>

abbreviation job_groups :: "(tag \<times> attribute list) list \<Rightarrow> attribute list list" where
  "job_groups gs \<equiv> map snd (filter (\<lambda>g. fst g = TagJobGroup) gs)"

lemma filterGroups_listed:
  assumes "filterGroups px q ls gs (kept, st) = (gs', job, kept', st')" "same_jobs d (jobs_of st)" "q \<noteq> []"
    and "jobLimit ls > 0 \<Longrightarrow> kept \<le> jobLimit ls"
  shows "(\<forall>attrs \<in> set (job_groups gs'). \<exists>report \<in> set (job_groups gs). listed_job px q ls d report attrs)
    \<and> kept' = kept + int (length (job_groups gs')) \<and> (jobLimit ls > 0 \<longrightarrow> kept' \<le> jobLimit ls)"
  using assms
proof (induction gs arbitrary: kept st gs' job)
  case (Cons g gs)
  obtain t report where g: "g = (t, report)" by (cases g)
  obtain x k1 st1 where f: "filterJob px q ls report (kept, st) = (x, k1, st1)" by (cases "filterJob px q ls report (kept, st)")
  note one = filterJob_listed [OF f Cons.prems(2,3)]
  show ?case
  proof (cases "t = TagJobGroup")
    case False
    then obtain gs1 where "filterGroups px q ls gs (kept, st) = (gs1, job, kept', st')" "gs' = (t, report) # gs1"
      using Cons.prems(1) by (auto simp: g split: prod.splits)
    with Cons.IH [OF _ Cons.prems(2-4)] False show ?thesis by (auto simp: g)
  next
    case True
    show ?thesis
    proof (cases x)
      case None
      then have "filterGroups px q ls gs (kept, st1) = (gs', job, kept', st')" using Cons.prems(1) True f one(2) by (simp add: g)
      from Cons.IH [OF this one(1) Cons.prems(3,4)] show ?thesis by auto
    next
      case (Some attrs)
      then obtain gs1 job1 where gs1: "filterGroups px q ls gs (kept + 1, st1) = (gs1, job1, kept', st')" "gs' = (t, attrs) # gs1"
        using Cons.prems(1) True f one(2) by (auto simp: g split: prod.splits)
      from one(4) [OF Some] have "jobLimit ls > 0 \<Longrightarrow> kept + 1 \<le> jobLimit ls" by simp
      from Cons.IH [OF gs1(1) one(1) Cons.prems(3) this] one(3) [OF Some] show ?thesis using True by (auto simp: gs1(2) g)
    qed
  qed
qed simp

text \<open>
  C21: Get-Jobs answers with jobs of the registry only. Every job in the answer is a job of the queue the
  printer reported, of the asking user where only the user's jobs are wanted, shown under the identity of the
  proxy's job and reduced to the attributes the client asked for; and there are no more of them than the client's limit.
\<close>

theorem listed_jobs:
  assumes "upstreamDo px (sent st) (getJobsRequest printer req) = Inr a" "ippSuccess a" "q \<noteq> []"
    and "handleGetJobs px q printer req st = (res, st')"
  shows "\<exists>r. res = Inr r \<and> (\<forall>attrs \<in> set (responseJobGroups r). \<exists>report \<in> set (responseJobGroups a).
      listed_job px q (requestListing px req) (jobs_of st) report attrs)
    \<and> (jobLimit (requestListing px req) > 0 \<longrightarrow> int (length (responseJobGroups r)) \<le> jobLimit (requestListing px req))"
proof -
  let ?ls = "requestListing px req" and ?st = "st\<lparr>sent := sent st @ [getJobsRequest printer req]\<rparr>"
  have call: "upstreamCall px (getJobsRequest printer req) st = (Inr a, ?st)" by (simp add: upstreamCall_def assms(1))
  have same: "same_jobs (jobs_of st) (jobs_of ?st)" by simp
  show ?thesis
  proof (cases "respGroups a")
    case (Some gs)
    obtain gs' job kept st2 where f: "filterGroups px q ?ls gs (0, ?st) = (gs', job, kept, st2)"
      by (cases "filterGroups px q ?ls gs (0, ?st)")
    have "res = Inr (a\<lparr>respGroups := Some gs', respJob := job\<rparr>)"
      using assms(4) by (simp add: handleGetJobs_def call Let_def assms(2) Some f)
    with filterGroups_listed [OF f same assms(3)] show ?thesis by (auto simp: responseJobGroups_def Some)
  next
    case None
    obtain x kept st2 where f: "filterJob px q ?ls (respJob a) (0, ?st) = (x, kept, st2)"
      by (cases "filterJob px q ?ls (respJob a) (0, ?st)")
    note one = filterJob_listed [OF f same assms(3)]
    have "x = None" if "respJob a = []" using f that by (auto simp: filterJob_def FirstInt_def split: if_splits)
    moreover have "res = Inr (a\<lparr>respJob := (case x of Some attrs \<Rightarrow> attrs | None \<Rightarrow> [])\<rparr>)"
      using assms(4) by (cases x) (simp_all add: handleGetJobs_def call Let_def assms(2) None f)
    ultimately show ?thesis using one(3,4) by (cases x) (auto simp: responseJobGroups_def None)
  qed
qed

definition labList :: message where
  "labList = newRequest OpGetJobs []"

lemma lab_filter: "\<exists>st'. filterJob labProxy ''lab'' (requestListing labProxy labList) (respJob labAnswer) (0, st) =
    (Some (projectJobAttributes (rewriteJobAttrs (respJob labAnswer) 1 (proxyPrinterURI labProxy ''lab'')) [''job-id'', ''job-uri'']), 1, st')"
  if "svcStore st = svcStore labMapped" for st
proof -
  have ls: "requestListing labProxy labList = \<lparr>onlyUser = None, jobLimit = 0, jobWanted = [''job-id'', ''job-uri'']\<rparr>" by code_simp
  have uid: "FirstInt (respJob labAnswer) ''job-id'' = Some 7" by code_simp
  have "\<exists>st1. onStore (GetByUpstreamID (driverOf labProxy) [AString ''lab'', AInt 7]) st = (Inr (scanJob labRow), st1)"
    by (simp add: onStore_def that GetByUpstreamID_def parseScopedID_def bindE_def queryRow_calm labMapped_def labState_def)
  then show ?thesis by (auto simp: filterJob_def ls uid scan_fields)
qed

lemma lab_listed: "\<exists>r st' attrs. handleGetJobs labProxy ''lab'' labPrinter labList labMapped = (Inr r, st') \<and> attrs \<in> set (responseJobGroups r)"
proof -
  let ?attrs = "projectJobAttributes (rewriteJobAttrs (respJob labAnswer) 1 (proxyPrinterURI labProxy ''lab'')) [''job-id'', ''job-uri'']"
  have "IntegerAttr ''job-id'' 1 \<in> set (rewriteJobAttrs (respJob labAnswer) 1 (proxyPrinterURI labProxy ''lab''))"
    using rewritten_identity [of "respJob labAnswer" 1 "proxyPrinterURI labProxy ''lab''"] by (auto simp: named_def)
  moreover have "requestedJobAttribute [''job-id'', ''job-uri''] (ToLower ''job-id'')" "''all'' \<notin> set [''job-id'', ''job-uri'']" by code_simp+
  ultimately have "IntegerAttr ''job-id'' 1 \<in> set ?attrs" unfolding projectJobAttributes_def by simp
  then have "?attrs \<noteq> []" by (metis empty_iff empty_set)
  let ?st = "labMapped\<lparr>sent := sent labMapped @ [getJobsRequest labPrinter labList]\<rparr>"
  obtain st2 where f: "filterJob labProxy ''lab'' (requestListing labProxy labList) (respJob labAnswer) (0, ?st) = (Some ?attrs, 1, st2)"
    using lab_filter [of ?st] by auto
  have "ippSuccess labAnswer" "respGroups labAnswer = None" by code_simp+
  then have "handleGetJobs labProxy ''lab'' labPrinter labList labMapped = (Inr (labAnswer\<lparr>respJob := ?attrs\<rparr>), st2)"
    using f by (simp add: handleGetJobs_def upstreamCall_def Let_def)
  moreover have "?attrs \<in> set (responseJobGroups (labAnswer\<lparr>respJob := ?attrs\<rparr>))"
    using \<open>?attrs \<noteq> []\<close> \<open>respGroups labAnswer = None\<close> by (simp add: responseJobGroups_def)
  ultimately show ?thesis by blast
qed

theorem listed_jobs_witness:
  "\<exists>r st' attrs report. handleGetJobs labProxy ''lab'' labPrinter labList labMapped = (Inr r, st') \<and> attrs \<in> set (responseJobGroups r)
     \<and> listed_job labProxy ''lab'' (requestListing labProxy labList) (jobs_of labMapped) report attrs"
proof -
  obtain r st' attrs where h: "handleGetJobs labProxy ''lab'' labPrinter labList labMapped = (Inr r, st')" "attrs \<in> set (responseJobGroups r)"
    using lab_listed by blast
  have "ippSuccess labAnswer" by code_simp
  with listed_jobs [OF _ _ _ h(1), of labAnswer] h(2)
  have "\<exists>report. listed_job labProxy ''lab'' (requestListing labProxy labList) (jobs_of labMapped) report attrs" by auto
  with h show ?thesis by blast
qed

subsection \<open>Cancel-My-Jobs\<close>

text \<open>The jobs of a user that are not over and that the printer knows, oldest first.\<close>

definition cancelable :: "string \<Rightarrow> string \<Rightarrow> database \<Rightarrow> row list" where
  "cancelable q user d =
     filter (\<lambda>r. \<exists>uid. upstream_job_id r = Some uid \<and> 1 \<le> uid)
       (sort_key (\<lambda>r. (created_at r, proxy_job_id r))
         (filter (\<lambda>r. queue r = q \<and> requesting_user r = user \<and> terminal_at r = None) (rows d)))"

definition cancelRequest :: "printerConfig \<Rightarrow> string \<Rightarrow> row \<Rightarrow> message" where
  "cancelRequest printer user r = newRequest OpCancelJob (BasicOperationAttrs (UpstreamURI printer)
     @ [Name ''requesting-user-name'' user, IntegerAttr ''job-id'' (UpstreamJobID (scanJob r))])"

lemma cancelJobs_sent:
  "sent (snd (cancelJobs px q printer user (map scanJob rs) st)) =
     sent st @ map (cancelRequest printer user) (filter (\<lambda>r. \<exists>uid. upstream_job_id r = Some uid \<and> 1 \<le> uid) rs)"
proof (induction rs arbitrary: st)
  case (Cons r rs)
  have "(\<exists>uid. upstream_job_id r = Some uid \<and> 1 \<le> uid) \<longleftrightarrow> HasUpstreamJobID (scanJob r) \<and> \<not> UpstreamJobID (scanJob r) < 1"
    by (auto simp: scan_fields)
  then show ?case
    by (auto simp: upstreamCall_def cancelRequest_def split_beta Cons.IH split: sum.split)
qed simp

lemma listRows_mine:
  assumes "q \<noteq> []" "user \<noteq> []"
  shows "ListJobs drv [AFilter (noFilter\<lparr>fQueue := q, fRequestingUser := user, fExcludeTerminal := True\<rparr>)] w =
    (case fault drv (tick w) of Some m \<Rightarrow> Inl (DriverErr m) | None \<Rightarrow> Inr (map scanJob (sort_key (\<lambda>r. (created_at r, proxy_job_id r))
         (filter (\<lambda>r. queue r = q \<and> requesting_user r = user \<and> terminal_at r = None) (rows (db w))))), w\<lparr>tick := Suc (tick w)\<rparr>)"
proof -
  let ?f = "noFilter\<lparr>fQueue := q, fRequestingUser := user, fExcludeTerminal := True\<rparr>"
  have "mergeJobFilters noFilter ?f = ?f" by (simp add: mergeJobFilters_def noFilter_def orText_def orElse_def assms)
  moreover have mine: "listed ?f = (\<lambda>r. queue r = q \<and> requesting_user r = user \<and> terminal_at r = None)"
    using assms by (intro ext) (auto simp: listed_def noFilter_def orText_def Let_def)
  moreover have "listRows ?f rs = sort_key (\<lambda>r. (created_at r, proxy_job_id r)) (filter (\<lambda>r. queue r = q \<and> requesting_user r = user \<and> terminal_at r = None) rs)" for rs
    by (simp add: listRows_def window_def mine) (simp add: noFilter_def)
  ultimately show ?thesis
    by (simp add: ListJobs_def parseJobFilterArgs_def call_defs noFilter_def split: option.split)
qed

text \<open>
  C22: Cancel-My-Jobs asks the printer to cancel exactly the jobs the registry has for the user and the queue that are not
  over and are mapped, each once and oldest first, by the printer's identifiers; without a user, or when the registry
  cannot be read, nothing is sent.
\<close>

theorem cancel_my_jobs:
  assumes "handleCancelMyJobs px q printer req st = (res, st')" "q \<noteq> []"
  shows "sent st' = sent st @
    (if operationString px req ''requesting-user-name'' = [] \<or> fault (driverOf px) (tick (svcStore st)) \<noteq> None then []
     else map (cancelRequest printer (operationString px req ''requesting-user-name''))
       (cancelable q (operationString px req ''requesting-user-name'') (jobs_of st)))"
proof (cases "operationString px req ''requesting-user-name'' = []")
  case False
  show ?thesis
  proof (cases "fault (driverOf px) (tick (svcStore st))")
    case (Some m)
    then show ?thesis
      using assms False by (auto simp: handleCancelMyJobs_def Let_def onStore_def listRows_mine [OF assms(2) False])
  next
    case None
    let ?user = "operationString px req ''requesting-user-name''"
    let ?rs = "sort_key (\<lambda>r. (created_at r, proxy_job_id r))
      (filter (\<lambda>r. queue r = q \<and> requesting_user r = ?user \<and> terminal_at r = None) (rows (jobs_of st)))"
    let ?st = "st\<lparr>svcStore := (svcStore st)\<lparr>tick := Suc (tick (svcStore st))\<rparr>\<rparr>"
    have "snd (handleCancelMyJobs px q printer req st) = snd (cancelJobs px q printer ?user (map scanJob ?rs) ?st)"
      using False None by (simp add: handleCancelMyJobs_def Let_def onStore_def listRows_mine [OF assms(2) False] split_beta)
    then have "sent st' = sent (snd (cancelJobs px q printer ?user (map scanJob ?rs) ?st))" using assms(1) by simp
    then show ?thesis using False None by (simp add: cancelJobs_sent cancelable_def)
  qed
qed (use assms in \<open>auto simp: handleCancelMyJobs_def Let_def\<close>)

definition labMine :: message where
  "labMine = newRequest OpCancelMyJobs [Name ''requesting-user-name'' ''ann'']"

theorem cancel_my_jobs_witness:
  "\<exists>res st'. handleCancelMyJobs labProxy ''lab'' labPrinter labMine labMapped = (res, st') \<and> sent st' = [cancelRequest labPrinter ''ann'' labRow]"
proof -
  obtain res st' where h: "handleCancelMyJobs labProxy ''lab'' labPrinter labMine labMapped = (res, st')"
    by (cases "handleCancelMyJobs labProxy ''lab'' labPrinter labMine labMapped")
  have "operationString labProxy labMine ''requesting-user-name'' = ''ann''" by code_simp
  moreover have "requesting_user labRow = ''ann''"
    by (simp add: labRow_def ann_reserved_def lab_row_def rowOfJob_def withDefaults_def normalizeRoute_def reservation_def Let_def)
  moreover have "terminal_at labRow = None" by (simp add: labRow_def)
  ultimately show ?thesis
    using cancel_my_jobs [OF h] h by (simp add: cancelable_def labMapped_def labState_def)
qed

subsection \<open>Canceled jobs and maintenance\<close>

text \<open>
  C24: the maintenance is to ask about canceled jobs for a while longer, but it selects them by a state that canceling
  never gives them: a job that the service has recorded as canceled has the state of any job that is over, and
  the selection leaves it out, however recent it is.
\<close>

theorem canceled_not_revisited:
  assumes "MarkTerminal drv [AString q, AInt pid, AString StateCanceled, AString []] w = (Inr x, w')"
  shows "\<exists>r \<in> set (rows (db w')). byID q pid r \<and> observed_state r = StateCanceled
    \<and> r \<notin> set (listRows (recentlyCanceled t) (rows (db w')))"
proof -
  have args: "parseTerminalArgs [AString q, AInt pid, AString StateCanceled, AString []] = Inr (q, pid, StateCanceled, [], [], 0)"
    by (simp add: parseTerminalArgs_def splitQueue_def ok_or_def)
  have names: "StateCanceled \<noteq> []" "StateCanceled \<noteq> StateTerminal" by code_simp+
  from assms obtain at n w1 w2 where e: "exec drv (sql_update (byID q pid) (setTerminal StateCanceled [] at)) w1 = (Inr n, w2)"
    "expectRows n w2 = (Inr x, w')"
    by (auto simp: MarkTerminal_def markTerminalParsed_def args names elim!: bindE_InrE)
  from e(1) have u: "sql_update (byID q pid) (setTerminal StateCanceled [] at) (db w1) = Inr (db w2, n)"
    by (cases rule: exec_cases) auto
  from e(2) have "n \<noteq> 0" "db w' = db w2" by (auto simp: expectRows_def guardE_def split: if_splits)
  with sql_update_Inr(2) [OF u] obtain r where r: "r \<in> set (rows (db w1))" "byID q pid r"
    by (metis length_0_conv filter_False)
  let ?r = "setTerminal StateCanceled [] at r"
  have "?r \<in> set (rows (db w'))"
    using r sql_update_Inr(1) [OF u] \<open>db w' = db w2\<close> by (auto intro!: image_eqI [of _ _ r])
  moreover have "byID q pid ?r" "observed_state ?r = StateCanceled" "state ?r = StateTerminal"
    using r(2) by (simp_all add: byID_def setTerminal_def)
  moreover have "?r \<notin> set (listRows (recentlyCanceled t) (rows (db w')))"
    using \<open>state ?r = StateTerminal\<close> names
    by (auto simp: listRows_def window_def listed_def recentlyCanceled_def noFilter_def Let_def)
  ultimately show ?thesis by blast
qed

theorem canceled_not_revisited_witness:
  "\<exists>w' r. fst (MarkTerminal calm [AString ''lab'', AInt 1, AString StateCanceled, AString []] (svcStore labMapped)) = Inr ()
     \<and> w' = snd (MarkTerminal calm [AString ''lab'', AInt 1, AString StateCanceled, AString []] (svcStore labMapped))
     \<and> r \<in> set (rows (db w')) \<and> observed_state r = StateCanceled \<and> r \<notin> set (listRows (recentlyCanceled 0) (rows (db w')))"
proof -
  have in1: "labRow \<in> set (rows (jobs_of labMapped))" by (simp add: labMapped_def labState_def)
  obtain w' where w': "MarkTerminal calm [AString ''lab'', AInt 1, AString StateCanceled, AString []] (svcStore labMapped) = (Inr (), w')"
    using labMapped_ok in1
    by (simp add: MarkTerminal_def markTerminalParsed_def parseTerminalArgs_def splitQueue_def ok_or_def orNow_def
        bindE_def seqE_def timeNow_def guardE_def expectRows_def update_calm Let_def)
  from canceled_not_revisited [OF w', of 0] show ?thesis unfolding w' by auto
qed

end
