(* ===== verification/Proxy_Dispatch.thy ===== *)
theory Proxy_Dispatch
  imports Proxy_Listed Proxy_Theorems
begin

text \<open>
  The entry of the IPP service, \<^verbatim>\<open>ippHandler\<close> of \<^verbatim>\<open>internal/proxy/service.go\<close>, from a decoded request of a supported
  version on: what is checked before a request is handled, and which handler it goes to. The answer
  to Get-Printer-Attributes is an argument.
\<close>

declare ToLower.simps [simp del] FoldCase.simps [simp del]

subsection \<open>Offered operations\<close>

text \<open>The operation codes of IPP.\<close>

fun opCode :: "op \<Rightarrow> int" where
  "opCode OpPrintJob = 0x02" | "opCode OpValidateJob = 0x04" | "opCode OpCreateJob = 0x05" | "opCode OpSendDocument = 0x06"
| "opCode OpCancelJob = 0x08" | "opCode OpGetJobAttributes = 0x09" | "opCode OpGetJobs = 0x0A" | "opCode OpGetPrinterAttributes = 0x0B"
| "opCode OpCloseJob = 0x3B" | "opCode OpCancelMyJobs = 0x39" | "opCode OpIdentifyPrinter = 0x3C" | "opCode (OpOther n) = int n"

text \<open>The loop over the values: the first that is not an enum ends it, an enum is cut to 16 bits.\<close>

fun supportsIn :: "int \<Rightarrow> (tag \<times> val) list \<Rightarrow> bool" where
  "supportsIn c [] = False"
| "supportsIn c ((t, v) # vs) =
     (if t \<noteq> TagEnum then False
      else case v of Integer i \<Rightarrow> i mod 2 ^ 16 = c \<or> supportsIn c vs | _ \<Rightarrow> False)"

definition upstreamSupportsOperation :: "attribute list \<Rightarrow> op \<Rightarrow> bool" where
  "upstreamSupportsOperation attrs c =
     (case filter (\<lambda>a. EqualFold (attrName a) ''operations-supported'') attrs of
        [a] \<Rightarrow> supportsIn (opCode c) (attrValues a)
      | _ \<Rightarrow> False)"

definition proxySupportedOperations :: "attribute list \<Rightarrow> op list" where
  "proxySupportedOperations upstream =
     (let up = upstreamSupportsOperation upstream in
      [OpGetPrinterAttributes]
      @ filter up [OpPrintJob, OpValidateJob, OpCancelJob, OpGetJobAttributes, OpGetJobs]
      @ (if up OpCreateJob \<and> up OpSendDocument then [OpCreateJob, OpSendDocument] else [])
      @ (if up OpCancelJob then [OpCancelMyJobs] else [])
      @ filter up [OpCloseJob, OpIdentifyPrinter])"

definition operationAvailable :: "op list \<Rightarrow> op \<Rightarrow> bool" where
  "operationAvailable operations wanted \<longleftrightarrow> wanted \<in> set operations"

definition operationNotSupported :: "string \<Rightarrow> response" where
  "operationNotSupported msg = protocolResponse StatusErrorOperationNotSupported msg"

subsection \<open>Handling a request\<close>

text \<open>What is known about a request besides the message: its body, whether it is empty, and whether a submission slot of the queue is free.\<close>

record 'e call =
  callBody :: "'e body"
  callHasPayload :: bool
  callSlotFree :: bool

definition withPayloadSlot :: "bool \<Rightarrow> ((string + response) \<times> svc) option \<Rightarrow> svc \<Rightarrow> ((string + response) \<times> svc) option" where
  "withPayloadSlot free operation st =
     (if free then operation else Some (Inr (protocolResponse StatusErrorBusy ''too many concurrent document submissions''), st))"

definition dispatch ::
  "proxy \<Rightarrow> (string \<Rightarrow> string) \<Rightarrow> response \<Rightarrow> string \<Rightarrow> printerConfig \<Rightarrow> message \<Rightarrow> 'e call \<Rightarrow> svc \<Rightarrow> ((string + response) \<times> svc) option" where
  "dispatch px quoted description q printer req c st =
     (case msgCode req of
        OpGetPrinterAttributes \<Rightarrow> Some (Inr description, st)
      | OpValidateJob \<Rightarrow> Some (handleValidateJob px q printer req st)
      | OpPrintJob \<Rightarrow> withPayloadSlot (callSlotFree c) (handlePrintJob px quoted q printer req (callBody c) st) st
      | OpCreateJob \<Rightarrow> Some (handleCreateJob px q printer req st)
      | OpSendDocument \<Rightarrow> withPayloadSlot (callSlotFree c) (handleSendDocument px q printer req (callBody c) (callHasPayload c) st) st
      | OpGetJobAttributes \<Rightarrow> Some (handleMappedJobOperation px q printer req st)
      | OpCancelJob \<Rightarrow> Some (handleMappedJobOperation px q printer req st)
      | OpCloseJob \<Rightarrow>
          if \<not> upstreamSupportsOperation (upstreamCapabilities px q) OpCloseJob then
            Some (Inr (operationNotSupported ''Close-Job is not supported by the upstream printer''), st)
          else Some (handleMappedJobOperation px q printer req st)
      | OpGetJobs \<Rightarrow> Some (handleGetJobs px q printer req st)
      | OpCancelMyJobs \<Rightarrow> Some (handleCancelMyJobs px q printer req st)
      | OpIdentifyPrinter \<Rightarrow>
          if \<not> upstreamSupportsOperation (upstreamCapabilities px q) OpIdentifyPrinter then
            Some (Inr (operationNotSupported ''Identify-Printer is not supported by the upstream printer''), st)
          else Some (forwardPrinterOperation px printer req st)
      | OpOther _ \<Rightarrow> Some (Inr (protocolResponse StatusErrorOperationNotSupported ''unsupported operation''), st))"

text \<open>The checks of the document format that precede staging.\<close>

definition formatRefusal :: "proxy \<Rightarrow> (string \<Rightarrow> string) \<Rightarrow> string \<Rightarrow> message \<Rightarrow> bool \<Rightarrow> ProtocolError option" where
  "formatRefusal px quoted q req hasPayload =
     (if msgCode req = OpPrintJob \<or> (msgCode req = OpSendDocument \<and> hasPayload) then
        (case (if msgCode req = OpPrintJob then validateExplicitDocumentFormat (msgOperation req) else None) of
           Some pe \<Rightarrow> Some pe
         | None \<Rightarrow>
             if (msgCode req = OpPrintJob \<or> FirstString (sprintOf px) (msgOperation req) ''document-format'' \<noteq> None)
               \<and> TrimSpace (operationString px req ''document-format'') = [] then
               Some (unsupportedError StatusErrorDocumentFormatNotSupported ''document-format is not admitted for a payload-bearing operation''
                 (attrsNamed (msgOperation req) [''document-format'']))
             else if msgCode req = OpPrintJob then validatePayloadDocumentFormat px quoted q req
             else None)
      else None)"

definition protocolErrorResponse :: "ProtocolError \<Rightarrow> response" where
  "protocolErrorResponse pe = (protocolResponse (peStatus pe) (peMessage pe))\<lparr>respUnsupported := peUnsupported pe\<rparr>"

definition ippHandler ::
  "proxy \<Rightarrow> (tag \<Rightarrow> string) \<Rightarrow> (string \<Rightarrow> string) \<Rightarrow> (string \<Rightarrow> string option) \<Rightarrow> response \<Rightarrow> string \<Rightarrow> message \<Rightarrow> 'e call \<Rightarrow> svc
    \<Rightarrow> (response \<times> svc) option" where
  "ippHandler px tagName quoted authority description q req c st =
     (case proxyPrinters px q of
        None \<Rightarrow> Some (protocolResponse StatusErrorNotFound ''unknown printer'', st)
      | Some printer \<Rightarrow>
          (case ValidateProtocolRequest (sprintOf px) tagName authority (Some req) (proxyPrinterURI px q) (callHasPayload c) of
             Some pe \<Rightarrow> Some (protocolErrorResponse pe, st)
           | None \<Rightarrow>
               if capabilities px q = None then
                 Some (protocolResponse StatusErrorPrinterIsDeactivated ''printer capabilities are not available'', st)
               else if \<not> operationAvailable (proxySupportedOperations (upstreamCapabilities px q)) (msgCode req) then
                 Some (operationNotSupported ''operation is not supported by this queue'', st)
               else case formatRefusal px quoted q req (callHasPayload c) of
                 Some pe \<Rightarrow> Some (protocolErrorResponse pe, st)
               | None \<Rightarrow>
                   (case dispatch px quoted description q printer req c st of
                      None \<Rightarrow> None
                    | Some (Inr r, st') \<Rightarrow> Some (r, st')
                    | Some (Inl e, st') \<Rightarrow> Some (protocolResponse StatusErrorServiceUnavailable e, st'))))"

subsection \<open>Promises\<close>

text \<open>The operations of the printer that an operation of the proxy rests on.\<close>

definition backed :: "(op \<Rightarrow> bool) \<Rightarrow> op \<Rightarrow> bool" where
  "backed up c \<longleftrightarrow>
     (if c = OpCreateJob \<or> c = OpSendDocument then up OpCreateJob \<and> up OpSendDocument
      else if c = OpCancelMyJobs then up OpCancelJob else up c)"

lemma offered_backed:
  "c \<in> set (proxySupportedOperations upstream) \<Longrightarrow> c \<noteq> OpGetPrinterAttributes \<Longrightarrow> backed (upstreamSupportsOperation upstream) c"
  by (auto simp: proxySupportedOperations_def backed_def Let_def split: if_splits)

lemma dispatch_steps:
  assumes "dispatch px quoted description q printer req c st = Some (res, st')"
  shows "st' = st \<or> msgCode req \<noteq> OpGetPrinterAttributes \<and> service_step px (bodyHost (callBody c)) st st'"
proof (cases "msgCode req")
  case OpPrintJob
  then show ?thesis
    using assms service_step.print [of px quoted q printer req "callBody c" st res st'] by (auto simp: dispatch_def withPayloadSlot_def split: if_splits)
next
  case OpSendDocument
  then show ?thesis
    using assms service_step.send [of px q printer req "callBody c" "callHasPayload c" st res st']
    by (auto simp: dispatch_def withPayloadSlot_def split: if_splits)
qed (use assms in \<open>auto simp: dispatch_def intro: service_step.intros split: if_splits\<close>)

lemma dispatch_returns: "dispatch px quoted description q printer req c st \<noteq> None"
  by (auto simp: dispatch_def withPayloadSlot_def handlers_return simp del: not_None_eq split: op.split)

text \<open>
  C6: a request changes the registry or reaches a printer only after it has passed the validation, only for a configured
  queue whose printer has been probed, and only when the printer itself supports what the operation rests on:
  Create-Job and Send-Document need both of them, Cancel-My-Jobs needs Cancel-Job. What it then does is one step of the service.
\<close>

theorem requests_gated:
  assumes "ippHandler px tagName quoted authority description q req c st = Some (r, st')"
  shows "st' = st \<or> (proxyPrinters px q \<noteq> None \<and> capabilities px q \<noteq> None
    \<and> ValidateProtocolRequest (sprintOf px) tagName authority (Some req) (proxyPrinterURI px q) (callHasPayload c) = None
    \<and> backed (upstreamSupportsOperation (upstreamCapabilities px q)) (msgCode req)
    \<and> service_step px (bodyHost (callBody c)) st st')"
  using assms
  by (auto simp: ippHandler_def operationAvailable_def split: option.splits if_splits prod.splits sum.splits
      dest!: dispatch_steps intro: offered_backed)

lemma lab_request:
  "ValidateProtocolRequest (sprintOf labProxy) tagName Some (Some labCancel) (proxyPrinterURI labProxy ''lab'') False = None"
  by code_simp

definition labCall :: "staging call" where
  "labCall = \<lparr>callBody = \<lparr>bodyHost = mem_host 2, bodyEnv = \<lparr>s_in = [], s_file = [], s_pos = 0\<rparr>, bodyTemp = None, bodyObserved = False,
     bodyRecorder = None, bodyFinish = (\<lambda>_ n. \<lparr>mdBytes = 0, mdPageCount = None, mdCopies = n, mdImpressions = None\<rparr>)\<rparr>,
     callHasPayload = False, callSlotFree = True\<rparr>"

theorem requests_gated_witness:
  "\<exists>r st'. ippHandler labProxy (\<lambda>_. []) (\<lambda>s. s) Some labAnswer ''lab'' labCancel labCall labMapped = Some (r, st')
     \<and> sent st' \<noteq> sent labMapped \<and> service_step labProxy (mem_host 2) labMapped st'"
proof -
  obtain res st' where h: "handleMappedJobOperation labProxy ''lab'' labPrinter labCancel labMapped = (res, st')" "sent st' \<noteq> sent labMapped"
    using lab_cancel by blast
  have "capabilities labProxy ''lab'' \<noteq> None" "proxyPrinters labProxy ''lab'' = Some labPrinter" by (simp_all add: labProxy_def)
  moreover have "operationAvailable (proxySupportedOperations (upstreamCapabilities labProxy ''lab'')) OpCancelJob" by code_simp
  moreover have "dispatch labProxy (\<lambda>s. s) labAnswer ''lab'' labPrinter labCancel labCall labMapped = Some (res, st')"
    by (simp add: dispatch_def lab_job h(1))
  moreover have "formatRefusal labProxy (\<lambda>s. s) ''lab'' labCancel False = None" by (simp add: formatRefusal_def lab_job)
  ultimately obtain r where r: "ippHandler labProxy (\<lambda>_. []) (\<lambda>s. s) Some labAnswer ''lab'' labCancel labCall labMapped = Some (r, st')"
    using lab_request by (cases res) (auto simp: ippHandler_def labCall_def lab_job)
  from requests_gated [OF r] h(2) r show ?thesis by (auto simp: labCall_def)
qed


end
