(* ===== verification/Spec2Isabelle.thy ===== *)
theory Spec2Isabelle
  imports Urf_Theorems Store_Queries Dnssd_Theorems Dnssd_Sync Proxy_Compose Proxy_Uri Proxy_Formats Proxy_Emulation Proxy_Dispatch
begin

text \<open>
  \<^bold>\<open>golieipp\<close> is an IPP proxy: clients print to its queues, it keeps a durable record of every
  job, forwards the documents to an upstream printer, translates Apple Raster (URF) documents to
  PWG Raster where the printer does not understand them, and announces its queues by DNS-SD. This
  development models the translator, the job registry, the announcements, the validation of requests,
  the policy on job attributes, the routing of documents and the handling of job operations, and proves
  what makes them correct.

  \<^bold>\<open>The parts and how they interact.\<close> The service (\<^verbatim>\<open>src/internal/proxy\<close>) receives IPP requests. It
  reserves a job in the registry (\<^verbatim>\<open>src/internal/store\<close>) before it contacts the printer, records the
  upstream identity of the job and the documents sent, and reconciles jobs whose fate is
  uncertain. A document that has to be translated goes through \<^verbatim>\<open>urf.Translate\<close>
  (\<^verbatim>\<open>src/internal/urf\<close>) into a private staging file. The registrations of a queue are computed by
  \<^verbatim>\<open>src/internal/dnssd/records.go\<close> and published through Avahi by \<^verbatim>\<open>publisher_avahi.go\<close>.

  \<^bold>\<open>Theories.\<close>

  \<^item> \<open>Prelude\<close>: computations with state and errors, invariants kept on every exit, pre- and
    postconditions, byte slices. \<open>Go_Strings\<close> and \<open>Go_Time\<close>: the functions of Go's packages
    \<^verbatim>\<open>strings\<close> and \<^verbatim>\<open>time\<close> that the program uses, on byte strings and on nanoseconds since year 1;
    the RFC 3339 texts are parsed and printed digit by digit. \<open>Go_Text\<close>: case folding and trimming.
  \<^item> \<open>Urf_Types\<close> (\<^verbatim>\<open>api.go\<close>, \<^verbatim>\<open>limits.go\<close>, \<^verbatim>\<open>errors.go\<close>, validation in \<^verbatim>\<open>translate.go\<close>) and \<open>Urf_Translate\<close>
    (\<^verbatim>\<open>translate.go\<close>): the translator, function by function, on machine words. The record \<open>host\<close>
    stands for the reader, the destination, the context and the growth of slices; the record
    \<open>translator\<close> is the struct of the same name.
  \<^item> \<open>Urf_Safety\<close>: the locales \<open>translator_invariant\<close>, \<open>staging_invariant\<close> and \<open>document_invariant\<close>
    say what an invariant of the translator must satisfy locally and carry it through every
    function; they are interpreted for the configuration, the limits, the byte accounts and the
    leases. \<open>Urf_Spec\<close>: which page headers are accepted, how much input one page takes and which
    PWG file a list of pages stands for, without readers or state. \<open>Urf_Correct\<close>: the locale
    \<open>staging_host\<close> states the documented contracts of \<^verbatim>\<open>io.Reader\<close>, \<^verbatim>\<open>io.Writer\<close> and \<^verbatim>\<open>io.Seeker\<close>; in
    it the translator refines the specification, and an in-memory host that delivers a few bytes
    at a time interprets it. \<open>Urf_Theorems\<close>: the properties.
  \<^item> \<open>Store_Types\<close> (data, arguments and columns of \<^verbatim>\<open>store.go\<close>), \<open>Store_Db\<close> (the table, its unique
    index, statements, transactions) and \<open>Store_Ops\<close> (every method). The record \<open>driver\<close> stands for
    \<^verbatim>\<open>database/sql\<close> with SQLite, the clock and the identifiers of \<^verbatim>\<open>uuid\<close>: any call may fail, a failed
    statement has no effect, and a transaction that is not committed is rolled back.
    \<open>Store_Inv\<close>: the invariant of the table and the permitted evolution of rows, for every method,
    and that a failed method has no effect. \<open>Store_History\<close>: the locale \<open>evolving\<close> derives what holds
    for whole histories of anything that moves the table by permitted steps; \<open>registry\<close>, the contract of
    a server of requests, is a sublocale of it and interpreted by the model. \<open>Store_Calm\<close>: what the
    methods do to a row when no call fails. \<open>Store_Theorems\<close> and \<open>Store_Queries\<close>: the properties.
  \<^item> \<open>Dnssd_Records\<close> (\<^verbatim>\<open>records.go\<close>) and \<open>Dnssd_Theorems\<close>: validation and size admission of TXT data,
    registrations per client profile, names after collisions.
  \<^item> \<open>Dnssd_Publisher\<close> (\<^verbatim>\<open>publisher.go\<close>, \<^verbatim>\<open>publisher_stub.go\<close>): the publisher interface as the locales
    \<open>reporting\<close> and \<open>transactional\<close>, and the stub, which interprets both. \<open>Dnssd_Avahi\<close>
    (\<^verbatim>\<open>publisher_avahi.go\<close>): the Avahi publisher with every call it makes; the daemon, the bus and
    the kernel's interface table are the parameter \<open>env\<close>. \<open>Dnssd_Sync\<close>: it interprets \<open>reporting\<close>;
    under the laws of the daemon (\<open>daemon\<close>) it stays in step with the daemon and leaks no group.

  \<^item> \<open>Ipp_Attrs\<close> (\<^verbatim>\<open>internal/ipp/attrs.go\<close>): messages and the helpers for attribute lists, with the locale
    \<open>attribute_store\<close> for what lookups see of an update. \<open>Go_Url\<close> and \<open>Go_Float\<close>: the functions of
    \<^verbatim>\<open>net/url\<close> and the \<^verbatim>\<open>float64\<close> arithmetic that the proxy uses.
  \<^item> \<open>Proxy_Protocol\<close> (\<^verbatim>\<open>internal/proxy/protocol.go\<close>): validation of requests, limited readers, selection of
    requested attributes. \<open>Proxy_Theorems\<close>: which requests are accepted, without the order of the
    checks. \<open>Proxy_Uri\<close>: job URIs are read back.
  \<^item> \<open>Proxy_Media\<close> (\<^verbatim>\<open>capabilities.go\<close>): media sizes, PWG names, the catalog of a queue, media
    collections, ready media and the check of a policy against a printer. \<open>Proxy_Normalize\<close>
    (\<^verbatim>\<open>normalizer.go\<close>): the policy on job attributes. \<open>Proxy_Policy\<close>: what passes the policy and on
    which medium a job is printed. \<open>Proxy_Compose\<close>: validation and policy together.
  \<^item> \<open>Proxy_Raster\<close> (raster formats in \<^verbatim>\<open>capabilities.go\<close>), \<open>Proxy_Routing\<close> (\<^verbatim>\<open>routing.go\<close>) and \<open>Proxy_Airprint\<close>
    (\<^verbatim>\<open>airprint.go\<close>): which documents a queue takes and how each of them reaches the printer.
    \<open>Proxy_Snapshot\<close> and \<open>Proxy_Formats\<close>: the routes of a queue and what it announces. \<open>Proxy_Emulation\<close>: routing,
    translator and registry together.
  \<^item> \<open>Proxy_Jobs\<close>, \<open>Proxy_Service\<close>, \<open>Proxy_Listing\<close> and the first half of \<open>Proxy_Dispatch\<close> (\<^verbatim>\<open>service.go\<close>): the
    rewriting of requests and answers, the handlers of single jobs, Get-Jobs, Cancel-My-Jobs and the
    reconciliation, and \<^verbatim>\<open>ippHandler\<close> from a decoded request on. The record \<open>proxy\<close> holds the configuration,
    the probed capabilities and the parameters (printer, database, clock, texts of errors), \<open>svc\<close> the
    registry and the requests sent so far. \<open>Proxy_Lifecycle\<close>: every handler moves the table by permitted
    steps; the step relation \<open>service_step\<close> interprets \<open>evolving\<close>. \<open>Proxy_Accounts\<close>: the state of a job after its
    submission. \<open>Proxy_Contract\<close>, \<open>Proxy_Promises\<close>, \<open>Proxy_Listed\<close> and the rest of \<open>Proxy_Dispatch\<close>: the properties.

  \<^bold>\<open>What is shown.\<close> Translation: refinement of the specification on conforming hosts; for every host
  whatsoever termination, resource bounds and lease discipline; acceptance of page headers and the
  layout of emitted headers. Registry: the table invariant over all histories, terminal states are
  absorbing, identities are stable and never reused, errors have no effect, a request touches only
  its own row; stored jobs and times are read back; mappings, listing, paging, summaries, document
  accounting, candidates, retry delays and cleanup behave as stated. DNS-SD: admitted TXT data
  fits, admission gives up only when nothing optional is left, registrations determine the
  published profiles. Publishers: the statuses returned are true of what is kept, what is kept is
  what the daemon shows, and a close leaves nothing behind; a failed update of the Avahi publisher
  can lose the publication, and an update never changes the endpoint of a publication.

  Proxy: the validation accepts exactly the requests described; only the policy and allowlisted
  attributes reach the printer, the medium is one of the policy's, and a valid request is valid
  again after normalization; what is reported as substituted, and what is not. Routing: the routes of a
  queue, the formats and tokens it announces, routes pinned in the registry, and that printing through
  an emulated route stages the specified PWG file; on queues that send media collections the page is
  translated for the default medium, and a queue without routes announces formats it refuses. Service:
  requests are gated by validation and by what the printer supports, every request is answered, the
  registry stays sound under all requests and maintenance, a submission is always accounted for, the
  printer is asked about its own jobs only and clients see the proxy's jobs only, within their
  limits; canceled jobs are not revisited although the code means to.

  \<^bold>\<open>Loops and bounds.\<close> No fuel is used, except that the poll of a new entry group ends
  after the 80 ticks of 25 ms that fit into its deadline of 2 s. The page loop of the translator is a
  \<^theory_text>\<open>partial_function (option)\<close>, and it is proved to return for every host; all other loops are
  total functions with a termination proof. Requests are handled one after the other. Identifiers and counters of the registry are
  mathematical integers where Go has 64-bit \<^verbatim>\<open>int\<close>; conversions that can lose bits (unsigned
  arguments, 32-bit columns) are written out. Times are integers of nanoseconds; texts outside the
  years 0 to 9999 are printed as Go prints them, and the round trips state their range.

  \<^bold>\<open>Not modelled.\<close> SQLite and the libraries are parameters; of \<^verbatim>\<open>net/url\<close> the syntax of authorities, and of
  \<^verbatim>\<open>goipp\<close> the printing of values. The migration of old schemas (\<^verbatim>\<open>migrate\<close>, \<^verbatim>\<open>rebuildJobsTable\<close>) and the
  floating-point encoding of locations (\<^verbatim>\<open>EncodeLOC\<close>) are open, as are the synthesis of the whole attribute set
  of a queue (Get-Printer-Attributes), capability profiles, configuration and statistics. Left
  out as input and output around the modelled logic: the HTTP server and client, the decoding and staging of bodies,
  the recorder that counts a body passed through, the loops that probe printers and retry announcements,
  diagnostics, logging and the command line. Upper and lower case are exact for comparisons with
  ASCII texts; two non-ASCII TXT keys may be sorted differently.
\<close>

end
